(* ===== verification/Prelude.thy ===== *)
theory Prelude
  imports Main "HOL-Library.Char_ord" "HOL-Library.List_Lexorder" "HOL-Library.Sublist"
begin

text \<open>
  The shared vocabulary of the development: results of fallible code, the collections of
  rewrite rules the component proofs draw on, and generic facts on lists and options that
  more than one component needs.

  A JavaScript \<^verbatim>\<open>throw new Error(m)\<close> is the value \<open>Inl m\<close> of \<open>'a outcome\<close>; a
  value that may be \<^verbatim>\<open>undefined\<close> or \<^verbatim>\<open>null\<close> is an \<open>option\<close>.
\<close>

named_theorems text_simps \<open>facts about string routines\<close>
named_theorems guard_simps \<open>facts that unfold an early-return guard\<close>

type_synonym 'a outcome = "string + 'a"

text \<open>Both the success value of an outcome and whether it is one.\<close>

definition returned :: "'a outcome \<Rightarrow> 'a option" where
  "returned r = (case r of Inl e \<Rightarrow> None | Inr v \<Rightarrow> Some v)"

definition threw :: "'a outcome \<Rightarrow> bool" where
  "threw r = (case r of Inl e \<Rightarrow> True | Inr v \<Rightarrow> False)"

lemma returned_simps [simp]: "returned (Inl e) = None" "returned (Inr v) = Some v"
  by (simp_all add: returned_def)

lemma threw_simps [simp]: "threw (Inl e) = True" "threw (Inr v) = False"
  by (simp_all add: threw_def)

lemma returned_eq_Some [simp]: "returned r = Some v \<longleftrightarrow> r = Inr v"
  by (cases r) auto

lemma returned_eq_None [simp]: "returned r = None \<longleftrightarrow> threw r"
  by (cases r) auto

text \<open>Sequencing of fallible steps: the first error ends the function.\<close>

definition andthen :: "'a outcome \<Rightarrow> ('a \<Rightarrow> 'b outcome) \<Rightarrow> 'b outcome" where
  "andthen r f = (case r of Inl e \<Rightarrow> Inl e | Inr v \<Rightarrow> f v)"

lemma andthen_simps [simp]: "andthen (Inl e) f = Inl e" "andthen (Inr v) f = f v"
  by (simp_all add: andthen_def)

lemma andthen_eq_Inr: "andthen r f = Inr w \<longleftrightarrow> (\<exists>v. r = Inr v \<and> f v = Inr w)"
  by (cases r) auto

text \<open>A fallible function over a list, left to right.\<close>

fun traverse :: "('a \<Rightarrow> 'b outcome) \<Rightarrow> 'a list \<Rightarrow> 'b list outcome" where
  "traverse f [] = Inr []"
| "traverse f (x # xs) = andthen (f x) (\<lambda>y. andthen (traverse f xs) (\<lambda>ys. Inr (y # ys)))"

lemma traverse_eq_Inr: "traverse f xs = Inr ys \<longleftrightarrow> list_all2 (\<lambda>x y. f x = Inr y) xs ys"
  by (induction xs arbitrary: ys) (auto simp: andthen_eq_Inr list_all2_Cons1)

lemma traverse_id: "(\<And>x. x \<in> set xs \<Longrightarrow> f x = Inr x) \<Longrightarrow> traverse f xs = Inr xs"
  by (induction xs) auto

lemma list_all2_source: "list_all2 P xs ys \<Longrightarrow> y \<in> set ys \<Longrightarrow> \<exists>x\<in>set xs. P x y"
  by (induction rule: list_all2_induct) auto

text \<open>\<^verbatim>\<open>new Set(xs)\<close>: the distinct elements in the order of first occurrence.\<close>

fun first_distinct :: "'a list \<Rightarrow> 'a list" where
  "first_distinct [] = []"
| "first_distinct (x # xs) = x # filter (\<lambda>y. y \<noteq> x) (first_distinct xs)"

lemma set_first_distinct [simp]: "set (first_distinct xs) = set xs"
  by (induction xs) auto

lemma distinct_first_distinct [simp]: "distinct (first_distinct xs)"
  by (induction xs) auto

text \<open>Lists.\<close>

lemma list_all_take [intro]: "list_all P xs \<Longrightarrow> list_all P (take n xs)"
  by (auto simp: list_all_iff dest: in_set_takeD)

lemma list_all_drop [intro]: "list_all P xs \<Longrightarrow> list_all P (drop n xs)"
  by (auto simp: list_all_iff dest: in_set_dropD)

lemma list_all_dropWhile [intro]: "list_all P xs \<Longrightarrow> list_all P (dropWhile Q xs)"
  by (auto simp: list_all_iff dest: set_dropWhileD)

lemma list_all_replicate [simp]: "list_all P (replicate n x) \<longleftrightarrow> n = 0 \<or> P x"
  by (induction n) auto

lemma dropWhile_replicate_app: "dropWhile (\<lambda>c. c = x) xs = ys \<Longrightarrow> xs = replicate (length xs - length ys) x @ ys"
proof (induction xs arbitrary: ys)
  case (Cons a xs)
  show ?case
  proof (cases "a = x")
    case True
    with Cons have "xs = replicate (length xs - length ys) x @ ys" by simp
    moreover have "length ys \<le> length xs"
      using True Cons.prems by (auto simp: length_dropWhile_le)
    ultimately show ?thesis using True by (simp add: Suc_diff_le)
  qed (use Cons in auto)
qed simp

end
