(* ===== verification/JsText.thy ===== *)
theory JsText
  imports Prelude
begin

text \<open>
  JavaScript strings, as the TypeScript sources use them.

  A string is a \<open>char list\<close>: a sequence of UTF-16 code units below 256. Every identifier,
  amount, header and stored record that the code accepts is ASCII, so its acceptance tests
  are exact here; code units of 256 and above are outside the model. \<open>length\<close> is
  \<^verbatim>\<open>.length\<close> and, in this range, also the number of code points \<^verbatim>\<open>[...s].length\<close>.
  The comparison \<open><\<close> on strings is the lexicographic order of code units (Char_ord and
  List_Lexorder), which is JavaScript's.
\<close>

section \<open>Characters\<close>

abbreviation code :: "char \<Rightarrow> nat" where
  "code c \<equiv> of_char c"

definition between :: "nat \<Rightarrow> nat \<Rightarrow> char \<Rightarrow> bool" where
  "between lo hi c = (lo \<le> code c \<and> code c \<le> hi)"

definition is_digit :: "char \<Rightarrow> bool" where
  "is_digit = between 48 57"

definition is_upper :: "char \<Rightarrow> bool" where
  "is_upper = between 65 90"

definition is_lower :: "char \<Rightarrow> bool" where
  "is_lower = between 97 122"

definition is_hex_lower :: "char \<Rightarrow> bool" where
  "is_hex_lower c = (is_digit c \<or> between 97 102 c)"

text \<open>\<^verbatim>\<open>[0-9a-f]\<close> under the \<^verbatim>\<open>i\<close> flag.\<close>

definition is_hex :: "char \<Rightarrow> bool" where
  "is_hex c = (is_hex_lower c \<or> between 65 70 c)"

definition is_alnum :: "char \<Rightarrow> bool" where
  "is_alnum c = (is_digit c \<or> is_upper c \<or> is_lower c)"

definition one_of :: "string \<Rightarrow> char \<Rightarrow> bool" where
  "one_of cs c = List.member cs c"

text \<open>White space of \<^verbatim>\<open>String.prototype.trim\<close> and of \<^verbatim>\<open>\s\<close>: TAB, LF, VT, FF, CR, space
  and the no-break space.\<close>

definition is_space :: "char \<Rightarrow> bool" where
  "is_space c = (between 9 13 c \<or> code c = 32 \<or> code c = 160)"

definition is_control :: "char \<Rightarrow> bool" where
  "is_control c = (code c \<le> 31 \<or> between 127 159 c)"

lemmas char_class_defs = between_def is_digit_def is_upper_def is_lower_def is_hex_lower_def
  is_hex_def is_alnum_def is_space_def is_control_def one_of_def

lemma digit_not_space: "is_digit c \<Longrightarrow> \<not> is_space c"
  by (auto simp: char_class_defs)

lemma is_digit_0 [simp]: "is_digit CHR ''0''"
  by (simp add: char_class_defs)

lemma code_inj: "code c = code d \<Longrightarrow> c = d"
  by (simp add: of_char_eq_iff)

lemma code_less: "code c < 256"
  by simp

section \<open>Trimming and case mapping\<close>

definition trim :: "string \<Rightarrow> string" where
  "trim s = rev (dropWhile is_space (rev (dropWhile is_space s)))"

definition shift_char :: "nat \<Rightarrow> nat \<Rightarrow> char \<Rightarrow> char" where
  "shift_char up down c = char_of (code c + up - down)"

definition lower_char :: "char \<Rightarrow> char" where
  "lower_char c = (if is_upper c \<or> between 192 214 c \<or> between 216 222 c then shift_char 32 0 c else c)"

definition toLowerCase :: "string \<Rightarrow> string" where
  "toLowerCase s = map lower_char s"

text \<open>Upper case: the sharp s becomes two letters. The micro sign and the y with diaeresis have
  upper-case forms outside the model's range and stay as they are.\<close>

definition upper_chars :: "char \<Rightarrow> string" where
  "upper_chars c =
     (if is_lower c \<or> between 224 246 c \<or> between 248 254 c then [shift_char 0 32 c]
      else if code c = 223 then ''SS'' else [c])"

definition toUpperCase :: "string \<Rightarrow> string" where
  "toUpperCase s = concat (map upper_chars s)"

lemma length_toLowerCase [simp]: "length (toLowerCase s) = length s"
  by (simp add: toLowerCase_def)

lemma dropWhile_eq_Nil_iff: "dropWhile P xs = [] \<longleftrightarrow> list_all P xs"
  by (induction xs) auto

lemma trim_no_space:
  assumes "list_all (\<lambda>c. \<not> is_space c) s"
  shows "trim s = s"
proof -
  have 1: "dropWhile is_space s = s" using assms by (cases s) auto
  have 2: "dropWhile is_space (rev s) = rev s"
  proof (cases "rev s")
    case (Cons c cs)
    then have "c \<in> set s" by (metis list.set_intros(1) set_rev)
    then show ?thesis using Cons assms by (auto simp: list_all_iff)
  qed simp
  show ?thesis by (simp add: trim_def 1 2)
qed

lemma trim_ends: "trim s \<noteq> [] \<Longrightarrow> \<not> is_space (hd (trim s)) \<and> \<not> is_space (last (trim s))"
proof -
  assume ne: "trim s \<noteq> []"
  let ?d = "dropWhile is_space s"
  let ?e = "dropWhile is_space (rev ?d)"
  have e: "?e \<noteq> []" using ne by (simp add: trim_def)
  then have last: "\<not> is_space (hd ?e)" by (rule hd_dropWhile)
  obtain p where p: "rev ?d = p @ ?e" by (metis takeWhile_dropWhile_id)
  have d: "?d = rev ?e @ rev p" using p by (metis rev_append rev_rev_ident)
  have dne: "?d \<noteq> []" using d e by (metis Nil_is_append_conv rev_is_Nil_conv)
  have "hd (rev ?e) = hd ?d" using d e by (metis hd_append2 rev_is_Nil_conv)
  then have "\<not> is_space (hd (rev ?e))" using hd_dropWhile [OF dne] by simp
  with last e show ?thesis by (simp add: trim_def last_rev)
qed

lemma trim_trim [simp]: "trim (trim s) = trim s"
proof (cases "trim s")
  case (Cons c cs)
  define t where "t = trim s"
  have ends: "t \<noteq> []" "\<not> is_space (hd t)" "\<not> is_space (last t)"
    using trim_ends [of s] Cons by (auto simp: t_def)
  have 1: "dropWhile is_space t = t" using ends by (cases t) auto
  have 2: "dropWhile is_space (rev t) = rev t" using ends by (cases "rev t") (auto simp: last_rev hd_rev)
  have "trim t = t" by (simp add: trim_def 1 2)
  then show ?thesis by (simp add: t_def)
next
  case Nil
  show ?thesis unfolding Nil by (simp add: trim_def)
qed

lemma set_trim: "set (trim s) \<subseteq> set s"
  by (auto simp: trim_def dest!: set_dropWhileD)

lemma length_trim: "length (trim s) \<le> length s"
  by (metis (no_types, lifting) length_dropWhile_le length_rev order_trans trim_def)

lemma code_char_of [simp]: "n < 256 \<Longrightarrow> code (char_of n) = n"
  by simp

lemma lower_char_code: "code (lower_char c) =
   (if is_upper c \<or> between 192 214 c \<or> between 216 222 c then code c + 32 else code c)"
  by (auto simp: lower_char_def shift_char_def char_class_defs)

lemma lower_char_idem [simp]: "lower_char (lower_char c) = lower_char c"
proof -
  have "\<not> (is_upper (lower_char c) \<or> between 192 214 (lower_char c) \<or> between 216 222 (lower_char c))"
    by (auto simp: lower_char_code char_class_defs split: if_splits)
  then show ?thesis by (simp add: lower_char_def [of "lower_char c"])
qed

lemma toLowerCase_idem [simp]: "toLowerCase (toLowerCase s) = toLowerCase s"
  by (simp add: toLowerCase_def)

lemma lower_char_id: "\<not> is_upper c \<Longrightarrow> code c < 192 \<Longrightarrow> lower_char c = c"
  by (auto simp: lower_char_def char_class_defs)

lemma toLowerCase_id: "list_all (\<lambda>c. \<not> is_upper c \<and> code c < 192) s \<Longrightarrow> toLowerCase s = s"
  by (induction s) (auto simp: toLowerCase_def lower_char_id)

lemma toUpperCase_id: "list_all (\<lambda>c. \<not> is_lower c \<and> code c < 223) s \<Longrightarrow> toUpperCase s = s"
  by (induction s) (auto simp: toUpperCase_def upper_chars_def char_class_defs)

section \<open>Slices, searches and joins\<close>

definition startsWith :: "string \<Rightarrow> string \<Rightarrow> bool" where
  "startsWith s p = (take (length p) s = p)"

definition endsWith :: "string \<Rightarrow> string \<Rightarrow> bool" where
  "endsWith s p = (length p \<le> length s \<and> drop (length s - length p) s = p)"

definition slice_from_end :: "string \<Rightarrow> nat \<Rightarrow> string" where
  \<comment> \<open>\<^verbatim>\<open>s.slice(-n)\<close> for a positive n\<close>
  "slice_from_end s n = drop (length s - n) s"

definition slice_but_end :: "string \<Rightarrow> nat \<Rightarrow> string" where
  \<comment> \<open>\<^verbatim>\<open>s.slice(0, -n)\<close> for a positive n\<close>
  "slice_but_end s n = take (length s - n) s"

definition padStart :: "string \<Rightarrow> nat \<Rightarrow> char \<Rightarrow> string" where
  "padStart s n c = replicate (n - length s) c @ s"

definition padEnd :: "string \<Rightarrow> nat \<Rightarrow> char \<Rightarrow> string" where
  "padEnd s n c = s @ replicate (n - length s) c"

text \<open>\<^verbatim>\<open>s.split(sep)\<close> for a one-character separator; never empty.\<close>

fun split_on :: "char \<Rightarrow> string \<Rightarrow> string list" where
  "split_on sep [] = [ [] ]"
| "split_on sep (c # cs) =
     (if c = sep then [] # split_on sep cs
      else (case split_on sep cs of [] \<Rightarrow> [ [c] ] | w # ws \<Rightarrow> (c # w) # ws))"

fun join_with :: "string \<Rightarrow> string list \<Rightarrow> string" where
  "join_with sep [] = []"
| "join_with sep [w] = w"
| "join_with sep (w # v # ws) = w @ sep @ join_with sep (v # ws)"

lemma split_on_not_Nil [simp]: "split_on sep s \<noteq> []"
  by (cases "(sep, s)" rule: split_on.cases) (auto split: list.splits)

lemma join_split_on: "join_with [sep] (split_on sep s) = s"
proof (induction s)
  case (Cons c cs)
  then show ?case by (cases "split_on sep cs"; cases "tl (split_on sep cs)") auto
qed simp

lemma split_on_no_sep: "sep \<notin> set s \<Longrightarrow> split_on sep s = [s]"
  by (induction s) auto

lemma split_on_append:
  "sep \<notin> set u \<Longrightarrow> split_on sep (u @ sep # v) = u # split_on sep v"
  by (induction u) auto

lemma split_join: "ws \<noteq> [] \<Longrightarrow> list_all (\<lambda>w. c \<notin> set w) ws \<Longrightarrow> split_on c (join_with [c] ws) = ws"
proof (induction ws)
  case (Cons w ws)
  then show ?case by (cases ws) (auto simp: split_on_no_sep split_on_append)
qed simp

lemma split_on_parts: "w \<in> set (split_on sep s) \<Longrightarrow> sep \<notin> set w \<and> set w \<subseteq> set s"
proof (induction s arbitrary: w)
  case (Cons c cs)
  then show ?case by (cases "split_on sep cs") (fastforce split: if_splits)+
qed simp

lemma length_join_split: "(\<Sum>w\<leftarrow>split_on sep s. length w) + length (split_on sep s) = length s + 1"
proof (induction s)
  case (Cons c cs)
  then show ?case by (cases "split_on sep cs") auto
qed simp

lemma startsWith_append [simp]: "startsWith (p @ s) p"
  by (simp add: startsWith_def)

lemma startsWith_iff: "startsWith s p \<longleftrightarrow> (\<exists>t. s = p @ t)"
  by (metis append_eq_conv_conj append_take_drop_id startsWith_def)

section \<open>Decimal digits\<close>

definition digit_value :: "char \<Rightarrow> nat" where
  "digit_value c = code c - 48"

definition digit_char :: "nat \<Rightarrow> char" where
  "digit_char n = char_of (48 + n)"

definition digits_value :: "string \<Rightarrow> nat" where
  "digits_value s = foldl (\<lambda>n c. 10 * n + digit_value c) 0 s"

fun nat_string :: "nat \<Rightarrow> string" where
  "nat_string n = (if n < 10 then [digit_char n] else nat_string (n div 10) @ [digit_char (n mod 10)])"

declare nat_string.simps [simp del]

definition int_string :: "int \<Rightarrow> string" where
  "int_string i = (if i < 0 then CHR ''-'' # nat_string (nat (- i)) else nat_string (nat i))"

definition all_digits :: "string \<Rightarrow> bool" where
  "all_digits s = list_all is_digit s"

text \<open>A canonical natural: digits, no leading zero except for zero itself.\<close>

definition canonical_nat :: "string \<Rightarrow> bool" where
  "canonical_nat s = (s \<noteq> [] \<and> all_digits s \<and> (hd s = CHR ''0'' \<longrightarrow> s = ''0''))"

lemma digit_char_code [simp]: "n < 10 \<Longrightarrow> code (digit_char n) = 48 + n"
  by (simp add: digit_char_def)

lemma is_digit_digit_char [simp]: "n < 10 \<Longrightarrow> is_digit (digit_char n)"
  by (simp add: char_class_defs)

lemma digit_value_digit_char [simp]: "n < 10 \<Longrightarrow> digit_value (digit_char n) = n"
  by (simp add: digit_value_def)

lemma digit_char_digit_value: "is_digit c \<Longrightarrow> digit_char (digit_value c) = c"
  by (auto simp: char_class_defs digit_value_def digit_char_def)

lemma digit_value_less: "is_digit c \<Longrightarrow> digit_value c < 10"
  by (auto simp: char_class_defs digit_value_def)

lemma digit_value_0_iff: "is_digit c \<Longrightarrow> digit_value c = 0 \<longleftrightarrow> c = CHR ''0''"
  using code_inj [of c "CHR ''0''"] by (auto simp: char_class_defs digit_value_def)

lemma foldl_digits: "foldl (\<lambda>n c. 10 * n + digit_value c) k s = k * 10 ^ length s + digits_value s"
proof (induction s arbitrary: k)
  case (Cons c cs)
  show ?case
    using Cons [of "10 * k + digit_value c"] Cons [of "digit_value c"]
    by (simp add: digits_value_def algebra_simps)
qed (simp add: digits_value_def)

lemma digits_value_Nil [simp]: "digits_value [] = 0"
  by (simp add: digits_value_def)

lemma digits_value_Cons: "digits_value (c # cs) = digit_value c * 10 ^ length cs + digits_value cs"
  using foldl_digits [of "digit_value c" cs] by (simp add: digits_value_def)

lemma digits_value_append: "digits_value (s @ t) = digits_value s * 10 ^ length t + digits_value t"
proof -
  have "digits_value (s @ t) = foldl (\<lambda>n c. 10 * n + digit_value c) (digits_value s) t"
    by (simp add: digits_value_def)
  then show ?thesis by (simp only: foldl_digits)
qed

lemma digits_value_replicate_0 [simp]: "digits_value (replicate n CHR ''0'') = 0"
  by (induction n) (simp_all add: digits_value_Cons digit_value_def)

lemma digits_value_less: "all_digits s \<Longrightarrow> digits_value s < 10 ^ length s"
proof (induction s)
  case (Cons c cs)
  then have "digit_value c \<le> 9" "digits_value cs < 10 ^ length cs"
    using digit_value_less [of c] by (auto simp: all_digits_def)
  then have "digit_value c * 10 ^ length cs + digits_value cs < 9 * 10 ^ length cs + 10 ^ length cs"
    by (intro add_le_less_mono mult_le_mono1) auto
  then show ?case by (simp add: digits_value_Cons)
qed simp

lemma all_digits_nat_string: "all_digits (nat_string n)"
proof (induction n rule: nat_string.induct)
  case (1 n)
  then show ?case by (subst nat_string.simps) (auto simp: all_digits_def)
qed

lemma nat_string_not_Nil [simp]: "nat_string n \<noteq> []"
  by (subst nat_string.simps) auto

lemma digits_value_nat_string [simp]: "digits_value (nat_string n) = n"
proof (induction n rule: nat_string.induct)
  case (1 n)
  then show ?case
    by (subst nat_string.simps) (auto simp: digits_value_append digits_value_Cons)
qed

lemma hd_nat_string: "0 < n \<Longrightarrow> hd (nat_string n) \<noteq> CHR ''0''"
proof (induction n rule: nat_string.induct)
  case (1 n)
  show ?case
  proof (cases "n < 10")
    case True
    have "code (digit_char n) \<noteq> code (CHR ''0'')"
      using True 1 by (simp del: of_char_eq_iff)
    then have "digit_char n \<noteq> CHR ''0''" by metis
    then show ?thesis using True by (subst nat_string.simps) auto
  next
    case False
    then show ?thesis using 1 by (subst nat_string.simps) (auto simp: hd_append)
  qed
qed

lemma canonical_nat_string [simp]: "canonical_nat (nat_string n)"
proof (cases "n = 0")
  case True
  then show ?thesis by (simp add: nat_string.simps canonical_nat_def all_digits_def digit_char_def char_class_defs)
next
  case False
  then show ?thesis using hd_nat_string [of n] by (simp add: canonical_nat_def all_digits_nat_string)
qed

text \<open>Two digit strings of one length with one value are equal, so a canonical natural is
  determined by its value.\<close>

lemma digits_value_inj:
  "all_digits s \<Longrightarrow> all_digits t \<Longrightarrow> length s = length t \<Longrightarrow> digits_value s = digits_value t \<Longrightarrow> s = t"
proof (induction s arbitrary: t)
  case (Cons c cs)
  then obtain d ds where t: "t = d # ds" by (cases t) auto
  have less: "digits_value cs < 10 ^ length cs" "digits_value ds < 10 ^ length cs"
    using Cons.prems t digits_value_less [of cs] digits_value_less [of ds] by (auto simp: all_digits_def)
  have eq: "digit_value c * 10 ^ length cs + digits_value cs = digit_value d * 10 ^ length cs + digits_value ds"
    using Cons.prems t by (simp add: digits_value_Cons)
  have "digit_value c = digit_value d"
    using arg_cong [OF eq, of "\<lambda>x. x div 10 ^ length cs"] less by simp
  moreover from this eq have "digits_value cs = digits_value ds" by simp
  ultimately show ?case
    using Cons t digit_char_digit_value by (metis all_digits_def length_Cons list.pred_inject(2) nat.inject)
qed simp

lemma digits_value_ge: "all_digits (c # cs) \<Longrightarrow> c \<noteq> CHR ''0'' \<Longrightarrow> 10 ^ length cs \<le> digits_value (c # cs)"
  using digit_value_0_iff [of c] by (cases "digit_value c") (auto simp: digits_value_Cons all_digits_def)

lemma canonical_nat_length_le:
  assumes "canonical_nat s" "canonical_nat t" "digits_value s \<le> digits_value t"
  shows "length s \<le> length t"
proof (rule ccontr)
  assume long: "\<not> length s \<le> length t"
  obtain c cs where s: "s = c # cs" using assms(1) by (cases s) (auto simp: canonical_nat_def)
  have "cs \<noteq> []" using long s assms(2) by (cases t) (auto simp: canonical_nat_def)
  then have "10 ^ length cs \<le> digits_value s"
    using assms(1) s by (auto simp: canonical_nat_def intro: digits_value_ge)
  moreover have "digits_value t < 10 ^ length t"
    using assms(2) by (auto simp: canonical_nat_def intro: digits_value_less)
  moreover have "(10::nat) ^ length t \<le> 10 ^ length cs" using long s by simp
  ultimately show False using assms(3) by linarith
qed

lemma canonical_nat_unique:
  assumes "canonical_nat s" "canonical_nat t" "digits_value s = digits_value t"
  shows "s = t"
  using assms canonical_nat_length_le [of s t] canonical_nat_length_le [of t s]
  by (intro digits_value_inj) (auto simp: canonical_nat_def)

lemma nat_string_digits_value: "canonical_nat s \<Longrightarrow> nat_string (digits_value s) = s"
  by (rule canonical_nat_unique) auto

text \<open>Numbers printed at a fixed width.\<close>

lemma nat_string_length:
  assumes "n < 10 ^ k" "0 < k"
  shows "length (nat_string n) \<le> k"
proof (rule ccontr)
  assume long: "\<not> length (nat_string n) \<le> k"
  obtain c cs where s: "nat_string n = c # cs" by (cases "nat_string n") auto
  have "cs \<noteq> []" using long s assms by auto
  then have "10 ^ length cs \<le> n"
    using canonical_nat_string [of n] digits_value_ge [of c cs] digits_value_nat_string [of n] s
    by (auto simp: canonical_nat_def)
  moreover have "(10::nat) ^ k \<le> 10 ^ length cs" using long s by simp
  ultimately show False using assms(1) by linarith
qed

lemma fixed_width:
  assumes "n < 10 ^ k" "0 < k"
  shows "length (padStart (nat_string n) k CHR ''0'') = k \<and> all_digits (padStart (nat_string n) k CHR ''0'')
    \<and> digits_value (padStart (nat_string n) k CHR ''0'') = n"
  using nat_string_length [OF assms] all_digits_nat_string [of n]
  by (auto simp: padStart_def all_digits_def digits_value_append)

lemma fixed_width_digits:
  assumes "all_digits s" "length s = k" "0 < k"
  shows "padStart (nat_string (digits_value s)) k CHR ''0'' = s"
  using fixed_width [of "digits_value s" k] digits_value_less [OF assms(1)] assms
  by (intro digits_value_inj) auto

text \<open>The order of digit strings of one length is the order of their values.\<close>

lemma digits_less_iff:
  "all_digits s \<Longrightarrow> all_digits t \<Longrightarrow> length s = length t \<Longrightarrow> s < t \<longleftrightarrow> digits_value s < digits_value t"
proof (induction s arbitrary: t)
  case (Cons c cs)
  then obtain d ds where t: "t = d # ds" by (cases t) auto
  have dig: "is_digit c" "is_digit d" "all_digits cs" "all_digits ds" "length cs = length ds"
    using Cons.prems t by (auto simp: all_digits_def)
  have less: "digits_value cs < 10 ^ length ds" "digits_value ds < 10 ^ length ds"
    using dig digits_value_less by (metis, metis)
  have ord: "c < d \<longleftrightarrow> digit_value c < digit_value d"
    using dig by (auto simp: less_char_def digit_value_def char_class_defs)
  have head: "a * k + x < b * k + y" if "a < b" "x < k" for a b k x y :: nat
  proof -
    have "Suc a * k \<le> b * k" using that by (intro mult_le_mono1) simp
    then show ?thesis using that by simp
  qed
  show ?case
  proof (cases "c = d")
    case True
    then show ?thesis using Cons.IH [of ds] dig t by (simp add: digits_value_Cons)
  next
    case False
    then have "digit_value c \<noteq> digit_value d"
      using dig digit_char_digit_value by metis
    then consider "digit_value c < digit_value d" | "digit_value d < digit_value c" by linarith
    then show ?thesis
    proof cases
      case 1
      have "digits_value (c # cs) < digits_value (d # ds)"
        using head [OF 1 less(1)] dig by (simp add: digits_value_Cons)
      then show ?thesis using t False 1 ord by simp
    next
      case 2
      have "digits_value (d # ds) < digits_value (c # cs)"
        using head [OF 2 less(2)] dig by (simp add: digits_value_Cons)
      then show ?thesis using t False 2 ord by simp
    qed
  qed
qed simp

end
