(* ===== verification/Regex.thy ===== *)
theory Regex
  imports JsText
begin

text \<open>
  The regular expressions of the sources. Every expression the code tests is anchored
  (\<^verbatim>\<open>/^...$/\<close>, no multi-line flag), so \<^verbatim>\<open>pattern.test(s)\<close> is membership of the whole
  string in a regular language. Each literal is written as a value of \<open>rx\<close> with one
  constructor per operator of the literal; \<open>rx_test\<close> is the executable test, by
  derivatives, and \<open>rx_test_iff\<close> proves it equal to the declarative language.
\<close>

datatype rx =
    RNone
  | REps
  | RSet "char \<Rightarrow> bool"
  | RSeq rx rx
  | RAlt rx rx
  | RRep rx nat nat
  | RStar rx

abbreviation RChar :: "char \<Rightarrow> rx" where
  "RChar c \<equiv> RSet (\<lambda>d. d = c)"

definition RPlus :: "rx \<Rightarrow> rx" where
  "RPlus r = RSeq r (RStar r)"

abbreviation ROpt :: "rx \<Rightarrow> rx" where
  "ROpt r \<equiv> RAlt r REps"

fun RStr :: "string \<Rightarrow> rx" where
  "RStr [] = REps"
| "RStr (c # cs) = RSeq (RChar c) (RStr cs)"

section \<open>The language\<close>

fun lang_pow :: "string set \<Rightarrow> nat \<Rightarrow> string set" where
  "lang_pow L 0 = {[]}"
| "lang_pow L (Suc k) = {u @ v | u v. u \<in> L \<and> v \<in> lang_pow L k}"

primrec lang :: "rx \<Rightarrow> string set" where
  "lang RNone = {}"
| "lang REps = {[]}"
| "lang (RSet p) = {s. \<exists>c. s = [c] \<and> p c}"
| "lang (RSeq r t) = {u @ v | u v. u \<in> lang r \<and> v \<in> lang t}"
| "lang (RAlt r t) = lang r \<union> lang t"
| "lang (RRep r m n) = (\<Union>k\<in>{m..n}. lang_pow (lang r) k)"
| "lang (RStar r) = (\<Union>k. lang_pow (lang r) k)"

section \<open>The test\<close>

fun seq' :: "rx \<Rightarrow> rx \<Rightarrow> rx" where
  "seq' RNone t = RNone"
| "seq' REps t = t"
| "seq' r t = RSeq r t"

fun alt' :: "rx \<Rightarrow> rx \<Rightarrow> rx" where
  "alt' RNone t = t"
| "alt' r RNone = r"
| "alt' r t = RAlt r t"

fun nullable :: "rx \<Rightarrow> bool" where
  "nullable RNone = False"
| "nullable REps = True"
| "nullable (RSet p) = False"
| "nullable (RSeq r t) = (nullable r \<and> nullable t)"
| "nullable (RAlt r t) = (nullable r \<or> nullable t)"
| "nullable (RRep r m n) = (m \<le> n \<and> (m = 0 \<or> nullable r))"
| "nullable (RStar r) = True"

fun deriv :: "char \<Rightarrow> rx \<Rightarrow> rx" where
  "deriv c RNone = RNone"
| "deriv c REps = RNone"
| "deriv c (RSet p) = (if p c then REps else RNone)"
| "deriv c (RSeq r t) =
     (if nullable r then alt' (seq' (deriv c r) t) (deriv c t) else seq' (deriv c r) t)"
| "deriv c (RAlt r t) = alt' (deriv c r) (deriv c t)"
| "deriv c (RRep r m n) = (if n = 0 \<or> n < m then RNone else seq' (deriv c r) (RRep r (m - 1) (n - 1)))"
| "deriv c (RStar r) = seq' (deriv c r) (RStar r)"

fun rx_test :: "rx \<Rightarrow> string \<Rightarrow> bool" where
  "rx_test r [] = nullable r"
| "rx_test r (c # cs) = rx_test (deriv c r) cs"

section \<open>The test decides the language\<close>

lemma lang_seq' [simp]: "lang (seq' r t) = lang (RSeq r t)"
  by (cases "(r, t)" rule: seq'.cases) auto

lemma lang_alt' [simp]: "lang (alt' r t) = lang (RAlt r t)"
  by (cases "(r, t)" rule: alt'.cases) auto

lemma Nil_in_lang_pow: "[] \<in> lang_pow L k \<longleftrightarrow> k = 0 \<or> [] \<in> L"
  by (induction k) auto

lemma nullable_lang: "nullable r \<longleftrightarrow> [] \<in> lang r"
  by (induction r) (auto simp: Nil_in_lang_pow intro: exI [of _ 0])

lemma lang_pow_pad: "[] \<in> L \<Longrightarrow> v \<in> lang_pow L j \<Longrightarrow> j \<le> k \<Longrightarrow> v \<in> lang_pow L k"
proof (induction k)
  case (Suc k)
  then show ?case by (cases "j = Suc k") force+
qed simp

lemma lang_pow_Cons:
  "c # w \<in> lang_pow L k \<longleftrightarrow>
   (\<exists>j u v. c # u \<in> L \<and> v \<in> lang_pow L j \<and> w = u @ v \<and> (k = Suc j \<or> j < k \<and> [] \<in> L))"
proof (induction k)
  case (Suc k)
  show ?case (is "?l \<longleftrightarrow> ?r")
  proof
    assume ?l
    then obtain u v where uv: "c # w = u @ v" "u \<in> L" "v \<in> lang_pow L k" by auto
    show ?r
    proof (cases u)
      case Nil
      then have "c # w \<in> lang_pow L k" "[] \<in> L" using uv by auto
      then show ?thesis unfolding Suc.IH by (metis less_Suc_eq)
    next
      case (Cons d u')
      then show ?thesis using uv by auto
    qed
  next
    assume ?r
    then obtain j u v where h: "c # u \<in> L" "v \<in> lang_pow L j" "w = u @ v"
      "Suc k = Suc j \<or> j < Suc k \<and> [] \<in> L" by blast
    then have "v \<in> lang_pow L k" by (metis Suc_inject lang_pow_pad less_Suc_eq_le)
    then have "c # u \<in> L \<and> v \<in> lang_pow L k \<and> c # w = (c # u) @ v" using h by simp
    then show ?l unfolding lang_pow.simps by blast
  qed
qed simp

lemma lang_rep_Cons:
  "c # w \<in> lang (RRep r m n) \<longleftrightarrow>
   0 < n \<and> m \<le> n \<and> (\<exists>u v. c # u \<in> lang r \<and> v \<in> lang (RRep r (m - 1) (n - 1)) \<and> w = u @ v)"
  (is "?l \<longleftrightarrow> ?r")
proof
  assume ?l
  then obtain k where k: "m \<le> k" "k \<le> n" "c # w \<in> lang_pow (lang r) k" by auto
  then obtain j u v where h: "c # u \<in> lang r" "v \<in> lang_pow (lang r) j" "w = u @ v"
    "k = Suc j \<or> j < k \<and> [] \<in> lang r" unfolding lang_pow_Cons by blast
  have "v \<in> lang_pow (lang r) (k - 1)"
    using h lang_pow_pad [of "lang r" v j "k - 1"] by (cases k) auto
  moreover have "m - 1 \<le> k - 1" "k - 1 \<le> n - 1" "0 < n" "m \<le> n" using k h by auto
  ultimately have "v \<in> lang (RRep r (m - 1) (n - 1))" by auto
  then show ?r using h \<open>0 < n\<close> \<open>m \<le> n\<close> by blast
next
  assume ?r
  then obtain u v k where h: "0 < n" "m \<le> n" "c # u \<in> lang r" "v \<in> lang_pow (lang r) k"
    "m - 1 \<le> k" "k \<le> n - 1" "w = u @ v" by auto
  then have "c # w \<in> lang_pow (lang r) (Suc k)" unfolding lang_pow_Cons by blast
  moreover have "Suc k \<in> {m..n}" using h by auto
  ultimately show ?l by (simp only: lang.simps UN_iff) blast
qed

lemma lang_star_Cons:
  "c # w \<in> lang (RStar r) \<longleftrightarrow> (\<exists>u v. c # u \<in> lang r \<and> v \<in> lang (RStar r) \<and> w = u @ v)"
  (is "?l \<longleftrightarrow> ?r")
proof
  assume ?r
  then obtain u v k where "c # u \<in> lang r" "v \<in> lang_pow (lang r) k" "w = u @ v" by auto
  then have "c # w \<in> lang_pow (lang r) (Suc k)" unfolding lang_pow_Cons by blast
  then show ?l by (simp only: lang.simps UN_iff) blast
qed (auto simp: lang_pow_Cons)

lemma deriv_lang: "w \<in> lang (deriv c r) \<longleftrightarrow> c # w \<in> lang r"
proof (induction r arbitrary: w)
  case (RSeq r t)
  have "c # w \<in> lang (RSeq r t) \<longleftrightarrow>
      (\<exists>u v. c # u \<in> lang r \<and> v \<in> lang t \<and> w = u @ v) \<or> [] \<in> lang r \<and> c # w \<in> lang t"
    by (auto simp: Cons_eq_append_conv)
  then show ?case using RSeq by (auto simp: nullable_lang)
next
  case (RRep r m n)
  have "w \<in> lang (deriv c (RRep r m n)) \<longleftrightarrow>
      0 < n \<and> m \<le> n \<and> (\<exists>u v. u \<in> lang (deriv c r) \<and> v \<in> lang (RRep r (m - 1) (n - 1)) \<and> w = u @ v)"
    by auto
  then show ?case unfolding lang_rep_Cons RRep by blast
next
  case (RStar r)
  then show ?case unfolding lang_star_Cons by auto
qed auto

theorem rx_test_iff: "rx_test r s \<longleftrightarrow> s \<in> lang r"
proof (induction s arbitrary: r)
  case Nil
  show ?case by (simp only: rx_test.simps nullable_lang)
next
  case (Cons c s)
  show ?case by (simp only: rx_test.simps Cons deriv_lang)
qed

declare rx_test.simps [simp del]

section \<open>Shapes that occur in the sources\<close>

lemma lang_pow_set: "s \<in> lang_pow (lang (RSet p)) k \<longleftrightarrow> length s = k \<and> list_all p s"
proof (induction k arbitrary: s)
  case (Suc k)
  define L where "L = lang (RSet p)"
  have L: "u \<in> L \<longleftrightarrow> (\<exists>c. u = [c] \<and> p c)" for u by (simp add: L_def)
  have IH: "v \<in> lang_pow L k \<longleftrightarrow> length v = k \<and> list_all p v" for v using Suc by (simp only: L_def)
  have "s \<in> lang_pow L (Suc k) \<longleftrightarrow> (\<exists>c v. s = c # v \<and> p c \<and> v \<in> lang_pow L k)"
    by (simp add: L) (metis append_Cons append_Nil)
  also have "\<dots> \<longleftrightarrow> length s = Suc k \<and> list_all p s" by (cases s) (auto simp: IH)
  finally show ?case by (simp only: L_def)
qed auto

lemma test_rep_set [simp]: "rx_test (RRep (RSet p) m n) s \<longleftrightarrow> m \<le> length s \<and> length s \<le> n \<and> list_all p s"
  unfolding rx_test_iff lang.simps(6) UN_iff lang_pow_set by auto

lemma test_star_set [simp]: "rx_test (RStar (RSet p)) s \<longleftrightarrow> list_all p s"
  unfolding rx_test_iff lang.simps(7) UN_iff lang_pow_set by auto

lemma test_none [simp]: "rx_test RNone s \<longleftrightarrow> False"
  by (simp add: rx_test_iff)

lemma test_eps [simp]: "rx_test REps s \<longleftrightarrow> s = []"
  by (auto simp: rx_test_iff)

lemma test_set [simp]: "rx_test (RSet p) s \<longleftrightarrow> (\<exists>c. s = [c] \<and> p c)"
  by (auto simp: rx_test_iff)

lemma test_alt [simp]: "rx_test (RAlt r t) s \<longleftrightarrow> rx_test r s \<or> rx_test t s"
  by (auto simp: rx_test_iff)

lemma test_seq: "rx_test (RSeq r t) s \<longleftrightarrow> (\<exists>u v. s = u @ v \<and> rx_test r u \<and> rx_test t v)"
  by (auto simp: rx_test_iff)

lemma test_seq_set [simp]: "rx_test (RSeq (RSet p) t) s \<longleftrightarrow> (\<exists>c cs. s = c # cs \<and> p c \<and> rx_test t cs)"
  by (auto simp: test_seq) (metis append_Cons append_Nil)

lemma test_plus_set [simp]: "rx_test (RPlus (RSet p)) s \<longleftrightarrow> s \<noteq> [] \<and> list_all p s"
  unfolding RPlus_def test_seq_set test_star_set by (cases s) auto

lemma test_seq_rep [simp]:
  "rx_test (RSeq (RRep (RSet p) k k) t) s \<longleftrightarrow>
   k \<le> length s \<and> list_all p (take k s) \<and> rx_test t (drop k s)"
proof
  assume "rx_test (RSeq (RRep (RSet p) k k) t) s"
  then obtain u v where "s = u @ v" "length u = k" "list_all p u" "rx_test t v"
    by (auto simp: test_seq)
  then show "k \<le> length s \<and> list_all p (take k s) \<and> rx_test t (drop k s)" by auto
next
  assume "k \<le> length s \<and> list_all p (take k s) \<and> rx_test t (drop k s)"
  then show "rx_test (RSeq (RRep (RSet p) k k) t) s"
    unfolding test_seq by (intro exI [where x = "take k s"] exI [where x = "drop k s"] conjI) auto
qed

lemma test_rep_chars: "rx_test r s \<Longrightarrow> r = RRep (RSet p) m n \<Longrightarrow> list_all p s"
  by simp

text \<open>Two facts about a whole expression from its character sets: a property of every character
  of a match, and closure of the matches under a character map.\<close>

primrec rx_over :: "(char \<Rightarrow> bool) \<Rightarrow> rx \<Rightarrow> bool" where
  "rx_over P RNone = True"
| "rx_over P REps = True"
| "rx_over P (RSet p) = (\<forall>c. p c \<longrightarrow> P c)"
| "rx_over P (RSeq r t) = (rx_over P r \<and> rx_over P t)"
| "rx_over P (RAlt r t) = (rx_over P r \<and> rx_over P t)"
| "rx_over P (RRep r m n) = rx_over P r"
| "rx_over P (RStar r) = rx_over P r"

primrec rx_closed :: "(char \<Rightarrow> char) \<Rightarrow> rx \<Rightarrow> bool" where
  "rx_closed f RNone = True"
| "rx_closed f REps = True"
| "rx_closed f (RSet p) = (\<forall>c. p c \<longrightarrow> p (f c))"
| "rx_closed f (RSeq r t) = (rx_closed f r \<and> rx_closed f t)"
| "rx_closed f (RAlt r t) = (rx_closed f r \<and> rx_closed f t)"
| "rx_closed f (RRep r m n) = rx_closed f r"
| "rx_closed f (RStar r) = rx_closed f r"

lemma lang_pow_over: "\<forall>w\<in>L. list_all P w \<Longrightarrow> s \<in> lang_pow L k \<Longrightarrow> list_all P s"
  by (induction k arbitrary: s) auto

lemma lang_pow_closed: "\<forall>w\<in>L. map f w \<in> L \<Longrightarrow> s \<in> lang_pow L k \<Longrightarrow> map f s \<in> lang_pow L k"
  by (induction k arbitrary: s) (auto, metis)

lemma lang_over: "rx_over P r \<Longrightarrow> s \<in> lang r \<Longrightarrow> list_all P s"
proof (induction r arbitrary: s)
  case (RRep r m n)
  then show ?case using lang_pow_over [of "lang r" P s] by auto
next
  case (RStar r)
  then show ?case using lang_pow_over [of "lang r" P s] by auto
qed auto

lemma lang_closed: "rx_closed f r \<Longrightarrow> s \<in> lang r \<Longrightarrow> map f s \<in> lang r"
proof (induction r arbitrary: s)
  case (RSeq r t)
  then obtain u v where "s = u @ v" "u \<in> lang r" "v \<in> lang t" by auto
  then show ?case using RSeq by fastforce
next
  case (RRep r m n)
  then show ?case using lang_pow_closed [of "lang r" f s] by auto
next
  case (RStar r)
  then show ?case using lang_pow_closed [of "lang r" f s] by auto
qed auto

lemma test_over: "rx_test r s \<Longrightarrow> rx_over P r \<Longrightarrow> list_all P s"
  by (simp add: rx_test_iff lang_over)

lemma test_closed: "rx_test r s \<Longrightarrow> rx_closed f r \<Longrightarrow> rx_test r (map f s)"
  by (simp add: rx_test_iff lang_closed)

text \<open>The two printable-key expressions \<^verbatim>\<open>/^[\x21-\x7e]{16,255}$/\<close> (and its unbounded form) and
  the decimal expressions that several components share.\<close>

definition is_visible :: "char \<Rightarrow> bool" where
  "is_visible = between 33 126"

definition visibleASCII :: rx where
  "visibleASCII = RRep (RSet is_visible) 16 255"

definition positiveInteger :: rx where
  "positiveInteger = RSeq (RSet (between 49 57)) (RStar (RSet is_digit))"

text \<open>\<^verbatim>\<open>/^(0|[1-9][0-9]{0,18})$/\<close>\<close>

definition boundedNatural :: rx where
  "boundedNatural = RAlt (RChar CHR ''0'') (RSeq (RSet (between 49 57)) (RRep (RSet is_digit) 0 18))"

lemma visible_not_space: "is_visible c \<Longrightarrow> \<not> is_space c"
  by (auto simp: is_visible_def char_class_defs)

lemma visibleASCII_test [text_simps]:
  "rx_test visibleASCII s \<longleftrightarrow> 16 \<le> length s \<and> length s \<le> 255 \<and> list_all is_visible s"
  by (simp add: visibleASCII_def)

lemma nonzero_digit: "between 49 57 c \<longleftrightarrow> is_digit c \<and> c \<noteq> CHR ''0''"
proof -
  have "c = CHR ''0'' \<longleftrightarrow> code c = 48" using code_inj [of c "CHR ''0''"] by auto
  then show ?thesis by (auto simp: char_class_defs)
qed

lemma positiveInteger_test [text_simps]:
  "rx_test positiveInteger s \<longleftrightarrow> canonical_nat s \<and> s \<noteq> ''0''"
  by (cases s) (auto simp: positiveInteger_def canonical_nat_def all_digits_def nonzero_digit)

lemma positiveInteger_value: "rx_test positiveInteger s \<Longrightarrow> 0 < digits_value s"
  unfolding positiveInteger_test
  by (cases s) (auto simp: canonical_nat_def intro: order_less_le_trans [OF _ digits_value_ge])

lemma boundedNatural_test [text_simps]:
  "rx_test boundedNatural s \<longleftrightarrow> canonical_nat s \<and> length s \<le> 19"
  by (cases s) (auto simp: boundedNatural_def canonical_nat_def all_digits_def nonzero_digit)

end
