(* ===== verification/Json.thy ===== *)
theory Json
  imports Regex Complex_Main "HOL-Library.Log_Nat"
begin

text \<open>
  JSON values and the two library routines every persisted or transported record goes
  through: \<^verbatim>\<open>JSON.parse\<close> (with its \<^verbatim>\<open>SyntaxError\<close> as \<open>None\<close>) and \<^verbatim>\<open>JSON.stringify\<close>.

  A number is a finite double, held as the rational it denotes, or an infinity (a literal
  such as \<^verbatim>\<open>1e999\<close>). Objects are association lists in JavaScript's property order: array
  indexes first in ascending order, then the other keys in the order of first insertion; a
  repeated key keeps its place and takes the last value. An escape \<^verbatim>\<open>\uXXXX\<close> above 255 is
  outside the model's characters and is rejected. The reader is bounded by fuel; each call
  consumes fuel at most twice per character, so \<open>2 * length s + 2\<close> never runs out on a text
  the writer produces (lemma \<open>parse_value_stringify\<close>).
\<close>

section \<open>Numbers\<close>

datatype jsnum = Fin rat | Infinity bool

definition half_even :: "rat \<Rightarrow> int" where
  "half_even q = (let f = \<lfloor>q\<rfloor>; d = q - of_int f in
     if d < 1 / 2 then f else if 1 / 2 < d then f + 1 else if even f then f else f + 1)"

text \<open>The exponent \<open>t\<close> with \<open>2 ^ t \<le> a / b < 2 ^ (t + 1)\<close>, for positive a and b.\<close>

definition two_power :: "int \<Rightarrow> rat" where
  "two_power e = (if 0 \<le> e then 2 ^ nat e else 1 / 2 ^ nat (- e))"

definition leading_exponent :: "rat \<Rightarrow> int" where
  "leading_exponent q = (case quotient_of q of (a, b) \<Rightarrow>
     (let t = bitlen a - bitlen b in if two_power t \<le> q then t else t - 1))"

text \<open>Rounding of an exact decimal to a double: integers of at most 53 bits are exact.\<close>

definition to_double :: "rat \<Rightarrow> jsnum" where
  "to_double q =
     (if q = of_int \<lfloor>q\<rfloor> \<and> \<bar>q\<bar> \<le> 2 ^ 53 then Fin q
      else let e = max (-1074) (leading_exponent \<bar>q\<bar> - 52);
               m = of_int (half_even (\<bar>q\<bar> / two_power e)) * two_power e in
        if 2 ^ 1024 \<le> m then Infinity (q < 0) else Fin (if q < 0 then - m else m))"

definition is_safe_integer :: "jsnum \<Rightarrow> bool" where
  "is_safe_integer x = (case x of Fin q \<Rightarrow> q = of_int \<lfloor>q\<rfloor> \<and> \<bar>q\<bar> \<le> 2 ^ 53 - 1 | Infinity _ \<Rightarrow> False)"

abbreviation jsint :: "int \<Rightarrow> jsnum" where
  "jsint i \<equiv> Fin (of_int i)"

fun jsnum_le :: "jsnum \<Rightarrow> jsnum \<Rightarrow> bool" where
  "jsnum_le (Fin p) (Fin q) = (p \<le> q)"
| "jsnum_le (Infinity s) x = (s \<or> x = Infinity False)"
| "jsnum_le (Fin p) (Infinity s) = (\<not> s)"

lemma to_double_int: "\<bar>i\<bar> \<le> 2 ^ 53 \<Longrightarrow> to_double (of_int i) = Fin (of_int i)"
proof -
  assume "\<bar>i\<bar> \<le> 2 ^ 53"
  then have "\<bar>of_int i :: rat\<bar> \<le> of_int (2 ^ 53)" by (metis of_int_abs of_int_le_iff)
  then show ?thesis by (simp add: to_double_def)
qed

text \<open>\<^verbatim>\<open>String(x)\<close> for a finite double: integers of at most 53 bits print exactly; for the others
  the shortest digit string that rounds back to the number is searched, one length at a time.\<close>

definition ten_power :: "int \<Rightarrow> rat" where
  "ten_power e = (if 0 \<le> e then 10 ^ nat e else 1 / 10 ^ nat (- e))"

fun decimal_exponent :: "nat \<Rightarrow> int \<Rightarrow> rat \<Rightarrow> int" where
  "decimal_exponent 0 n q = n"
| "decimal_exponent (Suc f) n q =
     (if q \<ge> ten_power n then decimal_exponent f (n + 1) q
      else if q < ten_power (n - 1) then decimal_exponent f (n - 1) q else n)"

fun shortest_digits :: "nat \<Rightarrow> nat \<Rightarrow> int \<Rightarrow> rat \<Rightarrow> nat" where
  "shortest_digits 0 k n q = nat (half_even (q / ten_power (n - int k)))"
| "shortest_digits (Suc f) k n q =
     (let s = half_even (q / ten_power (n - int k)) in
      if to_double (of_int s * ten_power (n - int k)) = Fin q then nat s else shortest_digits f (k + 1) n q)"

definition layout_digits :: "string \<Rightarrow> int \<Rightarrow> string" where
  "layout_digits ds n =
     (let k = int (length ds) in
      if k \<le> n \<and> n \<le> 21 then ds @ replicate (nat (n - k)) CHR ''0''
      else if 0 < n \<and> n \<le> 21 then take (nat n) ds @ ''.'' @ drop (nat n) ds
      else if -6 < n \<and> n \<le> 0 then ''0.'' @ replicate (nat (- n)) CHR ''0'' @ ds
      else take 1 ds @ (if k = 1 then [] else ''.'' @ drop 1 ds) @ ''e''
             @ (if 0 \<le> n - 1 then ''+'' else ''-'') @ nat_string (nat \<bar>n - 1\<bar>))"

definition num_string :: "jsnum \<Rightarrow> string" where
  "num_string x = (case x of
     Infinity s \<Rightarrow> (if s then ''-Infinity'' else ''Infinity'')
   | Fin q \<Rightarrow>
       if q = of_int \<lfloor>q\<rfloor> \<and> \<bar>q\<bar> \<le> 2 ^ 53 then int_string \<lfloor>q\<rfloor>
       else let n = decimal_exponent 700 0 \<bar>q\<bar>; s = shortest_digits 16 1 n \<bar>q\<bar> in
         (if q < 0 then ''-'' else '''') @ layout_digits (nat_string s) n)"

section \<open>Values\<close>

datatype json =
    JNull
  | JBool bool
  | JNum jsnum
  | JStr string
  | JArr "json list"
  | JObj "(string \<times> json) list"

definition is_array_index :: "string \<Rightarrow> bool" where
  "is_array_index k = (canonical_nat k \<and> length k \<le> 10 \<and> digits_value k < 4294967295)"

definition index_before :: "nat \<Rightarrow> string \<times> 'v \<Rightarrow> bool" where
  "index_before n e = (is_array_index (fst e) \<and> digits_value (fst e) < n)"

text \<open>Setting a property of an object.\<close>

definition obj_put :: "string \<Rightarrow> 'v \<Rightarrow> (string \<times> 'v) list \<Rightarrow> (string \<times> 'v) list" where
  "obj_put k v ob =
     (if List.member (map fst ob) k then map (\<lambda>(k', v'). (k', if k' = k then v else v')) ob
      else if is_array_index k
        then takeWhile (index_before (digits_value k)) ob @ (k, v) # dropWhile (index_before (digits_value k)) ob
      else ob @ [(k, v)])"

definition obj_of :: "(string \<times> 'v) list \<Rightarrow> (string \<times> 'v) list" where
  "obj_of kvs = foldl (\<lambda>ob (k, v). obj_put k v ob) [] kvs"

lemma map_of_replace:
  "map_of (map (\<lambda>(k', v'). (k', if k' = k then v else v')) ob) x =
     (if x = k \<and> k \<in> fst ` set ob then Some v else map_of ob x)"
proof (induction ob)
  case (Cons e ob)
  then show ?case by (cases e; cases "x = k"; cases "fst e = x") simp_all
qed simp

lemma map_of_insert_at: "k \<notin> fst ` set xs \<Longrightarrow> map_of (xs @ (k, v) # ys) = (map_of (xs @ ys))(k \<mapsto> v)"
proof (rule ext)
  fix x assume "k \<notin> fst ` set xs"
  then show "map_of (xs @ (k, v) # ys) x = ((map_of (xs @ ys))(k \<mapsto> v)) x"
    by (induction xs) auto
qed

lemma distinct_insert_at:
  "k \<notin> fst ` set (xs @ ys) \<Longrightarrow> distinct (map fst (xs @ ys)) \<Longrightarrow> distinct (map fst (xs @ (k, v) # ys))"
  by auto

lemma map_of_obj_put [simp]: "map_of (obj_put k v ob) = (map_of ob)(k \<mapsto> v)"
proof (cases "k \<in> fst ` set ob")
  case True
  then have "map_of (map (\<lambda>(k', v'). (k', if k' = k then v else v')) ob) = (map_of ob)(k \<mapsto> v)"
    by (auto simp: fun_eq_iff map_of_replace)
  with True show ?thesis by (simp add: obj_put_def)
next
  case False
  let ?P = "index_before (digits_value k)"
  have "k \<notin> fst ` set (takeWhile ?P ob)" using False by (auto dest: set_takeWhileD)
  from map_of_insert_at [OF this, of v "dropWhile ?P ob"]
  have "map_of (takeWhile ?P ob @ (k, v) # dropWhile ?P ob) = (map_of ob)(k \<mapsto> v)"
    by (simp only: takeWhile_dropWhile_id)
  moreover have "map_of (ob @ [(k, v)]) = (map_of ob)(k \<mapsto> v)"
    using map_of_insert_at [OF False, of v "[]"] by simp
  ultimately show ?thesis using False by (simp add: obj_put_def)
qed

lemma distinct_obj_put: "distinct (map fst ob) \<Longrightarrow> distinct (map fst (obj_put k v ob))"
proof (cases "k \<in> fst ` set ob")
  case True
  have "map fst (map (\<lambda>(k', v'). (k', if k' = k then v else v')) ob) = map fst ob" by (induction ob) auto
  moreover assume "distinct (map fst ob)"
  ultimately show ?thesis using True unfolding obj_put_def by (simp del: map_map)
next
  case False
  let ?P = "index_before (digits_value k)"
  assume d: "distinct (map fst ob)"
  have "distinct (map fst (takeWhile ?P ob @ (k, v) # dropWhile ?P ob))"
    using distinct_insert_at [of k "takeWhile ?P ob" "dropWhile ?P ob" v] False d
    by (simp only: takeWhile_dropWhile_id not_False_eq_True simp_thms)
  then show ?thesis using False d by (auto simp: obj_put_def)
qed

lemma set_keys_obj_put: "fst ` set (obj_put k v ob) = insert k (fst ` set ob)"
  using dom_map_of_conv_image_fst [of "obj_put k v ob"] by (simp add: dom_map_of_conv_image_fst)

lemma obj_put_new: "k \<notin> fst ` set ob \<Longrightarrow> \<not> is_array_index k \<Longrightarrow> obj_put k v ob = ob @ [(k, v)]"
  by (simp add: obj_put_def)

lemma obj_of_ordinary:
  assumes "distinct (map fst kvs)" "\<And>k. k \<in> fst ` set kvs \<Longrightarrow> \<not> is_array_index k"
  shows "obj_of kvs = kvs"
proof -
  have "foldl (\<lambda>ob (k, v). obj_put k v ob) ob kvs = ob @ kvs"
    if "distinct (map fst (ob @ kvs))" "\<And>k. k \<in> fst ` set kvs \<Longrightarrow> \<not> is_array_index k" for ob
    using that
  proof (induction kvs arbitrary: ob)
    case (Cons e kvs)
    obtain k v where e: "e = (k, v)" by (cases e)
    have new: "obj_put k v ob = ob @ [(k, v)]"
      using Cons.prems by (intro obj_put_new) (auto simp: e image_iff)
    have "foldl (\<lambda>ob (k, v). obj_put k v ob) (ob @ [(k, v)]) kvs = (ob @ [(k, v)]) @ kvs"
      using Cons.prems by (intro Cons.IH) (auto simp: e)
    then show ?case by (simp add: e new)
  qed simp
  from this [of "[]"] assms show ?thesis by (simp add: obj_of_def)
qed

section \<open>The reader\<close>

definition is_json_space :: "char \<Rightarrow> bool" where
  "is_json_space c = (code c = 32 \<or> code c = 9 \<or> code c = 10 \<or> code c = 13)"

definition skip_ws :: "string \<Rightarrow> string" where
  "skip_ws s = dropWhile is_json_space s"

abbreviation quote_char :: char where "quote_char \<equiv> CHR 0x22"
abbreviation backslash :: char where "backslash \<equiv> CHR 0x5C"

definition hex_value :: "char \<Rightarrow> nat" where
  "hex_value c = (if is_digit c then code c - 48 else if between 97 102 c then code c - 87 else code c - 55)"

definition hex_digit :: "nat \<Rightarrow> char" where
  "hex_digit n = char_of (if n < 10 then 48 + n else 87 + n)"

definition simple_escape :: "char \<Rightarrow> char option" where
  "simple_escape e = map_of
     [(quote_char, quote_char), (backslash, backslash), (CHR ''/'', CHR ''/''), (CHR ''b'', CHR 0x08),
      (CHR ''f'', CHR 0x0C), (CHR ''n'', CHR 0x0A), (CHR ''r'', CHR 0x0D), (CHR ''t'', CHR 0x09)] e"

text \<open>The characters of a string literal after its opening quote, and what follows the closing one.\<close>

fun parse_chars :: "string \<Rightarrow> (string \<times> string) option" where
  "parse_chars [] = None"
| "parse_chars (c # cs) =
     (if c = quote_char then Some ([], cs)
      else if c = backslash then
        (case cs of
           [] \<Rightarrow> None
         | e # r \<Rightarrow>
            (if e = CHR ''u'' then
               (case r of
                  h1 # h2 # h3 # h4 # t \<Rightarrow>
                    (if list_all is_hex [h1, h2, h3, h4] \<and> hex_value h1 = 0 \<and> hex_value h2 = 0
                     then map_option (\<lambda>(s, t'). (char_of (16 * hex_value h3 + hex_value h4) # s, t')) (parse_chars t)
                     else None)
                | _ \<Rightarrow> None)
             else (case simple_escape e of
                     None \<Rightarrow> None
                   | Some d \<Rightarrow> map_option (\<lambda>(s, t'). (d # s, t')) (parse_chars r))))
      else if code c < 32 then None
      else map_option (\<lambda>(s, t'). (c # s, t')) (parse_chars cs))"

definition scan_sign :: "string \<Rightarrow> bool \<times> string" where
  "scan_sign s = (if s \<noteq> [] \<and> hd s = CHR ''-'' then (True, tl s) else (False, s))"

definition scan_fraction :: "string \<Rightarrow> (string \<times> string) option" where
  "scan_fraction s =
     (if s \<noteq> [] \<and> hd s = CHR ''.'' then
        (let f = takeWhile is_digit (tl s) in if f = [] then None else Some (f, dropWhile is_digit (tl s)))
      else Some ([], s))"

definition scan_exponent :: "string \<Rightarrow> (int \<times> string) option" where
  "scan_exponent s =
     (if s \<noteq> [] \<and> (hd s = CHR ''e'' \<or> hd s = CHR ''E'') then
        (let r = tl s;
             (neg, t) = (if r \<noteq> [] \<and> hd r = CHR ''+'' then (False, tl r) else scan_sign r);
             d = takeWhile is_digit t in
         if d = [] then None
         else Some (if neg then - int (digits_value d) else int (digits_value d), dropWhile is_digit t))
      else Some (0, s))"

definition scan_number :: "string \<Rightarrow> (jsnum \<times> string) option" where
  "scan_number s =
     (let (neg, s1) = scan_sign s; i = takeWhile is_digit s1 in
      if \<not> canonical_nat i then None
      else (case scan_fraction (dropWhile is_digit s1) of
              None \<Rightarrow> None
            | Some (f, s2) \<Rightarrow>
                (case scan_exponent s2 of
                   None \<Rightarrow> None
                 | Some (e, s3) \<Rightarrow>
                     let q = (rat_of_nat (digits_value (i @ f)) / 10 ^ length f) * ten_power e in
                     Some (to_double (if neg then - q else q), s3))))"

definition parse_literal :: "string \<Rightarrow> (json \<times> string) option" where
  "parse_literal s =
     (if startsWith s ''null'' then Some (JNull, drop 4 s)
      else if startsWith s ''true'' then Some (JBool True, drop 4 s)
      else if startsWith s ''false'' then Some (JBool False, drop 5 s)
      else map_option (\<lambda>(x, r). (JNum x, r)) (scan_number s))"

definition next_is :: "char \<Rightarrow> string \<Rightarrow> bool" where
  "next_is c s = (skip_ws s \<noteq> [] \<and> hd (skip_ws s) = c)"

abbreviation after :: "string \<Rightarrow> string" where
  "after s \<equiv> tl (skip_ws s)"

fun parse_value :: "nat \<Rightarrow> string \<Rightarrow> (json \<times> string) option"
  and parse_elems :: "nat \<Rightarrow> string \<Rightarrow> (json list \<times> string) option"
  and parse_members :: "nat \<Rightarrow> string \<Rightarrow> ((string \<times> json) list \<times> string) option" where
  "parse_value 0 s = None"
| "parse_value (Suc n) s =
     (if next_is CHR ''{'' s then
        (if next_is CHR ''}'' (after s) then Some (JObj [], after (after s))
         else map_option (\<lambda>(ms, r). (JObj (obj_of ms), r)) (parse_members n (after s)))
      else if next_is CHR ''['' s then
        (if next_is CHR '']'' (after s) then Some (JArr [], after (after s))
         else map_option (\<lambda>(vs, r). (JArr vs, r)) (parse_elems n (after s)))
      else if next_is quote_char s then map_option (\<lambda>(t, r). (JStr t, r)) (parse_chars (after s))
      else parse_literal (skip_ws s))"
| "parse_elems 0 s = None"
| "parse_elems (Suc n) s =
     (case parse_value n s of
        None \<Rightarrow> None
      | Some (v, r) \<Rightarrow>
          if next_is CHR '','' r then map_option (\<lambda>(vs, t). (v # vs, t)) (parse_elems n (after r))
          else if next_is CHR '']'' r then Some ([v], after r) else None)"
| "parse_members 0 s = None"
| "parse_members (Suc n) s =
     (if \<not> next_is quote_char s then None
      else (case parse_chars (after s) of
              None \<Rightarrow> None
            | Some (k, r) \<Rightarrow>
                if \<not> next_is CHR '':'' r then None
                else (case parse_value n (after r) of
                        None \<Rightarrow> None
                      | Some (v, t) \<Rightarrow>
                          if next_is CHR '','' t
                          then map_option (\<lambda>(ms, u). ((k, v) # ms, u)) (parse_members n (after t))
                          else if next_is CHR ''}'' t then Some ([(k, v)], after t) else None)))"

definition JSON_parse :: "string \<Rightarrow> json option" where
  "JSON_parse s = (case parse_value (2 * length s + 2) s of
     None \<Rightarrow> None
   | Some (v, r) \<Rightarrow> if skip_ws r = [] then Some v else None)"

section \<open>Texts as numbers\<close>

text \<open>\<^verbatim>\<open>Number(text)\<close>, with \<open>None\<close> for \<^verbatim>\<open>NaN\<close>: white space is trimmed, the empty text is 0, then the
  decimal literals with an optional sign, and the unsigned hexadecimal, octal and binary ones.\<close>

definition radix_value :: "nat \<Rightarrow> string \<Rightarrow> nat" where
  "radix_value r s = foldl (\<lambda>n c. r * n + hex_value c) 0 s"

definition radix_number :: "nat \<Rightarrow> string \<Rightarrow> jsnum option" where
  "radix_number r s = (if s \<noteq> [] \<and> list_all (\<lambda>c. is_hex c \<and> hex_value c < r) s
     then Some (to_double (of_nat (radix_value r s))) else None)"

definition decimal_number :: "string \<Rightarrow> jsnum option" where
  "decimal_number s =
     (let (neg, s1) = (if s \<noteq> [] \<and> hd s = CHR ''+'' then (False, tl s) else scan_sign s) in
      if s1 = ''Infinity'' then Some (Infinity neg)
      else let i = takeWhile is_digit s1; s2 = dropWhile is_digit s1;
               dot = (s2 \<noteq> [] \<and> hd s2 = CHR ''.'');
               f = (if dot then takeWhile is_digit (tl s2) else []);
               s3 = (if dot then dropWhile is_digit (tl s2) else s2) in
        if i @ f = [] then None
        else (case scan_exponent s3 of
                Some (e, []) \<Rightarrow>
                  (let q = (rat_of_nat (digits_value (i @ f)) / 10 ^ length f) * ten_power e in
                   Some (to_double (if neg then - q else q)))
              | _ \<Rightarrow> None))"

definition to_number :: "string \<Rightarrow> jsnum option" where
  "to_number s =
     (let t = trim s; p = toLowerCase (take 2 t) in
      if t = [] then Some (Fin 0)
      else if p = ''0x'' then radix_number 16 (drop 2 t)
      else if p = ''0o'' then radix_number 8 (drop 2 t)
      else if p = ''0b'' then radix_number 2 (drop 2 t)
      else decimal_number t)"

section \<open>The writer\<close>

definition escape_char :: "char \<Rightarrow> string" where
  "escape_char c =
     (if c = quote_char then [backslash, quote_char]
      else if c = backslash then [backslash, backslash]
      else if code c = 8 then [backslash, CHR ''b''] else if code c = 9 then [backslash, CHR ''t'']
      else if code c = 10 then [backslash, CHR ''n''] else if code c = 12 then [backslash, CHR ''f'']
      else if code c = 13 then [backslash, CHR ''r'']
      else if code c < 32 then [backslash, CHR ''u'', CHR ''0'', CHR ''0'', hex_digit (code c div 16), hex_digit (code c mod 16)]
      else [c])"

definition quote :: "string \<Rightarrow> string" where
  "quote s = quote_char # concat (map escape_char s) @ [quote_char]"

fun JSON_stringify :: "json \<Rightarrow> string" where
  "JSON_stringify JNull = ''null''"
| "JSON_stringify (JBool b) = (if b then ''true'' else ''false'')"
| "JSON_stringify (JNum x) = (case x of Fin q \<Rightarrow> num_string x | Infinity s \<Rightarrow> ''null'')"
| "JSON_stringify (JStr s) = quote s"
| "JSON_stringify (JArr vs) = ''['' @ join_with '','' (map JSON_stringify vs) @ '']''"
| "JSON_stringify (JObj ms) = ''{'' @ join_with '','' (map (\<lambda>(k, v). quote k @ '':'' @ JSON_stringify v) ms) @ ''}''"

section \<open>Reading back what was written\<close>

text \<open>Values whose numbers are integers of at most 53 bits and whose objects have distinct keys that
  are not array indexes: every record the program persists or sends.\<close>

fun plain_json :: "json \<Rightarrow> bool" where
  "plain_json JNull = True"
| "plain_json (JBool b) = True"
| "plain_json (JNum x) = (case x of Fin q \<Rightarrow> q = of_int \<lfloor>q\<rfloor> \<and> \<bar>q\<bar> \<le> 2 ^ 53 | Infinity s \<Rightarrow> False)"
| "plain_json (JStr s) = True"
| "plain_json (JArr vs) = list_all plain_json vs"
| "plain_json (JObj ms) = (distinct (map fst ms) \<and> list_all (\<lambda>(k, v). \<not> is_array_index k \<and> plain_json v) ms)"

text \<open>What may follow a value inside a text: nothing, or a separator.\<close>

definition closes :: "string \<Rightarrow> bool" where
  "closes r = (r = [] \<or> one_of '',]}'' (hd r))"

lemma hex_digit_facts: "n < 16 \<Longrightarrow> is_hex (hex_digit n) \<and> hex_value (hex_digit n) = n"
  by (auto simp: hex_digit_def hex_value_def char_class_defs)

lemma control_chars:
  "code c = 8 \<Longrightarrow> c = CHR 0x08" "code c = 9 \<Longrightarrow> c = CHR 0x09" "code c = 10 \<Longrightarrow> c = CHR 0x0A"
  "code c = 12 \<Longrightarrow> c = CHR 0x0C" "code c = 13 \<Longrightarrow> c = CHR 0x0D"
  by (rule code_inj, simp del: of_char_eq_iff)+

lemma escape_char_read: "parse_chars (escape_char c @ t) = map_option (\<lambda>(s, t'). (c # s, t')) (parse_chars t)"
proof -
  consider "c = quote_char" | "c = backslash" | "code c = 8" | "code c = 9" | "code c = 10" | "code c = 12"
    | "code c = 13" | "c \<noteq> quote_char" "c \<noteq> backslash" "\<not> code c < 32"
    | "code c < 32" "code c \<notin> {8, 9, 10, 12, 13}" by auto
  then show ?thesis
  proof cases
    case 9
    then have ne: "c \<noteq> quote_char" "c \<noteq> backslash" by auto
    have h: "code c div 16 < 16" "code c mod 16 < 16" using 9 by auto
    have c: "char_of (16 * (code c div 16) + code c mod 16) = c" by simp
    show ?thesis
      using 9 ne hex_digit_facts [OF h(1)] hex_digit_facts [OF h(2)] c
      by (simp add: escape_char_def char_class_defs hex_value_def [of "CHR ''0''"] is_hex_def [of "CHR ''0''"]
          is_hex_lower_def [of "CHR ''0''"])
  qed (auto simp: escape_char_def simple_escape_def dest!: control_chars)
qed

lemma quote_read: "parse_chars (concat (map escape_char s) @ quote_char # t) = Some (s, t)"
  by (induction s) (auto simp: escape_char_read)

lemma takeWhile_digits: "all_digits d \<Longrightarrow> r = [] \<or> \<not> is_digit (hd r) \<Longrightarrow>
    takeWhile is_digit (d @ r) = d \<and> dropWhile is_digit (d @ r) = r"
  by (induction d) (cases r; auto simp: all_digits_def)+

lemma closes_facts: "closes r \<Longrightarrow> (r = [] \<or> \<not> is_digit (hd r)) \<and> scan_fraction r = Some ([], r) \<and> scan_exponent r = Some (0, r)"
  by (cases r) (auto simp: closes_def scan_fraction_def scan_exponent_def char_class_defs)

lemma number_read:
  assumes "\<bar>i\<bar> \<le> 2 ^ 53" "closes r"
  shows "scan_number (int_string i @ r) = Some (Fin (of_int i), r)"
proof -
  note cl = closes_facts [OF assms(2)]
  have tw: "takeWhile is_digit (nat_string n @ r) = nat_string n" "dropWhile is_digit (nat_string n @ r) = r" for n
    using takeWhile_digits [of "nat_string n" r] all_digits_nat_string cl by auto
  have "hd (nat_string n) \<noteq> CHR ''-''" for n
    using all_digits_nat_string [of n] by (cases "nat_string n") (auto simp: all_digits_def char_class_defs)
  then have sign: "scan_sign (int_string i @ r) = (i < 0, nat_string (nat \<bar>i\<bar>) @ r)"
    by (auto simp: scan_sign_def int_string_def)
  show ?thesis
    using cl by (cases "i < 0") (simp_all add: scan_number_def sign tw ten_power_def Let_def to_double_int [OF assms(1)])
qed

lemma int_string_head: "next_is c (int_string i @ r) \<longleftrightarrow> c = hd (int_string i)" "skip_ws (int_string i @ r) = int_string i @ r"
  "hd (int_string i) = CHR ''-'' \<or> is_digit (hd (int_string i))"
proof -
  have ne: "int_string i \<noteq> []" by (simp add: int_string_def)
  show h: "hd (int_string i) = CHR ''-'' \<or> is_digit (hd (int_string i))"
    using all_digits_nat_string [of "nat i"] by (cases "nat_string (nat i)") (auto simp: int_string_def all_digits_def)
  then have "\<not> is_json_space (hd (int_string i))" by (auto simp: is_json_space_def char_class_defs)
  then show sk: "skip_ws (int_string i @ r) = int_string i @ r" using ne by (cases "int_string i") (auto simp: skip_ws_def)
  show "next_is c (int_string i @ r) \<longleftrightarrow> c = hd (int_string i)" using ne by (auto simp: next_is_def sk)
qed

lemma literal_read:
  assumes "\<bar>i\<bar> \<le> 2 ^ 53" "closes r"
  shows "parse_value (Suc n) (int_string i @ r) = Some (JNum (Fin (of_int i)), r)"
proof -
  have h: "hd (int_string i) \<notin> {CHR ''{'', CHR ''['', quote_char, CHR ''n'', CHR ''t'', CHR ''f''}"
    using int_string_head(3) [of i] by (auto simp: char_class_defs)
  moreover have "int_string i \<noteq> []" by (simp add: int_string_def)
  ultimately have "\<not> startsWith (int_string i @ r) ''null''" "\<not> startsWith (int_string i @ r) ''true''"
    "\<not> startsWith (int_string i @ r) ''false''"
    by (cases "int_string i"; auto simp: startsWith_def)+
  then show ?thesis using h number_read [OF assms] by (auto simp: int_string_head parse_literal_def)
qed

lemma next_is_Cons: "\<not> is_json_space d \<Longrightarrow> next_is c (d # r) \<longleftrightarrow> c = d"
  by (auto simp: next_is_def skip_ws_def)

lemma after_Cons: "\<not> is_json_space d \<Longrightarrow> after (d # r) = r"
  by (auto simp: skip_ws_def)

lemma skip_ws_Cons: "\<not> is_json_space d \<Longrightarrow> skip_ws (d # r) = d # r"
  by (auto simp: skip_ws_def)

lemma punctuation [simp]:
  "\<not> is_json_space CHR ''{''" "\<not> is_json_space CHR ''}''" "\<not> is_json_space CHR ''[''"
  "\<not> is_json_space CHR '']''" "\<not> is_json_space CHR '',''" "\<not> is_json_space CHR '':''"
  "\<not> is_json_space quote_char"
  by (simp_all add: is_json_space_def)

lemmas scan_head = next_is_Cons after_Cons skip_ws_Cons

definition reads :: "json \<Rightarrow> bool" where
  "reads v = (\<forall>r n. closes r \<longrightarrow> 2 * length (JSON_stringify v) \<le> n \<longrightarrow>
     parse_value (Suc n) (JSON_stringify v @ r) = Some (v, r))"

lemma reads_before:
  "reads v \<Longrightarrow> one_of '',]}'' d \<Longrightarrow> 2 * length (JSON_stringify v) \<le> m \<Longrightarrow>
     parse_value (Suc m) (JSON_stringify v @ d # t) = Some (v, d # t)"
  unfolding reads_def by (auto simp: closes_def simp del: parse_value.simps)

lemma int_string_Cons: "\<exists>c cs. int_string i = c # cs"
  using nat_string_not_Nil [of "nat i"] by (cases "nat_string (nat i)") (auto simp: int_string_def)

lemma plain_num:
  assumes "plain_json (JNum x)"
  shows "\<exists>i. x = Fin (of_int i) \<and> \<bar>i\<bar> \<le> 2 ^ 53 \<and> JSON_stringify (JNum x) = int_string i"
proof (cases x)
  case (Fin q)
  with assms have q: "q = of_int \<lfloor>q\<rfloor>" "\<bar>q\<bar> \<le> 2 ^ 53" by auto
  then have "\<bar>of_int \<lfloor>q\<rfloor> :: rat\<bar> \<le> of_int (2 ^ 53)" by simp
  then have "\<bar>\<lfloor>q\<rfloor>\<bar> \<le> 2 ^ 53" by (simp only: of_int_abs [symmetric] of_int_le_iff)
  moreover have "JSON_stringify (JNum x) = int_string \<lfloor>q\<rfloor>" using q Fin by (simp add: num_string_def)
  ultimately show ?thesis using q Fin by blast
qed (use assms in simp)

lemma stringify_head:
  assumes "plain_json v"
  obtains c cs where "JSON_stringify v = c # cs" "\<not> is_json_space c" "c \<notin> {CHR '']'', CHR ''}''}"
proof (cases v)
  case (JNum x)
  with assms plain_num obtain i where i: "JSON_stringify v = int_string i" by blast
  obtain c cs where "int_string i = c # cs" using int_string_Cons by blast
  moreover from this have "\<not> is_json_space c" "c \<notin> {CHR '']'', CHR ''}''}"
    using int_string_head(3) [of i] by (auto simp: is_json_space_def char_class_defs)
  ultimately show ?thesis using that [of c cs] i by simp
next
  case (JBool b)
  then show ?thesis using that by (cases b) (auto simp: is_json_space_def)
qed (use that in \<open>auto simp: quote_def is_json_space_def\<close>)

lemma num_reads:
  assumes "plain_json (JNum x)"
  shows "reads (JNum x)"
proof -
  obtain i where i: "x = Fin (of_int i)" "\<bar>i\<bar> \<le> 2 ^ 53" "JSON_stringify (JNum x) = int_string i"
    using plain_num [OF assms] by blast
  show ?thesis unfolding reads_def i(3) using literal_read [OF i(2)] i(1) by blast
qed

text \<open>A separated list of items is read item by item: \<open>item\<close> is what is written for one element.\<close>

lemma join_with_Cons: "ys \<noteq> [] \<Longrightarrow> join_with sep (x # ys) = x @ sep @ join_with sep ys"
  by (cases ys) auto

lemma elems_read:
  assumes "\<forall>v\<in>set vs. reads v" "vs \<noteq> []" "2 * length (join_with '','' (map JSON_stringify vs)) + 1 \<le> n"
  shows "parse_elems (Suc n) (join_with '','' (map JSON_stringify vs) @ CHR '']'' # r) = Some (vs, r)"
  using assms
proof (induction vs arbitrary: n)
  case (Cons v vs)
  let ?rest = "join_with '','' (map JSON_stringify vs) @ CHR '']'' # r"
  obtain m where n: "n = Suc m" using Cons.prems(3) by (cases n) auto
  have read: "parse_value n (JSON_stringify v @ d # t) = Some (v, d # t)" if "one_of '',]}'' d" "2 * length (JSON_stringify v) \<le> m" for d t
    using Cons.prems(1) that unfolding n by (intro reads_before) auto
  show ?case
  proof (cases "vs = []")
    case True
    then show ?thesis using read [of "CHR '']''" r] Cons.prems(3) n by (simp add: scan_head one_of_def)
  next
    case False
    then have j: "join_with '','' (map JSON_stringify (v # vs)) = JSON_stringify v @ CHR '','' # join_with '','' (map JSON_stringify vs)"
      by (simp add: join_with_Cons)
    have "parse_elems n ?rest = Some (vs, r)" using Cons.IH [of m] Cons.prems False n j by simp
    then show ?thesis using read [of "CHR '',''" ?rest] Cons.prems(3) n unfolding j by (simp add: scan_head one_of_def)
  qed
qed simp

abbreviation member_string :: "string \<times> json \<Rightarrow> string" where
  "member_string e \<equiv> (case e of (k, v) \<Rightarrow> quote k @ '':'' @ JSON_stringify v)"

lemma members_read:
  assumes "\<forall>e\<in>set ms. reads (snd e)" "ms \<noteq> []" "2 * length (join_with '','' (map member_string ms)) + 1 \<le> n"
  shows "parse_members (Suc n) (join_with '','' (map member_string ms) @ CHR ''}'' # r) = Some (ms, r)"
  using assms
proof (induction ms arbitrary: n)
  case (Cons e ms)
  let ?rest = "join_with '','' (map member_string ms) @ CHR ''}'' # r"
  obtain k v where e: "e = (k, v)" by (cases e)
  obtain m where n: "n = Suc m" using Cons.prems(3) by (cases n) auto
  have read: "parse_value n (JSON_stringify v @ d # t) = Some (v, d # t)" if "one_of '',]}'' d" "2 * length (JSON_stringify v) \<le> m" for d t
    using Cons.prems(1) that e unfolding n by (intro reads_before) auto
  have head: "member_string e @ t = quote_char # concat (map escape_char k) @ quote_char # CHR '':'' # JSON_stringify v @ t" for t
    by (simp add: e quote_def)
  show ?case
  proof (cases "ms = []")
    case True
    have "parse_value n (JSON_stringify v @ CHR ''}'' # r) = Some (v, CHR ''}'' # r)"
      using Cons.prems(3) n True e by (intro read) (auto simp: one_of_def)
    moreover have "join_with '','' (map member_string (e # ms)) @ CHR ''}'' # r =
        quote_char # concat (map escape_char k) @ quote_char # CHR '':'' # JSON_stringify v @ CHR ''}'' # r"
      using True by (simp add: e quote_def)
    ultimately show ?thesis using True e by (simp only:) (simp add: scan_head quote_read)
  next
    case False
    have j: "join_with '','' (map member_string (e # ms)) @ CHR ''}'' # r =
        quote_char # concat (map escape_char k) @ quote_char # CHR '':'' # JSON_stringify v @ CHR '','' # ?rest"
      using False by (simp add: join_with_Cons e quote_def)
    have len: "length (join_with '','' (map member_string (e # ms))) =
        length (quote k) + 2 + length (JSON_stringify v) + length (join_with '','' (map member_string ms))"
      using False by (simp add: join_with_Cons e)
    have "parse_members n ?rest = Some (ms, r)" using Cons.IH [of m] Cons.prems False n len by simp
    moreover have "parse_value n (JSON_stringify v @ CHR '','' # ?rest) = Some (v, CHR '','' # ?rest)"
      using Cons.prems(3) n len by (intro read) (auto simp: one_of_def)
    ultimately show ?thesis using e unfolding j by (simp add: scan_head quote_read)
  qed
qed simp

lemma stringify_items_head:
  "vs \<noteq> [] \<Longrightarrow> list_all plain_json vs \<Longrightarrow>
     \<not> next_is CHR '']'' (join_with '','' (map JSON_stringify vs) @ r)"
proof (cases vs)
  case (Cons v ws)
  assume "list_all plain_json vs"
  with Cons obtain c cs where c: "JSON_stringify v = c # cs" "\<not> is_json_space c" "c \<notin> {CHR '']'', CHR ''}''}"
    using stringify_head [of v] by auto
  show ?thesis using Cons c by (cases ws) (auto simp: next_is_Cons)
qed simp

lemma parse_value_stringify: "plain_json v \<Longrightarrow> reads v"
proof (induction v rule: JSON_stringify.induct)
  case (5 vs)
  have rd: "\<forall>v\<in>set vs. reads v" using 5 by (auto simp: list_all_iff)
  show ?case unfolding reads_def
  proof (intro allI impI)
    fix r n assume "closes r" and n: "2 * length (JSON_stringify (JArr vs)) \<le> n"
    then obtain m where m: "n = Suc m" by (cases n) auto
    show "parse_value (Suc n) (JSON_stringify (JArr vs) @ r) = Some (JArr vs, r)"
      using 5(2) elems_read [OF rd, of m r] stringify_items_head [of vs "CHR '']'' # r"] n m
      by (cases "vs = []") (auto simp: scan_head)
  qed
next
  case (6 ms)
  have rd: "\<forall>e\<in>set ms. reads (snd e)" using 6 by (auto simp: list_all_iff)
  have ord: "obj_of ms = ms" using 6(2) by (intro obj_of_ordinary) (auto simp: list_all_iff)
  have head: "\<not> next_is CHR ''}'' (join_with '','' (map member_string ms) @ t)" if "ms \<noteq> []" for t
    using that by (cases ms; cases "tl ms"; auto simp: quote_def next_is_Cons split: prod.splits)
  show ?case unfolding reads_def
  proof (intro allI impI)
    fix r n assume "closes r" and n: "2 * length (JSON_stringify (JObj ms)) \<le> n"
    then obtain m where m: "n = Suc m" by (cases n) auto
    show "parse_value (Suc n) (JSON_stringify (JObj ms) @ r) = Some (JObj ms, r)"
      using members_read [OF rd, of m r] head [of "CHR ''}'' # r"] n m ord
      by (cases "ms = []") (auto simp: scan_head obj_of_def)
  qed
qed (auto simp: num_reads, auto simp: reads_def scan_head quote_def quote_read parse_literal_def startsWith_def next_is_def skip_ws_def is_json_space_def)

theorem JSON_roundtrip:
  assumes "plain_json v"
  shows "JSON_parse (JSON_stringify v) = Some v"
proof -
  have "parse_value (Suc (2 * length (JSON_stringify v) + 1)) (JSON_stringify v @ []) = Some (v, [])"
    using parse_value_stringify [OF assms] unfolding reads_def by (auto simp: closes_def simp del: parse_value.simps)
  then show ?thesis by (simp add: JSON_parse_def skip_ws_def del: parse_value.simps)
qed

section \<open>Objects as JavaScript sees them\<close>

text \<open>Reading a property: \<open>None\<close> is \<^verbatim>\<open>undefined\<close>; the properties of \<^verbatim>\<open>null\<close> are never read (the
  readers test for it first).\<close>

fun field :: "string \<Rightarrow> json \<Rightarrow> json option" where
  "field k (JObj ob) = map_of ob k"
| "field k _ = None"

fun is_object :: "json \<Rightarrow> bool" where
  "is_object (JObj ob) = True"
| "is_object (JArr vs) = True"
| "is_object _ = False"

text \<open>\<^verbatim>\<open>typeof x === "string"\<close> and the like, with the narrowed value.\<close>

fun as_string :: "json option \<Rightarrow> string option" where
  "as_string (Some (JStr s)) = Some s"
| "as_string _ = None"

fun as_number :: "json option \<Rightarrow> jsnum option" where
  "as_number (Some (JNum x)) = Some x"
| "as_number _ = None"

end
