(* ===== verification/UrlCodec.thy ===== *)
theory UrlCodec
  imports Json
begin

text \<open>
  Percent-encoding as the sources use it: \<^verbatim>\<open>encodeURIComponent\<close> for path segments and storage keys,
  and \<^verbatim>\<open>URLSearchParams\<close> (an ordered list of pairs) with its form serialisation and parser.
  Characters of 128 and above are encoded as their two UTF-8 bytes; a byte sequence that decodes to a
  character outside the model is \<open>None\<close>.
\<close>

section \<open>Encoding\<close>

definition utf8 :: "char \<Rightarrow> nat list" where
  "utf8 c = (if code c < 128 then [code c] else [192 + code c div 64, 128 + code c mod 64])"

definition upper_hex :: "nat \<Rightarrow> char" where
  "upper_hex n = char_of (if n < 10 then 48 + n else 55 + n)"

definition percent :: "nat \<Rightarrow> string" where
  "percent b = [CHR ''%'', upper_hex (b div 16), upper_hex (b mod 16)]"

definition uri_unreserved :: "char \<Rightarrow> bool" where
  "uri_unreserved c = (is_alnum c \<or> one_of [CHR ''-'', CHR ''_'', CHR ''.'', CHR ''!'', CHR ''~'', CHR ''*'', CHR 0x27, CHR ''('', CHR '')''] c)"

definition encodeURIComponent :: "string \<Rightarrow> string" where
  "encodeURIComponent s = concat (map (\<lambda>c. if uri_unreserved c then [c] else concat (map percent (utf8 c))) s)"

definition form_plain :: "char \<Rightarrow> bool" where
  "form_plain c = (is_alnum c \<or> one_of ''*-._'' c)"

definition form_encode :: "string \<Rightarrow> string" where
  "form_encode s = concat (map (\<lambda>c. if form_plain c then [c] else if c = CHR '' '' then ''+''
     else concat (map percent (utf8 c))) s)"

section \<open>Decoding\<close>

fun percent_bytes :: "bool \<Rightarrow> string \<Rightarrow> nat list" where
  "percent_bytes spaced [] = []"
| "percent_bytes spaced (c # cs) =
     (if c = CHR ''%'' then
        (case cs of
           h # l # t \<Rightarrow>
             if is_hex h \<and> is_hex l then (16 * hex_value h + hex_value l) # percent_bytes spaced t
             else 37 # percent_bytes spaced cs
         | _ \<Rightarrow> 37 # percent_bytes spaced cs)
      else if spaced \<and> c = CHR ''+'' then 32 # percent_bytes spaced cs
      else utf8 c @ percent_bytes spaced cs)"

fun utf8_decode :: "nat list \<Rightarrow> string option" where
  "utf8_decode [] = Some []"
| "utf8_decode (b # bs) =
     (if b < 128 then map_option (\<lambda>s. char_of b # s) (utf8_decode bs)
      else case bs of
        k # t \<Rightarrow> if (b = 194 \<or> b = 195) \<and> 128 \<le> k \<and> k < 192
               then map_option (\<lambda>s. char_of (64 * (b - 192) + (k - 128)) # s) (utf8_decode t) else None
      | [] \<Rightarrow> None)"

definition decodeURIComponent :: "string \<Rightarrow> string option" where
  "decodeURIComponent s = utf8_decode (percent_bytes False s)"

definition form_decode :: "string \<Rightarrow> string option" where
  "form_decode s = utf8_decode (percent_bytes True s)"

section \<open>Search parameters\<close>

type_synonym params = "(string \<times> string) list"

definition getAll :: "string \<Rightarrow> params \<Rightarrow> string list" where
  "getAll k ps = map snd (filter (\<lambda>p. fst p = k) ps)"

definition get_param :: "string \<Rightarrow> params \<Rightarrow> string option" where
  "get_param k ps = map_of ps k"

text \<open>\<^verbatim>\<open>set\<close> replaces the first pair of that name and drops the others, or appends.\<close>

fun set_param :: "string \<Rightarrow> string \<Rightarrow> params \<Rightarrow> params" where
  "set_param k v [] = [(k, v)]"
| "set_param k v (p # ps) = (if fst p = k then (k, v) # filter (\<lambda>q. fst q \<noteq> k) ps else p # set_param k v ps)"

definition params_string :: "params \<Rightarrow> string" where
  "params_string ps = join_with ''&'' (map (\<lambda>(k, v). form_encode k @ ''='' @ form_encode v) ps)"

text \<open>A path with its query, as \<^verbatim>\<open>query.size ? `${path}?${query}` : path\<close>.\<close>

definition with_query :: "string \<Rightarrow> params \<Rightarrow> string" where
  "with_query path ps = (if ps = [] then path else path @ ''?'' @ params_string ps)"

text \<open>Setting the parameters whose value is present and not the empty string.\<close>

definition set_present :: "string \<Rightarrow> string option \<Rightarrow> params \<Rightarrow> params" where
  "set_present k v ps = (case v of None \<Rightarrow> ps | Some x \<Rightarrow> if x = [] then ps else set_param k x ps)"

definition parse_pair :: "string \<Rightarrow> (string \<times> string) option" where
  "parse_pair s =
     (let k = takeWhile (\<lambda>c. c \<noteq> CHR ''='') s; v = drop 1 (dropWhile (\<lambda>c. c \<noteq> CHR ''='') s) in
      case (form_decode k, form_decode v) of (Some k', Some v') \<Rightarrow> Some (k', v') | _ \<Rightarrow> None)"

definition search_params :: "string \<Rightarrow> params option" where
  "search_params s = those (map parse_pair (filter (\<lambda>w. w \<noteq> []) (split_on CHR ''&'' s)))"

section \<open>URLs\<close>

text \<open>A parsed URL. The parser is the platform's and is a parameter: \<open>new_URL text base\<close>, with \<open>None\<close>
  for its exception.\<close>

record url =
  protocol :: string
  username :: string
  password :: string
  origin :: string
  pathname :: string
  search :: string
  hash :: string

type_synonym url_parser = "string \<Rightarrow> string option \<Rightarrow> url option"

section \<open>Round trips\<close>

lemma map_of_set_param: "map_of (set_param k v ps) = (map_of ps)(k \<mapsto> v)"
proof -
  have others: "map_of (filter (\<lambda>q. fst q \<noteq> k) ps) x = (if x = k then None else map_of ps x)" for x ps
    by (induction ps) auto
  have "map_of (set_param k v ps) x = ((map_of ps)(k \<mapsto> v)) x" for x by (induction ps) (auto simp: others)
  then show ?thesis by blast
qed

lemma upper_hex_facts: "n < 16 \<Longrightarrow> is_hex (upper_hex n) \<and> hex_value (upper_hex n) = n"
  by (auto simp: upper_hex_def hex_value_def char_class_defs)

lemma percent_read: "b < 256 \<Longrightarrow> percent_bytes spaced (percent b @ t) = b # percent_bytes spaced t"
  using upper_hex_facts [of "b div 16"] upper_hex_facts [of "b mod 16"]
  by (simp add: percent_def less_mult_imp_div_less)

lemma utf8_bytes: "b \<in> set (utf8 c) \<Longrightarrow> b < 256"
  using less_mult_imp_div_less [of "code c" 4 64] code_less [of c] mod_less_divisor [of 64 "code c"]
  by (auto simp: utf8_def split: if_splits)

lemma percents_read: "\<forall>b\<in>set bs. b < 256 \<Longrightarrow> percent_bytes spaced (concat (map percent bs) @ t) = bs @ percent_bytes spaced t"
  by (induction bs) (auto simp: percent_read)

lemma utf8_read: "utf8_decode (utf8 c @ bs) = map_option (\<lambda>s. c # s) (utf8_decode bs)"
proof (cases "code c < 128")
  case False
  define q r where "q = code c div 64" and "r = code c mod 64"
  have "q < 4" unfolding q_def using code_less [of c] by (intro less_mult_imp_div_less) simp
  moreover have "r < 64" unfolding r_def by simp
  moreover have c: "64 * q + r = code c" unfolding q_def r_def by simp
  ultimately have q: "q = 2 \<or> q = 3" using False by linarith
  have "char_of (64 * q + r) = c" unfolding c by simp
  then show ?thesis using False q \<open>r < 64\<close> by (auto simp: utf8_def q_def [symmetric] r_def [symmetric])
qed (simp add: utf8_def)

lemma plain_read: "c \<noteq> CHR ''%'' \<Longrightarrow> \<not> (spaced \<and> c = CHR ''+'') \<Longrightarrow> percent_bytes spaced (c # t) = utf8 c @ percent_bytes spaced t"
  by auto

lemma unreserved_facts: "uri_unreserved c \<Longrightarrow> c \<noteq> CHR ''%'' \<and> c \<noteq> CHR '':'' \<and> c \<noteq> CHR ''/'' \<and> code c < 128"
  by (auto simp: uri_unreserved_def char_class_defs)

lemma form_plain_facts: "form_plain c \<Longrightarrow> c \<noteq> CHR ''%'' \<and> c \<noteq> CHR ''+'' \<and> c \<noteq> CHR ''='' \<and> c \<noteq> CHR ''&''"
  by (auto simp: form_plain_def char_class_defs)

theorem decode_encode: "decodeURIComponent (encodeURIComponent s) = Some s"
proof -
  have "utf8_decode (percent_bytes False (encodeURIComponent s)) = Some s"
  proof (induction s)
    case (Cons c s)
    have "percent_bytes False (encodeURIComponent (c # s)) = utf8 c @ percent_bytes False (encodeURIComponent s)"
      using unreserved_facts [of c] plain_read [of c False "encodeURIComponent s"]
        percents_read [of "utf8 c" False "encodeURIComponent s"] utf8_bytes [of _ c]
      by (auto simp: encodeURIComponent_def simp del: percent_bytes.simps)
    then show ?case using Cons by (simp add: utf8_read)
  qed (simp add: encodeURIComponent_def)
  then show ?thesis by (simp add: decodeURIComponent_def)
qed

lemma encodeURIComponent_inj: "encodeURIComponent s = encodeURIComponent t \<longleftrightarrow> s = t"
  by (metis decode_encode option.inject)

lemma form_decode_encode: "form_decode (form_encode s) = Some s"
proof -
  have "utf8_decode (percent_bytes True (form_encode s)) = Some s"
  proof (induction s)
    case (Cons c s)
    have "percent_bytes True (form_encode (c # s)) = utf8 c @ percent_bytes True (form_encode s)"
      using form_plain_facts [of c] plain_read [of c True "form_encode s"]
        percents_read [of "utf8 c" True "form_encode s"] utf8_bytes [of _ c]
      by (cases "c = CHR '' ''") (auto simp: form_encode_def utf8_def simp del: percent_bytes.simps, auto)
    then show ?case using Cons by (simp add: utf8_read)
  qed (simp add: form_encode_def)
  then show ?thesis by (simp add: form_decode_def)
qed

text \<open>The characters an encoded text can hold.\<close>

lemma percent_chars: "d \<in> set (percent b) \<Longrightarrow> b < 256 \<Longrightarrow> d = CHR ''%'' \<or> is_hex d"
  using upper_hex_facts [of "b div 16"] upper_hex_facts [of "b mod 16"] less_mult_imp_div_less [of b 16 16]
  by (auto simp: percent_def)

lemma encodeURIComponent_chars: "d \<in> set (encodeURIComponent s) \<Longrightarrow> uri_unreserved d \<or> d = CHR ''%''"
proof -
  have hex: "is_hex d \<Longrightarrow> uri_unreserved d" by (auto simp: uri_unreserved_def char_class_defs)
  assume "d \<in> set (encodeURIComponent s)"
  then show ?thesis
    using hex percent_chars utf8_bytes by (fastforce simp: encodeURIComponent_def split: if_splits)
qed

lemma form_encode_chars: "d \<in> set (form_encode s) \<Longrightarrow> d \<noteq> CHR ''='' \<and> d \<noteq> CHR ''&''"
proof -
  have hex: "is_hex d \<Longrightarrow> d \<noteq> CHR ''='' \<and> d \<noteq> CHR ''&''" by (auto simp: char_class_defs)
  assume "d \<in> set (form_encode s)"
  then show ?thesis
    using hex percent_chars utf8_bytes form_plain_facts by (fastforce simp: form_encode_def split: if_splits)
qed

lemma parse_pair_read: "parse_pair (form_encode k @ ''='' @ form_encode v) = Some (k, v)"
proof -
  have "\<forall>d\<in>set (form_encode k). d \<noteq> CHR ''=''" using form_encode_chars by blast
  then have "takeWhile (\<lambda>c. c \<noteq> CHR ''='') (form_encode k @ ''='' @ form_encode v) = form_encode k"
    "dropWhile (\<lambda>c. c \<noteq> CHR ''='') (form_encode k @ ''='' @ form_encode v) = ''='' @ form_encode v"
    by (simp_all add: takeWhile_append dropWhile_append)
  then show ?thesis by (simp add: parse_pair_def form_decode_encode)
qed

theorem search_params_string: "search_params (params_string ps) = Some ps"
proof (cases "ps = []")
  case False
  let ?w = "\<lambda>(k, v). form_encode k @ ''='' @ form_encode v"
  have "split_on CHR ''&'' (params_string ps) = map ?w ps"
    unfolding params_string_def using False form_encode_chars
    by (intro split_join) (fastforce simp: list_all_iff)+
  moreover have "filter (\<lambda>w. w \<noteq> []) (map ?w ps) = map ?w ps" by (induction ps) auto
  moreover have "map parse_pair (map ?w ps) = map Some ps" by (induction ps) (auto simp: parse_pair_read simp del: append.simps)
  moreover have "those (map Some xs) = Some xs" for xs :: params by (induction xs) auto
  ultimately show ?thesis by (simp only: search_params_def)
qed (simp add: search_params_def params_string_def)

end
