(* ===== verification/Uuid.thy ===== *)
theory Uuid
  imports Regex
begin

text \<open>
  Canonical UUIDs (\<^verbatim>\<open>web/src/lib/canonical-uuid.ts\<close>): the one spelling of an identifier that
  crosses a trust boundary. The locale \<open>canonicalizer\<close> states what a caller of a
  normalising parser relies on; \<^verbatim>\<open>canonicalUUID\<close> is its first instance.
\<close>

section \<open>Operations\<close>

abbreviation dash :: rx where
  "dash \<equiv> RChar CHR ''-''"

definition canonicalUUIDShape :: rx where
  "canonicalUUIDShape =
     RSeq (RRep (RSet is_hex) 8 8) (RSeq dash (RSeq (RRep (RSet is_hex) 4 4) (RSeq dash
     (RSeq (RRep (RSet is_hex) 4 4) (RSeq dash (RSeq (RRep (RSet is_hex) 4 4) (RSeq dash
     (RRep (RSet is_hex) 12 12))))))))"

text \<open>The same expression without the \<^verbatim>\<open>i\<close> flag, as other files write it.\<close>

definition lowerUUIDShape :: rx where
  "lowerUUIDShape =
     RSeq (RRep (RSet is_hex_lower) 8 8) (RSeq dash (RSeq (RRep (RSet is_hex_lower) 4 4) (RSeq dash
     (RSeq (RRep (RSet is_hex_lower) 4 4) (RSeq dash (RSeq (RRep (RSet is_hex_lower) 4 4) (RSeq dash
     (RRep (RSet is_hex_lower) 12 12))))))))"

definition nilUUID :: string where
  "nilUUID = ''00000000-0000-0000-0000-000000000000''"

definition canonicalUUID :: "string \<Rightarrow> string option" where
  "canonicalUUID v =
     (if \<not> rx_test canonicalUUIDShape v then None
      else let canonical = toLowerCase v in if canonical = nilUUID then None else Some canonical)"

definition isCanonicalUUID :: "string \<Rightarrow> bool" where
  "isCanonicalUUID v = (canonicalUUID v \<noteq> None)"

definition canonical_segment :: "string \<Rightarrow> string outcome" where
  "canonical_segment segment =
     (if \<not> rx_test canonicalUUIDShape segment then Inr segment
      else case canonicalUUID segment of
        None \<Rightarrow> Inl ''invalid UUID path segment''
      | Some canonical \<Rightarrow> Inr canonical)"

definition canonicalizeUUIDPathSegments :: "string \<Rightarrow> string outcome" where
  "canonicalizeUUIDPathSegments path =
     andthen (traverse canonical_segment (split_on CHR ''/'' path)) (\<lambda>segments. Inr (join_with ''/'' segments))"

section \<open>Canonicalizers\<close>

text \<open>A partial normaliser whose results are their own normal form. Two inputs are spellings of
  one value when they normalise to the same result.\<close>

locale canonicalizer =
  fixes canon :: "'a \<Rightarrow> 'a option"
  assumes canon_fixed: "canon x = Some y \<Longrightarrow> canon y = Some y"
begin

definition canonical :: "'a \<Rightarrow> bool" where
  "canonical y = (canon y = Some y)"

lemma canonical_iff_result: "canonical y \<longleftrightarrow> (\<exists>x. canon x = Some y)"
  using canon_fixed by (auto simp: canonical_def)

lemma canonical_unique: "canonical y \<Longrightarrow> canonical z \<Longrightarrow> canon x = Some y \<Longrightarrow> canon x = Some z \<Longrightarrow> y = z"
  by simp

lemma canon_twice: "Option.bind (canon x) canon = canon x"
  using canon_fixed by (cases "canon x") auto

end

section \<open>Lemmas\<close>

lemma lower_char_hex: "is_hex c \<Longrightarrow> is_hex (lower_char c)"
  by (auto simp: char_class_defs lower_char_code)

lemma lower_char_hex_lower: "is_hex c \<Longrightarrow> is_hex_lower (lower_char c)"
  by (auto simp: char_class_defs lower_char_code)

lemma lower_char_dash [simp]: "lower_char CHR ''-'' = CHR ''-''"
  by (simp add: lower_char_id char_class_defs)

lemma shape_closed: "rx_test canonicalUUIDShape v \<Longrightarrow> rx_test canonicalUUIDShape (toLowerCase v)"
  unfolding toLowerCase_def by (erule test_closed) (simp add: canonicalUUIDShape_def lower_char_hex)

lemma shape_length: "rx_test canonicalUUIDShape v \<Longrightarrow> length v = 36"
  by (auto simp: canonicalUUIDShape_def dest!: arg_cong [where f = length])

lemma shape_chars: "rx_test canonicalUUIDShape v \<Longrightarrow> list_all (\<lambda>c. is_hex c \<or> c = CHR ''-'') v"
  by (erule test_over) (simp add: canonicalUUIDShape_def)

lemma canonicalUUID_chars:
  "canonicalUUID v = Some u \<Longrightarrow> list_all (\<lambda>c. is_hex_lower c \<or> c = CHR ''-'') u"
  using shape_chars [of v] lower_char_hex_lower
  by (fastforce simp: canonicalUUID_def Let_def toLowerCase_def list_all_iff split: if_splits)

lemma canonicalUUID_fixed: "canonicalUUID v = Some u \<Longrightarrow> canonicalUUID u = Some u"
  using shape_closed [of v] by (auto simp: canonicalUUID_def Let_def split: if_splits)

lemma canonicalUUID_length: "canonicalUUID v = Some u \<Longrightarrow> length u = 36"
  using shape_length [of v] by (auto simp: canonicalUUID_def Let_def split: if_splits)

interpretation uuid: canonicalizer canonicalUUID
  by unfold_locales (rule canonicalUUID_fixed)

lemma canonicalUUID_no_slash: "canonicalUUID v = Some u \<Longrightarrow> CHR ''/'' \<notin> set u"
  using canonicalUUID_chars by (fastforce simp: list_all_iff char_class_defs)

lemma canonicalUUID_trim: "canonicalUUID v = Some u \<Longrightarrow> trim u = u"
  using canonicalUUID_chars [of v u] by (intro trim_no_space) (auto simp: list_all_iff char_class_defs)

section \<open>Properties\<close>

text \<open>\<^verbatim>\<open>canonicalUUID\<close> accepts a text exactly when it has the UUID shape and is not the nil
  UUID in any spelling; the result is the lower-case spelling, it is its own canonical form, it has
  36 characters (lower-case hexadecimal digits and dashes), and two accepted texts give the same
  result exactly when they differ only in letter case.\<close>

theorem canonicalUUID_normal_form:
  "(canonicalUUID v = Some u \<longleftrightarrow>
      rx_test canonicalUUIDShape v \<and> u = toLowerCase v \<and> u \<noteq> nilUUID)
   \<and> (isCanonicalUUID v \<and> isCanonicalUUID w \<longrightarrow>
        (canonicalUUID v = canonicalUUID w \<longleftrightarrow> toLowerCase v = toLowerCase w))
   \<and> (canonicalUUID v = Some u \<longrightarrow>
        canonicalUUID u = Some u \<and> length u = 36 \<and> list_all (\<lambda>c. is_hex_lower c \<or> c = CHR ''-'') u)"
  using uuid.canon_fixed [of v u] canonicalUUID_length [of v u] canonicalUUID_chars [of v u]
  by (auto simp: canonicalUUID_def isCanonicalUUID_def Let_def split: if_splits)

theorem canonicalUUID_normal_form_witness:
  "canonicalUUID ''6F9619FF-8B86-D011-B42D-00CF4FC964FF'' = Some ''6f9619ff-8b86-d011-b42d-00cf4fc964ff''
   \<and> canonicalUUID ''6f9619ff-8b86-d011-b42d-00cf4fc964ff'' = Some ''6f9619ff-8b86-d011-b42d-00cf4fc964ff''"
proof -
  have a: "canonicalUUID ''6F9619FF-8B86-D011-B42D-00CF4FC964FF'' = Some ''6f9619ff-8b86-d011-b42d-00cf4fc964ff''"
    by code_simp
  show ?thesis
    using canonicalUUID_normal_form
      [of "''6F9619FF-8B86-D011-B42D-00CF4FC964FF''" "''6f9619ff-8b86-d011-b42d-00cf4fc964ff''"] a by blast
qed

lemma canonical_segment_fixed: "canonical_segment s = Inr t \<Longrightarrow> canonical_segment t = Inr t"
  using canonicalUUID_fixed [of s t] by (auto simp: canonical_segment_def split: if_splits option.splits)

lemma canonical_segment_no_slash: "canonical_segment s = Inr t \<Longrightarrow> CHR ''/'' \<notin> set s \<Longrightarrow> CHR ''/'' \<notin> set t"
  using canonicalUUID_no_slash [of s t] by (auto simp: canonical_segment_def split: if_splits option.splits)


text \<open>Canonicalising a path rewrites only its UUID segments and is idempotent: a path with no
  UUID-shaped segment is returned unchanged, and a canonicalised path is returned unchanged.\<close>

theorem canonicalize_path_idempotent:
  "(canonicalizeUUIDPathSegments path = Inr q \<longrightarrow> canonicalizeUUIDPathSegments q = Inr q)
   \<and> (list_all (\<lambda>s. \<not> rx_test canonicalUUIDShape s) (split_on CHR ''/'' path) \<longrightarrow>
        canonicalizeUUIDPathSegments path = Inr path)"
proof (intro conjI impI)
  assume "canonicalizeUUIDPathSegments path = Inr q"
  then obtain segs where s: "list_all2 (\<lambda>x y. canonical_segment x = Inr y) (split_on CHR ''/'' path) segs"
    and q: "q = join_with ''/'' segs"
    by (auto simp: canonicalizeUUIDPathSegments_def andthen_eq_Inr traverse_eq_Inr)
  have fixed: "canonical_segment t = Inr t \<and> CHR ''/'' \<notin> set t" if "t \<in> set segs" for t
  proof -
    from list_all2_source [OF s that]
    obtain x where "x \<in> set (split_on CHR ''/'' path)" "canonical_segment x = Inr t" by blast
    then show ?thesis using canonical_segment_fixed canonical_segment_no_slash split_on_parts by blast
  qed
  moreover have "segs \<noteq> []" using s by auto
  ultimately have "split_on CHR ''/'' q = segs" unfolding q by (intro split_join) (auto simp: list_all_iff)
  then show "canonicalizeUUIDPathSegments q = Inr q"
    using fixed by (simp add: canonicalizeUUIDPathSegments_def traverse_id q)
next
  assume "list_all (\<lambda>s. \<not> rx_test canonicalUUIDShape s) (split_on CHR ''/'' path)"
  then have "traverse canonical_segment (split_on CHR ''/'' path) = Inr (split_on CHR ''/'' path)"
    by (intro traverse_id) (auto simp: canonical_segment_def list_all_iff)
  then show "canonicalizeUUIDPathSegments path = Inr path"
    by (simp add: canonicalizeUUIDPathSegments_def join_split_on)
qed

theorem canonicalize_path_idempotent_witness:
  "canonicalizeUUIDPathSegments ''/v1/6f9619ff-8b86-d011-b42d-00cf4fc964ff'' = Inr ''/v1/6f9619ff-8b86-d011-b42d-00cf4fc964ff''
   \<and> canonicalizeUUIDPathSegments ''/v1/accounts'' = Inr ''/v1/accounts''"
proof -
  have "canonicalizeUUIDPathSegments ''/v1/6F9619FF-8B86-D011-B42D-00CF4FC964FF'' =
      Inr ''/v1/6f9619ff-8b86-d011-b42d-00cf4fc964ff''" by code_simp
  moreover have "list_all (\<lambda>s. \<not> rx_test canonicalUUIDShape s) (split_on CHR ''/'' ''/v1/accounts'')" by code_simp
  ultimately show ?thesis
    using canonicalize_path_idempotent
        [of "''/v1/6F9619FF-8B86-D011-B42D-00CF4FC964FF''" "''/v1/6f9619ff-8b86-d011-b42d-00cf4fc964ff''"]
      canonicalize_path_idempotent [of "''/v1/accounts''"] by blast
qed

end
