(* ===== verification/Http.thy ===== *)
theory Http
  imports UrlCodec Uuid "HOL-Library.Word"
begin

unbundle bit_operations_syntax

text \<open>
  Requests, responses and the shared security helpers of the BFF: \<^verbatim>\<open>web/src/lib/security.ts\<close>,
  \<^verbatim>\<open>cookie-policy.ts\<close>, \<^verbatim>\<open>feature-configuration.ts\<close>, \<^verbatim>\<open>upstream-outcome.ts\<close>, \<^verbatim>\<open>diagnostic-trace.ts\<close>
  and \<^verbatim>\<open>bounded-stream.ts\<close>.

  The environment is a map from names to values. A header list holds each name once; names compare
  without case. A response body is the text that is sent. The session record is that of
  \<^verbatim>\<open>session.ts\<close>; its operations are in theory Session.
\<close>

section \<open>Messages\<close>

type_synonym env = "string \<Rightarrow> string option"

type_synonym headers = "(string \<times> string) list"

definition same_name :: "string \<Rightarrow> string \<Rightarrow> bool" where
  "same_name a b = (toLowerCase a = toLowerCase b)"

definition get_header :: "string \<Rightarrow> headers \<Rightarrow> string option" where
  "get_header n hs = map_option snd (List.find (\<lambda>h. same_name (fst h) n) hs)"

fun set_header :: "string \<Rightarrow> string \<Rightarrow> headers \<Rightarrow> headers" where
  "set_header n v [] = [(n, v)]"
| "set_header n v (h # hs) = (if same_name (fst h) n then (fst h, v) # filter (\<lambda>g. \<not> same_name (fst g) n) hs else h # set_header n v hs)"

definition delete_header :: "string \<Rightarrow> headers \<Rightarrow> headers" where
  "delete_header n hs = filter (\<lambda>h. \<not> same_name (fst h) n) hs"

definition set_header_if :: "string \<Rightarrow> string option \<Rightarrow> headers \<Rightarrow> headers" where
  "set_header_if n v hs = (case v of None \<Rightarrow> hs | Some x \<Rightarrow> set_header n x hs)"

datatype stream_event = Chunk "nat list" | Stream_failure

record request =
  http_method :: string
  req_headers :: headers
  searchParams :: params
  req_text :: "string outcome"
  req_stream :: "stream_event list option"

record response =
  status :: nat
  resp_headers :: headers
  resp_body :: string

definition json_response :: "json \<Rightarrow> nat \<Rightarrow> headers \<Rightarrow> response" where
  "json_response body st hs = \<lparr>status = st,
     resp_headers = (if get_header ''content-type'' hs = None then hs @ [(''content-type'', ''application/json'')] else hs),
     resp_body = JSON_stringify body\<rparr>"

definition error_body :: "string \<Rightarrow> json" where
  "error_body c = JObj [(''error'', JObj [(''code'', JStr c)])]"

definition jsonError :: "string \<Rightarrow> nat \<Rightarrow> response" where
  "jsonError message st = json_response (error_body message) st [(''Cache-Control'', ''no-store'')]"

text \<open>The result of a request to a service: an aborted wait, another failure, or a response whose
  body may fail while it is read.\<close>

datatype body_read = Body string | Body_timeout | Body_error

record upstream =
  up_status :: nat
  up_headers :: headers
  up_text :: body_read
  up_stream :: "stream_event list option"

datatype fetch_result = Fetch_timeout | Fetch_error | Fetched upstream

record upstream_request =
  out_url :: string
  out_method :: string
  out_headers :: headers
  out_body :: "string option"

definition ok :: "upstream \<Rightarrow> bool" where
  "ok u = (200 \<le> up_status u \<and> up_status u \<le> 299)"

section \<open>Sessions\<close>

record session =
  subjectId :: string
  tenantId :: string
  csrfToken :: string
  expiresAt :: jsnum
  authenticatedAt :: "jsnum option"
  roles :: "string list option"
  scopes :: "string list option"
  consistencyRequirements :: "params option"

definition has_scope :: "session \<Rightarrow> string \<Rightarrow> bool" where
  "has_scope s scope = (case scopes s of None \<Rightarrow> False | Some ss \<Rightarrow> List.member ss scope)"

section \<open>Settings\<close>

text \<open>\<^verbatim>\<open>(a ?? b ?? "development").trim().toLowerCase()\<close>\<close>

definition deployment_name :: "string list \<Rightarrow> env \<Rightarrow> string" where
  "deployment_name names env =
     toLowerCase (trim (case List.find (\<lambda>n. env n \<noteq> None) names of None \<Rightarrow> ''development'' | Some n \<Rightarrow> the (env n)))"

definition is_production :: "string \<Rightarrow> bool" where
  "is_production d = (d = ''production'' \<or> d = ''prod'')"

record cookie_policy =
  secure :: bool
  sessionName :: string
  transactionName :: string

definition authenticationCookiePolicy :: "env \<Rightarrow> cookie_policy" where
  "authenticationCookiePolicy env =
     (let deployment = deployment_name [''LEDGERSYNC_DEPLOYMENT_ENV'', ''LEDGERSYNC_ENV'', ''NODE_ENV''] env in
      \<lparr>secure = (\<not> (deployment = ''development'' \<and> env ''LEDGERSYNC_COOKIE_SECURE'' = Some ''false'')),
       sessionName = (if is_production deployment then ''__Host-ledgersync_session'' else ''ledgersync_session''),
       transactionName = (if is_production deployment then ''__Secure-ledgersync_oidc_transaction'' else ''ledgersync_oidc_transaction'')\<rparr>)"

definition feature_flag :: "env \<Rightarrow> string \<Rightarrow> bool outcome" where
  "feature_flag env name =
     (let value = (case env name of None \<Rightarrow> '''' | Some v \<Rightarrow> trim v) in
      if value = '''' \<or> value = ''false'' then Inr False
      else if value = ''true'' then Inr True
      else Inl ''Optional feature settings must be true or false.'')"

record optional_features =
  systems_lab :: bool
  live_investigation :: bool

definition readOptionalFeatures :: "env \<Rightarrow> optional_features outcome" where
  "readOptionalFeatures env =
     andthen (feature_flag env ''LEDGERSYNC_STUDY_ENABLED'') (\<lambda>systemsLab.
     andthen (feature_flag env ''LEDGERSYNC_LIVE_INVESTIGATION_ENABLED'') (\<lambda>live.
       (let deployment = deployment_name [''LEDGERSYNC_DEPLOYMENT_ENV'', ''NODE_ENV''] env in
        if systemsLab \<and> live then Inl ''Enable one qualified optional feature set at a time.''
        else if (systemsLab \<or> live) \<and> deployment \<noteq> ''development''
        then Inl ''Optional study features require the explicit local development environment.''
        else Inr \<lparr>systems_lab = systemsLab, live_investigation = live\<rparr>)))"

section \<open>Security headers and origins\<close>

definition securityHeaders :: headers where
  "securityHeaders =
     [(''Cross-Origin-Opener-Policy'', ''same-origin''),
      (''Cross-Origin-Resource-Policy'', ''same-origin''),
      (''Referrer-Policy'', ''strict-origin-when-cross-origin''),
      (''X-Content-Type-Options'', ''nosniff''),
      (''X-Frame-Options'', ''DENY''),
      (''Permissions-Policy'', ''camera=(), geolocation=(), microphone=()'')]"

definition readPublicOrigin :: "url_parser \<Rightarrow> env \<Rightarrow> url outcome" where
  "readPublicOrigin new_URL env =
     (let configured = (case env ''LEDGERSYNC_PUBLIC_ORIGIN'' of None \<Rightarrow> '''' | Some v \<Rightarrow> trim v) in
      if configured = '''' then Inl ''LEDGERSYNC_PUBLIC_ORIGIN is required''
      else case new_URL configured None of
        None \<Rightarrow> Inl ''LEDGERSYNC_PUBLIC_ORIGIN must be a valid HTTP(S) origin''
      | Some u \<Rightarrow>
          if (protocol u \<noteq> ''http:'' \<and> protocol u \<noteq> ''https:'') \<or> username u \<noteq> '''' \<or> password u \<noteq> ''''
             \<or> pathname u \<noteq> ''/'' \<or> search u \<noteq> '''' \<or> hash u \<noteq> ''''
          then Inl ''LEDGERSYNC_PUBLIC_ORIGIN must be a valid HTTP(S) origin''
          else Inr u)"

abbreviation self :: string where "self \<equiv> [CHR 0x27] @ ''self'' @ [CHR 0x27]"
abbreviation none_source :: string where "none_source \<equiv> [CHR 0x27] @ ''none'' @ [CHR 0x27]"

definition nonce_source :: "string \<Rightarrow> string option \<Rightarrow> string" where
  "nonce_source directive nonce = (case nonce of
     Some n \<Rightarrow> if n = [] then directive @ '' '' @ self
               else directive @ '' '' @ self @ '' '' @ [CHR 0x27] @ ''nonce-'' @ n @ [CHR 0x27]
   | None \<Rightarrow> directive @ '' '' @ self)"

definition contentSecurityPolicy :: "string option \<Rightarrow> string" where
  "contentSecurityPolicy nonce =
     ''default-src '' @ self @ ''; '' @ nonce_source ''script-src'' nonce @ ''; '' @ nonce_source ''style-src'' nonce
     @ ''; base-uri '' @ self @ ''; frame-ancestors '' @ none_source @ ''; form-action '' @ self @ ''; object-src '' @ none_source"

definition addSecurityHeaders :: "env \<Rightarrow> string option \<Rightarrow> response \<Rightarrow> response" where
  "addSecurityHeaders env nonce r =
     (let deployment = deployment_name [''LEDGERSYNC_DEPLOYMENT_ENV''] env;
          h1 = set_header ''Content-Security-Policy'' (contentSecurityPolicy nonce) (resp_headers r);
          h2 = foldl (\<lambda>hs (n, v). set_header n v hs) h1 securityHeaders;
          h3 = set_header ''X-LedgerSync-Mode'' (if is_production deployment then ''production'' else ''sandbox'') h2;
          h4 = (if is_production deployment then set_header ''Strict-Transport-Security'' ''max-age=31536000; includeSubDomains'' h3 else h3) in
      r\<lparr>resp_headers := h4\<rparr>)"

definition hasValidHost :: "url_parser \<Rightarrow> env \<Rightarrow> request \<Rightarrow> bool" where
  "hasValidHost new_URL env request = (case readPublicOrigin new_URL env of
     Inl _ \<Rightarrow> False
   | Inr expected \<Rightarrow>
       (case get_header ''host'' (req_headers request) of
          None \<Rightarrow> False
        | Some host \<Rightarrow>
            if host = [] then False
            else (case new_URL (protocol expected @ ''//'' @ host) None of
                    None \<Rightarrow> False
                  | Some supplied \<Rightarrow> username supplied = '''' \<and> password supplied = '''' \<and> pathname supplied = ''/''
                      \<and> search supplied = '''' \<and> hash supplied = '''' \<and> origin supplied = origin expected)))"

definition hasSameOrigin :: "url_parser \<Rightarrow> env \<Rightarrow> request \<Rightarrow> bool" where
  "hasSameOrigin new_URL env request = (case get_header ''origin'' (req_headers request) of
     None \<Rightarrow> False
   | Some supplied \<Rightarrow>
       if \<not> hasValidHost new_URL env request then False
       else (case readPublicOrigin new_URL env of Inl _ \<Rightarrow> False | Inr u \<Rightarrow> supplied = origin u))"

text \<open>The constant-time comparison: every position is visited and the differences are collected.
  Bitwise operators act on 32-bit integers; a code unit fits.\<close>

definition token_difference :: "string \<Rightarrow> string \<Rightarrow> 32 word" where
  "token_difference a b =
     foldl (\<lambda>difference (x, y). difference OR (word_of_nat (code x) XOR word_of_nat (code y))) 0 (zip a b)"

definition hasValidCSRF :: "url_parser \<Rightarrow> env \<Rightarrow> request \<Rightarrow> session \<Rightarrow> bool" where
  "hasValidCSRF new_URL env request session = (case get_header ''x-csrf-token'' (req_headers request) of
     None \<Rightarrow> False
   | Some token \<Rightarrow>
       if \<not> hasSameOrigin new_URL env request \<or> length token \<noteq> length (csrfToken session) then False
       else token_difference token (csrfToken session) = 0)"

section \<open>Bodies\<close>

definition byte_length :: "string \<Rightarrow> nat" where
  "byte_length s = length (concat (map utf8 s))"

definition readBoundedJSON :: "request \<Rightarrow> nat \<Rightarrow> json outcome" where
  "readBoundedJSON request maximumBytes =
     (let advertised = to_number (case get_header ''content-length'' (req_headers request) of None \<Rightarrow> ''0'' | Some v \<Rightarrow> v) in
      case advertised of
        Some (Fin q) \<Rightarrow>
          if q \<noteq> of_int \<lfloor>q\<rfloor> \<or> q < 1 \<or> of_nat maximumBytes < q
          then Inl ''request body is outside the permitted size''
          else andthen (req_text request) (\<lambda>body.
            if maximumBytes < byte_length body then Inl ''request body is outside the permitted size''
            else case JSON_parse body of None \<Rightarrow> Inl ''SyntaxError'' | Some v \<Rightarrow> Inr v)
      | _ \<Rightarrow> Inl ''request body is outside the permitted size'')"

fun read_chunks :: "nat \<Rightarrow> nat \<Rightarrow> nat list list \<Rightarrow> stream_event list \<Rightarrow> nat list outcome \<times> bool" where
  "read_chunks maximum sz chunks [] = (Inr (concat (rev chunks)), False)"
| "read_chunks maximum sz chunks (Stream_failure # es) = (Inl ''stream error'', True)"
| "read_chunks maximum sz chunks (Chunk c # es) =
     (if maximum < sz + length c then (Inl ''statement body limit'', True)
      else read_chunks maximum (sz + length c) (c # chunks) es)"

text \<open>The bytes read, or the error, and whether the reader was cancelled before the end.\<close>

definition readBoundedBytes :: "stream_event list option \<Rightarrow> nat \<Rightarrow> nat list outcome \<times> bool" where
  "readBoundedBytes stream maximum = (case stream of
     None \<Rightarrow> (Inl ''statement body missing'', False)
   | Some es \<Rightarrow> read_chunks maximum 0 [] es)"

section \<open>Traces and response headers\<close>

definition createDiagnosticTraceParent :: "string \<Rightarrow> string \<Rightarrow> string" where
  "createDiagnosticTraceParent uuid1 uuid2 =
     (let strip = filter (\<lambda>c. c \<noteq> CHR ''-'') in
      ''00-'' @ strip uuid1 @ ''-'' @ take 16 (strip uuid2) @ ''-00'')"

definition traceparent_shape :: rx where
  "traceparent_shape =
     RSeq (RStr ''00-'') (RSeq (RRep (RSet is_hex_lower) 32 32) (RSeq (RChar CHR ''-'')
     (RSeq (RRep (RSet is_hex_lower) 16 16) (RSeq (RStr ''-0'') (RSet (one_of ''01''))))))"

definition diagnosticTraceHeaders :: "headers \<Rightarrow> headers" where
  "diagnosticTraceHeaders hs = (case map_of hs ''traceparent'' of
     None \<Rightarrow> []
   | Some value \<Rightarrow>
       if value = [] \<or> \<not> rx_test traceparent_shape value then []
       else if take 32 (drop 3 value) = replicate 32 CHR ''0'' \<or> take 16 (drop 36 value) = replicate 16 CHR ''0'' then []
       else [(''traceparent'', value)])"

text \<open>The two patterns under which an upstream header is passed on.\<close>

definition request_id_pattern :: rx where
  "request_id_pattern = RRep (RSet (\<lambda>c. is_alnum c \<or> one_of ''._:-'' c)) 1 128"

definition retry_after_pattern :: rx where
  "retry_after_pattern = RRep (RSet is_digit) 1 6"

definition safeResponseHeader :: "string option \<Rightarrow> rx \<Rightarrow> string option" where
  "safeResponseHeader v pattern = (case v of None \<Rightarrow> None | Some x \<Rightarrow> if rx_test pattern x then Some x else None)"

text \<open>\<^verbatim>\<open>content-type\<close> up to the first semicolon, trimmed and in lower case.\<close>

definition mediaType :: "request \<Rightarrow> string option" where
  "mediaType request =
     map_option (\<lambda>v. toLowerCase (trim (hd (split_on CHR '';'' v)))) (get_header ''content-type'' (req_headers request))"

section \<open>Lemmas\<close>

lemma same_name_refl [simp]: "same_name n n"
  by (simp add: same_name_def)

lemma same_name_trans: "same_name a b \<Longrightarrow> same_name b c \<longleftrightarrow> same_name a c"
  by (simp add: same_name_def)

lemma get_header_set [simp]:
  "get_header m (set_header n v hs) = (if same_name n m then Some v else get_header m hs)"
proof -
  have skip: "get_header m (filter (\<lambda>g. \<not> same_name (fst g) n) hs) = get_header m hs" if "\<not> same_name n m" for hs :: headers
    using that by (induction hs) (auto simp: get_header_def same_name_def)
  show ?thesis
  proof (induction hs)
    case (Cons h hs)
    show ?case
    proof (cases "same_name (fst h) n")
      case True
      then have "same_name (fst h) m \<longleftrightarrow> same_name n m" by (simp add: same_name_def)
      then show ?thesis using True skip [of hs] by (auto simp: get_header_def)
    next
      case False
      then show ?thesis using Cons by (auto simp: get_header_def same_name_def)
    qed
  qed (auto simp: get_header_def)
qed

lemma get_header_delete [simp]: "get_header m (delete_header n hs) = (if same_name n m then None else get_header m hs)"
  by (induction hs) (auto simp: get_header_def delete_header_def same_name_def)

lemma get_header_set_if [simp]:
  "get_header m (set_header_if n v hs) = (if same_name n m then (case v of None \<Rightarrow> get_header m hs | Some x \<Rightarrow> Some x) else get_header m hs)"
  by (auto simp: set_header_if_def split: option.splits)

lemma xor_eq_0: "a XOR b = 0 \<longleftrightarrow> a = b" for a b :: "'a :: len word"
proof
  assume "a XOR b = 0"
  then have "(a XOR b) XOR b = 0 XOR b" by simp
  then show "a = b" by (simp only: xor.assoc xor_self_eq xor.right_neutral xor.left_neutral)
qed simp

lemma word_char_eq: "word_of_nat (code x) XOR (word_of_nat (code y) :: 32 word) = 0 \<longleftrightarrow> x = y"
proof -
  have less: "code z < 2 ^ 32" for z :: char by (rule less_le_trans [OF code_less]) simp
  have "word_of_nat (code x) XOR (word_of_nat (code y) :: 32 word) = 0 \<longleftrightarrow> (word_of_nat (code x) :: 32 word) = word_of_nat (code y)"
    by (rule xor_eq_0)
  also have "\<dots> \<longleftrightarrow> code x = code y"
    using less [of x] less [of y] by (simp add: word_of_nat_eq_iff take_bit_nat_eq_self)
  finally show ?thesis by simp
qed

lemma token_difference_fold:
  "foldl (\<lambda>d (x, y). d OR (word_of_nat (code x) XOR word_of_nat (code y))) acc ps = (0 :: 32 word) \<longleftrightarrow>
     acc = 0 \<and> (\<forall>(x, y)\<in>set ps. x = y)"
  by (induction ps arbitrary: acc) (auto simp: or_eq_0_iff word_char_eq)

lemma token_difference_eq: "length a = length b \<Longrightarrow> token_difference a b = 0 \<longleftrightarrow> a = b"
proof -
  assume l: "length a = length b"
  have "(\<forall>(x, y)\<in>set (zip a b). x = y) \<longleftrightarrow> a = b"
    using l by (induction a b rule: list_induct2) auto
  then show ?thesis by (simp add: token_difference_def token_difference_fold)
qed

fun chunk_bytes :: "stream_event list \<Rightarrow> nat list" where
  "chunk_bytes [] = []"
| "chunk_bytes (Chunk c # es) = c @ chunk_bytes es"
| "chunk_bytes (Stream_failure # es) = chunk_bytes es"

lemma read_chunks_iff:
  "sz = length (concat (rev chunks)) \<Longrightarrow> sz \<le> maximum \<Longrightarrow>
     fst (read_chunks maximum sz chunks es) = Inr bytes \<longleftrightarrow>
       Stream_failure \<notin> set es \<and> bytes = concat (rev chunks) @ chunk_bytes es \<and> length bytes \<le> maximum"
proof (induction es arbitrary: sz chunks)
  case (Cons e es)
  show ?case
  proof (cases e)
    case (Chunk c)
    show ?thesis
    proof (cases "maximum < sz + length c")
      case True
      then show ?thesis using Cons.prems Chunk by auto
    next
      case False
      then show ?thesis using Cons.IH [of "sz + length c" "c # chunks"] Cons.prems Chunk by auto
    qed
  qed simp
qed auto

lemma read_chunks_cancel: "snd (read_chunks maximum sz chunks es) \<longleftrightarrow> threw (fst (read_chunks maximum sz chunks es))"
  by (induction maximum sz chunks es rule: read_chunks.induct) auto

lemma jsonError_simps [simp]: "status (jsonError m st) = st" "resp_body (jsonError m st) = JSON_stringify (error_body m)"
  by (simp_all add: jsonError_def json_response_def)

lemma error_body_plain: "plain_json (error_body c)"
  by (simp add: error_body_def is_array_index_def canonical_nat_def all_digits_def char_class_defs)

lemma error_body_inj [simp]: "error_body a = error_body b \<longleftrightarrow> a = b"
  by (simp add: error_body_def)

lemma jsonError_code [simp]: "resp_body (jsonError a s) = resp_body (jsonError b t) \<longleftrightarrow> a = b"
  unfolding jsonError_simps by (metis JSON_roundtrip error_body_plain error_body_inj option.inject)

section \<open>Properties\<close>

text \<open>C20: The constant-time comparison of the CSRF check is exact: a cookie-authenticated mutation
  passes exactly when it comes from the configured public origin and carries the session's own token,
  equal in length and in every character.\<close>

theorem hasValidCSRF_exact:
  "hasValidCSRF new_URL env request session \<longleftrightarrow>
     hasSameOrigin new_URL env request \<and> get_header ''x-csrf-token'' (req_headers request) = Some (csrfToken session)"
  by (auto simp: hasValidCSRF_def token_difference_eq split: option.splits if_splits)

text \<open>The bounded reader returns the whole stream, byte for byte and in order, exactly when the
  stream ends without an error and holds at most the permitted number of bytes; in every other case it
  throws, and it cancels a stream it opened exactly when it throws.\<close>

theorem readBoundedBytes_exact:
  "(fst (readBoundedBytes (Some es) maximum) = Inr bytes \<longleftrightarrow>
      Stream_failure \<notin> set es \<and> bytes = chunk_bytes es \<and> length bytes \<le> maximum)
   \<and> (snd (readBoundedBytes (Some es) maximum) \<longleftrightarrow> threw (fst (readBoundedBytes (Some es) maximum)))
   \<and> threw (fst (readBoundedBytes None maximum))"
  using read_chunks_iff [of 0 "[]" maximum es bytes] by (simp add: readBoundedBytes_def read_chunks_cancel)

end
