(* ===== verification/Calendar.thy ===== *)
theory Calendar
  imports Regex
begin

text \<open>
  The part of JavaScript's \<^verbatim>\<open>Date\<close> that the query parsers use: days and milliseconds of the
  proleptic Gregorian calendar, \<^verbatim>\<open>Date.UTC\<close>, \<^verbatim>\<open>Date.parse\<close> on the date forms that have passed
  the source's expressions, and \<^verbatim>\<open>toISOString\<close>; then the two validators of
  \<^verbatim>\<open>web/src/lib/strict-list-query.ts\<close>. Years, days and milliseconds are unbounded integers; every
  text that reaches them has a four-digit year, far inside the range of \<^verbatim>\<open>Date\<close>.
\<close>

section \<open>Days\<close>

definition is_leap :: "int \<Rightarrow> bool" where
  "is_leap y = (4 dvd y \<and> (\<not> 100 dvd y \<or> 400 dvd y))"

definition day_from_year :: "int \<Rightarrow> int" where
  "day_from_year y = 365 * (y - 1970) + (y - 1969) div 4 - (y - 1901) div 100 + (y - 1601) div 400"

definition month_starts :: "bool \<Rightarrow> int list" where
  "month_starts leap = (if leap
     then [0, 31, 60, 91, 121, 152, 182, 213, 244, 274, 305, 335]
     else [0, 31, 59, 90, 120, 151, 181, 212, 243, 273, 304, 334])"

definition month_lengths :: "bool \<Rightarrow> int list" where
  "month_lengths leap = [31, if leap then 29 else 28, 31, 30, 31, 30, 31, 31, 30, 31, 30, 31]"

definition days_in_month :: "int \<Rightarrow> nat \<Rightarrow> int" where
  "days_in_month y m = month_lengths (is_leap y) ! (m - 1)"

text \<open>The day number of a date; month 13 is January of the next year, day 0 the day before the first.\<close>

definition make_day :: "int \<Rightarrow> nat \<Rightarrow> int \<Rightarrow> int" where
  "make_day y m d =
     (let y' = y + int ((m - 1) div 12) in day_from_year y' + month_starts (is_leap y') ! ((m - 1) mod 12) + d - 1)"

definition year_from_day :: "int \<Rightarrow> int" where
  "year_from_day t =
     (let y = 1970 + (400 * t) div 146097 in
      if t < day_from_year y then y - 1 else if day_from_year (y + 1) \<le> t then y + 1 else y)"

definition date_from_day :: "int \<Rightarrow> int \<times> nat \<times> int" where
  "date_from_day t =
     (let y = year_from_day t; n = t - day_from_year y;
          m = length (filter (\<lambda>s. s \<le> n) (month_starts (is_leap y))) in
      (y, m, n - month_starts (is_leap y) ! (m - 1) + 1))"

section \<open>Texts\<close>

definition two_digits :: "nat \<Rightarrow> string" where
  "two_digits n = padStart (nat_string n) 2 CHR ''0''"

definition year_text :: "int \<Rightarrow> string" where
  "year_text y = (if 0 \<le> y \<and> y \<le> 9999 then padStart (nat_string (nat y)) 4 CHR ''0''
     else (if y < 0 then ''-'' else ''+'') @ padStart (nat_string (nat \<bar>y\<bar>)) 6 CHR ''0'')"

definition iso_date :: "int \<times> nat \<times> int \<Rightarrow> string" where
  "iso_date = (\<lambda>(y, m, d). year_text y @ ''-'' @ two_digits m @ ''-'' @ two_digits (nat d))"

definition toISOString :: "int \<Rightarrow> string" where
  "toISOString ms =
     (let r = nat (ms mod 86400000) in
      iso_date (date_from_day (ms div 86400000)) @ ''T'' @ two_digits (r div 3600000) @ '':''
      @ two_digits (r div 60000 mod 60) @ '':'' @ two_digits (r div 1000 mod 60) @ ''.''
      @ padStart (nat_string (r mod 1000)) 3 CHR ''0'' @ ''Z'')"

definition num_at :: "nat \<Rightarrow> nat \<Rightarrow> string \<Rightarrow> nat" where
  "num_at i k s = digits_value (take k (drop i s))"

text \<open>The fraction of a second (its first three digits) and the offset from UTC in minutes of a text
  that has the RFC 3339 shape below.\<close>

definition fraction_ms :: "string \<Rightarrow> nat" where
  "fraction_ms s =
     (if take 1 (drop 19 s) = ''.''
      then digits_value (padEnd (take 3 (takeWhile is_digit (drop 20 s))) 3 CHR ''0'') else 0)"

definition offset_minutes :: "string \<Rightarrow> int" where
  "offset_minutes s =
     (if endsWith s ''Z'' then 0
      else let z = slice_from_end s 6; n = int (60 * num_at 1 2 z + num_at 4 2 z) in
        if take 1 z = ''-'' then - n else n)"

text \<open>\<^verbatim>\<open>Date.parse\<close> on such a text; \<open>None\<close> is \<^verbatim>\<open>NaN\<close>. A day up to 31 is accepted in every month and
  counted on from the first.\<close>

definition date_parse :: "string \<Rightarrow> int option" where
  "date_parse s =
     (let y = int (num_at 0 4 s); m = num_at 5 2 s; d = num_at 8 2 s;
          hh = num_at 11 2 s; mm = num_at 14 2 s; ss = num_at 17 2 s in
      if m < 1 \<or> 12 < m \<or> d < 1 \<or> 31 < d \<or> 23 < hh \<or> 59 < mm \<or> 59 < ss then None
      else Some (make_day y m (int d) * 86400000 + int (hh * 3600000 + mm * 60000 + ss * 1000 + fraction_ms s)
                 - offset_minutes s * 60000))"

definition isUTCDate :: "string \<Rightarrow> bool" where
  "isUTCDate v =
     (rx_test (RSeq (RRep (RSet is_digit) 4 4) (RSeq (RChar CHR ''-'') (RSeq (RRep (RSet is_digit) 2 2)
        (RSeq (RChar CHR ''-'') (RRep (RSet is_digit) 2 2))))) v
      \<and> (case date_parse (v @ ''T00:00:00.000Z'') of
           None \<Rightarrow> False
         | Some ms \<Rightarrow> take 10 (toISOString ms) = v))"

abbreviation dd :: rx where
  "dd \<equiv> RRep (RSet is_digit) 2 2"

definition rfc3339 :: rx where
  "rfc3339 =
     RSeq (RRep (RSet is_digit) 4 4) (RSeq (RChar CHR ''-'') (RSeq dd (RSeq (RChar CHR ''-'') (RSeq dd
     (RSeq (RChar CHR ''T'') (RSeq dd (RSeq (RChar CHR '':'') (RSeq dd (RSeq (RChar CHR '':'') (RSeq dd
     (RSeq (ROpt (RSeq (RChar CHR ''.'') (RRep (RSet is_digit) 1 9)))
       (RAlt (RChar CHR ''Z'') (RSeq (RSet (one_of ''+-'')) (RSeq dd (RSeq (RChar CHR '':'') dd)))))))))))))))"

text \<open>\<^verbatim>\<open>new Date(Date.UTC(year, month, 0)).getUTCDate()\<close>: a year below 100 counts from 1900.\<close>

definition last_day_of_month :: "int \<Rightarrow> nat \<Rightarrow> int" where
  "last_day_of_month y m =
     snd (snd (date_from_day (make_day (if 0 \<le> y \<and> y \<le> 99 then 1900 + y else y) (m + 1) 0)))"

definition isRFC3339Timestamp :: "string \<Rightarrow> bool" where
  "isRFC3339Timestamp v =
     (if \<not> rx_test rfc3339 v then False
      else let yearValue = int (num_at 0 4 v); monthValue = num_at 5 2 v; dayValue = num_at 8 2 v in
        if monthValue < 1 \<or> 12 < monthValue \<or> dayValue < 1 \<or> last_day_of_month yearValue monthValue < int dayValue
        then False
        else if 23 < num_at 11 2 v \<or> 59 < num_at 14 2 v \<or> 59 < num_at 17 2 v then False
        else if \<not> endsWith v ''Z'' \<and> (23 < num_at 1 2 (slice_from_end v 6) \<or> 59 < num_at 4 2 (slice_from_end v 6))
        then False
        else date_parse v \<noteq> None)"

section \<open>The calendar is consistent\<close>

lemma div_bounds: "0 < k \<Longrightarrow> k * (x div k) \<le> x" "0 < k \<Longrightarrow> x < k * (x div k) + k" for k :: int
  using pos_mod_bound [of k x] pos_mod_sign [of k x] mult_div_mod_eq [of k x] by linarith+

lemma div_step: "0 < k \<Longrightarrow> (x + 1) div k = x div k + (if k dvd x + 1 then 1 else 0)" for k :: int
proof -
  assume k: "0 < k"
  let ?r = "(x + 1) mod k"
  have r: "0 \<le> ?r" "?r < k" using k by auto
  have e: "x + 1 = k * ((x + 1) div k) + ?r" by simp
  show ?thesis
  proof (cases "k dvd x + 1")
    case True
    then have "x = k * ((x + 1) div k - 1) + (k - 1)" using e by (simp add: algebra_simps)
    then have "x div k = (x + 1) div k - 1" using k by (intro int_div_pos_eq [where r = "k - 1"]) auto
    then show ?thesis using True by simp
  next
    case False
    then have "0 \<le> ?r - 1" using r by (simp add: dvd_eq_mod_eq_0)
    moreover have "x = k * ((x + 1) div k) + (?r - 1)" using e by linarith
    ultimately have "x div k = (x + 1) div k" using r by (intro int_div_pos_eq [where r = "?r - 1"]) auto
    then show ?thesis using False by simp
  qed
qed

lemma day_from_year_bounds:
  shows "146097 * (y - 1970) - 506 \<le> 400 * day_from_year y" (is ?lo)
    and "400 * day_from_year y \<le> 146097 * (y - 1970) + 589" (is ?hi)
proof -
  define a b c where "a = (y - 1969) div 4" and "b = (y - 1901) div 100" and "c = (y - 1601) div 400"
  have "4 * a \<le> y - 1969" "y - 1969 < 4 * a + 4" "100 * b \<le> y - 1901" "y - 1901 < 100 * b + 100"
    "400 * c \<le> y - 1601" "y - 1601 < 400 * c + 400"
    unfolding a_def b_def c_def by (intro div_bounds; simp)+
  moreover have "day_from_year y = 365 * (y - 1970) + a - b + c" by (simp add: day_from_year_def a_def b_def c_def)
  ultimately show ?lo and ?hi by (simp_all add: algebra_simps)
qed

lemma year_from_day_bounds:
  shows "day_from_year (year_from_day t) \<le> t" "t < day_from_year (year_from_day t + 1)"
proof -
  define q where "q = (400 * t) div 146097"
  have q: "146097 * q \<le> 400 * t" "400 * t < 146097 * q + 146097" unfolding q_def by (intro div_bounds; simp)+
  have lo: "day_from_year (1970 + q - 1) \<le> t"
    using day_from_year_bounds(2) [of "1970 + q - 1"] q by (simp add: algebra_simps)
  have hi: "t < day_from_year (1970 + q + 1 + 1)"
    using day_from_year_bounds(1) [of "1970 + q + 1 + 1"] q by (simp add: algebra_simps)
  have "year_from_day t = (if t < day_from_year (1970 + q) then 1970 + q - 1
      else if day_from_year (1970 + q + 1) \<le> t then 1970 + q + 1 else 1970 + q)"
    by (simp only: year_from_day_def Let_def q_def)
  then show "day_from_year (year_from_day t) \<le> t" "t < day_from_year (year_from_day t + 1)"
    using lo hi by (auto split: if_splits)
qed

lemma dvd_shift: "k dvd c \<Longrightarrow> k dvd y - c \<longleftrightarrow> k dvd y" for k :: int
  using dvd_add_left_iff [of k "- c" y] by simp

lemma day_from_year_Suc: "day_from_year (y + 1) = day_from_year y + (if is_leap y then 366 else 365)"
proof -
  define a b c where "a = (y - 1969) div 4" and "b = (y - 1901) div 100" and "c = (y - 1601) div 400"
  have "(y + 1 - 1969) div 4 = a + (if 4 dvd y then 1 else 0)"
    using div_step [of 4 "y - 1969"] dvd_shift [of 4 1968 y] by (simp add: a_def)
  moreover have "(y + 1 - 1901) div 100 = b + (if 100 dvd y then 1 else 0)"
    using div_step [of 100 "y - 1901"] dvd_shift [of 100 1900 y] by (simp add: b_def)
  moreover have "(y + 1 - 1601) div 400 = c + (if 400 dvd y then 1 else 0)"
    using div_step [of 400 "y - 1601"] dvd_shift [of 400 1600 y] by (simp add: c_def)
  ultimately have next_year: "day_from_year (y + 1) = 365 * (y + 1 - 1970) + (a + (if 4 dvd y then 1 else 0))
      - (b + (if 100 dvd y then 1 else 0)) + (c + (if 400 dvd y then 1 else 0))"
    by (simp only: day_from_year_def)
  have this_year: "day_from_year y = 365 * (y - 1970) + a - b + c"
    by (simp only: day_from_year_def a_def b_def c_def)
  have "400 dvd y \<longrightarrow> 100 dvd y" "100 dvd y \<longrightarrow> 4 dvd y"
    using dvd_trans [of 100 400 y] dvd_trans [of 4 100 y] by simp_all
  then show ?thesis unfolding next_year this_year is_leap_def
    by (cases "4 dvd y"; cases "100 dvd y"; cases "400 dvd y") simp_all
qed

lemma day_from_year_mono: "x < y \<Longrightarrow> day_from_year (x + 1) \<le> day_from_year y"
proof (induction "nat (y - x)" arbitrary: y)
  case (Suc n)
  show ?case
  proof (cases "y = x + 1")
    case False
    then have "day_from_year (x + 1) \<le> day_from_year (y - 1)" using Suc by (intro Suc.hyps) auto
    then show ?thesis using day_from_year_Suc [of "y - 1"] by simp
  qed simp
qed simp

lemma year_from_day_unique:
  assumes "day_from_year y \<le> t" "t < day_from_year (y + 1)"
  shows "year_from_day t = y"
proof -
  consider "year_from_day t < y" | "y < year_from_day t" | "year_from_day t = y" by linarith
  then show ?thesis
  proof cases
    case 1
    then show ?thesis using day_from_year_mono [OF 1] year_from_day_bounds(2) [of t] assms by linarith
  next
    case 2
    then show ?thesis using day_from_year_mono [OF 2] year_from_day_bounds(1) [of t] assms by linarith
  qed
qed

lemma month_cases: "1 \<le> m \<Longrightarrow> m \<le> 12 \<Longrightarrow>
    m = Suc 0 \<or> m = 2 \<or> m = 3 \<or> m = 4 \<or> m = 5 \<or> m = 6 \<or> m = 7 \<or> m = 8 \<or> m = 9 \<or> m = 10 \<or> m = 11 \<or> m = (12 :: nat)"
  by presburger

lemma month_table:
  assumes "1 \<le> m" "m \<le> 12" "1 \<le> d" "d \<le> month_lengths leap ! (m - 1)"
  shows "length (filter (\<lambda>s. s \<le> month_starts leap ! (m - 1) + d - 1) (month_starts leap)) = m"
    and "0 \<le> month_starts leap ! (m - 1)"
    and "month_starts leap ! (m - 1) + d \<le> (if leap then 366 else 365)"
  using month_cases [OF assms(1,2)] assms(3,4)
  by (auto simp: month_starts_def month_lengths_def nth_Cons' split: if_splits)

text \<open>A calendar date is recovered from its day number.\<close>

lemma date_from_make_day:
  assumes "1 \<le> m" "m \<le> 12" "1 \<le> d" "d \<le> days_in_month y m"
  shows "date_from_day (make_day y m d) = (y, m, d)"
proof -
  note t = month_table [OF assms(1,2,3) assms(4) [unfolded days_in_month_def]]
  have mk: "make_day y m d = day_from_year y + month_starts (is_leap y) ! (m - 1) + d - 1"
    using assms by (simp add: make_day_def)
  have "year_from_day (make_day y m d) = y"
    using t day_from_year_Suc [of y] assms by (intro year_from_day_unique) (auto simp: mk split: if_splits)
  then show ?thesis using t(1) by (simp add: date_from_day_def Let_def mk add_diff_eq)
qed

text \<open>A day past the end of its month is counted into the next month; December has 31 days.\<close>

lemma overflowing_day:
  assumes "1 \<le> m" "m \<le> 12" "days_in_month y m < d" "d \<le> 31"
  shows "date_from_day (make_day y m d) = (y, m + 1, d - days_in_month y m)"
proof -
  have step: "m \<noteq> 12 \<and> d - days_in_month y m \<le> days_in_month y (m + 1)
      \<and> make_day y m d = make_day y (m + 1) (d - days_in_month y m)"
    using month_cases [OF assms(1,2)] assms(3,4)
    by (auto simp: make_day_def days_in_month_def month_starts_def month_lengths_def nth_Cons' split: if_splits)
  then have "date_from_day (make_day y (m + 1) (d - days_in_month y m)) = (y, m + 1, d - days_in_month y m)"
    using assms by (intro date_from_make_day) auto
  then show ?thesis using step by simp
qed

lemma date_text_parts:
  assumes "y < 10000" "m < 100" "0 \<le> d" "d < 100"
  shows "num_at 0 4 (iso_date (int y, m, d) @ t) = y" "num_at 5 2 (iso_date (int y, m, d) @ t) = m"
    "num_at 8 2 (iso_date (int y, m, d) @ t) = nat d" "length (iso_date (int y, m, d)) = 10"
proof -
  have w: "length (year_text (int y)) = 4" "digits_value (year_text (int y)) = y"
    using fixed_width [of y 4] assms by (auto simp: year_text_def)
  have x: "length (two_digits n) = 2" "digits_value (two_digits n) = n" if "n < 100" for n
    using fixed_width [of n 2] that by (auto simp: two_digits_def)
  show "length (iso_date (int y, m, d)) = 10" using w x assms by (simp add: iso_date_def)
  show "num_at 0 4 (iso_date (int y, m, d) @ t) = y" "num_at 5 2 (iso_date (int y, m, d) @ t) = m"
    "num_at 8 2 (iso_date (int y, m, d) @ t) = nat d"
    using w x [of m] x [of "nat d"] assms by (simp_all add: iso_date_def num_at_def)
qed

abbreviation date_shape :: rx where
  "date_shape \<equiv> RSeq (RRep (RSet is_digit) 4 4) (RSeq (RChar CHR ''-'') (RSeq (RRep (RSet is_digit) 2 2)
     (RSeq (RChar CHR ''-'') (RRep (RSet is_digit) 2 2))))"

lemma date_shape_iff:
  "rx_test date_shape v \<longleftrightarrow> (\<exists>y m d. y < 10000 \<and> m < 100 \<and> d < 100 \<and> v = iso_date (int y, m, int d))"
proof
  assume "rx_test date_shape v"
  then obtain a b c where v: "v = a @ CHR ''-'' # b @ CHR ''-'' # c"
    and l: "length a = 4" "length b = 2" "length c = 2" "all_digits a" "all_digits b" "all_digits c"
    unfolding test_seq [of "RRep r m n" for r m n] test_seq_set all_digits_def by auto
  have "digits_value a < 10000" "digits_value b < 100" "digits_value c < 100"
    using digits_value_less [of a] digits_value_less [of b] digits_value_less [of c] l by auto
  moreover have "v = iso_date (int (digits_value a), digits_value b, int (digits_value c))"
    using fixed_width_digits [of a 4] fixed_width_digits [of b 2] fixed_width_digits [of c 2] l calculation
    by (simp add: v iso_date_def year_text_def two_digits_def)
  ultimately show "\<exists>y m d. y < 10000 \<and> m < 100 \<and> d < 100 \<and> v = iso_date (int y, m, int d)" by blast
next
  assume "\<exists>y m d. y < 10000 \<and> m < 100 \<and> d < 100 \<and> v = iso_date (int y, m, int d)"
  then obtain y m d where v: "v = iso_date (int y, m, int d)" "y < 10000" "m < 100" "d < 100" by blast
  show "rx_test date_shape v"
    using fixed_width [of y 4] fixed_width [of m 2] fixed_width [of d 2] v
    by (simp add: iso_date_def year_text_def two_digits_def all_digits_def)
qed

lemma take_iso: "0 \<le> y \<Longrightarrow> y < 10000 \<Longrightarrow> m < 100 \<Longrightarrow> 0 \<le> d \<Longrightarrow> d < 100 \<Longrightarrow>
    date_from_day (ms div 86400000) = (y, m, d) \<Longrightarrow> take 10 (toISOString ms) = iso_date (y, m, d)"
  using date_text_parts(4) [of "nat y" m d] by (simp add: toISOString_def Let_def)

lemma midnight_parts: "length v = 10 \<Longrightarrow>
    num_at 11 2 (v @ ''T00:00:00.000Z'') = 0 \<and> num_at 14 2 (v @ ''T00:00:00.000Z'') = 0
    \<and> num_at 17 2 (v @ ''T00:00:00.000Z'') = 0 \<and> fraction_ms (v @ ''T00:00:00.000Z'') = 0
    \<and> offset_minutes (v @ ''T00:00:00.000Z'') = 0"
  by (simp add: num_at_def fraction_ms_def offset_minutes_def endsWith_def padEnd_def digits_value_def
      digit_value_def char_class_defs)

lemma parse_midnight:
  assumes "y < 10000" "m < 100" "d < 100"
  shows "date_parse (iso_date (int y, m, int d) @ ''T00:00:00.000Z'') =
     (if m < 1 \<or> 12 < m \<or> d < 1 \<or> 31 < d then None else Some (make_day (int y) m (int d) * 86400000))"
  using date_text_parts(1-3) [of y m "int d" "''T00:00:00.000Z''"] date_text_parts(4) [of y m "int d"] midnight_parts [of "iso_date (int y, m, int d)"] assms
  unfolding date_parse_def Let_def by simp

text \<open>The date filter accepts exactly the dates of the calendar: four digits of the year, two of
  the month and two of the day, with the day inside the month (29 February only in leap years). A day
  such as 2023-02-30, which \<^verbatim>\<open>Date\<close> would silently move to March, is refused.\<close>

theorem isUTCDate_exact:
  "isUTCDate v \<longleftrightarrow>
     (\<exists>y m d. y < 10000 \<and> 1 \<le> m \<and> m \<le> 12 \<and> 1 \<le> d \<and> int d \<le> days_in_month (int y) m
        \<and> v = iso_date (int y, m, int d))"
proof
  assume a: "isUTCDate v"
  then obtain y m d where v: "y < 10000" "m < 100" "d < 100" "v = iso_date (int y, m, int d)"
    using date_shape_iff unfolding isUTCDate_def by blast
  have r: "1 \<le> m" "m \<le> 12" "1 \<le> d" "d \<le> 31" and t: "take 10 (toISOString (make_day (int y) m (int d) * 86400000)) = v"
    using a parse_midnight [OF v(1-3)] unfolding isUTCDate_def v(4) by (auto split: if_splits)
  have "int d \<le> days_in_month (int y) m"
  proof (rule ccontr)
    assume "\<not> int d \<le> days_in_month (int y) m"
    then have o': "date_from_day (make_day (int y) m (int d)) = (int y, m + 1, int d - days_in_month (int y) m)"
      using r by (intro overflowing_day) auto
    have p: "0 \<le> days_in_month (int y) m"
      using month_cases [OF r(1,2)] by (auto simp: days_in_month_def month_lengths_def nth_Cons')
    have "v = iso_date (int y, m + 1, int d - days_in_month (int y) m)"
      using t take_iso [of "int y" "m + 1" "int d - days_in_month (int y) m" "make_day (int y) m (int d) * 86400000"]
        o' v r p \<open>\<not> int d \<le> days_in_month (int y) m\<close> by simp
    then have "m = m + 1"
      using date_text_parts(2) [of y m "int d" "[]"]
        date_text_parts(2) [of y "m + 1" "int d - days_in_month (int y) m" "[]"] v r p
        \<open>\<not> int d \<le> days_in_month (int y) m\<close> by simp
    then show False by simp
  qed
  then show "\<exists>y m d. y < 10000 \<and> 1 \<le> m \<and> m \<le> 12 \<and> 1 \<le> d \<and> int d \<le> days_in_month (int y) m
      \<and> v = iso_date (int y, m, int d)" using v r by blast
next
  assume "\<exists>y m d. y < 10000 \<and> 1 \<le> m \<and> m \<le> 12 \<and> 1 \<le> d \<and> int d \<le> days_in_month (int y) m
      \<and> v = iso_date (int y, m, int d)"
  then obtain y m d where v: "y < 10000" "1 \<le> m" "m \<le> 12" "1 \<le> d" "int d \<le> days_in_month (int y) m"
    "v = iso_date (int y, m, int d)" by blast
  have d: "d \<le> 31"
    using v(5) month_cases [OF v(2,3)] by (auto simp: days_in_month_def month_lengths_def nth_Cons' split: if_splits)
  have "take 10 (toISOString (make_day (int y) m (int d) * 86400000)) = v"
    using take_iso [of "int y" m "int d" "make_day (int y) m (int d) * 86400000"] date_from_make_day [of m "int d" "int y"] v d
    by simp
  moreover have "rx_test date_shape v"
    unfolding date_shape_iff using v d by (intro exI [of _ y] exI [of _ m] exI [of _ d]) simp
  ultimately show "isUTCDate v" using parse_midnight [of y m d] v d by (auto simp: isUTCDate_def)
qed

end
