(* ===== verification/ApiShape.thy ===== *)
theory ApiShape
  imports Http Calendar
begin

text \<open>
  What the request parsers and response sanitizers of \<^verbatim>\<open>web/src/lib/api/*.ts\<close> share: tests on unknown
  JSON values, the idempotency-key test, and the locale \<open>upstream_sanitizer\<close>, the contract every
  mutation proxy relies on: a possible commit is never reported as a definite failure, and a failure is
  never reported as a success.

  \<^verbatim>\<open>Date.parse\<close> on an arbitrary text is defined by the platform; the operations that call it on such a
  text take the test \<open>is_date\<close> (the result is a number) as a parameter.
\<close>

section \<open>Unknown values\<close>

fun isRecord :: "json \<Rightarrow> bool" where
  "isRecord (JObj ob) = True"
| "isRecord _ = False"

fun object_keys :: "json \<Rightarrow> string list" where
  "object_keys (JObj ob) = map fst ob"
| "object_keys _ = []"

definition hasExactlyKeys :: "json \<Rightarrow> string list \<Rightarrow> bool" where
  "hasExactlyKeys v expected =
     (length (object_keys v) = length expected \<and> list_all (\<lambda>k. List.member (object_keys v) k) expected)"

definition only_keys :: "json \<Rightarrow> string list \<Rightarrow> bool" where
  "only_keys v permitted = (\<not> list_ex (\<lambda>k. \<not> List.member permitted k) (object_keys v))"

text \<open>A test on a property that must be a string.\<close>

definition string_field :: "string \<Rightarrow> (string \<Rightarrow> bool) \<Rightarrow> json \<Rightarrow> bool" where
  "string_field k P v = (case field k v of Some (JStr s) \<Rightarrow> P s | _ \<Rightarrow> False)"

definition optional_field :: "string \<Rightarrow> (json \<Rightarrow> bool) \<Rightarrow> json \<Rightarrow> bool" where
  "optional_field k P v = (case field k v of None \<Rightarrow> True | Some x \<Rightarrow> P x)"

text \<open>A property that has been tested, copied into a new object.\<close>

definition copy_field :: "json \<Rightarrow> string \<Rightarrow> (string \<times> json) list" where
  "copy_field v k = (case field k v of None \<Rightarrow> [] | Some x \<Rightarrow> [(k, x)])"

definition copy_fields :: "json \<Rightarrow> string list \<Rightarrow> json" where
  "copy_fields v ks = JObj (concat (map (copy_field v) ks))"

definition field_string :: "string \<Rightarrow> json \<Rightarrow> string" where
  "field_string k v = (case field k v of Some (JStr s) \<Rightarrow> s | _ \<Rightarrow> '''')"

definition error_code :: "json \<Rightarrow> string option" where
  "error_code v = (case field ''error'' v of
     Some e \<Rightarrow> (if isRecord e then (case field ''code'' e of Some (JStr c) \<Rightarrow> Some c | _ \<Rightarrow> None) else None)
   | None \<Rightarrow> None)"

lemma map_of_copied: "map_of (concat (map (copy_field v) ks)) k = (if k \<in> set ks then field k v else None)"
  by (induction ks) (auto simp: copy_field_def split: option.splits)

lemma field_copy: "field k (copy_fields v ks) = (if k \<in> set ks then field k v else None)"
  by (simp add: copy_fields_def map_of_copied)

lemma copied_keys: "(\<And>k. k \<in> set ks \<Longrightarrow> field k v \<noteq> None) \<Longrightarrow> object_keys (copy_fields v ks) = ks"
proof (induction ks)
  case (Cons a ks)
  then obtain x where "field a v = Some x" by fastforce
  then show ?case using Cons by (simp add: copy_fields_def copy_field_def)
qed (simp add: copy_fields_def)

lemma copied_test: "string_field k P (copy_fields v ks) \<longleftrightarrow> k \<in> set ks \<and> string_field k P v"
  by (auto simp: string_field_def field_copy)

lemma copied_twice: "copy_fields (copy_fields v ks) ks = copy_fields v ks"
proof -
  have "map (copy_field (copy_fields v ks)) ks = map (copy_field v) ks" by (simp add: copy_field_def field_copy)
  then have "JObj (concat (map (copy_field (copy_fields v ks)) ks)) = JObj (concat (map (copy_field v) ks))" by (simp only:)
  then show ?thesis by (simp only: copy_fields_def)
qed

lemma string_field_present: "string_field k P v \<Longrightarrow> \<exists>s. field k v = Some (JStr s) \<and> P s"
  by (auto simp: string_field_def split: option.splits json.splits)

lemma isRecord_copy [simp]: "isRecord (copy_fields v ks)"
  by (simp add: copy_fields_def)

section \<open>Idempotency keys\<close>

text \<open>The loop over the characters of \<^verbatim>\<open>isValidAccountIdempotencyKey\<close> and of
  \<^verbatim>\<open>isValidReconciliationIdempotencyKey\<close>, and the expression of the other files.\<close>

definition isValidAccountIdempotencyKey :: "string option \<Rightarrow> bool" where
  "isValidAccountIdempotencyKey v = (case v of
     None \<Rightarrow> False
   | Some key \<Rightarrow> if length key < 16 \<or> 255 < length key then False
                else list_all (\<lambda>c. \<not> (code c < 33 \<or> 126 < code c)) key)"

definition isValidReconciliationIdempotencyKey :: "string option \<Rightarrow> bool" where
  "isValidReconciliationIdempotencyKey v = (case v of
     None \<Rightarrow> False
   | Some key \<Rightarrow> if length key < 16 \<or> 255 < length key then False
                else list_all (\<lambda>c. \<not> (code c < 33 \<or> 126 < code c)) key)"

definition isCorrectionIdempotencyKey :: "string option \<Rightarrow> bool" where
  "isCorrectionIdempotencyKey v = (case v of
     None \<Rightarrow> False
   | Some key \<Rightarrow> trim key = key \<and> 16 \<le> length key \<and> length key \<le> 255 \<and> rx_test (RPlus (RSet is_visible)) key)"

definition isFundingIdempotencyKey :: "string option \<Rightarrow> bool" where
  "isFundingIdempotencyKey v = (case v of
     None \<Rightarrow> False
   | Some key \<Rightarrow> trim key = key \<and> 16 \<le> length key \<and> length key \<le> 255 \<and> rx_test (RPlus (RSet is_visible)) key)"

definition isWebhookReplayIdempotencyKey :: "string option \<Rightarrow> bool" where
  "isWebhookReplayIdempotencyKey v = (case v of None \<Rightarrow> False | Some key \<Rightarrow> rx_test visibleASCII key)"

text \<open>The five idempotency-key tests of the BFF accept the same keys: between 16 and 255 printable
  ASCII characters without spaces. A key retained by one browser command is therefore valid at every
  boundary it can be sent to.\<close>

theorem idempotency_keys_agree:
  "isValidAccountIdempotencyKey v = isWebhookReplayIdempotencyKey v
   \<and> isValidReconciliationIdempotencyKey v = isWebhookReplayIdempotencyKey v
   \<and> isCorrectionIdempotencyKey v = isWebhookReplayIdempotencyKey v
   \<and> isFundingIdempotencyKey v = isWebhookReplayIdempotencyKey v
   \<and> (isWebhookReplayIdempotencyKey v \<longleftrightarrow>
        (\<exists>key. v = Some key \<and> 16 \<le> length key \<and> length key \<le> 255 \<and> list_all (\<lambda>c. 33 \<le> code c \<and> code c \<le> 126) key))"
proof (cases v)
  case (Some key)
  have vis: "list_all is_visible key \<longleftrightarrow> (\<forall>c\<in>set key. 33 \<le> code c \<and> code c \<le> 126)"
    by (simp add: list_all_iff is_visible_def between_def)
  have tr: "list_all is_visible key \<Longrightarrow> trim key = key"
    using visible_not_space by (intro trim_no_space) (auto simp: list_all_iff)
  show ?thesis
    using vis tr unfolding Some
    by (auto simp: isValidAccountIdempotencyKey_def isValidReconciliationIdempotencyKey_def
        isCorrectionIdempotencyKey_def isFundingIdempotencyKey_def isWebhookReplayIdempotencyKey_def
        visibleASCII_test list_all_iff)
qed (simp add: isValidAccountIdempotencyKey_def isValidReconciliationIdempotencyKey_def
    isCorrectionIdempotencyKey_def isFundingIdempotencyKey_def isWebhookReplayIdempotencyKey_def)

section \<open>Sanitized upstream responses\<close>

record sanitized =
  san_status :: nat
  san_body :: json

abbreviation successful :: "nat \<Rightarrow> bool" where
  "successful st \<equiv> 200 \<le> st \<and> st < 300"

definition error_outcome :: "nat \<Rightarrow> string \<Rightarrow> sanitized" where
  "error_outcome st c = \<lparr>san_status = st, san_body = error_body c\<rparr>"

text \<open>The contract. \<open>sanitize st raw\<close> is what the browser is told of an upstream status and body,
  \<open>valid\<close> the success bodies, \<open>unknown\<close> the code of an outcome that is not known.\<close>

locale upstream_sanitizer =
  fixes sanitize :: "nat \<Rightarrow> string \<Rightarrow> sanitized"
    and valid :: "json \<Rightarrow> bool"
    and unknown :: string
  assumes success_is_evidence: "successful (san_status (sanitize st raw)) \<Longrightarrow>
      successful st \<and> (\<exists>v. JSON_parse raw = Some v \<and> valid v)"
    and commit_kept: "successful st \<Longrightarrow>
      successful (san_status (sanitize st raw)) \<or> sanitize st raw = error_outcome 504 unknown"
    and failure_kept: "\<not> successful st \<Longrightarrow> 400 \<le> san_status (sanitize st raw)"
begin

text \<open>What the browser may conclude: from a success, that the upstream succeeded; from a definite
  failure (a 4xx status), that it did not.\<close>

lemma success_sound: "successful (san_status (sanitize st raw)) \<Longrightarrow> successful st"
  using success_is_evidence by blast

lemma definite_failure_sound: "400 \<le> san_status (sanitize st raw) \<Longrightarrow> san_status (sanitize st raw) < 500 \<Longrightarrow> \<not> successful st"
  using commit_kept [of st raw] by (auto simp: error_outcome_def)

lemma unusable_success: "successful st \<Longrightarrow> JSON_parse raw = None \<Longrightarrow> sanitize st raw = error_outcome 504 unknown"
  using commit_kept [of st raw] success_is_evidence [of st raw] by auto

lemma status_range: "successful (san_status (sanitize st raw)) \<or> 400 \<le> san_status (sanitize st raw)"
  using commit_kept [of st raw] failure_kept [of st raw] by (cases "successful st") (auto simp: error_outcome_def)

end

end
