(* ===== verification/Browser.thy ===== *)
theory Browser
  imports ApiShape
begin

text \<open>
  What the console's command hooks use of the browser, and the contract they share.

  \<^verbatim>\<open>sessionStorage\<close> is a map together with the ways in which it can fail: reading it can throw, and a
  write can throw or be dropped. A hook is a transition function: an event (a click, the arrival of a
  response, a reload, a change of the storage's condition) takes a state to the next and emits signals,
  the requests sent and the moments at which the hook regards the outcome of what it sent as final.
  Fresh identifiers (\<^verbatim>\<open>crypto.randomUUID()\<close>) are part of the event. A handler reads the state of the
  latest render. Awaiting a response and reading its body are one event, as nothing that the hook
  changes lies between them.

  The contract is the retry discipline: while the outcome of a command is open, the only command that
  may be sent is that same command under the same idempotency key.
\<close>

section \<open>Session storage\<close>

datatype write_mode = Writes | Refuses | Drops

record storage =
  stored :: "string \<Rightarrow> string option"
  readable :: bool
  write_mode :: write_mode

definition getItem :: "string \<Rightarrow> storage \<Rightarrow> string option outcome" where
  "getItem k st = (if readable st then Inr (stored st k) else Inl ''SecurityError'')"

definition setItem :: "string \<Rightarrow> string \<Rightarrow> storage \<Rightarrow> storage outcome" where
  "setItem k v st = (if \<not> readable st then Inl ''SecurityError'' else case write_mode st of
     Writes \<Rightarrow> Inr (st\<lparr>stored := (stored st)(k \<mapsto> v)\<rparr>)
   | Refuses \<Rightarrow> Inl ''QuotaExceededError''
   | Drops \<Rightarrow> Inr st)"

definition removeItem :: "string \<Rightarrow> storage \<Rightarrow> storage outcome" where
  "removeItem k st = (if \<not> readable st then Inl ''SecurityError'' else case write_mode st of
     Drops \<Rightarrow> Inr st
   | _ \<Rightarrow> Inr (st\<lparr>stored := (stored st)(k := None)\<rparr>))"

lemma setItem_Inr: "setItem k v st = Inr st' \<Longrightarrow> write_mode st \<noteq> Drops \<Longrightarrow> stored st' = (stored st)(k \<mapsto> v)"
  by (auto simp: setItem_def split: if_splits write_mode.splits)

lemma setItem_kept: "setItem k v st = Inr st' \<Longrightarrow> readable st' = readable st \<and> write_mode st' = write_mode st"
  by (auto simp: setItem_def split: if_splits write_mode.splits)

lemma setItem_confirmed: "setItem k v st = Inr st' \<Longrightarrow> getItem k st' = Inr (Some v) \<Longrightarrow> stored st' = (stored st)(k \<mapsto> v)"
  by (auto simp: setItem_def getItem_def fun_eq_iff split: if_splits write_mode.splits)

lemma setItem_other: "setItem k v st = Inr st' \<Longrightarrow> j \<noteq> k \<Longrightarrow> stored st' j = stored st j"
  by (auto simp: setItem_def split: if_splits write_mode.splits)

lemma removeItem_stored: "removeItem k st = Inr st' \<Longrightarrow> stored st' = (stored st)(k := None) \<or> stored st' = stored st"
  by (auto simp: removeItem_def split: if_splits write_mode.splits)

section \<open>Responses\<close>

text \<open>What a fetch yields in the browser: a rejected promise, or a response whose body is JSON or not
  (\<^verbatim>\<open>response.json()\<close> then rejects).\<close>

record answer =
  ans_status :: nat
  ans_headers :: headers
  ans_json :: "json option"

datatype arrival = Lost | Arrived answer

definition ans_ok :: "answer \<Rightarrow> bool" where
  "ans_ok r = successful (ans_status r)"

text \<open>\<^verbatim>\<open>await response.json().catch(() => ({}))\<close>\<close>

definition json_or_empty :: "answer \<Rightarrow> json" where
  "json_or_empty r = (case ans_json r of Some v \<Rightarrow> v | None \<Rightarrow> JObj [])"

section \<open>The retry discipline\<close>

text \<open>\<open>Sent k\<close>: command \<open>k\<close> left the browser. \<open>Settled k\<close>: a definite outcome of \<open>k\<close> arrived.
  \<open>Abandoned\<close>: the user or fresh evidence closed whatever was open.\<close>

datatype 'k signal = Sent 'k | Settled 'k | Abandoned

fun after_signal :: "'k option \<Rightarrow> 'k signal \<Rightarrow> 'k option" where
  "after_signal owed (Sent k) = Some k"
| "after_signal owed (Settled k) = (if owed = Some k then None else owed)"
| "after_signal owed Abandoned = None"

fun permitted :: "'k option \<Rightarrow> 'k signal \<Rightarrow> bool" where
  "permitted owed (Sent k) = (owed = None \<or> owed = Some k)"
| "permitted owed _ = True"

fun disciplined :: "'k option \<Rightarrow> 'k signal list \<Rightarrow> bool" where
  "disciplined owed [] = True"
| "disciplined owed (x # tr) = (permitted owed x \<and> disciplined (after_signal owed x) tr)"

definition owed_after :: "'k option \<Rightarrow> 'k signal list \<Rightarrow> 'k option" where
  "owed_after owed tr = foldl after_signal owed tr"

lemma owed_after_simps [simp]:
  "owed_after owed [] = owed" "owed_after owed (x # tr) = owed_after (after_signal owed x) tr"
  by (simp_all add: owed_after_def)

lemma owed_after_append: "owed_after owed (xs @ ys) = owed_after (owed_after owed xs) ys"
  by (simp add: owed_after_def)

lemma disciplined_append: "disciplined owed (xs @ ys) \<longleftrightarrow> disciplined owed xs \<and> disciplined (owed_after owed xs) ys"
  by (induction xs arbitrary: owed) auto

lemma owed_until_settled:
  "Settled k \<notin> set xs \<Longrightarrow> Abandoned \<notin> set xs \<Longrightarrow> disciplined (Some k) (xs @ [Sent k']) \<Longrightarrow> k' = k"
proof (induction xs)
  case (Cons x xs)
  then show ?case by (cases x) auto
qed simp

text \<open>A command sent before an earlier one was settled or abandoned is that same command.\<close>

lemma disciplined_same:
  assumes "disciplined None (xs @ [Sent k] @ ys @ [Sent k'] @ zs)" "Settled k \<notin> set ys" "Abandoned \<notin> set ys"
  shows "k' = k"
proof -
  have "disciplined (Some k) ((ys @ [Sent k']) @ zs)"
    using assms(1) by (simp add: disciplined_append)
  then have "disciplined (Some k) (ys @ [Sent k'])" unfolding disciplined_append by blast
  with assms(2,3) show ?thesis by (rule owed_until_settled)
qed

fun run_hook :: "('s \<Rightarrow> 'e \<Rightarrow> 's \<times> 'k signal list) \<Rightarrow> 's \<Rightarrow> 'e list \<Rightarrow> 's \<times> 'k signal list" where
  "run_hook step s [] = (s, [])"
| "run_hook step s (e # es) = (case step s e of (s', sg) \<Rightarrow> (case run_hook step s' es of (s'', tr) \<Rightarrow> (s'', sg @ tr)))"

text \<open>The contract of a command hook. \<open>inv s owed\<close> relates its state to the command whose outcome is
  open; \<open>good\<close> are the events under which it keeps the discipline.\<close>

locale command_hook =
  fixes start :: "'s \<Rightarrow> bool"
    and step :: "'s \<Rightarrow> 'e \<Rightarrow> 's \<times> 'k signal list"
    and good :: "'e \<Rightarrow> bool"
    and inv :: "'s \<Rightarrow> 'k option \<Rightarrow> bool"
  assumes start_inv: "start s \<Longrightarrow> inv s None"
    and step_disciplined: "inv s owed \<Longrightarrow> good e \<Longrightarrow> step s e = (s', sg) \<Longrightarrow> disciplined owed sg"
    and step_inv: "inv s owed \<Longrightarrow> good e \<Longrightarrow> step s e = (s', sg) \<Longrightarrow> inv s' (owed_after owed sg)"
begin

lemma run_inv:
  assumes "inv s owed" "list_all good es" "run_hook step s es = (s', tr)"
  shows "disciplined owed tr \<and> inv s' (owed_after owed tr)"
  using assms
proof (induction es arbitrary: s owed tr)
  case (Cons e es)
  obtain s1 sg where e: "step s e = (s1, sg)" by (cases "step s e")
  obtain tr' where r: "run_hook step s1 es = (s', tr')" and tr: "tr = sg @ tr'"
    using Cons.prems(3) e by (auto split: prod.splits)
  have "disciplined owed sg" "inv s1 (owed_after owed sg)"
    using step_disciplined [OF Cons.prems(1) _ e] step_inv [OF Cons.prems(1) _ e] Cons.prems(2) by auto
  moreover from Cons.IH [OF this(2) _ r] Cons.prems(2)
  have "disciplined (owed_after owed sg) tr' \<and> inv s' (owed_after (owed_after owed sg) tr')" by simp
  ultimately show ?case by (simp add: tr disciplined_append owed_after_append)
qed simp

lemma run_disciplined: "start s \<Longrightarrow> list_all good es \<Longrightarrow> disciplined None (snd (run_hook step s es))"
  using run_inv [OF start_inv] by (metis prod.collapse)

text \<open>Every command sent while another's outcome is open repeats it exactly.\<close>

lemma open_command_repeated:
  assumes "start s" "list_all good es" "snd (run_hook step s es) = xs @ [Sent k] @ ys @ [Sent k'] @ zs"
    and "Settled k \<notin> set ys" "Abandoned \<notin> set ys"
  shows "k' = k"
  using disciplined_same [OF _ assms(4,5)] run_disciplined [OF assms(1,2)] unfolding assms(3) .

end

end
