(* ===== verification/Money.thy ===== *)
theory Money
  imports Regex
begin

text \<open>
  Exact money (\<^verbatim>\<open>web/src/lib/money.ts\<close> and the decimal conversion of
  \<^verbatim>\<open>web/src/lib/api/transfers.ts\<close>). Amounts are decimal strings of minor units; no
  value passes through a floating-point number. The theory models every function but the
  locale-dependent formatter \<^verbatim>\<open>formatCurrencyMinorUnits\<close> (it calls \<^verbatim>\<open>Intl.NumberFormat\<close>).
\<close>

section \<open>Operations\<close>

definition exponents :: "(string \<times> nat) list" where
  "exponents = [(''EUR'', 2), (''GBP'', 2), (''INR'', 2), (''JPY'', 0), (''KWD'', 3), (''USD'', 2)]"

definition maximumMinorUnits :: string where
  "maximumMinorUnits = ''9223372036854775807''"

definition exceedsSigned64BitMinorUnits :: "string \<Rightarrow> bool" where
  "exceedsSigned64BitMinorUnits v =
     (length v > length maximumMinorUnits
      \<or> (length v = length maximumMinorUnits \<and> v > maximumMinorUnits))"

text \<open>\<^verbatim>\<open>/^\d+(?:\.\d+)?$/\<close>\<close>

definition decimalShape :: rx where
  "decimalShape = RSeq (RPlus (RSet is_digit)) (ROpt (RSeq (RChar CHR ''.'') (RPlus (RSet is_digit))))"

text \<open>\<^verbatim>\<open>s.replace(/^0+/, "")\<close> and \<^verbatim>\<open>s.replace(/^0+(?=\d)/, "")\<close>: the second keeps the last zero
  when only a digit can follow it.\<close>

definition strip_zeros :: "string \<Rightarrow> string" where
  "strip_zeros s = dropWhile (\<lambda>c. c = CHR ''0'') s"

definition strip_zeros_before_digit :: "string \<Rightarrow> string" where
  "strip_zeros_before_digit s =
     (let zeros = length (takeWhile (\<lambda>c. c = CHR ''0'') s); rest = drop zeros s in
      if rest \<noteq> [] \<and> is_digit (hd rest) then rest else drop (zeros - 1) s)"

definition minorUnitsFromDecimal :: "string \<Rightarrow> string \<Rightarrow> string outcome" where
  "minorUnitsFromDecimal currency input =
     (let code = toUpperCase (trim currency); value = trim input in
      case map_of exponents code of
        None \<Rightarrow> Inl ''Enter a positive amount using the account currency precision.''
      | Some exponent \<Rightarrow>
          if \<not> rx_test decimalShape value
          then Inl ''Enter a positive amount using the account currency precision.''
          else
            let parts = split_on CHR ''.'' value;
                whole = hd parts;
                fractional = (case tl parts of [] \<Rightarrow> [] | f # _ \<Rightarrow> f) in
            if length fractional > exponent
            then Inl (code @ '' supports at most '' @ nat_string exponent @ '' decimal places.'')
            else
              let stripped = strip_zeros (strip_zeros_before_digit whole @ padEnd fractional exponent CHR ''0'');
                  normalized = (if stripped = [] then ''0'' else stripped) in
              if normalized = ''0'' then Inl ''Amount must be greater than zero.''
              else if exceedsSigned64BitMinorUnits normalized
              then Inl ''Amount exceeds the supported exact minor-unit range.''
              else Inr normalized)"

text \<open>\<^verbatim>\<open>whole.replace(/\B(?=(\d{3})+(?!\d))/g, ",")\<close> on a digit string: a comma before every
  position that leaves a positive multiple of three digits, except before the first digit.\<close>

fun group_rest :: "string \<Rightarrow> string" where
  "group_rest [] = []"
| "group_rest (c # cs) = (if length (c # cs) mod 3 = 0 then CHR '','' # c # group_rest cs else c # group_rest cs)"

definition group_thousands :: "string \<Rightarrow> string" where
  "group_thousands s = (case s of [] \<Rightarrow> [] | c # cs \<Rightarrow> c # group_rest cs)"

record format_options =
  groupThousands :: bool
  showCurrencyCode :: bool

definition formatMinorUnits :: "string \<Rightarrow> string \<Rightarrow> format_options \<Rightarrow> string" where
  "formatMinorUnits currency minorUnits options =
     (let code = toUpperCase (trim currency); value = trim minorUnits in
      case map_of exponents code of
        None \<Rightarrow> ''Unavailable''
      | Some exponent \<Rightarrow>
          if \<not> rx_test (RPlus (RSet is_digit)) value \<or> exceedsSigned64BitMinorUnits value
          then ''Unavailable''
          else
            let padded = padStart value (exponent + 1) CHR ''0'';
                whole = (if exponent = 0 then value
                         else strip_zeros_before_digit (slice_but_end padded exponent));
                fractional = (if exponent = 0 then None else Some (slice_from_end padded exponent));
                grouped = (if groupThousands options then group_thousands whole else whole);
                amount = (case fractional of None \<Rightarrow> grouped | Some f \<Rightarrow> grouped @ ''.'' @ f) in
            if showCurrencyCode options then code @ '' '' @ amount else amount)"

definition maximumSigned64 :: nat where
  "maximumSigned64 = 9223372036854775807"

definition reservedMinorUnits :: "string \<Rightarrow> string \<Rightarrow> string option" where
  "reservedMinorUnits ledger available =
     (if \<not> rx_test boundedNatural ledger \<or> \<not> rx_test boundedNatural available then None
      else let posted = digits_value ledger; spendable = digits_value available in
        if posted > maximumSigned64 \<or> spendable > posted then None
        else Some (nat_string (posted - spendable)))"

definition decimalFromMinorUnits :: "string \<Rightarrow> string \<Rightarrow> string outcome" where
  "decimalFromMinorUnits currency minorUnits =
     (let normalizedCurrency = toUpperCase (trim currency); normalizedMinor = trim minorUnits in
      case map_of exponents normalizedCurrency of
        None \<Rightarrow> Inl ''invalid exact money input''
      | Some exponent \<Rightarrow>
          if \<not> rx_test positiveInteger normalizedMinor then Inl ''invalid exact money input''
          else if exponent = 0 then Inr normalizedMinor
          else
            let padded = padStart normalizedMinor (exponent + 1) CHR ''0'' in
            Inr (slice_but_end padded exponent @ ''.'' @ slice_from_end padded exponent))"

section \<open>Digit strings\<close>

lemma strip_zeros_value: "digits_value (strip_zeros s) = digits_value s"
  by (induction s) (auto simp: strip_zeros_def digits_value_Cons digit_value_def)

lemma strip_before_digit_eq:
  assumes "all_digits s" "s \<noteq> []"
  shows "strip_zeros_before_digit s = (if strip_zeros s = [] then ''0'' else strip_zeros s)"
proof -
  let ?z = "length (takeWhile (\<lambda>c. c = CHR ''0'') s)"
  have drop: "drop ?z s = strip_zeros s" by (simp add: strip_zeros_def dropWhile_eq_drop)
  show ?thesis
  proof (cases "strip_zeros s = []")
    case True
    then have all0: "\<forall>x\<in>set s. x = CHR ''0''" by (simp add: strip_zeros_def)
    then have "takeWhile (\<lambda>c. c = CHR ''0'') s = s" by simp
    moreover have "drop (length s - 1) s = ''0''"
    proof -
      have "drop (length s - 1) (replicate (length s) CHR ''0'') = replicate 1 CHR ''0''"
        unfolding drop_replicate using assms(2) by (cases s) auto
      then show ?thesis by (simp add: replicate_length_same [OF all0])
    qed
    ultimately show ?thesis using True by (simp only: strip_zeros_before_digit_def Let_def) simp
  next
    case False
    then have "is_digit (hd (strip_zeros s))"
      using assms(1) by (metis all_digits_def list.pred_inject(2) list.collapse list_all_dropWhile strip_zeros_def)
    then show ?thesis unfolding strip_zeros_before_digit_def Let_def drop using False by simp
  qed
qed

lemma strip_zeros_canonical: "all_digits s \<Longrightarrow> strip_zeros s \<noteq> [] \<Longrightarrow> canonical_nat (strip_zeros s)"
  using hd_dropWhile [of "\<lambda>c. c = CHR ''0''" s]
  by (auto simp: canonical_nat_def strip_zeros_def all_digits_def)

lemma strip_zeros_Nil:
  assumes "all_digits s"
  shows "strip_zeros s = [] \<longleftrightarrow> digits_value s = 0"
proof
  assume "strip_zeros s = []"
  then show "digits_value s = 0" using strip_zeros_value [of s] by simp
next
  assume zero: "digits_value s = 0"
  show "strip_zeros s = []"
  proof (rule ccontr)
    assume ne: "strip_zeros s \<noteq> []"
    then obtain c cs where c: "strip_zeros s = c # cs" by (cases "strip_zeros s") auto
    have "hd (strip_zeros s) \<noteq> CHR ''0''"
      using hd_dropWhile [OF ne [unfolded strip_zeros_def]] by (simp only: strip_zeros_def not_False_eq_True)
    then have "c \<noteq> CHR ''0''" by (simp only: c list.sel not_False_eq_True)
    moreover have "all_digits (c # cs)" using assms c by (metis all_digits_def list_all_dropWhile strip_zeros_def)
    ultimately have "10 ^ length cs \<le> digits_value s"
      using digits_value_ge [of c cs] c strip_zeros_value [of s] by simp
    then show False using zero by simp
  qed
qed

lemma exceeds_iff:
  assumes "canonical_nat v"
  shows "exceedsSigned64BitMinorUnits v \<longleftrightarrow> digits_value v > maximumSigned64"
proof -
  have m: "canonical_nat maximumMinorUnits" "digits_value maximumMinorUnits = maximumSigned64"
    by (simp_all add: maximumMinorUnits_def maximumSigned64_def canonical_nat_def all_digits_def
        char_class_defs digits_value_def digit_value_def)
  show ?thesis
  proof (cases "length v = length maximumMinorUnits")
    case True
    then show ?thesis
      using digits_less_iff [of maximumMinorUnits v] assms m
      by (auto simp: exceedsSigned64BitMinorUnits_def canonical_nat_def)
  next
    case False
    then show ?thesis
      using canonical_nat_length_le [of v maximumMinorUnits] canonical_nat_length_le [of maximumMinorUnits v] assms m
      by (force simp: exceedsSigned64BitMinorUnits_def)
  qed
qed

lemma all_digits_strip_zeros: "all_digits s \<Longrightarrow> all_digits (strip_zeros s)"
  by (auto simp: all_digits_def strip_zeros_def)

lemma strip_before_digit_value:
  assumes "all_digits s" "s \<noteq> []"
  shows "digits_value (strip_zeros_before_digit s) = digits_value s"
    "all_digits (strip_zeros_before_digit s)" "strip_zeros_before_digit s \<noteq> []"
proof -
  have zero: "digits_value ''0'' = 0" "all_digits ''0''"
    by (simp_all add: digits_value_Cons digit_value_def all_digits_def)
  show "digits_value (strip_zeros_before_digit s) = digits_value s"
    using strip_zeros_value [of s] strip_zeros_Nil [OF assms(1)] zero
    by (simp add: strip_before_digit_eq [OF assms] del: digits_value_Nil)
  show "all_digits (strip_zeros_before_digit s)" "strip_zeros_before_digit s \<noteq> []"
    using all_digits_strip_zeros [OF assms(1)] zero by (simp_all add: strip_before_digit_eq [OF assms])
qed

section \<open>Decimal text and its scaled value\<close>

definition whole_part :: "string \<Rightarrow> string" where
  "whole_part v = hd (split_on CHR ''.'' v)"

definition fraction_part :: "string \<Rightarrow> string" where
  "fraction_part v = (case tl (split_on CHR ''.'' v) of [] \<Rightarrow> [] | f # _ \<Rightarrow> f)"

text \<open>What the decimal text denotes in units of \<open>10 ^ (- e)\<close>: the reference the conversions are
  compared with.\<close>

definition scaled_value :: "nat \<Rightarrow> string \<Rightarrow> nat" where
  "scaled_value e v = digits_value (whole_part v) * 10 ^ e
     + digits_value (fraction_part v) * 10 ^ (e - length (fraction_part v))"

lemma plus_digits: "rx_test (RPlus (RSet is_digit)) s \<longleftrightarrow> s \<noteq> [] \<and> all_digits s"
  by (simp add: all_digits_def)

lemma digits_no_dot: "all_digits s \<Longrightarrow> CHR ''.'' \<notin> set s"
  by (auto simp: all_digits_def list_all_iff char_class_defs)

lemma decimalShape_test:
  "rx_test decimalShape v \<longleftrightarrow>
   (\<exists>w f. w \<noteq> [] \<and> all_digits w \<and> all_digits f \<and> v = (if f = [] then w else w @ ''.'' @ f))"
  (is "?l \<longleftrightarrow> ?r")
proof
  assume ?l
  then obtain w t where h: "v = w @ t" "w \<noteq> []" "all_digits w"
    "t = [] \<or> (\<exists>f. t = CHR ''.'' # f \<and> f \<noteq> [] \<and> all_digits f)"
    unfolding decimalShape_def test_seq [of "RPlus _"] test_alt test_seq_set test_eps plus_digits by blast
  then have "all_digits (tl t) \<and> v = (if tl t = [] then w else w @ ''.'' @ tl t)"
    by (auto simp: all_digits_def)
  then obtain f where "all_digits f" "v = (if f = [] then w else w @ ''.'' @ f)" by blast
  then show ?r using h(2,3) by blast
next
  assume ?r
  then obtain w f where h: "w \<noteq> []" "all_digits w" "all_digits f"
    "v = (if f = [] then w else w @ ''.'' @ f)" by blast
  then show ?l
    unfolding decimalShape_def test_seq [of "RPlus _"] test_alt test_seq_set test_eps plus_digits
    by (intro exI [where x = w] exI [where x = "if f = [] then [] else CHR ''.'' # f"]) auto
qed

lemma decimal_parts:
  assumes "all_digits w" "all_digits f"
  shows "split_on CHR ''.'' (if f = [] then w else w @ ''.'' @ f) = (if f = [] then [w] else [w, f])"
  using assms by (auto simp: split_on_append split_on_no_sep digits_no_dot)

lemma decimal_part_simps:
  assumes "all_digits w" "all_digits f" "v = (if f = [] then w else w @ ''.'' @ f)"
  shows "whole_part v = w" "fraction_part v = f"
  unfolding whole_part_def fraction_part_def assms(3) decimal_parts [OF assms(1,2)] by auto

lemma normalized_text:
  assumes "w \<noteq> []" "all_digits w" "all_digits f" "length f \<le> e"
  defines "n \<equiv> strip_zeros (strip_zeros_before_digit w @ padEnd f e CHR ''0'')"
  shows "all_digits n" "digits_value n = digits_value w * 10 ^ e + digits_value f * 10 ^ (e - length f)"
    "n = [] \<longleftrightarrow> digits_value n = 0" "n \<noteq> [] \<Longrightarrow> canonical_nat n" "n \<noteq> ''0''"
proof -
  note w = strip_before_digit_value [OF assms(2,1)]
  have all: "all_digits (strip_zeros_before_digit w @ padEnd f e CHR ''0'')"
    using w assms by (auto simp: padEnd_def all_digits_def)
  then show "all_digits n" by (auto simp: n_def strip_zeros_def all_digits_def)
  show "digits_value n = digits_value w * 10 ^ e + digits_value f * 10 ^ (e - length f)"
    using assms(4) w(1) unfolding n_def strip_zeros_value by (simp add: digits_value_append padEnd_def w)
  show "n = [] \<longleftrightarrow> digits_value n = 0" using strip_zeros_Nil [OF all] by (simp add: n_def strip_zeros_value)
  show can: "n \<noteq> [] \<Longrightarrow> canonical_nat n" using strip_zeros_canonical [OF all] by (simp add: n_def)
  show "n \<noteq> ''0''"
    using \<open>n = [] \<longleftrightarrow> digits_value n = 0\<close> by (auto simp: digits_value_Cons digit_value_def)
qed

lemma minorUnits_returned_iff:
  "minorUnitsFromDecimal currency input = Inr m \<longleftrightarrow>
     (\<exists>e. map_of exponents (toUpperCase (trim currency)) = Some e
        \<and> rx_test decimalShape (trim input)
        \<and> length (fraction_part (trim input)) \<le> e
        \<and> canonical_nat m \<and> digits_value m = scaled_value e (trim input)
        \<and> 0 < digits_value m \<and> digits_value m \<le> maximumSigned64)"
proof (cases "map_of exponents (toUpperCase (trim currency))")
  case None
  then show ?thesis by (simp add: minorUnitsFromDecimal_def)
next
  case (Some e)
  let ?v = "trim input"
  show ?thesis
  proof (cases "rx_test decimalShape ?v \<and> length (fraction_part ?v) \<le> e")
    case False
    then show ?thesis using Some
      by (auto simp: minorUnitsFromDecimal_def Let_def fraction_part_def split: list.splits)
  next
    case True
    then obtain w f where h: "w \<noteq> []" "all_digits w" "all_digits f" "?v = (if f = [] then w else w @ ''.'' @ f)"
      unfolding decimalShape_test by blast
    note parts = decimal_part_simps [OF h(2-4)]
    define n where "n = strip_zeros (strip_zeros_before_digit w @ padEnd f e CHR ''0'')"
    have f: "length f \<le> e" using True parts by simp
    note n = normalized_text [OF h(1-3) f, folded n_def]
    have val: "digits_value n = scaled_value e ?v" by (simp add: n(2) scaled_value_def parts)
    have run: "minorUnitsFromDecimal currency input =
        (if n = [] then Inl ''Amount must be greater than zero.''
         else if exceedsSigned64BitMinorUnits n then Inl ''Amount exceeds the supported exact minor-unit range.''
         else Inr n)"
      using True Some f n(5) unfolding minorUnitsFromDecimal_def Let_def whole_part_def [symmetric] fraction_part_def [symmetric] parts
      by (simp add: n_def [symmetric])
    show ?thesis
      unfolding run using Some True n(3) n(4) val exceeds_iff [of n] canonical_nat_unique [of m n]
      by (auto simp: not_less)
  qed
qed

section \<open>Formatting\<close>

abbreviation plain_format :: format_options where
  "plain_format \<equiv> \<lparr>groupThousands = False, showCurrencyCode = False\<rparr>"

lemma exponents_upper: "map_of exponents c = Some e \<Longrightarrow> toUpperCase (trim c) = c"
  by (auto simp: exponents_def toUpperCase_def upper_chars_def trim_def char_class_defs split: if_splits)

lemma group_rest_commas: "CHR '','' \<notin> set s \<Longrightarrow> filter (\<lambda>c. c \<noteq> CHR '','') (group_rest s) = s"
  by (induction s) auto

lemma group_thousands_commas: "CHR '','' \<notin> set s \<Longrightarrow> filter (\<lambda>c. c \<noteq> CHR '','') (group_thousands s) = s"
  by (auto simp: group_thousands_def group_rest_commas split: list.splits)

lemma canonical_no_space: "canonical_nat m \<Longrightarrow> trim m = m"
  by (rule trim_no_space) (auto simp: canonical_nat_def all_digits_def list_all_iff digit_not_space)

lemma all_digits_append [simp]: "all_digits (s @ t) \<longleftrightarrow> all_digits s \<and> all_digits t"
  by (simp add: all_digits_def)

text \<open>The padded text splits into a non-empty whole part and exactly \<open>e\<close> fractional digits.\<close>

lemma padded_parts:
  fixes e :: nat
  assumes "canonical_nat m"
  defines "p \<equiv> padStart m (e + 1) CHR ''0''"
  shows "all_digits (slice_but_end p e)" "all_digits (slice_from_end p e)" "slice_but_end p e \<noteq> []"
    "length (slice_from_end p e) = e"
    "digits_value (slice_but_end p e) * 10 ^ e + digits_value (slice_from_end p e) = digits_value m"
proof -
  have p: "all_digits p" "e + 1 \<le> length p" "digits_value p = digits_value m"
    using assms(1) by (auto simp: p_def padStart_def canonical_nat_def all_digits_def digits_value_append)
  have split: "p = slice_but_end p e @ slice_from_end p e"
    by (simp add: slice_but_end_def slice_from_end_def)
  show "all_digits (slice_but_end p e)" "all_digits (slice_from_end p e)"
    using p(1) split by (metis all_digits_append)+
  show "slice_but_end p e \<noteq> []" using p(2) by (auto simp: slice_but_end_def)
  show len: "length (slice_from_end p e) = e" using p(2) by (simp add: slice_from_end_def)
  have "digits_value p = digits_value (slice_but_end p e) * 10 ^ e + digits_value (slice_from_end p e)"
    using arg_cong [OF split, of digits_value] by (simp only: digits_value_append len)
  with p(3) show "digits_value (slice_but_end p e) * 10 ^ e + digits_value (slice_from_end p e) = digits_value m"
    by simp
qed

lemma scaled_value_text:
  assumes "w \<noteq> []" "all_digits w" "all_digits f" "length f = e" "v = (if f = [] then w else w @ ''.'' @ f)"
  shows "trim v = v" "rx_test decimalShape v" "fraction_part v = f"
    "scaled_value e v = digits_value w * 10 ^ e + digits_value f"
proof -
  have "list_all (\<lambda>c. \<not> is_space c) v"
    using assms by (auto simp: list_all_iff all_digits_def digit_not_space char_class_defs)
  then show "trim v = v" by (rule trim_no_space)
  show "rx_test decimalShape v" unfolding decimalShape_test using assms by blast
  note parts = decimal_part_simps [OF assms(2,3,5)]
  show "fraction_part v = f" by (rule parts)
  show "scaled_value e v = digits_value w * 10 ^ e + digits_value f"
    using assms(4) by (simp add: scaled_value_def parts)
qed

text \<open>C19: a decimal amount is accepted exactly when it has the decimal shape, no more fractional
  digits than the currency, and a scaled value between one and the largest signed 64-bit
  integer; what is returned is then the canonical text of that exact value.\<close>

theorem minorUnitsFromDecimal_exact:
  "returned (minorUnitsFromDecimal currency input) = Some m \<longleftrightarrow>
     (\<exists>e. map_of exponents (toUpperCase (trim currency)) = Some e
        \<and> rx_test decimalShape (trim input)
        \<and> length (fraction_part (trim input)) \<le> e
        \<and> canonical_nat m \<and> digits_value m = scaled_value e (trim input)
        \<and> 0 < digits_value m \<and> digits_value m \<le> maximumSigned64)"
  by (simp add: minorUnits_returned_iff)

text \<open>formatting minor units without grouping and parsing the text back gives the same minor
  units, for every supported currency and every positive 64-bit amount.\<close>

theorem format_parse_roundtrip:
  assumes "map_of exponents currency = Some e"
    and "canonical_nat m" "0 < digits_value m" "digits_value m \<le> maximumSigned64"
  shows "minorUnitsFromDecimal currency (formatMinorUnits currency m plain_format) = Inr m"
proof -
  let ?p = "padStart m (e + 1) CHR ''0''"
  let ?w = "if e = 0 then m else strip_zeros_before_digit (slice_but_end ?p e)"
  let ?f = "if e = 0 then [] else slice_from_end ?p e"
  note pad = padded_parts [OF assms(2), of e]
  note strip = strip_before_digit_value [OF pad(1) pad(3)]
  have w: "?w \<noteq> []" "all_digits ?w" using assms(2) strip by (auto simp: canonical_nat_def)
  have f: "all_digits ?f" "length ?f = e" using pad by (auto simp: all_digits_def)
  have val: "digits_value ?w * 10 ^ e + digits_value ?f = digits_value m" using pad(5) strip(1) by simp
  have fmt: "formatMinorUnits currency m plain_format = (if ?f = [] then ?w else ?w @ ''.'' @ ?f)"
    using assms f(2) exponents_upper [OF assms(1)] exceeds_iff [OF assms(2)]
    by (auto simp: formatMinorUnits_def Let_def canonical_no_space canonical_nat_def all_digits_def)
  note sv = scaled_value_text [OF w f refl]
  show ?thesis
    unfolding fmt minorUnits_returned_iff sv(1)
    using assms exponents_upper [OF assms(1)] sv(2-4) f(2) val by simp
qed

theorem format_parse_roundtrip_witness:
  "minorUnitsFromDecimal ''KWD'' (formatMinorUnits ''KWD'' ''1205'' plain_format) = Inr ''1205''"
  by (rule format_parse_roundtrip [where e = 3])
    (simp_all add: exponents_def canonical_nat_def all_digits_def char_class_defs digits_value_def
      digit_value_def maximumSigned64_def)

text \<open>The decimal text that the browser boundary sends for a positive amount parses back to
  exactly that amount: every returned text, for an amount within the signed 64-bit range.\<close>

lemma decimal_roundtrip:
  assumes "decimalFromMinorUnits currency minor = Inr d"
    and "digits_value (trim minor) \<le> maximumSigned64"
  shows "minorUnitsFromDecimal currency d = Inr (trim minor)"
proof -
  obtain e where e: "map_of exponents (toUpperCase (trim currency)) = Some e"
    and m: "rx_test positiveInteger (trim minor)"
    and d: "d = (if e = 0 then trim minor else
      slice_but_end (padStart (trim minor) (e + 1) CHR ''0'') e @ ''.'' @
      slice_from_end (padStart (trim minor) (e + 1) CHR ''0'') e)"
    using assms(1) by (auto simp: decimalFromMinorUnits_def Let_def split: option.splits if_splits)
  have can: "canonical_nat (trim minor)" and pos: "0 < digits_value (trim minor)"
    using m positiveInteger_value by (auto simp: positiveInteger_test)
  let ?p = "padStart (trim minor) (e + 1) CHR ''0''"
  let ?w = "if e = 0 then trim minor else slice_but_end ?p e"
  let ?f = "if e = 0 then [] else slice_from_end ?p e"
  note pad = padded_parts [OF can, of e]
  have w: "?w \<noteq> []" "all_digits ?w" using can pad by (auto simp: canonical_nat_def)
  have f: "all_digits ?f" "length ?f = e" using pad by (auto simp: all_digits_def)
  have val: "digits_value ?w * 10 ^ e + digits_value ?f = digits_value (trim minor)" using pad(5) by simp
  have d': "d = (if ?f = [] then ?w else ?w @ ''.'' @ ?f)" using d f(2) by auto
  note sv = scaled_value_text [OF w f d']
  show ?thesis
    unfolding minorUnits_returned_iff sv(1) using assms(2) e can pos sv(2-4) f(2) val by simp
qed

text \<open>grouping only adds commas: deleting them from the grouped text gives the ungrouped text,
  whatever the currency, the amount and the other option.\<close>

theorem grouping_only_adds_commas:
  "filter (\<lambda>c. c \<noteq> CHR '','') (formatMinorUnits currency m \<lparr>groupThousands = True, showCurrencyCode = b\<rparr>)
   = formatMinorUnits currency m \<lparr>groupThousands = False, showCurrencyCode = b\<rparr>"
proof -
  have cur: "filter (\<lambda>c. c \<noteq> CHR '','') c = c" if "map_of exponents c = Some e" for c e
    using that by (auto simp: exponents_def split: if_splits)
  have digits: "CHR '','' \<notin> set s" if "all_digits s" for s
    using that by (auto simp: all_digits_def list_all_iff char_class_defs)
  then have kept: "filter (\<lambda>c. c \<noteq> CHR '','') s = s" if "all_digits s" for s
    using that by (auto intro!: filter_True)
  have slices: "all_digits (slice_but_end (padStart v (e + 1) CHR ''0'') e)"
    "all_digits (slice_from_end (padStart v (e + 1) CHR ''0'') e)"
    "slice_but_end (padStart v (e + 1) CHR ''0'') e \<noteq> []" if "all_digits v" for v e
    using that by (auto simp: slice_but_end_def slice_from_end_def padStart_def all_digits_def
        intro!: list_all_take list_all_drop)
  note whole = group_thousands_commas [OF digits [OF strip_before_digit_value(2) [OF slices(1) slices(3)]]]
  show ?thesis
    using whole kept [OF strip_before_digit_value(2) [OF slices(1) slices(3)]] kept [OF slices(2)]
      group_thousands_commas [OF digits] kept cur
    by (auto simp: formatMinorUnits_def Let_def all_digits_def split: option.splits)
qed

text \<open>the reserved amount is defined exactly when both texts are canonical, the ledger amount
  is within the signed 64-bit range and covers the available amount; then it is the canonical
  text of the difference, so that reserved plus available is the ledger amount.\<close>

theorem reservedMinorUnits_exact:
  "reservedMinorUnits ledger available = Some r \<longleftrightarrow>
     canonical_nat ledger \<and> canonical_nat available \<and> length ledger \<le> 19 \<and> length available \<le> 19
     \<and> digits_value ledger \<le> maximumSigned64
     \<and> canonical_nat r \<and> digits_value r + digits_value available = digits_value ledger"
proof -
  have diff: "nat_string (a - b) = r \<longleftrightarrow> canonical_nat r \<and> digits_value r + b = a" if "b \<le> a" for a b
    using that nat_string_digits_value [of r] by auto
  show ?thesis
    using diff [of "digits_value available" "digits_value ledger"]
    by (auto simp: reservedMinorUnits_def Let_def boundedNatural_test not_less)
qed

end
