(* ===== verification/MutationApi.thy ===== *)
theory MutationApi
  imports ApiShape Money
begin

text \<open>
  The request parsers and the response sanitizers of the financial mutations:
  \<^verbatim>\<open>web/src/lib/api/{accounts,reconciliation,webhook-replay,corrections,funding,transfers}.ts\<close>. Each
  sanitizer is an instance of the locale \<open>upstream_sanitizer\<close>.
\<close>

section \<open>Accounts\<close>

definition categories :: "string list" where
  "categories = [''operating'', ''customer_funds'', ''payroll'', ''payables'', ''expenses'', ''reserve'']"

definition statuses :: "string list" where
  "statuses = [''active'', ''frozen'', ''closed'']"

definition canonicalInteger :: rx where
  "canonicalInteger = RAlt (RChar CHR ''0'') (RSeq (ROpt (RChar CHR ''-'')) positiveInteger)"

definition externalReference :: rx where
  "externalReference = RSeq (RSet is_alnum) (RStar (RSet (\<lambda>c. is_alnum c \<or> one_of ''._-'' c)))"

definition bounded_text :: "nat \<Rightarrow> string \<Rightarrow> bool" where
  "bounded_text maximum s = (1 \<le> length s \<and> length s \<le> maximum)"

definition isDisplayName :: "string \<Rightarrow> bool" where
  "isDisplayName s = (bounded_text 120 s \<and> \<not> list_ex is_control s)"

definition isLifecycleReason :: "string \<Rightarrow> bool" where
  "isLifecycleReason s = (bounded_text 256 s \<and> 0 < length (trim s) \<and> \<not> list_ex is_control s)"

definition isExternalReference :: "string \<Rightarrow> bool" where
  "isExternalReference s = (3 \<le> length s \<and> length s \<le> 64 \<and> rx_test externalReference s)"

definition isCanonicalPositiveVersion :: "string \<Rightarrow> bool" where
  "isCanonicalPositiveVersion s =
     (if 19 < length s \<or> \<not> rx_test positiveInteger s then False else digits_value s \<le> 9223372036854775807)"

definition parseCreateAccountRequest :: "json \<Rightarrow> json outcome" where
  "parseCreateAccountRequest v =
     (if \<not> isRecord v \<or> \<not> hasExactlyKeys v [''display_name'', ''external_reference'', ''category'', ''currency'']
      then Inl ''invalid account creation schema''
      else if \<not> string_field ''display_name'' isDisplayName v \<or> \<not> string_field ''external_reference'' isExternalReference v
        \<or> \<not> string_field ''category'' (List.member categories) v \<or> field ''currency'' v \<noteq> Some (JStr ''INR'')
      then Inl ''invalid account creation fields''
      else Inr (copy_fields v [''display_name'', ''external_reference'', ''category'', ''currency'']))"

definition parseUpdateAccountRequest :: "json \<Rightarrow> json outcome" where
  "parseUpdateAccountRequest v =
     (if \<not> isRecord v \<or> \<not> string_field ''expected_version'' isCanonicalPositiveVersion v
      then Inl ''invalid account update schema''
      else if hasExactlyKeys v [''expected_version'', ''display_name'', ''external_reference'', ''category'']
      then (if \<not> string_field ''display_name'' isDisplayName v \<or> \<not> string_field ''external_reference'' isExternalReference v
              \<or> \<not> string_field ''category'' (List.member categories) v
            then Inl ''invalid account metadata fields''
            else Inr (copy_fields v [''expected_version'', ''display_name'', ''external_reference'', ''category'']))
      else if hasExactlyKeys v [''expected_version'', ''target_status'', ''reason'']
        \<and> string_field ''target_status'' (List.member statuses) v \<and> string_field ''reason'' isLifecycleReason v
      then Inr (copy_fields v [''expected_version'', ''target_status'', ''reason''])
      else Inl ''account update must contain exactly one supported command shape'')"

definition publicErrorCodesByStatus :: "nat \<Rightarrow> string list" where
  "publicErrorCodesByStatus st =
     (if st = 400 then [''invalid_request'', ''validation_failed'']
      else if st = 401 then [''unauthorized''] else if st = 403 then [''forbidden''] else if st = 404 then [''not_found'']
      else if st = 409 then [''account_version_conflict'', ''external_reference_conflict'', ''idempotency_conflict'',
        ''invalid_account_transition'', ''request_in_progress'']
      else if st = 422 then [''account_not_zero''] else if st = 429 then [''rate_limited'']
      else if st = 503 then [''temporary_unavailable''] else [])"

definition defaultError :: "nat \<Rightarrow> nat \<times> string" where
  "defaultError st =
     (if st = 400 then (st, ''validation_failed'') else if st = 401 then (st, ''unauthorized'')
      else if st = 403 then (st, ''forbidden'') else if st = 404 then (st, ''not_found'')
      else if st = 422 then (st, ''account_not_zero'') else if st = 429 then (st, ''rate_limited'')
      else (503, ''temporary_unavailable''))"

definition account_sanitizeError :: "nat \<Rightarrow> json option \<Rightarrow> sanitized" where
  "account_sanitizeError st v = (case Option.bind v error_code of
     Some c \<Rightarrow> if List.member (publicErrorCodesByStatus st) c then error_outcome st c
               else (case defaultError st of (s, d) \<Rightarrow> error_outcome s d)
   | None \<Rightarrow> (case defaultError st of (s, d) \<Rightarrow> error_outcome s d))"

definition unknownSuccessfulOutcome :: sanitized where
  "unknownSuccessfulOutcome = error_outcome 504 ''account_command_outcome_unknown''"

definition minor_text :: "string \<Rightarrow> bool" where
  "minor_text s = (\<not> 20 < length s \<and> rx_test canonicalInteger s)"

definition account_evidence :: "(string \<Rightarrow> bool) \<Rightarrow> json \<Rightarrow> bool" where
  "account_evidence is_date v =
     (isRecord v \<and> string_field ''account_id'' (rx_test canonicalUUIDShape) v
      \<and> string_field ''tenant_id'' (rx_test canonicalUUIDShape) v
      \<and> field ''currency'' v = Some (JStr ''INR'')
      \<and> string_field ''account_version'' isCanonicalPositiveVersion v
      \<and> string_field ''status'' (List.member statuses) v
      \<and> string_field ''display_name'' isDisplayName v
      \<and> string_field ''external_reference'' isExternalReference v
      \<and> string_field ''category'' (List.member categories) v
      \<and> string_field ''available_minor'' minor_text v
      \<and> string_field ''ledger_minor'' minor_text v
      \<and> string_field ''created_at'' (\<lambda>s. bounded_text 64 s \<and> is_date s) v
      \<and> string_field ''updated_at'' (\<lambda>s. bounded_text 64 s \<and> is_date s) v)"

definition account_fields :: "string list" where
  "account_fields = [''account_id'', ''tenant_id'', ''currency'', ''status'', ''display_name'', ''external_reference'',
     ''category'', ''account_version'', ''available_minor'', ''ledger_minor'', ''created_at'', ''updated_at'']"

definition account_sanitizeSuccess :: "(string \<Rightarrow> bool) \<Rightarrow> nat \<Rightarrow> json \<Rightarrow> sanitized" where
  "account_sanitizeSuccess is_date st v =
     (if \<not> account_evidence is_date v then unknownSuccessfulOutcome
      else \<lparr>san_status = (if st = 201 then 201 else 200), san_body = copy_fields v account_fields\<rparr>)"

definition sanitizeAccountUpstream :: "(string \<Rightarrow> bool) \<Rightarrow> nat \<Rightarrow> json \<Rightarrow> sanitized" where
  "sanitizeAccountUpstream is_date st v =
     (if successful st then account_sanitizeSuccess is_date st v else account_sanitizeError st (Some v))"

definition sanitizeUnusableAccountUpstream :: "nat \<Rightarrow> sanitized" where
  "sanitizeUnusableAccountUpstream st =
     (if successful st then unknownSuccessfulOutcome else account_sanitizeError st None)"

definition accountUpstreamMaximumBytes :: nat where
  "accountUpstreamMaximumBytes = 65536"

definition sanitizeAccountUpstreamBody :: "(string \<Rightarrow> bool) \<Rightarrow> nat \<Rightarrow> string \<Rightarrow> sanitized" where
  "sanitizeAccountUpstreamBody is_date st raw =
     (if accountUpstreamMaximumBytes < byte_length raw then sanitizeUnusableAccountUpstream st
      else case JSON_parse raw of
        None \<Rightarrow> sanitizeUnusableAccountUpstream st
      | Some v \<Rightarrow> sanitizeAccountUpstream is_date st v)"

section \<open>Reconciliation\<close>

definition canonicalCount :: rx where
  "canonicalCount = RAlt (RChar CHR ''0'') positiveInteger"

definition bounded_string :: "nat \<Rightarrow> bool \<Rightarrow> string \<Rightarrow> bool" where
  "bounded_string maximum allowEmpty s = (length s \<le> maximum \<and> (allowEmpty \<or> 0 < length s))"

definition isDate :: "(string \<Rightarrow> bool) \<Rightarrow> bool \<Rightarrow> string \<Rightarrow> bool" where
  "isDate is_date allowEmpty s = (bounded_string 64 allowEmpty s \<and> (if s = [] then allowEmpty else is_date s))"

definition optional_bounded :: "nat \<Rightarrow> json \<Rightarrow> bool" where
  "optional_bounded n x = (case x of JStr s \<Rightarrow> bounded_string n False s | _ \<Rightarrow> False)"

definition isMismatch :: "(string \<Rightarrow> bool) \<Rightarrow> json \<Rightarrow> bool" where
  "isMismatch is_date v =
     (isRecord v
      \<and> only_keys v [''mismatch_id'', ''account_id'', ''classification'', ''currency'', ''expected_minor'',
          ''observed_minor'', ''observed_available_minor'', ''balance_version'', ''created_at'']
      \<and> string_field ''mismatch_id'' (bounded_string 128 False) v
      \<and> string_field ''classification'' (bounded_string 128 False) v
      \<and> string_field ''created_at'' (isDate is_date False) v
      \<and> optional_field ''account_id'' (optional_bounded 128) v
      \<and> optional_field ''currency'' (\<lambda>x. x = JStr ''INR'') v
      \<and> list_all (\<lambda>k. optional_field k (optional_bounded 64) v)
          [''expected_minor'', ''observed_minor'', ''observed_available_minor'', ''balance_version''])"

definition snapshot_ok :: "(string \<Rightarrow> bool) \<Rightarrow> json \<Rightarrow> bool" where
  "snapshot_ok is_date s =
     (isRecord s \<and> only_keys s [''isolation'', ''sampled_at'', ''pending_count'', ''published_count'', ''dead_count'']
      \<and> field ''isolation'' s = Some (JStr ''repeatable_read'')
      \<and> string_field ''sampled_at'' (isDate is_date False) s
      \<and> list_all (\<lambda>k. string_field k (\<lambda>c. rx_test canonicalCount c \<and> length c \<le> 20) s)
          [''pending_count'', ''published_count'', ''dead_count''])"

definition run_evidence :: "(string \<Rightarrow> bool) \<Rightarrow> json \<Rightarrow> bool" where
  "run_evidence is_date v =
     (isRecord v \<and> optional_field ''outbox_snapshot'' (snapshot_ok is_date) v
      \<and> string_field ''run_id'' (\<lambda>s. bounded_string 128 False s \<and> rx_test canonicalUUIDShape s) v
      \<and> string_field ''status'' (List.member [''matched'', ''mismatch'', ''failed'', ''running'']) v
      \<and> string_field ''correlation_id'' (bounded_string 128 False) v
      \<and> string_field ''scope'' (bounded_string 256 False) v
      \<and> (let running = (field ''status'' v = Some (JStr ''running'')) in
          string_field ''ledger_watermark'' (bounded_string 256 running) v
          \<and> string_field ''application_version'' (bounded_string 128 running) v
          \<and> string_field ''schema_version'' (bounded_string 128 running) v
          \<and> string_field ''completed_at'' (isDate is_date running) v)
      \<and> string_field ''checked_account_count'' (rx_test canonicalCount) v
      \<and> string_field ''posting_count'' (rx_test canonicalCount) v
      \<and> string_field ''mismatch_count'' (rx_test canonicalCount) v
      \<and> string_field ''started_at'' (isDate is_date False) v
      \<and> optional_field ''mismatches'' (\<lambda>m. case m of JArr xs \<Rightarrow> length xs \<le> 500 \<and> list_all (isMismatch is_date) xs | _ \<Rightarrow> False) v)"

definition sanitizeRun :: "(string \<Rightarrow> bool) \<Rightarrow> json \<Rightarrow> json option" where
  "sanitizeRun is_date v =
     (if \<not> run_evidence is_date v then None
      else Some (copy_fields v [''outbox_snapshot'', ''run_id'', ''status'', ''correlation_id'', ''scope'', ''ledger_watermark'',
        ''application_version'', ''schema_version'', ''checked_account_count'', ''posting_count'', ''mismatch_count'',
        ''started_at'', ''completed_at'', ''mismatches'']))"

definition parseReconciliationRunRequest :: "json \<Rightarrow> json outcome" where
  "parseReconciliationRunRequest v =
     (if \<not> isRecord v \<or> length (object_keys v) \<noteq> 0 then Inl ''reconciliation request must be an empty object'' else Inr (JObj []))"

definition typedError :: "nat \<Rightarrow> json option \<Rightarrow> sanitized" where
  "typedError st v =
     (let c = (case Option.bind v error_code of None \<Rightarrow> '''' | Some x \<Rightarrow> x) in
      if st = 409 \<and> (c = ''reconciliation_already_running'' \<or> c = ''request_in_progress'')
      then (case v of
              Some x \<Rightarrow>
                (if isRecord x \<and> string_field ''run_id'' (\<lambda>s. bounded_string 128 False s \<and> rx_test canonicalUUIDShape s) x
                 then \<lparr>san_status = st, san_body = JObj [(''error'', JObj [(''code'', JStr c)]), (''run_id'', JStr (field_string ''run_id'' x))]\<rparr>
                 else error_outcome st c)
            | None \<Rightarrow> error_outcome st c)
      else if st = 400 \<and> (c = ''validation_failed'' \<or> c = ''idempotency_key_required'') then error_outcome st c
      else if st = 401 \<and> c = ''unauthorized'' then error_outcome st c
      else if st = 403 \<and> c = ''forbidden'' then error_outcome st c
      else if st = 409 \<and> c = ''idempotency_conflict'' then error_outcome st c
      else if st = 429 \<and> c = ''rate_limited'' then error_outcome st c
      else if st = 503 \<and> c = ''temporary_unavailable'' then error_outcome st c
      else if st = 504 \<and> (c = ''response_unknown'' \<or> c = ''reconciliation_outcome_unknown'')
      then error_outcome st ''reconciliation_outcome_unknown''
      else error_outcome 503 ''temporary_unavailable'')"

definition reconciliation_unknownOutcome :: sanitized where
  "reconciliation_unknownOutcome = error_outcome 504 ''reconciliation_outcome_unknown''"

definition sanitizeReconciliationUpstream :: "(string \<Rightarrow> bool) \<Rightarrow> nat \<Rightarrow> json \<Rightarrow> sanitized" where
  "sanitizeReconciliationUpstream is_date st v =
     (if successful st
      then (case sanitizeRun is_date v of
              Some run \<Rightarrow> \<lparr>san_status = (if st = 201 then 201 else if st = 202 then 202 else 200), san_body = run\<rparr>
            | None \<Rightarrow> reconciliation_unknownOutcome)
      else typedError st (Some v))"

definition sanitizeReconciliationUpstreamBody :: "(string \<Rightarrow> bool) \<Rightarrow> nat \<Rightarrow> string \<Rightarrow> sanitized" where
  "sanitizeReconciliationUpstreamBody is_date st raw =
     (let unusable = (if successful st then reconciliation_unknownOutcome else typedError st None) in
      if 65536 < byte_length raw then unusable
      else case JSON_parse raw of
        None \<Rightarrow> unusable
      | Some v \<Rightarrow> sanitizeReconciliationUpstream is_date st v)"

section \<open>Webhook replay\<close>

definition webhookReplayReasonCodes :: "string list" where
  "webhookReplayReasonCodes = [''endpoint_restored'', ''receiver_capacity_restored'', ''transient_outage_resolved'']"

definition isWebhookReplayIdentifier :: "string \<Rightarrow> bool" where
  "isWebhookReplayIdentifier s = rx_test canonicalUUIDShape s"

text \<open>Sorted keys compared position by position.\<close>

definition exactObject :: "json \<Rightarrow> string list \<Rightarrow> bool" where
  "exactObject v keys = (isRecord v \<and> sort (object_keys v) = sort keys)"

definition parseWebhookReplayApprovalRequest :: "json \<Rightarrow> json outcome" where
  "parseWebhookReplayApprovalRequest v =
     (if \<not> exactObject v [''reason_code''] \<or> \<not> string_field ''reason_code'' (List.member webhookReplayReasonCodes) v
      then Inl ''invalid webhook replay approval request'' else Inr (copy_fields v [''reason_code'']))"

definition parseWebhookReplayRequest :: "json \<Rightarrow> json outcome" where
  "parseWebhookReplayRequest v =
     (if \<not> exactObject v [''approval_id''] \<or> \<not> string_field ''approval_id'' isWebhookReplayIdentifier v
      then Inl ''invalid webhook replay request'' else Inr (copy_fields v [''approval_id'']))"

definition isWebhookReplayApproval :: "json \<Rightarrow> bool" where
  "isWebhookReplayApproval v =
     (exactObject v [''approval_id'', ''status''] \<and> string_field ''approval_id'' isWebhookReplayIdentifier v
      \<and> field ''status'' v = Some (JStr ''approved''))"

definition isWebhookReplayResult :: "json \<Rightarrow> bool" where
  "isWebhookReplayResult v =
     (exactObject v [''delivery_job_id'', ''status''] \<and> string_field ''delivery_job_id'' isWebhookReplayIdentifier v
      \<and> field ''status'' v = Some (JStr ''scheduled''))"

datatype replay_stage = Approval | Execution

definition stage_name :: "replay_stage \<Rightarrow> string" where
  "stage_name stage = (case stage of Approval \<Rightarrow> ''approval'' | Execution \<Rightarrow> ''execution'')"

definition error_code_pattern :: rx where
  "error_code_pattern = RRep (RSet (\<lambda>c. is_lower c \<or> is_digit c \<or> c = CHR ''_'')) 3 64"

definition replay_evidence :: "replay_stage \<Rightarrow> json \<Rightarrow> bool" where
  "replay_evidence stage v = (case stage of Approval \<Rightarrow> isWebhookReplayApproval v | Execution \<Rightarrow> isWebhookReplayResult v)"

definition sanitizeWebhookReplayUpstreamBody :: "replay_stage \<Rightarrow> nat \<Rightarrow> string \<Rightarrow> sanitized" where
  "sanitizeWebhookReplayUpstreamBody stage st raw =
     (let unknown = error_outcome 504 (stage_name stage @ ''_outcome_unknown'') in
      if 4096 < byte_length raw then unknown
      else
        let v = (case JSON_parse raw of None \<Rightarrow> JObj [] | Some x \<Rightarrow> x) in
        if successful st \<and> replay_evidence stage v then \<lparr>san_status = st, san_body = v\<rparr>
        else if successful st then unknown
        else
          let c = (case error_code v of
                     Some x \<Rightarrow> if rx_test error_code_pattern x then x else ''temporary_unavailable''
                   | None \<Rightarrow> ''temporary_unavailable'') in
          error_outcome (if 400 \<le> st \<and> st \<le> 599 then st else 503) c)"

section \<open>Corrections and funding\<close>

definition exactRecord :: "json \<Rightarrow> string list \<Rightarrow> json outcome" where
  "exactRecord v keys =
     (if \<not> isRecord v then Inl ''invalid correction input''
      else if \<not> only_keys v keys then Inl ''unknown correction input'' else Inr v)"

definition correctionReasons :: "string list" where
  "correctionReasons = [''duplicate'', ''wrong_destination'', ''wrong_amount'', ''customer_request'', ''operational_error'', ''compliance_reversal'']"

definition trimmed_field :: "string \<Rightarrow> json \<Rightarrow> string" where
  "trimmed_field k v = trim (field_string k v)"

definition toPrivateCorrectionRequest :: "json \<Rightarrow> json outcome" where
  "toPrivateCorrectionRequest v = andthen (exactRecord v [''reasonCode'', ''operatorNote'']) (\<lambda>input.
     let reasonCode = trimmed_field ''reasonCode'' input; operatorNote = trimmed_field ''operatorNote'' input in
     if \<not> List.member correctionReasons reasonCode \<or> operatorNote = [] \<or> 500 < length operatorNote
     then Inl ''invalid correction request''
     else Inr (JObj [(''reason_code'', JStr reasonCode), (''operator_note'', JStr operatorNote)]))"

definition toPrivateCorrectionDecision :: "json \<Rightarrow> json outcome" where
  "toPrivateCorrectionDecision v = andthen (exactRecord v [''reason'']) (\<lambda>input.
     let reason = trimmed_field ''reason'' input in
     if reason = [] \<or> 500 < length reason then Inl ''invalid correction decision'' else Inr (JObj [(''reason'', JStr reason)]))"

definition isCorrectionID :: "string \<Rightarrow> bool" where
  "isCorrectionID s = (canonicalUUID s \<noteq> None)"

record funding_input =
  fi_destinationAccountId :: string
  fi_amountMinor :: string
  fi_currency :: string
  fi_externalReference :: string
  fi_evidenceReference :: string

definition currency_pattern :: rx where
  "currency_pattern = RRep (RSet is_upper) 3 3"

definition toPrivateFundingRequest :: "funding_input \<Rightarrow> json outcome" where
  "toPrivateFundingRequest input =
     (let destination = canonicalUUID (fi_destinationAccountId input);
          amountMinor = trim (fi_amountMinor input);
          currency = toUpperCase (trim (fi_currency input));
          external = trim (fi_externalReference input);
          evidence = trim (fi_evidenceReference input) in
      case destination of
        None \<Rightarrow> Inl ''invalid funding evidence input''
      | Some account \<Rightarrow>
          if account = [] \<or> 128 < length account \<or> \<not> rx_test positiveInteger amountMinor \<or> \<not> rx_test currency_pattern currency
             \<or> external = [] \<or> 256 < length external \<or> evidence = [] \<or> 512 < length evidence
          then Inl ''invalid funding evidence input''
          else Inr (JObj [(''destination_account_id'', JStr account), (''amount_minor'', JStr amountMinor),
            (''currency'', JStr currency), (''external_reference'', JStr external), (''evidence_reference'', JStr evidence)]))"

definition toPrivateFundingDecision :: "json \<Rightarrow> json outcome" where
  "toPrivateFundingDecision v =
     (let reason = trimmed_field ''reason'' v in
      if reason = [] \<or> 500 < length reason then Inl ''invalid funding decision'' else Inr (JObj [(''reason'', JStr reason)]))"

definition toPrivateFundingCompensation :: "json \<Rightarrow> json outcome" where
  "toPrivateFundingCompensation v =
     (let reasonCode = trimmed_field ''reasonCode'' v; operatorNote = trimmed_field ''operatorNote'' v in
      if reasonCode = [] \<or> 64 < length reasonCode \<or> operatorNote = [] \<or> 500 < length operatorNote
      then Inl ''invalid funding compensation''
      else Inr (JObj [(''reason_code'', JStr reasonCode), (''operator_note'', JStr operatorNote)]))"

definition isFundingEventID :: "string \<Rightarrow> bool" where
  "isFundingEventID s = (canonicalUUID s \<noteq> None)"

section \<open>Transfers\<close>

record transfer_input =
  ti_sourceAccountId :: string
  ti_destinationAccountId :: string
  ti_currency :: string
  ti_minorUnits :: string

record private_transfer =
  source_account_id :: string
  destination_account_id :: string
  amount :: string
  currency :: string

definition toPrivateTransferRequest :: "transfer_input \<Rightarrow> private_transfer outcome" where
  "toPrivateTransferRequest input =
     (let normalized = toUpperCase (trim (ti_currency input)) in
      case (canonicalUUID (ti_sourceAccountId input), canonicalUUID (ti_destinationAccountId input)) of
        (Some s, Some d) \<Rightarrow>
          if s = d then Inl ''invalid transfer account input''
          else andthen (decimalFromMinorUnits normalized (ti_minorUnits input)) (\<lambda>a.
            Inr \<lparr>source_account_id = s, destination_account_id = d, amount = a, currency = normalized\<rparr>)
      | _ \<Rightarrow> Inl ''invalid transfer account input'')"

record transfer_balance =
  tb_posted_minor :: string
  tb_available_minor :: "string option"
  tb_reserved_minor :: "string option"

definition hasReservedTransferBalance :: "transfer_balance \<Rightarrow> bool" where
  "hasReservedTransferBalance b = (case (tb_available_minor b, tb_reserved_minor b) of
     (Some a, Some r) \<Rightarrow> reservedMinorUnits (tb_posted_minor b) a = Some r
   | _ \<Rightarrow> False)"

section \<open>The sanitizers meet their contract\<close>

lemma error_outcome_status [simp]: "san_status (error_outcome st c) = st"
  by (simp add: error_outcome_def)

lemma error_outcome_inj [simp]: "error_outcome s c = error_outcome t d \<longleftrightarrow> s = t \<and> c = d"
  by (simp add: error_outcome_def)

lemma account_error_status: "400 \<le> san_status (account_sanitizeError st v)"
  by (auto simp: account_sanitizeError_def defaultError_def publicErrorCodesByStatus_def split: option.splits if_splits)

lemma typedError_status: "400 \<le> san_status (typedError st v)"
  by (auto simp: typedError_def Let_def split: option.splits if_splits)

interpretation account: upstream_sanitizer "sanitizeAccountUpstreamBody is_date" "account_evidence is_date"
  "''account_command_outcome_unknown''" for is_date
proof
  fix st raw
  have e: "\<not> successful (san_status (account_sanitizeError st v))" for v using account_error_status [of st v] by auto
  show "successful st \<and> (\<exists>v. JSON_parse raw = Some v \<and> account_evidence is_date v)"
    if "successful (san_status (sanitizeAccountUpstreamBody is_date st raw))"
    using that e by (auto simp: sanitizeAccountUpstreamBody_def sanitizeAccountUpstream_def account_sanitizeSuccess_def
        sanitizeUnusableAccountUpstream_def unknownSuccessfulOutcome_def split: option.splits if_splits)
  show "successful (san_status (sanitizeAccountUpstreamBody is_date st raw))
      \<or> sanitizeAccountUpstreamBody is_date st raw = error_outcome 504 ''account_command_outcome_unknown''" if "successful st"
    using that by (auto simp: sanitizeAccountUpstreamBody_def sanitizeAccountUpstream_def account_sanitizeSuccess_def
        sanitizeUnusableAccountUpstream_def unknownSuccessfulOutcome_def split: option.splits)
  show "400 \<le> san_status (sanitizeAccountUpstreamBody is_date st raw)" if "\<not> successful st"
    using that account_error_status by (auto simp: sanitizeAccountUpstreamBody_def sanitizeAccountUpstream_def
        sanitizeUnusableAccountUpstream_def split: option.splits)
qed

interpretation reconciliation: upstream_sanitizer "sanitizeReconciliationUpstreamBody is_date" "run_evidence is_date"
  "''reconciliation_outcome_unknown''" for is_date
proof
  fix st raw
  have e: "\<not> successful (san_status (typedError st v))" for v using typedError_status [of st v] by auto
  show "successful st \<and> (\<exists>v. JSON_parse raw = Some v \<and> run_evidence is_date v)"
    if "successful (san_status (sanitizeReconciliationUpstreamBody is_date st raw))"
    using that e by (auto simp: sanitizeReconciliationUpstreamBody_def sanitizeReconciliationUpstream_def sanitizeRun_def
        reconciliation_unknownOutcome_def Let_def split: option.splits if_splits)
  show "successful (san_status (sanitizeReconciliationUpstreamBody is_date st raw))
      \<or> sanitizeReconciliationUpstreamBody is_date st raw = error_outcome 504 ''reconciliation_outcome_unknown''" if "successful st"
    using that by (auto simp: sanitizeReconciliationUpstreamBody_def sanitizeReconciliationUpstream_def sanitizeRun_def
        reconciliation_unknownOutcome_def Let_def split: option.splits)
  show "400 \<le> san_status (sanitizeReconciliationUpstreamBody is_date st raw)" if "\<not> successful st"
    using that typedError_status by (auto simp: sanitizeReconciliationUpstreamBody_def sanitizeReconciliationUpstream_def
        Let_def split: option.splits)
qed

lemma empty_object_no_evidence: "\<not> replay_evidence stage (JObj [])"
  by (auto simp: replay_evidence_def isWebhookReplayApproval_def isWebhookReplayResult_def exactObject_def split: replay_stage.splits)

interpretation replay: upstream_sanitizer "sanitizeWebhookReplayUpstreamBody stage" "replay_evidence stage"
  "stage_name stage @ ''_outcome_unknown''" for stage
proof
  fix st raw
  show "successful st \<and> (\<exists>v. JSON_parse raw = Some v \<and> replay_evidence stage v)"
    if "successful (san_status (sanitizeWebhookReplayUpstreamBody stage st raw))"
    using that empty_object_no_evidence [of stage]
    by (auto simp: sanitizeWebhookReplayUpstreamBody_def Let_def split: option.splits if_splits)
  show "successful (san_status (sanitizeWebhookReplayUpstreamBody stage st raw))
      \<or> sanitizeWebhookReplayUpstreamBody stage st raw = error_outcome 504 (stage_name stage @ ''_outcome_unknown'')"
    if "successful st"
    using that by (auto simp: sanitizeWebhookReplayUpstreamBody_def Let_def split: option.splits)
  show "400 \<le> san_status (sanitizeWebhookReplayUpstreamBody stage st raw)" if "\<not> successful st"
    using that by (auto simp: sanitizeWebhookReplayUpstreamBody_def Let_def split: option.splits)
qed

section \<open>Properties\<close>





text \<open>The account request parsers are canonical: what they return has exactly the fields of one
  command in a fixed order, each within its bound, and parsing it again returns it unchanged. A request
  with a missing, extra or malformed field is refused.\<close>

theorem account_request_canonical:
  "(parseCreateAccountRequest v = Inr w \<longrightarrow>
      object_keys w = [''display_name'', ''external_reference'', ''category'', ''currency'']
      \<and> string_field ''display_name'' isDisplayName w \<and> string_field ''external_reference'' isExternalReference w
      \<and> parseCreateAccountRequest w = Inr w)
   \<and> (parseUpdateAccountRequest v = Inr w \<longrightarrow>
      (object_keys w = [''expected_version'', ''display_name'', ''external_reference'', ''category'']
       \<or> object_keys w = [''expected_version'', ''target_status'', ''reason''])
      \<and> string_field ''expected_version'' isCanonicalPositiveVersion w
      \<and> parseUpdateAccountRequest w = Inr w)"
proof (intro conjI impI)
  assume a: "parseCreateAccountRequest v = Inr w"
  let ?ks = "[''display_name'', ''external_reference'', ''category'', ''currency'']"
  have t: "string_field ''display_name'' isDisplayName v" "string_field ''external_reference'' isExternalReference v"
    "string_field ''category'' (List.member categories) v" "field ''currency'' v = Some (JStr ''INR'')"
    and w: "w = copy_fields v ?ks"
    using a by (auto simp: parseCreateAccountRequest_def split: if_splits)
  have keys: "object_keys w = ?ks"
    unfolding w by (rule copied_keys) (use t in \<open>auto dest: string_field_present\<close>)
  show "object_keys w = ?ks" by (rule keys)
  show sf: "string_field ''display_name'' isDisplayName w" "string_field ''external_reference'' isExternalReference w"
    using t by (simp_all add: w copied_test)
  have "string_field ''category'' (List.member categories) w" "field ''currency'' w = Some (JStr ''INR'')"
    using t by (simp_all add: w copied_test field_copy)
  with sf keys show "parseCreateAccountRequest w = Inr w"
    by (simp add: parseCreateAccountRequest_def hasExactlyKeys_def w copied_twice)
next
  assume a: "parseUpdateAccountRequest v = Inr w"
  let ?ks = "[''expected_version'', ''display_name'', ''external_reference'', ''category'']"
  let ?ls = "[''expected_version'', ''target_status'', ''reason'']"
  have ver: "string_field ''expected_version'' isCanonicalPositiveVersion v"
    using a by (auto simp: parseUpdateAccountRequest_def split: if_splits)
  consider (metadata) "w = copy_fields v ?ks" "string_field ''display_name'' isDisplayName v"
      "string_field ''external_reference'' isExternalReference v" "string_field ''category'' (List.member categories) v"
    | (lifecycle) "w = copy_fields v ?ls" "string_field ''target_status'' (List.member statuses) v" "string_field ''reason'' isLifecycleReason v"
    using a by (auto simp: parseUpdateAccountRequest_def split: if_splits)
  then have "(object_keys w = ?ks \<or> object_keys w = ?ls)
      \<and> string_field ''expected_version'' isCanonicalPositiveVersion w \<and> parseUpdateAccountRequest w = Inr w"
  proof cases
    case metadata
    have keys: "object_keys w = ?ks"
      unfolding metadata(1) by (rule copied_keys) (use ver metadata in \<open>auto dest: string_field_present\<close>)
    then show ?thesis
      using ver metadata by (simp add: parseUpdateAccountRequest_def hasExactlyKeys_def copied_test copied_twice)
  next
    case lifecycle
    have keys: "object_keys w = ?ls"
      unfolding lifecycle(1) by (rule copied_keys) (use ver lifecycle in \<open>auto dest: string_field_present\<close>)
    then show ?thesis
      using ver lifecycle by (simp add: parseUpdateAccountRequest_def hasExactlyKeys_def copied_test copied_twice)
  qed
  then show "object_keys w = ?ks \<or> object_keys w = ?ls" "string_field ''expected_version'' isCanonicalPositiveVersion w"
    "parseUpdateAccountRequest w = Inr w" by blast+
qed

theorem account_request_canonical_witness:
  "parseUpdateAccountRequest (JObj [(''expected_version'', JStr ''7''), (''target_status'', JStr ''frozen''), (''reason'', JStr ''review'')])
   = Inr (JObj [(''expected_version'', JStr ''7''), (''target_status'', JStr ''frozen''), (''reason'', JStr ''review'')])"
proof -
  let ?v = "JObj [(''reason'', JStr ''review''), (''expected_version'', JStr ''7''), (''target_status'', JStr ''frozen'')]"
  let ?w = "JObj [(''expected_version'', JStr ''7''), (''target_status'', JStr ''frozen''), (''reason'', JStr ''review'')]"
  have "digits_value ''7'' \<le> 9223372036854775807" by (simp add: digits_value_def digit_value_def)
  moreover have "rx_test positiveInteger ''7''" by code_simp
  moreover have "isLifecycleReason ''review''" by code_simp
  ultimately have "parseUpdateAccountRequest ?v = Inr ?w"
    by (simp add: parseUpdateAccountRequest_def hasExactlyKeys_def string_field_def isCanonicalPositiveVersion_def
        statuses_def copy_fields_def copy_field_def)
  then show ?thesis using account_request_canonical [of ?v ?w] by blast
qed

end
