(* ===== verification/Intents.thy ===== *)
theory Intents
  imports Browser MutationApi
begin

text \<open>
  The command intents that the console keeps in \<^verbatim>\<open>sessionStorage\<close>: their storage keys, how they are
  created, and how a stored text is read back (\<^verbatim>\<open>financialPostIntent.ts\<close>, \<^verbatim>\<open>transferIntent.ts\<close>,
  \<^verbatim>\<open>accountCommandIntent.ts\<close>, \<^verbatim>\<open>reconciliationCommandIntent.ts\<close>, \<^verbatim>\<open>webhookReplayIntent.ts\<close>). The readers
  check a parsed value and return it as it is, so that an intent is a JSON value. \<^verbatim>\<open>crypto.randomUUID()\<close>
  is the argument \<open>uuid\<close>.

  The locale \<open>intent_codec\<close> states what the hooks rely on: an intent that was read can be written and read
  again unchanged.
\<close>

section \<open>Shared tests\<close>

text \<open>\<^verbatim>\<open>String(value)\<close>\<close>

fun string_of :: "json \<Rightarrow> string" where
  "string_of JNull = ''null''"
| "string_of (JBool b) = (if b then ''true'' else ''false'')"
| "string_of (JNum x) = num_string x"
| "string_of (JStr s) = s"
| "string_of (JArr vs) = join_with '','' (map (\<lambda>v. if v = JNull then [] else string_of v) vs)"
| "string_of (JObj ob) = ''[object Object]''"

definition field_text :: "string \<Rightarrow> json \<Rightarrow> string" where
  "field_text k v = (case field k v of None \<Rightarrow> ''undefined'' | Some x \<Rightarrow> string_of x)"

definition jint :: "int \<Rightarrow> json" where
  "jint n = JNum (Fin (of_int n))"

text \<open>A text, \<^verbatim>\<open>null\<close> or too long, that is not an intent.\<close>

definition read_json :: "nat \<Rightarrow> string option \<Rightarrow> json option" where
  "read_json limit raw = (case raw of
     None \<Rightarrow> None
   | Some t \<Rightarrow> if t = [] \<or> limit < length t then None else JSON_parse t)"

definition read_any :: "string option \<Rightarrow> json option" where
  "read_any raw = (case raw of None \<Rightarrow> None | Some t \<Rightarrow> if t = [] then None else JSON_parse t)"

definition accept :: "(json \<Rightarrow> bool) \<Rightarrow> json option \<Rightarrow> json option" where
  "accept P r = (case r of None \<Rightarrow> None | Some v \<Rightarrow> if P v then Some v else None)"

lemma accept_eq_Some [simp]: "accept P r = Some v \<longleftrightarrow> r = Some v \<and> P v"
  by (cases r) (auto simp: accept_def)

lemma read_json_eq_Some: "read_json limit raw = Some v \<longleftrightarrow> (\<exists>t. raw = Some t \<and> t \<noteq> [] \<and> length t \<le> limit \<and> JSON_parse t = Some v)"
  by (auto simp: read_json_def split: option.splits if_splits)

lemma read_any_eq_Some: "read_any raw = Some v \<longleftrightarrow> (\<exists>t. raw = Some t \<and> t \<noteq> [] \<and> JSON_parse t = Some v)"
  by (auto simp: read_any_def split: option.splits if_splits)

section \<open>Funding and correction postings\<close>

datatype financial_post_domain = Funding | Correction

definition domain_name :: "financial_post_domain \<Rightarrow> string" where
  "domain_name d = (case d of Funding \<Rightarrow> ''funding'' | Correction \<Rightarrow> ''correction'')"

definition boundedIdentity :: "string \<Rightarrow> bool" where
  "boundedIdentity s = (1 \<le> length s \<and> length s \<le> 128)"

definition financialPostStorageKey :: "financial_post_domain \<Rightarrow> string \<Rightarrow> string \<Rightarrow> string" where
  "financialPostStorageKey d tenant rid =
     ''ledgersync:financial-post:v1:'' @ domain_name d @ '':'' @ encodeURIComponent tenant @ '':'' @ encodeURIComponent rid"

definition financial_intent :: "financial_post_domain \<Rightarrow> string \<Rightarrow> string \<Rightarrow> string \<Rightarrow> json" where
  "financial_intent d tenant rid key =
     JObj [(''version'', jint 1), (''domain'', JStr (domain_name d)), (''tenantId'', JStr tenant), (''recordId'', JStr rid),
       (''idempotencyKey'', JStr key), (''state'', JStr ''unknown'')]"

definition createFinancialPostIntent :: "financial_post_domain \<Rightarrow> string \<Rightarrow> string \<Rightarrow> string \<Rightarrow> json" where
  "createFinancialPostIntent d tenant rid uuid = financial_intent d tenant rid (domain_name d @ ''-post-'' @ uuid)"

definition financial_ok :: "financial_post_domain \<Rightarrow> string \<Rightarrow> string \<Rightarrow> json \<Rightarrow> bool" where
  "financial_ok d tenant rid v =
     (isRecord v \<and> only_keys v [''version'', ''domain'', ''tenantId'', ''recordId'', ''idempotencyKey'', ''state'']
      \<and> field ''version'' v = Some (jint 1)
      \<and> field ''domain'' v = Some (JStr (domain_name d))
      \<and> field ''tenantId'' v = Some (JStr tenant)
      \<and> field ''recordId'' v = Some (JStr rid)
      \<and> boundedIdentity tenant \<and> boundedIdentity rid
      \<and> string_field ''idempotencyKey'' (rx_test visibleASCII) v
      \<and> field ''state'' v = Some (JStr ''unknown''))"

definition parseFinancialPostIntent :: "string option \<Rightarrow> financial_post_domain \<Rightarrow> string \<Rightarrow> string \<Rightarrow> json option" where
  "parseFinancialPostIntent raw d tenant rid = accept (financial_ok d tenant rid) (read_json 2048 raw)"

section \<open>Transfers\<close>

record transfer_account =
  ta_account_id :: string
  ta_currency :: string

record prepared_transfer =
  pt_source :: transfer_account
  pt_destination :: transfer_account
  pt_amountMinor :: string

definition transferIntentStorageKey :: "string \<Rightarrow> string" where
  "transferIntentStorageKey tenant = ''ledgersync.transfer.intent.'' @ tenant"

definition createStoredTransferIntent :: "string \<Rightarrow> string \<Rightarrow> prepared_transfer \<Rightarrow> json" where
  "createStoredTransferIntent key reference p =
     JObj [(''version'', jint 2), (''idempotencyKey'', JStr key), (''requestReference'', JStr reference),
       (''sourceAccountId'', JStr (ta_account_id (pt_source p))), (''destinationAccountId'', JStr (ta_account_id (pt_destination p))),
       (''currency'', JStr (ta_currency (pt_source p))), (''amountMinor'', JStr (pt_amountMinor p))]"

definition storedIntentMatches :: "json \<Rightarrow> prepared_transfer \<Rightarrow> bool" where
  "storedIntentMatches v p =
     (field ''sourceAccountId'' v = Some (JStr (ta_account_id (pt_source p)))
      \<and> field ''destinationAccountId'' v = Some (JStr (ta_account_id (pt_destination p)))
      \<and> field ''currency'' v = Some (JStr (ta_currency (pt_source p)))
      \<and> field ''amountMinor'' v = Some (JStr (pt_amountMinor p)))"

definition reference_pattern :: rx where
  "reference_pattern =
     (let hex = RSet is_hex_lower in
      RSeq (RRep hex 8 8) (RSeq dash (RSeq (RRep hex 4 4) (RSeq dash (RSeq (RSet (between 49 53)) (RSeq (RRep hex 3 3) (RSeq dash
      (RSeq (RSet (one_of ''89ab'')) (RSeq (RRep hex 3 3) (RSeq dash (RRep hex 12 12)))))))))))"

definition currency_code :: rx where
  "currency_code = RRep (RSet is_upper) 3 3"

definition transfer_ok :: "json \<Rightarrow> bool" where
  "transfer_ok v =
     (v \<noteq> JNull
      \<and> (field ''version'' v = Some (jint 1) \<or> field ''version'' v = Some (jint 2))
      \<and> string_field ''idempotencyKey'' (\<lambda>s. 16 \<le> length s \<and> length s \<le> 255) v
      \<and> (field ''version'' v = Some (jint 2) \<longrightarrow> string_field ''requestReference'' (rx_test reference_pattern) v)
      \<and> string_field ''sourceAccountId'' (\<lambda>s. length s \<noteq> 0 \<and> length s \<le> 128) v
      \<and> string_field ''destinationAccountId'' (\<lambda>s. length s \<noteq> 0 \<and> length s \<le> 128) v
      \<and> field ''sourceAccountId'' v \<noteq> field ''destinationAccountId'' v
      \<and> string_field ''currency'' (rx_test currency_code) v
      \<and> string_field ''amountMinor'' (rx_test positiveInteger) v)"

definition parseStoredTransferIntent :: "string option \<Rightarrow> json option" where
  "parseStoredTransferIntent raw = accept transfer_ok (read_any raw)"

section \<open>Accounts\<close>

definition cleanText :: "nat \<Rightarrow> string \<Rightarrow> bool" where
  "cleanText maximum s = (1 \<le> length s \<and> length s \<le> maximum \<and> \<not> list_ex is_control s)"

definition createAccountStorageKey :: "string \<Rightarrow> string" where
  "createAccountStorageKey tenant = ''ledgersync:account-create:v1:'' @ tenant"

definition lifecycleAccountStorageKey :: "string \<Rightarrow> string \<Rightarrow> string" where
  "lifecycleAccountStorageKey tenant account = ''ledgersync:account-lifecycle:v1:'' @ tenant @ '':'' @ account"

definition newAccountIdempotencyKey :: "string \<Rightarrow> string" where
  "newAccountIdempotencyKey uuid = ''account-'' @ uuid"

definition bounded_reference :: rx where
  "bounded_reference = RSeq (RSet is_alnum) (RRep (RSet (\<lambda>c. is_alnum c \<or> one_of ''._-'' c)) 2 63)"

definition positiveVersion :: rx where
  "positiveVersion = RSeq (RSet (between 49 57)) (RRep (RSet is_digit) 0 18)"

definition validAccountDisplayName :: "string \<Rightarrow> bool" where
  "validAccountDisplayName = cleanText 120"

definition validAccountExternalReference :: "string \<Rightarrow> bool" where
  "validAccountExternalReference = rx_test bounded_reference"

definition validCreateAccountFields :: "json \<Rightarrow> bool" where
  "validCreateAccountFields v =
     (string_field ''display_name'' validAccountDisplayName v \<and> string_field ''external_reference'' validAccountExternalReference v
      \<and> string_field ''category'' (List.member categories) v \<and> field ''currency'' v = Some (JStr ''INR''))"

definition normalizeCreateAccountFields :: "json \<Rightarrow> json" where
  "normalizeCreateAccountFields v =
     JObj ([(''display_name'', JStr (trim (field_string ''display_name'' v))),
            (''external_reference'', JStr (toLowerCase (trim (field_string ''external_reference'' v))))]
       @ copy_field v ''category'' @ [(''currency'', JStr ''INR'')])"

definition validLifecycleReason :: "string \<Rightarrow> bool" where
  "validLifecycleReason s = (0 < length (trim s) \<and> cleanText 256 s)"

definition hasPositiveMinorUnits :: "string \<Rightarrow> bool" where
  "hasPositiveMinorUnits = rx_test positiveInteger"

definition create_draft_ok :: "json \<Rightarrow> bool" where
  "create_draft_ok r =
     (string_field ''display_name'' (\<lambda>s. length s \<le> 120) r \<and> string_field ''external_reference'' (\<lambda>s. length s \<le> 64) r
      \<and> string_field ''category'' (List.member categories) r \<and> field ''currency'' r = Some (JStr ''INR''))"

definition create_account_ok :: "string \<Rightarrow> json \<Rightarrow> bool" where
  "create_account_ok tenant v =
     (isRecord v \<and> field ''version'' v = Some (jint 1) \<and> field ''kind'' v = Some (JStr ''create'')
      \<and> field ''tenantId'' v = Some (JStr tenant) \<and> string_field ''idempotencyKey'' (rx_test visibleASCII) v
      \<and> List.member [''identity'', ''boundary'', ''review'', ''unknown''] (field_text ''stage'' v)
      \<and> (case field ''request'' v of
           Some r \<Rightarrow> isRecord r \<and> create_draft_ok r \<and> (field ''stage'' v \<noteq> Some (JStr ''unknown'') \<or> validCreateAccountFields r)
         | None \<Rightarrow> False))"

definition parseCreateAccountIntent :: "string option \<Rightarrow> string \<Rightarrow> json option" where
  "parseCreateAccountIntent raw tenant = accept (create_account_ok tenant) (read_any raw)"

definition lifecycle_request_ok :: "json \<Rightarrow> bool" where
  "lifecycle_request_ok r =
     (string_field ''expected_version'' (rx_test positiveVersion) r
      \<and> List.member statuses (field_text ''target_status'' r) \<and> string_field ''reason'' validLifecycleReason r)"

definition lifecycle_ok :: "string \<Rightarrow> string \<Rightarrow> json \<Rightarrow> bool" where
  "lifecycle_ok tenant account v =
     (isRecord v \<and> field ''version'' v = Some (jint 1) \<and> field ''kind'' v = Some (JStr ''lifecycle'')
      \<and> field ''state'' v = Some (JStr ''unknown'') \<and> field ''tenantId'' v = Some (JStr tenant)
      \<and> field ''accountId'' v = Some (JStr account) \<and> string_field ''idempotencyKey'' (rx_test visibleASCII) v
      \<and> (case field ''request'' v of Some r \<Rightarrow> isRecord r \<and> lifecycle_request_ok r | None \<Rightarrow> False))"

definition parseLifecycleAccountIntent :: "string option \<Rightarrow> string \<Rightarrow> string \<Rightarrow> json option" where
  "parseLifecycleAccountIntent raw tenant account = accept (lifecycle_ok tenant account) (read_any raw)"

section \<open>Reconciliation runs\<close>

definition reconciliationCommandStorageKey :: "string \<Rightarrow> string" where
  "reconciliationCommandStorageKey tenant = ''ledgersync:reconciliation-command:v1:'' @ encodeURIComponent tenant"

definition newReconciliationIdempotencyKey :: "string \<Rightarrow> string" where
  "newReconciliationIdempotencyKey uuid = ''reconcile-'' @ uuid"

definition truthy_field :: "string \<Rightarrow> json \<Rightarrow> bool" where
  "truthy_field k v = (case field k v of
     None \<Rightarrow> False | Some JNull \<Rightarrow> False | Some (JBool b) \<Rightarrow> b | Some (JNum x) \<Rightarrow> x \<noteq> Fin 0 | Some (JStr s) \<Rightarrow> s \<noteq> [] | _ \<Rightarrow> True)"

definition reconciliation_ok :: "(string \<Rightarrow> bool) \<Rightarrow> string \<Rightarrow> json \<Rightarrow> bool" where
  "reconciliation_ok is_date tenant v =
     (v \<noteq> JNull \<and> field ''version'' v = Some (jint 1) \<and> field ''tenantId'' v = Some (JStr tenant)
      \<and> string_field ''idempotencyKey'' (rx_test visibleASCII) v
      \<and> List.member [''review'', ''unknown'', ''running''] (field_text ''state'' v)
      \<and> (field ''runId'' v \<noteq> None \<longrightarrow> string_field ''runId'' (rx_test canonicalUUIDShape) v)
      \<and> (field ''submittedAt'' v \<noteq> None \<longrightarrow> string_field ''submittedAt'' is_date v)
      \<and> (field ''state'' v = Some (JStr ''running'') \<longrightarrow> truthy_field ''runId'' v))"

definition parseReconciliationCommandIntent :: "(string \<Rightarrow> bool) \<Rightarrow> string option \<Rightarrow> string \<Rightarrow> json option" where
  "parseReconciliationCommandIntent is_date raw tenant = accept (reconciliation_ok is_date tenant) (read_json 2048 raw)"

section \<open>Webhook replays\<close>

definition webhookReplayStorageKey :: "string \<Rightarrow> string \<Rightarrow> string \<Rightarrow> string" where
  "webhookReplayStorageKey tenant endpoint attempt =
     ''ledgersync:webhook-replay:v1:'' @ encodeURIComponent tenant @ '':'' @ encodeURIComponent endpoint @ '':'' @ encodeURIComponent attempt"

definition newWebhookReplayIntent :: "string \<Rightarrow> string \<Rightarrow> string \<Rightarrow> string \<Rightarrow> string \<Rightarrow> string \<Rightarrow> json" where
  "newWebhookReplayIntent tenant endpoint attempt reason uuid1 uuid2 =
     JObj [(''version'', jint 1), (''tenantId'', JStr tenant), (''endpointId'', JStr endpoint), (''attemptId'', JStr attempt),
       (''reasonCode'', JStr reason), (''approvalKey'', JStr (''webhook-approval-'' @ uuid1)),
       (''executionKey'', JStr (''webhook-execution-'' @ uuid2)), (''state'', JStr ''review'')]"

definition replay_intent_ok :: "string \<Rightarrow> string \<Rightarrow> string \<Rightarrow> json \<Rightarrow> bool" where
  "replay_intent_ok tenant endpoint attempt v =
     (v \<noteq> JNull \<and> field ''version'' v = Some (jint 1) \<and> field ''tenantId'' v = Some (JStr tenant)
      \<and> field ''endpointId'' v = Some (JStr endpoint) \<and> field ''attemptId'' v = Some (JStr attempt)
      \<and> string_field ''reasonCode'' (List.member webhookReplayReasonCodes) v
      \<and> string_field ''approvalKey'' (\<lambda>s. isWebhookReplayIdempotencyKey (Some s)) v
      \<and> string_field ''executionKey'' (\<lambda>s. isWebhookReplayIdempotencyKey (Some s)) v
      \<and> List.member [''review'', ''approval_unknown'', ''approved'', ''execution_unknown'', ''scheduled''] (field_text ''state'' v)
      \<and> (field ''approvalId'' v \<noteq> None \<longrightarrow> string_field ''approvalId'' isWebhookReplayIdentifier v)
      \<and> (field ''deliveryJobId'' v \<noteq> None \<longrightarrow> string_field ''deliveryJobId'' isWebhookReplayIdentifier v)
      \<and> (List.member [''approved'', ''execution_unknown'', ''scheduled''] (field_text ''state'' v) \<longrightarrow> truthy_field ''approvalId'' v)
      \<and> (field ''state'' v = Some (JStr ''scheduled'') \<longrightarrow> truthy_field ''deliveryJobId'' v))"

definition parseWebhookReplayIntent :: "string option \<Rightarrow> string \<Rightarrow> string \<Rightarrow> string \<Rightarrow> json option" where
  "parseWebhookReplayIntent raw tenant endpoint attempt = accept (replay_intent_ok tenant endpoint attempt) (read_json 4096 raw)"

section \<open>Intents survive storage\<close>

lemma value_object_distinct:
  assumes "parse_value n t = Some (JObj ob, r)"
  shows "distinct (map fst ob)"
proof -
  have d: "distinct (map fst (obj_of kvs))" for kvs :: "(string \<times> json) list"
    unfolding obj_of_def by (induction kvs rule: rev_induct) (auto intro: distinct_obj_put)
  have l: "parse_literal t' \<noteq> Some (JObj ob, r)" for t'
    by (auto simp: parse_literal_def split: if_splits option.splits)
  from assms l show ?thesis by (cases n) (auto simp: d split: if_splits)
qed

lemma parsed_object_distinct: "JSON_parse t = Some (JObj ob) \<Longrightarrow> distinct (map fst ob)"
  using value_object_distinct unfolding JSON_parse_def by (auto split: option.splits if_splits simp del: parse_value.simps)

locale intent_codec =
  fixes parse :: "string option \<Rightarrow> json option"
    and fits :: "string \<Rightarrow> bool"
    and valid :: "json \<Rightarrow> bool"
  assumes parse_iff: "parse raw = Some v \<longleftrightarrow> (\<exists>t. raw = Some t \<and> t \<noteq> [] \<and> fits t \<and> JSON_parse t = Some v \<and> valid v)"
begin

lemma missing: "parse None = None"
  using parse_iff [of None] by (cases "parse None") auto

lemma written_is_read:
  assumes "plain_json v" "valid v" "fits (JSON_stringify v)"
  shows "parse (Some (JSON_stringify v)) = Some v"
proof -
  have "JSON_stringify v \<noteq> []" by (rule stringify_head [OF assms(1)]) simp
  with assms JSON_roundtrip [OF assms(1)] show ?thesis by (simp add: parse_iff)
qed

lemma reread: "parse raw = Some v \<Longrightarrow> plain_json v \<Longrightarrow> fits (JSON_stringify v) \<Longrightarrow> parse (Some (JSON_stringify v)) = Some v"
  using written_is_read [of v] unfolding parse_iff [of raw] by blast

text \<open>A value that was read back from its own text is that value.\<close>

lemma rewritten_same: "parse (Some (JSON_stringify v)) = Some w \<Longrightarrow> plain_json v \<Longrightarrow> w = v"
  using JSON_roundtrip [of v] unfolding parse_iff by auto

end

interpretation financial_codec: intent_codec "\<lambda>raw. parseFinancialPostIntent raw d tenant rid" "\<lambda>t. length t \<le> 2048" "financial_ok d tenant rid"
  for d tenant rid
  by unfold_locales (auto simp: parseFinancialPostIntent_def read_json_eq_Some)

interpretation transfer_codec: intent_codec parseStoredTransferIntent "\<lambda>t. True" transfer_ok
  by unfold_locales (auto simp: parseStoredTransferIntent_def read_any_eq_Some)

interpretation create_account_codec: intent_codec "\<lambda>raw. parseCreateAccountIntent raw tenant" "\<lambda>t. True" "create_account_ok tenant" for tenant
  by unfold_locales (auto simp: parseCreateAccountIntent_def read_any_eq_Some)

interpretation lifecycle_codec: intent_codec "\<lambda>raw. parseLifecycleAccountIntent raw tenant account" "\<lambda>t. True" "lifecycle_ok tenant account"
  for tenant account
  by unfold_locales (auto simp: parseLifecycleAccountIntent_def read_any_eq_Some)

interpretation reconciliation_codec: intent_codec "\<lambda>raw. parseReconciliationCommandIntent is_date raw tenant" "\<lambda>t. length t \<le> 2048"
  "reconciliation_ok is_date tenant" for is_date tenant
  by unfold_locales (auto simp: parseReconciliationCommandIntent_def read_json_eq_Some)

interpretation replay_codec: intent_codec "\<lambda>raw. parseWebhookReplayIntent raw tenant endpoint attempt" "\<lambda>t. length t \<le> 4096"
  "replay_intent_ok tenant endpoint attempt" for tenant endpoint attempt
  by unfold_locales (auto simp: parseWebhookReplayIntent_def read_json_eq_Some)

section \<open>Created intents are read back\<close>

text \<open>The text of a created intent is short enough to be read back.\<close>

lemma quote_length: "length (quote s) \<le> 6 * length s + 2"
proof -
  have e: "length (escape_char c) \<le> 6" for c by (simp add: escape_char_def)
  have "length (concat (map escape_char s)) \<le> 6 * length s"
    by (induction s) (use e in \<open>auto simp: add_le_mono\<close>)
  then show ?thesis by (simp add: quote_def)
qed

lemma created_length:
  assumes "boundedIdentity t" "boundedIdentity r" "length uuid = 36"
  shows "length (JSON_stringify (createFinancialPostIntent d t r uuid)) \<le> 2048"
proof -
  let ?key = "domain_name d @ ''-post-'' @ uuid"
  have n: "num_string (Fin 1) = ''1''" by code_simp
  have l: "length (quote t) \<le> 770" "length (quote r) \<le> 770" "length (quote ?key) \<le> 314" "length (quote (domain_name d)) \<le> 62"
    using quote_length [of t] quote_length [of r] quote_length [of ?key] quote_length [of "domain_name d"] assms
    by (auto simp: boundedIdentity_def domain_name_def split: financial_post_domain.splits)
  have q: "length (quote ''version'') = 9" "length (quote ''domain'') = 8" "length (quote ''tenantId'') = 10" "length (quote ''recordId'') = 10"
    "length (quote ''idempotencyKey'') = 16" "length (quote ''state'') = 7" "length (quote ''unknown'') = 9"
    by (simp_all add: quote_def escape_char_def)
  show ?thesis using l by (simp add: createFinancialPostIntent_def financial_intent_def jint_def n q)
qed

lemma uuid_visible:
  assumes "rx_test reference_pattern uuid"
  shows "length uuid = 36" "list_all is_visible uuid"
proof -
  show "length uuid = 36"
    using assms by (auto simp: reference_pattern_def Let_def dest!: arg_cong [where f = length])
  show "list_all is_visible uuid"
    using assms by (rule test_over) (auto simp: reference_pattern_def Let_def is_visible_def char_class_defs)
qed


lemma field_lists_ordinary:
  "list_all (\<lambda>k. \<not> is_array_index k) [''version'', ''domain'', ''tenantId'', ''recordId'', ''idempotencyKey'', ''state'',
     ''requestReference'', ''sourceAccountId'', ''destinationAccountId'', ''currency'', ''amountMinor'',
     ''endpointId'', ''attemptId'', ''reasonCode'', ''approvalKey'', ''executionKey'', ''kind'', ''accountId'', ''request'',
     ''expected_version'', ''target_status'', ''reason'']"
  by code_simp

lemma created_posting_recovers:
  assumes "boundedIdentity t" "boundedIdentity r" "rx_test reference_pattern uuid"
  shows "parseFinancialPostIntent (Some (JSON_stringify (createFinancialPostIntent d t r uuid))) d t r
    = Some (createFinancialPostIntent d t r uuid)"
proof -
  let ?v = "createFinancialPostIntent d t r uuid"
  have "rx_test visibleASCII (domain_name d @ ''-post-'' @ uuid)"
    using uuid_visible [OF assms(3)]
    by (auto simp: visibleASCII_test domain_name_def is_visible_def between_def split: financial_post_domain.splits)
  then have "financial_ok d t r ?v"
    using assms by (simp add: financial_ok_def createFinancialPostIntent_def financial_intent_def only_keys_def string_field_def)
  moreover have "plain_json ?v"
    using field_lists_ordinary by (simp add: createFinancialPostIntent_def financial_intent_def jint_def)
  ultimately show ?thesis
    using created_length [OF assms(1,2)] uuid_visible(1) [OF assms(3)] by (intro financial_codec.written_is_read) auto
qed

text \<open>C25: A created command can be restored: for identities of 1 to 128 characters and keys made of a
  version-4 UUID, reading back the text that is stored for a new funding or correction posting, and for
  a new transfer between two different accounts, yields exactly that command, with the same key.\<close>

theorem created_commands_recover:
  "(boundedIdentity t \<and> boundedIdentity r \<and> rx_test reference_pattern uuid \<longrightarrow>
      parseFinancialPostIntent (Some (JSON_stringify (createFinancialPostIntent d t r uuid))) d t r
        = Some (createFinancialPostIntent d t r uuid))
   \<and> (16 \<le> length key \<and> length key \<le> 255 \<and> rx_test reference_pattern uuid
      \<and> ta_account_id (pt_source p) \<noteq> ta_account_id (pt_destination p)
      \<and> boundedIdentity (ta_account_id (pt_source p)) \<and> boundedIdentity (ta_account_id (pt_destination p))
      \<and> rx_test currency_code (ta_currency (pt_source p)) \<and> rx_test positiveInteger (pt_amountMinor p) \<longrightarrow>
      parseStoredTransferIntent (Some (JSON_stringify (createStoredTransferIntent key uuid p)))
        = Some (createStoredTransferIntent key uuid p)
      \<and> storedIntentMatches (createStoredTransferIntent key uuid p) p)"
proof (intro conjI impI)
  show "parseFinancialPostIntent (Some (JSON_stringify (createFinancialPostIntent d t r uuid))) d t r = Some (createFinancialPostIntent d t r uuid)"
    if "boundedIdentity t \<and> boundedIdentity r \<and> rx_test reference_pattern uuid"
    using that created_posting_recovers by blast
next
  assume a: "16 \<le> length key \<and> length key \<le> 255 \<and> rx_test reference_pattern uuid
      \<and> ta_account_id (pt_source p) \<noteq> ta_account_id (pt_destination p)
      \<and> boundedIdentity (ta_account_id (pt_source p)) \<and> boundedIdentity (ta_account_id (pt_destination p))
      \<and> rx_test currency_code (ta_currency (pt_source p)) \<and> rx_test positiveInteger (pt_amountMinor p)"
  let ?v = "createStoredTransferIntent key uuid p"
  have "transfer_ok ?v" using a
    by (auto simp: transfer_ok_def createStoredTransferIntent_def string_field_def boundedIdentity_def jint_def simp del: rx_test.simps)
  moreover have "plain_json ?v"
    using field_lists_ordinary by (simp add: createStoredTransferIntent_def jint_def)
  ultimately show "parseStoredTransferIntent (Some (JSON_stringify ?v)) = Some ?v"
    by (intro transfer_codec.written_is_read) auto
  show "storedIntentMatches ?v p" by (simp add: storedIntentMatches_def createStoredTransferIntent_def)
qed

theorem created_commands_recover_witness:
  "parseFinancialPostIntent (Some (JSON_stringify (createFinancialPostIntent Funding ''acme'' ''rec-1'' ''11111111-1111-4111-8111-111111111111'')))
     Funding ''acme'' ''rec-1'' = Some (createFinancialPostIntent Funding ''acme'' ''rec-1'' ''11111111-1111-4111-8111-111111111111'')"
proof -
  have "boundedIdentity ''acme'' \<and> boundedIdentity ''rec-1'' \<and> rx_test reference_pattern ''11111111-1111-4111-8111-111111111111''"
    by code_simp
  then show ?thesis using created_commands_recover [of "''acme''" "''rec-1''" "''11111111-1111-4111-8111-111111111111''" Funding] by blast
qed

section \<open>Storage keys\<close>

text \<open>Commands of different identities never share a storage cell: the keys of postings, of
  reconciliation runs and of webhook replays determine the tenant and the record they belong to, so
  that restoring one tenant's command cannot pick up another's.\<close>

theorem storage_keys_separate:
  "(financialPostStorageKey d t r = financialPostStorageKey d' t' r' \<longleftrightarrow> d = d' \<and> t = t' \<and> r = r')
   \<and> (reconciliationCommandStorageKey t = reconciliationCommandStorageKey t' \<longleftrightarrow> t = t')
   \<and> (webhookReplayStorageKey t e a = webhookReplayStorageKey t' e' a' \<longleftrightarrow> t = t' \<and> e = e' \<and> a = a')
   \<and> financialPostStorageKey d t r \<noteq> webhookReplayStorageKey t' e' a'"
proof -
  have nc: "CHR '':'' \<notin> set (encodeURIComponent x)" for x
    using encodeURIComponent_chars [of "CHR '':''" x] by (auto simp: uri_unreserved_def char_class_defs)
  have sep: "xs @ CHR '':'' # ys = xs' @ CHR '':'' # ys' \<longleftrightarrow> xs = xs' \<and> ys = ys'"
    if "CHR '':'' \<notin> set xs" "CHR '':'' \<notin> set xs'" for xs ys xs' ys' :: string
    using that by (induction xs arbitrary: xs') (case_tac xs'; auto)+
  have "financialPostStorageKey d t r = financialPostStorageKey d' t' r' \<longleftrightarrow> d = d' \<and> t = t' \<and> r = r'"
    by (cases d; cases d') (auto simp: financialPostStorageKey_def domain_name_def sep nc encodeURIComponent_inj)
  moreover have "webhookReplayStorageKey t e a = webhookReplayStorageKey t' e' a' \<longleftrightarrow> t = t' \<and> e = e' \<and> a = a'"
    by (auto simp: webhookReplayStorageKey_def sep nc encodeURIComponent_inj)
  moreover have "financialPostStorageKey d t r \<noteq> webhookReplayStorageKey t' e' a'"
    by (simp add: financialPostStorageKey_def webhookReplayStorageKey_def)
  ultimately show ?thesis by (auto simp: reconciliationCommandStorageKey_def encodeURIComponent_inj)
qed

text \<open>The key of an account lifecycle command is not escaped: identifiers with a colon can collide.\<close>

lemma lifecycle_key_collision:
  "lifecycleAccountStorageKey ''a:b'' ''c'' = lifecycleAccountStorageKey ''a'' ''b:c''"
  by (simp add: lifecycleAccountStorageKey_def)

end
