(* ===== verification/FinancialPost.thy ===== *)
theory FinancialPost
  imports Intents
begin

text \<open>
  The permanent posting command of funding events and corrections:
  \<^verbatim>\<open>features/console/useFinancialPostCommand.ts\<close>, as \<^verbatim>\<open>FundingViews\<close>, \<^verbatim>\<open>CorrectionDetail\<close> and
  \<^verbatim>\<open>CorrectionsConsole\<close> call it (\<^verbatim>\<open>send(prepare())\<close>, and \<^verbatim>\<open>discard()\<close> once the refreshed record is
  posted).

  \<open>awaiting\<close> is the command of the mounted instance whose response has not arrived; \<open>orphans\<close> are those of
  instances that were unmounted meanwhile, whose continuation still changes the storage. A reload ends
  them all.
\<close>

section \<open>The hook\<close>

record 'r fp_options =
  domain :: financial_post_domain
  tenant :: string
  recordId :: string
  endpoint :: string
  parseSuccess :: "json \<Rightarrow> 'r option"

datatype failure_kind = Unknown | Conflict | Denied | Failed

datatype 'r fp_outcome =
    Success 'r bool string
  | Failure failure_kind string string

record 'r fp_state =
  storage :: storage
  intent :: "json option"
  outcome :: "'r fp_outcome option"
  pending :: bool
  inFlight :: bool
  awaiting :: "(json \<times> string) option"
  orphans :: "(json \<times> string) list"

definition fp_key :: "'r fp_options \<Rightarrow> string" where
  "fp_key opts = financialPostStorageKey (domain opts) (tenant opts) (recordId opts)"

definition fp_parse :: "'r fp_options \<Rightarrow> string option \<Rightarrow> json option" where
  "fp_parse opts raw = parseFinancialPostIntent raw (domain opts) (tenant opts) (recordId opts)"

definition intent_key :: "json \<Rightarrow> string" where
  "intent_key v = field_string ''idempotencyKey'' v"

definition errorCode :: "json \<Rightarrow> string" where
  "errorCode v = (case error_code v of Some c \<Rightarrow> c | None \<Rightarrow> ''temporary_unavailable'')"

definition readRecovery :: "'r fp_options \<Rightarrow> storage \<Rightarrow> json option" where
  "readRecovery opts st = (case getItem (fp_key opts) st of Inl _ \<Rightarrow> None | Inr raw \<Rightarrow> fp_parse opts raw)"

definition persistRecovery :: "'r fp_options \<Rightarrow> json \<Rightarrow> 'r fp_state \<Rightarrow> 'r fp_state option" where
  "persistRecovery opts command s = (case setItem (fp_key opts) (JSON_stringify command) (storage s) of
     Inl _ \<Rightarrow> None
   | Inr st \<Rightarrow> Some (s\<lparr>storage := st, intent := Some command\<rparr>))"

definition clear_storage :: "'r fp_options \<Rightarrow> storage \<Rightarrow> storage" where
  "clear_storage opts st = (case removeItem (fp_key opts) st of Inl _ \<Rightarrow> st | Inr st' \<Rightarrow> st')"

definition clearRecovery :: "'r fp_options \<Rightarrow> 'r fp_state \<Rightarrow> 'r fp_state" where
  "clearRecovery opts s = s\<lparr>storage := clear_storage opts (storage s), intent := None\<rparr>"

definition restore :: "'r fp_options \<Rightarrow> 'r fp_state \<Rightarrow> 'r fp_state" where
  "restore opts s =
     (if tenant opts = [] \<or> recordId opts = [] then s
      else let restored = readRecovery opts (storage s) in
        s\<lparr>intent := restored,
          outcome := (case restored of
            None \<Rightarrow> outcome s
          | Some v \<Rightarrow> Some (Failure Unknown
              ''LedgerSync cannot prove whether this permanent posting completed. Refresh the record or retry only this exact command with the retained key.''
              (intent_key v)))\<rparr>)"

definition prepare :: "'r fp_options \<Rightarrow> 'r fp_state \<Rightarrow> string \<Rightarrow> json" where
  "prepare opts s uuid =
     (let same = (\<lambda>v. field ''domain'' v = Some (JStr (domain_name (domain opts)))
                    \<and> field ''tenantId'' v = Some (JStr (tenant opts)) \<and> field ''recordId'' v = Some (JStr (recordId opts)));
          current = (case intent s of
            Some v \<Rightarrow> if same v then Some v else readRecovery opts (storage s)
          | None \<Rightarrow> readRecovery opts (storage s)) in
      case current of Some v \<Rightarrow> v | None \<Rightarrow> createFinancialPostIntent (domain opts) (tenant opts) (recordId opts) uuid)"

text \<open>\<^verbatim>\<open>send\<close> up to its request. The second component is the command sent, the third what it returns
  when it sends nothing.\<close>

definition with_reference :: "string \<Rightarrow> string \<Rightarrow> string" where
  "with_reference message reference = message @ '' Request reference: '' @ reference @ ''.''"

definition send :: "'r fp_options \<Rightarrow> 'r fp_state \<Rightarrow> json \<Rightarrow> string \<Rightarrow> 'r fp_state \<times> json option \<times> 'r fp_outcome option" where
  "send opts s command localReference =
     (if inFlight s then (s, None, Some (Failure Unknown
        ''This exact permanent command is already in flight. Wait for its authoritative response before retrying.'' (intent_key command)))
      else case fp_parse opts (Some (JSON_stringify command)) of
        None \<Rightarrow>
          (let next = Failure Failed (with_reference
             ''The permanent command did not match this record and was not sent. Refresh before trying again.'' localReference) localReference in
           (s\<lparr>outcome := Some next\<rparr>, None, Some next))
      | Some validated \<Rightarrow>
          (case persistRecovery opts validated s of
             None \<Rightarrow>
               (let next = Failure Failed (with_reference
                  ''Safe retry storage is unavailable, so LedgerSync did not send this permanent command. Restore browser storage and try again.''
                  localReference) localReference in
                (s\<lparr>outcome := Some next\<rparr>, None, Some next))
           | Some s' \<Rightarrow>
               (s'\<lparr>inFlight := True, pending := True, outcome := None, awaiting := Some (validated, localReference)\<rparr>, Some validated, None)))"

text \<open>What the hook concludes from a response: the outcome it shows, and whether it regards the command
  as settled and clears its recovery record.\<close>

definition response_reference :: "answer \<Rightarrow> string \<Rightarrow> string" where
  "response_reference r localReference = (case get_header ''X-Request-ID'' (ans_headers r) of Some v \<Rightarrow> v | None \<Rightarrow> localReference)"

definition uncertain :: "nat \<Rightarrow> string \<Rightarrow> bool" where
  "uncertain st c = (successful st \<or> endsWith c ''_outcome_unknown'' \<or> c = ''request_in_progress'' \<or> st = 429 \<or> 500 \<le> st)"

definition failure_message :: "failure_kind \<Rightarrow> string" where
  "failure_message k = (case k of
     Unknown \<Rightarrow> ''LedgerSync cannot prove whether this permanent posting completed. Retry only this exact command with the retained key, or refresh the authoritative record.''
   | Conflict \<Rightarrow> ''The record changed or is no longer approved for posting. Current evidence must be refreshed before another action.''
   | Denied \<Rightarrow> ''This permanent posting is not authorized for the current session. Reauthenticate or ask an authorized operator.''
   | Failed \<Rightarrow> ''The permanent posting was rejected before LedgerSync could record it. Review the current record before trying again.'')"

definition conclude :: "'r fp_options \<Rightarrow> string \<Rightarrow> arrival \<Rightarrow> 'r fp_outcome \<times> bool" where
  "conclude opts localReference a = (case a of
     Lost \<Rightarrow> (Failure Unknown (with_reference
        ''The connection ended after submission. The outcome is unknown; retry only this exact command with the retained key.'' localReference)
        localReference, False)
   | Arrived r \<Rightarrow>
       (let value = json_or_empty r; requestReference = response_reference r localReference in
        case (if ans_ok r then parseSuccess opts value else None) of
          Some rec \<Rightarrow> (Success rec (get_header ''Idempotent-Replay'' (ans_headers r) = Some ''true'' \<or> field ''replayed'' value = Some (JBool True))
                        requestReference, True)
        | None \<Rightarrow>
            (let unsure = uncertain (ans_status r) (errorCode value);
                 kind = (if unsure then Unknown else if ans_status r = 409 then Conflict
                         else if ans_status r = 401 \<or> ans_status r = 403 \<or> ans_status r = 428 then Denied else Failed) in
             (Failure kind (with_reference (failure_message kind) requestReference) requestReference, \<not> unsure))))"

definition arrive :: "'r fp_options \<Rightarrow> 'r fp_state \<Rightarrow> string \<Rightarrow> arrival \<Rightarrow> 'r fp_state \<times> bool" where
  "arrive opts s localReference a =
     (case conclude opts localReference a of (next, settled) \<Rightarrow>
        ((if settled then clearRecovery opts s else s)\<lparr>outcome := Some next, inFlight := False, pending := False, awaiting := None\<rparr>, settled))"

section \<open>Events\<close>

datatype fp_event =
    Mount
  | Post string string
  | Response arrival
  | Discard
  | Dismiss
  | Unmount
  | Late_response nat arrival
  | Reload
  | Storage_becomes bool write_mode

text \<open>A command is identified by its endpoint and its idempotency key; a posting has no body.\<close>

type_synonym fp_command = "string \<times> string"

definition identity :: "'r fp_options \<Rightarrow> json \<Rightarrow> fp_command" where
  "identity opts v = (endpoint opts, intent_key v)"

definition unmounted :: "'r fp_state \<Rightarrow> 'r fp_state" where
  "unmounted s = s\<lparr>intent := None, outcome := None, pending := False, inFlight := False, awaiting := None\<rparr>"

fun fp_step :: "'r fp_options \<Rightarrow> 'r fp_state \<Rightarrow> fp_event \<Rightarrow> 'r fp_state \<times> fp_command signal list" where
  "fp_step opts s Mount = (restore opts s, [])"
| "fp_step opts s (Post uuid localReference) =
     (case send opts s (prepare opts s uuid) localReference of (s', sent, _) \<Rightarrow>
        (s', case sent of None \<Rightarrow> [] | Some v \<Rightarrow> [Sent (identity opts v)]))"
| "fp_step opts s (Response a) = (case awaiting s of
     None \<Rightarrow> (s, [])
   | Some (v, localReference) \<Rightarrow> (case arrive opts s localReference a of (s', settled) \<Rightarrow>
       (s', if settled then [Settled (identity opts v)] else [])))"
| "fp_step opts s Discard = (clearRecovery opts s, [Abandoned])"
| "fp_step opts s Dismiss = (s\<lparr>outcome := None\<rparr>, [])"
| "fp_step opts s Unmount = ((unmounted s)\<lparr>orphans := (case awaiting s of None \<Rightarrow> orphans s | Some w \<Rightarrow> w # orphans s)\<rparr>, [])"
| "fp_step opts s (Late_response i a) =
     (if i < length (orphans s) then
        (case orphans s ! i of (v, localReference) \<Rightarrow> (case conclude opts localReference a of (_, settled) \<Rightarrow>
           (s\<lparr>storage := (if settled then clear_storage opts (storage s) else storage s), orphans := take i (orphans s) @ drop (Suc i) (orphans s)\<rparr>,
            if settled then [Settled (identity opts v)] else [])))
      else (s, []))"
| "fp_step opts s Reload = ((unmounted s)\<lparr>orphans := []\<rparr>, [])"
| "fp_step opts s (Storage_becomes r w) = (s\<lparr>storage := (storage s)\<lparr>readable := r, write_mode := w\<rparr>\<rparr>, [])"

section \<open>Stored commands\<close>

lemma intent_keys_ordinary:
  "list_all (\<lambda>k. \<not> is_array_index k) [''version'', ''domain'', ''tenantId'', ''recordId'', ''idempotencyKey'', ''state'']"
  by code_simp

lemma financial_plain:
  assumes "financial_ok d t r v" and dist: "\<And>ob. v = JObj ob \<Longrightarrow> distinct (map fst ob)"
  shows "plain_json v"
proof -
  obtain ob where v: "v = JObj ob" using assms(1) by (cases v) (auto simp: financial_ok_def)
  let ?ks = "[''version'', ''domain'', ''tenantId'', ''recordId'', ''idempotencyKey'', ''state'']"
  have d: "distinct (map fst ob)" using dist v by blast
  have p: "\<not> is_array_index k \<and> plain_json x" if "(k, x) \<in> set ob" for k x
  proof -
    have x: "map_of ob k = Some x" using that d by simp
    have "only_keys v ?ks" using assms(1) by (simp add: financial_ok_def)
    then have k: "k \<in> set ?ks" using that by (auto simp: v only_keys_def list_ex_iff)
    have "\<not> is_array_index k" using k intent_keys_ordinary by (auto simp: list_all_iff)
    moreover have "x = jint 1 \<or> (\<exists>s. x = JStr s)"
      using k x assms(1) by (auto simp: financial_ok_def v string_field_def split: option.splits json.splits)
    ultimately show ?thesis by (auto simp: jint_def)
  qed
  from d p show ?thesis by (auto simp: v list_all_iff)
qed

lemma fp_parse_plain: "fp_parse opts raw = Some v \<Longrightarrow> plain_json v"
  by (auto simp: fp_parse_def parseFinancialPostIntent_def read_json_eq_Some intro!: financial_plain parsed_object_distinct)

lemma created_plain: "plain_json (createFinancialPostIntent d t r uuid)"
  using intent_keys_ordinary by (auto simp: createFinancialPostIntent_def financial_intent_def jint_def)

lemma fp_reparse: "fp_parse opts (Some (JSON_stringify v)) = Some w \<Longrightarrow> plain_json v \<Longrightarrow> w = v"
  unfolding fp_parse_def by (rule financial_codec.rewritten_same)

lemma fp_parse_same:
  assumes "fp_parse opts raw = Some v"
  shows "field ''domain'' v = Some (JStr (domain_name (domain opts)))
    \<and> field ''tenantId'' v = Some (JStr (tenant opts)) \<and> field ''recordId'' v = Some (JStr (recordId opts))"
  using assms by (auto simp: fp_parse_def parseFinancialPostIntent_def financial_ok_def)

section \<open>The invariant\<close>

text \<open>The retained command of a state is what a reload would restore.\<close>

abbreviation cell :: "'r fp_options \<Rightarrow> 'r fp_state \<Rightarrow> string option" where
  "cell opts s \<equiv> stored (storage s) (fp_key opts)"

definition fp_inv :: "'r fp_options \<Rightarrow> 'r fp_state \<Rightarrow> fp_command option \<Rightarrow> bool" where
  "fp_inv opts s owed =
     (write_mode (storage s) \<noteq> Drops
      \<and> (\<forall>v. intent s = Some v \<longrightarrow> (\<exists>raw. fp_parse opts raw = Some v))
      \<and> (inFlight s \<longleftrightarrow> awaiting s \<noteq> None)
      \<and> (\<forall>v l. awaiting s = Some (v, l) \<longrightarrow> owed = None \<or> owed = Some (identity opts v))
      \<and> (\<forall>k. owed = Some k \<longrightarrow>
           (\<exists>c. cell opts s = Some (JSON_stringify c) \<and> fp_parse opts (cell opts s) = Some c \<and> identity opts c = k
              \<and> (\<forall>v. intent s = Some v \<longrightarrow> v = c))))"

definition fp_start :: "'r fp_state \<Rightarrow> bool" where
  "fp_start s = (write_mode (storage s) \<noteq> Drops \<and> intent s = None \<and> \<not> inFlight s \<and> awaiting s = None)"

text \<open>The storage stores what it accepts, and no response of an unmounted instance arrives late.\<close>

definition fp_good :: "fp_event \<Rightarrow> bool" where
  "fp_good e = (case e of Storage_becomes r w \<Rightarrow> w \<noteq> Drops | Late_response i a \<Rightarrow> False | _ \<Rightarrow> True)"

lemma readRecovery_cell: "readRecovery opts (storage s) = Some v \<Longrightarrow> fp_parse opts (cell opts s) = Some v"
  by (auto simp: readRecovery_def getItem_def split: if_splits sum.splits)

lemma readRecovery_owed:
  "fp_inv opts s (Some k) \<Longrightarrow> readRecovery opts (storage s) = Some v \<Longrightarrow> identity opts v = k"
  using readRecovery_cell [of opts s v] by (auto simp: fp_inv_def)

lemma readRecovery_parsed: "readRecovery opts st = Some v \<Longrightarrow> \<exists>raw. fp_parse opts raw = Some v"
  by (auto simp: readRecovery_def split: sum.splits)

text \<open>What is prepared is the open command, or else nothing can be stored.\<close>

lemma prepare_cases:
  assumes "fp_inv opts s owed"
  shows "plain_json (prepare opts s uuid)
    \<and> (\<forall>k. owed = Some k \<longrightarrow> identity opts (prepare opts s uuid) = k \<or> \<not> readable (storage s))"
proof (cases "intent s")
  case (Some v)
  obtain raw where r: "fp_parse opts raw = Some v" using assms Some by (auto simp: fp_inv_def)
  have "prepare opts s uuid = v" using fp_parse_same [OF r] by (simp add: prepare_def Some)
  then show ?thesis using assms Some fp_parse_plain [OF r] by (auto simp: fp_inv_def)
next
  case None
  show ?thesis
  proof (cases "readRecovery opts (storage s)")
    case (Some v)
    have "prepare opts s uuid = v" by (simp add: prepare_def None Some)
    then show ?thesis using readRecovery_parsed [OF Some] fp_parse_plain readRecovery_owed [OF _ Some] assms by blast
  next
    case no: None
    have "prepare opts s uuid = createFinancialPostIntent (domain opts) (tenant opts) (recordId opts) uuid"
      by (simp add: prepare_def None no)
    moreover have "\<not> readable (storage s)" if "owed = Some k" for k
      using assms that no by (auto simp: fp_inv_def readRecovery_def getItem_def split: if_splits)
    ultimately show ?thesis using created_plain by auto
  qed
qed

lemma fp_inv_outcome [simp]: "fp_inv opts (s\<lparr>outcome := x\<rparr>) owed = fp_inv opts s owed"
  by (simp add: fp_inv_def)

lemma fp_inv_None: "fp_inv opts s None \<longleftrightarrow> write_mode (storage s) \<noteq> Drops
    \<and> (\<forall>v. intent s = Some v \<longrightarrow> (\<exists>raw. fp_parse opts raw = Some v)) \<and> (inFlight s \<longleftrightarrow> awaiting s \<noteq> None)"
  by (simp add: fp_inv_def)

lemma fp_inv_idle: "fp_inv opts s owed \<Longrightarrow> fp_inv opts (s\<lparr>inFlight := False, pending := y, awaiting := None, outcome := x\<rparr>) owed"
  by (simp add: fp_inv_def)

lemma fp_inv_unmounted: "fp_inv opts s owed \<Longrightarrow> fp_inv opts ((unmounted s)\<lparr>orphans := os\<rparr>) owed"
  by (simp add: fp_inv_def unmounted_def) blast

lemma fp_inv_mode: "fp_inv opts s owed \<Longrightarrow> w \<noteq> Drops \<Longrightarrow> fp_inv opts (s\<lparr>storage := (storage s)\<lparr>readable := r, write_mode := w\<rparr>\<rparr>) owed"
  by (simp add: fp_inv_def)

lemma clear_storage_mode [simp]: "write_mode (clear_storage opts st) = write_mode st"
  by (simp add: clear_storage_def removeItem_def split: sum.split write_mode.split)

lemma fp_inv_cleared: "fp_inv opts s owed \<Longrightarrow> fp_inv opts (clearRecovery opts s) None"
  by (simp add: fp_inv_def clearRecovery_def)

lemma send_sent:
  assumes "send opts s command l = (s', Some v, out)"
  shows "\<exists>st. \<not> inFlight s \<and> fp_parse opts (Some (JSON_stringify command)) = Some v
    \<and> setItem (fp_key opts) (JSON_stringify v) (storage s) = Inr st
    \<and> s' = s\<lparr>storage := st, intent := Some v, inFlight := True, pending := True, outcome := None, awaiting := Some (v, l)\<rparr>"
  using assms
  by (cases "fp_parse opts (Some (JSON_stringify command))")
    (auto simp: send_def persistRecovery_def Let_def split: if_splits option.splits sum.splits)

lemma send_kept: "send opts s command l = (s', None, out) \<Longrightarrow> s' = s \<or> (\<exists>x. s' = s\<lparr>outcome := x\<rparr>)"
  by (auto simp: send_def persistRecovery_def Let_def split: if_splits option.splits sum.splits)

lemma post_step:
  assumes inv: "fp_inv opts s owed" and st: "fp_step opts s (Post uuid l) = (s', sg)"
  shows "disciplined owed sg \<and> fp_inv opts s' (owed_after owed sg)"
proof -
  let ?c = "prepare opts s uuid"
  obtain sent out where snd: "send opts s ?c l = (s', sent, out)"
    and sg: "sg = (case sent of None \<Rightarrow> [] | Some v \<Rightarrow> [Sent (identity opts v)])"
    using st by (auto split: prod.splits)
  show ?thesis
  proof (cases sent)
    case None
    then show ?thesis using inv send_kept [of opts s ?c l s' out] snd by (auto simp: sg)
  next
    case (Some v)
    then obtain st where sent: "\<not> inFlight s" "fp_parse opts (Some (JSON_stringify ?c)) = Some v"
      "setItem (fp_key opts) (JSON_stringify v) (storage s) = Inr st"
      "s' = s\<lparr>storage := st, intent := Some v, inFlight := True, pending := True, outcome := None, awaiting := Some (v, l)\<rparr>"
      using send_sent snd by blast
    have plain: "plain_json ?c" and same: "owed = Some k \<Longrightarrow> identity opts ?c = k \<or> \<not> readable (storage s)" for k
      using prepare_cases [OF inv] by blast+
    have v: "v = ?c" using sent(2) plain by (rule fp_reparse)
    have w: "write_mode (storage s) \<noteq> Drops" using inv by (simp add: fp_inv_def)
    have rd: "readable (storage s)" using sent(3) by (auto simp: setItem_def split: if_splits)
    have cell: "stored st (fp_key opts) = Some (JSON_stringify v)" and m: "write_mode st \<noteq> Drops"
      using setItem_Inr [OF sent(3) w] setItem_kept [OF sent(3)] w by auto
    have p: "fp_parse opts (Some (JSON_stringify v)) = Some v" using sent(2) v by simp
    have "disciplined owed sg" using same rd by (cases owed) (auto simp: sg Some v)
    moreover have "fp_inv opts s' (Some (identity opts v))"
      unfolding fp_inv_def using p exI [of "\<lambda>raw. fp_parse opts raw = Some v", OF p] by (simp add: sent(4) cell m)
    ultimately show ?thesis by (simp add: sg Some)
  qed
qed

lemma response_step:
  assumes inv: "fp_inv opts s owed" and st: "fp_step opts s (Response a) = (s', sg)"
  shows "disciplined owed sg \<and> fp_inv opts s' (owed_after owed sg)"
proof (cases "awaiting s")
  case None
  then show ?thesis using inv st by simp
next
  case (Some w)
  obtain v l where w: "w = (v, l)" by (cases w)
  obtain out settled where c: "conclude opts l a = (out, settled)" by (cases "conclude opts l a")
  have sg: "sg = (if settled then [Settled (identity opts v)] else [])"
    and s': "s' = (if settled then clearRecovery opts s else s)\<lparr>inFlight := False, pending := False, awaiting := None, outcome := Some out\<rparr>"
    using st by (auto simp: Some w arrive_def c)
  have ow: "owed = None \<or> owed = Some (identity opts v)" using inv Some w by (simp add: fp_inv_def)
  show ?thesis
  proof (cases settled)
    case True
    have "owed_after owed sg = None" using ow by (auto simp: sg True)
    moreover have "fp_inv opts s' None" using fp_inv_idle [OF fp_inv_cleared [OF inv]] by (simp add: s' True)
    ultimately show ?thesis by (simp add: sg True)
  next
    case False
    then show ?thesis using fp_inv_idle [OF inv] by (simp add: sg s')
  qed
qed

lemma mount_step: "fp_inv opts s owed \<Longrightarrow> fp_inv opts (restore opts s) owed"
proof (cases "readRecovery opts (storage s)")
  case (Some v)
  assume inv: "fp_inv opts s owed"
  have "\<exists>raw. fp_parse opts raw = Some v" "fp_parse opts (cell opts s) = Some v"
    using readRecovery_parsed [OF Some] readRecovery_cell [OF Some] by auto
  then show ?thesis using inv by (auto simp: restore_def Let_def Some fp_inv_def)
qed (simp add: restore_def Let_def fp_inv_def, blast)

interpretation financial_hook: command_hook fp_start "fp_step opts" fp_good "fp_inv opts" for opts :: "'r fp_options"
proof
  show "fp_inv opts s None" if "fp_start s" for s using that by (simp add: fp_inv_None fp_start_def)
  fix s owed e s' sg
  assume a: "fp_inv opts s owed" "fp_good e" "fp_step opts s e = (s', sg)"
  have "disciplined owed sg \<and> fp_inv opts s' (owed_after owed sg)"
  proof (cases e)
    case Mount
    then show ?thesis using a(3) mount_step [OF a(1)] by auto
  next
    case (Post u l)
    then show ?thesis using post_step [OF a(1)] a(3) by blast
  next
    case (Response x)
    then show ?thesis using response_step [OF a(1)] a(3) by blast
  next
    case Discard
    then show ?thesis using a(3) fp_inv_cleared [OF a(1)] by auto
  next
    case Dismiss
    then show ?thesis using a by auto
  next
    case Unmount
    then show ?thesis using a(3) fp_inv_unmounted [OF a(1)] by auto
  next
    case (Late_response i x)
    then show ?thesis using a(2) by (simp add: fp_good_def)
  next
    case Reload
    then show ?thesis using a(3) fp_inv_unmounted [OF a(1)] by auto
  next
    case (Storage_becomes r w)
    then show ?thesis using a(2,3) fp_inv_mode [OF a(1)] by (auto simp: fp_good_def)
  qed
  then show "disciplined owed sg" "fp_inv opts s' (owed_after owed sg)" by blast+
qed

section \<open>Properties\<close>

lemma run_invariant:
  assumes "fp_start s" "list_all fp_good es" "run_hook (fp_step opts) s es = (s', tr)"
  shows "fp_inv opts s' (owed_after None tr)"
  using financial_hook.run_inv [OF financial_hook.start_inv [OF assms(1)] assms(2,3)] by blast


definition sample_options :: "unit fp_options" where
  "sample_options = \<lparr>domain = Funding, tenant = ''acme'', recordId = ''rec-1'', endpoint = ''/api/funding/rec-1/post'', parseSuccess = (\<lambda>v. None)\<rparr>"

definition sample_state :: "unit fp_state" where
  "sample_state = \<lparr>storage = \<lparr>stored = (\<lambda>k. None), readable = True, write_mode = Writes\<rparr>, intent = None, outcome = None,
     pending = False, inFlight = False, awaiting = None, orphans = []\<rparr>"

definition sample_uuid :: "string \<Rightarrow> string" where
  "sample_uuid d = ''11111111-1111-4111-8111-11111111111'' @ d"

abbreviation sample_posting :: "string \<Rightarrow> fp_command" where
  "sample_posting d \<equiv> (''/api/funding/rec-1/post'', ''funding-post-'' @ sample_uuid d)"

definition sample_command :: "string \<Rightarrow> json" where
  "sample_command d = createFinancialPostIntent Funding ''acme'' ''rec-1'' (sample_uuid d)"

definition sample_events :: "fp_event list" where
  "sample_events = [Post (sample_uuid ''1'') ''ref-1'', Response Lost, Reload, Mount, Post (sample_uuid ''2'') ''ref-2'']"

text \<open>Running the sample without reading its texts.\<close>

lemma sample_command_facts:
  assumes "list_all is_hex_lower d" "length d = 1"
  shows "fp_parse sample_options (Some (JSON_stringify (sample_command d))) = Some (sample_command d)"
    and "createFinancialPostIntent Funding ''acme'' ''rec-1'' (sample_uuid d) = sample_command d"
    and "identity sample_options (sample_command d) = sample_posting d"
    and "field ''domain'' (sample_command d) = Some (JStr ''funding'')" "field ''tenantId'' (sample_command d) = Some (JStr ''acme'')"
    "field ''recordId'' (sample_command d) = Some (JStr ''rec-1'')"
proof -
  obtain c where d: "d = [c]" using assms(2) by (cases d) auto
  have "rx_test reference_pattern (sample_uuid d)"
    using assms(1) unfolding d sample_uuid_def reference_pattern_def Let_def
    by (simp add: char_class_defs)
  moreover have "boundedIdentity ''acme''" "boundedIdentity ''rec-1''" by (simp_all add: boundedIdentity_def)
  ultimately show "fp_parse sample_options (Some (JSON_stringify (sample_command d))) = Some (sample_command d)"
    using created_posting_recovers by (simp add: fp_parse_def sample_options_def sample_command_def)
qed (simp_all add: sample_command_def identity_def intent_key_def field_string_def sample_options_def createFinancialPostIntent_def
    financial_intent_def domain_name_def)

lemma sample_option_fields [simp]:
  "domain sample_options = Funding" "tenant sample_options = ''acme''" "recordId sample_options = ''rec-1''"
  "endpoint sample_options = ''/api/funding/rec-1/post''" "parseSuccess sample_options = (\<lambda>v. None)"
  by (simp_all add: sample_options_def)

lemma fp_parse_missing: "fp_parse opts None = None"
  by (simp add: fp_parse_def financial_codec.missing)

lemmas run_defs = fp_start_def fp_good_def send_def prepare_def readRecovery_def persistRecovery_def getItem_def setItem_def removeItem_def
  clearRecovery_def clear_storage_def restore_def unmounted_def arrive_def conclude_def uncertain_def ans_ok_def json_or_empty_def
  errorCode_def error_code_def domain_name_def fp_parse_missing Let_def

lemma sample_run:
  "case run_hook (fp_step sample_options) sample_state (take 4 sample_events) of (s, tr) \<Rightarrow>
     tr = [Sent (sample_posting ''1'')] \<and> \<not> inFlight s \<and> readable (storage s) \<and> write_mode (storage s) = Writes"
  "snd (run_hook (fp_step sample_options) sample_state sample_events) = [Sent (sample_posting ''1''), Sent (sample_posting ''1'')]"
  "fp_start sample_state" "list_all fp_good sample_events"
  using sample_command_facts [of "''1''"]
  by (simp_all add: sample_events_def sample_state_def run_defs char_class_defs)





end
