(* ===== verification/TransferSubmission.thy ===== *)
theory TransferSubmission
  imports Intents Money
begin

text \<open>
  Submitting a transfer: \<^verbatim>\<open>features/transfers/useTransferSubmission.ts\<close> and
  \<^verbatim>\<open>transferReviewModel.ts\<close>. A submission has two requests: it first registers the intent
  (\<^verbatim>\<open>/api/transfers/recovery\<close>) and posts (\<^verbatim>\<open>/api/transfers\<close>) only once the registration is confirmed. The
  texts of the outcome messages are named by the constructors of \<open>ts_message\<close>.

  \<open>storedIntent\<close> of the latest render is what the storage holds, as every change of the storage renders
  the form again. A response body that is not an object makes the \<^verbatim>\<open>in\<close> operator throw outside every
  handler: the submission is then \<open>Broken\<close>, and the form stays pending.
\<close>

section \<open>Reviewing a transfer\<close>

record account_view =
  av_account_id :: string
  av_currency :: string
  av_status :: string
  av_display_name :: string
  av_available_minor :: string
  av_ledger_minor :: string
  av_version :: string
  av_account_version :: string

definition signed_digits :: rx where
  "signed_digits = RSeq (ROpt (RChar CHR ''-'')) (RPlus (RSet is_digit))"

text \<open>\<^verbatim>\<open>BigInt(text)\<close>: white space is trimmed, the empty text is 0, then decimal digits with an optional
  sign, or the unsigned hexadecimal, octal and binary forms; any other text throws.\<close>

definition radix_int :: "nat \<Rightarrow> string \<Rightarrow> int outcome" where
  "radix_int b t = (if t = [] \<or> \<not> list_all (\<lambda>c. is_hex c \<and> hex_value c < b) t then Inl ''SyntaxError''
     else Inr (int (radix_value b t)))"

definition big_int :: "string \<Rightarrow> int outcome" where
  "big_int text =
     (let t = trim text; p = toLowerCase (take 2 t) in
      if t = [] then Inr 0
      else if p = ''0x'' then radix_int 16 (drop 2 t)
      else if p = ''0o'' then radix_int 8 (drop 2 t)
      else if p = ''0b'' then radix_int 2 (drop 2 t)
      else if \<not> rx_test (RSeq (ROpt (RSet (one_of ''+-''))) (RPlus (RSet is_digit))) t then Inl ''SyntaxError''
      else Inr (if hd t = CHR ''-'' then - int (digits_value (tl t))
                else if hd t = CHR ''+'' then int (digits_value (tl t)) else int (digits_value t)))"

definition expectedTransferBalances :: "account_view \<Rightarrow> account_view \<Rightarrow> string \<Rightarrow> (string \<times> string) outcome" where
  "expectedTransferBalances source destination amountMinor =
     (if av_account_id source = av_account_id destination \<or> av_currency source \<noteq> av_currency destination
        \<or> av_status source \<noteq> ''active'' \<or> av_status destination \<noteq> ''active''
      then Inl ''Choose two different active accounts in the same currency.''
      else if \<not> rx_test positiveInteger amountMinor then Inl ''Enter an amount greater than zero.''
      else andthen (big_int amountMinor) (\<lambda>amount. andthen (big_int (av_available_minor source)) (\<lambda>available.
        if available < amount then Inl ''This amount exceeds the available money in the source account.''
        else andthen (big_int (av_available_minor destination)) (\<lambda>d.
          Inr (int_string (available - amount), int_string (d + amount))))))"

definition reviewAccountChanged :: "account_view \<Rightarrow> account_view \<Rightarrow> bool" where
  "reviewAccountChanged previous current =
     list_ex (\<lambda>get. get previous \<noteq> get current)
       [av_account_id, av_currency, av_status, av_display_name, av_available_minor, av_ledger_minor, av_version, av_account_version]"

text \<open>The account that a recheck returns: \<open>None\<close> when the response is not successful.\<close>

definition rechecked :: "account_view \<Rightarrow> account_view option \<Rightarrow> account_view outcome" where
  "rechecked account current = (case current of
     None \<Rightarrow> Inl ''We couldn't recheck the accounts. No transfer was submitted. Try again.''
   | Some c \<Rightarrow>
       if av_account_id c \<noteq> av_account_id account \<or> \<not> rx_test signed_digits (av_available_minor c)
         \<or> \<not> rx_test signed_digits (av_ledger_minor c) \<or> av_version c = [] \<or> av_account_version c = []
       then Inl ''The account check was incomplete. No transfer was submitted.'' else Inr c)"

definition refreshTransferReview ::
  "(string \<Rightarrow> account_view option) \<Rightarrow> account_view \<Rightarrow> account_view \<Rightarrow> string \<Rightarrow> (account_view \<times> account_view \<times> string) outcome" where
  "refreshTransferReview load source destination amountMinor =
     andthen (rechecked source (load (''/api/accounts/'' @ encodeURIComponent (av_account_id source)))) (\<lambda>s.
     andthen (rechecked destination (load (''/api/accounts/'' @ encodeURIComponent (av_account_id destination)))) (\<lambda>d.
     andthen (expectedTransferBalances s d amountMinor) (\<lambda>_. Inr (s, d, amountMinor))))"

section \<open>The hook\<close>

datatype ts_kind = Ts_success | Ts_error | Ts_unknown

datatype ts_message =
    Result_not_confirmed json
  | Different_intent_open
  | Saved_request_unverified
  | Original_rejected
  | Committed_once
  | Insufficient_funds json
  | Key_belongs_elsewhere json
  | Final_rejection json

record ts_outcome =
  ts_kind :: ts_kind
  ts_message :: ts_message
  ts_reference :: "json option"
  ts_details :: "(string \<times> json) list"

datatype ts_phase =
    Idle
  | Saving json json string
  | Posting json json
  | Detailing string ts_outcome json
  | Broken

record ts_state =
  ts_storage :: storage
  ts_pending :: bool
  ts_inFlight :: bool
  volatileIntent :: "json option"
  fallbackIntent :: "json option"
  ts_outcome :: "ts_outcome option"
  storageError :: bool
  ts_phase :: ts_phase

definition failed_outcome :: "ts_kind \<Rightarrow> ts_message \<Rightarrow> json option \<Rightarrow> ts_outcome" where
  "failed_outcome k m reference = \<lparr>ts_kind = k, ts_message = m, ts_reference = reference, ts_details = []\<rparr>"

definition unknownOutcome :: "json \<Rightarrow> ts_outcome" where
  "unknownOutcome reference = failed_outcome Ts_unknown (Result_not_confirmed reference) (Some reference)"

definition isDefinitiveRejection :: "nat \<Rightarrow> string option \<Rightarrow> bool" where
  "isDefinitiveRejection st c =
     (let code = (case c of Some x \<Rightarrow> x | None \<Rightarrow> '''') in
      List.member [''insufficient_funds'', ''transfer_policy_denied'', ''account_inactive'', ''idempotency_conflict'',
        ''validation_failed'', ''csrf_failed'', ''forbidden'', ''unauthorized''] code
      \<or> (400 \<le> st \<and> st < 500 \<and> st \<noteq> 408 \<and> st \<noteq> 429 \<and> \<not> List.member [''idempotency_in_progress'', ''request_in_progress''] code))"

definition getSnapshot :: "string \<Rightarrow> ts_state \<Rightarrow> string option" where
  "getSnapshot key s = (case getItem key (ts_storage s) of Inl _ \<Rightarrow> Some ''storage-unavailable'' | Inr raw \<Rightarrow> raw)"

definition storedIntent :: "string \<Rightarrow> ts_state \<Rightarrow> json option" where
  "storedIntent key s = parseStoredTransferIntent (getSnapshot key s)"

definition saveIntent :: "string \<Rightarrow> json \<Rightarrow> ts_state \<Rightarrow> ts_state outcome" where
  "saveIntent key v s =
     (let serialized = JSON_stringify v in
      andthen (setItem key serialized (ts_storage s)) (\<lambda>st.
      andthen (getItem key st) (\<lambda>back.
        if back \<noteq> Some serialized then Inl ''Retry information was not retained''
        else Inr (s\<lparr>ts_storage := st, volatileIntent := Some v, fallbackIntent := Some v\<rparr>))))"

definition clearIntent :: "string \<Rightarrow> ts_state \<Rightarrow> ts_state" where
  "clearIntent key s = (case removeItem key (ts_storage s) of
     Inl _ \<Rightarrow> s\<lparr>storageError := True\<rparr>
   | Inr st \<Rightarrow>
       (case getItem key st of
          Inr None \<Rightarrow> s\<lparr>ts_storage := st, volatileIntent := None, fallbackIntent := None\<rparr>
        | _ \<Rightarrow> s\<lparr>ts_storage := st, storageError := True\<rparr>))"

definition idle :: "ts_state \<Rightarrow> ts_state" where
  "idle s = s\<lparr>ts_pending := False, ts_inFlight := False, ts_phase := Idle\<rparr>"

text \<open>\<^verbatim>\<open>persisted?.requestReference ?? crypto.randomUUID()\<close> and \<^verbatim>\<open>{ ...persisted, version: 2, requestReference }\<close>\<close>

definition chosen_reference :: "json option \<Rightarrow> string \<Rightarrow> json" where
  "chosen_reference persisted uuid = (case persisted of
     None \<Rightarrow> JStr uuid
   | Some v \<Rightarrow> (case field ''requestReference'' v of None \<Rightarrow> JStr uuid | Some JNull \<Rightarrow> JStr uuid | Some r \<Rightarrow> r))"

definition upgraded :: "json \<Rightarrow> json \<Rightarrow> json" where
  "upgraded v reference = (case v of
     JObj ob \<Rightarrow> JObj (obj_put ''requestReference'' reference (obj_put ''version'' (jint 2) ob))
   | _ \<Rightarrow> JObj [(''version'', jint 2), (''requestReference'', reference)])"

text \<open>What both requests carry: the key, and the command in their body.\<close>

datatype transfer_command = Transfer_command string string string string string

definition command_of :: "json \<Rightarrow> transfer_command" where
  "command_of v = Transfer_command (field_string ''idempotencyKey'' v) (field_string ''sourceAccountId'' v)
     (field_string ''destinationAccountId'' v) (field_string ''currency'' v) (field_string ''amountMinor'' v)"

definition submit :: "string \<Rightarrow> ts_state \<Rightarrow> prepared_transfer \<Rightarrow> string \<Rightarrow> string \<Rightarrow> string \<Rightarrow> ts_state \<times> transfer_command signal list" where
  "submit key s prepared uuid1 uuid2 uuid3 =
     (if ts_pending s \<or> ts_inFlight s then (s, [])
      else case getItem key (ts_storage s) of
        Inl _ \<Rightarrow> (s\<lparr>storageError := True\<rparr>, [])
      | Inr raw \<Rightarrow>
          let parsed = parseStoredTransferIntent raw;
              persisted = (case parsed of Some v \<Rightarrow> Some v | None \<Rightarrow>
                 (case storedIntent key s of Some v \<Rightarrow> Some v | None \<Rightarrow> volatileIntent s)) in
          if storageError s \<or> (raw \<noteq> None \<and> raw \<noteq> Some [] \<and> parsed = None) then (s\<lparr>storageError := True\<rparr>, [])
          else if (case persisted of Some v \<Rightarrow> \<not> storedIntentMatches v prepared | None \<Rightarrow> False)
          then (s\<lparr>ts_outcome := Some (failed_outcome Ts_unknown Different_intent_open None)\<rparr>, [])
          else
            let reference = chosen_reference persisted uuid1;
                intent = (case persisted of Some v \<Rightarrow> upgraded v reference | None \<Rightarrow> createStoredTransferIntent uuid2 uuid1 prepared);
                must_save = (case persisted of None \<Rightarrow> True | Some v \<Rightarrow> \<not> truthy_field ''requestReference'' v) in
            case (if must_save then saveIntent key intent s else Inr s) of
              Inl _ \<Rightarrow> (s\<lparr>storageError := True\<rparr>, [])
            | Inr s' \<Rightarrow>
                (s'\<lparr>ts_inFlight := True, ts_pending := True, ts_outcome := None, ts_phase := Saving intent reference uuid3\<rparr>,
                 [Sent (command_of intent)]))"

text \<open>The response to the registration.\<close>

definition saved_proof :: "json \<Rightarrow> answer \<Rightarrow> bool" where
  "saved_proof reference r =
     (ans_ok r \<and> field ''request_reference'' (json_or_empty r) = Some reference \<and> field ''state'' (json_or_empty r) = Some (JStr ''saved''))"

definition registered :: "ts_state \<Rightarrow> json \<Rightarrow> json \<Rightarrow> arrival \<Rightarrow> ts_state \<times> transfer_command signal list" where
  "registered s intent reference a = (case a of
     Lost \<Rightarrow> (idle (s\<lparr>ts_outcome := Some (unknownOutcome reference)\<rparr>), [])
   | Arrived r \<Rightarrow>
       if ans_ok r \<and> json_or_empty r = JNull then (idle (s\<lparr>ts_outcome := Some (unknownOutcome reference)\<rparr>), [])
       else if \<not> saved_proof reference r
       then (idle (s\<lparr>ts_outcome := Some (failed_outcome Ts_unknown Saved_request_unverified (Some reference))\<rparr>), [])
       else (s\<lparr>ts_phase := Posting intent reference\<rparr>, [Sent (command_of intent)]))"

text \<open>The response to the posting.\<close>

definition header_reference :: "answer \<Rightarrow> json \<Rightarrow> json" where
  "header_reference r reference = (case get_header ''X-LedgerSync-Request-Reference'' (ans_headers r) of Some v \<Rightarrow> JStr v | None \<Rightarrow> reference)"

definition or_else :: "string \<Rightarrow> json \<Rightarrow> json \<Rightarrow> json" where
  "or_else k payload fallback = (if truthy_field k payload then the (field k payload) else fallback)"

definition object_values :: "json option \<Rightarrow> json list" where
  "object_values v = (case v of Some (JObj ob) \<Rightarrow> map snd ob | Some (JArr vs) \<Rightarrow> vs | _ \<Rightarrow> [])"

definition posted_outcome :: "json \<Rightarrow> json \<Rightarrow> answer \<Rightarrow> json \<Rightarrow> ts_outcome" where
  "posted_outcome intent reference r payload =
     \<lparr>ts_kind = Ts_success, ts_message = Committed_once, ts_reference = Some (header_reference r reference),
      ts_details = [(''transferId'', the (field ''transfer_id'' payload)),
        (''amountMinor'', or_else ''amount_minor'' payload (the (field ''amountMinor'' intent))),
        (''currency'', or_else ''currency'' payload (the (field ''currency'' intent))),
        (''source'', the (field ''sourceAccountId'' intent)), (''destination'', the (field ''destinationAccountId'' intent))]
        @ map (\<lambda>(k, v). (''occurredAt'', v)) (copy_field payload ''occurred_at'')
        @ [(''balances'', JArr (object_values (field ''balances'' payload)))]\<rparr>"

definition rejection_message :: "string option \<Rightarrow> json \<Rightarrow> ts_message" where
  "rejection_message c reference =
     (if c = Some ''insufficient_funds'' then Insufficient_funds reference
      else if c = Some ''idempotency_conflict'' then Key_belongs_elsewhere reference else Final_rejection reference)"

definition posted :: "string \<Rightarrow> ts_state \<Rightarrow> json \<Rightarrow> json \<Rightarrow> arrival \<Rightarrow> ts_state \<times> transfer_command signal list" where
  "posted key s intent reference a = (case a of
     Lost \<Rightarrow> (idle (s\<lparr>ts_outcome := Some (unknownOutcome reference)\<rparr>), [])
   | Arrived r \<Rightarrow>
       (let payload = json_or_empty r in
        if \<not> is_object payload then (s\<lparr>ts_phase := Broken\<rparr>, [])
        else if ans_ok r \<and> truthy_field ''transfer_id'' payload \<and> field ''status'' payload = Some (JStr ''rejected'')
        then (idle ((clearIntent key s)\<lparr>ts_outcome := Some (failed_outcome Ts_error Original_rejected (Some reference))\<rparr>), [Settled (command_of intent)])
        else if ans_ok r \<and> truthy_field ''transfer_id'' payload \<and> field ''status'' payload = Some (JStr ''posted'')
        then
          (let base = posted_outcome intent reference r payload in
           ((clearIntent key s)\<lparr>ts_outcome := Some base, ts_pending := False,
              ts_phase := Detailing (string_of (the (field ''transfer_id'' payload))) base payload\<rparr>, [Settled (command_of intent)]))
        else
          (let c = error_code payload; response_reference = header_reference r reference in
           if isDefinitiveRejection (ans_status r) c
           then (idle ((clearIntent key s)\<lparr>ts_outcome := Some (failed_outcome Ts_error (rejection_message c response_reference) (Some response_reference))\<rparr>),
                 [Settled (command_of intent)])
           else (idle (s\<lparr>ts_outcome := Some (unknownOutcome response_reference)\<rparr>), []))))"

text \<open>Loading the posted transfer for its receipt; of two details with one name the later one counts.\<close>

definition loadTransferDetail :: "string \<Rightarrow> arrival \<Rightarrow> json option" where
  "loadTransferDetail transferId a = (case a of
     Lost \<Rightarrow> None
   | Arrived r \<Rightarrow>
       if \<not> ans_ok r then None
       else (case ans_json r of
          Some d \<Rightarrow> if field ''transfer_id'' d = Some (JStr transferId) then Some d else None
        | None \<Rightarrow> None))"

definition detailed :: "ts_state \<Rightarrow> string \<Rightarrow> ts_outcome \<Rightarrow> json \<Rightarrow> arrival \<Rightarrow> ts_state" where
  "detailed s transferId base payload a =
     (let s' = s\<lparr>ts_inFlight := False, ts_phase := Idle\<rparr> in
      case loadTransferDetail transferId a of
        None \<Rightarrow> s'
      | Some d \<Rightarrow> s'\<lparr>ts_outcome := Some (base\<lparr>ts_details := ts_details base
          @ (if truthy_field ''completed_at'' d then [(''occurredAt'', the (field ''completed_at'' d))]
             else map (\<lambda>(k, v). (''occurredAt'', v)) (copy_field payload ''occurred_at''))
          @ map (\<lambda>(k, v). (''journalTransactionId'', v)) (copy_field d ''journal_transaction_id'')\<rparr>)\<rparr>)"

section \<open>Events\<close>

datatype ts_event =
    Submit prepared_transfer string string string
  | Answer arrival
  | Set_outcome "ts_outcome option"
  | Reload_page
  | Storage_condition bool write_mode

fun ts_step :: "string \<Rightarrow> ts_state \<Rightarrow> ts_event \<Rightarrow> ts_state \<times> transfer_command signal list" where
  "ts_step tenant s (Submit p u1 u2 u3) = submit (transferIntentStorageKey tenant) s p u1 u2 u3"
| "ts_step tenant s (Answer a) = (case ts_phase s of
     Saving intent reference _ \<Rightarrow> registered s intent reference a
   | Posting intent reference \<Rightarrow> posted (transferIntentStorageKey tenant) s intent reference a
   | Detailing transferId base payload \<Rightarrow> (detailed s transferId base payload a, [])
   | _ \<Rightarrow> (s, []))"
| "ts_step tenant s (Set_outcome x) = (s\<lparr>ts_outcome := x\<rparr>, [])"
| "ts_step tenant s Reload_page = (s\<lparr>ts_pending := False, ts_inFlight := False, volatileIntent := None, fallbackIntent := None,
     ts_outcome := None, storageError := False, ts_phase := Idle\<rparr>, [])"
| "ts_step tenant s (Storage_condition r w) = (s\<lparr>ts_storage := (ts_storage s)\<lparr>readable := r, write_mode := w\<rparr>\<rparr>, [])"

text \<open>What the form shows and whether it is blocked.\<close>

definition visibleOutcome :: "string \<Rightarrow> ts_state \<Rightarrow> (ts_outcome + json option) option" where
  "visibleOutcome key s = (case ts_outcome s of
     Some x \<Rightarrow> Some (Inl x)
   | None \<Rightarrow> if \<not> ts_pending s then (case storedIntent key s of Some v \<Rightarrow> Some (Inr (field ''requestReference'' v)) | None \<Rightarrow> None) else None)"

definition storageBlocked :: "string \<Rightarrow> ts_state \<Rightarrow> bool" where
  "storageBlocked key s = (storageError s \<or> (getSnapshot key s \<noteq> None \<and> getSnapshot key s \<noteq> Some [] \<and> storedIntent key s = None))"

section \<open>Stored intents\<close>

definition clean :: "json \<Rightarrow> bool" where
  "clean v = (transfer_ok v \<and> plain_json v
     \<and> (field ''requestReference'' v = None \<or> string_field ''requestReference'' (rx_test reference_pattern) v))"

definition valid_prepared :: "prepared_transfer \<Rightarrow> bool" where
  "valid_prepared p =
     (ta_account_id (pt_source p) \<noteq> ta_account_id (pt_destination p)
      \<and> boundedIdentity (ta_account_id (pt_source p)) \<and> boundedIdentity (ta_account_id (pt_destination p))
      \<and> rx_test currency_code (ta_currency (pt_source p)) \<and> rx_test positiveInteger (pt_amountMinor p))"

lemma clean_read: "clean v \<Longrightarrow> parseStoredTransferIntent (Some (JSON_stringify v)) = Some v"
  by (rule transfer_codec.written_is_read) (simp_all add: clean_def)

lemma stringify_nonempty: "plain_json v \<Longrightarrow> JSON_stringify v \<noteq> []"
  by (erule stringify_head) simp

lemma plain_put:
  assumes "plain_json (JObj ob)" "plain_json x" "\<not> is_array_index k"
  shows "plain_json (JObj (obj_put k x ob))"
proof -
  have d: "distinct (map fst ob)" and p: "\<And>j y. (j, y) \<in> set ob \<Longrightarrow> \<not> is_array_index j \<and> plain_json y"
    using assms(1) by (auto simp: list_all_iff)
  have "\<not> is_array_index j \<and> plain_json y" if "(j, y) \<in> set (obj_put k x ob)" for j y
    using that p assms(2,3) by (auto simp: obj_put_def split: if_splits)
  then show ?thesis using distinct_obj_put [OF d] by (auto simp: list_all_iff)
qed

lemma upgraded_fields:
  assumes "clean v" "j \<noteq> ''version''" "j \<noteq> ''requestReference''"
  shows "field j (upgraded v r) = field j v"
  using assms by (cases v) (auto simp: upgraded_def clean_def transfer_ok_def string_field_def)

lemma upgraded_command: "clean v \<Longrightarrow> command_of (upgraded v r) = command_of v"
  by (simp add: command_of_def field_string_def upgraded_fields)

lemma upgraded_clean:
  assumes "clean v" "rx_test reference_pattern u"
  shows "clean (upgraded v (JStr u))"
proof -
  obtain ob where v: "v = JObj ob" using assms(1) by (cases v) (auto simp: clean_def transfer_ok_def string_field_def)
  have "plain_json (upgraded v (JStr u))"
    using assms(1) field_lists_ordinary unfolding upgraded_def v json.case
    by (intro plain_put) (simp_all add: clean_def jint_def)
  moreover have "field ''requestReference'' (upgraded v (JStr u)) = Some (JStr u)" "field ''version'' (upgraded v (JStr u)) = Some (jint 2)"
    by (simp_all add: upgraded_def v)
  ultimately show ?thesis
    using assms upgraded_fields [OF assms(1)] by (simp add: clean_def transfer_ok_def string_field_def upgraded_fields del: rx_test.simps) (auto simp: upgraded_def v)
qed

lemma created_clean:
  assumes "valid_prepared p" "rx_test reference_pattern u" "16 \<le> length key" "length key \<le> 255"
  shows "clean (createStoredTransferIntent key u p)"
proof -
  have "transfer_ok (createStoredTransferIntent key u p)" using assms
    by (auto simp: transfer_ok_def createStoredTransferIntent_def string_field_def valid_prepared_def boundedIdentity_def jint_def simp del: rx_test.simps)
  moreover have "plain_json (createStoredTransferIntent key u p)"
    using field_lists_ordinary by (simp add: createStoredTransferIntent_def jint_def)
  ultimately show ?thesis using assms by (simp add: clean_def createStoredTransferIntent_def string_field_def del: rx_test.simps)
qed

section \<open>The invariant\<close>

definition holds :: "string \<Rightarrow> ts_state \<Rightarrow> transfer_command \<Rightarrow> bool" where
  "holds tenant s k = (\<exists>p. stored (ts_storage s) (transferIntentStorageKey tenant) = Some (JSON_stringify p) \<and> clean p \<and> command_of p = k)"

definition ts_inv :: "string \<Rightarrow> ts_state \<Rightarrow> transfer_command option \<Rightarrow> bool" where
  "ts_inv tenant s owed =
     ((stored (ts_storage s) (transferIntentStorageKey tenant) \<noteq> None \<longrightarrow> (\<exists>k. holds tenant s k))
      \<and> (\<forall>w. volatileIntent s = Some w \<longrightarrow> holds tenant s (command_of w))
      \<and> (\<forall>k. owed = Some k \<longrightarrow> holds tenant s k)
      \<and> (\<forall>v r u. ts_phase s = Saving v r u \<longrightarrow> owed = Some (command_of v))
      \<and> (\<forall>v r. ts_phase s = Posting v r \<longrightarrow> owed = Some (command_of v)))"

definition ts_start :: "string \<Rightarrow> ts_state \<Rightarrow> bool" where
  "ts_start tenant s =
     (ts_phase s = Idle \<and> volatileIntent s = None
      \<and> (stored (ts_storage s) (transferIntentStorageKey tenant) = None \<or> (\<exists>k. holds tenant s k)))"

definition ts_good :: "ts_event \<Rightarrow> bool" where
  "ts_good e = (case e of
     Submit p u1 u2 u3 \<Rightarrow> valid_prepared p \<and> rx_test reference_pattern u1 \<and> rx_test reference_pattern u2
   | _ \<Rightarrow> True)"

lemma ts_inv_frame [simp]:
  "ts_inv tenant (s\<lparr>ts_outcome := x\<rparr>) owed = ts_inv tenant s owed"
  "ts_inv tenant (s\<lparr>storageError := b\<rparr>) owed = ts_inv tenant s owed"
  "ts_inv tenant (s\<lparr>ts_pending := b\<rparr>) owed = ts_inv tenant s owed"
  "ts_inv tenant (s\<lparr>ts_inFlight := b\<rparr>) owed = ts_inv tenant s owed"
  "ts_inv tenant (s\<lparr>ts_inFlight := b, ts_pending := c, ts_outcome := x, ts_phase := ph\<rparr>) owed = ts_inv tenant (s\<lparr>ts_phase := ph\<rparr>) owed"
  by (simp_all add: ts_inv_def holds_def)

lemma ts_inv_phase:
  assumes "ts_inv tenant s owed" "\<And>v r u. ph = Saving v r u \<Longrightarrow> owed = Some (command_of v)" "\<And>v r. ph = Posting v r \<Longrightarrow> owed = Some (command_of v)"
  shows "ts_inv tenant (s\<lparr>ts_phase := ph\<rparr>) owed"
  using assms by (simp add: ts_inv_def holds_def)

lemma ts_inv_idle: "ts_inv tenant s owed \<Longrightarrow> ts_inv tenant (idle s) owed"
  unfolding idle_def by (rule ts_inv_phase) auto

lemma holds_same_cell:
  "stored (ts_storage s') (transferIntentStorageKey tenant) = stored (ts_storage s) (transferIntentStorageKey tenant) \<Longrightarrow> holds tenant s' k = holds tenant s k"
  by (simp add: holds_def)

lemma holds_phase [simp]: "holds tenant (s\<lparr>ts_phase := ph\<rparr>) k = holds tenant s k"
  by (simp add: holds_def)

lemma holds_unique:
  assumes "stored (ts_storage s) (transferIntentStorageKey tenant) = Some (JSON_stringify q)" "clean q" "holds tenant s k"
  shows "k = command_of q"
proof -
  obtain p where p: "JSON_stringify p = JSON_stringify q" "clean p" "command_of p = k" using assms(1,3) by (auto simp: holds_def)
  have "Some p = Some q" using clean_read [OF p(2)] clean_read [OF assms(2)] unfolding p(1) by (rule trans [OF sym])
  with p(3) show ?thesis by simp
qed

text \<open>Clearing ends the obligation; the volatile copy goes with the stored one.\<close>

lemma clear_cases:
  "(clearIntent key s = s\<lparr>storageError := True\<rparr>)
   \<or> (\<exists>st. stored st key = None \<and> clearIntent key s = s\<lparr>ts_storage := st, volatileIntent := None, fallbackIntent := None\<rparr>)"
proof (cases "removeItem key (ts_storage s)")
  case (Inr st)
  have rd: "readable (ts_storage s)" using Inr by (auto simp: removeItem_def split: if_splits)
  have "stored st key = None \<and> readable st \<or> st = ts_storage s"
    using Inr rd by (auto simp: removeItem_def split: if_splits write_mode.splits)
  then show ?thesis
    using rd by (cases "stored st key") (auto simp: clearIntent_def Inr getItem_def)
qed (simp add: clearIntent_def)

lemma ts_inv_cleared:
  assumes "ts_inv tenant s owed" "ph = Idle \<or> (\<exists>t b q. ph = Detailing t b q)"
  shows "ts_inv tenant ((clearIntent (transferIntentStorageKey tenant) s)\<lparr>ts_phase := ph\<rparr>) None"
  using clear_cases [of "transferIntentStorageKey tenant" s] assms by (auto simp: ts_inv_def holds_def)

lemma saved_state:
  assumes "saveIntent key v s = Inr s'"
  shows "\<exists>st. stored st key = Some (JSON_stringify v) \<and> s' = s\<lparr>ts_storage := st, volatileIntent := Some v, fallbackIntent := Some v\<rparr>"
  using assms by (auto simp: saveIntent_def Let_def andthen_eq_Inr getItem_def split: if_splits)

lemma ts_inv_saved:
  assumes "saveIntent (transferIntentStorageKey tenant) v s = Inr s'" "clean v"
  shows "ts_inv tenant (s'\<lparr>ts_phase := Saving v r u\<rparr>) (Some (command_of v))"
  using saved_state [OF assms(1)] assms(2) by (auto simp: ts_inv_def holds_def)

lemma submit_step:
  assumes inv: "ts_inv tenant s owed" and good: "ts_good (Submit p u1 u2 u3)"
    and st: "submit (transferIntentStorageKey tenant) s p u1 u2 u3 = (s', sg)"
  shows "disciplined owed sg \<and> ts_inv tenant s' (owed_after owed sg)"
proof (cases "ts_pending s \<or> ts_inFlight s \<or> \<not> readable (ts_storage s) \<or> storageError s")
  case True
  then show ?thesis using st inv by (auto simp: submit_def getItem_def Let_def split: if_splits)
next
  case False
  let ?key = "transferIntentStorageKey tenant"
  have idle: "\<not> ts_pending s" "\<not> ts_inFlight s" "\<not> storageError s" and rd: "getItem ?key (ts_storage s) = Inr (stored (ts_storage s) ?key)"
    using False by (simp_all add: getItem_def)
  show ?thesis
  proof (cases "stored (ts_storage s) ?key")
    case None
    have vol: "volatileIntent s = None" and ow: "owed = None"
      using inv None by (cases "volatileIntent s"; cases owed; auto simp: ts_inv_def holds_def)+
    let ?v = "createStoredTransferIntent u2 u1 p"
    have "clean ?v" using good uuid_visible(1) [of u2] by (intro created_clean) (auto simp: ts_good_def)
    moreover have "parseStoredTransferIntent None = None" by (rule transfer_codec.missing)
    ultimately show ?thesis
      using st inv ts_inv_saved [of tenant ?v s]
      by (auto simp: submit_def idle rd None vol ow storedIntent_def getSnapshot_def Let_def split: sum.splits)
  next
    case (Some t)
    obtain q where q: "t = JSON_stringify q" "clean q" using inv Some by (auto simp: ts_inv_def holds_def)
    have ow: "k = command_of q" if "owed = Some k" for k
      using inv that holds_unique [of s tenant q k] Some q by (simp add: ts_inv_def)
    have parsed: "parseStoredTransferIntent (Some t) = Some q" using q clean_read by blast
    show ?thesis
    proof (cases "storedIntentMatches q p")
      case False
      then show ?thesis using st inv by (auto simp: submit_def idle rd Some parsed)
    next
      case matches: True
      let ?r = "chosen_reference (Some q) u1"
      let ?v = "upgraded q ?r"
      have cmd: "command_of ?v = command_of q" using q(2) by (rule upgraded_command)
      show ?thesis
      proof (cases "truthy_field ''requestReference'' q")
        case True
        have "holds tenant s (command_of q)" using q Some by (auto simp: holds_def)
        then have "ts_inv tenant (s\<lparr>ts_phase := Saving ?v ?r u3\<rparr>) (Some (command_of q))"
          using inv by (simp add: ts_inv_def cmd)
        then show ?thesis using st ow by (cases owed) (auto simp: submit_def idle rd Some parsed matches True cmd Let_def)
      next
        case False
        have r: "?r = JStr u1"
          using q(2) False uuid_visible(1) [of "[]"] by (auto simp: clean_def chosen_reference_def truthy_field_def string_field_def split: option.splits json.splits)
        have "clean ?v" unfolding r using q(2) good by (intro upgraded_clean) (auto simp: ts_good_def)
        then show ?thesis
          using st inv ow ts_inv_saved [of tenant ?v s] cmd
          by (cases owed) (auto simp: submit_def idle rd Some parsed matches False r Let_def split: sum.splits)
      qed
    qed
  qed
qed

lemma posted_cases:
  assumes "posted key s v r a = (s', sg)"
  shows "(sg = [] \<and> ((\<exists>x. s' = idle (s\<lparr>ts_outcome := x\<rparr>)) \<or> s' = s\<lparr>ts_phase := Broken\<rparr>))
    \<or> (sg = [Settled (command_of v)] \<and> (\<exists>x. s' = idle ((clearIntent key s)\<lparr>ts_outcome := x\<rparr>)
         \<or> (\<exists>t b q. s' = (clearIntent key s)\<lparr>ts_outcome := x, ts_pending := False, ts_phase := Detailing t b q\<rparr>)))"
proof (cases a)
  case (Arrived w)
  show ?thesis using assms unfolding posted_def Arrived arrival.case Let_def by (simp split: if_splits) blast+
qed (use assms in \<open>auto simp: posted_def\<close>)

lemma answer_step:
  assumes inv: "ts_inv tenant s owed" and st: "ts_step tenant s (Answer a) = (s', sg)"
  shows "disciplined owed sg \<and> ts_inv tenant s' (owed_after owed sg)"
proof (cases "ts_phase s")
  case (Saving v r u)
  have ow: "owed = Some (command_of v)" using inv Saving by (simp add: ts_inv_def)
  have "ts_inv tenant (s\<lparr>ts_phase := Posting v r\<rparr>) owed" using inv by (rule ts_inv_phase) (auto simp: ow)
  then show ?thesis
    using st inv ow by (auto simp: Saving registered_def intro!: ts_inv_idle split: arrival.splits if_splits)
next
  case (Posting v r)
  have ow: "owed = Some (command_of v)" using inv Posting by (simp add: ts_inv_def)
  let ?c = "clearIntent (transferIntentStorageKey tenant) s"
  have settled: "ts_inv tenant (?c\<lparr>ts_phase := ph\<rparr>) None" if "ph = Idle \<or> (\<exists>t b q. ph = Detailing t b q)" for ph
    using ts_inv_cleared [OF inv that] .
  have broken: "ts_inv tenant (s\<lparr>ts_phase := Broken\<rparr>) owed" using inv by (rule ts_inv_phase) auto
  have "posted (transferIntentStorageKey tenant) s v r a = (s', sg)" using st by (simp add: Posting)
  from posted_cases [OF this] show ?thesis
  proof (elim disjE conjE exE)
    fix x assume "sg = []" "s' = idle (s\<lparr>ts_outcome := x\<rparr>)"
    then show ?thesis using ts_inv_idle [of tenant "s\<lparr>ts_outcome := x\<rparr>" owed] inv by simp
  next
    assume "sg = []" "s' = s\<lparr>ts_phase := Broken\<rparr>"
    then show ?thesis using broken by simp
  next
    fix x assume "sg = [Settled (command_of v)]" "s' = idle (?c\<lparr>ts_outcome := x\<rparr>)"
    then show ?thesis using settled [of Idle] ow by (simp add: idle_def ts_inv_def holds_def)
  next
    fix x t b q assume "sg = [Settled (command_of v)]" "s' = ?c\<lparr>ts_outcome := x, ts_pending := False, ts_phase := Detailing t b q\<rparr>"
    then show ?thesis using settled [of "Detailing t b q"] ow by (simp add: ts_inv_def holds_def)
  qed
next
  case (Detailing t b q)
  have "ts_inv tenant (s\<lparr>ts_inFlight := False, ts_phase := Idle\<rparr>) owed"
    using inv by (intro ts_inv_phase) auto
  then show ?thesis
    using st by (auto simp: Detailing detailed_def Let_def split: option.splits)
qed (use st inv in auto)

interpretation transfer_hook: command_hook "ts_start tenant" "ts_step tenant" ts_good "ts_inv tenant" for tenant
proof
  show "ts_inv tenant s None" if "ts_start tenant s" for s using that by (auto simp: ts_inv_def ts_start_def)
  fix s owed e s' sg
  assume a: "ts_inv tenant s owed" "ts_good e" "ts_step tenant s e = (s', sg)"
  have "disciplined owed sg \<and> ts_inv tenant s' (owed_after owed sg)"
  proof (cases e)
    case (Submit p u1 u2 u3)
    then show ?thesis using submit_step [OF a(1)] a(2,3) by simp
  next
    case (Answer x)
    then show ?thesis using answer_step [OF a(1)] a(3) by blast
  qed (use a in \<open>auto simp: ts_inv_def holds_def\<close>)
  then show "disciplined owed sg" "ts_inv tenant s' (owed_after owed sg)" by blast+
qed

section \<open>Properties\<close>


definition sample_transfer :: prepared_transfer where
  "sample_transfer = \<lparr>pt_source = \<lparr>ta_account_id = ''acc-1'', ta_currency = ''INR''\<rparr>,
     pt_destination = \<lparr>ta_account_id = ''acc-2'', ta_currency = ''INR''\<rparr>, pt_amountMinor = ''1205''\<rparr>"

definition sample_form :: ts_state where
  "sample_form = \<lparr>ts_storage = \<lparr>stored = (\<lambda>k. None), readable = True, write_mode = Writes\<rparr>, ts_pending = False, ts_inFlight = False,
     volatileIntent = None, fallbackIntent = None, ts_outcome = None, storageError = False, ts_phase = Idle\<rparr>"

definition sample_id :: string where
  "sample_id = ''11111111-1111-4111-8111-111111111111''"

definition sample_submissions :: "ts_event list" where
  "sample_submissions = [Submit sample_transfer sample_id sample_id sample_id, Answer Lost, Reload_page,
     Submit sample_transfer sample_id sample_id sample_id]"

lemma sample_submissions_run:
  "snd (run_hook (ts_step ''acme'') sample_form sample_submissions)
     = [Sent (Transfer_command sample_id ''acc-1'' ''acc-2'' ''INR'' ''1205''), Sent (Transfer_command sample_id ''acc-1'' ''acc-2'' ''INR'' ''1205'')]"
  "ts_start ''acme'' sample_form" "list_all ts_good sample_submissions"
proof -
  have u: "rx_test reference_pattern sample_id" by code_simp
  have p: "valid_prepared sample_transfer" by code_simp
  let ?v = "createStoredTransferIntent sample_id sample_id sample_transfer"
  have "clean ?v" using u p uuid_visible(1) [OF u] by (intro created_clean) auto
  then have rd: "parseStoredTransferIntent (Some (JSON_stringify ?v)) = Some ?v" by (rule clean_read)
  have m: "storedIntentMatches ?v sample_transfer" by (simp add: storedIntentMatches_def createStoredTransferIntent_def)
  have t: "truthy_field ''requestReference'' ?v" by (simp add: truthy_field_def createStoredTransferIntent_def sample_id_def)
  have c: "command_of ?v = Transfer_command sample_id ''acc-1'' ''acc-2'' ''INR'' ''1205''"
    "\<And>r. command_of (upgraded ?v r) = command_of ?v"
    using \<open>clean ?v\<close> upgraded_command by (simp_all add: command_of_def field_string_def createStoredTransferIntent_def sample_transfer_def)
  have n: "parseStoredTransferIntent None = None" by (rule transfer_codec.missing)
  show "snd (run_hook (ts_step ''acme'') sample_form sample_submissions)
     = [Sent (Transfer_command sample_id ''acc-1'' ''acc-2'' ''INR'' ''1205''), Sent (Transfer_command sample_id ''acc-1'' ''acc-2'' ''INR'' ''1205'')]"
    using rd m t c n
    by (simp add: sample_submissions_def sample_form_def submit_def getItem_def setItem_def storedIntent_def getSnapshot_def saveIntent_def
        registered_def idle_def Let_def)
  show "ts_start ''acme'' sample_form" by (simp add: ts_start_def sample_form_def)
  show "list_all ts_good sample_submissions" using u p by (simp add: sample_submissions_def ts_good_def)
qed


text \<open>Money moves only after the request is on record. The hook enters the posting phase of an
  intent only by the answer to that intent's registration, successful, for the same request reference and
  in state saved; it reports success only on a successful answer to the posting with a transfer
  identifier and status posted; and a lost connection never ends as success or failure.\<close>

theorem posting_needs_registration:
  assumes "ts_step tenant s e = (s', sg)"
  shows "(ts_phase s' = Posting v r \<and> ts_phase s \<noteq> Posting v r \<longrightarrow>
      (\<exists>u w. ts_phase s = Saving v r u \<and> e = Answer (Arrived w) \<and> saved_proof r w \<and> sg = [Sent (command_of v)]))
   \<and> ((\<exists>t b q. ts_phase s' = Detailing t b q \<and> ts_phase s \<noteq> Detailing t b q) \<longrightarrow>
      (\<exists>v r w. ts_phase s = Posting v r \<and> e = Answer (Arrived w) \<and> ans_ok w
         \<and> truthy_field ''transfer_id'' (json_or_empty w) \<and> field ''status'' (json_or_empty w) = Some (JStr ''posted'')))
   \<and> (e = Answer Lost \<and> (ts_phase s = Posting v r \<or> (\<exists>u. ts_phase s = Saving v r u)) \<longrightarrow>
      sg = [] \<and> ts_outcome s' = Some (unknownOutcome r))"
proof -
  have clear: "ts_phase (clearIntent key s) = ts_phase s" for key
    using clear_cases [of key s] by auto
  have sub: "ts_phase s' \<noteq> Posting v r \<or> ts_phase s = Posting v r"
    "(\<exists>t b q. ts_phase s' = Detailing t b q \<and> ts_phase s \<noteq> Detailing t b q) \<longrightarrow> False" if "e = Submit p u1 u2 u3" for p u1 u2 u3
    using assms that by (auto simp: submit_def Let_def split: if_splits sum.splits option.splits)
  show ?thesis
  proof (cases e)
    case (Submit p u1 u2 u3)
    then show ?thesis using sub by auto
  next
    case (Answer a)
    show ?thesis
    proof (cases "ts_phase s")
      case (Posting v' r')
      then show ?thesis
        using assms by (cases a) (auto simp: Answer posted_def Let_def idle_def clear split: if_splits)
    qed (use assms in \<open>auto simp: Answer registered_def detailed_def idle_def Let_def split: arrival.splits if_splits option.splits\<close>)
  qed (use assms in auto)
qed

theorem posting_needs_registration_witness:
  "snd (ts_step ''acme'' (sample_form\<lparr>ts_phase := Posting JNull (JStr ''ref'')\<rparr>) (Answer Lost)) = []
   \<and> ts_outcome (fst (ts_step ''acme'' (sample_form\<lparr>ts_phase := Posting JNull (JStr ''ref'')\<rparr>) (Answer Lost))) = Some (unknownOutcome (JStr ''ref''))"
  using posting_needs_registration [of "''acme''" "sample_form\<lparr>ts_phase := Posting JNull (JStr ''ref'')\<rparr>" "Answer Lost"
      "fst (ts_step ''acme'' (sample_form\<lparr>ts_phase := Posting JNull (JStr ''ref'')\<rparr>) (Answer Lost))"
      "snd (ts_step ''acme'' (sample_form\<lparr>ts_phase := Posting JNull (JStr ''ref'')\<rparr>) (Answer Lost))" JNull "JStr ''ref''"]
  by simp

section \<open>The review\<close>

text \<open>An optional sign and digits are read as the number they denote.\<close>

lemma minus_not_space: "\<not> is_space CHR ''-''"
  by (simp add: char_class_defs)

lemma big_int_digits:
  assumes "list_all is_digit t" "t \<noteq> []"
  shows "big_int t = Inr (int (digits_value t))" "big_int (CHR ''-'' # t) = Inr (- int (digits_value t))"
proof -
  have sp: "trim t = t" "trim (CHR ''-'' # t) = CHR ''-'' # t"
    using assms(1) minus_not_space by (auto intro!: trim_no_space simp: list_all_iff digit_not_space)
  have low: "toLowerCase (take 2 t) = take 2 t"
    using list_all_take [OF assms(1), of 2] by (intro toLowerCase_id) (fastforce simp: list_all_iff char_class_defs)+
  have np: "take 2 t \<noteq> [CHR ''0'', c]" if "\<not> is_digit c" for c
    using assms(1) that by (cases t; cases "tl t") auto
  have nr: "take 2 t \<noteq> ''0x''" "take 2 t \<noteq> ''0o''" "take 2 t \<noteq> ''0b''"
    by (auto simp: np char_class_defs)
  have hd: "is_digit (hd t)" using assms by (cases t) auto
  then have h: "hd t \<noteq> CHR ''-''" "hd t \<noteq> CHR ''+''" by (auto simp: char_class_defs)
  have rx: "rx_test (RSeq (ROpt (RSet (one_of ''+-''))) (RPlus (RSet is_digit))) t"
    "rx_test (RSeq (ROpt (RSet (one_of ''+-''))) (RPlus (RSet is_digit))) (CHR ''-'' # t)"
    using assms plus_digits [of t] exI [of "\<lambda>a. \<exists>b. CHR ''-'' # t = a @ b \<and> rx_test (ROpt (RSet (one_of ''+-''))) a \<and> rx_test (RPlus (RSet is_digit)) b" "''-''"]
    by (auto simp: all_digits_def one_of_def test_seq)
  show "big_int t = Inr (int (digits_value t))"
    using assms(2) by (simp add: big_int_def Let_def sp low nr rx h)
  have neg: "toLowerCase (CHR ''-'' # take (Suc 0) t) \<noteq> CHR ''0'' # c" for c
    by (simp add: toLowerCase_def lower_char_def char_class_defs)
  show "big_int (CHR ''-'' # t) = Inr (- int (digits_value t))"
    using assms(2) by (simp add: big_int_def Let_def sp neg rx)
qed

lemma big_int_string: "big_int (int_string n) = Inr n"
  using big_int_digits [of "nat_string (nat n)"] big_int_digits [of "nat_string (nat (- n))"]
    all_digits_nat_string [of "nat n"] all_digits_nat_string [of "nat (- n)"]
  by (auto simp: int_string_def all_digits_def)


definition sample_account :: "string \<Rightarrow> string \<Rightarrow> account_view" where
  "sample_account aid available = \<lparr>av_account_id = aid, av_currency = ''INR'', av_status = ''active'', av_display_name = ''Account'',
     av_available_minor = available, av_ledger_minor = available, av_version = ''1'', av_account_version = ''1''\<rparr>"


end
