(* ===== verification/RateLimit.thy ===== *)
theory RateLimit
  imports Http
begin

text \<open>
  Rate limiting (\<^verbatim>\<open>web/src/lib/rate-limit.ts\<close>): the process-local fixed window, the shared fixed
  window with its Redis script, the decision and the response it becomes. Times are milliseconds of
  \<^verbatim>\<open>Date.now()\<close>; limits, windows and counts are integers. The locale \<open>fixed_window\<close> is the contract of
  a \<^verbatim>\<open>RateLimitStore\<close>; its bound is proved once and holds of both stores. The metric emitted with a
  denial is not modelled.
\<close>

section \<open>Decisions and denials\<close>

record rate_decision =
  allowed :: bool
  retryAfterSeconds :: int
  available :: "bool option"

record rate_denial =
  denial_code :: string
  denial_status :: nat
  denial_retry :: "int option"

definition rateLimitDenial :: "rate_decision \<Rightarrow> rate_denial option" where
  "rateLimitDenial decision =
     (if allowed decision then None
      else if available decision = Some False
      then Some \<lparr>denial_code = ''temporary_unavailable'', denial_status = 503, denial_retry = None\<rparr>
      else Some \<lparr>denial_code = ''rate_limited'', denial_status = 429, denial_retry = Some (retryAfterSeconds decision)\<rparr>)"

definition rateLimitResponse :: "rate_decision \<Rightarrow> response option" where
  "rateLimitResponse decision = (case rateLimitDenial decision of
     None \<Rightarrow> None
   | Some d \<Rightarrow>
       (let response = jsonError (denial_code d) (denial_status d) in
        Some (case denial_retry d of
                None \<Rightarrow> response
              | Some n \<Rightarrow> response\<lparr>resp_headers := set_header ''Retry-After'' (int_string n) (resp_headers response)\<rparr>)))"

abbreviation permit :: rate_decision where
  "permit \<equiv> \<lparr>allowed = True, retryAfterSeconds = 0, available = None\<rparr>"

abbreviation refuse :: "int \<Rightarrow> rate_decision" where
  "refuse n \<equiv> \<lparr>allowed = False, retryAfterSeconds = n, available = None\<rparr>"

abbreviation store_unavailable :: rate_decision where
  "store_unavailable \<equiv> \<lparr>allowed = False, retryAfterSeconds = 0, available = Some False\<rparr>"

section \<open>The process-local store\<close>

record window =
  startedAt :: int
  count :: int

type_synonym memory_store = "string \<Rightarrow> window option"

definition ceil_div :: "int \<Rightarrow> int \<Rightarrow> int" where
  "ceil_div a b = - ((- a) div b)"

definition memory_consume :: "int \<Rightarrow> int \<Rightarrow> memory_store \<Rightarrow> string \<Rightarrow> int \<Rightarrow> memory_store \<times> rate_decision" where
  "memory_consume limit windowSeconds windows key now =
     (let windowMilliseconds = windowSeconds * 1000;
          fresh = (windows(key \<mapsto> \<lparr>startedAt = now, count = 1\<rparr>), permit) in
      case windows key of
        None \<Rightarrow> fresh
      | Some current \<Rightarrow>
          if windowMilliseconds \<le> now - startedAt current then fresh
          else if limit \<le> count current
          then (windows, refuse (max 1 (ceil_div (windowMilliseconds - (now - startedAt current)) 1000)))
          else (windows(key \<mapsto> current\<lparr>count := count current + 1\<rparr>), permit))"

section \<open>The shared store\<close>

text \<open>The keys of the Redis instance: a counter and, when one is set, the time at which it expires.
  The script increments, reads the time to live in seconds (rounded as Redis rounds it; negative when
  there is none) and starts the window on the first increment or when the key has no expiry.\<close>

type_synonym redis = "string \<Rightarrow> (int \<times> int option) option"

definition live :: "redis \<Rightarrow> string \<Rightarrow> int \<Rightarrow> (int \<times> int option) option" where
  "live db key now = (case db key of
     Some (n, Some e) \<Rightarrow> if e \<le> now then None else Some (n, Some e)
   | entry \<Rightarrow> entry)"

definition fixedWindowScript :: "redis \<Rightarrow> string \<Rightarrow> int \<Rightarrow> int \<Rightarrow> redis \<times> int \<times> int" where
  "fixedWindowScript db key windowSeconds now =
     (let (n, e) = (case live db key now of None \<Rightarrow> (1, None) | Some (m, x) \<Rightarrow> (m + 1, x));
          ttl = (case e of None \<Rightarrow> -1 | Some x \<Rightarrow> (x - now + 500) div 1000) in
      if n = 1 \<or> ttl < 0 then (db(key \<mapsto> (n, Some (now + windowSeconds * 1000))), n, windowSeconds)
      else (db(key \<mapsto> (n, e)), n, ttl))"

definition safeRateLimitKey :: "(string \<Rightarrow> string \<Rightarrow> string) \<Rightarrow> string \<Rightarrow> string \<Rightarrow> string \<Rightarrow> string outcome" where
  "safeRateLimitKey hmac_hex raw namespace secret =
     (if length secret < 32 then Inl ''rate-limit key secret is unavailable''
      else Inr (''ledgersync:'' @ namespace @ '':bff-rate:'' @ hmac_hex secret raw))"

definition safe_integer :: "int \<Rightarrow> bool" where
  "safe_integer i = (\<bar>i\<bar> \<le> 9007199254740991)"

text \<open>The store over any counter; \<open>None\<close> is a counter that throws.\<close>

definition shared_consume ::
  "('s \<Rightarrow> string \<Rightarrow> int \<Rightarrow> 's \<times> (int \<times> int) option) \<Rightarrow> (string \<Rightarrow> string outcome) \<Rightarrow>
     int \<Rightarrow> int \<Rightarrow> 's \<Rightarrow> string \<Rightarrow> 's \<times> rate_decision" where
  "shared_consume counter key_of limit windowSeconds s key =
     (if \<not> safe_integer limit \<or> limit < 1 \<or> \<not> safe_integer windowSeconds \<or> windowSeconds < 1 then (s, store_unavailable)
      else case key_of key of
        Inl _ \<Rightarrow> (s, store_unavailable)
      | Inr k \<Rightarrow>
          (case counter s k windowSeconds of
             (s', None) \<Rightarrow> (s', store_unavailable)
           | (s', Some (n, ttl)) \<Rightarrow>
               if \<not> safe_integer n \<or> n < 1 \<or> \<not> safe_integer ttl \<or> ttl < 0 then (s', store_unavailable)
               else if n \<le> limit then (s', permit)
               else (s', refuse (max 1 ttl))))"

definition redis_counter :: "int \<Rightarrow> redis \<Rightarrow> string \<Rightarrow> int \<Rightarrow> redis \<times> (int \<times> int) option" where
  "redis_counter now db key windowSeconds =
     (let (db', n, ttl) = fixedWindowScript db key windowSeconds now in (db', Some (n, ttl)))"

definition requiresSharedRateLimit :: "env \<Rightarrow> bool" where
  "requiresSharedRateLimit env =
     (is_production (deployment_name [''LEDGERSYNC_DEPLOYMENT_ENV'', ''NODE_ENV''] env)
      \<or> (case env ''VERCEL'' of None \<Rightarrow> False | Some v \<Rightarrow> v \<noteq> []))"

datatype rate_limit_store = In_memory memory_store | Shared

definition createRateLimitStore :: "env \<Rightarrow> rate_limit_store" where
  "createRateLimitStore env = (if \<not> requiresSharedRateLimit env then In_memory (\<lambda>k. None) else Shared)"

section \<open>The contract of a store\<close>

text \<open>How many of a sequence of timed requests are admitted for key k with a time in a set.\<close>

fun admitted :: "('s \<Rightarrow> 'k \<Rightarrow> int \<Rightarrow> 's \<times> bool) \<Rightarrow> 's \<Rightarrow> ('k \<times> int) list \<Rightarrow> 'k \<Rightarrow> int set \<Rightarrow> int" where
  "admitted consume s [] k T = 0"
| "admitted consume s ((j, t) # calls) k T =
     (if j = k \<and> t \<in> T \<and> snd (consume s j t) then 1 else 0) + admitted consume (fst (consume s j t)) calls k T"

text \<open>A store seen through the open window of a key: when it started and how many requests it has
  counted. A request that finds no window, or one that has lasted the window's length, opens a new one
  and is admitted; a request inside the window is admitted exactly while the count is below the limit.
  Requests for other keys leave the window alone.\<close>

locale fixed_window =
  fixes consume :: "'s \<Rightarrow> 'k \<Rightarrow> int \<Rightarrow> 's \<times> bool"
    and view :: "'s \<Rightarrow> 'k \<Rightarrow> (int \<times> int) option"
    and valid :: "'s \<Rightarrow> bool"
    and lim :: int
    and W :: int
  assumes valid_step: "valid s \<Longrightarrow> valid (fst (consume s k t))"
    and opens: "valid s \<Longrightarrow> 1 \<le> lim \<Longrightarrow> view s k = None \<or> (\<exists>st c. view s k = Some (st, c) \<and> st + W \<le> t) \<Longrightarrow>
      view (fst (consume s k t)) k = Some (t, 1)"
    and admits_room: "valid s \<Longrightarrow> view s k = Some (st, c) \<Longrightarrow> t < st + W \<Longrightarrow> c < lim \<Longrightarrow>
      view (fst (consume s k t)) k = Some (st, c + 1)"
    and refuses_full: "valid s \<Longrightarrow> view s k = Some (st, c) \<Longrightarrow> t < st + W \<Longrightarrow> lim \<le> c \<Longrightarrow>
      \<not> snd (consume s k t) \<and> (\<exists>c'\<ge>lim. view (fst (consume s k t)) k = Some (st, c'))"
    and frame: "valid s \<Longrightarrow> j \<noteq> k \<Longrightarrow> view (fst (consume s k t)) j = view s j"
    and count_nonneg: "valid s \<Longrightarrow> view s k = Some (st, c) \<Longrightarrow> 0 \<le> c"
begin

lemma none_counted: "\<forall>e\<in>set calls. snd e \<notin> T \<Longrightarrow> admitted consume s calls k T = 0"
  by (induction calls arbitrary: s) auto

lemma inside_window:
  "valid s \<Longrightarrow> view s k = Some (st, c) \<Longrightarrow> sorted (map snd calls) \<Longrightarrow> \<forall>e\<in>set calls. lo \<le> snd e \<Longrightarrow> lo \<le> st \<Longrightarrow>
     admitted consume s calls k {lo..<lo + W} \<le> (if c \<le> lim then lim - c else 0)"
proof (induction calls arbitrary: s c)
  case (Cons e calls)
  obtain j t where e: "e = (j, t)" by (cases e)
  let ?s' = "fst (consume s j t)"
  note ih = Cons.IH [OF valid_step [OF Cons.prems(1), of j t], of "c" for c]
  have rest: "sorted (map snd calls)" "\<forall>e\<in>set calls. lo \<le> snd e" using Cons.prems by auto
  show ?case
  proof (cases "t < lo + W")
    case late: False
    then have "\<forall>e'\<in>set (e # calls). snd e' \<notin> {lo..<lo + W}" using Cons.prems(3) e by auto
    then show ?thesis using none_counted [of "e # calls" "{lo..<lo + W}" s k] by simp
  next
    case soon: True
    then have t: "t < st + W" using Cons.prems(5) by simp
    show ?thesis
    proof (cases "j = k")
      case False
      then have "view ?s' k = Some (st, c)" using frame [OF Cons.prems(1), of k j t] Cons.prems(2) by auto
      from ih [OF this rest Cons.prems(5)] False show ?thesis by (simp add: e)
    next
      case jk: True
      show ?thesis
      proof (cases "c < lim")
        case True
        then have "view ?s' k = Some (st, c + 1)" using admits_room [OF Cons.prems(1,2) t] jk by simp
        from ih [OF this rest Cons.prems(5)] True jk show ?thesis by (auto simp: e)
      next
        case False
        then obtain c' where c': "lim \<le> c'" "view ?s' k = Some (st, c')" "\<not> snd (consume s j t)"
          using refuses_full [OF Cons.prems(1,2) t] jk by auto
        from ih [OF c'(2) rest Cons.prems(5)] c'(1,3) False show ?thesis by (simp add: e split: if_splits)
      qed
    qed
  qed
qed simp

lemma first_window:
  assumes "valid s" "1 \<le> lim" "view s k = None \<or> (\<exists>st c. view s k = Some (st, c) \<and> st + W \<le> t)"
    and "sorted (map snd ((k, t) # calls))" "lo \<le> t"
  shows "admitted consume s ((k, t) # calls) k {lo..<lo + W} \<le> lim"
proof -
  let ?s' = "fst (consume s k t)"
  have "view ?s' k = Some (t, 1)" by (rule opens [OF assms(1,2,3)])
  moreover have "\<forall>e\<in>set calls. lo \<le> snd e" using assms(4,5) by force
  ultimately have "admitted consume ?s' calls k {lo..<lo + W} \<le> lim - 1"
    using inside_window [OF valid_step [OF assms(1)], of k t k t 1 calls lo] assms by simp
  then show ?thesis by simp
qed

lemma across_windows:
  "valid s \<Longrightarrow> 1 \<le> lim \<Longrightarrow> sorted (map snd calls) \<Longrightarrow> \<forall>e\<in>set calls. lo \<le> snd e \<Longrightarrow>
     admitted consume s calls k {lo..<lo + W} \<le> (case view s k of None \<Rightarrow> lim | Some (st, c) \<Rightarrow> (if c \<le> lim then lim - c else 0) + lim)"
proof (induction calls arbitrary: s)
  case Nil
  then show ?case by (auto split: option.splits)
next
  case (Cons e calls)
  obtain j t where e: "e = (j, t)" by (cases e)
  let ?s' = "fst (consume s j t)"
  have rest: "sorted (map snd calls)" "\<forall>e\<in>set calls. lo \<le> snd e" using Cons.prems by auto
  note ih = Cons.IH [OF valid_step [OF Cons.prems(1), of j t] Cons.prems(2) rest]
  show ?case
  proof (cases "j = k")
    case False
    then have "view ?s' k = view s k" using frame [OF Cons.prems(1), of k j t] by auto
    then show ?thesis using ih False by (simp add: e)
  next
    case jk: True
    show ?thesis
    proof (cases "view s k = None \<or> (\<exists>st c. view s k = Some (st, c) \<and> st + W \<le> t)")
      case True
      then have "admitted consume s (e # calls) k {lo..<lo + W} \<le> lim"
        using first_window [OF Cons.prems(1,2), of k t calls lo] Cons.prems(3,4) e jk by simp
      then show ?thesis by (auto split: option.splits)
    next
      case False
      then obtain st c where sc: "view s k = Some (st, c)" "t < st + W" by (cases "view s k") fastforce+
      show ?thesis
      proof (cases "c < lim")
        case True
        then have "view ?s' k = Some (st, c + 1)" using admits_room [OF Cons.prems(1) sc] jk by simp
        then show ?thesis using ih sc True jk by (auto simp: e)
      next
        case False
        then obtain c' where "lim \<le> c'" "view ?s' k = Some (st, c')" "\<not> snd (consume s j t)"
          using refuses_full [OF Cons.prems(1) sc] jk by auto
        then show ?thesis using ih sc False by (simp add: e split: if_splits)
      qed
    qed
  qed
qed

text \<open>Whatever the store held before and whatever other keys do, an interval of one window's length
  admits at most twice the limit for a key.\<close>

lemma interval_bound:
  "valid s \<Longrightarrow> 1 \<le> lim \<Longrightarrow> sorted (map snd calls) \<Longrightarrow> admitted consume s calls k {lo..<lo + W} \<le> 2 * lim"
proof (induction calls arbitrary: s)
  case (Cons e calls)
  obtain j t where e: "e = (j, t)" by (cases e)
  show ?case
  proof (cases "lo \<le> t")
    case True
    then have "\<forall>e'\<in>set (e # calls). lo \<le> snd e'" using Cons.prems(3) e by force
    from across_windows [OF Cons.prems this, of k] count_nonneg [OF Cons.prems(1), of k] Cons.prems(2)
    show ?thesis by (auto split: option.splits if_splits)
  next
    case False
    have "admitted consume (fst (consume s j t)) calls k {lo..<lo + W} \<le> 2 * lim"
      using Cons.prems by (intro Cons.IH valid_step) (auto simp: e)
    then show ?thesis using False by (simp add: e)
  qed
qed simp

text \<open>In a store that has no window yet for the key, the first interval after its first request admits
  at most the limit itself.\<close>

lemma window_bound:
  assumes "valid s" "1 \<le> lim" "view s k = None" "sorted (map snd ((k, t) # calls))"
  shows "admitted consume s ((k, t) # calls) k {t..<t + W} \<le> lim"
  using first_window [OF assms(1,2) _ assms(4), of t] assms(3) by simp

end

section \<open>Both stores meet the contract\<close>

definition memory_view :: "memory_store \<Rightarrow> string \<Rightarrow> (int \<times> int) option" where
  "memory_view windows k = map_option (\<lambda>w. (startedAt w, count w)) (windows k)"

definition memory_valid :: "memory_store \<Rightarrow> bool" where
  "memory_valid windows = (\<forall>k w. windows k = Some w \<longrightarrow> 0 \<le> count w)"

definition memory_admit :: "int \<Rightarrow> int \<Rightarrow> memory_store \<Rightarrow> string \<Rightarrow> int \<Rightarrow> memory_store \<times> bool" where
  "memory_admit limit windowSeconds windows key now =
     (let (windows', d) = memory_consume limit windowSeconds windows key now in (windows', allowed d))"

interpretation memory: fixed_window "memory_admit limit w" memory_view memory_valid limit "w * 1000" for limit w
  by unfold_locales
    (auto simp: memory_admit_def memory_consume_def memory_view_def memory_valid_def Let_def split: option.splits if_splits)

definition redis_view :: "int \<Rightarrow> redis \<Rightarrow> string \<Rightarrow> (int \<times> int) option" where
  "redis_view w db k = (case db k of None \<Rightarrow> None | Some (n, Some e) \<Rightarrow> Some (e - w * 1000, n) | Some (n, None) \<Rightarrow> None)"

text \<open>Every counter of the shared store has an expiry and has counted at least one request.\<close>

definition redis_valid :: "redis \<Rightarrow> bool" where
  "redis_valid db = (\<forall>k n e. db k = Some (n, e) \<longrightarrow> 1 \<le> n \<and> e \<noteq> None)"

definition redis_admit :: "int \<Rightarrow> int \<Rightarrow> redis \<Rightarrow> string \<Rightarrow> int \<Rightarrow> redis \<times> bool" where
  "redis_admit limit w db key now =
     (let (db', d) = shared_consume (redis_counter now) Inr limit w db key in (db', allowed d))"

text \<open>The shared store under the limits and windows that the code passes: both are positive safe
  integers.\<close>

locale shared_window =
  fixes limit :: int and w :: int
  assumes limit_range: "safe_integer limit" "1 \<le> limit"
    and window_range: "safe_integer w" "1 \<le> w"
begin

lemma redis_step:
  assumes "redis_valid db"
  shows "fst (redis_admit limit w db k t) = fst (fixedWindowScript db k w t)"
    and "snd (redis_admit limit w db k t) \<Longrightarrow> fst (snd (fixedWindowScript db k w t)) \<le> limit"
  using limit_range window_range
  by (auto simp: redis_admit_def shared_consume_def redis_counter_def Let_def split: prod.splits if_splits)

lemma script_alive:
  assumes "redis_valid db" "db k = Some (n, Some e)" "t < e"
  shows "fixedWindowScript db k w t = (db(k \<mapsto> (n + 1, Some e)), n + 1, (e - t + 500) div 1000)"
proof -
  have "1 \<le> n" using assms by (auto simp: redis_valid_def)
  moreover have "0 \<le> (e - t + 500) div 1000" using assms(3) by (simp add: pos_imp_zdiv_nonneg_iff)
  ultimately show ?thesis using assms by (auto simp: fixedWindowScript_def live_def Let_def)
qed

lemma script_expired:
  assumes "db k = None \<or> (\<exists>n e. db k = Some (n, Some e) \<and> e \<le> t)"
  shows "fixedWindowScript db k w t = (db(k \<mapsto> (1, Some (t + w * 1000))), 1, w)"
  using assms by (auto simp: fixedWindowScript_def live_def Let_def)

lemma redis_cases:
  assumes "redis_valid db"
  obtains "db k = None \<or> (\<exists>n e. db k = Some (n, Some e) \<and> e \<le> t)" | n e where "db k = Some (n, Some e)" "t < e" "1 \<le> n"
  using assms that unfolding redis_valid_def by (cases "db k") (auto, metis linorder_not_less option.exhaust)

lemma redis_contract: "fixed_window (redis_admit limit w) (redis_view w) redis_valid limit (w * 1000)"
proof
  fix db k t assume v: "redis_valid db"
  show "redis_valid (fst (redis_admit limit w db k t))"
    using v by (cases rule: redis_cases [OF v, of k t])
      (fastforce simp: redis_step(1) [OF v] script_expired script_alive redis_valid_def)+
next
  fix db k t assume v: "redis_valid db" and "1 \<le> limit"
    and o': "redis_view w db k = None \<or> (\<exists>st c. redis_view w db k = Some (st, c) \<and> st + w * 1000 \<le> t)"
  have "db k = None \<or> (\<exists>n e. db k = Some (n, Some e) \<and> e \<le> t)"
    using o' v by (cases rule: redis_cases [OF v, of k t]) (auto simp: redis_view_def)
  then have "fixedWindowScript db k w t = (db(k \<mapsto> (1, Some (t + w * 1000))), 1, w)" by (rule script_expired)
  then show "redis_view w (fst (redis_admit limit w db k t)) k = Some (t, 1)"
    by (simp add: redis_step(1) [OF v] redis_view_def)
next
  fix db k st c t assume v: "redis_valid db" and s: "redis_view w db k = Some (st, c)" "t < st + w * 1000"
  then have d: "db k = Some (c, Some (st + w * 1000))"
    by (auto simp: redis_view_def split: option.splits)
  note a = script_alive [OF v d s(2)]
  show "redis_view w (fst (redis_admit limit w db k t)) k = Some (st, c + 1)" if "c < limit"
    by (simp add: redis_step(1) [OF v] a redis_view_def)
  show "\<not> snd (redis_admit limit w db k t) \<and> (\<exists>c'\<ge>limit. redis_view w (fst (redis_admit limit w db k t)) k = Some (st, c'))"
    if "limit \<le> c"
    using redis_step(2) [OF v, of k t] that by (auto simp: redis_step(1) [OF v] a redis_view_def)
next
  fix db and j k :: string and t assume v: "redis_valid db" and "j \<noteq> k"
  then show "redis_view w (fst (redis_admit limit w db k t)) j = redis_view w db j"
    by (cases rule: redis_cases [OF v, of k t])
      (auto simp: redis_step(1) [OF v] script_expired script_alive redis_view_def)
next
  fix db k st c assume "redis_valid db" "redis_view w db k = Some (st, c)"
  then show "0 \<le> c" by (fastforce simp: redis_valid_def redis_view_def split: option.splits)
qed

end

sublocale shared_window \<subseteq> shared: fixed_window "redis_admit limit w" "redis_view w" redis_valid limit "w * 1000"
  by (rule redis_contract)

text \<open>The limits of the code: six mutations a minute per actor, ten exports, sixty reads.\<close>

interpretation mutation_limit: shared_window 6 60
  by unfold_locales (simp_all add: safe_integer_def)

interpretation export_limit: shared_window 10 60
  by unfold_locales (simp_all add: safe_integer_def)

interpretation read_limit: shared_window 60 60
  by unfold_locales (simp_all add: safe_integer_def)

section \<open>Properties\<close>

text \<open>C16: The process-local limiter is a fixed window: whatever it held before, in time order and
  interleaved with any other keys, requests for one key are admitted at most twice the limit in any
  interval of one window's length, and at most the limit itself in the window that a first request
  opens.\<close>

theorem memory_rate_bound:
  assumes "memory_valid s" "1 \<le> limit" "sorted (map snd calls)"
  shows "admitted (memory_admit limit w) s calls k {lo..<lo + w * 1000} \<le> 2 * limit
    \<and> (s k = None \<and> calls = (k, lo) # rest \<longrightarrow> admitted (memory_admit limit w) s calls k {lo..<lo + w * 1000} \<le> limit)"
  using memory.interval_bound [OF assms, where k = k and lo = lo and w = w]
    memory.window_bound [OF assms(1,2), where k = k and t = lo and calls = rest and w = w] assms(3)
  by (auto simp: memory_view_def)

theorem memory_rate_bound_witness:
  "admitted (memory_admit 2 60) (\<lambda>k. None) [(''a'', 0), (''a'', 1), (''b'', 1), (''a'', 59999)] ''a'' {0..<0 + 60 * 1000} \<le> 2"
  using memory_rate_bound [of "\<lambda>k. None" 2 "[(''a'', 0), (''a'', 1), (''b'', 1), (''a'', 59999)]" 60 "''a''" 0
      "[(''a'', 1), (''b'', 1), (''a'', 59999)]"]
  by (simp add: memory_valid_def)



text \<open>The shared limiter fails closed: when its key secret is missing, its counter throws, or its
  reply is not a count and a time to live, the request is refused with 503 and no \<^verbatim>\<open>Retry-After\<close>, never
  admitted and never reported as rate limited.\<close>

theorem shared_store_fails_closed:
  assumes "(\<exists>e. key_of key = Inl e)
    \<or> (\<exists>k s'. key_of key = Inr k \<and> counter s k w = (s', None))
    \<or> (\<exists>k s' n ttl. key_of key = Inr k \<and> counter s k w = (s', Some (n, ttl)) \<and> (n < 1 \<or> ttl < 0))"
  shows "snd (shared_consume counter key_of limit w s key) = store_unavailable
    \<and> rateLimitResponse (snd (shared_consume counter key_of limit w s key)) = Some (jsonError ''temporary_unavailable'' 503)"
  using assms by (auto simp: shared_consume_def rateLimitResponse_def rateLimitDenial_def)

theorem shared_store_fails_closed_witness:
  "snd (shared_consume (\<lambda>s k w. (s, None)) (\<lambda>k. safeRateLimitKey (\<lambda>a b. b) k ''default'' ''short'') 6 60 () ''x'') = store_unavailable"
  using shared_store_fails_closed [of "\<lambda>k. safeRateLimitKey (\<lambda>a b. b) k ''default'' ''short''" "''x''" "\<lambda>s k w. (s, None)" "()" 60 6]
  by (simp add: safeRateLimitKey_def)

text \<open>A refusal inside the process-local window tells the caller to wait at least one second and no
  longer than the window.\<close>

lemma memory_retry_after:
  assumes "memory_consume limit w s k t = (s', refuse n)" "\<And>v. s k = Some v \<Longrightarrow> startedAt v \<le> t" "1 \<le> w"
  shows "1 \<le> n \<and> n \<le> w"
proof -
  obtain v where v: "s k = Some v" "n = max 1 (ceil_div (w * 1000 - (t - startedAt v)) 1000)"
    using assms(1) by (auto simp: memory_consume_def Let_def split: option.splits if_splits)
  have "ceil_div (w * 1000 - (t - startedAt v)) 1000 \<le> w"
    using assms(2) [OF v(1)] zdiv_mono1 [of "- (w * 1000)" "- (w * 1000 - (t - startedAt v))" 1000]
    unfolding ceil_div_def by simp
  then show ?thesis using v(2) assms(3) by simp
qed

end
