(* ===== verification/Operations.thy ===== *)
theory Operations
  imports MutationApi RateLimit
begin

text \<open>
  The sanitizers of operational evidence, \<^verbatim>\<open>web/src/lib/api/operations.ts\<close>: diagnostics, delivery events
  with their causal evidence, and webhook endpoints. A sanitizer turns the private API's status and value
  into what the browser sees; a value with an unexpected property, type or contradiction is refused as a
  whole. \<^verbatim>\<open>Date.parse\<close> on arbitrary text and the URL parser are parameters.
\<close>

section \<open>Tests on values\<close>

definition bounded :: "nat \<Rightarrow> bool \<Rightarrow> string \<Rightarrow> bool" where
  "bounded maximum allowEmpty s = (length s \<le> maximum \<and> (allowEmpty \<or> 0 < length s))"

definition identifier_pattern :: rx where
  "identifier_pattern = RSeq (RSet is_alnum) (RStar (RSet (\<lambda>c. is_alnum c \<or> one_of ''._:-'' c)))"

definition safeIdentifier :: "nat \<Rightarrow> string \<Rightarrow> bool" where
  "safeIdentifier maximum s = (bounded maximum False s \<and> rx_test identifier_pattern s)"

definition safeUUID :: "string \<Rightarrow> bool" where
  "safeUUID s = rx_test canonicalUUIDShape s"

definition timestamp :: "(string \<Rightarrow> bool) \<Rightarrow> string \<Rightarrow> bool" where
  "timestamp is_date s = (bounded 64 False s \<and> is_date s)"

text \<open>A property that is absent or a string that passes the test.\<close>

definition optional_string :: "string \<Rightarrow> (string \<Rightarrow> bool) \<Rightarrow> json \<Rightarrow> bool" where
  "optional_string k P v = (field k v = None \<or> string_field k P v)"

definition endpointOrigin :: "url_parser \<Rightarrow> string \<Rightarrow> bool" where
  "endpointOrigin new_URL value =
     (if \<not> bounded 255 False value then False
      else if value = ''unavailable'' then True
      else (case new_URL value None of
              None \<Rightarrow> False
            | Some parsed \<Rightarrow> (protocol parsed = ''https:'' \<or> protocol parsed = ''http:'') \<and> username parsed = '''' \<and> password parsed = ''''
                \<and> origin parsed = value \<and> pathname parsed = ''/'' \<and> search parsed = '''' \<and> hash parsed = ''''))"

definition operations_count :: "json option \<Rightarrow> string option" where
  "operations_count v = (case v of
     Some (JStr s) \<Rightarrow> if rx_test canonicalCount s \<and> length s \<le> 20 then Some s else None
   | Some (JNum (Fin q)) \<Rightarrow> if q = of_int \<lfloor>q\<rfloor> \<and> safe_integer \<lfloor>q\<rfloor> \<and> 0 \<le> q then Some (nat_string (nat \<lfloor>q\<rfloor>)) else None
   | _ \<Rightarrow> None)"

definition keysAllowed :: "json \<Rightarrow> string list \<Rightarrow> bool" where
  "keysAllowed v permitted = (isRecord v \<and> only_keys v permitted)"

definition evidence_unavailable :: sanitized where
  "evidence_unavailable = error_outcome 503 ''evidence_unavailable''"

definition operations_sanitizeError :: "nat \<Rightarrow> json \<Rightarrow> sanitized" where
  "operations_sanitizeError st v =
     (let c = (case error_code v of None \<Rightarrow> '''' | Some x \<Rightarrow> x) in
      if (st = 400 \<and> (c = ''invalid_request'' \<or> c = ''validation_failed'')) \<or> (st = 401 \<and> c = ''unauthorized'')
         \<or> (st = 403 \<and> c = ''forbidden'') \<or> (st = 404 \<and> c = ''not_found'') \<or> (st = 429 \<and> c = ''rate_limited'')
         \<or> (st = 503 \<and> (c = ''evidence_unavailable'' \<or> c = ''temporary_unavailable'')) \<or> (st = 504 \<and> c = ''upstream_timeout'')
      then error_outcome st c else evidence_unavailable)"

text \<open>A success whose value could be cleaned is status 200 with the clean body.\<close>

definition sanitized_by :: "(json \<Rightarrow> json option) \<Rightarrow> nat \<Rightarrow> json \<Rightarrow> sanitized" where
  "sanitized_by clean st v =
     (if st < 200 \<or> 300 \<le> st then operations_sanitizeError st v
      else case clean v of None \<Rightarrow> evidence_unavailable | Some body \<Rightarrow> \<lparr>san_status = 200, san_body = body\<rparr>)"

text \<open>A page: an array of at most \<open>n\<close> values, each of which can be cleaned.\<close>

fun all_clean :: "(json \<Rightarrow> json option) \<Rightarrow> json list \<Rightarrow> json list option" where
  "all_clean clean [] = Some []"
| "all_clean clean (v # vs) = (case (clean v, all_clean clean vs) of (Some w, Some ws) \<Rightarrow> Some (w # ws) | _ \<Rightarrow> None)"

definition clean_list :: "nat \<Rightarrow> (json \<Rightarrow> json option) \<Rightarrow> json option \<Rightarrow> json list option" where
  "clean_list n clean v = (case v of Some (JArr vs) \<Rightarrow> if length vs \<le> n then all_clean clean vs else None | _ \<Rightarrow> None)"

definition boolean_field :: "string \<Rightarrow> json \<Rightarrow> bool" where
  "boolean_field k v = (case field k v of Some (JBool _) \<Rightarrow> True | _ \<Rightarrow> False)"

definition one_of_strings :: "string list \<Rightarrow> string \<Rightarrow> bool" where
  "one_of_strings xs s = List.member xs s"

section \<open>Causal evidence\<close>

definition node_pattern :: rx where
  "node_pattern = RRep (RSet (\<lambda>c. is_alnum c \<or> one_of ''/_.:-'' c)) 1 128"

definition clock_pattern :: rx where
  "clock_pattern = RSeq (RSet (\<lambda>c. is_digit c \<and> c \<noteq> CHR ''0'')) (RRep (RSet is_digit) 0 18)"

definition node :: "string \<Rightarrow> bool" where
  "node s = rx_test node_pattern s"

definition clock :: "string \<Rightarrow> bool" where
  "clock s = (rx_test clock_pattern s \<and> digits_value s \<le> maximumSigned64)"

text \<open>\<^verbatim>\<open>String(v)\<close> where it can be one of a few words: an array of one value has the text of that value.\<close>

fun js_text :: "json \<Rightarrow> string option" where
  "js_text (JStr s) = Some s"
| "js_text (JArr [v]) = js_text v"
| "js_text _ = None"

definition publicationStates :: "string list" where
  "publicationStates = [''claimed'', ''expired'', ''published'', ''retrying'', ''dead'']"

definition field_value :: "string \<Rightarrow> json \<Rightarrow> nat" where
  "field_value k v = digits_value (field_string k v)"

definition publication_ok :: "(string \<Rightarrow> bool) \<Rightarrow> json \<Rightarrow> bool" where
  "publication_ok is_date entry =
     (keysAllowed entry [''generation'', ''worker_id'', ''state'', ''started_at'', ''lease_until'', ''completed_at'', ''receive_counter'', ''send_counter'']
      \<and> string_field ''generation'' clock entry \<and> string_field ''worker_id'' node entry
      \<and> (case Option.bind (field ''state'' entry) js_text of Some s \<Rightarrow> one_of_strings publicationStates s | None \<Rightarrow> False)
      \<and> string_field ''started_at'' (timestamp is_date) entry \<and> string_field ''lease_until'' (timestamp is_date) entry
      \<and> optional_string ''completed_at'' (timestamp is_date) entry \<and> optional_string ''receive_counter'' clock entry
      \<and> (field ''send_counter'' entry = None
         \<or> (string_field ''send_counter'' clock entry \<and> string_field ''receive_counter'' clock entry
            \<and> field_value ''receive_counter'' entry < field_value ''send_counter'' entry)))"

definition receipt_ok :: "(string \<Rightarrow> bool) \<Rightarrow> json \<Rightarrow> bool" where
  "receipt_ok is_date entry =
     (keysAllowed entry [''node_id'', ''sender_node_id'', ''send_counter'', ''receive_counter'', ''received_at'']
      \<and> string_field ''node_id'' node entry \<and> string_field ''receive_counter'' clock entry
      \<and> string_field ''received_at'' (timestamp is_date) entry \<and> optional_string ''sender_node_id'' node entry
      \<and> (field ''sender_node_id'' entry = None \<longleftrightarrow> field ''send_counter'' entry = None)
      \<and> (field ''send_counter'' entry = None
         \<or> (string_field ''send_counter'' clock entry \<and> field_value ''send_counter'' entry < field_value ''receive_counter'' entry)))"

definition event_order_ok :: "json \<Rightarrow> bool" where
  "event_order_ok order =
     (keysAllowed order [''node_id'', ''logical_timestamp'', ''parent_reference''] \<and> string_field ''node_id'' node order
      \<and> string_field ''logical_timestamp'' clock order \<and> optional_string ''parent_reference'' node order)"

text \<open>The checked list under \<open>name\<close> with its truncation flag; absent in answers of an older API.\<close>

definition causal_list :: "string \<Rightarrow> (json \<Rightarrow> bool) \<Rightarrow> json \<Rightarrow> (string \<times> json) list option" where
  "causal_list name entry_ok v = (case field name v of
     None \<Rightarrow> Some []
   | Some (JArr entries) \<Rightarrow>
       if 25 < length entries \<or> \<not> boolean_field (name @ ''_truncated'') v \<or> \<not> list_all entry_ok entries then None
       else Some [(name, JArr entries), (name @ ''_truncated'', the (field (name @ ''_truncated'') v))]
   | _ \<Rightarrow> None)"

definition causalEvidence :: "(string \<Rightarrow> bool) \<Rightarrow> json \<Rightarrow> (string \<times> json) list option" where
  "causalEvidence is_date v =
     (case (if optional_field ''event_order'' event_order_ok v then Some (copy_field v ''event_order'') else None,
            causal_list ''publication_attempts'' (publication_ok is_date) v, causal_list ''receipts'' (receipt_ok is_date) v) of
        (Some order, Some publications, Some receipts) \<Rightarrow> Some (order @ publications @ receipts)
      | _ \<Rightarrow> None)"

section \<open>Delivery events\<close>

abbreviation copies :: "json \<Rightarrow> string list \<Rightarrow> (string \<times> json) list" where
  "copies v ks \<equiv> concat (map (copy_field v) ks)"

definition eventStates :: "string list" where
  "eventStates = [''pending'', ''retrying'', ''published'', ''dead'', ''unknown'']"

definition attemptKinds :: "string list" where
  "attemptKinds = [''webhook'', ''notification'', ''unknown'']"

definition attemptStates :: "string list" where
  "attemptStates = [''pending'', ''retrying'', ''delivered'', ''dead'', ''unknown'']"

definition responseClasses :: "string list" where
  "responseClasses = [''2xx'', ''3xx'', ''4xx'', ''5xx'', ''network_error'', ''timeout'', ''redacted'']"

definition eventErrorCodes :: "string list" where
  "eventErrorCodes = [''publish_failed'', ''invalid_event'', ''redis_unavailable'', ''approved_replay'', ''redacted'']"

definition attemptErrorCodes :: "string list" where
  "attemptErrorCodes = [''timeout'', ''publish_failed'', ''invalid_event'', ''redis_unavailable'', ''recipient_unavailable'', ''connection_failed'', ''redacted'']"

definition timelineKinds :: "string list" where
  "timelineKinds = [''committed'', ''available'', ''claim_lease_expires'', ''published'', ''dead'', ''delivery_started'', ''delivery_pending'',
     ''delivery_retrying'', ''delivery_delivered'', ''delivery_dead'', ''delivery_unknown'']"

definition event_optionals :: "string list" where
  "event_optionals = [''transfer_id'', ''account_id'', ''correlation_id'', ''claimed_until'', ''published_at'', ''dead_at'', ''last_error_code'']"

definition event_keys :: "string list" where
  "event_keys = [''event_id'', ''event_type'', ''state'', ''aggregate_type'', ''aggregate_id'', ''aggregate_version'', ''attempt_count'',
     ''occurred_at'', ''available_at''] @ event_optionals"

definition event_ok :: "(string \<Rightarrow> bool) \<Rightarrow> json \<Rightarrow> bool" where
  "event_ok is_date v =
     (string_field ''event_id'' safeUUID v \<and> string_field ''event_type'' (safeIdentifier 128) v
      \<and> string_field ''state'' (one_of_strings eventStates) v \<and> string_field ''aggregate_type'' (safeIdentifier 64) v
      \<and> string_field ''aggregate_id'' safeUUID v \<and> string_field ''occurred_at'' (timestamp is_date) v
      \<and> string_field ''available_at'' (timestamp is_date) v \<and> optional_string ''transfer_id'' safeUUID v
      \<and> optional_string ''account_id'' safeUUID v \<and> optional_string ''correlation_id'' (safeIdentifier 128) v
      \<and> optional_string ''claimed_until'' (timestamp is_date) v \<and> optional_string ''published_at'' (timestamp is_date) v
      \<and> optional_string ''dead_at'' (timestamp is_date) v \<and> optional_string ''last_error_code'' (one_of_strings eventErrorCodes) v)"

definition event :: "(string \<Rightarrow> bool) \<Rightarrow> json \<Rightarrow> json option" where
  "event is_date v =
     (case (operations_count (field ''aggregate_version'' v), operations_count (field ''attempt_count'' v)) of
        (Some version, Some attempts) \<Rightarrow>
          if keysAllowed v event_keys \<and> event_ok is_date v
          then Some (JObj (copies v [''event_id'', ''event_type'', ''state'', ''aggregate_type'', ''aggregate_id'']
            @ [(''aggregate_version'', JStr version), (''attempt_count'', JStr attempts)]
            @ copies v ([''occurred_at'', ''available_at''] @ event_optionals)))
          else None
      | _ \<Rightarrow> None)"

definition attempt_ok :: "(string \<Rightarrow> bool) \<Rightarrow> json \<Rightarrow> bool" where
  "attempt_ok is_date v =
     (string_field ''attempt_id'' safeUUID v \<and> string_field ''state'' (one_of_strings attemptStates) v
      \<and> string_field ''due_at'' (timestamp is_date) v \<and> optional_string ''started_at'' (timestamp is_date) v
      \<and> optional_string ''completed_at'' (timestamp is_date) v \<and> optional_string ''response_class'' (one_of_strings responseClasses) v
      \<and> optional_string ''error_code'' (one_of_strings attemptErrorCodes) v)"

definition attempt :: "(string \<Rightarrow> bool) \<Rightarrow> url_parser \<Rightarrow> json \<Rightarrow> json option" where
  "attempt is_date new_URL v =
     (case operations_count (field ''attempt_number'' v) of
        None \<Rightarrow> None
      | Some number \<Rightarrow>
          if keysAllowed v [''attempt_id'', ''kind'', ''state'', ''attempt_number'', ''due_at'', ''started_at'', ''completed_at'', ''response_class'',
               ''error_code'', ''endpoint_id'', ''endpoint_label'', ''endpoint_origin'']
             \<and> string_field ''kind'' (one_of_strings attemptKinds) v \<and> attempt_ok is_date v
             \<and> optional_string ''endpoint_id'' safeUUID v \<and> optional_string ''endpoint_label'' (bounded 100 False) v
             \<and> optional_string ''endpoint_origin'' (endpointOrigin new_URL) v
             \<and> (field ''endpoint_id'' v = None \<longrightarrow> field ''endpoint_label'' v = None \<and> field ''endpoint_origin'' v = None)
             \<and> (field ''endpoint_id'' v \<noteq> None \<longrightarrow> field ''endpoint_label'' v \<noteq> None \<and> field ''endpoint_origin'' v \<noteq> None)
          then Some (JObj (copies v [''attempt_id'', ''kind'', ''state''] @ [(''attempt_number'', JStr number)]
            @ copies v [''due_at'', ''started_at'', ''completed_at'', ''response_class'', ''error_code'', ''endpoint_id'', ''endpoint_label'', ''endpoint_origin'']))
          else None)"

definition timelineItem :: "(string \<Rightarrow> bool) \<Rightarrow> json \<Rightarrow> json option" where
  "timelineItem is_date v =
     (if keysAllowed v [''kind'', ''occurred_at''] \<and> string_field ''kind'' (one_of_strings timelineKinds) v
         \<and> string_field ''occurred_at'' (timestamp is_date) v
      then Some (copy_fields v [''kind'', ''occurred_at'']) else None)"

section \<open>Webhook endpoints\<close>

definition webhookEndpointStatuses :: "string list" where
  "webhookEndpointStatuses = [''pending_verification'', ''active'', ''disabled'', ''unknown'']"

definition webhookDeliveryStates :: "string list" where
  "webhookDeliveryStates = [''none'', ''pending'', ''retrying'', ''delivered'', ''dead'', ''unknown'']"

definition webhook_keys :: "string list" where
  "webhook_keys = [''endpoint_id'', ''label'', ''origin'', ''status'', ''subscribed_events'', ''recent_delivery_state'', ''recent_attempt_count'',
     ''recent_dead_count'', ''verified_at'', ''disabled_at'', ''latest_delivery_at'', ''updated_at'']"

definition subscribed_ok :: "json option \<Rightarrow> bool" where
  "subscribed_ok v = (case v of
     Some (JArr vs) \<Rightarrow> 1 \<le> length vs \<and> length vs \<le> 32 \<and> list_all (\<lambda>x. case x of JStr s \<Rightarrow> safeIdentifier 128 s | _ \<Rightarrow> False) vs
   | _ \<Rightarrow> False)"

definition webhookEndpoint :: "(string \<Rightarrow> bool) \<Rightarrow> url_parser \<Rightarrow> json \<Rightarrow> json option" where
  "webhookEndpoint is_date new_URL v =
     (case (operations_count (field ''recent_attempt_count'' v), operations_count (field ''recent_dead_count'' v)) of
        (Some recentAttempts, Some recentDead) \<Rightarrow>
          if keysAllowed v webhook_keys
             \<and> string_field ''endpoint_id'' safeUUID v \<and> string_field ''label'' (bounded 100 False) v
             \<and> string_field ''origin'' (endpointOrigin new_URL) v \<and> string_field ''status'' (one_of_strings webhookEndpointStatuses) v
             \<and> subscribed_ok (field ''subscribed_events'' v) \<and> string_field ''recent_delivery_state'' (one_of_strings webhookDeliveryStates) v
             \<and> digits_value recentDead \<le> digits_value recentAttempts
             \<and> optional_string ''verified_at'' (timestamp is_date) v \<and> optional_string ''disabled_at'' (timestamp is_date) v
             \<and> optional_string ''latest_delivery_at'' (timestamp is_date) v \<and> string_field ''updated_at'' (timestamp is_date) v
             \<and> (field ''status'' v = Some (JStr ''active'') \<longrightarrow> field ''verified_at'' v \<noteq> None)
             \<and> (field ''status'' v = Some (JStr ''disabled'') \<longrightarrow> field ''disabled_at'' v \<noteq> None)
          then Some (JObj (copies v [''endpoint_id'', ''label'', ''origin'', ''status'', ''subscribed_events'', ''recent_delivery_state'']
            @ [(''recent_attempt_count'', JStr recentAttempts), (''recent_dead_count'', JStr recentDead)]
            @ copies v [''verified_at'', ''disabled_at'', ''latest_delivery_at'', ''updated_at'']))
          else None
      | _ \<Rightarrow> None)"

definition webhookDeliveryAttempt :: "(string \<Rightarrow> bool) \<Rightarrow> json \<Rightarrow> json option" where
  "webhookDeliveryAttempt is_date v =
     (case operations_count (field ''attempt_number'' v) of
        None \<Rightarrow> None
      | Some number \<Rightarrow>
          if keysAllowed v [''attempt_id'', ''event_id'', ''transfer_id'', ''state'', ''attempt_number'', ''response_class'', ''error_code'', ''due_at'',
               ''started_at'', ''completed_at'']
             \<and> attempt_ok is_date v \<and> optional_string ''event_id'' safeUUID v \<and> string_field ''transfer_id'' safeUUID v
          then Some (JObj (copies v [''attempt_id'', ''event_id'', ''transfer_id'', ''state''] @ [(''attempt_number'', JStr number)]
            @ copies v [''response_class'', ''error_code'', ''due_at'', ''started_at'', ''completed_at'']))
          else None)"

section \<open>Diagnostics\<close>

definition operationalStates :: "string list" where "operationalStates = [''ready'', ''degraded'', ''unavailable'']"
definition dependencyStates :: "string list" where "dependencyStates = [''reachable'', ''unavailable'']"
definition reconciliationStates :: "string list" where "reconciliationStates = [''available'', ''none'', ''unavailable'']"
definition reconciliationStatuses :: "string list" where "reconciliationStatuses = [''matched'', ''mismatch'', ''failed'']"
definition workerStates :: "string list" where "workerStates = [''recent'', ''idle'', ''stalled'', ''unknown'']"

text \<open>The records of a diagnostics value, once each is an object.\<close>

record diagnostics_parts =
  application :: json
  postgres :: json
  reconciliation :: json
  outbox :: json
  redis :: json

definition record_field :: "string \<Rightarrow> json \<Rightarrow> json option" where
  "record_field k v = (case field k v of Some x \<Rightarrow> if isRecord x then Some x else None | None \<Rightarrow> None)"

definition diagnostics_records :: "json \<Rightarrow> diagnostics_parts option" where
  "diagnostics_records v = (case (record_field ''application'' v, record_field ''financial_authority'' v, record_field ''delivery_cache'' v) of
     (Some app, Some financial, Some delivery) \<Rightarrow>
       if keysAllowed financial [''postgres'', ''latest_reconciliation''] \<and> keysAllowed delivery [''outbox'', ''redis'']
       then (case (record_field ''postgres'' financial, record_field ''latest_reconciliation'' financial,
                   record_field ''outbox'' delivery, record_field ''redis'' delivery) of
               (Some p, Some r, Some b, Some d) \<Rightarrow> Some \<lparr>application = app, postgres = p, reconciliation = r, outbox = b, redis = d\<rparr>
             | _ \<Rightarrow> None)
       else None
   | _ \<Rightarrow> None)"

definition state_is :: "json \<Rightarrow> string \<Rightarrow> bool" where
  "state_is v s = (field ''state'' v = Some (JStr s))"

definition application_ok :: "json \<Rightarrow> bool" where
  "application_ok app = (keysAllowed app [''version'', ''commit'', ''environment''] \<and> string_field ''version'' (bounded 128 False) app
     \<and> string_field ''commit'' (bounded 128 False) app \<and> string_field ''environment'' (bounded 64 False) app)"

definition postgres_ok :: "json \<Rightarrow> bool" where
  "postgres_ok p = (keysAllowed p [''state'', ''schema_version''] \<and> string_field ''state'' (one_of_strings dependencyStates) p
     \<and> optional_string ''schema_version'' (bounded 128 False) p \<and> (state_is p ''reachable'' \<longrightarrow> field ''schema_version'' p \<noteq> None))"

definition reconciliation_ok :: "(string \<Rightarrow> bool) \<Rightarrow> json \<Rightarrow> bool" where
  "reconciliation_ok is_date r =
     (keysAllowed r [''state'', ''status'', ''run_id'', ''completed_at''] \<and> string_field ''state'' (one_of_strings reconciliationStates) r
      \<and> optional_string ''status'' (one_of_strings reconciliationStatuses) r \<and> optional_string ''run_id'' safeUUID r
      \<and> optional_string ''completed_at'' (timestamp is_date) r
      \<and> (state_is r ''available'' \<longrightarrow> field ''status'' r \<noteq> None \<and> field ''run_id'' r \<noteq> None \<and> field ''completed_at'' r \<noteq> None)
      \<and> (\<not> state_is r ''available'' \<longrightarrow> field ''status'' r = None \<and> field ''run_id'' r = None \<and> field ''completed_at'' r = None))"

definition counted :: "string \<Rightarrow> json \<Rightarrow> string option" where
  "counted k v = (case field k v of None \<Rightarrow> None | Some x \<Rightarrow> operations_count (Some x))"

definition outbox_ok :: "(string \<Rightarrow> bool) \<Rightarrow> json \<Rightarrow> bool" where
  "outbox_ok is_date b =
     (keysAllowed b [''state'', ''pending_count'', ''dead_count'', ''worker_progress'', ''latest_published_at'', ''oldest_pending_at'', ''sampled_at'']
      \<and> optional_string ''sampled_at'' (timestamp is_date) b \<and> string_field ''state'' (one_of_strings dependencyStates) b
      \<and> (state_is b ''reachable'' \<longrightarrow> counted ''pending_count'' b \<noteq> None \<and> counted ''dead_count'' b \<noteq> None)
      \<and> (state_is b ''unavailable'' \<longrightarrow> (field ''pending_count'' b \<noteq> None \<longrightarrow> counted ''pending_count'' b \<noteq> None)
           \<and> (field ''dead_count'' b \<noteq> None \<longrightarrow> counted ''dead_count'' b \<noteq> None))
      \<and> string_field ''worker_progress'' (one_of_strings workerStates) b \<and> optional_string ''latest_published_at'' (timestamp is_date) b
      \<and> optional_string ''oldest_pending_at'' (timestamp is_date) b)"

definition redis_ok :: "(string \<Rightarrow> bool) \<Rightarrow> json \<Rightarrow> bool" where
  "redis_ok is_date d = (keysAllowed d [''state'', ''label'', ''sampled_at''] \<and> optional_string ''sampled_at'' (timestamp is_date) d
     \<and> string_field ''state'' (one_of_strings dependencyStates) d \<and> field ''label'' d = Some (JStr ''disposable_cache''))"

definition readyContradiction :: "json \<Rightarrow> diagnostics_parts \<Rightarrow> bool" where
  "readyContradiction v parts =
     (field ''overall_state'' v = Some (JStr ''ready'')
      \<and> (\<not> state_is (postgres parts) ''reachable'' \<or> \<not> state_is (reconciliation parts) ''available'' \<or> \<not> state_is (outbox parts) ''reachable''
         \<or> \<not> state_is (redis parts) ''reachable'' \<or> counted ''dead_count'' (outbox parts) \<noteq> Some ''0''
         \<or> field ''worker_progress'' (outbox parts) = Some (JStr ''stalled'')
         \<or> field ''status'' (reconciliation parts) = Some (JStr ''mismatch'') \<or> field ''status'' (reconciliation parts) = Some (JStr ''failed'')))"

definition databaseAvailabilityContradiction :: "json \<Rightarrow> diagnostics_parts \<Rightarrow> bool" where
  "databaseAvailabilityContradiction v parts =
     ((state_is (postgres parts) ''unavailable'' \<and> field ''overall_state'' v \<noteq> Some (JStr ''unavailable''))
      \<or> (state_is (postgres parts) ''reachable'' \<and> field ''overall_state'' v = Some (JStr ''unavailable'')))"

definition counted_member :: "string \<Rightarrow> json \<Rightarrow> (string \<times> json) list" where
  "counted_member k v = (case counted k v of None \<Rightarrow> [] | Some s \<Rightarrow> [(k, JStr s)])"

definition diagnostics_body :: "string option \<Rightarrow> json \<Rightarrow> diagnostics_parts \<Rightarrow> json" where
  "diagnostics_body publicOrigin v parts = JObj
     (copies v [''overall_state'', ''generated_at'']
      @ [(''application'', JObj (copies (application parts) [''version'', ''commit'', ''environment'']
           @ (case publicOrigin of Some u \<Rightarrow> if u = [] then [] else [(''public_origin'', JStr u)] | None \<Rightarrow> []))),
         (''financial_authority'', JObj
           [(''postgres'', copy_fields (postgres parts) [''state'', ''schema_version'']),
            (''latest_reconciliation'', copy_fields (reconciliation parts) [''state'', ''status'', ''run_id'', ''completed_at''])]),
         (''delivery_cache'', JObj
           [(''outbox'', JObj (copies (outbox parts) [''sampled_at'', ''state''] @ counted_member ''pending_count'' (outbox parts)
              @ counted_member ''dead_count'' (outbox parts) @ copies (outbox parts) [''worker_progress'', ''latest_published_at'', ''oldest_pending_at''])),
            (''redis'', copy_fields (redis parts) [''state'', ''label'', ''sampled_at''])])])"

definition diagnostics :: "(string \<Rightarrow> bool) \<Rightarrow> string option \<Rightarrow> json \<Rightarrow> json option" where
  "diagnostics is_date publicOrigin v =
     (case diagnostics_records v of
        None \<Rightarrow> None
      | Some parts \<Rightarrow>
          if keysAllowed v [''overall_state'', ''generated_at'', ''application'', ''financial_authority'', ''delivery_cache'']
             \<and> string_field ''overall_state'' (one_of_strings operationalStates) v \<and> string_field ''generated_at'' (timestamp is_date) v
             \<and> application_ok (application parts) \<and> postgres_ok (postgres parts) \<and> reconciliation_ok is_date (reconciliation parts)
             \<and> outbox_ok is_date (outbox parts) \<and> redis_ok is_date (redis parts)
             \<and> \<not> readyContradiction v parts \<and> \<not> databaseAvailabilityContradiction v parts
          then Some (diagnostics_body publicOrigin v parts) else None)"

section \<open>Sanitizers\<close>

definition sanitizeLocalDiagnostics :: "(string \<Rightarrow> bool) \<Rightarrow> string option \<Rightarrow> nat \<Rightarrow> json \<Rightarrow> sanitized" where
  "sanitizeLocalDiagnostics is_date publicOrigin = sanitized_by (diagnostics is_date publicOrigin)"

definition page :: "string \<Rightarrow> (json \<Rightarrow> json option) \<Rightarrow> json \<Rightarrow> json option" where
  "page name clean v =
     (if keysAllowed v [name, ''next_cursor''] \<and> string_field ''next_cursor'' (bounded 2048 True) v
      then map_option (\<lambda>items. JObj ((name, JArr items) # copies v [''next_cursor''])) (clean_list 100 clean (field name v))
      else None)"

definition sanitizeEventPage :: "(string \<Rightarrow> bool) \<Rightarrow> nat \<Rightarrow> json \<Rightarrow> sanitized" where
  "sanitizeEventPage is_date = sanitized_by (page ''events'' (event is_date))"

definition sanitizeWebhookEndpointPage :: "(string \<Rightarrow> bool) \<Rightarrow> url_parser \<Rightarrow> nat \<Rightarrow> json \<Rightarrow> sanitized" where
  "sanitizeWebhookEndpointPage is_date new_URL = sanitized_by (page ''items'' (webhookEndpoint is_date new_URL))"

definition without :: "string list \<Rightarrow> json \<Rightarrow> json" where
  "without ks v = (case v of JObj kvs \<Rightarrow> JObj (filter (\<lambda>e. \<not> List.member ks (fst e)) kvs) | _ \<Rightarrow> v)"

definition detail_keys :: "string list" where
  "detail_keys = [''delivery_attempts'', ''delivery_attempts_truncated'', ''timeline'', ''event_order'', ''publication_attempts'',
     ''publication_attempts_truncated'', ''receipts'', ''receipts_truncated'', ''diagnostic_trace_id'']"

definition trace_id :: "string \<Rightarrow> bool" where
  "trace_id s = (rx_test (RRep (RSet is_hex_lower) 32 32) s \<and> s \<noteq> replicate 32 CHR ''0'')"

fun members :: "json \<Rightarrow> (string \<times> json) list" where
  "members (JObj kvs) = kvs"
| "members _ = []"

definition event_detail :: "(string \<Rightarrow> bool) \<Rightarrow> url_parser \<Rightarrow> json \<Rightarrow> json option" where
  "event_detail is_date new_URL v =
     (if \<not> keysAllowed v (event_keys @ detail_keys) \<or> \<not> optional_string ''diagnostic_trace_id'' trace_id v
         \<or> \<not> boolean_field ''delivery_attempts_truncated'' v
      then None
      else case (causalEvidence is_date v, event is_date (without detail_keys v),
                 clean_list 25 (attempt is_date new_URL) (field ''delivery_attempts'' v), clean_list 32 (timelineItem is_date) (field ''timeline'' v)) of
        (Some causal, Some base, Some attempts, Some items) \<Rightarrow>
          Some (JObj (members base @ causal @ copies v [''diagnostic_trace_id''] @ [(''delivery_attempts'', JArr attempts)]
            @ copies v [''delivery_attempts_truncated''] @ [(''timeline'', JArr items)]))
      | _ \<Rightarrow> None)"

definition sanitizeEventDetail :: "(string \<Rightarrow> bool) \<Rightarrow> url_parser \<Rightarrow> nat \<Rightarrow> json \<Rightarrow> sanitized" where
  "sanitizeEventDetail is_date new_URL = sanitized_by (event_detail is_date new_URL)"

definition endpoint_detail :: "(string \<Rightarrow> bool) \<Rightarrow> url_parser \<Rightarrow> json \<Rightarrow> json option" where
  "endpoint_detail is_date new_URL v =
     (if \<not> keysAllowed v (webhook_keys @ [''delivery_attempts'', ''delivery_attempts_truncated'']) \<or> \<not> boolean_field ''delivery_attempts_truncated'' v
      then None
      else case (webhookEndpoint is_date new_URL (without [''delivery_attempts'', ''delivery_attempts_truncated''] v),
                 clean_list 25 (webhookDeliveryAttempt is_date) (field ''delivery_attempts'' v)) of
        (Some base, Some attempts) \<Rightarrow>
          Some (JObj (members base @ [(''delivery_attempts'', JArr attempts)] @ copies v [''delivery_attempts_truncated'']))
      | _ \<Rightarrow> None)"

definition sanitizeWebhookEndpointDetail :: "(string \<Rightarrow> bool) \<Rightarrow> url_parser \<Rightarrow> nat \<Rightarrow> json \<Rightarrow> sanitized" where
  "sanitizeWebhookEndpointDetail is_date new_URL = sanitized_by (endpoint_detail is_date new_URL)"

definition maximumUpstreamBytes :: nat where "maximumUpstreamBytes = 262144"

definition sanitizeOperationsBody :: "nat \<Rightarrow> string \<Rightarrow> (nat \<Rightarrow> json \<Rightarrow> sanitized) \<Rightarrow> sanitized" where
  "sanitizeOperationsBody st raw sanitizer =
     (if maximumUpstreamBytes < byte_length raw then evidence_unavailable
      else case JSON_parse raw of None \<Rightarrow> evidence_unavailable | Some v \<Rightarrow> sanitizer st v)"

section \<open>Lemmas\<close>

text \<open>A count that is shown is shown the same when it is read again.\<close>

lemma canonicalCount_test: "rx_test canonicalCount s \<longleftrightarrow> canonical_nat s"
  by (auto simp: canonicalCount_def positiveInteger_test canonical_nat_def all_digits_def char_class_defs neq_Nil_conv)

lemma count_fixed: "operations_count v = Some s \<Longrightarrow> operations_count (Some (JStr s)) = Some s"
proof -
  assume a: "operations_count v = Some s"
  have "length (nat_string (nat i)) \<le> 20" if "safe_integer i" for i
    using that by (intro nat_string_length) (auto simp: safe_integer_def)
  then show ?thesis
    using a by (auto simp: operations_count_def canonicalCount_test split: option.splits json.splits jsnum.splits if_splits)
qed

text \<open>An object rebuilt from tested properties \<open>A\<close>, new ones \<open>N\<close> and tested ones \<open>B\<close> has the same tested
  properties, and rebuilding it again changes nothing.\<close>

definition rebuilt :: "json \<Rightarrow> string list \<Rightarrow> (string \<times> json) list \<Rightarrow> string list \<Rightarrow> json" where
  "rebuilt v A N B = JObj (copies v A @ N @ copies v B)"

lemma rebuilt_field:
  "k \<notin> fst ` set N \<Longrightarrow> k \<in> set A \<or> k \<in> set B \<Longrightarrow> field k (rebuilt v A N B) = field k v"
  "k \<notin> set A \<Longrightarrow> map_of N k = Some x \<Longrightarrow> field k (rebuilt v A N B) = Some x"
  by (auto simp: rebuilt_def map_add_def map_of_copied map_of_eq_None_iff [THEN iffD2] split: option.splits)

lemma rebuilt_again:
  assumes "fst ` set N \<inter> (set A \<union> set B) = {}"
  shows "rebuilt (rebuilt v A N B) A N B = rebuilt v A N B"
proof -
  have "copies (rebuilt v A N B) ks = copies v ks" if "set ks \<subseteq> set A \<union> set B" for ks
  proof -
    have "copy_field (rebuilt v A N B) k = copy_field v k" if "k \<in> set ks" for k
    proof -
      have "k \<notin> fst ` set N" "k \<in> set A \<or> k \<in> set B" using that \<open>set ks \<subseteq> _\<close> assms by blast+
      then show ?thesis by (simp add: copy_field_def rebuilt_field(1))
    qed
    then show ?thesis by (metis (mono_tags, lifting) map_eq_conv)
  qed
  then show ?thesis by (simp add: rebuilt_def)
qed

lemma rebuilt_record [simp]: "isRecord (rebuilt v A N B)"
  by (simp add: rebuilt_def)

lemma rebuilt_keys: "keysAllowed (rebuilt v A N B) ks \<longleftrightarrow>
    (\<forall>k. (k \<in> set A \<union> set B \<and> field k v \<noteq> None) \<or> k \<in> fst ` set N \<longrightarrow> k \<in> set ks)"
proof -
  have "fst ` set (copy_field v k) = (if field k v = None then {} else {k})" for k
    by (cases "field k v") (simp_all add: copy_field_def)
  then have "fst ` set (copies v A) = {k \<in> set A. field k v \<noteq> None}" for A
    by (simp add: image_UN) auto
  then have "set (object_keys (rebuilt v A N B)) = {k \<in> set A \<union> set B. field k v \<noteq> None} \<union> fst ` set N"
    by (simp add: rebuilt_def image_Un) auto
  then show ?thesis by (simp add: keysAllowed_def only_keys_def list_ex_iff rebuilt_record) blast
qed

text \<open>The cleaning functions of this file have one form: no other keys than \<open>ks\<close>, a test \<open>Q\<close>, and a copy in
  which the counts \<open>K\<close> are texts.\<close>

definition shown_count :: "json \<Rightarrow> string \<Rightarrow> string \<times> json" where
  "shown_count v k = (k, JStr (the (operations_count (field k v))))"

definition cleaned :: "string list \<Rightarrow> string list \<Rightarrow> string list \<Rightarrow> string list \<Rightarrow> (json \<Rightarrow> bool) \<Rightarrow> json \<Rightarrow> json option" where
  "cleaned ks A K B Q v =
     (if list_all (\<lambda>k. operations_count (field k v) \<noteq> None) K \<and> keysAllowed v ks \<and> Q v
      then Some (rebuilt v A (map (shown_count v) K) B) else None)"

text \<open>A test that looks only at the tested properties and at the counts.\<close>

definition looks_at :: "string list \<Rightarrow> string list \<Rightarrow> (json \<Rightarrow> bool) \<Rightarrow> bool" where
  "looks_at F K Q = (\<forall>v w. Q v \<and> (\<forall>k\<in>set F. field k w = field k v) \<and> (\<forall>k\<in>set K. operations_count (field k w) = operations_count (field k v)) \<longrightarrow> Q w)"

lemma cleaned_fixed:
  assumes "set K \<inter> (set A \<union> set B) = {}" "set A \<union> set B \<union> set K \<subseteq> set ks" "looks_at (A @ B) K Q" "cleaned ks A K B Q v = Some w"
  shows "cleaned ks A K B Q w = Some w"
proof -
  let ?N = "map (shown_count v) K"
  have c: "list_all (\<lambda>k. operations_count (field k v) \<noteq> None) K" "Q v" "w = rebuilt v A ?N B"
    using assms(4) by (auto simp: cleaned_def split: if_splits)
  have names: "fst ` set ?N = set K" by (auto simp: shown_count_def image_comp)
  have same: "field k w = field k v" if "k \<in> set A \<union> set B" for k
    using that assms(1) names unfolding c(3) by (intro rebuilt_field) auto
  have counts: "operations_count (field k w) = operations_count (field k v)" if k: "k \<in> set K" for k
  proof -
    obtain n where n: "operations_count (field k v) = Some n" using c(1) k by (auto simp: list_all_iff)
    have "map_of ?N k = Some (JStr n)"
      using k n by (induction K) (auto simp: shown_count_def)
    then have "field k w = Some (JStr n)" unfolding c(3) using k assms(1) by (intro rebuilt_field) auto
    then show ?thesis using n count_fixed by simp
  qed
  have n: "map (shown_count w) K = ?N" using counts by (simp add: shown_count_def)
  have again: "rebuilt w A ?N B = w" unfolding c(3) using assms(1) names by (intro rebuilt_again) blast
  have "keysAllowed w ks" unfolding c(3) rebuilt_keys names using assms(2) by blast
  moreover have "Q w" using assms(3) c(2) same counts unfolding looks_at_def by (metis Un_iff set_append)
  moreover have "list_all (\<lambda>k. operations_count (field k w) \<noteq> None) K" using c(1) counts by (simp add: list_all_iff)
  ultimately show ?thesis unfolding cleaned_def n again by simp
qed

lemmas field_tests = looks_at_def string_field_def optional_string_def attempt_ok_def subscribed_ok_def

lemma event_cleaned: "event is_date = cleaned event_keys [''event_id'', ''event_type'', ''state'', ''aggregate_type'', ''aggregate_id'']
    [''aggregate_version'', ''attempt_count''] ([''occurred_at'', ''available_at''] @ event_optionals) (event_ok is_date)"
  by (rule ext) (auto simp: event_def cleaned_def rebuilt_def shown_count_def split: option.splits)

lemma event_fixed: "event is_date v = Some w \<Longrightarrow> event is_date w = Some w"
  unfolding event_cleaned
  by (erule cleaned_fixed [rotated 3]) (auto simp: event_keys_def event_optionals_def event_ok_def field_tests)

lemma attempt_cleaned: "attempt is_date new_URL = cleaned
    [''attempt_id'', ''kind'', ''state'', ''attempt_number'', ''due_at'', ''started_at'', ''completed_at'', ''response_class'',
     ''error_code'', ''endpoint_id'', ''endpoint_label'', ''endpoint_origin'']
    [''attempt_id'', ''kind'', ''state''] [''attempt_number'']
    [''due_at'', ''started_at'', ''completed_at'', ''response_class'', ''error_code'', ''endpoint_id'', ''endpoint_label'', ''endpoint_origin'']
    (\<lambda>v. string_field ''kind'' (one_of_strings attemptKinds) v \<and> attempt_ok is_date v
       \<and> optional_string ''endpoint_id'' safeUUID v \<and> optional_string ''endpoint_label'' (bounded 100 False) v
       \<and> optional_string ''endpoint_origin'' (endpointOrigin new_URL) v
       \<and> (field ''endpoint_id'' v = None \<longrightarrow> field ''endpoint_label'' v = None \<and> field ''endpoint_origin'' v = None)
       \<and> (field ''endpoint_id'' v \<noteq> None \<longrightarrow> field ''endpoint_label'' v \<noteq> None \<and> field ''endpoint_origin'' v \<noteq> None))"
  by (rule ext) (auto simp: attempt_def cleaned_def rebuilt_def shown_count_def split: option.split)

lemma attempt_fixed: "attempt is_date new_URL v = Some w \<Longrightarrow> attempt is_date new_URL w = Some w"
  unfolding attempt_cleaned by (erule cleaned_fixed [rotated 3]) (simp_all add: field_tests)

lemma webhookDeliveryAttempt_cleaned: "webhookDeliveryAttempt is_date = cleaned
    [''attempt_id'', ''event_id'', ''transfer_id'', ''state'', ''attempt_number'', ''response_class'', ''error_code'', ''due_at'', ''started_at'', ''completed_at'']
    [''attempt_id'', ''event_id'', ''transfer_id'', ''state''] [''attempt_number'']
    [''response_class'', ''error_code'', ''due_at'', ''started_at'', ''completed_at'']
    (\<lambda>v. attempt_ok is_date v \<and> optional_string ''event_id'' safeUUID v \<and> string_field ''transfer_id'' safeUUID v)"
  by (rule ext) (simp add: webhookDeliveryAttempt_def cleaned_def rebuilt_def shown_count_def split: option.split)

lemma webhookDeliveryAttempt_fixed: "webhookDeliveryAttempt is_date v = Some w \<Longrightarrow> webhookDeliveryAttempt is_date w = Some w"
  unfolding webhookDeliveryAttempt_cleaned by (erule cleaned_fixed [rotated 3]) (simp_all add: field_tests)

lemma webhookEndpoint_cleaned: "webhookEndpoint is_date new_URL = cleaned webhook_keys
    [''endpoint_id'', ''label'', ''origin'', ''status'', ''subscribed_events'', ''recent_delivery_state''] [''recent_attempt_count'', ''recent_dead_count'']
    [''verified_at'', ''disabled_at'', ''latest_delivery_at'', ''updated_at'']
    (\<lambda>v. string_field ''endpoint_id'' safeUUID v \<and> string_field ''label'' (bounded 100 False) v
       \<and> string_field ''origin'' (endpointOrigin new_URL) v \<and> string_field ''status'' (one_of_strings webhookEndpointStatuses) v
       \<and> subscribed_ok (field ''subscribed_events'' v) \<and> string_field ''recent_delivery_state'' (one_of_strings webhookDeliveryStates) v
       \<and> digits_value (the (operations_count (field ''recent_dead_count'' v))) \<le> digits_value (the (operations_count (field ''recent_attempt_count'' v)))
       \<and> optional_string ''verified_at'' (timestamp is_date) v \<and> optional_string ''disabled_at'' (timestamp is_date) v
       \<and> optional_string ''latest_delivery_at'' (timestamp is_date) v \<and> string_field ''updated_at'' (timestamp is_date) v
       \<and> (field ''status'' v = Some (JStr ''active'') \<longrightarrow> field ''verified_at'' v \<noteq> None)
       \<and> (field ''status'' v = Some (JStr ''disabled'') \<longrightarrow> field ''disabled_at'' v \<noteq> None))"
  by (rule ext) (simp add: webhookEndpoint_def cleaned_def rebuilt_def shown_count_def split: option.split)

lemma webhookEndpoint_fixed: "webhookEndpoint is_date new_URL v = Some w \<Longrightarrow> webhookEndpoint is_date new_URL w = Some w"
  unfolding webhookEndpoint_cleaned by (erule cleaned_fixed [rotated 3]) (simp_all add: field_tests webhook_keys_def)

lemma timelineItem_cleaned: "timelineItem is_date = cleaned [''kind'', ''occurred_at''] [''kind'', ''occurred_at''] [] []
    (\<lambda>v. string_field ''kind'' (one_of_strings timelineKinds) v \<and> string_field ''occurred_at'' (timestamp is_date) v)"
  by (rule ext) (simp add: timelineItem_def cleaned_def rebuilt_def copy_fields_def)

lemma timelineItem_fixed: "timelineItem is_date v = Some w \<Longrightarrow> timelineItem is_date w = Some w"
  unfolding timelineItem_cleaned by (erule cleaned_fixed [rotated 3]) (simp_all add: field_tests)

text \<open>A list and a page of values that are their own clean form is its own clean form.\<close>

context canonicalizer
begin

lemma canon_list: "list_all2 (\<lambda>x y. canon x = Some y) xs ys \<Longrightarrow> list_all2 (\<lambda>x y. canon x = Some y) ys ys"
  by (induction xs ys rule: list_all2_induct) (auto intro: canon_fixed)

end

interpretation delivery_event: canonicalizer "event is_date" for is_date
  by unfold_locales (rule event_fixed)

interpretation delivery_attempt: canonicalizer "attempt is_date new_URL" for is_date new_URL
  by unfold_locales (rule attempt_fixed)

interpretation webhook_endpoint: canonicalizer "webhookEndpoint is_date new_URL" for is_date new_URL
  by unfold_locales (rule webhookEndpoint_fixed)

interpretation webhook_attempt: canonicalizer "webhookDeliveryAttempt is_date" for is_date
  by unfold_locales (rule webhookDeliveryAttempt_fixed)

interpretation timeline_item: canonicalizer "timelineItem is_date" for is_date
  by unfold_locales (rule timelineItem_fixed)

lemma all_clean_iff: "all_clean clean vs = Some ws \<longleftrightarrow> list_all2 (\<lambda>v w. clean v = Some w) vs ws"
proof (induction vs arbitrary: ws)
  case (Cons v vs)
  then show ?case by (cases ws; cases "clean v"; cases "all_clean clean vs") force+
qed auto

lemma clean_list_length: "clean_list n clean v = Some ws \<Longrightarrow> length ws \<le> n"
  by (auto simp: clean_list_def all_clean_iff dest: list_all2_lengthD split: option.splits json.splits if_splits)

lemma page_fixed:
  assumes "name \<noteq> ''next_cursor''" "\<And>v w. list_all2 (\<lambda>v w. clean v = Some w) v w \<Longrightarrow> list_all2 (\<lambda>v w. clean v = Some w) w w"
    and "page name clean v = Some b"
  shows "page name clean b = Some b"
proof -
  obtain items where i: "clean_list 100 clean (field name v) = Some items" "string_field ''next_cursor'' (bounded 2048 True) v"
      "b = rebuilt v [] [(name, JArr items)] [''next_cursor'']"
    using assms(3) by (auto simp: page_def rebuilt_def split: if_splits)
  have f: "field name b = Some (JArr items)" "field ''next_cursor'' b = field ''next_cursor'' v"
    unfolding i(3) using assms(1) by (auto intro!: rebuilt_field)
  have "all_clean clean items = Some items"
    using i(1) assms(2) by (auto simp: clean_list_def all_clean_iff split: option.splits json.splits if_splits)
  then have "clean_list 100 clean (field name b) = Some items" using clean_list_length [OF i(1)] by (simp add: clean_list_def f)
  moreover have "keysAllowed b [name, ''next_cursor'']" unfolding i(3) rebuilt_keys by auto
  moreover have "string_field ''next_cursor'' (bounded 2048 True) b" using i(2) by (simp add: string_field_def f)
  moreover have "rebuilt b [] [(name, JArr items)] [''next_cursor''] = b" unfolding i(3) using assms(1) by (intro rebuilt_again) auto
  ultimately show ?thesis by (simp add: page_def rebuilt_def)
qed

lemma errors_are_errors: "400 \<le> san_status (operations_sanitizeError st v)"
  by (simp add: operations_sanitizeError_def evidence_unavailable_def error_outcome_def Let_def)

lemma sanitized_by_success:
  "san_status (sanitized_by clean st v) = 200 \<longleftrightarrow> successful st \<and> (\<exists>b. clean v = Some b \<and> sanitized_by clean st v = \<lparr>san_status = 200, san_body = b\<rparr>)"
  using errors_are_errors [of st v]
  by (auto simp: sanitized_by_def evidence_unavailable_def error_outcome_def split: option.splits)

lemma sanitized_by_upstream_success: "successful st \<Longrightarrow> san_status (sanitized_by clean st v) \<in> {200, 503}"
  by (auto simp: sanitized_by_def evidence_unavailable_def error_outcome_def split: option.splits)

lemma stable_page:
  assumes "name \<noteq> ''next_cursor''" "\<And>v w. list_all2 (\<lambda>v w. clean v = Some w) v w \<Longrightarrow> list_all2 (\<lambda>v w. clean v = Some w) w w"
    and "san_status (sanitized_by (page name clean) st v) = 200"
  shows "sanitized_by (page name clean) 200 (san_body (sanitized_by (page name clean) st v)) = sanitized_by (page name clean) st v"
proof -
  obtain b where "page name clean v = Some b" "sanitized_by (page name clean) st v = \<lparr>san_status = 200, san_body = b\<rparr>"
    using assms(3) unfolding sanitized_by_success by blast
  then show ?thesis using page_fixed [OF assms(1,2)] by (simp add: sanitized_by_def)
qed

lemma map_of_copy_field: "map_of (copy_field v k') k = (if k = k' then field k v else None)"
  by (simp add: copy_field_def split: option.split)

text \<open>A value inside a value.\<close>

fun get_in :: "string list \<Rightarrow> json \<Rightarrow> json option" where
  "get_in [] v = Some v"
| "get_in (k # ks) v = Option.bind (field k v) (get_in ks)"

definition entries_in :: "string \<Rightarrow> json \<Rightarrow> json list" where
  "entries_in k v = (case field k v of Some (JArr vs) \<Rightarrow> vs | _ \<Rightarrow> [])"

lemma ready_supported:
  assumes "diagnostics is_date publicOrigin v = Some b" "get_in [''overall_state''] b = Some (JStr ''ready'')"
  shows "get_in [''financial_authority'', ''postgres'', ''state''] b = Some (JStr ''reachable'')
    \<and> get_in [''financial_authority'', ''latest_reconciliation'', ''status''] b = Some (JStr ''matched'')
    \<and> get_in [''delivery_cache'', ''outbox'', ''state''] b = Some (JStr ''reachable'')
    \<and> get_in [''delivery_cache'', ''outbox'', ''dead_count''] b = Some (JStr ''0'')
    \<and> get_in [''delivery_cache'', ''redis'', ''state''] b = Some (JStr ''reachable'')"
proof -
  obtain parts where p: "reconciliation_ok is_date (reconciliation parts)" "\<not> readyContradiction v parts" "b = diagnostics_body publicOrigin v parts"
    using assms(1) by (auto simp: diagnostics_def split: option.splits if_splits)
  have "field ''overall_state'' v = Some (JStr ''ready'')"
    using assms(2) by (auto simp: p(3) diagnostics_body_def map_add_def map_of_copied map_of_copy_field Option.bind_eq_Some_conv split: option.splits)
  then have r: "state_is (postgres parts) ''reachable''" "state_is (reconciliation parts) ''available''" "state_is (outbox parts) ''reachable''"
      "state_is (redis parts) ''reachable''" "counted ''dead_count'' (outbox parts) = Some ''0''"
      "field ''status'' (reconciliation parts) \<noteq> Some (JStr ''mismatch'')" "field ''status'' (reconciliation parts) \<noteq> Some (JStr ''failed'')"
    using p(2) by (auto simp: readyContradiction_def)
  have "field ''status'' (reconciliation parts) = Some (JStr ''matched'')"
    using p(1) r(2,6,7) by (auto simp: reconciliation_ok_def optional_string_def one_of_strings_def reconciliationStatuses_def
        dest!: string_field_present)
  moreover have "field ''financial_authority'' b = Some (JObj [(''postgres'', copy_fields (postgres parts) [''state'', ''schema_version'']),
      (''latest_reconciliation'', copy_fields (reconciliation parts) [''state'', ''status'', ''run_id'', ''completed_at''])])"
    by (simp add: p(3) diagnostics_body_def map_add_def map_of_copy_field)
  moreover have "field ''delivery_cache'' b = Some (JObj
      [(''outbox'', JObj (copies (outbox parts) [''sampled_at'', ''state''] @ counted_member ''pending_count'' (outbox parts)
          @ counted_member ''dead_count'' (outbox parts) @ copies (outbox parts) [''worker_progress'', ''latest_published_at'', ''oldest_pending_at''])),
       (''redis'', copy_fields (redis parts) [''state'', ''label'', ''sampled_at''])])"
    by (simp add: p(3) diagnostics_body_def map_add_def map_of_copy_field)
  moreover have "map_of (counted_member ''pending_count'' (outbox parts)) k = None" if "k \<noteq> ''pending_count''" for k
    using that by (simp add: counted_member_def split: option.split)
  moreover have "counted_member ''dead_count'' (outbox parts) = [(''dead_count'', JStr ''0'')]" by (simp add: counted_member_def r(5))
  ultimately show ?thesis
    using r(1,3,4) by (simp add: field_copy state_is_def map_add_def map_of_copy_field)
qed

lemma causal_list_entries:
  assumes "causal_list name entry_ok v = Some ms"
  shows "ms = [] \<or> (\<exists>vs flag. ms = [(name, JArr vs), (name @ ''_truncated'', flag)] \<and> list_all entry_ok vs)"
  using assms by (auto simp: causal_list_def split: option.splits json.splits if_splits)

lemma event_detail_causal:
  assumes "event_detail is_date new_URL v = Some b"
  shows "list_all (publication_ok is_date) (entries_in ''publication_attempts'' b) \<and> list_all (receipt_ok is_date) (entries_in ''receipts'' b)"
proof -
  obtain causal base attempts items where b: "causalEvidence is_date v = Some causal" "event is_date (without detail_keys v) = Some base"
      "b = JObj (members base @ causal @ copies v [''diagnostic_trace_id''] @ [(''delivery_attempts'', JArr attempts)]
            @ copies v [''delivery_attempts_truncated''] @ [(''timeline'', JArr items)])"
    using assms by (auto simp: event_detail_def split: option.splits if_splits)
  obtain order pubs recs where c: "causal = order @ pubs @ recs" "fst ` set order \<subseteq> {''event_order''}"
      "causal_list ''publication_attempts'' (publication_ok is_date) v = Some pubs" "causal_list ''receipts'' (receipt_ok is_date) v = Some recs"
    using b(1) by (auto simp: causalEvidence_def copy_field_def split: option.splits if_splits)
  have "map_of (members base) k = None" if "k \<in> {''publication_attempts'', ''receipts''}" for k
  proof -
    have "keysAllowed base event_keys" using event_fixed [OF b(2)] by (auto simp: event_def split: option.splits if_splits)
    then show ?thesis
      using that by (cases base) (auto simp: keysAllowed_def only_keys_def list_ex_iff event_keys_def event_optionals_def map_of_eq_None_iff)
  qed
  moreover have "map_of order k = None" if "k \<in> {''publication_attempts'', ''receipts''}" for k
    using that c(2) by (auto simp: map_of_eq_None_iff)
  ultimately have f: "field k b = map_of (pubs @ recs) k" if "k \<in> {''publication_attempts'', ''receipts''}" for k
    using that by (auto simp: b(3) c(1) map_add_def map_of_copy_field split: option.splits)
  have "list_all (publication_ok is_date) (entries_in ''publication_attempts'' b)"
    using causal_list_entries [OF c(3)] causal_list_entries [OF c(4)] by (elim disjE exE conjE) (simp_all add: entries_in_def f)
  moreover have "list_all (receipt_ok is_date) (entries_in ''receipts'' b)"
    using causal_list_entries [OF c(3)] causal_list_entries [OF c(4)] by (elim disjE exE conjE) (simp_all add: entries_in_def f)
  ultimately show ?thesis ..
qed

lemma receipt_ordered: "receipt_ok is_date e \<Longrightarrow> field ''send_counter'' e \<noteq> None \<Longrightarrow> field_value ''send_counter'' e < field_value ''receive_counter'' e"
  by (simp only: receipt_ok_def) blast

lemma publication_ordered:
  "publication_ok is_date e \<Longrightarrow> field ''send_counter'' e \<noteq> None \<Longrightarrow> field_value ''receive_counter'' e < field_value ''send_counter'' e"
  by (simp only: publication_ok_def) blast

section \<open>Properties\<close>

text \<open>Operational evidence is shown only when it does not contradict itself. A diagnostics answer that
  says the system is ready also shows a reachable database, outbox and cache, no dead deliveries and a
  matched reconciliation; the causal evidence of an event respects the logical clocks, a receipt being
  later than the sending it names and a sending later than the reception before it; and an answer that the
  private API gave as a success is shown, or refused as unavailable, but never reported as an error of the
  request.\<close>

theorem operations_evidence_consistent:
  "(san_status (sanitizeLocalDiagnostics is_date publicOrigin st v) = 200
      \<and> get_in [''overall_state''] (san_body (sanitizeLocalDiagnostics is_date publicOrigin st v)) = Some (JStr ''ready'') \<longrightarrow>
      (let b = san_body (sanitizeLocalDiagnostics is_date publicOrigin st v) in
         get_in [''financial_authority'', ''postgres'', ''state''] b = Some (JStr ''reachable'')
         \<and> get_in [''financial_authority'', ''latest_reconciliation'', ''status''] b = Some (JStr ''matched'')
         \<and> get_in [''delivery_cache'', ''outbox'', ''state''] b = Some (JStr ''reachable'')
         \<and> get_in [''delivery_cache'', ''outbox'', ''dead_count''] b = Some (JStr ''0'')
         \<and> get_in [''delivery_cache'', ''redis'', ''state''] b = Some (JStr ''reachable'')))
   \<and> (san_status (sanitizeEventDetail is_date new_URL st v) = 200 \<longrightarrow>
      (let b = san_body (sanitizeEventDetail is_date new_URL st v) in
         (\<forall>e\<in>set (entries_in ''receipts'' b). field ''send_counter'' e \<noteq> None \<longrightarrow> field_value ''send_counter'' e < field_value ''receive_counter'' e)
         \<and> (\<forall>e\<in>set (entries_in ''publication_attempts'' b). field ''send_counter'' e \<noteq> None \<longrightarrow>
              field_value ''receive_counter'' e < field_value ''send_counter'' e)))
   \<and> (successful st \<longrightarrow> san_status (sanitizeLocalDiagnostics is_date publicOrigin st v) \<in> {200, 503}
        \<and> san_status (sanitizeEventDetail is_date new_URL st v) \<in> {200, 503})"
proof (intro conjI impI)
  assume a: "san_status (sanitizeLocalDiagnostics is_date publicOrigin st v) = 200
      \<and> get_in [''overall_state''] (san_body (sanitizeLocalDiagnostics is_date publicOrigin st v)) = Some (JStr ''ready'')"
  obtain b where b: "diagnostics is_date publicOrigin v = Some b" "san_body (sanitizeLocalDiagnostics is_date publicOrigin st v) = b"
    using conjunct1 [OF a] sanitized_by_success [of "diagnostics is_date publicOrigin" st v] by (auto simp: sanitizeLocalDiagnostics_def)
  show "let b = san_body (sanitizeLocalDiagnostics is_date publicOrigin st v) in
         get_in [''financial_authority'', ''postgres'', ''state''] b = Some (JStr ''reachable'')
         \<and> get_in [''financial_authority'', ''latest_reconciliation'', ''status''] b = Some (JStr ''matched'')
         \<and> get_in [''delivery_cache'', ''outbox'', ''state''] b = Some (JStr ''reachable'')
         \<and> get_in [''delivery_cache'', ''outbox'', ''dead_count''] b = Some (JStr ''0'')
         \<and> get_in [''delivery_cache'', ''redis'', ''state''] b = Some (JStr ''reachable'')"
    unfolding Let_def b(2) by (rule ready_supported [OF b(1)]) (use conjunct2 [OF a] b(2) in simp)
next
  assume a: "san_status (sanitizeEventDetail is_date new_URL st v) = 200"
  obtain b where b: "event_detail is_date new_URL v = Some b" "san_body (sanitizeEventDetail is_date new_URL st v) = b"
    using a sanitized_by_success [of "event_detail is_date new_URL" st v] by (auto simp: sanitizeEventDetail_def)
  show "let b = san_body (sanitizeEventDetail is_date new_URL st v) in
         (\<forall>e\<in>set (entries_in ''receipts'' b). field ''send_counter'' e \<noteq> None \<longrightarrow> field_value ''send_counter'' e < field_value ''receive_counter'' e)
         \<and> (\<forall>e\<in>set (entries_in ''publication_attempts'' b). field ''send_counter'' e \<noteq> None \<longrightarrow>
              field_value ''receive_counter'' e < field_value ''send_counter'' e)"
    unfolding Let_def b(2) using event_detail_causal [OF b(1)] receipt_ordered publication_ordered unfolding list_all_iff by blast
qed (simp_all only: sanitizeLocalDiagnostics_def sanitizeEventDetail_def sanitized_by_upstream_success)

definition sample_diagnostics :: json where
  "sample_diagnostics = JObj [(''overall_state'', JStr ''ready''), (''generated_at'', JStr ''2026-01-01T00:00:00Z''),
     (''application'', JObj [(''version'', JStr ''1''), (''commit'', JStr ''abc''), (''environment'', JStr ''development'')]),
     (''financial_authority'', JObj
        [(''postgres'', JObj [(''state'', JStr ''reachable''), (''schema_version'', JStr ''42'')]),
         (''latest_reconciliation'', JObj [(''state'', JStr ''available''), (''status'', JStr ''matched''),
            (''run_id'', JStr ''6f9619ff-8b86-d011-b42d-00cf4fc964ff''), (''completed_at'', JStr ''2026-01-01T00:00:00Z'')])]),
     (''delivery_cache'', JObj
        [(''outbox'', JObj [(''state'', JStr ''reachable''), (''pending_count'', JNum (Fin 3)), (''dead_count'', JNum (Fin 0)),
            (''worker_progress'', JStr ''recent'')]),
         (''redis'', JObj [(''state'', JStr ''reachable''), (''label'', JStr ''disposable_cache'')])])]"

theorem operations_evidence_consistent_witness:
  "get_in [''delivery_cache'', ''outbox'', ''dead_count''] (san_body (sanitizeLocalDiagnostics (\<lambda>s. True) None 200 sample_diagnostics)) = Some (JStr ''0'')"
proof -
  have "san_status (sanitizeLocalDiagnostics (\<lambda>s. True) None 200 sample_diagnostics) = 200
      \<and> get_in [''overall_state''] (san_body (sanitizeLocalDiagnostics (\<lambda>s. True) None 200 sample_diagnostics)) = Some (JStr ''ready'')"
    by code_simp
  then show ?thesis
    using operations_evidence_consistent [of "\<lambda>s. True" None 200 sample_diagnostics] by (simp add: Let_def)
qed

text \<open>A page of evidence is its own clean form: what the browser was given of a page of events or of
  webhook endpoints passes every check again and comes out unchanged, counts included, so that a cached or
  re-served page means the same as the first.\<close>

theorem operations_pages_stable:
  "(san_status (sanitizeEventPage is_date st v) = 200 \<longrightarrow>
      sanitizeEventPage is_date 200 (san_body (sanitizeEventPage is_date st v)) = sanitizeEventPage is_date st v)
   \<and> (san_status (sanitizeWebhookEndpointPage is_date new_URL st v) = 200 \<longrightarrow>
      sanitizeWebhookEndpointPage is_date new_URL 200 (san_body (sanitizeWebhookEndpointPage is_date new_URL st v))
        = sanitizeWebhookEndpointPage is_date new_URL st v)"
  unfolding sanitizeEventPage_def sanitizeWebhookEndpointPage_def
  using stable_page [OF _ delivery_event.canon_list, of "''events''"] stable_page [OF _ webhook_endpoint.canon_list, of "''items''"] by simp

definition sample_event_page :: json where
  "sample_event_page = JObj [(''events'', JArr [JObj [(''event_id'', JStr ''6f9619ff-8b86-d011-b42d-00cf4fc964ff''), (''event_type'', JStr ''transfer.posted''),
     (''state'', JStr ''published''), (''aggregate_type'', JStr ''transfer''), (''aggregate_id'', JStr ''6f9619ff-8b86-d011-b42d-00cf4fc964aa''),
     (''aggregate_version'', JNum (Fin 7)), (''attempt_count'', JStr ''2''), (''occurred_at'', JStr ''2026-01-01''), (''available_at'', JStr ''2026-01-01'')]]),
     (''next_cursor'', JStr '''')]"

lemma sample_page_clean: "\<exists>b. page ''events'' (event (\<lambda>s. True)) sample_event_page = Some b"
proof -
  have "keysAllowed sample_event_page [''events'', ''next_cursor'']" by code_simp
  moreover have "clean_list 3 (event (\<lambda>s. True)) (field ''events'' sample_event_page) \<noteq> None" by code_simp
  moreover have "clean_list 3 c v \<noteq> None \<Longrightarrow> clean_list 100 c v \<noteq> None" for c v
    by (auto simp: clean_list_def split: option.splits json.splits if_splits)
  moreover have "string_field ''next_cursor'' (bounded 2048 True) sample_event_page"
    by (simp add: sample_event_page_def string_field_def bounded_def)
  ultimately show ?thesis by (auto simp: page_def)
qed

theorem operations_pages_stable_witness:
  "sanitizeEventPage (\<lambda>s. True) 200 (san_body (sanitizeEventPage (\<lambda>s. True) 201 sample_event_page)) = sanitizeEventPage (\<lambda>s. True) 201 sample_event_page"
proof -
  have "san_status (sanitizeEventPage (\<lambda>s. True) 201 sample_event_page) = 200"
    using sanitized_by_success [of "page ''events'' (event (\<lambda>s. True))" 201 sample_event_page] sample_page_clean
    by (auto simp: sanitizeEventPage_def sanitized_by_def)
  then show ?thesis using operations_pages_stable [of "\<lambda>s. True" 201 sample_event_page] by blast
qed

text \<open>The state of a publication is compared as text, so that an array of one word passes for that word and
  is copied as the array.\<close>

lemma array_state_accepted:
  "publication_ok (\<lambda>s. True) (JObj [(''generation'', JStr ''1''), (''worker_id'', JStr ''w''), (''state'', JArr [JStr ''claimed'']),
     (''started_at'', JStr ''2026-01-01''), (''lease_until'', JStr ''2026-01-01'')])"
proof -
  have "rx_test clock_pattern ''1''" "rx_test node_pattern ''w''" by code_simp+
  then show ?thesis
    by (simp add: publication_ok_def keysAllowed_def only_keys_def string_field_def optional_string_def clock_def node_def timestamp_def
        bounded_def one_of_strings_def publicationStates_def maximumSigned64_def digits_value_def digit_value_def)
qed

end
