(* ===== verification/Boundary.thy ===== *)
theory Boundary
  imports MutationApi RateLimit
begin

text \<open>
  The BFF's mutation boundary: \<^verbatim>\<open>web/src/lib/private-api.ts\<close>, the authorizers
  (\<^verbatim>\<open>*-mutation-boundary.ts\<close>, \<^verbatim>\<open>*-boundary.ts\<close>) and the proxies (\<^verbatim>\<open>*-mutation.ts\<close>).

  An authorizer returns a denial (\<open>Inl\<close>) or what the handler needs (\<open>Inr\<close>). A proxy returns the
  requests it sent and the response to the browser, so that what is sent can be stated; the network is
  the function \<open>srv_fetch\<close>. What the BFF obtains from its other parts for one request (the clock, the
  workload credential, the actor assertion, a fresh identifier and a trace) are fields of \<open>server\<close>.
  A rate-limit store is a function from its state, a key, a limit and a window.
\<close>

section \<open>The private API\<close>

record server =
  srv_URL :: url_parser
  srv_env :: env
  srv_now :: int
  srv_credential :: "string outcome"
  srv_assertion :: "session \<Rightarrow> string outcome"
  srv_uuid :: string
  srv_trace :: string
  srv_fetch :: "upstream_request \<Rightarrow> fetch_result"
  srv_date :: "string \<Rightarrow> bool"

record connection =
  apiURL :: string
  conn_headers :: headers

definition strip_slash :: "string \<Rightarrow> string" where
  "strip_slash s = (if endsWith s ''/'' then slice_but_end s 1 else s)"

definition privateAPIContext :: "server \<Rightarrow> session \<Rightarrow> string option \<Rightarrow> connection outcome" where
  "privateAPIContext srv session requestID =
     (let api = (case srv_env srv ''LEDGERSYNC_PRIVATE_API_URL'' of None \<Rightarrow> '''' | Some v \<Rightarrow> trim v) in
      if api = '''' then Inl ''private API URL is unavailable''
      else andthen (srv_credential srv) (\<lambda>credential.
           andthen (srv_assertion srv session) (\<lambda>assertion.
             Inr \<lparr>apiURL = strip_slash api,
               conn_headers = [(''Authorization'', ''Bearer '' @ credential),
                 (''X-LedgerSync-Actor-Assertion'', assertion),
                 (''X-Request-ID'', case requestID of None \<Rightarrow> srv_uuid srv | Some r \<Rightarrow> r),
                 (''traceparent'', srv_trace srv)]\<rparr>)))"

type_synonym exchange = "upstream_request list \<times> response"

abbreviation reply :: "response \<Rightarrow> exchange" where
  "reply r \<equiv> ([], r)"

definition read_query :: "params \<Rightarrow> string list \<Rightarrow> params option" where
  "read_query ps allowedQuery =
     (if list_ex (\<lambda>p. \<not> List.member allowedQuery (fst p) \<or> length (getAll (fst p) ps) \<noteq> 1) ps then None
      else foldl (\<lambda>acc key. case acc of None \<Rightarrow> None | Some q \<Rightarrow>
          (case get_param key ps of
             None \<Rightarrow> Some q
           | Some raw \<Rightarrow>
               (let value = trim raw in
                if value = [] \<or> (if key = ''cursor'' then 2048 else 256) < length value then None
                else Some (set_param key value q)))) (Some []) allowedQuery)"

definition timeout_error :: "string \<Rightarrow> fetch_result \<Rightarrow> response" where
  "timeout_error c r = (if r = Fetch_timeout then jsonError c 504 else jsonError ''temporary_unavailable'' 503)"

definition body_error :: "string \<Rightarrow> body_read \<Rightarrow> response" where
  "body_error c b = (if b = Body_timeout then jsonError c 504 else jsonError ''temporary_unavailable'' 503)"

text \<open>A failure to prepare the connection inside a guarded call; an error of the platform is named by
  its name, so that a timed-out request for the credential is \<^verbatim>\<open>TimeoutError\<close>.\<close>

definition context_error :: "string \<Rightarrow> string \<Rightarrow> response" where
  "context_error c e = timeout_error c (if e = ''TimeoutError'' then Fetch_timeout else Fetch_error)"

definition proxyPrivateGET :: "server \<Rightarrow> request \<Rightarrow> session \<Rightarrow> string \<Rightarrow> string list \<Rightarrow> exchange" where
  "proxyPrivateGET srv request session path allowedQuery = (case read_query (searchParams request) allowedQuery of
     None \<Rightarrow> reply (jsonError ''invalid_request'' 400)
   | Some q \<Rightarrow>
       (case privateAPIContext srv session (get_header ''x-request-id'' (req_headers request)) of
          Inl e \<Rightarrow> reply (context_error ''upstream_timeout'' e)
        | Inr connection \<Rightarrow>
            (case canonicalizeUUIDPathSegments path of
               Inl _ \<Rightarrow> reply (jsonError ''temporary_unavailable'' 503)
             | Inr canonical \<Rightarrow>
                 (let out = \<lparr>out_url = with_query (apiURL connection @ canonical) q, out_method = ''GET'',
                              out_headers = conn_headers connection, out_body = None\<rparr> in
                  ([out],
                   case srv_fetch srv out of
                     Fetched up \<Rightarrow>
                       (case up_text up of
                          Body raw \<Rightarrow>
                            \<lparr>status = up_status up,
                             resp_headers =
                               (let h0 = [(''Content-Type'', case get_header ''content-type'' (up_headers up) of None \<Rightarrow> ''application/json'' | Some t \<Rightarrow> t),
                                          (''Cache-Control'', ''no-store'')];
                                    pass = (\<lambda>n v hs. case v of None \<Rightarrow> hs | Some x \<Rightarrow> if x = [] then hs else set_header n x hs) in
                                pass ''Retry-After'' (get_header ''retry-after'' (up_headers up))
                                  (pass ''X-Request-ID'' (get_header ''x-request-id'' (up_headers up)) h0)),
                             resp_body = raw\<rparr>
                        | failed \<Rightarrow> body_error ''upstream_timeout'' failed)
                   | r \<Rightarrow> timeout_error ''upstream_timeout'' r)))))"

section \<open>Authorizers\<close>

definition method_denial :: "string \<Rightarrow> response" where
  "method_denial allow = (let r = jsonError ''method_not_allowed'' 405 in r\<lparr>resp_headers := set_header ''Allow'' allow (resp_headers r)\<rparr>)"

definition authorizeAccountMutation :: "server \<Rightarrow> request \<Rightarrow> session option \<Rightarrow> string \<Rightarrow> response + string" where
  "authorizeAccountMutation srv request session expectedMethod =
     (if http_method request \<noteq> expectedMethod then Inl (method_denial expectedMethod)
      else case session of
        None \<Rightarrow> Inl (jsonError ''unauthorized'' 401)
      | Some s \<Rightarrow>
          if \<not> has_scope s ''accounts:write'' then Inl (jsonError ''forbidden'' 403)
          else if \<not> hasValidCSRF (srv_URL srv) (srv_env srv) request s then Inl (jsonError ''csrf_failed'' 403)
          else let key = get_header ''idempotency-key'' (req_headers request) in
            if \<not> isValidAccountIdempotencyKey key then Inl (jsonError ''idempotency_key_required'' 400)
            else if mediaType request \<noteq> Some ''application/json'' then Inl (jsonError ''unsupported_media_type'' 415)
            else Inr (the key))"

definition authorizeCorrectionMutation ::
  "server \<Rightarrow> request \<Rightarrow> session option \<Rightarrow> string \<Rightarrow> bool \<Rightarrow> bool \<Rightarrow> response + string option" where
  "authorizeCorrectionMutation srv request session scope idempotencyRequired jsonBodyRequired =
     (if http_method request \<noteq> ''POST'' then Inl (method_denial ''POST'')
      else case session of
        None \<Rightarrow> Inl (jsonError ''unauthorized'' 401)
      | Some s \<Rightarrow>
          if \<not> has_scope s scope then Inl (jsonError ''forbidden'' 403)
          else if \<not> hasValidCSRF (srv_URL srv) (srv_env srv) request s then Inl (jsonError ''csrf_failed'' 403)
          else if jsonBodyRequired \<and> mediaType request \<noteq> Some ''application/json'' then Inl (jsonError ''unsupported_media_type'' 415)
          else let key = get_header ''idempotency-key'' (req_headers request) in
            if idempotencyRequired \<and> \<not> isCorrectionIdempotencyKey key then Inl (jsonError ''idempotency_key_required'' 400)
            else Inr (if isCorrectionIdempotencyKey key then key else None))"

definition authorizeFundingMutation ::
  "server \<Rightarrow> request \<Rightarrow> session option \<Rightarrow> string \<Rightarrow> bool \<Rightarrow> bool \<Rightarrow> response + string option" where
  "authorizeFundingMutation srv request session scope idempotencyRequired jsonBodyRequired =
     (if http_method request \<noteq> ''POST'' then Inl (method_denial ''POST'')
      else case session of
        None \<Rightarrow> Inl (jsonError ''unauthorized'' 401)
      | Some s \<Rightarrow>
          if \<not> has_scope s scope then Inl (jsonError ''forbidden'' 403)
          else if \<not> hasValidCSRF (srv_URL srv) (srv_env srv) request s then Inl (jsonError ''csrf_failed'' 403)
          else if jsonBodyRequired \<and> mediaType request \<noteq> Some ''application/json'' then Inl (jsonError ''unsupported_media_type'' 415)
          else let key = get_header ''idempotency-key'' (req_headers request) in
            if idempotencyRequired \<and> \<not> isFundingIdempotencyKey key then Inl (jsonError ''idempotency_key_required'' 400)
            else Inr (if isFundingIdempotencyKey key then key else None))"

type_synonym 'st limiter = "'st \<Rightarrow> string \<Rightarrow> int \<Rightarrow> int \<Rightarrow> 'st \<times> rate_decision"

text \<open>Consuming a request of the limit, as the last step of an authorizer.\<close>

definition limited :: "'st limiter \<Rightarrow> 'st \<Rightarrow> string \<Rightarrow> int \<Rightarrow> int \<Rightarrow> 'a \<Rightarrow> 'st \<times> (response + 'a)" where
  "limited consume st key limit window a =
     (case consume st key limit window of (st', decision) \<Rightarrow>
        (st', case rateLimitResponse decision of Some denial \<Rightarrow> Inl denial | None \<Rightarrow> Inr a))"

definition authorizeReconciliationMutation ::
  "server \<Rightarrow> 'st limiter \<Rightarrow> 'st \<Rightarrow> request \<Rightarrow> session option \<Rightarrow> 'st \<times> (response + string)" where
  "authorizeReconciliationMutation srv consume st request session =
     (if http_method request \<noteq> ''POST'' then (st, Inl (method_denial ''POST''))
      else case session of
        None \<Rightarrow> (st, Inl (jsonError ''unauthorized'' 401))
      | Some s \<Rightarrow>
          if \<not> has_scope s ''reconciliation:write'' then (st, Inl (jsonError ''forbidden'' 403))
          else if \<not> hasValidCSRF (srv_URL srv) (srv_env srv) request s then (st, Inl (jsonError ''csrf_failed'' 403))
          else let key = get_header ''idempotency-key'' (req_headers request) in
            if \<not> isValidReconciliationIdempotencyKey key then (st, Inl (jsonError ''idempotency_key_required'' 400))
            else if mediaType request \<noteq> Some ''application/json'' then (st, Inl (jsonError ''unsupported_media_type'' 415))
            else limited consume st (''reconciliation:'' @ tenantId s @ '':'' @ subjectId s) 6 60 (the key))"

text \<open>The step-up window: an authentication at most ten minutes old and at most a minute ahead.\<close>

definition recent_authentication :: "int \<Rightarrow> session \<Rightarrow> bool" where
  "recent_authentication now s = (case authenticatedAt s of
     Some (Fin q) \<Rightarrow> q \<noteq> 0 \<and> q \<le> of_int (now + 60000) \<and> of_int now - q \<le> of_int (10 * 60000)
   | _ \<Rightarrow> False)"

definition authorizeWebhookReplay ::
  "server \<Rightarrow> 'st limiter \<Rightarrow> 'st \<Rightarrow> request \<Rightarrow> session option \<Rightarrow> string \<Rightarrow> string \<Rightarrow> replay_stage \<Rightarrow> 'st \<times> (response + string)" where
  "authorizeWebhookReplay srv consume st request session endpointId attemptId stage =
     (if http_method request \<noteq> ''POST'' then (st, Inl (method_denial ''POST''))
      else case session of
        None \<Rightarrow> (st, Inl (jsonError ''unauthorized'' 401))
      | Some s \<Rightarrow>
          if \<not> has_scope s ''webhooks:replay'' then (st, Inl (jsonError ''forbidden'' 403))
          else if \<not> isWebhookReplayIdentifier endpointId \<or> \<not> isWebhookReplayIdentifier attemptId
          then (st, Inl (jsonError ''invalid_request'' 400))
          else if \<not> hasValidCSRF (srv_URL srv) (srv_env srv) request s then (st, Inl (jsonError ''csrf_failed'' 403))
          else if \<not> recent_authentication (srv_now srv) s then (st, Inl (jsonError ''step_up_required'' 403))
          else let key = get_header ''idempotency-key'' (req_headers request) in
            if \<not> isWebhookReplayIdempotencyKey key then (st, Inl (jsonError ''idempotency_key_required'' 400))
            else if mediaType request \<noteq> Some ''application/json'' then (st, Inl (jsonError ''unsupported_media_type'' 415))
            else limited consume st (''webhook-replay:'' @ stage_name stage @ '':'' @ tenantId s @ '':'' @ subjectId s) 6 60 (the key))"

section \<open>Private and public headers\<close>

definition truthy_header :: "string \<Rightarrow> headers \<Rightarrow> string option" where
  "truthy_header n hs = (case map_of hs n of Some v \<Rightarrow> if v = [] then None else Some v | None \<Rightarrow> None)"

text \<open>The three functions that build the headers of a private mutation differ only in the key test and
  in the text of the error.\<close>

definition mutation_headers :: "(string option \<Rightarrow> bool) \<Rightarrow> string \<Rightarrow> headers \<Rightarrow> string \<Rightarrow> headers outcome" where
  "mutation_headers valid_key message privateHeaders idempotencyKey =
     (case (truthy_header ''Authorization'' privateHeaders, truthy_header ''X-LedgerSync-Actor-Assertion'' privateHeaders,
            truthy_header ''X-Request-ID'' privateHeaders) of
        (Some authorization, Some assertion, Some requestID) \<Rightarrow>
          if \<not> valid_key (Some idempotencyKey) then Inl message
          else Inr ([(''Authorization'', authorization)] @ diagnosticTraceHeaders privateHeaders
            @ [(''X-LedgerSync-Actor-Assertion'', assertion), (''X-Request-ID'', requestID),
               (''Content-Type'', ''application/json''), (''Idempotency-Key'', idempotencyKey)])
      | _ \<Rightarrow> Inl message)"

definition accountMutationPrivateHeaders :: "headers \<Rightarrow> string \<Rightarrow> headers outcome" where
  "accountMutationPrivateHeaders = mutation_headers isValidAccountIdempotencyKey ''private account mutation headers are incomplete''"

definition reconciliationPrivateHeaders :: "headers \<Rightarrow> string \<Rightarrow> headers outcome" where
  "reconciliationPrivateHeaders = mutation_headers isValidReconciliationIdempotencyKey ''private reconciliation mutation headers are incomplete''"

definition webhookReplayPrivateHeaders :: "headers \<Rightarrow> string \<Rightarrow> headers outcome" where
  "webhookReplayPrivateHeaders = mutation_headers isWebhookReplayIdempotencyKey ''private webhook replay headers are incomplete''"

definition mutation_response_headers :: "headers \<Rightarrow> headers" where
  "mutation_response_headers up =
     [(''Cache-Control'', ''no-store'')]
     @ (if get_header ''idempotent-replay'' up = Some ''true'' then [(''Idempotent-Replay'', ''true'')] else [])
     @ (case safeResponseHeader (get_header ''x-request-id'' up) request_id_pattern of Some v \<Rightarrow> [(''X-Request-ID'', v)] | None \<Rightarrow> [])
     @ (case safeResponseHeader (get_header ''retry-after'' up) retry_after_pattern of Some v \<Rightarrow> [(''Retry-After'', v)] | None \<Rightarrow> [])"

definition accountMutationResponseHeaders :: "headers \<Rightarrow> headers" where
  "accountMutationResponseHeaders = mutation_response_headers"

definition reconciliationResponseHeaders :: "headers \<Rightarrow> headers" where
  "reconciliationResponseHeaders = mutation_response_headers"

definition webhookReplayResponseHeaders :: "headers \<Rightarrow> headers" where
  "webhookReplayResponseHeaders = mutation_response_headers"

definition accountMutationDispatchError :: "fetch_result \<Rightarrow> string \<times> nat" where
  "accountMutationDispatchError r =
     (if r = Fetch_timeout then (''account_command_outcome_unknown'', 504) else (''temporary_unavailable'', 503))"

definition reconciliationDispatchError :: "fetch_result \<Rightarrow> string \<times> nat" where
  "reconciliationDispatchError r =
     (if r = Fetch_timeout then (''reconciliation_outcome_unknown'', 504) else (''temporary_unavailable'', 503))"

definition webhookReplayDispatchError :: "replay_stage \<Rightarrow> fetch_result \<Rightarrow> string \<times> nat" where
  "webhookReplayDispatchError stage r =
     (if r = Fetch_timeout then (stage_name stage @ ''_outcome_unknown'', 504) else (''temporary_unavailable'', 503))"

section \<open>Proxies\<close>

definition accountMutationResponse :: "upstream \<Rightarrow> sanitized \<Rightarrow> response" where
  "accountMutationResponse up s =
     (let hs = accountMutationResponseHeaders (up_headers up) in
      json_response (san_body s) (san_status s) (if san_status s = 504 then delete_header ''Idempotent-Replay'' hs else hs))"

text \<open>The headers are built inside the guarded call: incomplete headers are an error of the dispatch
  that is not a timeout, and nothing is sent.\<close>

definition proxyAccountMutation ::
  "server \<Rightarrow> session \<Rightarrow> string \<Rightarrow> string \<Rightarrow> json \<Rightarrow> string \<Rightarrow> exchange" where
  "proxyAccountMutation srv session meth path body idempotencyKey = (case privateAPIContext srv session None of
     Inl _ \<Rightarrow> reply (jsonError ''temporary_unavailable'' 503)
   | Inr connection \<Rightarrow>
       (case accountMutationPrivateHeaders (conn_headers connection) idempotencyKey of
          Inl _ \<Rightarrow> reply (case accountMutationDispatchError Fetch_error of (c, st) \<Rightarrow> jsonError c st)
        | Inr hs \<Rightarrow>
            (let out = \<lparr>out_url = apiURL connection @ path, out_method = meth, out_headers = hs, out_body = Some (JSON_stringify body)\<rparr> in
             ([out],
              case srv_fetch srv out of
                Fetched up \<Rightarrow>
                  (case up_text up of
                     Body raw \<Rightarrow> accountMutationResponse up (sanitizeAccountUpstreamBody (srv_date srv) (up_status up) raw)
                   | _ \<Rightarrow> accountMutationResponse up (sanitizeUnusableAccountUpstream (up_status up)))
              | r \<Rightarrow> (case accountMutationDispatchError r of (c, st) \<Rightarrow> jsonError c st)))))"

definition proxyReconciliationMutation :: "server \<Rightarrow> session \<Rightarrow> string \<Rightarrow> exchange" where
  "proxyReconciliationMutation srv session idempotencyKey = (case privateAPIContext srv session None of
     Inl _ \<Rightarrow> reply (jsonError ''temporary_unavailable'' 503)
   | Inr connection \<Rightarrow>
       (case reconciliationPrivateHeaders (conn_headers connection) idempotencyKey of
          Inl _ \<Rightarrow> reply (case reconciliationDispatchError Fetch_error of (c, st) \<Rightarrow> jsonError c st)
        | Inr hs \<Rightarrow>
            (let out = \<lparr>out_url = apiURL connection @ ''/api/reconciliation/runs'', out_method = ''POST'', out_headers = hs, out_body = Some ''{}''\<rparr> in
             ([out],
              case srv_fetch srv out of
                Fetched up \<Rightarrow>
                  (let hs' = reconciliationResponseHeaders (up_headers up) in
                   case up_text up of
                     Body raw \<Rightarrow>
                       (let s = sanitizeReconciliationUpstreamBody (srv_date srv) (up_status up) raw in
                        json_response (san_body s) (san_status s)
                          (if san_status s = 504 then delete_header ''Idempotent-Replay'' hs' else hs'))
                   | _ \<Rightarrow>
                       (let s = sanitizeReconciliationUpstreamBody (srv_date srv) (up_status up) [] in
                        json_response (san_body s) (san_status s) hs'))
              | r \<Rightarrow> (case reconciliationDispatchError r of (c, st) \<Rightarrow> jsonError c st)))))"

definition no_store_error :: "string \<Rightarrow> nat \<Rightarrow> response" where
  "no_store_error c st = json_response (error_body c) st [(''Cache-Control'', ''no-store'')]"

definition proxyWebhookReplayMutation ::
  "server \<Rightarrow> session \<Rightarrow> string \<Rightarrow> string \<Rightarrow> replay_stage \<Rightarrow> string \<Rightarrow> json \<Rightarrow> string option \<Rightarrow> exchange" where
  "proxyWebhookReplayMutation srv session endpointId attemptId stage idempotencyKey body requestID =
     (case (canonicalUUID endpointId, canonicalUUID attemptId) of
        (Some endpoint, Some attempt) \<Rightarrow>
          (case privateAPIContext srv session requestID of
             Inl _ \<Rightarrow> reply (json_response (error_body ''temporary_unavailable'') 503 [])
           | Inr connection \<Rightarrow>
               (case webhookReplayPrivateHeaders (conn_headers connection) idempotencyKey of
                  Inl _ \<Rightarrow> reply (case webhookReplayDispatchError stage Fetch_error of (c, st) \<Rightarrow> no_store_error c st)
                | Inr hs \<Rightarrow>
                    (let out = \<lparr>out_url = apiURL connection @ ''/api/developer/webhooks/'' @ encodeURIComponent endpoint
                                  @ ''/deliveries/'' @ encodeURIComponent attempt @ ''/''
                                  @ (if stage = Approval then ''replay-approvals'' else ''replay''),
                                out_method = ''POST'', out_headers = hs, out_body = Some (JSON_stringify body)\<rparr> in
                     ([out],
                      case srv_fetch srv out of
                        Fetched up \<Rightarrow>
                          (let raw = (case up_text up of Body t \<Rightarrow> t | _ \<Rightarrow> []);
                               s = sanitizeWebhookReplayUpstreamBody stage (up_status up) raw;
                               hs' = webhookReplayResponseHeaders (up_headers up) in
                           json_response (san_body s) (san_status s)
                             (if san_status s = 504 then delete_header ''Idempotent-Replay'' hs' else hs'))
                      | r \<Rightarrow> (case webhookReplayDispatchError stage r of (c, st) \<Rightarrow> no_store_error c st)))))
      | _ \<Rightarrow> reply (no_store_error ''validation_failed'' 400))"

text \<open>The correction and funding proxies pass the upstream text through; they differ in the code of an
  unknown outcome.\<close>

definition pass_through_response :: "upstream \<Rightarrow> string \<Rightarrow> response" where
  "pass_through_response up raw =
     \<lparr>status = up_status up,
      resp_headers =
        [(''Content-Type'', case get_header ''content-type'' (up_headers up) of None \<Rightarrow> ''application/json'' | Some t \<Rightarrow> t),
         (''Cache-Control'', ''no-store'')]
        @ (if get_header ''idempotent-replay'' (up_headers up) = Some ''true'' then [(''Idempotent-Replay'', ''true'')] else [])
        @ (case safeResponseHeader (get_header ''x-request-id'' (up_headers up)) request_id_pattern of Some v \<Rightarrow> [(''X-Request-ID'', v)] | None \<Rightarrow> [])
        @ (case safeResponseHeader (get_header ''retry-after'' (up_headers up)) retry_after_pattern of Some v \<Rightarrow> [(''Retry-After'', v)] | None \<Rightarrow> []),
      resp_body = raw\<rparr>"

definition decision_proxy :: "string \<Rightarrow> server \<Rightarrow> session \<Rightarrow> string \<Rightarrow> json option \<Rightarrow> string option \<Rightarrow> exchange" where
  "decision_proxy unknown srv session path body idempotencyKey = (case privateAPIContext srv session None of
     Inl e \<Rightarrow> reply (context_error unknown e)
   | Inr connection \<Rightarrow>
       (case canonicalizeUUIDPathSegments path of
          Inl _ \<Rightarrow> reply (jsonError ''temporary_unavailable'' 503)
        | Inr canonical \<Rightarrow>
            (let hs = conn_headers connection
                   @ (case body of None \<Rightarrow> [] | Some _ \<Rightarrow> [(''Content-Type'', ''application/json'')])
                   @ (case idempotencyKey of None \<Rightarrow> [] | Some k \<Rightarrow> if k = [] then [] else [(''Idempotency-Key'', k)]);
                 out = \<lparr>out_url = apiURL connection @ canonical, out_method = ''POST'', out_headers = hs,
                        out_body = map_option JSON_stringify body\<rparr> in
             ([out],
              case srv_fetch srv out of
                Fetched up \<Rightarrow> (case up_text up of Body raw \<Rightarrow> pass_through_response up raw | failed \<Rightarrow> body_error unknown failed)
              | r \<Rightarrow> timeout_error unknown r))))"

definition proxyCorrectionMutation :: "server \<Rightarrow> session \<Rightarrow> string \<Rightarrow> json option \<Rightarrow> string option \<Rightarrow> exchange" where
  "proxyCorrectionMutation = decision_proxy ''correction_outcome_unknown''"

definition proxyFundingMutation :: "server \<Rightarrow> session \<Rightarrow> string \<Rightarrow> json option \<Rightarrow> string option \<Rightarrow> exchange" where
  "proxyFundingMutation = decision_proxy ''funding_outcome_unknown''"

section \<open>The contract of a mutation boundary\<close>

text \<open>What a handler relies on when its authorizer lets a request through.\<close>

locale mutation_boundary =
  fixes authorize :: "request \<Rightarrow> session option \<Rightarrow> response + 'a"
    and meth :: string
    and scope :: string
    and u :: url_parser
    and e :: env
  assumes accepted: "authorize r s = Inr a \<Longrightarrow>
      http_method r = meth \<and> (\<exists>x. s = Some x \<and> has_scope x scope \<and> hasValidCSRF u e r x)"
    and denied: "authorize r s = Inl d \<Longrightarrow> 400 \<le> status d"
begin

lemma anonymous_denied: "\<exists>d. authorize r None = Inl d"
  using accepted [of r None] by (cases "authorize r None") auto

lemma accepted_token: "authorize r s = Inr a \<Longrightarrow>
    hasSameOrigin u e r \<and> (\<exists>x. s = Some x \<and> has_scope x scope \<and> get_header ''x-csrf-token'' (req_headers r) = Some (csrfToken x))"
  using accepted [of r s a] by (auto simp: hasValidCSRF_def token_difference_eq split: option.splits if_splits)

lemma cross_origin_denied: "\<not> hasSameOrigin u e r \<Longrightarrow> \<exists>d. authorize r s = Inl d"
  using accepted_token [of r s] by (cases "authorize r s") auto

lemma guarded_silent:
  "fst (case authorize r s of Inl d \<Rightarrow> reply d | Inr a \<Rightarrow> act a) \<noteq> [] \<Longrightarrow>
     http_method r = meth \<and> (\<exists>x. s = Some x \<and> has_scope x scope \<and> hasValidCSRF u e r x)"
  using accepted [of r s] by (cases "authorize r s") auto

end

lemma method_denial_status [simp]: "status (method_denial m) = 405"
  by (simp add: method_denial_def Let_def)

lemma rate_response_status: "rateLimitResponse d = Some r \<Longrightarrow> 400 \<le> status r"
  by (auto simp: rateLimitResponse_def rateLimitDenial_def Let_def split: if_splits)

lemma rate_response_none: "rateLimitResponse d = None \<longleftrightarrow> allowed d"
  by (auto simp: rateLimitResponse_def rateLimitDenial_def Let_def)

lemma limited_cases: "snd (limited consume st k l w a) = Inr b \<longleftrightarrow> b = a \<and> allowed (snd (consume st k l w))"
  by (auto simp: limited_def rate_response_none [symmetric] split: prod.splits option.splits)

lemma limited_denied: "snd (limited consume st k l w a) = Inl d \<Longrightarrow> 400 \<le> status d"
  by (auto simp: limited_def split: prod.splits option.splits intro: rate_response_status)

interpretation account_boundary: mutation_boundary "\<lambda>r s. authorizeAccountMutation srv r s m" m "''accounts:write''"
  "srv_URL srv" "srv_env srv" for srv m
  by unfold_locales (auto simp: authorizeAccountMutation_def Let_def split: if_splits option.splits)

interpretation correction_boundary: mutation_boundary "\<lambda>r s. authorizeCorrectionMutation srv r s scope idem json" "''POST''" scope
  "srv_URL srv" "srv_env srv" for srv scope idem json
  by unfold_locales (auto simp: authorizeCorrectionMutation_def Let_def split: if_splits option.splits)

interpretation funding_boundary: mutation_boundary "\<lambda>r s. authorizeFundingMutation srv r s scope idem json" "''POST''" scope
  "srv_URL srv" "srv_env srv" for srv scope idem json
  by unfold_locales (auto simp: authorizeFundingMutation_def Let_def split: if_splits option.splits)

interpretation reconciliation_boundary: mutation_boundary "\<lambda>r s. snd (authorizeReconciliationMutation srv consume st r s)"
  "''POST''" "''reconciliation:write''" "srv_URL srv" "srv_env srv" for srv and consume :: "'st limiter" and st
  by unfold_locales
    (auto simp: authorizeReconciliationMutation_def Let_def limited_cases split: if_splits option.splits dest: limited_denied)

interpretation replay_boundary: mutation_boundary "\<lambda>r s. snd (authorizeWebhookReplay srv consume st r s ep att stage)"
  "''POST''" "''webhooks:replay''" "srv_URL srv" "srv_env srv" for srv and consume :: "'st limiter" and st ep att stage
  by unfold_locales
    (auto simp: authorizeWebhookReplay_def Let_def limited_cases split: if_splits option.splits dest: limited_denied)

section \<open>Properties\<close>

text \<open>C5: No mutation passes a BFF boundary without authority. For every authorizer (accounts,
  corrections, funding, reconciliation, webhook replay), an accepted request has the expected method, a
  session with the mutation's scope, the public origin, and the session's exact CSRF token.\<close>

theorem mutations_need_authority:
  "(authorizeAccountMutation srv r s m = Inr k \<longrightarrow> http_method r = m \<and> hasSameOrigin (srv_URL srv) (srv_env srv) r
      \<and> (\<exists>x. s = Some x \<and> has_scope x ''accounts:write'' \<and> get_header ''x-csrf-token'' (req_headers r) = Some (csrfToken x)))
   \<and> (authorizeCorrectionMutation srv r s scope idem json = Inr ok' \<longrightarrow> http_method r = ''POST'' \<and> hasSameOrigin (srv_URL srv) (srv_env srv) r
      \<and> (\<exists>x. s = Some x \<and> has_scope x scope \<and> get_header ''x-csrf-token'' (req_headers r) = Some (csrfToken x)))
   \<and> (authorizeFundingMutation srv r s scope idem json = Inr ok' \<longrightarrow> http_method r = ''POST'' \<and> hasSameOrigin (srv_URL srv) (srv_env srv) r
      \<and> (\<exists>x. s = Some x \<and> has_scope x scope \<and> get_header ''x-csrf-token'' (req_headers r) = Some (csrfToken x)))
   \<and> (snd (authorizeReconciliationMutation srv consume st r s) = Inr k \<longrightarrow> http_method r = ''POST'' \<and> hasSameOrigin (srv_URL srv) (srv_env srv) r
      \<and> (\<exists>x. s = Some x \<and> has_scope x ''reconciliation:write'' \<and> get_header ''x-csrf-token'' (req_headers r) = Some (csrfToken x)))
   \<and> (snd (authorizeWebhookReplay srv consume st r s ep att stage) = Inr k \<longrightarrow> http_method r = ''POST'' \<and> hasSameOrigin (srv_URL srv) (srv_env srv) r
      \<and> (\<exists>x. s = Some x \<and> has_scope x ''webhooks:replay'' \<and> get_header ''x-csrf-token'' (req_headers r) = Some (csrfToken x)))"
  using account_boundary.accepted [of srv r s m k] account_boundary.accepted_token [of srv r s m k]
    correction_boundary.accepted [of srv r s scope idem json ok'] correction_boundary.accepted_token [of srv r s scope idem json ok']
    funding_boundary.accepted [of srv r s scope idem json ok'] funding_boundary.accepted_token [of srv r s scope idem json ok']
    reconciliation_boundary.accepted [of srv consume st r s k] reconciliation_boundary.accepted_token [of srv consume st r s k]
    replay_boundary.accepted [of srv consume st r s ep att stage k] replay_boundary.accepted_token [of srv consume st r s ep att stage k]
  by blast

text \<open>One concrete deployment, for the examples below: the public origin is
  \<^verbatim>\<open>https://ledger.example\<close>.\<close>

definition sample_URL :: url_parser where
  "sample_URL t b = (if t = ''https://ledger.example'' \<and> b = None
     then Some \<lparr>protocol = ''https:'', username = '''', password = '''', origin = ''https://ledger.example'',
       pathname = ''/'', search = '''', hash = ''''\<rparr> else None)"

definition sample_env :: env where
  "sample_env = map_of [(''LEDGERSYNC_PUBLIC_ORIGIN'', ''https://ledger.example''),
     (''LEDGERSYNC_PRIVATE_API_URL'', ''https://api.internal/'')]"

definition sample_key :: string where
  "sample_key = ''key-0123456789abcdef''"

definition sample_session :: session where
  "sample_session = \<lparr>subjectId = ''alice'', tenantId = ''acme'', csrfToken = ''token-1'', expiresAt = Fin 5000000,
     authenticatedAt = Some (Fin 900000), roles = None,
     scopes = Some [''accounts:write'', ''reconciliation:write'', ''webhooks:replay'', ''funding:write'', ''corrections:write''],
     consistencyRequirements = None\<rparr>"

definition sample_request :: request where
  "sample_request = \<lparr>http_method = ''POST'',
     req_headers = [(''Host'', ''ledger.example''), (''Origin'', ''https://ledger.example''), (''X-CSRF-Token'', ''token-1''),
       (''Idempotency-Key'', sample_key), (''Content-Type'', ''application/json; charset=utf-8'')],
     searchParams = [], req_text = Inr ''{}'', req_stream = None\<rparr>"

definition sample_server :: server where
  "sample_server = \<lparr>srv_URL = sample_URL, srv_env = sample_env, srv_now = 1000000, srv_credential = Inr ''workload-credential'',
     srv_assertion = (\<lambda>s. Inr ''assertion''), srv_uuid = ''11111111-1111-4111-8111-111111111111'', srv_trace = ''00-0'',
     srv_fetch = (\<lambda>r. Fetch_timeout), srv_date = (\<lambda>s. True)\<rparr>"

theorem mutations_need_authority_witness:
  "authorizeAccountMutation sample_server sample_request (Some sample_session) ''POST'' = Inr sample_key
   \<and> hasSameOrigin sample_URL sample_env sample_request"
proof -
  have a: "authorizeAccountMutation sample_server sample_request (Some sample_session) ''POST'' = Inr sample_key" by code_simp
  have srv: "srv_URL sample_server = sample_URL" "srv_env sample_server = sample_env" by (simp_all add: sample_server_def)
  show ?thesis
    using a mutations_need_authority [of sample_server sample_request "Some sample_session" "''POST''" sample_key,
        THEN conjunct1, THEN mp, OF a] unfolding srv by simp
qed

text \<open>The rate limit is the last gate of a limited mutation: a request that fails any other test
  leaves the store's state unchanged, so that anonymous, cross-origin, unscoped or malformed requests
  cannot use up an actor's quota; an accepted one was admitted by the store under the actor's own key.
  A webhook replay is accepted only with an authentication at most ten minutes old.\<close>

theorem limit_is_last_gate:
  "(fst (authorizeReconciliationMutation srv consume st r s) \<noteq> st \<longrightarrow>
      (\<exists>x. s = Some x \<and> has_scope x ''reconciliation:write'' \<and> hasValidCSRF (srv_URL srv) (srv_env srv) r x
         \<and> isValidReconciliationIdempotencyKey (get_header ''idempotency-key'' (req_headers r))))
   \<and> (snd (authorizeReconciliationMutation srv consume st r s) = Inr k \<longrightarrow>
      (\<exists>x. s = Some x \<and> allowed (snd (consume st (''reconciliation:'' @ tenantId x @ '':'' @ subjectId x) 6 60))))
   \<and> (fst (authorizeWebhookReplay srv consume st r s ep att stage) \<noteq> st \<longrightarrow>
      (\<exists>x. s = Some x \<and> has_scope x ''webhooks:replay'' \<and> hasValidCSRF (srv_URL srv) (srv_env srv) r x \<and> recent_authentication (srv_now srv) x
         \<and> isWebhookReplayIdempotencyKey (get_header ''idempotency-key'' (req_headers r))))
   \<and> (snd (authorizeWebhookReplay srv consume st r s ep att stage) = Inr k \<longrightarrow>
      (\<exists>x. s = Some x \<and> recent_authentication (srv_now srv) x
         \<and> allowed (snd (consume st (''webhook-replay:'' @ stage_name stage @ '':'' @ tenantId x @ '':'' @ subjectId x) 6 60))))"
  by (auto simp: authorizeReconciliationMutation_def authorizeWebhookReplay_def Let_def limited_cases
      split: if_splits option.splits)

theorem limit_is_last_gate_witness:
  "\<exists>x. Some sample_session = Some x \<and> recent_authentication (srv_now sample_server) x
     \<and> allowed (snd (memory_consume 6 60 (\<lambda>k. None) (''webhook-replay:'' @ stage_name Approval @ '':'' @ tenantId x @ '':'' @ subjectId x) 1000000))"
proof -
  let ?c = "\<lambda>st k l w. memory_consume l w st k 1000000"
  let ?id = "''6f9619ff-8b86-d011-b42d-00cf4fc964ff''"
  have "snd (authorizeWebhookReplay sample_server ?c (\<lambda>k. None) sample_request (Some sample_session) ?id ?id Approval) = Inr sample_key"
    by code_simp
  then show ?thesis
    using limit_is_last_gate [of sample_server ?c "\<lambda>k. None" sample_request "Some sample_session" sample_key ?id ?id Approval] by simp
qed

section \<open>What the proxies tell the browser\<close>

text \<open>An exchange is honest when it sends at most one request, under the given idempotency key; reports
  success only on a successful upstream response with the required evidence; never reports a definite
  failure for an upstream success; and reports an unknown outcome when the wait timed out.\<close>

definition honest :: "string \<Rightarrow> string \<Rightarrow> (json \<Rightarrow> bool) \<Rightarrow> server \<Rightarrow> exchange \<Rightarrow> bool" where
  "honest key unknown evidence srv x = (case x of (sent, r) \<Rightarrow>
     length sent \<le> 1
     \<and> (\<forall>out\<in>set sent. get_header ''Idempotency-Key'' (out_headers out) = Some key)
     \<and> (successful (status r) \<longrightarrow>
          (\<exists>out up raw v. sent = [out] \<and> srv_fetch srv out = Fetched up \<and> successful (up_status up)
             \<and> up_text up = Body raw \<and> JSON_parse raw = Some v \<and> evidence v))
     \<and> (\<forall>out up. sent = [out] \<and> srv_fetch srv out = Fetched up \<and> successful (up_status up) \<longrightarrow>
          \<not> (400 \<le> status r \<and> status r < 500))
     \<and> (\<forall>out. sent = [out] \<and> srv_fetch srv out = Fetch_timeout \<longrightarrow>
          status r = 504 \<and> resp_body r = JSON_stringify (error_body unknown)))"

lemma json_response_simps [simp]: "status (json_response b st hs) = st" "resp_body (json_response b st hs) = JSON_stringify b"
  by (simp_all add: json_response_def)

lemma key_names:
  "\<not> same_name ''Authorization'' ''Idempotency-Key''" "\<not> same_name ''traceparent'' ''Idempotency-Key''"
  "\<not> same_name ''X-LedgerSync-Actor-Assertion'' ''Idempotency-Key''" "\<not> same_name ''X-Request-ID'' ''Idempotency-Key''"
  "\<not> same_name ''Content-Type'' ''Idempotency-Key''"
  by code_simp+

lemma mutation_headers_key:
  assumes "mutation_headers valid message hs key = Inr out"
  shows "get_header ''Idempotency-Key'' out = Some key \<and> valid (Some key)"
proof -
  have "diagnosticTraceHeaders hs = [] \<or> (\<exists>v. diagnosticTraceHeaders hs = [(''traceparent'', v)])"
    by (auto simp: diagnosticTraceHeaders_def split: option.splits)
  then show ?thesis
    using assms by (auto simp: mutation_headers_def get_header_def key_names split: option.splits if_splits)
qed

lemma honest_exchange:
  assumes "get_header ''Idempotency-Key'' (out_headers out) = Some key"
    and "srv_fetch srv out = Fetch_timeout \<Longrightarrow> status r = 504 \<and> resp_body r = JSON_stringify (error_body unknown)"
    and "srv_fetch srv out = Fetch_error \<Longrightarrow> \<not> successful (status r)"
    and "\<And>up. srv_fetch srv out = Fetched up \<Longrightarrow>
      (successful (status r) \<longrightarrow> successful (up_status up) \<and> (\<exists>raw v. up_text up = Body raw \<and> JSON_parse raw = Some v \<and> evidence v))
      \<and> (successful (up_status up) \<longrightarrow> \<not> (400 \<le> status r \<and> status r < 500))"
  shows "honest key unknown evidence srv ([out], r)"
  using assms by (cases "srv_fetch srv out") (auto simp: honest_def)

lemma honest_silent: "\<not> successful (status r) \<Longrightarrow> honest key unknown evidence srv (reply r)"
  by (auto simp: honest_def)

definition body_text :: "body_read \<Rightarrow> string" where
  "body_text b = (case b of Body t \<Rightarrow> t | _ \<Rightarrow> [])"

lemma empty_body_unusable: "JSON_parse [] = None"
  by code_simp

text \<open>A proxy that answers with the sanitized body of a sanitizer, an unreadable body counting as empty,
  is honest.\<close>

context upstream_sanitizer
begin

lemma sanitized_exchange:
  assumes "get_header ''Idempotency-Key'' (out_headers out) = Some key"
    and "srv_fetch srv out = Fetch_timeout \<Longrightarrow> status r = 504 \<and> resp_body r = JSON_stringify (error_body unknown)"
    and "srv_fetch srv out = Fetch_error \<Longrightarrow> \<not> successful (status r)"
    and r: "\<And>up. srv_fetch srv out = Fetched up \<Longrightarrow> status r = san_status (sanitize (up_status up) (body_text (up_text up)))"
  shows "honest key unknown valid srv ([out], r)"
proof (rule honest_exchange [OF assms(1-3)])
  fix up
  assume up: "srv_fetch srv out = Fetched up"
  have "\<exists>raw v. up_text up = Body raw \<and> JSON_parse raw = Some v \<and> valid v"
    if "successful (status r)"
    using success_is_evidence [of "up_status up" "body_text (up_text up)"] that
    by (cases "up_text up") (auto simp: r [OF up] body_text_def empty_body_unusable)
  then show "(successful (status r) \<longrightarrow> successful (up_status up) \<and> (\<exists>raw v. up_text up = Body raw \<and> JSON_parse raw = Some v \<and> valid v))
      \<and> (successful (up_status up) \<longrightarrow> \<not> (400 \<le> status r \<and> status r < 500))"
    using success_sound definite_failure_sound unfolding r [OF up] by blast
qed

end

lemma account_unusable: "sanitizeUnusableAccountUpstream st = sanitizeAccountUpstreamBody is_date st []"
  by (simp add: sanitizeAccountUpstreamBody_def empty_body_unusable)

lemma account_proxy_honest:
  "honest key ''account_command_outcome_unknown'' (account_evidence (srv_date srv)) srv (proxyAccountMutation srv session m path body key)"
proof (cases "privateAPIContext srv session None")
  case (Inr c)
  note conn = this
  show ?thesis
  proof (cases "accountMutationPrivateHeaders (conn_headers c) key")
    case (Inr hs)
    then have "get_header ''Idempotency-Key'' hs = Some key"
      using mutation_headers_key unfolding accountMutationPrivateHeaders_def by blast
    then show ?thesis
      by (auto simp: proxyAccountMutation_def conn Inr Let_def accountMutationDispatchError_def accountMutationResponse_def
          account_unusable [of _ "srv_date srv"] body_text_def
          intro!: account.sanitized_exchange split: body_read.splits)
  qed (auto simp: proxyAccountMutation_def conn accountMutationDispatchError_def intro: honest_silent)
qed (auto simp: proxyAccountMutation_def intro: honest_silent)

lemma reconciliation_proxy_honest:
  "honest key ''reconciliation_outcome_unknown'' (run_evidence (srv_date srv)) srv (proxyReconciliationMutation srv session key)"
proof (cases "privateAPIContext srv session None")
  case (Inr c)
  note conn = this
  show ?thesis
  proof (cases "reconciliationPrivateHeaders (conn_headers c) key")
    case (Inr hs)
    then have "get_header ''Idempotency-Key'' hs = Some key"
      using mutation_headers_key unfolding reconciliationPrivateHeaders_def by blast
    then show ?thesis
      by (auto simp: proxyReconciliationMutation_def conn Inr Let_def reconciliationDispatchError_def body_text_def
          intro!: reconciliation.sanitized_exchange split: body_read.splits)
  qed (auto simp: proxyReconciliationMutation_def conn reconciliationDispatchError_def intro: honest_silent)
qed (auto simp: proxyReconciliationMutation_def intro: honest_silent)

lemma replay_proxy_honest:
  "honest key (stage_name stage @ ''_outcome_unknown'') (replay_evidence stage) srv
     (proxyWebhookReplayMutation srv session ep att stage key body rid)"
proof (cases "\<exists>ep' att' c hs. canonicalUUID ep = Some ep' \<and> canonicalUUID att = Some att' \<and> privateAPIContext srv session rid = Inr c
    \<and> webhookReplayPrivateHeaders (conn_headers c) key = Inr hs")
  case True
  then obtain ep' att' c hs where p: "canonicalUUID ep = Some ep'" "canonicalUUID att = Some att'"
    "privateAPIContext srv session rid = Inr c" "webhookReplayPrivateHeaders (conn_headers c) key = Inr hs" by blast
  then have "get_header ''Idempotency-Key'' hs = Some key"
    using mutation_headers_key unfolding webhookReplayPrivateHeaders_def by blast
  then show ?thesis
    by (auto simp: proxyWebhookReplayMutation_def p Let_def webhookReplayDispatchError_def body_text_def no_store_error_def
        intro!: replay.sanitized_exchange)
next
  case False
  then show ?thesis
    by (auto simp: proxyWebhookReplayMutation_def webhookReplayDispatchError_def no_store_error_def
        intro!: honest_silent split: option.splits sum.splits)
qed

text \<open>C3: What the browser hears of a mutation is honest. Each of the three sanitizing proxies sends at
  most one request, and under the caller's idempotency key; it reports success only when the private
  API answered with a success whose body passed every evidence check; it never reports a definite
  failure (4xx) of a mutation that the private API reported as done; and when the wait timed out it
  answers 504 with the code of an unknown outcome.\<close>

theorem mutation_proxies_honest:
  "honest key ''account_command_outcome_unknown'' (account_evidence (srv_date srv)) srv
      (proxyAccountMutation srv session m path body key)
   \<and> honest key ''reconciliation_outcome_unknown'' (run_evidence (srv_date srv)) srv
      (proxyReconciliationMutation srv session key)
   \<and> honest key (stage_name stage @ ''_outcome_unknown'') (replay_evidence stage) srv
      (proxyWebhookReplayMutation srv session ep att stage key body' rid)"
  using account_proxy_honest reconciliation_proxy_honest replay_proxy_honest by blast

lemma sample_key_valid: "isValidReconciliationIdempotencyKey (Some sample_key)"
  by code_simp

lemma trimmed_api: "trim ''https://api.internal/'' = ''https://api.internal/''"
  by code_simp

text \<open>The reconciliation proxy drops the replay marker from an unknown outcome only when the body could
  be read: on a failed read it keeps the upstream's \<^verbatim>\<open>Idempotent-Replay: true\<close> beside status 504.\<close>

lemma unknown_outcome_keeps_replay_marker:
  "\<exists>srv session key. let r = snd (proxyReconciliationMutation srv session key) in
     status r = 504 \<and> get_header ''Idempotent-Replay'' (resp_headers r) = Some ''true''"
proof -
  let ?srv = "sample_server\<lparr>srv_fetch := (\<lambda>r. Fetched \<lparr>up_status = 200, up_headers = [(''Idempotent-Replay'', ''true'')], up_text = Body_error, up_stream = None\<rparr>)\<rparr>"
  have "\<exists>c hs. privateAPIContext ?srv sample_session None = Inr c \<and> reconciliationPrivateHeaders (conn_headers c) sample_key = Inr hs"
    by (simp add: privateAPIContext_def reconciliationPrivateHeaders_def mutation_headers_def truthy_header_def
        sample_server_def sample_env_def sample_key_valid trimmed_api Let_def)
  moreover have "get_header ''Idempotent-Replay'' (reconciliationResponseHeaders [(''Idempotent-Replay'', ''true'')]) = Some ''true''"
    "get_header ''Idempotent-Replay'' (reconciliationResponseHeaders [(''Idempotent-Replay'', ''true'')] @ [(''content-type'', ''application/json'')])
       = Some ''true''"
    by code_simp+
  ultimately have "let r = snd (proxyReconciliationMutation ?srv sample_session sample_key) in
      status r = 504 \<and> get_header ''Idempotent-Replay'' (resp_headers r) = Some ''true''"
    by (auto simp: proxyReconciliationMutation_def Let_def json_response_def sanitizeReconciliationUpstreamBody_def
        empty_body_unusable byte_length_def reconciliation_unknownOutcome_def)
  then show ?thesis by blast
qed

end
