(* ===== verification/Base64url.thy ===== *)
theory Base64url
  imports UrlCodec
begin

text \<open>
  The encodings under which the BFF signs text: \<^verbatim>\<open>Buffer.from(s)\<close> (UTF-8 bytes),
  \<^verbatim>\<open>toString("base64url")\<close> and the reverse \<^verbatim>\<open>Buffer.from(s, "base64url")\<close>. The reader accepts both
  base64 alphabets and skips characters of neither, as Node does; the writer never pads.
\<close>

section \<open>Definitions\<close>

definition bytes_of :: "string \<Rightarrow> nat list" where
  "bytes_of s = concat (map utf8 s)"

definition sextet_char :: "nat \<Rightarrow> char" where
  "sextet_char n = (if n < 26 then char_of (65 + n) else if n < 52 then char_of (71 + n) else if n < 62 then char_of (n - 4)
     else if n = 62 then CHR ''-'' else CHR ''_'')"

definition char_sextet :: "char \<Rightarrow> nat option" where
  "char_sextet c = (if is_upper c then Some (code c - 65) else if is_lower c then Some (code c - 71)
     else if is_digit c then Some (code c + 4) else if one_of ''-+'' c then Some 62 else if one_of ''_/'' c then Some 63 else None)"

fun byte_sextets :: "nat list \<Rightarrow> nat list" where
  "byte_sextets [] = []"
| "byte_sextets [a] = [a div 4, 16 * (a mod 4)]"
| "byte_sextets [a, b] = [a div 4, 16 * (a mod 4) + b div 16, 4 * (b mod 16)]"
| "byte_sextets (a # b # c # r) =
     (a div 4) # (16 * (a mod 4) + b div 16) # (4 * (b mod 16) + c div 64) # (c mod 64) # byte_sextets r"

fun sextet_bytes :: "nat list \<Rightarrow> nat list" where
  "sextet_bytes [] = []"
| "sextet_bytes [w] = []"
| "sextet_bytes [w, x] = [4 * w + x div 16]"
| "sextet_bytes [w, x, y] = [4 * w + x div 16, 16 * (x mod 16) + y div 4]"
| "sextet_bytes (w # x # y # z # r) =
     (4 * w + x div 16) # (16 * (x mod 16) + y div 4) # (64 * (y mod 4) + z) # sextet_bytes r"

definition base64url :: "nat list \<Rightarrow> string" where
  "base64url bs = map sextet_char (byte_sextets bs)"

text \<open>\<^verbatim>\<open>toString("base64")\<close>: the other alphabet, padded to a multiple of four characters.\<close>

definition base64 :: "nat list \<Rightarrow> string" where
  "base64 bs = (let s = map (\<lambda>c. if c = CHR ''-'' then CHR ''+'' else if c = CHR ''_'' then CHR ''/'' else c) (base64url bs) in
     s @ replicate ((4 - length s mod 4) mod 4) CHR ''='')"

definition from_base64url :: "string \<Rightarrow> nat list" where
  "from_base64url s = sextet_bytes (List.map_filter char_sextet s)"

section \<open>Lemmas\<close>

lemma char_sextet_char: "n < 64 \<Longrightarrow> char_sextet (sextet_char n) = Some n"
proof -
  assume n: "n < 64"
  consider "n < 26" | "26 \<le> n" "n < 52" | "52 \<le> n" "n < 62" | "n = 62" | "n = 63" using n by linarith
  then show ?thesis
    by cases (auto simp: sextet_char_def char_sextet_def char_class_defs)
qed

lemma sextet_chars: "n < 64 \<Longrightarrow> is_alnum (sextet_char n) \<or> one_of ''-_'' (sextet_char n)"
  by (auto simp: sextet_char_def char_class_defs)

lemma byte_sextets_bound: "list_all (\<lambda>b. b < 256) bs \<Longrightarrow> list_all (\<lambda>n. n < 64) (byte_sextets bs)"
  by (induction bs rule: byte_sextets.induct) auto

lemma sextet_bytes_inverse: "list_all (\<lambda>b. b < 256) bs \<Longrightarrow> sextet_bytes (byte_sextets bs) = bs"
proof (induction bs rule: byte_sextets.induct)
  case (3 a b)
  then have "b div 16 < 16" by auto
  then show ?case by simp
next
  case (4 a b c r)
  then have "b div 16 < 16" "c div 64 < 4" by auto
  then show ?case using 4 by simp
qed auto

lemma from_base64url_inverse: "list_all (\<lambda>b. b < 256) bs \<Longrightarrow> from_base64url (base64url bs) = bs"
proof -
  assume b: "list_all (\<lambda>b. b < 256) bs"
  have "List.map_filter char_sextet (map sextet_char ns) = ns" if "list_all (\<lambda>n. n < 64) ns" for ns
    using that by (induction ns) (auto simp: List.map_filter_def char_sextet_char)
  then show ?thesis
    using byte_sextets_bound [OF b] sextet_bytes_inverse [OF b] by (simp add: from_base64url_def base64url_def)
qed

lemma base64url_chars: "list_all (\<lambda>b. b < 256) bs \<Longrightarrow> list_all (\<lambda>c. is_alnum c \<or> one_of ''-_'' c) (base64url bs)"
  using byte_sextets_bound [of bs] sextet_chars by (auto simp: base64url_def list_all_iff)

lemma base64url_no_dot: "list_all (\<lambda>b. b < 256) bs \<Longrightarrow> CHR ''.'' \<notin> set (base64url bs)"
  using base64url_chars [of bs] by (auto simp: list_all_iff char_class_defs)

lemma length_base64url: "length (base64url bs) = (4 * length bs + 2) div 3"
proof -
  have "length (byte_sextets bs) = (4 * length bs + 2) div 3"
    by (induction bs rule: byte_sextets.induct) auto
  then show ?thesis by (simp add: base64url_def)
qed

lemma bytes_of_bound: "list_all (\<lambda>b. b < 256) (bytes_of s)"
  using utf8_bytes by (auto simp: bytes_of_def list_all_iff)

lemma utf8_decode_bytes_of [simp]: "utf8_decode (bytes_of s) = Some s"
  by (induction s) (simp_all add: bytes_of_def utf8_read)

lemma bytes_of_inj [simp]: "bytes_of s = bytes_of t \<longleftrightarrow> s = t"
  by (metis utf8_decode_bytes_of option.inject)

lemma base64url_empty [simp]: "base64url bs = [] \<longleftrightarrow> bs = []"
  by (cases bs rule: byte_sextets.cases) (auto simp: base64url_def)

lemma bytes_of_empty [simp]: "bytes_of s = [] \<longleftrightarrow> s = []"
  using bytes_of_inj [of s "[]"] by (simp add: bytes_of_def)

text \<open>A text is read back from its encoding.\<close>

lemma base64url_text: "utf8_decode (from_base64url (base64url (bytes_of s))) = Some s"
  by (simp add: from_base64url_inverse bytes_of_bound)

end
