(* ===== verification/Session.thy ===== *)
theory Session
  imports Boundary Base64url
begin

text \<open>
  Sessions: \<^verbatim>\<open>web/src/lib/session.ts\<close>, \<^verbatim>\<open>committed-response.ts\<close>, \<^verbatim>\<open>actor-assertion.ts\<close>,
  \<^verbatim>\<open>transfer-mutation.ts\<close> and \<^verbatim>\<open>guardrail-metrics.ts\<close>.

  The signed session is a text under an HMAC; the HMAC is a parameter \<open>hmac\<close> from a key and a byte
  string to the digest's bytes. The opaque session lives in the private store, reached by a fetch of the
  server. A session's properties are written in the order of the type; their order changes neither
  the length of the cookie nor the fields read from it. Clock and identifiers come with the server or as
  arguments.
\<close>

section \<open>Guardrail metrics\<close>

definition allowedOutcomes :: "string \<Rightarrow> string list" where
  "allowedOutcomes kind =
     (if kind = ''session'' then [''created'', ''resolved'', ''rotated'', ''revoked'', ''consistency_updated'', ''expired'', ''rejected'', ''unavailable'']
      else if kind = ''rate_limit'' then [''denied'', ''unavailable'']
      else if kind = ''step_up'' then [''required'', ''completed'', ''rejected'']
      else if kind = ''unavailable_action'' then [''busy'', ''offline'', ''prerequisite'', ''capability_missing'', ''step_up'',
        ''temporary_unavailable'', ''unreleased'', ''terminal'']
      else [])"

definition createGuardrailMetric :: "string \<Rightarrow> string \<Rightarrow> json" where
  "createGuardrailMetric kind outcome = JObj
     [(''name'', JStr ''ledgersync.guardrail.outcome''), (''kind'', JStr kind),
      (''outcome'', JStr (if List.member (allowedOutcomes kind) outcome then outcome else ''unknown''))]"

text \<open>The lines the server logs for a metric.\<close>

definition emitGuardrailMetric :: "env \<Rightarrow> string \<Rightarrow> string \<Rightarrow> string list" where
  "emitGuardrailMetric env kind outcome =
     (if env ''LEDGERSYNC_TELEMETRY_ENABLED'' = Some ''true'' then [JSON_stringify (createGuardrailMetric kind outcome)] else [])"

section \<open>Signed sessions\<close>

type_synonym hmac = "string \<Rightarrow> nat list \<Rightarrow> nat list"

definition maxSessionCookieValueBytes :: nat where "maxSessionCookieValueBytes = 3584"
definition maxSessionRoles :: nat where "maxSessionRoles = 16"
definition maxSessionScopes :: nat where "maxSessionScopes = 40"
definition maxConsistencyRequirements :: nat where "maxConsistencyRequirements = 10"
definition maxConsistencyAccountIDLength :: nat where "maxConsistencyAccountIDLength = 128"
definition maxConsistencyTokenLength :: nat where "maxConsistencyTokenLength = 2048"

lemmas session_limits = maxSessionCookieValueBytes_def maxSessionRoles_def maxSessionScopes_def
  maxConsistencyRequirements_def maxConsistencyAccountIDLength_def maxConsistencyTokenLength_def

definition secret :: "env \<Rightarrow> string outcome" where
  "secret env = (case env ''LEDGERSYNC_WEB_SESSION_SECRET'' of
     None \<Rightarrow> Inl ''LEDGERSYNC_WEB_SESSION_SECRET must be at least 32 characters''
   | Some value \<Rightarrow> if length value < 32 then Inl ''LEDGERSYNC_WEB_SESSION_SECRET must be at least 32 characters'' else Inr value)"

definition sign :: "hmac \<Rightarrow> env \<Rightarrow> string \<Rightarrow> string outcome" where
  "sign hmac env encodedPayload = andthen (secret env) (\<lambda>k. Inr (base64url (hmac k (bytes_of encodedPayload))))"

text \<open>The object that \<^verbatim>\<open>JSON.stringify\<close> writes: absent properties are left out.\<close>

definition optional_member :: "string \<Rightarrow> ('a \<Rightarrow> json) \<Rightarrow> 'a option \<Rightarrow> (string \<times> json) list" where
  "optional_member k f v = (case v of None \<Rightarrow> [] | Some x \<Rightarrow> [(k, f x)])"

definition json_strings :: "string list \<Rightarrow> json" where
  "json_strings xs = JArr (map JStr xs)"

definition json_params :: "params \<Rightarrow> json" where
  "json_params ps = JObj (map (\<lambda>(k, v). (k, JStr v)) ps)"

definition session_json :: "session \<Rightarrow> json" where
  "session_json s = JObj
     ([(''subjectId'', JStr (subjectId s)), (''tenantId'', JStr (tenantId s)), (''csrfToken'', JStr (csrfToken s)),
       (''expiresAt'', JNum (expiresAt s))]
      @ optional_member ''authenticatedAt'' JNum (authenticatedAt s)
      @ optional_member ''roles'' json_strings (roles s)
      @ optional_member ''scopes'' json_strings (scopes s)
      @ optional_member ''consistencyRequirements'' json_params (consistencyRequirements s))"

definition encodeSession :: "hmac \<Rightarrow> env \<Rightarrow> session \<Rightarrow> string outcome" where
  "encodeSession hmac env payload =
     (let encodedPayload = base64url (bytes_of (JSON_stringify (session_json payload))) in
      andthen (sign hmac env encodedPayload) (\<lambda>signature. Inr (encodedPayload @ ''.'' @ signature)))"

text \<open>\<^verbatim>\<open>xs.slice(-n)\<close>\<close>

definition slice_last :: "nat \<Rightarrow> 'a list \<Rightarrow> 'a list" where
  "slice_last n xs = drop (length xs - n) xs"

text \<open>The loop over the entries, newest first; \<open>fits\<close> is the test on the candidate.\<close>

fun retain :: "(params \<Rightarrow> bool) \<Rightarrow> params \<Rightarrow> params \<Rightarrow> params" where
  "retain fits retained [] = retained"
| "retain fits retained (e # es) = retain fits (if fits (e # retained) then e # retained else retained) es"

definition fits_cookie :: "hmac \<Rightarrow> env \<Rightarrow> session \<Rightarrow> params \<Rightarrow> bool" where
  "fits_cookie hmac env base candidate =
     (case encodeSession hmac env (base\<lparr>consistencyRequirements := Some (obj_of candidate)\<rparr>) of
        Inl _ \<Rightarrow> False | Inr raw \<Rightarrow> length raw \<le> maxSessionCookieValueBytes)"

definition eligible_entries :: "session \<Rightarrow> params" where
  "eligible_entries payload = slice_last maxConsistencyRequirements
     (filter (\<lambda>(accountId, token). 0 < length accountId \<and> length accountId \<le> maxConsistencyAccountIDLength
        \<and> length token \<le> maxConsistencyTokenLength)
       (case consistencyRequirements payload of None \<Rightarrow> [] | Some ps \<Rightarrow> ps))"

definition boundedSession :: "hmac \<Rightarrow> env \<Rightarrow> session \<Rightarrow> session outcome" where
  "boundedSession hmac env payload =
     (let base = payload\<lparr>consistencyRequirements := None\<rparr> in
      andthen (encodeSession hmac env base) (\<lambda>raw.
        if maxSessionCookieValueBytes < length raw
        then Inl ''session identity and authorization claims exceed the cookie budget''
        else let retained = retain (fits_cookie hmac env base) [] (rev (eligible_entries payload)) in
          Inr (base\<lparr>consistencyRequirements := (if retained = [] then None else Some (obj_of retained))\<rparr>)))"

definition createSession :: "hmac \<Rightarrow> env \<Rightarrow> session \<Rightarrow> string outcome" where
  "createSession hmac env payload = andthen (boundedSession hmac env payload) (encodeSession hmac env)"

text \<open>The strings of a list that passes the test.\<close>

definition validStringList :: "json option \<Rightarrow> nat \<Rightarrow> string list option" where
  "validStringList value maximumItems = (case value of
     Some (JArr vs) \<Rightarrow>
       if length vs \<le> maximumItems
          \<and> list_all (\<lambda>v. case v of JStr s \<Rightarrow> 0 < length s \<and> length s \<le> 64 | _ \<Rightarrow> False) vs
       then Some (map (\<lambda>v. case v of JStr s \<Rightarrow> s | _ \<Rightarrow> '''') vs) else None
   | _ \<Rightarrow> None)"

text \<open>\<^verbatim>\<open>Object.entries\<close> of an object or array.\<close>

definition object_entries :: "json \<Rightarrow> (string \<times> json) list" where
  "object_entries v = (case v of JObj kvs \<Rightarrow> kvs | JArr vs \<Rightarrow> zip (map nat_string [0..<length vs]) vs | _ \<Rightarrow> [])"

text \<open>The entries, when there are at most \<open>n\<close>, every key has 1 to \<open>m\<close> characters and every value is a
  string of \<open>lo\<close> to 2048 characters.\<close>

definition token_entries :: "nat \<Rightarrow> nat \<Rightarrow> nat \<Rightarrow> json \<Rightarrow> params option" where
  "token_entries n m lo v =
     (if n < length (object_entries v)
         \<or> list_ex (\<lambda>(accountId, token). length accountId = 0 \<or> m < length accountId
             \<or> (case token of JStr t \<Rightarrow> length t < lo \<or> maxConsistencyTokenLength < length t | _ \<Rightarrow> True)) (object_entries v)
      then None
      else Some (map (\<lambda>(k, t). (k, case t of JStr s \<Rightarrow> s | _ \<Rightarrow> '''')) (object_entries v)))"

definition valid_requirements :: "json option \<Rightarrow> params option option" where
  "valid_requirements v = (case v of
     None \<Rightarrow> Some None
   | Some requirements \<Rightarrow>
       if \<not> is_object requirements then None
       else map_option Some (token_entries maxConsistencyRequirements maxConsistencyAccountIDLength 0 requirements))"

definition valid_authentication_time :: "int \<Rightarrow> json option \<Rightarrow> jsnum option" where
  "valid_authentication_time now v = (case as_number v of
     Some t \<Rightarrow> if \<not> jsnum_le t (Fin 0) \<and> jsnum_le t (jsint (now + 30000)) then Some t else None
   | None \<Rightarrow> None)"

definition session_of_claims :: "int \<Rightarrow> json \<Rightarrow> session option" where
  "session_of_claims now parsed =
     (case (as_string (field ''subjectId'' parsed), as_string (field ''tenantId'' parsed),
            as_string (field ''csrfToken'' parsed), as_number (field ''expiresAt'' parsed)) of
        (Some subject, Some tenant, Some csrf, Some expires) \<Rightarrow>
          if jsnum_le expires (jsint now) then None
          else (case valid_requirements (field ''consistencyRequirements'' parsed) of
                  None \<Rightarrow> None
                | Some requirements \<Rightarrow> Some
                    \<lparr>subjectId = subject, tenantId = tenant, csrfToken = csrf, expiresAt = expires,
                     authenticatedAt = valid_authentication_time now (field ''authenticatedAt'' parsed),
                     roles = validStringList (field ''roles'' parsed) maxSessionRoles,
                     scopes = validStringList (field ''scopes'' parsed) maxSessionScopes,
                     consistencyRequirements = requirements\<rparr>)
      | _ \<Rightarrow> None)"

definition readSession :: "hmac \<Rightarrow> env \<Rightarrow> int \<Rightarrow> string option \<Rightarrow> session option" where
  "readSession hmac env now cookie = (case cookie of None \<Rightarrow> None | Some raw \<Rightarrow>
     if raw = [] then None
     else let parts = split_on CHR ''.'' raw in
       if maxSessionCookieValueBytes < length raw \<or> length parts \<noteq> 2 \<or> 64 < length (parts ! 1) then None
       else case sign hmac env (parts ! 0) of Inl _ \<Rightarrow> None | Inr signature \<Rightarrow>
         if length (bytes_of signature) \<noteq> length (bytes_of (parts ! 1)) \<or> bytes_of signature \<noteq> bytes_of (parts ! 1) then None
         else case Option.bind (utf8_decode (from_base64url (parts ! 0))) JSON_parse of
           None \<Rightarrow> None
         | Some parsed \<Rightarrow> session_of_claims now parsed)"

record cookie =
  cookie_name :: string
  cookie_value :: string
  httpOnly :: bool
  sameSite :: string
  cookie_secure :: bool
  cookie_path :: string
  maxAge :: nat

definition sessionCookie :: "url_parser \<Rightarrow> env \<Rightarrow> string \<Rightarrow> cookie outcome" where
  "sessionCookie new_URL env value = andthen (readPublicOrigin new_URL env) (\<lambda>_.
     (let policy = authenticationCookiePolicy env in
      Inr \<lparr>cookie_name = sessionName policy, cookie_value = value, httpOnly = True, sameSite = ''lax'',
        cookie_secure = secure policy, cookie_path = ''/'', maxAge = 60 * 30\<rparr>))"

definition expiredSessionCookie :: "url_parser \<Rightarrow> env \<Rightarrow> cookie outcome" where
  "expiredSessionCookie new_URL env = andthen (sessionCookie new_URL env '''') (\<lambda>c. Inr (c\<lparr>maxAge := 0\<rparr>))"

section \<open>Signed sessions: lemmas\<close>

text \<open>What is documented of HMAC-SHA-256: the digest has 32 bytes.\<close>

definition sha256_hmac :: "hmac \<Rightarrow> bool" where
  "sha256_hmac hmac = (\<forall>k m. length (hmac k m) = 32 \<and> list_all (\<lambda>b. b < 256) (hmac k m))"

lemma sign_shape:
  assumes "sha256_hmac hmac" "sign hmac env p = Inr g"
  shows "length g = 43 \<and> CHR ''.'' \<notin> set g"
  using assms base64url_no_dot length_base64url unfolding sha256_hmac_def sign_def by (auto simp: andthen_eq_Inr)

lemma retain_shape: "\<exists>zs. retain fits kept es = zs @ kept \<and> subseq zs (rev es)"
proof (induction es arbitrary: kept)
  case (Cons e es)
  obtain zs where z: "retain fits (if fits (e # kept) then e # kept else kept) es = zs @ (if fits (e # kept) then e # kept else kept)"
    "subseq zs (rev es)" using Cons by blast
  show ?case
  proof (cases "fits (e # kept)")
    case True
    then show ?thesis using z by (intro exI [of _ "zs @ [e]"]) (auto intro: list_emb_append_mono)
  next
    case False
    then show ?thesis using z by (intro exI [of _ zs]) (auto intro: list_emb_append2)
  qed
qed (simp add: exI [of _ "[]"])

lemma retain_fits: "retain fits kept es = kept \<or> fits (retain fits kept es)"
proof (induction es arbitrary: kept)
  case (Cons e es)
  show ?case
  proof (cases "fits (e # kept)")
    case True
    then show ?thesis using Cons [of "e # kept"] by auto
  qed (use Cons in simp)
qed simp

lemma subseq_objects: "subseq xs ys \<Longrightarrow> distinct (map fst ys) \<Longrightarrow> distinct (map fst xs) \<and> set xs \<subseteq> set ys"
proof (induction xs ys rule: list_emb.induct)
  case (list_emb_Cons2 x y xs ys)
  then show ?case by (auto simp: image_iff)
qed auto

lemma subseq_set: "subseq xs ys \<Longrightarrow> set xs \<subseteq> set ys"
  by (induction xs ys rule: list_emb.induct) auto

definition requirement_entries :: "session \<Rightarrow> params" where
  "requirement_entries s = (case consistencyRequirements s of None \<Rightarrow> [] | Some ps \<Rightarrow> ps)"

lemma subseq_eligible: "subseq (eligible_entries s) (requirement_entries s)"
  unfolding eligible_entries_def slice_last_def requirement_entries_def
  by (rule subseq_order.trans [OF suffix_imp_subseq [OF suffix_drop] subseq_filter_left])

lemma eligible_bounds:
  "length (eligible_entries s) \<le> maxConsistencyRequirements"
  "list_all (\<lambda>(a, t). 0 < length a \<and> length a \<le> maxConsistencyAccountIDLength \<and> length t \<le> maxConsistencyTokenLength) (eligible_entries s)"
  unfolding eligible_entries_def slice_last_def by (auto simp: list_all_iff dest: in_set_dropD)

text \<open>A session as the program creates it: times are whole milliseconds, the roles and scopes are
  within their limits, and the account identifiers are distinct and not array indexes.\<close>

definition names_within :: "nat \<Rightarrow> string list option \<Rightarrow> bool" where
  "names_within n xs = (case xs of None \<Rightarrow> True | Some ss \<Rightarrow> length ss \<le> n \<and> list_all (\<lambda>s. 0 < length s \<and> length s \<le> 64) ss)"

definition time_within :: "int \<Rightarrow> int \<Rightarrow> jsnum \<Rightarrow> bool" where
  "time_within lo hi t = (case t of Fin q \<Rightarrow> q = of_int \<lfloor>q\<rfloor> \<and> lo < \<lfloor>q\<rfloor> \<and> \<lfloor>q\<rfloor> \<le> hi | Infinity _ \<Rightarrow> False)"

definition live_session :: "int \<Rightarrow> session \<Rightarrow> bool" where
  "live_session now s = (0 \<le> now \<and> now + 30000 \<le> 2 ^ 53 \<and> time_within now (2 ^ 53) (expiresAt s)
     \<and> (case authenticatedAt s of None \<Rightarrow> True | Some t \<Rightarrow> time_within 0 (now + 30000) t)
     \<and> names_within maxSessionRoles (roles s) \<and> names_within maxSessionScopes (scopes s)
     \<and> distinct (map fst (requirement_entries s))
     \<and> list_all (\<lambda>(a, t). \<not> is_array_index a) (requirement_entries s))"

lemma time_within_facts:
  assumes "time_within lo hi t" "\<bar>lo\<bar> \<le> 2 ^ 53" "hi \<le> 2 ^ 53"
  shows "plain_json (JNum t)" "\<not> jsnum_le t (jsint lo)" "jsnum_le t (jsint hi)"
proof -
  obtain i where t: "t = jsint i" "lo < i" "i \<le> hi"
    using assms(1) by (auto simp: time_within_def split: jsnum.splits)
  have "\<bar>i\<bar> \<le> 2 ^ 53" using t assms(2,3) by linarith
  then have "\<bar>of_int i :: rat\<bar> \<le> of_int (2 ^ 53)" by (metis of_int_abs of_int_le_iff)
  then show "plain_json (JNum t)" using t by simp
  show "\<not> jsnum_le t (jsint lo)" "jsnum_le t (jsint hi)" using t by simp_all
qed

lemma validStringList_written: "names_within n xs \<Longrightarrow> validStringList (map_option json_strings xs) n = xs"
  by (cases xs) (simp_all add: names_within_def validStringList_def json_strings_def list_all_iff o_def)

lemma token_entries_written:
  "length ps \<le> n \<Longrightarrow> list_all (\<lambda>(a, t). 0 < length a \<and> length a \<le> m \<and> lo \<le> length t \<and> length t \<le> maxConsistencyTokenLength) ps \<Longrightarrow>
     token_entries n m lo (json_params ps) = Some ps"
  by (auto simp: token_entries_def object_entries_def json_params_def list_ex_iff list_all_iff o_def split_def)

text \<open>The object written for a session, seen through its properties.\<close>

lemma session_fields:
  "field ''subjectId'' (session_json s) = Some (JStr (subjectId s))"
  "field ''tenantId'' (session_json s) = Some (JStr (tenantId s))"
  "field ''csrfToken'' (session_json s) = Some (JStr (csrfToken s))"
  "field ''expiresAt'' (session_json s) = Some (JNum (expiresAt s))"
  "field ''authenticatedAt'' (session_json s) = map_option JNum (authenticatedAt s)"
  "field ''roles'' (session_json s) = map_option json_strings (roles s)"
  "field ''scopes'' (session_json s) = map_option json_strings (scopes s)"
  "field ''consistencyRequirements'' (session_json s) = map_option json_params (consistencyRequirements s)"
  by (simp_all add: session_json_def optional_member_def split: option.splits)

lemma session_json_plain:
  assumes "live_session now s"
  shows "plain_json (session_json s)"
proof -
  have n: "\<bar>now\<bar> \<le> 2 ^ 53" using assms by (simp add: live_session_def)
  have "time_within now (2 ^ 53) (expiresAt s)" using assms unfolding live_session_def by blast
  then have "plain_json (JNum (expiresAt s))" by (rule time_within_facts(1) [OF _ n order.refl])
  moreover have "plain_json (JNum t)" if "authenticatedAt s = Some t" for t
    using assms that time_within_facts(1) [of 0 "now + 30000" t] by (simp add: live_session_def)
  moreover have "plain_json (json_params ps)" if "consistencyRequirements s = Some ps" for ps
    using assms that by (auto simp: live_session_def requirement_entries_def json_params_def list_all_iff o_def split_def)
  ultimately show ?thesis
    by (auto simp: session_json_def optional_member_def json_strings_def list_all_iff is_array_index_def canonical_nat_def all_digits_def
        char_class_defs simp del: plain_json.simps(3) split: option.splits)
qed

lemma encoded_shape:
  assumes "sha256_hmac hmac" "encodeSession hmac env s = Inr raw"
  shows "\<exists>p g. raw = p @ CHR ''.'' # g \<and> split_on CHR ''.'' raw = [p, g] \<and> sign hmac env p = Inr g \<and> length g = 43
    \<and> p = base64url (bytes_of (JSON_stringify (session_json s)))"
proof -
  let ?p = "base64url (bytes_of (JSON_stringify (session_json s)))"
  obtain g where g: "sign hmac env ?p = Inr g" "raw = ?p @ CHR ''.'' # g"
    using assms(2) by (auto simp: encodeSession_def andthen_eq_Inr Let_def)
  have "CHR ''.'' \<notin> set ?p" by (rule base64url_no_dot [OF bytes_of_bound])
  then have "split_on CHR ''.'' raw = [?p, g]"
    using sign_shape [OF assms(1) g(1)] by (simp add: g(2) split_on_append split_on_no_sep)
  then show ?thesis using g sign_shape [OF assms(1) g(1)] by blast
qed

lemma claims_read:
  assumes live: "live_session now s" and "length (requirement_entries s) \<le> maxConsistencyRequirements"
    and "list_all (\<lambda>(a, t). 0 < length a \<and> length a \<le> maxConsistencyAccountIDLength \<and> length t \<le> maxConsistencyTokenLength) (requirement_entries s)"
  shows "session_of_claims now (session_json s) = Some s"
proof -
  have n: "\<bar>now\<bar> \<le> 2 ^ 53" "now + 30000 \<le> 2 ^ 53" using live by (simp_all add: live_session_def)
  have "token_entries maxConsistencyRequirements maxConsistencyAccountIDLength 0 (json_params ps) = Some ps"
    if "consistencyRequirements s = Some ps" for ps
    using assms(2,3) that by (intro token_entries_written) (auto simp: requirement_entries_def)
  then have requirements: "valid_requirements (map_option json_params (consistencyRequirements s)) = Some (consistencyRequirements s)"
    by (cases "consistencyRequirements s") (simp_all add: valid_requirements_def json_params_def)
  have lists: "validStringList (map_option json_strings (roles s)) maxSessionRoles = roles s"
    "validStringList (map_option json_strings (scopes s)) maxSessionScopes = scopes s"
    using live unfolding live_session_def by (blast intro: validStringList_written)+
  have "time_within now (2 ^ 53) (expiresAt s)" using live unfolding live_session_def by blast
  then have unexpired: "\<not> jsnum_le (expiresAt s) (jsint now)" by (rule time_within_facts(2) [OF _ n(1) order.refl])
  have "\<not> jsnum_le t (Fin 0) \<and> jsnum_le t (jsint (now + 30000))" if "authenticatedAt s = Some t" for t
  proof -
    have "time_within 0 (now + 30000) t" using live that unfolding live_session_def by simp
    then show ?thesis using time_within_facts(2,3) [of 0 "now + 30000" t] n(2) by simp
  qed
  then have authenticated: "valid_authentication_time now (map_option JNum (authenticatedAt s)) = authenticatedAt s"
    by (cases "authenticatedAt s") (simp_all add: valid_authentication_time_def)
  show ?thesis
    by (simp add: session_of_claims_def session_fields requirements lists authenticated unexpired)
qed

lemma readSession_encoded:
  assumes "sha256_hmac hmac" "encodeSession hmac env s = Inr raw" "length raw \<le> maxSessionCookieValueBytes" "live_session now s"
  shows "readSession hmac env now (Some raw) = session_of_claims now (session_json s)"
proof -
  obtain p g where p: "raw = p @ CHR ''.'' # g" "split_on CHR ''.'' raw = [p, g]" "sign hmac env p = Inr g" "length g = 43"
    "p = base64url (bytes_of (JSON_stringify (session_json s)))"
    using encoded_shape [OF assms(1,2)] by blast
  have "Option.bind (utf8_decode (from_base64url p)) JSON_parse = Some (session_json s)"
    using JSON_roundtrip [OF session_json_plain [OF assms(4)]] by (simp add: p(5) base64url_text)
  moreover have "raw \<noteq> []" by (simp add: p(1))
  ultimately show ?thesis using assms(3) p(4) by (simp add: readSession_def Let_def p(2,3))
qed

lemma bounded_facts:
  assumes "boundedSession hmac env payload = Inr s"
  obtains kept where "subseq kept (eligible_entries payload)"
    and "s = payload\<lparr>consistencyRequirements := (if kept = [] then None else Some (obj_of kept))\<rparr>"
    and "kept = retain (fits_cookie hmac env (payload\<lparr>consistencyRequirements := None\<rparr>)) [] (rev (eligible_entries payload))"
    and "\<exists>raw. encodeSession hmac env s = Inr raw \<and> length raw \<le> maxSessionCookieValueBytes"
proof -
  let ?base = "payload\<lparr>consistencyRequirements := None\<rparr>"
  define kept where "kept = retain (fits_cookie hmac env ?base) [] (rev (eligible_entries payload))"
  obtain raw where raw: "encodeSession hmac env ?base = Inr raw" "length raw \<le> maxSessionCookieValueBytes"
    and s: "s = ?base\<lparr>consistencyRequirements := (if kept = [] then None else Some (obj_of kept))\<rparr>"
    using assms by (auto simp: boundedSession_def andthen_eq_Inr Let_def kept_def split: if_splits)
  have "subseq kept (eligible_entries payload)"
    using retain_shape [of "fits_cookie hmac env ?base" "[]" "rev (eligible_entries payload)"] by (auto simp: kept_def)
  moreover have "\<exists>raw. encodeSession hmac env s = Inr raw \<and> length raw \<le> maxSessionCookieValueBytes"
  proof (cases "kept = []")
    case True
    then show ?thesis using raw s by auto
  next
    case False
    then have "fits_cookie hmac env ?base kept"
      using retain_fits [of "fits_cookie hmac env ?base" "[]" "rev (eligible_entries payload)"] by (simp add: kept_def)
    then show ?thesis using False by (auto simp: fits_cookie_def s split: sum.splits)
  qed
  ultimately show thesis using that [of kept] s kept_def by simp
qed

lemma retain_newest: "fits [e] \<Longrightarrow> \<exists>zs. retain fits [] (rev (es @ [e])) = zs @ [e]"
  using retain_shape [of fits "[e]" "rev es"] by auto

lemma written_session_reads:
  assumes "sha256_hmac hmac" "live_session now payload" "createSession hmac env payload = Inr raw"
  shows "length raw \<le> maxSessionCookieValueBytes
    \<and> (\<exists>kept. readSession hmac env now (Some raw) = Some (payload\<lparr>consistencyRequirements := (if kept = [] then None else Some kept)\<rparr>)
         \<and> subseq kept (eligible_entries payload)
         \<and> (eligible_entries payload \<noteq> []
            \<and> fits_cookie hmac env (payload\<lparr>consistencyRequirements := None\<rparr>) [last (eligible_entries payload)] \<longrightarrow>
              kept \<noteq> [] \<and> last kept = last (eligible_entries payload)))"
proof -
  obtain s where s: "boundedSession hmac env payload = Inr s" "encodeSession hmac env s = Inr raw"
    using assms(3) by (auto simp: createSession_def andthen_eq_Inr)
  obtain kept where kept: "subseq kept (eligible_entries payload)"
      "s = payload\<lparr>consistencyRequirements := (if kept = [] then None else Some (obj_of kept))\<rparr>"
      "kept = retain (fits_cookie hmac env (payload\<lparr>consistencyRequirements := None\<rparr>)) [] (rev (eligible_entries payload))"
      and len: "length raw \<le> maxSessionCookieValueBytes"
    using bounded_facts [OF s(1)] s(2) by (metis Inr_inject)
  have inner: "subseq kept (requirement_entries payload)"
    by (rule subseq_order.trans [OF kept(1) subseq_eligible])
  have d: "distinct (map fst (requirement_entries payload))" and ni: "list_all (\<lambda>(a, t). \<not> is_array_index a) (requirement_entries payload)"
    using assms(2) unfolding live_session_def by blast+
  have dk: "distinct (map fst kept)" and sub: "set kept \<subseteq> set (requirement_entries payload)"
    using subseq_objects [OF inner d] by blast+
  have nk: "list_all (\<lambda>(a, t). \<not> is_array_index a) kept" using ni sub by (auto simp: list_all_iff)
  have o: "obj_of kept = kept" using nk by (intro obj_of_ordinary dk) (auto simp: list_all_iff)
  have entries: "requirement_entries s = kept" by (simp add: kept(2) o requirement_entries_def)
  have live: "live_session now s"
    using assms(2) dk nk entries unfolding live_session_def by (simp add: kept(2))
  have el: "list_all (\<lambda>(a, t). 0 < length a \<and> length a \<le> maxConsistencyAccountIDLength \<and> length t \<le> maxConsistencyTokenLength) kept"
    using eligible_bounds(2) [of payload] subseq_set [OF kept(1)] by (auto simp: list_all_iff)
  have "length kept \<le> maxConsistencyRequirements"
    using list_emb_length [OF kept(1)] eligible_bounds(1) [of payload] by simp
  then have "readSession hmac env now (Some raw) = Some s"
    using readSession_encoded [OF assms(1) s(2) len live] claims_read [OF live] el entries by simp
  moreover have "kept \<noteq> [] \<and> last kept = last (eligible_entries payload)"
    if "eligible_entries payload \<noteq> []"
      "fits_cookie hmac env (payload\<lparr>consistencyRequirements := None\<rparr>) [last (eligible_entries payload)]"
    using retain_newest [of "fits_cookie hmac env (payload\<lparr>consistencyRequirements := None\<rparr>)" "last (eligible_entries payload)"
        "butlast (eligible_entries payload)"] that kept(3) by auto
  ultimately show ?thesis using len kept(1,2) o by auto
qed

section \<open>Signed sessions: properties\<close>

text \<open>C32: A signed session survives its cookie. Whenever a session can be written, the cookie has at
  most 3584 characters, and reading it back before it expires yields the same session, identity,
  authorization and times included, with a part of its consistency requirements: a subsequence of the
  ten newest eligible ones, which holds the newest of all whenever that one alone fits.\<close>

theorem signed_session_roundtrip:
  assumes "sha256_hmac hmac" "live_session now payload" "createSession hmac env payload = Inr raw"
  shows "length raw \<le> maxSessionCookieValueBytes
    \<and> (\<exists>kept. readSession hmac env now (Some raw) = Some (payload\<lparr>consistencyRequirements := (if kept = [] then None else Some kept)\<rparr>)
         \<and> subseq kept (eligible_entries payload)
         \<and> (eligible_entries payload \<noteq> []
            \<and> fits_cookie hmac env (payload\<lparr>consistencyRequirements := None\<rparr>) [last (eligible_entries payload)] \<longrightarrow>
              kept \<noteq> [] \<and> last kept = last (eligible_entries payload)))"
  by (rule written_session_reads [OF assms])

definition sample_hmac :: hmac where
  "sample_hmac k m = replicate 32 (length m mod 256)"

definition sample_secret_env :: env where
  "sample_secret_env = [''LEDGERSYNC_WEB_SESSION_SECRET'' \<mapsto> replicate 32 CHR ''s'']"

definition sample_signed :: session where
  "sample_signed = \<lparr>subjectId = ''alice'', tenantId = ''acme'', csrfToken = ''t'', expiresAt = Fin 90,
     authenticatedAt = Some (Fin 50), roles = Some [''tenant:operator''], scopes = None,
     consistencyRequirements = Some [(''acc-1'', ''tok'')]\<rparr>"

lemma encoded_length:
  assumes "sha256_hmac hmac" "secret env = Inr k"
  shows "\<exists>raw. encodeSession hmac env s = Inr raw \<and> length raw = (4 * length (bytes_of (JSON_stringify (session_json s))) + 2) div 3 + 44"
  using assms by (simp add: encodeSession_def sign_def Let_def length_base64url sha256_hmac_def)

lemma sample_signed_facts:
  "sha256_hmac sample_hmac" "live_session 60 sample_signed" "secret sample_secret_env = Inr (replicate 32 CHR ''s'')"
  "length (bytes_of (JSON_stringify (session_json sample_signed))) \<le> 300"
  "length (bytes_of (JSON_stringify (session_json (sample_signed\<lparr>consistencyRequirements := None\<rparr>)))) \<le> 300"
  "eligible_entries sample_signed = [(''acc-1'', ''tok'')]" "obj_of [(''acc-1'', ''tok'')] = [(''acc-1'', ''tok'')]"
  subgoal by (simp add: sha256_hmac_def sample_hmac_def)
  subgoal by (simp add: live_session_def sample_signed_def time_within_def names_within_def requirement_entries_def session_limits
      is_array_index_def canonical_nat_def all_digits_def char_class_defs)
  subgoal by (simp add: secret_def sample_secret_env_def)
  subgoal by code_simp
  subgoal by code_simp
  subgoal by code_simp
  subgoal by code_simp
  done

lemma small_session_fits:
  assumes "length (bytes_of (JSON_stringify (session_json s))) \<le> 300"
  shows "\<exists>raw. encodeSession sample_hmac sample_secret_env s = Inr raw \<and> length raw \<le> maxSessionCookieValueBytes"
proof -
  have "(4 * length (bytes_of (JSON_stringify (session_json s))) + 2) div 3 \<le> (4 * 300 + 2) div 3"
    using assms by (intro div_le_mono) simp
  then show ?thesis
    using encoded_length [OF sample_signed_facts(1,3), of s] by (auto simp: maxSessionCookieValueBytes_def)
qed

lemma sample_fits:
  "fits_cookie sample_hmac sample_secret_env (sample_signed\<lparr>consistencyRequirements := None\<rparr>) [(''acc-1'', ''tok'')]"
proof -
  have "sample_signed\<lparr>consistencyRequirements := Some [(''acc-1'', ''tok'')]\<rparr> = sample_signed" by (simp add: sample_signed_def)
  then show ?thesis using small_session_fits [OF sample_signed_facts(4)] by (auto simp: fits_cookie_def sample_signed_facts(7))
qed

theorem signed_session_roundtrip_witness:
  "\<exists>raw. createSession sample_hmac sample_secret_env sample_signed = Inr raw
     \<and> readSession sample_hmac sample_secret_env 60 (Some raw) = Some sample_signed"
proof -
  let ?base = "sample_signed\<lparr>consistencyRequirements := None\<rparr>"
  have same: "?base\<lparr>consistencyRequirements := Some [(''acc-1'', ''tok'')]\<rparr> = sample_signed"
    "sample_signed\<lparr>consistencyRequirements := Some [(''acc-1'', ''tok'')]\<rparr> = sample_signed" by (simp_all add: sample_signed_def)
  have "boundedSession sample_hmac sample_secret_env sample_signed = Inr sample_signed"
    using small_session_fits [OF sample_signed_facts(5)] sample_fits same
    by (auto simp: boundedSession_def Let_def sample_signed_facts(6,7))
  then obtain raw where raw: "createSession sample_hmac sample_secret_env sample_signed = Inr raw"
    using small_session_fits [OF sample_signed_facts(4)] by (auto simp: createSession_def)
  obtain kept where kept: "subseq kept [(''acc-1'', ''tok'')]" "kept \<noteq> []"
    "readSession sample_hmac sample_secret_env 60 (Some raw) =
       Some (sample_signed\<lparr>consistencyRequirements := (if kept = [] then None else Some kept)\<rparr>)"
    using signed_session_roundtrip [OF sample_signed_facts(1,2) raw] sample_fits unfolding sample_signed_facts(6) by auto
  then have "kept = [(''acc-1'', ''tok'')]" by (cases kept) (auto split: if_splits)
  then show ?thesis using raw kept(3) same by auto
qed

lemma validStringList_within: "names_within n (validStringList v n)"
  by (auto simp: validStringList_def names_within_def list_all_iff split: option.splits json.splits if_splits)

lemma token_entries_within:
  "token_entries n m lo v = Some ps \<Longrightarrow>
     length ps \<le> n \<and> list_all (\<lambda>(a, t). 0 < length a \<and> length a \<le> m \<and> lo \<le> length t \<and> length t \<le> maxConsistencyTokenLength) ps"
  by (auto simp: token_entries_def list_ex_iff list_all_iff split: if_splits json.splits prod.splits) fastforce+

definition requirements_within :: "nat \<Rightarrow> session \<Rightarrow> bool" where
  "requirements_within lo s = (length (requirement_entries s) \<le> maxConsistencyRequirements
     \<and> list_all (\<lambda>(a, t). 0 < length a \<and> length a \<le> maxConsistencyAccountIDLength \<and> lo \<le> length t \<and> length t \<le> maxConsistencyTokenLength)
         (requirement_entries s))"

lemma valid_requirements_within:
  assumes "valid_requirements v = Some (consistencyRequirements s)"
  shows "requirements_within 0 s"
proof (cases "consistencyRequirements s")
  case (Some ps)
  then obtain r where "token_entries maxConsistencyRequirements maxConsistencyAccountIDLength 0 r = Some ps"
    using assms by (auto simp: valid_requirements_def split: option.splits if_splits)
  from token_entries_within [OF this] Some show ?thesis by (simp add: requirements_within_def requirement_entries_def)
qed (simp add: requirements_within_def requirement_entries_def)

lemma session_of_claims_sound:
  assumes "session_of_claims now v = Some s"
  shows "\<not> jsnum_le (expiresAt s) (jsint now) \<and> names_within maxSessionRoles (roles s) \<and> names_within maxSessionScopes (scopes s)
    \<and> requirements_within 0 s"
proof -
  have "valid_requirements (field ''consistencyRequirements'' v) = Some (consistencyRequirements s)"
    using assms by (auto simp: session_of_claims_def split: option.splits if_splits)
  then have "requirements_within 0 s" by (rule valid_requirements_within)
  then show ?thesis
    using assms by (auto simp: session_of_claims_def validStringList_within split: option.splits if_splits)
qed

text \<open>C33: A session cookie is accepted only under the server's signature. Whenever a cookie is read as
  a session, it is a payload followed by the base64url HMAC of exactly that payload under a secret of at
  least 32 characters; the session is what the payload claims, it has not expired, and its roles, scopes
  and requirements are within their limits.\<close>

theorem session_needs_signature:
  assumes "readSession hmac env now cookie = Some s"
  shows "\<exists>k p claims. secret env = Inr k \<and> 32 \<le> length k
    \<and> cookie = Some (p @ ''.'' @ base64url (hmac k (bytes_of p)))
    \<and> Option.bind (utf8_decode (from_base64url p)) JSON_parse = Some claims \<and> session_of_claims now claims = Some s
    \<and> \<not> jsnum_le (expiresAt s) (jsint now)
    \<and> names_within maxSessionRoles (roles s) \<and> names_within maxSessionScopes (scopes s) \<and> requirements_within 0 s"
proof -
  obtain raw p g where c: "cookie = Some raw" "split_on CHR ''.'' raw = [p, g]" and g: "sign hmac env p = Inr g"
    and claims: "Option.bind (Option.bind (utf8_decode (from_base64url p)) JSON_parse) (session_of_claims now) = Some s"
    using assms
    by (auto simp: readSession_def Let_def length_Suc_conv numeral_2_eq_2 Option.bind_eq_Some_conv
        split: option.splits if_splits sum.splits)
  obtain k where k: "secret env = Inr k" "g = base64url (hmac k (bytes_of p))"
    using g by (auto simp: sign_def andthen_eq_Inr)
  have "32 \<le> length k" using k(1) by (auto simp: secret_def split: option.splits if_splits)
  moreover have "raw = p @ ''.'' @ g" using join_split_on [of "CHR ''.''" raw] c(2) by simp
  moreover obtain v where v: "Option.bind (utf8_decode (from_base64url p)) JSON_parse = Some v" "session_of_claims now v = Some s"
    using claims by (auto simp: Option.bind_eq_Some_conv)
  ultimately show ?thesis using k c(1) session_of_claims_sound [OF v(2)] by auto
qed

theorem session_needs_signature_witness:
  "\<exists>p. readSession sample_hmac sample_secret_env 60 (Some (p @ ''.'' @ base64url (replicate 32 (length (bytes_of p) mod 256)))) \<noteq> None"
proof -
  obtain raw where raw: "encodeSession sample_hmac sample_secret_env sample_signed = Inr raw" "length raw \<le> maxSessionCookieValueBytes"
    using small_session_fits [OF sample_signed_facts(4)] by blast
  have "length (requirement_entries sample_signed) \<le> maxConsistencyRequirements
    \<and> list_all (\<lambda>(a, t). 0 < length a \<and> length a \<le> maxConsistencyAccountIDLength \<and> length t \<le> maxConsistencyTokenLength) (requirement_entries sample_signed)"
    by code_simp
  then have r: "readSession sample_hmac sample_secret_env 60 (Some raw) = Some sample_signed"
    using readSession_encoded [OF sample_signed_facts(1) raw sample_signed_facts(2)] claims_read [OF sample_signed_facts(2)] by simp
  then show ?thesis using session_needs_signature [OF r] by (auto simp: sample_hmac_def)
qed

end
