(* ===== verification/SessionStore.thy ===== *)
theory SessionStore
  imports Session
begin

text \<open>
  The opaque session of \<^verbatim>\<open>web/src/lib/session.ts\<close> (its handle is in the browser, its contents in the
  private store), the consistency metadata of \<^verbatim>\<open>committed-response.ts\<close>, the transfer proxy of
  \<^verbatim>\<open>transfer-mutation.ts\<close> that updates it, and the actor assertion of \<^verbatim>\<open>actor-assertion.ts\<close>.

  An operation yields the requests it sent, the metric lines it logged and its result.
\<close>

section \<open>The store\<close>

type_synonym 'a stored_call = "upstream_request list \<times> string list \<times> 'a outcome"

definition session_api :: "env \<Rightarrow> string" where
  "session_api env = (case env ''LEDGERSYNC_PRIVATE_API_URL'' of None \<Rightarrow> '''' | Some v \<Rightarrow> strip_slash (trim v))"

definition store_outcome :: "string \<Rightarrow> json \<Rightarrow> string" where
  "store_outcome path body =
     (if endsWith path ''/resolve'' then ''resolved'' else if endsWith path ''/revoke'' then ''revoked''
      else if endsWith path ''/consistency'' then ''consistency_updated''
      else if (case field ''rotate_token'' body of Some (JStr t) \<Rightarrow> t \<noteq> [] | _ \<Rightarrow> False) then ''rotated'' else ''created'')"

text \<open>The body of a successful answer: at most 16384 bytes of JSON; a value that is not an object is \<^verbatim>\<open>null\<close>.\<close>

definition store_body :: "body_read \<Rightarrow> json option outcome" where
  "store_body b = (case b of
     Body raw \<Rightarrow>
       if 16 * 1024 < byte_length raw then Inl ''private session response is too large''
       else (case JSON_parse raw of
               None \<Rightarrow> Inl ''private session response is malformed''
             | Some value \<Rightarrow> Inr (if isRecord value then Some value else None))
   | Body_timeout \<Rightarrow> Inl ''TimeoutError''
   | Body_error \<Rightarrow> Inl ''TypeError'')"

definition sessionStoreRequest :: "server \<Rightarrow> string \<Rightarrow> string \<Rightarrow> json \<Rightarrow> json option stored_call" where
  "sessionStoreRequest srv path meth body =
     (let api = session_api (srv_env srv); metric = emitGuardrailMetric (srv_env srv) ''session'' in
      if api = '''' then ([], [], Inl ''private session store is unavailable'')
      else case srv_credential srv of
        Inl _ \<Rightarrow> ([], metric ''unavailable'', Inl ''private session store request failed'')
      | Inr credential \<Rightarrow>
          (let out = \<lparr>out_url = api @ path, out_method = meth,
               out_headers = [(''Authorization'', ''Bearer '' @ credential), (''Content-Type'', ''application/json''),
                 (''Accept'', ''application/json''), (''X-Request-ID'', srv_uuid srv)],
               out_body = Some (JSON_stringify body)\<rparr> in
           case srv_fetch srv out of
             Fetched up \<Rightarrow>
               if up_status up = 401 \<or> up_status up = 404 then ([out], metric ''rejected'', Inr None)
               else if \<not> ok up then ([out], metric ''unavailable'', Inl ''private session store request failed'')
               else ([out], metric (store_outcome path body),
                     if up_status up = 204 then Inr (Some (JObj [])) else store_body (up_text up))
           | _ \<Rightarrow> ([out], metric ''unavailable'', Inl ''private session store request failed'')))"

definition opaqueToken_shape :: rx where
  "opaqueToken_shape = RRep (RSet (\<lambda>c. is_alnum c \<or> one_of ''_-'' c)) 43 43"

definition opaqueToken :: "json option \<Rightarrow> bool" where
  "opaqueToken v = (case v of Some (JStr s) \<Rightarrow> rx_test opaqueToken_shape s | _ \<Rightarrow> False)"

definition sessionFromStore :: "int \<Rightarrow> json option \<Rightarrow> session option" where
  "sessionFromStore now response = (case response of None \<Rightarrow> None | Some value \<Rightarrow>
     (case (as_string (field ''subject_id'' value), as_string (field ''tenant_id'' value),
            as_string (field ''csrf_token'' value), as_number (field ''expires_at'' value)) of
        (Some subject, Some tenant, Some csrf, Some expires) \<Rightarrow>
          if jsnum_le expires (jsint now) then None
          else (case (validStringList (field ''roles'' value) maxSessionRoles, validStringList (field ''scopes'' value) maxSessionScopes) of
                  (Some rs, Some ss) \<Rightarrow>
                    (case (case field ''consistency_requirements'' value of
                             None \<Rightarrow> Some None
                           | Some requirements \<Rightarrow>
                               if \<not> isRecord requirements then None
                               else map_option Some (token_entries maxConsistencyRequirements maxConsistencyAccountIDLength 1 requirements)) of
                       None \<Rightarrow> None
                     | Some requirements \<Rightarrow> Some
                         \<lparr>subjectId = subject, tenantId = tenant, csrfToken = csrf, expiresAt = expires,
                          authenticatedAt = (case as_number (field ''authenticated_at'' value) of
                             Some t \<Rightarrow> if jsnum_le t (Fin 0) then None else Some t
                           | None \<Rightarrow> None),
                          roles = Some rs, scopes = Some ss, consistencyRequirements = requirements\<rparr>)
                | _ \<Rightarrow> None)
      | _ \<Rightarrow> None))"

definition creation_body :: "session \<Rightarrow> string option \<Rightarrow> json" where
  "creation_body bounded rotateToken = JObj
     ([(''subject_id'', JStr (subjectId bounded)), (''tenant_id'', JStr (tenantId bounded)), (''csrf_token'', JStr (csrfToken bounded)),
       (''expires_at'', JNum (expiresAt bounded)),
       (''authenticated_at'', JNum (case authenticatedAt bounded of None \<Rightarrow> Fin 0 | Some t \<Rightarrow> t)),
       (''roles'', json_strings (case roles bounded of None \<Rightarrow> [] | Some rs \<Rightarrow> rs)),
       (''scopes'', json_strings (case scopes bounded of None \<Rightarrow> [] | Some ss \<Rightarrow> ss))]
      @ (case rotateToken of Some t \<Rightarrow> if opaqueToken (Some (JStr t)) then [(''rotate_token'', JStr t)] else [] | None \<Rightarrow> []))"

definition issued_token :: "json option \<Rightarrow> string outcome" where
  "issued_token response =
     (let token = Option.bind response (field ''token'') in
      if opaqueToken token then Inr (the (as_string token)) else Inl ''private session creation failed'')"

definition createOpaqueSession :: "hmac \<Rightarrow> server \<Rightarrow> session \<Rightarrow> string option \<Rightarrow> string stored_call" where
  "createOpaqueSession hmac srv payload rotateToken = (case boundedSession hmac (srv_env srv) payload of
     Inl e \<Rightarrow> ([], [], Inl e)
   | Inr bounded \<Rightarrow>
       (case sessionStoreRequest srv ''/api/internal/bff/sessions'' ''POST'' (creation_body bounded rotateToken) of
          (sent, lines, r) \<Rightarrow> (sent, lines, andthen r issued_token)))"

definition token_call :: "server \<Rightarrow> string \<Rightarrow> string \<Rightarrow> string \<Rightarrow> (string \<times> json) list \<Rightarrow> 'a \<Rightarrow> (json option \<Rightarrow> 'a) \<Rightarrow> 'a stored_call" where
  "token_call srv path meth token extra refused result =
     (if \<not> opaqueToken (Some (JStr token)) then ([], [], Inr refused)
      else case sessionStoreRequest srv path meth (JObj ((''token'', JStr token) # extra)) of
        (sent, lines, r) \<Rightarrow> (sent, lines, andthen r (\<lambda>response. Inr (result response))))"

definition resolveOpaqueSession :: "server \<Rightarrow> string \<Rightarrow> session option stored_call" where
  "resolveOpaqueSession srv token =
     token_call srv ''/api/internal/bff/sessions/resolve'' ''POST'' token [] None (sessionFromStore (srv_now srv))"

definition revokeOpaqueSession :: "server \<Rightarrow> string \<Rightarrow> bool stored_call" where
  "revokeOpaqueSession srv token =
     token_call srv ''/api/internal/bff/sessions/revoke'' ''POST'' token [] False (\<lambda>r. r \<noteq> None)"

definition updateOpaqueSessionConsistency :: "server \<Rightarrow> string \<Rightarrow> params \<Rightarrow> bool stored_call" where
  "updateOpaqueSessionConsistency srv token requirements =
     token_call srv ''/api/internal/bff/sessions/consistency'' ''PATCH'' token
       [(''consistency_requirements'', json_params requirements)] False (\<lambda>r. r \<noteq> None)"

section \<open>Consistency metadata\<close>

definition parseConsistencyRequirements :: "string \<Rightarrow> params option" where
  "parseConsistencyRequirements serialized =
     (if length serialized = 0 \<or> 16384 < length serialized then None
      else case JSON_parse serialized of
        None \<Rightarrow> None
      | Some parsed \<Rightarrow>
          if \<not> isRecord parsed \<or> object_entries parsed = [] then None
          else map_option obj_of (token_entries 10 64 1 parsed))"

text \<open>\<^verbatim>\<open>{ ...a, ...b }\<close>\<close>

definition spread :: "params \<Rightarrow> params \<Rightarrow> params" where
  "spread a b = foldl (\<lambda>ob (k, v). obj_put k v ob) a b"

text \<open>The status and the cookies handed to \<open>setCookie\<close>, which may throw.\<close>

definition applyConsistencySessionMetadata ::
  "string \<Rightarrow> session \<Rightarrow> (string \<Rightarrow> unit outcome) \<Rightarrow> (session \<Rightarrow> string outcome) \<Rightarrow> string \<times> string list" where
  "applyConsistencySessionMetadata serialized session setCookie signSession =
     (case parseConsistencyRequirements serialized of
        None \<Rightarrow> (''unavailable'', [])
      | Some parsed \<Rightarrow>
          (let merged = spread (requirement_entries session) parsed in
           if 10 < length merged then (''unavailable'', [])
           else case signSession (session\<lparr>consistencyRequirements := Some merged\<rparr>) of
             Inl _ \<Rightarrow> (''unavailable'', [])
           | Inr written \<Rightarrow> (if threw (setCookie written) then ''unavailable'' else ''complete'', [written])))"

section \<open>The transfer proxy\<close>

definition nonempty :: "string option \<Rightarrow> string option" where
  "nonempty v = (case v of Some x \<Rightarrow> if x = [] then None else Some x | None \<Rightarrow> None)"

definition committed_payload :: string where
  "committed_payload = JSON_stringify (JObj [(''outcome'', JStr ''committed''), (''metadata_status'', JStr ''unavailable''),
     (''recovery_method'', JStr ''POST''), (''reuse_idempotency_key'', JBool True)])"

definition transfer_request :: "connection \<Rightarrow> string \<Rightarrow> json option \<Rightarrow> string option \<Rightarrow> string option \<Rightarrow> upstream_request" where
  "transfer_request connection path body idempotencyKey requestReference =
     \<lparr>out_url = apiURL connection @ path, out_method = ''POST'',
      out_headers = conn_headers connection @ [(''Content-Type'', ''application/json'')]
        @ (case nonempty idempotencyKey of Some k \<Rightarrow> [(''Idempotency-Key'', k)] | None \<Rightarrow> [])
        @ (case nonempty requestReference of Some r \<Rightarrow> [(''X-LedgerSync-Request-Reference'', r)] | None \<Rightarrow> []),
      out_body = map_option JSON_stringify body\<rparr>"

definition transfer_dispatch_error :: "fetch_result \<Rightarrow> string option \<Rightarrow> response" where
  "transfer_dispatch_error failure requestReference =
     (let r = timeout_error ''transfer_outcome_unknown'' failure in
      r\<lparr>resp_headers := set_header_if ''X-LedgerSync-Request-Reference'' (nonempty requestReference) (resp_headers r)\<rparr>)"

definition transfer_headers :: "upstream \<Rightarrow> string option \<Rightarrow> headers" where
  "transfer_headers up requestReference =
     (let get = (\<lambda>n. get_header n (up_headers up));
          h0 = [(''Content-Type'', case get ''content-type'' of None \<Rightarrow> ''application/json'' | Some t \<Rightarrow> t), (''Cache-Control'', ''no-store'')];
          h1 = set_header_if ''Idempotent-Replay'' (nonempty (get ''idempotent-replay'')) h0;
          h2 = set_header_if ''X-Request-ID'' (nonempty (get ''x-request-id'')) h1;
          h3 = set_header ''X-LedgerSync-Request-Reference''
                 (case get ''x-ledgersync-request-reference'' of Some v \<Rightarrow> v
                  | None \<Rightarrow> (case requestReference of Some v \<Rightarrow> v | None \<Rightarrow> '''')) h2;
          h4 = set_header_if ''Retry-After'' (nonempty (get ''retry-after'')) h3 in
      (case get ''x-ledgersync-metadata-status'' of
         Some v \<Rightarrow> if List.member [''complete'', ''partial'', ''unavailable''] v then set_header ''X-LedgerSync-Metadata-Status'' v h4 else h4
       | None \<Rightarrow> h4))"

text \<open>Whether the requirements were stored, and what was sent for it; a store that throws counts as no.\<close>

definition store_metadata :: "server \<Rightarrow> string option \<Rightarrow> string \<Rightarrow> upstream_request list \<times> string list \<times> bool" where
  "store_metadata srv sessionHandle serialized =
     (case (parseConsistencyRequirements serialized, nonempty sessionHandle) of
        (Some requirements, Some handle) \<Rightarrow>
          (case updateOpaqueSessionConsistency srv handle requirements of
             (sent, lines, r) \<Rightarrow> (sent, lines, r = Inr True))
      | _ \<Rightarrow> ([], [], False))"

definition with_metadata :: "server \<Rightarrow> string option \<Rightarrow> upstream \<Rightarrow> response \<Rightarrow> upstream_request list \<times> string list \<times> response" where
  "with_metadata srv sessionHandle up response =
     (case nonempty (get_header ''x-ledgersync-consistency-requirements'' (up_headers up)) of
        None \<Rightarrow> ([], [], response)
      | Some serialized \<Rightarrow>
          if \<not> ok up then ([], [], response)
          else (case store_metadata srv sessionHandle serialized of
                  (sent, lines, metadataStored) \<Rightarrow>
                    (sent, lines, if metadataStored then response
                      else response\<lparr>resp_headers := set_header ''X-LedgerSync-Metadata-Status'' ''unavailable''
                             (delete_header ''X-LedgerSync-Consistency-Requirements'' (resp_headers response))\<rparr>)))"

definition proxyTransferMutation ::
  "server \<Rightarrow> session \<Rightarrow> string \<Rightarrow> json option \<Rightarrow> string option \<Rightarrow> string option \<Rightarrow> string option \<Rightarrow> string option
     \<Rightarrow> upstream_request list \<times> string list \<times> response" where
  "proxyTransferMutation srv session path body idempotencyKey requestReference requestID sessionHandle =
     (case privateAPIContext srv session requestID of
        Inl e \<Rightarrow> ([], [], transfer_dispatch_error (if e = ''TimeoutError'' then Fetch_timeout else Fetch_error) requestReference)
      | Inr connection \<Rightarrow>
          (let out = transfer_request connection path body idempotencyKey requestReference in
           case srv_fetch srv out of
             Fetched up \<Rightarrow>
               (case (case up_text up of Body raw \<Rightarrow> Some raw | _ \<Rightarrow> if ok up then Some committed_payload else None) of
                  None \<Rightarrow> ([out], [], jsonError ''temporary_unavailable'' 503)
                | Some payload \<Rightarrow>
                    (case with_metadata srv sessionHandle up
                        \<lparr>status = up_status up, resp_headers = transfer_headers up requestReference, resp_body = payload\<rparr> of
                       (sent, lines, response) \<Rightarrow> (out # sent, lines, response)))
           | failure \<Rightarrow> ([out], [], transfer_dispatch_error failure requestReference)))"

section \<open>Actor assertions\<close>

definition requiredSetting :: "env \<Rightarrow> string \<Rightarrow> string option \<Rightarrow> string outcome" where
  "requiredSetting env name fallback =
     (case nonempty (map_option trim (env name)) of
        Some v \<Rightarrow> Inr v
      | None \<Rightarrow> (case nonempty fallback of Some v \<Rightarrow> Inr v | None \<Rightarrow> Inl (name @ '' is required'')))"

definition assertionSecret :: "env \<Rightarrow> string outcome" where
  "assertionSecret env = andthen (requiredSetting env ''LEDGERSYNC_BFF_ASSERTION_SECRET'' None) (\<lambda>value.
     if length value < 32 then Inl ''LEDGERSYNC_BFF_ASSERTION_SECRET must be at least 32 characters'' else Inr value)"

text \<open>\<^verbatim>\<open>Math.floor(t / 1000)\<close>; an infinite time stays infinite.\<close>

fun floor_seconds :: "jsnum \<Rightarrow> jsnum" where
  "floor_seconds (Fin q) = jsint \<lfloor>q / 1000\<rfloor>"
| "floor_seconds (Infinity s) = Infinity s"

definition assertion_expiry :: "int \<Rightarrow> session \<Rightarrow> jsnum" where
  "assertion_expiry issuedAt session =
     (let sessionExpiry = floor_seconds (expiresAt session) in
      if jsnum_le sessionExpiry (jsint (issuedAt + 60)) then sessionExpiry else jsint (issuedAt + 60))"

definition assertion_claims :: "string \<Rightarrow> string \<Rightarrow> string \<Rightarrow> string \<Rightarrow> session \<Rightarrow> int \<Rightarrow> json" where
  "assertion_claims iss aud kid assertionId session issuedAt = JObj
     ([(''iss'', JStr iss), (''aud'', JStr aud), (''kid'', JStr kid), (''jti'', JStr assertionId),
       (''sub'', JStr (subjectId session)), (''tenant_id'', JStr (tenantId session)),
       (''roles'', json_strings (case roles session of None \<Rightarrow> [] | Some rs \<Rightarrow> rs)),
       (''scopes'', json_strings (case scopes session of None \<Rightarrow> [] | Some ss \<Rightarrow> ss))]
      @ (case authenticatedAt session of
           Some t \<Rightarrow> if t = Fin 0 then [] else [(''authenticated_at'', JNum (floor_seconds t))]
         | None \<Rightarrow> [])
      @ [(''iat'', JNum (jsint issuedAt)), (''exp'', JNum (assertion_expiry issuedAt session))])"

definition createActorAssertion :: "hmac \<Rightarrow> env \<Rightarrow> int \<Rightarrow> string \<Rightarrow> session \<Rightarrow> string outcome" where
  "createActorAssertion hmac env now assertionId session =
     (let issuedAt = now div 1000 in
      if jsnum_le (assertion_expiry issuedAt session) (jsint issuedAt)
      then Inl ''session expires before an actor assertion can be issued''
      else andthen (requiredSetting env ''LEDGERSYNC_BFF_ASSERTION_ISSUER'' (Some ''ledgersync-bff'')) (\<lambda>iss.
           andthen (requiredSetting env ''LEDGERSYNC_BFF_ASSERTION_AUDIENCE'' (Some ''ledgersync-private-api'')) (\<lambda>aud.
           andthen (requiredSetting env ''LEDGERSYNC_BFF_ASSERTION_KEY_ID'' (Some ''current'')) (\<lambda>kid.
             (let payload = base64url (bytes_of (JSON_stringify (assertion_claims iss aud kid assertionId session issuedAt))) in
              andthen (assertionSecret env) (\<lambda>k. Inr (payload @ ''.'' @ base64url (hmac k (from_base64url payload)))))))))"

section \<open>Lemmas\<close>

definition metric_line :: "string \<Rightarrow> string" where
  "metric_line outcome = JSON_stringify (createGuardrailMetric ''session'' outcome)"

lemma emitted_lines: "set (emitGuardrailMetric env ''session'' m) \<subseteq> {metric_line m}"
  by (auto simp: emitGuardrailMetric_def metric_line_def)

lemma store_outcome_allowed: "store_outcome path body \<in> set (allowedOutcomes ''session'')"
  by (simp add: store_outcome_def allowedOutcomes_def)

text \<open>What a call of the store sends, logs and returns.\<close>

definition store_contract :: "server \<Rightarrow> string \<Rightarrow> json \<Rightarrow> upstream_request list \<Rightarrow> string list \<Rightarrow> bool \<Rightarrow> bool" where
  "store_contract srv path body sent lines answered =
     (set lines \<subseteq> metric_line ` set (allowedOutcomes ''session'')
      \<and> list_all (\<lambda>out. out_url out = session_api (srv_env srv) @ path \<and> out_body out = Some (JSON_stringify body)) sent
      \<and> length sent \<le> 1
      \<and> (answered \<longrightarrow> (\<exists>out up. sent = [out] \<and> srv_fetch srv out = Fetched up \<and> ok up)))"

lemma store_request_contract:
  assumes "sessionStoreRequest srv path m body = (sent, lines, r)"
  shows "store_contract srv path body sent lines (\<exists>v. r = Inr (Some v))"
proof -
  have lines: "set lines \<subseteq> metric_line ` set (allowedOutcomes ''session'')"
    if "lines = emitGuardrailMetric (srv_env srv) ''session'' c" "c \<in> set (allowedOutcomes ''session'')" for c
    using emitted_lines [of "srv_env srv" c] that by blast
  have allowed: "''unavailable'' \<in> set (allowedOutcomes ''session'')" "''rejected'' \<in> set (allowedOutcomes ''session'')"
    by (simp_all add: allowedOutcomes_def)
  have l: "set lines \<subseteq> metric_line ` set (allowedOutcomes ''session'')"
    using assms lines [OF _ allowed(1)] lines [OF _ allowed(2)] lines [OF _ store_outcome_allowed [of path body]]
    by (auto simp: sessionStoreRequest_def Let_def split: if_splits sum.splits fetch_result.splits)
  show ?thesis
    unfolding store_contract_def
    using l assms by (auto simp: sessionStoreRequest_def Let_def split: if_splits sum.splits fetch_result.splits)
qed

lemma token_call_contract:
  assumes "token_call srv path m token extra refused result = (sent, lines, Inr y)" "y \<noteq> refused"
  shows "\<exists>x. y = result x \<and> store_contract srv path (JObj ((''token'', JStr token) # extra)) sent lines (\<exists>v. x = Some v)"
proof -
  obtain x where "sessionStoreRequest srv path m (JObj ((''token'', JStr token) # extra)) = (sent, lines, Inr x)" "y = result x"
    using assms by (auto simp: token_call_def andthen_eq_Inr split: if_splits prod.splits)
  then show ?thesis using store_request_contract by force
qed

lemma sessionFromStore_sound:
  assumes "sessionFromStore now v = Some s"
  shows "(\<exists>w. v = Some w) \<and> \<not> jsnum_le (expiresAt s) (jsint now)
    \<and> names_within maxSessionRoles (roles s) \<and> names_within maxSessionScopes (scopes s) \<and> requirements_within 1 s"
proof -
  obtain w where v: "v = Some w" using assms by (auto simp: sessionFromStore_def split: option.splits)
  have unexpired: "\<not> jsnum_le (expiresAt s) (jsint now)" and names: "validStringList (field ''roles'' w) maxSessionRoles = roles s"
      "validStringList (field ''scopes'' w) maxSessionScopes = scopes s"
      and req: "consistencyRequirements s = None
        \<or> (\<exists>q ps. consistencyRequirements s = Some ps \<and> token_entries maxConsistencyRequirements maxConsistencyAccountIDLength 1 q = Some ps)"
    using assms v by (auto simp: sessionFromStore_def split: option.splits if_splits)
  have "requirements_within 1 s"
    using req token_entries_within by (auto simp: requirements_within_def requirement_entries_def)
  then show ?thesis
    using v unexpired validStringList_within [of maxSessionRoles "field ''roles'' w"]
      validStringList_within [of maxSessionScopes "field ''scopes'' w"] names by simp
qed

lemma issued_token_shape: "issued_token r = Inr t \<Longrightarrow> opaqueToken (Some (JStr t)) \<and> (\<exists>v. r = Some v)"
  by (cases r) (auto simp: issued_token_def opaqueToken_def Let_def split: if_splits option.splits json.splits)

lemma create_contract:
  assumes "createOpaqueSession hmac srv payload old = (sent, lines, Inr t)"
  shows "opaqueToken (Some (JStr t)) \<and> (\<exists>bounded. boundedSession hmac (srv_env srv) payload = Inr bounded
    \<and> store_contract srv ''/api/internal/bff/sessions'' (creation_body bounded old) sent lines True)"
proof -
  obtain bounded r where b: "boundedSession hmac (srv_env srv) payload = Inr bounded"
      "sessionStoreRequest srv ''/api/internal/bff/sessions'' ''POST'' (creation_body bounded old) = (sent, lines, Inr r)"
    and t: "issued_token r = Inr t"
    using assms by (auto simp: createOpaqueSession_def andthen_eq_Inr split: sum.splits prod.splits)
  show ?thesis using store_request_contract [OF b(2)] b(1) issued_token_shape [OF t] by auto
qed

section \<open>Properties\<close>



definition sample_handle :: string where
  "sample_handle = replicate 43 CHR ''A''"

definition sample_stored :: json where
  "sample_stored = JObj [(''subject_id'', JStr ''alice''), (''tenant_id'', JStr ''acme''), (''csrf_token'', JStr ''c''),
     (''expires_at'', JNum (jsint 90)), (''roles'', JArr [JStr ''tenant:operator'']), (''scopes'', JArr [])]"

definition sample_store_server :: server where
  "sample_store_server = sample_server\<lparr>srv_now := 60, srv_fetch := (\<lambda>r. Fetched
     \<lparr>up_status = 200, up_headers = [], up_text = Body (JSON_stringify sample_stored), up_stream = None\<rparr>)\<rparr>"

lemma sample_stored_read: "store_body (Body (JSON_stringify sample_stored)) = Inr (Some sample_stored)"
proof -
  have "plain_json sample_stored"
    by (simp add: sample_stored_def is_array_index_def canonical_nat_def all_digits_def char_class_defs)
  then have "JSON_parse (JSON_stringify sample_stored) = Some sample_stored" by (rule JSON_roundtrip)
  moreover have "byte_length (JSON_stringify sample_stored) \<le> 300" by code_simp
  moreover have "isRecord sample_stored" by (simp add: sample_stored_def)
  ultimately show ?thesis by (simp add: store_body_def)
qed


text \<open>What is sent to update the consistency metadata.\<close>

abbreviation consistency_updates :: "server \<Rightarrow> upstream_request list \<Rightarrow> bool" where
  "consistency_updates srv sent \<equiv>
     list_all (\<lambda>out. out_url out = session_api (srv_env srv) @ ''/api/internal/bff/sessions/consistency'') sent"

lemma consistency_update_target:
  assumes "updateOpaqueSessionConsistency srv h q = (sent, lines, r)"
  shows "consistency_updates srv sent"
proof (cases "opaqueToken (Some (JStr h))")
  case True
  obtain a b d where call: "sessionStoreRequest srv ''/api/internal/bff/sessions/consistency'' ''PATCH''
      (JObj [(''token'', JStr h), (''consistency_requirements'', json_params q)]) = (a, b, d)" by (metis prod_cases3)
  then have "sent = a" using assms True by (simp add: updateOpaqueSessionConsistency_def token_call_def)
  with store_request_contract [OF call] show ?thesis by (auto simp: store_contract_def list_all_iff)
qed (use assms in \<open>simp add: updateOpaqueSessionConsistency_def token_call_def\<close>)

lemma metadata_kept:
  assumes "with_metadata srv handle up y = (sent, lines, x)"
  shows "status x = status y \<and> resp_body x = resp_body y \<and> consistency_updates srv sent"
  using assms consistency_update_target [of srv]
  by (auto simp: with_metadata_def store_metadata_def split: option.splits if_splits prod.splits)

lemma transfer_sends:
  assumes "proxyTransferMutation srv session path body key ref rid handle = (sent, lines, r)"
  shows "sent = [] \<or> (\<exists>c rest. privateAPIContext srv session rid = Inr c \<and> sent = transfer_request c path body key ref # rest
    \<and> consistency_updates srv rest)"
proof (cases "privateAPIContext srv session rid")
  case (Inr c)
  then show ?thesis
    using assms metadata_kept [of srv handle]
    by (cases "srv_fetch srv (transfer_request c path body key ref)")
      (auto simp: proxyTransferMutation_def Let_def split: body_read.splits if_splits prod.splits option.splits)
qed (use assms in \<open>simp add: proxyTransferMutation_def\<close>)



definition sample_commit_server :: server where
  "sample_commit_server = sample_server\<lparr>srv_fetch := (\<lambda>r. Fetched
     \<lparr>up_status = 201, up_headers = [(''X-LedgerSync-Consistency-Requirements'', ''not JSON'')], up_text = Body_error, up_stream = None\<rparr>)\<rparr>"


lemma assertion_expiry_bounds:
  assumes "\<not> jsnum_le (assertion_expiry issuedAt session) (jsint issuedAt)"
  obtains e where "assertion_expiry issuedAt session = jsint e" "issuedAt < e" "e \<le> issuedAt + 60"
    and "jsnum_le (Fin (1000 * of_int e)) (expiresAt session)"
proof (cases "expiresAt session")
  case (Fin q)
  define e where "e = min \<lfloor>q / 1000\<rfloor> (issuedAt + 60)"
  have ex: "assertion_expiry issuedAt session = jsint e"
    by (auto simp: assertion_expiry_def Fin e_def Let_def min_def)
  have "of_int e \<le> q / 1000" unfolding e_def by linarith
  then have "jsnum_le (Fin (1000 * of_int e)) (expiresAt session)" by (simp add: Fin field_simps)
  moreover have "issuedAt < e" "e \<le> issuedAt + 60" using assms unfolding ex by (simp_all add: e_def)
  ultimately show thesis using that ex by blast
next
  case (Infinity neg)
  then show thesis using assms that [of "issuedAt + 60"] by (cases neg) (auto simp: assertion_expiry_def Let_def)
qed

text \<open>C36: An actor assertion is short-lived and speaks only for its session. An issued assertion is a
  payload with the HMAC of its bytes under a secret of at least 32 characters; the payload names the
  session's subject and tenant, is issued now, and expires within 60 seconds and not after the session.\<close>

theorem actor_assertion_bounded:
  assumes "createActorAssertion hmac env now assertionId session = Inr raw"
  shows "\<exists>k claims e. assertionSecret env = Inr k \<and> 32 \<le> length k
    \<and> raw = base64url (bytes_of (JSON_stringify claims)) @ ''.'' @ base64url (hmac k (bytes_of (JSON_stringify claims)))
    \<and> field ''sub'' claims = Some (JStr (subjectId session)) \<and> field ''tenant_id'' claims = Some (JStr (tenantId session))
    \<and> field ''jti'' claims = Some (JStr assertionId)
    \<and> field ''iat'' claims = Some (JNum (jsint (now div 1000))) \<and> field ''exp'' claims = Some (JNum (jsint e))
    \<and> now div 1000 < e \<and> e \<le> now div 1000 + 60 \<and> jsnum_le (Fin (1000 * of_int e)) (expiresAt session)"
proof -
  have live: "\<not> jsnum_le (assertion_expiry (now div 1000) session) (jsint (now div 1000))"
    using assms by (auto simp: createActorAssertion_def Let_def)
  obtain e where e: "assertion_expiry (now div 1000) session = jsint e" "now div 1000 < e" "e \<le> now div 1000 + 60"
    "jsnum_le (Fin (1000 * of_int e)) (expiresAt session)" using assertion_expiry_bounds [OF live] .
  obtain iss aud kid k where k: "assertionSecret env = Inr k"
    and raw: "raw = base64url (bytes_of (JSON_stringify (assertion_claims iss aud kid assertionId session (now div 1000)))) @ ''.''
      @ base64url (hmac k (bytes_of (JSON_stringify (assertion_claims iss aud kid assertionId session (now div 1000)))))"
    using assms live by (auto simp: createActorAssertion_def Let_def andthen_eq_Inr from_base64url_inverse bytes_of_bound)
  have "32 \<le> length k" using k by (auto simp: assertionSecret_def andthen_eq_Inr split: if_splits)
  moreover have "field ''sub'' (assertion_claims iss aud kid assertionId session (now div 1000)) = Some (JStr (subjectId session))"
    "field ''tenant_id'' (assertion_claims iss aud kid assertionId session (now div 1000)) = Some (JStr (tenantId session))"
    "field ''jti'' (assertion_claims iss aud kid assertionId session (now div 1000)) = Some (JStr assertionId)"
    "field ''iat'' (assertion_claims iss aud kid assertionId session (now div 1000)) = Some (JNum (jsint (now div 1000)))"
    "field ''exp'' (assertion_claims iss aud kid assertionId session (now div 1000)) = Some (JNum (jsint e))"
    by (auto simp: assertion_claims_def e(1) split: option.splits)
  ultimately show ?thesis using k raw e(2-4) by blast
qed

definition sample_assertion_env :: env where
  "sample_assertion_env = [''LEDGERSYNC_BFF_ASSERTION_SECRET'' \<mapsto> replicate 32 CHR ''s'']"

theorem actor_assertion_bounded_witness:
  "\<exists>raw e. createActorAssertion sample_hmac sample_assertion_env 1000000 ''id-1'' sample_session = Inr raw
     \<and> 1000 < e \<and> e \<le> (1060 :: int)"
proof -
  have "\<not> jsnum_le (assertion_expiry 1000 sample_session) (jsint 1000)"
    by (simp add: assertion_expiry_def sample_session_def)
  then obtain raw where raw: "createActorAssertion sample_hmac sample_assertion_env 1000000 ''id-1'' sample_session = Inr raw"
    by (simp add: createActorAssertion_def Let_def requiredSetting_def assertionSecret_def nonempty_def sample_assertion_env_def
        trim_def char_class_defs is_space_def)
  then show ?thesis using actor_assertion_bounded [OF raw] by auto
qed

end
