(* ===== verification/Gateway.thy ===== *)
theory Gateway
  imports SessionStore
begin

text \<open>
  The middleware \<^verbatim>\<open>web/src/proxy.ts\<close> that every request to the BFF passes before its route: the host
  check, the exchange of the browser's opaque handle for a signed session cookie, and the headers of the
  response.

  The parser of the \<^verbatim>\<open>Cookie\<close> header belongs to the framework and is a parameter \<open>parse\<close> from the
  header's text to the cookies. The middleware yields the requests it sent to the store, the metric
  lines, and either an answer, the headers it forwards to the route with those of the response, or an
  error that it throws.
\<close>

section \<open>Definitions\<close>

definition matched :: "string \<Rightarrow> bool" where
  "matched path = (case path of
     c # rest \<Rightarrow> c = CHR ''/'' \<and> \<not> list_ex (startsWith rest) [''_next/static'', ''_next/image'']
       \<and> \<not> (startsWith rest ''favicon'' \<and> 7 < length rest \<and> startsWith (drop 8 rest) ''ico'')
   | [] \<Rightarrow> False)"

abbreviation handle_header :: string where "handle_header \<equiv> ''x-ledgersync-session-handle''"

abbreviation sessionCookieName :: "env \<Rightarrow> string" where
  "sessionCookieName env \<equiv> sessionName (authenticationCookiePolicy env)"

definition request_cookies :: "(string \<Rightarrow> params) \<Rightarrow> headers \<Rightarrow> params" where
  "request_cookies parse hs = (case get_header ''cookie'' hs of None \<Rightarrow> [] | Some t \<Rightarrow> parse t)"

definition publicPage :: "string \<Rightarrow> bool" where
  "publicPage path = List.member [''/'', ''/welcome'', ''/sign-in''] path"

definition cookie_pair :: "string \<times> string \<Rightarrow> string" where
  "cookie_pair c = fst c @ ''='' @ snd c"

definition store_unavailable_page :: "string \<Rightarrow> response" where
  "store_unavailable_page path =
     (let r = (if startsWith path ''/api/'' then json_response (error_body ''temporary_unavailable'') 503 []
               else \<lparr>status = 503, resp_headers = [(''Content-Type'', ''text/plain; charset=utf-8'')],
                     resp_body = ''Workspace is temporarily unavailable. Please retry.''\<rparr>) in
      r\<lparr>resp_headers := set_header ''X-Robots-Tag'' ''noindex, nofollow'' (set_header ''Retry-After'' ''5''
          (set_header ''Cache-Control'' ''private, no-store'' (resp_headers r)))\<rparr>)"

text \<open>The headers of the forwarded request and those added to the route's response.\<close>

datatype passage = Answered response | Forwarded headers headers | Threw string

text \<open>The headers that the route sees, given what the store resolved.\<close>

definition forwarded_cookies :: "hmac \<Rightarrow> env \<Rightarrow> params \<Rightarrow> string \<Rightarrow> session option \<Rightarrow> headers \<Rightarrow> headers outcome" where
  "forwarded_cookies hmac env jar browserSession resolved hs =
     (let name = sessionCookieName env; others = map cookie_pair (filter (\<lambda>c. fst c \<noteq> name) jar);
          write = (\<lambda>cookies hs. if cookies \<noteq> [] then set_header ''cookie'' (join_with ''; '' cookies) hs else delete_header ''cookie'' hs) in
      case resolved of
        None \<Rightarrow> Inr (write others hs)
      | Some s \<Rightarrow> andthen (createSession hmac env s) (\<lambda>raw.
          Inr (write (others @ [name @ ''='' @ raw]) (set_header handle_header browserSession hs))))"

definition pass_on :: "env \<Rightarrow> string \<Rightarrow> string \<Rightarrow> headers \<Rightarrow> passage" where
  "pass_on env nonce path hs =
     (let hs' = set_header ''Content-Security-Policy'' (contentSecurityPolicy (Some nonce)) (set_header ''x-nonce'' nonce hs);
          next = addSecurityHeaders env (Some nonce) \<lparr>status = 200, resp_headers = [], resp_body = ''''\<rparr>;
          rh = set_header ''Cache-Control'' ''private, no-store'' (resp_headers next) in
      Forwarded hs' (if publicPage path then rh else set_header ''X-Robots-Tag'' ''noindex, nofollow'' rh))"

definition proxy :: "hmac \<Rightarrow> (string \<Rightarrow> params) \<Rightarrow> server \<Rightarrow> string \<Rightarrow> string \<Rightarrow> request
    \<Rightarrow> upstream_request list \<times> string list \<times> passage" where
  "proxy hmac parse srv uuid path request =
     (let env = srv_env srv; nonce = filter (\<lambda>c. c \<noteq> CHR ''-'') uuid in
      if \<not> hasValidHost (srv_URL srv) env request
      then ([], [], Answered (addSecurityHeaders env (Some nonce) \<lparr>status = 421, resp_headers = [(''Cache-Control'', ''no-store'')], resp_body = ''''\<rparr>))
      else
        let hs = delete_header handle_header (req_headers request);
            jar = request_cookies parse (req_headers request) in
        case nonempty (map_of jar (sessionCookieName env)) of
          None \<Rightarrow> ([], [], pass_on env nonce path hs)
        | Some browserSession \<Rightarrow>
            if publicPage path then ([], [], pass_on env nonce path hs)
            else (case resolveOpaqueSession srv browserSession of (sent, lines, r) \<Rightarrow>
              (sent, lines, case r of
                 Inl _ \<Rightarrow> Answered (addSecurityHeaders env (Some nonce) (store_unavailable_page path))
               | Inr resolved \<Rightarrow>
                   (case forwarded_cookies hmac env jar browserSession resolved hs of
                      Inl e \<Rightarrow> Threw e
                    | Inr hs' \<Rightarrow> pass_on env nonce path hs'))))"

text \<open>What a route reads of its request: \<^verbatim>\<open>readSession((await cookies()).get(sessionCookieName)?.value)\<close>.\<close>

definition route_session :: "hmac \<Rightarrow> (string \<Rightarrow> params) \<Rightarrow> env \<Rightarrow> int \<Rightarrow> headers \<Rightarrow> session option" where
  "route_session hmac parse env now hs = readSession hmac env now (map_of (request_cookies parse hs) (sessionCookieName env))"

section \<open>Lemmas\<close>

text \<open>What is documented of the cookie parser, for cookies of plain characters: a header lists the
  cookies it was joined from and no others, and of two with one name the last counts, whatever text
  precedes it.\<close>

definition cookie_text :: "string \<Rightarrow> bool" where
  "cookie_text s = list_all (\<lambda>c. is_alnum c \<or> one_of ''-_.'' c) s"

definition plain_jar :: "params \<Rightarrow> bool" where
  "plain_jar jar = list_all (\<lambda>(n, v). n \<noteq> [] \<and> cookie_text n \<and> cookie_text v) jar"

definition cookie_parser :: "(string \<Rightarrow> params) \<Rightarrow> bool" where
  "cookie_parser parse =
     ((\<forall>jar n. jar \<noteq> [] \<and> plain_jar jar \<and> n \<notin> fst ` set jar \<longrightarrow> map_of (parse (join_with ''; '' (map cookie_pair jar))) n = None)
      \<and> (\<forall>cs n v. n \<noteq> [] \<and> cookie_text n \<and> cookie_text v \<longrightarrow> map_of (parse (join_with ''; '' (cs @ [cookie_pair (n, v)]))) n = Some v))"

lemma gateway_names:
  "\<not> same_name ''cookie'' ''x-ledgersync-session-handle''" "\<not> same_name ''x-ledgersync-session-handle'' ''cookie''"
  "\<not> same_name ''x-nonce'' ''cookie''" "\<not> same_name ''x-nonce'' ''x-ledgersync-session-handle''"
  "\<not> same_name ''Content-Security-Policy'' ''cookie''" "\<not> same_name ''Content-Security-Policy'' ''x-ledgersync-session-handle''"
  by code_simp+

lemma session_name_text: "sessionCookieName env \<noteq> [] \<and> cookie_text (sessionCookieName env)"
proof -
  have "cookie_text ''__Host-ledgersync_session''" "cookie_text ''ledgersync_session''" by code_simp+
  then show ?thesis by (simp add: authenticationCookiePolicy_def Let_def)
qed

lemma created_session_text:
  assumes "sha256_hmac hmac" "createSession hmac env s = Inr raw"
  shows "cookie_text raw"
proof -
  obtain t where "encodeSession hmac env t = Inr raw" using assms(2) by (auto simp: createSession_def andthen_eq_Inr)
  then obtain k p where "raw = base64url (bytes_of p) @ ''.'' @ base64url (hmac k (bytes_of (base64url (bytes_of p))))"
    by (auto simp: encodeSession_def sign_def andthen_eq_Inr Let_def)
  moreover have "cookie_text (base64url bs)" if "list_all (\<lambda>b. b < 256) bs" for bs
    using base64url_chars [OF that] by (auto simp: cookie_text_def list_all_iff one_of_def)
  ultimately show ?thesis
    using assms(1) bytes_of_bound by (simp add: cookie_text_def sha256_hmac_def one_of_def)
qed

lemma pass_on_cookie:
  "pass_on env nonce path hs = Forwarded hs' r \<Longrightarrow> get_header ''cookie'' hs' = get_header ''cookie'' hs
     \<and> get_header handle_header hs' = get_header handle_header hs"
  by (auto simp: pass_on_def Let_def gateway_names)

lemma forwarded_resolved:
  assumes "cookie_parser parse" "sha256_hmac hmac" "forwarded_cookies hmac env jar h (Some s) hs = Inr hs'"
  shows "\<exists>raw. createSession hmac env s = Inr raw \<and> get_header handle_header hs' = Some h
    \<and> map_of (request_cookies parse hs') (sessionCookieName env) = Some raw"
proof -
  let ?n = "sessionCookieName env"
  obtain raw where raw: "createSession hmac env s = Inr raw"
    and hs': "hs' = set_header ''cookie'' (join_with ''; '' (map cookie_pair (filter (\<lambda>c. fst c \<noteq> ?n) jar) @ [cookie_pair (?n, raw)]))
       (set_header handle_header h hs)"
    using assms(3) by (auto simp: forwarded_cookies_def Let_def andthen_eq_Inr cookie_pair_def)
  have "cookie_text raw" by (rule created_session_text [OF assms(2) raw])
  then have "map_of (request_cookies parse hs') ?n = Some raw"
    using assms(1) session_name_text [of env] by (simp add: hs' request_cookies_def cookie_parser_def)
  then show ?thesis using raw by (simp add: hs' gateway_names)
qed

lemma forwarded_unresolved:
  assumes "cookie_parser parse" "plain_jar jar" "forwarded_cookies hmac env jar h None hs = Inr hs'"
  shows "get_header handle_header hs' = get_header handle_header hs
    \<and> map_of (request_cookies parse hs') (sessionCookieName env) = None"
proof -
  let ?n = "sessionCookieName env"
  define others where "others = filter (\<lambda>c. fst c \<noteq> ?n) jar"
  have plain: "plain_jar others" using assms(2) by (auto simp: others_def plain_jar_def list_all_iff)
  have absent: "?n \<notin> fst ` set others" by (auto simp: others_def)
  have hs': "hs' = (if others \<noteq> [] then set_header ''cookie'' (join_with ''; '' (map cookie_pair others)) hs else delete_header ''cookie'' hs)"
    using assms(3) by (auto simp: forwarded_cookies_def Let_def others_def)
  have "map_of (request_cookies parse hs') ?n = None"
    using assms(1) plain absent by (auto simp: hs' request_cookies_def cookie_parser_def)
  then show ?thesis by (simp add: hs' gateway_names)
qed

lemma passed_session:
  assumes "pass_on env nonce path hs = Forwarded hs' rh"
  shows "route_session hmac parse env now hs' = route_session hmac parse env now hs"
  using pass_on_cookie [OF assms] by (simp add: route_session_def request_cookies_def)

lemma no_session_cookie:
  "nonempty (map_of (request_cookies parse hs) (sessionCookieName env)) = None \<Longrightarrow> route_session hmac parse env now hs = None"
  by (auto simp: route_session_def nonempty_def readSession_def split: option.splits if_splits)

lemma deleted_handle_session [simp]:
  "route_session hmac parse env now (delete_header handle_header hs) = route_session hmac parse env now hs"
  by (simp add: route_session_def request_cookies_def gateway_names)

text \<open>The four ways through the middleware.\<close>

lemma proxy_cases:
  assumes "proxy hmac parse srv uuid path request = (sent, lines, p)"
  obtains (host) "\<not> hasValidHost (srv_URL srv) (srv_env srv) request" "sent = []" "lines = []"
      "\<exists>r. p = Answered r \<and> status r = 421"
    | (direct) nonce where "hasValidHost (srv_URL srv) (srv_env srv) request" "sent = []" "lines = []"
      "publicPage path \<or> nonempty (map_of (request_cookies parse (req_headers request)) (sessionCookieName (srv_env srv))) = None"
      "p = pass_on (srv_env srv) nonce path (delete_header handle_header (req_headers request))"
    | (failed) h e where "hasValidHost (srv_URL srv) (srv_env srv) request" "\<not> publicPage path"
      "map_of (request_cookies parse (req_headers request)) (sessionCookieName (srv_env srv)) = Some h"
      "resolveOpaqueSession srv h = (sent, lines, Inl e)" "\<exists>r. p = Answered r \<and> status r = 503"
    | (resolved) h s nonce where "hasValidHost (srv_URL srv) (srv_env srv) request" "\<not> publicPage path"
      "map_of (request_cookies parse (req_headers request)) (sessionCookieName (srv_env srv)) = Some h"
      "resolveOpaqueSession srv h = (sent, lines, Inr s)"
      "p = (case forwarded_cookies hmac (srv_env srv) (request_cookies parse (req_headers request)) h s
               (delete_header handle_header (req_headers request)) of
              Inl e \<Rightarrow> Threw e | Inr hs' \<Rightarrow> pass_on (srv_env srv) nonce path hs')"
proof (cases "hasValidHost (srv_URL srv) (srv_env srv) request")
  case False
  then show ?thesis using assms host by (auto simp: proxy_def Let_def addSecurityHeaders_def)
next
  case True
  let ?c = "nonempty (map_of (request_cookies parse (req_headers request)) (sessionCookieName (srv_env srv)))"
  show ?thesis
  proof (cases "publicPage path \<or> ?c = None")
    case True
    then show ?thesis
      using assms \<open>hasValidHost _ _ _\<close> by (auto simp: proxy_def Let_def intro!: direct split: option.splits)
  next
    case False
    then obtain h where h: "?c = Some h" by auto
    then have m: "map_of (request_cookies parse (req_headers request)) (sessionCookieName (srv_env srv)) = Some h"
      by (auto simp: nonempty_def split: option.splits if_splits)
    obtain r where r: "resolveOpaqueSession srv h = (sent, lines, r)"
      using assms True False h by (auto simp: proxy_def Let_def split: prod.splits)
    show ?thesis
    proof (cases r)
      case (Inl e)
      then show ?thesis
        using assms True False h r failed [OF True _ m]
        by (auto simp: proxy_def Let_def addSecurityHeaders_def store_unavailable_page_def json_response_def)
    next
      case (Inr s)
      then show ?thesis
        using assms True False h r by (auto simp: proxy_def Let_def intro!: resolved [OF True _ m])
    qed
  qed
qed

lemma forwarded_session:
  assumes "cookie_parser parse" "sha256_hmac hmac" "plain_jar (request_cookies parse (req_headers request))"
    and "proxy hmac parse srv uuid path request = (sent, lines, Forwarded hs rh)"
  shows "hasValidHost (srv_URL srv) (srv_env srv) request
    \<and> (publicPage path \<longrightarrow> sent = [] \<and> get_header handle_header hs = None)
    \<and> (\<not> publicPage path \<and> (get_header handle_header hs \<noteq> None \<or> route_session hmac parse (srv_env srv) now hs \<noteq> None) \<longrightarrow>
        (\<exists>h s. map_of (request_cookies parse (req_headers request)) (sessionCookieName (srv_env srv)) = Some h
           \<and> get_header handle_header hs = Some h \<and> resolveOpaqueSession srv h = (sent, lines, Inr (Some s))
           \<and> (live_session now s \<longrightarrow> (\<exists>kept. subseq kept (eligible_entries s)
                \<and> route_session hmac parse (srv_env srv) now hs = Some (s\<lparr>consistencyRequirements := (if kept = [] then None else Some kept)\<rparr>)))))"
  using assms(4)
proof (cases rule: proxy_cases)
  case (direct nonce)
  have "get_header handle_header hs = None" "publicPage path \<or> route_session hmac parse (srv_env srv) now hs = None"
    using direct pass_on_cookie [of "srv_env srv" nonce path _ hs rh] passed_session [of "srv_env srv" nonce path _ hs rh]
    by (auto simp: no_session_cookie)
  then show ?thesis using direct by auto
next
  case (resolved h s nonce)
  then obtain hs' where f: "forwarded_cookies hmac (srv_env srv) (request_cookies parse (req_headers request)) h s
        (delete_header handle_header (req_headers request)) = Inr hs'" "pass_on (srv_env srv) nonce path hs' = Forwarded hs rh"
    by (auto split: sum.splits)
  show ?thesis
  proof (cases s)
    case None
    then have "get_header handle_header hs = None" "route_session hmac parse (srv_env srv) now hs = None"
      using forwarded_unresolved [OF assms(1,3)] f pass_on_cookie [OF f(2)] passed_session [OF f(2)]
      by (auto simp: route_session_def readSession_def)
    then show ?thesis using resolved by simp
  next
    case (Some t)
    then obtain raw where raw: "createSession hmac (srv_env srv) t = Inr raw" "get_header handle_header hs' = Some h"
        "map_of (request_cookies parse hs') (sessionCookieName (srv_env srv)) = Some raw"
      using forwarded_resolved [OF assms(1,2)] f(1) by blast
    have "\<exists>kept. subseq kept (eligible_entries t)
        \<and> route_session hmac parse (srv_env srv) now hs = Some (t\<lparr>consistencyRequirements := (if kept = [] then None else Some kept)\<rparr>)"
      if "live_session now t"
      using written_session_reads [OF assms(2) that raw(1)] raw(3) passed_session [OF f(2)] by (auto simp: route_session_def)
    then show ?thesis using resolved Some raw(2) pass_on_cookie [OF f(2)] by auto
  qed
qed auto

section \<open>Properties\<close>


text \<open>A parser with the documented behaviour: pairs between semicolons, split at the first equals sign.\<close>

definition sample_pair :: "string \<Rightarrow> string \<times> string" where
  "sample_pair w = (let t = dropWhile (\<lambda>c. c = CHR '' '') w in
     (takeWhile (\<lambda>c. c \<noteq> CHR ''='') t, tl (dropWhile (\<lambda>c. c \<noteq> CHR ''='') t)))"

definition sample_cookies :: "string \<Rightarrow> params" where
  "sample_cookies t = rev (map sample_pair (split_on CHR '';'' t))"

lemma plain_characters: "cookie_text t \<Longrightarrow> c \<in> set t \<Longrightarrow> c \<notin> set '';= ''"
  by (auto simp: cookie_text_def list_all_iff char_class_defs)

lemma sample_pair_plain:
  assumes "n \<noteq> []" "cookie_text n"
  shows "sample_pair (cookie_pair (n, v)) = (n, v)" "sample_pair (CHR '' '' # cookie_pair (n, v)) = (n, v)"
proof -
  have n: "CHR ''='' \<notin> set n" "CHR '' '' \<notin> set n" using plain_characters [OF assms(2)] by auto
  then obtain c n' where c: "n = c # n'" "c \<noteq> CHR '' ''" using assms(1) by (cases n) auto
  have "takeWhile (\<lambda>c. c \<noteq> CHR ''='') (n @ ''='' @ v) = n" "dropWhile (\<lambda>c. c \<noteq> CHR ''='') (n @ ''='' @ v) = ''='' @ v"
    using n(1) by (induction n) auto
  then show "sample_pair (cookie_pair (n, v)) = (n, v)" "sample_pair (CHR '' '' # cookie_pair (n, v)) = (n, v)"
    using c by (simp_all add: sample_pair_def cookie_pair_def Let_def)
qed

lemma split_on_last: "split_on sep (u @ sep # v) = split_on sep u @ split_on sep v"
proof (induction u)
  case (Cons c u)
  then show ?case by (cases "split_on sep u") (auto split: list.splits)
qed simp

lemma join_with_snoc: "cs \<noteq> [] \<Longrightarrow> join_with sep (cs @ [c]) = join_with sep cs @ sep @ c"
  by (induction sep cs rule: join_with.induct) auto

lemma plain_pair_whole: "cookie_text n \<Longrightarrow> cookie_text v \<Longrightarrow> CHR '';'' \<notin> set (cookie_pair (n, v))"
  using plain_characters by (fastforce simp: cookie_pair_def)

lemma sample_cookies_joined:
  "jar \<noteq> [] \<Longrightarrow> plain_jar jar \<Longrightarrow> sample_cookies (join_with ''; '' (map cookie_pair jar)) = rev jar"
proof (induction jar rule: rev_induct)
  case (snoc c jar)
  obtain n v where c: "c = (n, v)" by (cases c)
  have p: "plain_jar jar" "n \<noteq> []" "cookie_text n" "cookie_text v" using snoc.prems by (auto simp: plain_jar_def c)
  note whole = plain_pair_whole [OF p(3,4)]
  show ?case
  proof (cases "jar = []")
    case True
    then show ?thesis using whole p by (simp add: c sample_cookies_def split_on_no_sep sample_pair_plain)
  next
    case False
    have "CHR '';'' \<notin> set (CHR '' '' # cookie_pair (n, v))" using whole by simp
    then show ?thesis
      using False snoc.IH [OF False p(1)] p
      by (simp add: c sample_cookies_def join_with_snoc split_on_last split_on_no_sep sample_pair_plain del: split_on.simps)
  qed
qed simp

lemma sample_cookie_parser: "cookie_parser sample_cookies"
proof -
  have "map_of (sample_cookies (join_with ''; '' (map cookie_pair jar))) n = None"
    if "jar \<noteq> []" "plain_jar jar" "n \<notin> fst ` set jar" for jar n
    using that by (simp add: sample_cookies_joined map_of_eq_None_iff)
  moreover have "map_of (sample_cookies (join_with ''; '' (cs @ [cookie_pair (n, v)]))) n = Some v"
    if "n \<noteq> []" "cookie_text n" "cookie_text v" for cs n v
  proof (cases "cs = []")
    case True
    then show ?thesis using that plain_pair_whole [OF that(2,3)] by (simp add: sample_cookies_def split_on_no_sep sample_pair_plain)
  next
    case False
    have "CHR '';'' \<notin> set (CHR '' '' # cookie_pair (n, v))" using plain_pair_whole [OF that(2,3)] by simp
    then show ?thesis
      using False that
      by (simp add: sample_cookies_def join_with_snoc split_on_last split_on_no_sep sample_pair_plain del: split_on.simps)
  qed
  ultimately show ?thesis unfolding cookie_parser_def by blast
qed

definition sample_gateway_env :: env where
  "sample_gateway_env = sample_env(''LEDGERSYNC_WEB_SESSION_SECRET'' \<mapsto> replicate 32 CHR ''s'')"

definition sample_gateway_server :: server where
  "sample_gateway_server = sample_store_server\<lparr>srv_env := sample_gateway_env\<rparr>"

definition sample_browser_request :: request where
  "sample_browser_request = \<lparr>http_method = ''POST'',
     req_headers = [(''Host'', ''ledger.example''), (''Origin'', ''https://ledger.example''), (''X-CSRF-Token'', ''c''), (''Cookie'', ''theme=dark; ledgersync_session='' @ sample_handle),
       (''X-LedgerSync-Session-Handle'', ''forged'')],
     searchParams = [], req_text = Inr '''', req_stream = None\<rparr>"

definition sample_resolved :: session where
  "sample_resolved = \<lparr>subjectId = ''alice'', tenantId = ''acme'', csrfToken = ''c'', expiresAt = jsint 90,
     authenticatedAt = None, roles = Some [''tenant:operator''], scopes = Some [], consistencyRequirements = None\<rparr>"

lemma session_without_requirements_created:
  assumes "sha256_hmac hmac" "secret env = Inr k" "length (bytes_of (JSON_stringify (session_json s))) \<le> 300" "consistencyRequirements s = None"
  shows "\<exists>raw. createSession hmac env s = Inr raw"
proof -
  have "(4 * length (bytes_of (JSON_stringify (session_json s))) + 2) div 3 \<le> (4 * 300 + 2) div 3"
    using assms(3) by (intro div_le_mono) simp
  moreover have "s\<lparr>consistencyRequirements := None\<rparr> = s" using assms(4) by simp
  moreover have "eligible_entries s = []" using assms(4) by (simp add: eligible_entries_def slice_last_def)
  ultimately show ?thesis
    using encoded_length [OF assms(1,2), of s] by (auto simp: createSession_def boundedSession_def Let_def maxSessionCookieValueBytes_def)
qed

lemma sample_resolves: "\<exists>sent lines. resolveOpaqueSession sample_gateway_server sample_handle = (sent, lines, Inr (Some sample_resolved))"
proof -
  have "sessionFromStore 60 (Some sample_stored) = Some sample_resolved" by code_simp
  moreover have "opaqueToken (Some (JStr sample_handle))" by code_simp
  moreover have "session_api sample_gateway_env \<noteq> ''''" by code_simp
  ultimately show ?thesis
    using sample_stored_read
    by (simp add: resolveOpaqueSession_def token_call_def sessionStoreRequest_def sample_gateway_server_def sample_store_server_def
        sample_server_def ok_def Let_def)
qed

lemma sample_gateway_facts:
  "srv_env sample_gateway_server = sample_gateway_env" "srv_URL sample_gateway_server = sample_URL"
  "hasValidHost sample_URL sample_gateway_env sample_browser_request" "\<not> publicPage ''/api/auth/sign-out''"
  "map_of (request_cookies sample_cookies (req_headers sample_browser_request)) (sessionCookieName sample_gateway_env) = Some sample_handle"
  "plain_jar (request_cookies sample_cookies (req_headers sample_browser_request))" "sample_handle \<noteq> []"
  "live_session 60 sample_resolved" "eligible_entries sample_resolved = []"
  subgoal by (simp add: sample_gateway_server_def)
  subgoal by (simp add: sample_gateway_server_def sample_store_server_def sample_server_def)
  subgoal by code_simp
  subgoal by code_simp
  subgoal by code_simp
  subgoal by code_simp
  subgoal by code_simp
  subgoal by (simp add: live_session_def sample_resolved_def time_within_def names_within_def requirement_entries_def session_limits)
  subgoal by (simp add: sample_resolved_def eligible_entries_def slice_last_def)
  done

lemma sample_passes:
  "\<exists>sent lines hs rh. proxy sample_hmac sample_cookies sample_gateway_server ''1-2'' ''/api/auth/sign-out'' sample_browser_request
     = (sent, lines, Forwarded hs rh) \<and> get_header handle_header hs \<noteq> None"
proof -
  obtain sent lines where r: "resolveOpaqueSession sample_gateway_server sample_handle = (sent, lines, Inr (Some sample_resolved))"
    using sample_resolves by blast
  have "secret sample_gateway_env = Inr (replicate 32 CHR ''s'')" by (simp add: secret_def sample_gateway_env_def)
  moreover have "length (bytes_of (JSON_stringify (session_json sample_resolved))) \<le> 300" by code_simp
  ultimately obtain raw where "createSession sample_hmac sample_gateway_env sample_resolved = Inr raw"
    using session_without_requirements_created [OF sample_signed_facts(1), of _ _ sample_resolved] by (auto simp: sample_resolved_def)
  then show ?thesis
    using sample_gateway_facts r by (auto simp: proxy_def Let_def nonempty_def forwarded_cookies_def pass_on_def gateway_names)
qed


text \<open>A denial of the middleware never clears the browser's cookie: a failed store is not evidence of an
  expired or revoked session.\<close>

lemma gateway_denials:
  assumes "proxy hmac parse srv uuid path request = (sent, lines, Answered r)"
  shows "(status r = 421 \<and> \<not> hasValidHost (srv_URL srv) (srv_env srv) request)
    \<or> (status r = 503 \<and> (\<exists>h e. resolveOpaqueSession srv h = (sent, lines, Inl e)))"
  using assms
proof (cases rule: proxy_cases)
  case (direct nonce)
  then show ?thesis by (simp add: pass_on_def Let_def)
next
  case (resolved h s nonce)
  then show ?thesis by (auto simp: pass_on_def Let_def split: sum.splits)
qed auto

lemma api_paths_matched: "startsWith path ''/api/'' \<Longrightarrow> matched path"
proof -
  assume "startsWith path ''/api/''"
  then obtain rest where "path = ''/api/'' @ rest" by (metis startsWith_def append_take_drop_id)
  then show ?thesis by (simp add: matched_def startsWith_def)
qed

text \<open>Every other header of the request reaches the route as it came.\<close>

lemma forwarded_header:
  assumes "proxy hmac parse srv uuid path request = (sent, lines, Forwarded hs rh)"
    and "\<not> same_name ''cookie'' n" "\<not> same_name handle_header n" "\<not> same_name ''x-nonce'' n" "\<not> same_name ''Content-Security-Policy'' n"
  shows "get_header n hs = get_header n (req_headers request)"
proof -
  have pass: "get_header n hs = get_header n hs'" if "pass_on env nonce path hs' = Forwarded hs rh" for env nonce hs'
    using that assms(4,5) by (auto simp: pass_on_def Let_def)
  have cookies: "get_header n hs'' = get_header n hs'" if "forwarded_cookies hmac env jar h s hs' = Inr hs''" for env jar h s hs' hs''
    using that assms(2,3) by (auto simp: forwarded_cookies_def Let_def andthen_eq_Inr split: option.splits)
  show ?thesis
    using assms(1)
  proof (cases rule: proxy_cases)
    case (direct nonce)
    then show ?thesis using pass assms(3) by fastforce
  next
    case (resolved h s nonce)
    then show ?thesis using pass cookies assms(3) by (fastforce split: sum.splits)
  qed auto
qed

end
