(* ===== verification/StrictQuery.thy ===== *)
theory StrictQuery
  imports UrlCodec Uuid Calendar
begin

text \<open>
  The strict list-query parser (\<^verbatim>\<open>web/src/lib/strict-list-query.ts\<close>): a page or BFF query is
  accepted whole or refused with the reason of its first offending entry. The two date validators of
  the same file are in theory Calendar.
\<close>

section \<open>Operations\<close>

datatype raw_value = Undefined | One string | Many "string list"

type_synonym query_input = "(string \<times> raw_value) list"

record query_rule =
  maximumLength :: "nat option"
  rule_values :: "string list option"
  rule_pattern :: "rx option"
  rule_validate :: "(string \<Rightarrow> bool) option"

type_synonym query_rules = "(string \<times> query_rule) list"

datatype query_reason = Unknown_key | Duplicate_key | Empty_value | Oversized_value | Malformed_value

type_synonym query_result = "query_reason + params"

text \<open>The tests on one present, permitted, single value, in the order of the source.\<close>

definition refuse_value :: "query_rule \<Rightarrow> string \<Rightarrow> query_reason option" where
  "refuse_value rule v =
     (if v = [] then Some Empty_value
      else if (case maximumLength rule of None \<Rightarrow> 256 | Some n \<Rightarrow> n) < length v then Some Oversized_value
      else if (case rule_values rule of None \<Rightarrow> False | Some vs \<Rightarrow> \<not> List.member vs v) then Some Malformed_value
      else if (case rule_pattern rule of None \<Rightarrow> False | Some r \<Rightarrow> \<not> rx_test r v) then Some Malformed_value
      else if (case rule_validate rule of None \<Rightarrow> False | Some f \<Rightarrow> \<not> f v) then Some Malformed_value
      else None)"

fun parse_entries :: "query_rules \<Rightarrow> params \<Rightarrow> query_input \<Rightarrow> query_result" where
  "parse_entries rules vals [] = Inr vals"
| "parse_entries rules vals ((key, raw) # entries) =
     (case raw of
        Undefined \<Rightarrow> parse_entries rules vals entries
      | _ \<Rightarrow>
        (case map_of rules key of
           None \<Rightarrow> Inl Unknown_key
         | Some rule \<Rightarrow>
           (case raw of
              One r \<Rightarrow>
                (case refuse_value rule (trim r) of
                   Some reason \<Rightarrow> Inl reason
                 | None \<Rightarrow> parse_entries rules (obj_put key (trim r) vals) entries)
            | _ \<Rightarrow> Inl Duplicate_key)))"

definition parseStrictListQuery :: "query_input \<Rightarrow> query_rules \<Rightarrow> query_result" where
  "parseStrictListQuery input rules = parse_entries rules [] input"

text \<open>Assigning a property of an ordinary object by a computed key: \<^verbatim>\<open>input["__proto__"] = v\<close> sets
  no own property (a string is ignored, an array becomes the prototype).\<close>

definition assign_key :: "string \<Rightarrow> 'v \<Rightarrow> (string \<times> 'v) list \<Rightarrow> (string \<times> 'v) list" where
  "assign_key k v ob = (if k = ''__proto__'' then ob else obj_put k v ob)"

definition raw_of :: "string list \<Rightarrow> raw_value" where
  "raw_of vs = (case vs of [v] \<Rightarrow> One v | _ \<Rightarrow> Many vs)"

definition search_input :: "params \<Rightarrow> query_input" where
  "search_input ps = foldl (\<lambda>input key. assign_key key (raw_of (getAll key ps)) input) [] (first_distinct (map fst ps))"

definition parseStrictListSearchParams :: "params \<Rightarrow> query_rules \<Rightarrow> query_result" where
  "parseStrictListSearchParams searchParams rules = parseStrictListQuery (search_input searchParams) rules"

section \<open>Specification\<close>

text \<open>What a rule admits, and what an entry of the input must be for the query to be accepted.\<close>

definition admits :: "query_rule \<Rightarrow> string \<Rightarrow> bool" where
  "admits rule v = (refuse_value rule v = None)"

definition entry_ok :: "query_rules \<Rightarrow> string \<times> raw_value \<Rightarrow> bool" where
  "entry_ok rules e = (case snd e of
     Undefined \<Rightarrow> True
   | Many _ \<Rightarrow> False
   | One r \<Rightarrow> (case map_of rules (fst e) of None \<Rightarrow> False | Some rule \<Rightarrow> admits rule (trim r)))"

text \<open>The values the input gives, trimmed.\<close>

definition given :: "query_input \<Rightarrow> string \<Rightarrow> string option" where
  "given input k = (case map_of input k of Some (One r) \<Rightarrow> Some (trim r) | _ \<Rightarrow> None)"

lemma admits_iff: "admits rule v \<longleftrightarrow>
    v \<noteq> [] \<and> length v \<le> (case maximumLength rule of None \<Rightarrow> 256 | Some n \<Rightarrow> n)
    \<and> (case rule_values rule of None \<Rightarrow> True | Some vs \<Rightarrow> v \<in> set vs)
    \<and> (case rule_pattern rule of None \<Rightarrow> True | Some r \<Rightarrow> rx_test r v)
    \<and> (case rule_validate rule of None \<Rightarrow> True | Some f \<Rightarrow> f v)"
  by (auto simp: admits_def refuse_value_def split: option.splits)

lemma parse_entries_ok: "(\<exists>vs. parse_entries rules acc input = Inr vs) \<longleftrightarrow> list_all (entry_ok rules) input"
proof (induction input arbitrary: acc)
  case (Cons e input)
  then show ?case
    by (cases e) (auto simp: entry_ok_def admits_def split: raw_value.splits option.splits)
qed simp

lemma parse_entries_values:
  "parse_entries rules acc input = Inr vs \<Longrightarrow> distinct (map fst input) \<Longrightarrow>
     map_of vs k = (case given input k of None \<Rightarrow> map_of acc k | Some v \<Rightarrow> Some v)"
proof (induction input arbitrary: acc)
  case (Cons e input)
  obtain key raw where e: "e = (key, raw)" by (cases e)
  have "map_of input key = None" using Cons.prems(2) by (simp add: e map_of_eq_None_iff)
  then have fresh: "given input key = None" by (simp add: given_def)
  show ?case
  proof (cases raw)
    case (One r)
    then have "parse_entries rules (obj_put key (trim r) acc) input = Inr vs"
      using Cons.prems(1) by (auto simp: e split: option.splits)
    from Cons.IH [OF this] Cons.prems(2) fresh show ?thesis
      by (auto simp: e One given_def split: option.splits)
  next
    case Undefined
    then have "parse_entries rules acc input = Inr vs" using Cons.prems(1) by (simp add: e)
    from Cons.IH [OF this] Cons.prems(2) fresh show ?thesis
      by (auto simp: e Undefined given_def split: option.splits)
  qed (use Cons.prems(1) in \<open>auto simp: e split: option.splits\<close>)
qed (simp add: given_def)

lemma distinct_search_input:
  "distinct (map fst (search_input ps))" (is "?d (search_input ps)")
proof -
  have "?d (foldl (\<lambda>input key. assign_key key (raw_of (getAll key ps)) input) acc ks)" if "?d acc" for acc ks
    using that by (induction ks arbitrary: acc) (auto simp: assign_key_def distinct_obj_put)
  then show ?thesis by (simp add: search_input_def)
qed

lemma map_of_search_input:
  "map_of (search_input ps) k =
     (if k \<in> fst ` set ps \<and> k \<noteq> ''__proto__'' then Some (raw_of (getAll k ps)) else None)"
proof -
  have "map_of (foldl (\<lambda>input key. assign_key key (raw_of (getAll key ps)) input) acc ks) k =
      (if k \<in> set ks \<and> k \<noteq> ''__proto__'' then Some (raw_of (getAll k ps)) else map_of acc k)" for acc ks
    by (induction ks arbitrary: acc) (auto simp: assign_key_def)
  then show ?thesis by (simp add: search_input_def)
qed

lemma getAll_single: "raw_of (getAll k ps) = One v \<longleftrightarrow> getAll k ps = [v]"
  by (auto simp: raw_of_def split: list.splits)

section \<open>Properties\<close>

text \<open>A page query is accepted exactly when every entry that is present names a permitted
  parameter, has a single value, and that value, trimmed, is not empty and satisfies its rule. The
  accepted values are exactly the trimmed inputs: no parameter is dropped, added or changed.\<close>

theorem strict_query_exact:
  assumes "distinct (map fst input)"
  shows "((\<exists>vs. parseStrictListQuery input rules = Inr vs) \<longleftrightarrow> list_all (entry_ok rules) input)
    \<and> (parseStrictListQuery input rules = Inr vs \<longrightarrow> map_of vs = given input)"
  using parse_entries_ok [of rules "[]" input] parse_entries_values [OF _ assms, of rules "[]" vs]
  by (auto simp: parseStrictListQuery_def fun_eq_iff split: option.splits)

definition sample_rules :: query_rules where
  "sample_rules = [(''limit'', \<lparr>maximumLength = Some 3, rule_values = None, rule_pattern = Some positiveInteger, rule_validate = None\<rparr>)]"

theorem strict_query_exact_witness:
  "parseStrictListQuery [(''limit'', One '' 25 '')] sample_rules = Inr [(''limit'', ''25'')]
   \<and> list_all (entry_ok sample_rules) [(''limit'', One '' 25 '')]
   \<and> map_of [(''limit'', ''25'')] = given [(''limit'', One '' 25 '')]"
proof -
  have p: "parseStrictListQuery [(''limit'', One '' 25 '')] sample_rules = Inr [(''limit'', ''25'')]" by code_simp
  show ?thesis
    using p strict_query_exact [of "[(''limit'', One '' 25 '')]" sample_rules "[(''limit'', ''25'')]"] by simp
qed



text \<open>Parsing is stable: the accepted values are admitted as they are.\<close>

lemma reparse_value: "given input k = Some v \<Longrightarrow> trim v = v"
  by (auto simp: given_def split: option.splits raw_value.splits)

end
