(* ===== verification/PageQuery.thy ===== *)
theory PageQuery
  imports StrictQuery
begin

text \<open>
  The page and BFF queries of each list (\<^verbatim>\<open>web/src/lib/page-query/*.ts\<close>) and the return-path check of
  \<^verbatim>\<open>web/src/lib/navigation.ts\<close>: the rule tables, the parsers built on the strict parser, and the URLs
  written back for the same filters. The platform's URL parser is a parameter of the operations that
  call it (\<open>new_URL text base\<close>, with \<open>None\<close> for its exception).
\<close>

section \<open>URLs\<close>

definition internal_base :: string where
  "internal_base = ''https://ledgersync.invalid''"

definition safeInternalReturnPath :: "url_parser \<Rightarrow> raw_value \<Rightarrow> string option" where
  "safeInternalReturnPath new_URL v = (case v of
     One value \<Rightarrow>
       if 2048 < length value \<or> \<not> startsWith value ''/'' \<or> startsWith value ''//''
          \<or> List.member value backslash then None
       else (case new_URL value (Some internal_base) of
               None \<Rightarrow> None
             | Some parsed \<Rightarrow>
                 if origin parsed \<noteq> internal_base then None
                 else Some (pathname parsed @ search parsed @ hash parsed))
   | _ \<Rightarrow> None)"

section \<open>Rules\<close>

definition length_rule :: "nat \<Rightarrow> query_rule" where
  "length_rule n = \<lparr>maximumLength = Some n, rule_values = None, rule_pattern = None, rule_validate = None\<rparr>"

definition value_rule :: "nat \<Rightarrow> string list \<Rightarrow> query_rule" where
  "value_rule n vs = \<lparr>maximumLength = Some n, rule_values = Some vs, rule_pattern = None, rule_validate = None\<rparr>"

definition pattern_rule :: "nat \<Rightarrow> rx \<Rightarrow> query_rule" where
  "pattern_rule n r = \<lparr>maximumLength = Some n, rule_values = None, rule_pattern = Some r, rule_validate = None\<rparr>"

definition check_rule :: "nat \<Rightarrow> (string \<Rightarrow> bool) \<Rightarrow> query_rule" where
  "check_rule n f = \<lparr>maximumLength = Some n, rule_values = None, rule_pattern = None, rule_validate = Some f\<rparr>"

lemmas rule_defs = length_rule_def value_rule_def pattern_rule_def check_rule_def

text \<open>\<^verbatim>\<open>/^(?:[1-9]|[1-9][0-9]|100)$/\<close>, the page size of every BFF list.\<close>

definition limit_pattern :: rx where
  "limit_pattern = RAlt (RSet (between 49 57)) (RAlt (RSeq (RSet (between 49 57)) (RSet is_digit)) (RStr ''100''))"

definition limit_rule :: query_rule where
  "limit_rule = pattern_rule 3 limit_pattern"

subsection \<open>Accounts\<close>

definition isAccountId :: "string \<Rightarrow> bool" where
  "isAccountId v = (canonicalUUID v \<noteq> None)"

definition isSafeAccountSearch :: "string \<Rightarrow> bool" where
  "isSafeAccountSearch v = (\<not> list_ex is_control v)"

definition accountPageQueryRules :: query_rules where
  "accountPageQueryRules =
     [(''q'', check_rule 128 isSafeAccountSearch),
      (''status'', value_rule 16 [''active'', ''frozen'', ''closed'']),
      (''category'', value_rule 32 [''operating'', ''customer_funds'', ''payroll'', ''payables'', ''expenses'', ''reserve'']),
      (''cursor'', length_rule 512),
      (''focus'', pattern_rule 36 canonicalUUIDShape)]"

definition accountBFFQueryRules :: query_rules where
  "accountBFFQueryRules =
     [(''q'', check_rule 128 isSafeAccountSearch),
      (''status'', value_rule 16 [''active'', ''frozen'', ''closed'']),
      (''category'', value_rule 32 [''operating'', ''customer_funds'', ''payroll'', ''payables'', ''expenses'', ''reserve'']),
      (''cursor'', length_rule 512),
      (''limit'', limit_rule)]"

definition accountHistoryBFFQueryRules :: query_rules where
  "accountHistoryBFFQueryRules = [(''cursor'', length_rule 512), (''limit'', limit_rule)]"

record account_filters =
  acf_query :: string
  acf_status :: string
  acf_category :: string
  acf_cursor :: "string option"

definition emptyAccountFilters :: account_filters where
  "emptyAccountFilters = \<lparr>acf_query = '''', acf_status = '''', acf_category = '''', acf_cursor = None\<rparr>"

text \<open>\<^verbatim>\<open>values.key ?? ""\<close>\<close>

definition or_empty :: "string option \<Rightarrow> string" where
  "or_empty v = (case v of None \<Rightarrow> '''' | Some x \<Rightarrow> x)"

definition account_filters_of :: "params \<Rightarrow> account_filters" where
  "account_filters_of vals =
     \<lparr>acf_query = or_empty (map_of vals ''q''), acf_status = or_empty (map_of vals ''status''),
      acf_category = or_empty (map_of vals ''category''), acf_cursor = map_of vals ''cursor''\<rparr>"

definition parseAccountPageQuery :: "query_input \<Rightarrow> (account_filters \<times> string option) option" where
  "parseAccountPageQuery input = (case parseStrictListQuery input accountPageQueryRules of
     Inl _ \<Rightarrow> None
   | Inr vals \<Rightarrow> Some (account_filters_of vals, map_option toLowerCase (map_of vals ''focus'')))"

definition parseAccountBFFSearchParams :: "params \<Rightarrow> query_result" where
  "parseAccountBFFSearchParams ps = parseStrictListSearchParams ps accountBFFQueryRules"

definition parseAccountHistoryBFFSearchParams :: "params \<Rightarrow> query_result" where
  "parseAccountHistoryBFFSearchParams ps = parseStrictListSearchParams ps accountHistoryBFFQueryRules"

definition account_params :: "account_filters \<Rightarrow> string option \<Rightarrow> params" where
  "account_params filters focus =
     set_present ''focus'' focus (set_present ''cursor'' (acf_cursor filters)
       (set_present ''category'' (Some (acf_category filters)) (set_present ''status'' (Some (acf_status filters))
         (set_present ''q'' (Some (acf_query filters)) []))))"

definition accountDirectoryURL :: "account_filters \<Rightarrow> string option \<Rightarrow> string" where
  "accountDirectoryURL filters focus = with_query ''/accounts'' (account_params filters focus)"

definition accountDetailURL :: "string \<Rightarrow> account_filters \<Rightarrow> string" where
  "accountDetailURL accountId filters =
     ''/accounts/'' @ encodeURIComponent accountId @ ''?return_to='' @ encodeURIComponent (accountDirectoryURL filters (Some accountId))"

text \<open>The query of a parsed URL, without its question mark, as \<^verbatim>\<open>url.searchParams\<close> reads it.\<close>

definition accountFiltersFromReturnPath :: "url_parser \<Rightarrow> string \<Rightarrow> account_filters" where
  "accountFiltersFromReturnPath new_URL returnTo = (case new_URL returnTo (Some internal_base) of
     None \<Rightarrow> emptyAccountFilters
   | Some url \<Rightarrow>
       if pathname url \<noteq> ''/accounts'' then emptyAccountFilters
       else (case search_params (drop 1 (search url)) of
               None \<Rightarrow> emptyAccountFilters
             | Some ps \<Rightarrow> (case parseStrictListSearchParams ps accountPageQueryRules of
                            Inl _ \<Rightarrow> emptyAccountFilters
                          | Inr vals \<Rightarrow> account_filters_of vals)))"

subsection \<open>Approvals\<close>

definition approvalStatuses :: "string list" where
  "approvalStatuses =
     [''funding:requested'', ''funding:approved'', ''funding:posted'', ''funding:rejected'', ''funding:compensated'',
      ''correction:requested'', ''correction:approved'', ''correction:rejected'', ''correction:cancelled'',
      ''correction:expired'', ''correction:posted'']"

definition requester_pattern :: rx where
  "requester_pattern = RSeq (RSet is_alnum) (RRep (RSet (\<lambda>c. is_alnum c \<or> one_of ''._:@/-'' c)) 0 254)"

definition approvalPageQueryRules :: query_rules where
  "approvalPageQueryRules =
     [(''domain'', value_rule 16 [''funding'', ''correction'']),
      (''status'', value_rule 32 approvalStatuses),
      (''requester'', pattern_rule 255 requester_pattern),
      (''age'', value_rule 16 [''under_24h'', ''over_24h'', ''over_7d'', ''over_30d'']),
      (''requested_after'', check_rule 10 isUTCDate),
      (''requested_before'', check_rule 10 isUTCDate),
      (''actionable_by_me'', value_rule 4 [''true'']),
      (''cursor'', length_rule 2048)]"

definition approvalBFFQueryRules :: query_rules where
  "approvalBFFQueryRules = approvalPageQueryRules @ [(''limit'', limit_rule)]"

definition hasCompatibleApprovalRange :: "params \<Rightarrow> bool" where
  "hasCompatibleApprovalRange vals =
     (case (map_of vals ''domain'', map_of vals ''status'') of
        (Some d, Some s) \<Rightarrow>
          if d \<noteq> [] \<and> s \<noteq> [] \<and> \<not> startsWith s (d @ '':'') then False
          else (case (map_of vals ''requested_after'', map_of vals ''requested_before'') of
                  (Some a, Some b) \<Rightarrow> \<not> (a \<noteq> [] \<and> b \<noteq> [] \<and> b < a) | _ \<Rightarrow> True)
      | _ \<Rightarrow> (case (map_of vals ''requested_after'', map_of vals ''requested_before'') of
                (Some a, Some b) \<Rightarrow> \<not> (a \<noteq> [] \<and> b \<noteq> [] \<and> b < a) | _ \<Rightarrow> True))"

record approval_filters =
  apf_domain :: string
  apf_status :: string
  apf_requester :: string
  apf_age :: string
  apf_requestedAfter :: string
  apf_requestedBefore :: string
  apf_actionableByMe :: bool
  apf_cursor :: "string option"

definition emptyApprovalFilters :: approval_filters where
  "emptyApprovalFilters = \<lparr>apf_domain = '''', apf_status = '''', apf_requester = '''', apf_age = '''',
     apf_requestedAfter = '''', apf_requestedBefore = '''', apf_actionableByMe = True, apf_cursor = None\<rparr>"

definition parseApprovalPageQuery :: "query_input \<Rightarrow> approval_filters option" where
  "parseApprovalPageQuery input = (case parseStrictListQuery input approvalPageQueryRules of
     Inl _ \<Rightarrow> None
   | Inr vals \<Rightarrow>
       if \<not> hasCompatibleApprovalRange vals then None
       else Some \<lparr>apf_domain = or_empty (map_of vals ''domain''), apf_status = or_empty (map_of vals ''status''),
         apf_requester = or_empty (map_of vals ''requester''), apf_age = or_empty (map_of vals ''age''),
         apf_requestedAfter = or_empty (map_of vals ''requested_after''),
         apf_requestedBefore = or_empty (map_of vals ''requested_before''),
         apf_actionableByMe = (map_of vals ''actionable_by_me'' = Some ''true''
            \<or> (map_of vals ''actionable_by_me'' = None \<and> apf_actionableByMe emptyApprovalFilters)),
         apf_cursor = map_of vals ''cursor''\<rparr>)"

definition parseApprovalBFFSearchParams :: "params \<Rightarrow> params option" where
  "parseApprovalBFFSearchParams ps = (case parseStrictListSearchParams ps approvalBFFQueryRules of
     Inl _ \<Rightarrow> None
   | Inr vals \<Rightarrow> if hasCompatibleApprovalRange vals then Some vals else None)"

subsection \<open>Corrections, funding and reconciliation\<close>

record status_filters =
  stf_status :: string
  stf_cursor :: "string option"

definition correctionPageQueryRules :: query_rules where
  "correctionPageQueryRules =
     [(''status'', value_rule 16 [''requested'', ''approved'', ''posted'', ''rejected'', ''cancelled'', ''expired'']),
      (''cursor'', length_rule 2048)]"

definition correctionBFFQueryRules :: query_rules where
  "correctionBFFQueryRules = correctionPageQueryRules @ [(''limit'', limit_rule)]"

definition fundingPageQueryRules :: query_rules where
  "fundingPageQueryRules =
     [(''status'', value_rule 16 [''requested'', ''approved'', ''posted'', ''rejected'', ''compensated'']),
      (''cursor'', length_rule 2048)]"

definition fundingBFFQueryRules :: query_rules where
  "fundingBFFQueryRules = fundingPageQueryRules @ [(''limit'', limit_rule)]"

definition status_filters_of :: "params \<Rightarrow> status_filters" where
  "status_filters_of vals = \<lparr>stf_status = or_empty (map_of vals ''status''), stf_cursor = map_of vals ''cursor''\<rparr>"

definition parseCorrectionPageQuery :: "query_input \<Rightarrow> status_filters option" where
  "parseCorrectionPageQuery input = (case parseStrictListQuery input correctionPageQueryRules of
     Inl _ \<Rightarrow> None | Inr vals \<Rightarrow> Some (status_filters_of vals))"

definition parseFundingPageQuery :: "query_input \<Rightarrow> status_filters option" where
  "parseFundingPageQuery input = (case parseStrictListQuery input fundingPageQueryRules of
     Inl _ \<Rightarrow> None | Inr vals \<Rightarrow> Some (status_filters_of vals))"

definition status_params :: "status_filters \<Rightarrow> params" where
  "status_params filters = set_present ''cursor'' (stf_cursor filters) (set_present ''status'' (Some (stf_status filters)) [])"

definition correctionsURL :: "status_filters \<Rightarrow> string" where
  "correctionsURL filters = with_query ''/corrections'' (status_params filters)"

definition fundingURL :: "status_filters \<Rightarrow> string" where
  "fundingURL filters = with_query ''/funding'' (status_params filters)"

definition reconciliationPageQueryRules :: query_rules where
  "reconciliationPageQueryRules = [(''cursor'', length_rule 2048)]"

definition reconciliationBFFQueryRules :: query_rules where
  "reconciliationBFFQueryRules = reconciliationPageQueryRules @ [(''limit'', limit_rule)]"

definition parseReconciliationPageQuery :: "query_input \<Rightarrow> string option option" where
  "parseReconciliationPageQuery input = (case parseStrictListQuery input reconciliationPageQueryRules of
     Inl _ \<Rightarrow> None | Inr vals \<Rightarrow> Some (map_of vals ''cursor''))"

definition reconciliationURL :: "string option \<Rightarrow> string" where
  "reconciliationURL cursor = with_query ''/reconciliation'' (set_present ''cursor'' cursor [])"

subsection \<open>Investigation search\<close>

definition approvedReference :: rx where
  "approvedReference = RSeq (RSet is_alnum) (RRep (RSet (\<lambda>c. is_alnum c \<or> one_of ''._:/-'' c)) 7 127)"

datatype query_kind = Immutable_id | Approved_reference

definition parseInvestigationSearchPageQuery :: "query_input \<Rightarrow> (string \<times> query_kind option) option" where
  "parseInvestigationSearchPageQuery searchParams =
     (if list_ex (\<lambda>e. fst e \<noteq> ''q'') searchParams then None
      else case map_of searchParams ''q'' of
        None \<Rightarrow> Some ('''', None)
      | Some Undefined \<Rightarrow> Some ('''', None)
      | Some (Many _) \<Rightarrow> None
      | Some (One raw) \<Rightarrow>
          if raw \<noteq> trim raw \<or> 128 < length raw then None
          else let normalized = toLowerCase raw in
            if rx_test lowerUUIDShape normalized then Some (normalized, Some Immutable_id)
            else if rx_test approvedReference raw then Some (raw, Some Approved_reference)
            else None)"

definition investigationSearchURL :: "string \<Rightarrow> string" where
  "investigationSearchURL q = ''/search?q='' @ encodeURIComponent q"

subsection \<open>Events and webhooks\<close>

definition eventType_pattern :: rx where
  "eventType_pattern = RSeq (RSet is_alnum) (RStar (RSet (\<lambda>c. is_alnum c \<or> one_of ''._:-'' c)))"

definition eventPageQueryRules :: query_rules where
  "eventPageQueryRules =
     [(''eventType'', pattern_rule 256 eventType_pattern),
      (''state'', value_rule 16 [''pending'', ''retrying'', ''published'', ''dead'']),
      (''endpointId'', pattern_rule 36 canonicalUUIDShape),
      (''relatedId'', pattern_rule 36 canonicalUUIDShape),
      (''correlationId'', pattern_rule 36 canonicalUUIDShape),
      (''from'', check_rule 64 isRFC3339Timestamp),
      (''to'', check_rule 64 isRFC3339Timestamp),
      (''cursor'', length_rule 2048)]"

definition eventBFFQueryRules :: query_rules where
  "eventBFFQueryRules = eventPageQueryRules @ [(''limit'', limit_rule)]"

definition webhookPageQueryRules :: query_rules where
  "webhookPageQueryRules =
     [(''status'', value_rule 32 [''pending_verification'', ''active'', ''disabled'']),
      (''eventType'', pattern_rule 128 eventType_pattern),
      (''cursor'', length_rule 2048)]"

definition webhookBFFQueryRules :: query_rules where
  "webhookBFFQueryRules = webhookPageQueryRules @ [(''limit'', limit_rule)]"

text \<open>The range test of the event and transfer queries; a comparison with \<^verbatim>\<open>NaN\<close> is false.\<close>

definition validRange :: "params \<Rightarrow> bool" where
  "validRange vals =
     (case (map_of vals ''from'', map_of vals ''to'') of
        (Some a, Some b) \<Rightarrow>
          \<not> (a \<noteq> [] \<and> b \<noteq> [] \<and>
             (case (date_parse a, date_parse b) of (Some x, Some y) \<Rightarrow> y < x | _ \<Rightarrow> False))
      | _ \<Rightarrow> True)"

text \<open>\<^verbatim>\<open>new Date(value).toISOString()\<close>, which throws on an invalid date.\<close>

definition iso_string :: "string \<Rightarrow> string outcome" where
  "iso_string v = (case date_parse v of None \<Rightarrow> Inl ''Invalid time value'' | Some ms \<Rightarrow> Inr (toISOString ms))"

definition canonicalRFC3339 :: "string \<Rightarrow> string outcome" where
  "canonicalRFC3339 v =
     andthen (iso_string v) (\<lambda>s. Inr (if endsWith s ''.000Z'' then slice_but_end s 5 @ ''Z'' else s))"

text \<open>\<^verbatim>\<open>v ? f(v) : undefined\<close>\<close>

definition optional :: "(string \<Rightarrow> string outcome) \<Rightarrow> string option \<Rightarrow> string option outcome" where
  "optional f v = (case v of None \<Rightarrow> Inr None | Some x \<Rightarrow> if x = [] then Inr None else andthen (f x) (\<lambda>y. Inr (Some y)))"

record event_filters =
  evf_eventType :: "string option"
  evf_state :: "string option"
  evf_endpointId :: "string option"
  evf_relatedId :: "string option"
  evf_correlationId :: "string option"
  evf_from :: "string option"
  evf_to :: "string option"
  evf_cursor :: "string option"

definition parseEventPageQuery :: "query_input \<Rightarrow> event_filters option outcome" where
  "parseEventPageQuery input = (case parseStrictListQuery input eventPageQueryRules of
     Inl _ \<Rightarrow> Inr None
   | Inr vals \<Rightarrow>
       if \<not> validRange vals then Inr None
       else andthen (optional canonicalRFC3339 (map_of vals ''from'')) (\<lambda>from_v.
            andthen (optional canonicalRFC3339 (map_of vals ''to'')) (\<lambda>to_v.
         Inr (Some \<lparr>evf_eventType = map_of vals ''eventType'', evf_state = map_of vals ''state'',
           evf_endpointId = map_option toLowerCase (map_of vals ''endpointId''),
           evf_relatedId = map_option toLowerCase (map_of vals ''relatedId''),
           evf_correlationId = map_option toLowerCase (map_of vals ''correlationId''),
           evf_from = from_v, evf_to = to_v, evf_cursor = map_of vals ''cursor''\<rparr>))))"

record webhook_filters =
  whf_status :: "string option"
  whf_eventType :: "string option"
  whf_cursor :: "string option"

definition parseWebhookPageQuery :: "query_input \<Rightarrow> webhook_filters option" where
  "parseWebhookPageQuery input = (case parseStrictListQuery input webhookPageQueryRules of
     Inl _ \<Rightarrow> None
   | Inr vals \<Rightarrow> Some \<lparr>whf_status = map_of vals ''status'', whf_eventType = map_of vals ''eventType'', whf_cursor = map_of vals ''cursor''\<rparr>)"

definition parseEventBFFSearchParams :: "params \<Rightarrow> params option" where
  "parseEventBFFSearchParams ps = (case parseStrictListSearchParams ps eventBFFQueryRules of
     Inl _ \<Rightarrow> None | Inr vals \<Rightarrow> if validRange vals then Some vals else None)"

definition parseWebhookBFFSearchParams :: "params \<Rightarrow> query_result" where
  "parseWebhookBFFSearchParams ps = parseStrictListSearchParams ps webhookBFFQueryRules"

definition listURL :: "string \<Rightarrow> (string \<times> string option) list \<Rightarrow> string" where
  "listURL path entries = with_query path (foldl (\<lambda>ps (k, v). set_present k v ps) [] entries)"

definition eventsURL :: "event_filters \<Rightarrow> string" where
  "eventsURL f = listURL ''/events''
     [(''eventType'', evf_eventType f), (''state'', evf_state f), (''endpointId'', evf_endpointId f),
      (''relatedId'', evf_relatedId f), (''correlationId'', evf_correlationId f), (''from'', evf_from f),
      (''to'', evf_to f), (''cursor'', evf_cursor f)]"

definition webhooksURL :: "webhook_filters \<Rightarrow> string" where
  "webhooksURL f = listURL ''/webhooks'' [(''status'', whf_status f), (''eventType'', whf_eventType f), (''cursor'', whf_cursor f)]"

subsection \<open>Transfers\<close>

definition transferReference :: rx where
  "transferReference = RRep (RSet (\<lambda>c. is_hex c \<or> c = CHR ''-'')) 1 128"

definition transferListQueryRules :: query_rules where
  "transferListQueryRules =
     [(''q'', pattern_rule 128 transferReference),
      (''accountId'', pattern_rule 36 canonicalUUIDShape),
      (''status'', value_rule 8 [''pending'', ''posted'', ''rejected'']),
      (''from'', check_rule 64 isRFC3339Timestamp),
      (''to'', check_rule 64 isRFC3339Timestamp),
      (''cursor'', length_rule 2048)]"

definition transferBFFQueryRules :: query_rules where
  "transferBFFQueryRules = transferListQueryRules @ [(''limit'', limit_rule)]"

definition transferExportQueryRules :: query_rules where
  "transferExportQueryRules =
     filter (\<lambda>r. fst r \<noteq> ''cursor'') transferListQueryRules @
     [(''limit'', pattern_rule 5 (RAlt (RSeq (RSet (between 49 57)) (RRep (RSet is_digit) 0 3)) (RStr ''10000'')))]"

definition transferPageQueryRules :: "url_parser \<Rightarrow> query_rules" where
  "transferPageQueryRules new_URL = transferListQueryRules @
     [(''destination'', pattern_rule 36 canonicalUUIDShape),
      (''return_to'', check_rule 2048 (\<lambda>value. case safeInternalReturnPath new_URL (One value) of
         None \<Rightarrow> False | Some p \<Rightarrow> startsWith p ''/accounts''))]"

record transfer_filters =
  trf_query :: string
  trf_accountId :: string
  trf_status :: string
  trf_from :: string
  trf_to :: string
  trf_cursor :: "string option"

record transfer_page_query =
  tpq_filters :: transfer_filters
  tpq_preferredDestinationId :: "string option"
  tpq_returnTo :: "string option"

definition parseTransferPageQuery :: "url_parser \<Rightarrow> query_input \<Rightarrow> transfer_page_query option outcome" where
  "parseTransferPageQuery new_URL input = (case parseStrictListQuery input (transferPageQueryRules new_URL) of
     Inl _ \<Rightarrow> Inr None
   | Inr vals \<Rightarrow>
       if \<not> validRange vals then Inr None
       else andthen (optional iso_string (map_of vals ''from'')) (\<lambda>from_v.
            andthen (optional iso_string (map_of vals ''to'')) (\<lambda>to_v.
         Inr (Some
           \<lparr>tpq_filters = \<lparr>trf_query = or_empty (map_option toLowerCase (map_of vals ''q'')),
              trf_accountId = or_empty (map_option toLowerCase (map_of vals ''accountId'')),
              trf_status = or_empty (map_of vals ''status''), trf_from = or_empty from_v, trf_to = or_empty to_v,
              trf_cursor = map_of vals ''cursor''\<rparr>,
            tpq_preferredDestinationId = map_option toLowerCase (map_of vals ''destination''),
            tpq_returnTo = (case map_of vals ''return_to'' of
               None \<Rightarrow> None | Some r \<Rightarrow> if r = [] then None else safeInternalReturnPath new_URL (One r))\<rparr>))))"

definition parseTransferSearchParams :: "params \<Rightarrow> query_rules \<Rightarrow> params option" where
  "parseTransferSearchParams ps rules = (case parseStrictListSearchParams ps rules of
     Inl _ \<Rightarrow> None | Inr vals \<Rightarrow> if validRange vals then Some vals else None)"

definition transfer_params :: "transfer_filters \<Rightarrow> params \<Rightarrow> params" where
  "transfer_params f ps =
     set_present ''to'' (Some (trf_to f)) (set_present ''from'' (Some (trf_from f))
       (set_present ''status'' (Some (trf_status f)) (set_present ''accountId'' (Some (trf_accountId f))
         (set_present ''q'' (Some (trf_query f)) ps))))"

definition transferURL :: "transfer_filters \<Rightarrow> string" where
  "transferURL f = with_query ''/transfers'' (set_present ''cursor'' (trf_cursor f) (transfer_params f []))"

definition transferExportQuery :: "transfer_filters \<Rightarrow> params" where
  "transferExportQuery f = transfer_params f [(''limit'', ''10000'')]"

section \<open>Lemmas\<close>

text \<open>Parameters that were accepted once and are sent again under the same rules are accepted with
  the same values.\<close>

lemma reparse_params:
  assumes "distinct (map fst ps)"
    and "\<And>k v. (k, v) \<in> set ps \<Longrightarrow> trim v = v \<and> (\<exists>rule. map_of rules k = Some rule \<and> admits rule v)"
  shows "\<exists>vs. parseStrictListQuery (map (\<lambda>(k, v). (k, One v)) ps) rules = Inr vs \<and> map_of vs = map_of ps"
proof -
  let ?in = "map (\<lambda>(k, v). (k, One v)) ps"
  have "map fst ?in = map fst ps" by (induction ps) auto
  then have keys: "distinct (map fst ?in)" using assms(1) by (simp only:)
  have "list_all (entry_ok rules) ?in" using assms(2) by (fastforce simp: list_all_iff entry_ok_def)
  then obtain vs where vs: "parseStrictListQuery ?in rules = Inr vs"
    using parse_entries_ok [of rules "[]" ?in] by (auto simp: parseStrictListQuery_def)
  have "map_of vs k = map_of ps k" for k
  proof -
    have "map_of vs k = given ?in k"
      using parse_entries_values [OF vs [unfolded parseStrictListQuery_def] keys, of k]
      by (cases "given ?in k") simp_all
    also have "\<dots> = map_of ps k"
    proof (cases "map_of ps k")
      case (Some v)
      then have "trim v = v" using assms(2) map_of_SomeD by fast
      then show ?thesis using Some by (simp add: given_def map_of_map)
    qed (simp add: given_def map_of_map)
    finally show ?thesis .
  qed
  then show ?thesis using vs by blast
qed

lemma accepted_value:
  assumes "parseStrictListQuery input rules = Inr vs" "distinct (map fst input)" "map_of vs k = Some v"
  shows "trim v = v \<and> v \<noteq> [] \<and> (\<exists>rule. map_of rules k = Some rule \<and> admits rule v)"
proof -
  have g: "given input k = Some v"
    using parse_entries_values [of rules "[]" input vs k] assms
    by (simp add: parseStrictListQuery_def split: option.splits)
  then obtain r where r: "(k, One r) \<in> set input" "v = trim r"
    by (auto simp: given_def split: option.splits raw_value.splits dest: map_of_SomeD)
  have "entry_ok rules (k, One r)"
    using parse_entries_ok [of rules "[]" input] assms(1) r(1) by (auto simp: parseStrictListQuery_def list_all_iff)
  then show ?thesis using r(2) by (auto simp: entry_ok_def admits_iff split: option.splits)
qed

lemma optional_ok: "(\<And>x. v = Some x \<Longrightarrow> \<exists>y. f x = Inr y) \<Longrightarrow> \<exists>r. optional f v = Inr r"
  by (cases v) (auto simp: optional_def)

lemma accepted_timestamp: "isRFC3339Timestamp v \<Longrightarrow> \<exists>ms. date_parse v = Some ms"
  by (auto simp: isRFC3339Timestamp_def Let_def split: if_splits)

lemma limit_pattern_bounds: "rx_test limit_pattern v \<Longrightarrow> 1 \<le> digits_value v \<and> digits_value v \<le> 100 \<and> canonical_nat v"
  by (auto simp: limit_pattern_def digits_value_def digit_value_def canonical_nat_def all_digits_def char_class_defs)

lemma keys_set_param: "fst ` set (set_param k v ps) \<subseteq> insert k (fst ` set ps)"
  by (induction ps) auto

lemma distinct_set_param: "distinct (map fst ps) \<Longrightarrow> distinct (map fst (set_param k v ps))"
proof (induction ps)
  case (Cons p ps)
  show ?case
  proof (cases "fst p = k")
    case True
    then show ?thesis using Cons by (auto simp: distinct_map inj_on_def)
  next
    case False
    then show ?thesis using Cons keys_set_param [of k v ps] by auto
  qed
qed simp

lemma set_present_facts:
  "map_of (set_present k v ps) = (case v of None \<Rightarrow> map_of ps | Some x \<Rightarrow> if x = [] then map_of ps else (map_of ps)(k \<mapsto> x))"
  "distinct (map fst ps) \<Longrightarrow> distinct (map fst (set_present k v ps))"
  by (auto simp: set_present_def map_of_set_param distinct_set_param split: option.splits)

lemma or_empty_present: "(\<And>x. v = Some x \<Longrightarrow> x \<noteq> []) \<Longrightarrow> (if or_empty v = [] then None else Some (or_empty v)) = v"
  by (cases v) (auto simp: or_empty_def)

lemma account_params_facts:
  "distinct (map fst (account_params f focus))"
  "map_of (account_params f focus) ''q'' = (if acf_query f = [] then None else Some (acf_query f))"
  "map_of (account_params f focus) ''status'' = (if acf_status f = [] then None else Some (acf_status f))"
  "map_of (account_params f focus) ''category'' = (if acf_category f = [] then None else Some (acf_category f))"
  "map_of (account_params f focus) ''cursor'' = (if acf_cursor f = Some [] then None else acf_cursor f)"
  "map_of (account_params f focus) ''focus'' = (if focus = Some [] then None else focus)"
  "map_of (account_params f focus) k \<noteq> None \<Longrightarrow> k \<in> {''q'', ''status'', ''category'', ''cursor'', ''focus''}"
  by (auto simp: account_params_def set_present_facts split: option.splits if_splits)

lemma focus_lower: "admits (pattern_rule 36 canonicalUUIDShape) v \<Longrightarrow>
    admits (pattern_rule 36 canonicalUUIDShape) (toLowerCase v) \<and> trim (toLowerCase v) = toLowerCase v"
proof -
  assume a: "admits (pattern_rule 36 canonicalUUIDShape) v"
  then have "rx_test canonicalUUIDShape (toLowerCase v)" by (simp add: admits_iff pattern_rule_def shape_closed)
  moreover from this have "trim (toLowerCase v) = toLowerCase v"
    using shape_chars [of "toLowerCase v"] by (intro trim_no_space) (auto simp: list_all_iff char_class_defs)
  ultimately show ?thesis using a by (auto simp: admits_iff pattern_rule_def toLowerCase_def)
qed

section \<open>Properties\<close>

text \<open>A page size that a BFF list query accepts is a canonical decimal between 1 and 100: the
  private API never sees a page size outside that range, whatever the browser asks for.\<close>

theorem accepted_limit_bounded:
  assumes "parseStrictListSearchParams ps rules = Inr vs" "map_of rules ''limit'' = Some limit_rule"
    and "map_of vs ''limit'' = Some v"
  shows "1 \<le> digits_value v \<and> digits_value v \<le> 100 \<and> canonical_nat v"
proof -
  have "admits limit_rule v"
    using accepted_value [of "search_input ps" rules vs "''limit''" v] assms distinct_search_input
    by (auto simp: parseStrictListSearchParams_def)
  then show ?thesis using limit_pattern_bounds by (auto simp: limit_rule_def rule_defs admits_iff)
qed

theorem accepted_limit_bounded_witness:
  "1 \<le> digits_value ''50'' \<and> digits_value ''50'' \<le> 100 \<and> canonical_nat ''50''"
proof -
  have "parseStrictListSearchParams [(''limit'', ''50''), (''status'', ''frozen'')] accountBFFQueryRules =
      Inr [(''limit'', ''50''), (''status'', ''frozen'')]" by code_simp
  moreover have "map_of accountBFFQueryRules ''limit'' = Some limit_rule" by (simp add: accountBFFQueryRules_def)
  ultimately show ?thesis
    using accepted_limit_bounded [of "[(''limit'', ''50''), (''status'', ''frozen'')]" accountBFFQueryRules
        "[(''limit'', ''50''), (''status'', ''frozen'')]" "''50''"] by simp
qed

text \<open>Parsing the transfer and event page queries never throws: a timestamp that passed its
  validator has a date, so the conversion to the canonical text is always defined.\<close>

theorem timestamp_queries_total:
  assumes "distinct (map fst input)"
  shows "(\<exists>r. parseTransferPageQuery new_URL input = Inr r) \<and> (\<exists>r. parseEventPageQuery input = Inr r)"
proof -
  have iso: "\<exists>r. optional iso_string (map_of vs k) = Inr r" and can: "\<exists>r. optional canonicalRFC3339 (map_of vs k) = Inr r"
    if "parseStrictListQuery input rules = Inr vs" "map_of rules k = Some (check_rule 64 isRFC3339Timestamp)" for rules vs k
    using accepted_value [OF that(1) assms, of k] that(2) accepted_timestamp
    by (fastforce intro!: optional_ok simp: iso_string_def canonicalRFC3339_def admits_iff check_rule_def)+
  have r: "map_of (transferPageQueryRules new_URL) k = Some (check_rule 64 isRFC3339Timestamp)"
    "map_of eventPageQueryRules k = Some (check_rule 64 isRFC3339Timestamp)" if "k \<in> {''from'', ''to''}" for k
    using that by (auto simp: transferPageQueryRules_def transferListQueryRules_def eventPageQueryRules_def)
  have "\<exists>r. parseTransferPageQuery new_URL input = Inr r"
  proof (cases "parseStrictListQuery input (transferPageQueryRules new_URL)")
    case (Inr vs)
    from iso [OF Inr r(1), of "''from''"] iso [OF Inr r(1), of "''to''"] obtain a b where
      "optional iso_string (map_of vs ''from'') = Inr a" "optional iso_string (map_of vs ''to'') = Inr b" by auto
    then show ?thesis using Inr by (simp add: parseTransferPageQuery_def)
  qed (simp add: parseTransferPageQuery_def)
  moreover have "\<exists>r. parseEventPageQuery input = Inr r"
  proof (cases "parseStrictListQuery input eventPageQueryRules")
    case (Inr vs)
    from can [OF Inr r(2), of "''from''"] can [OF Inr r(2), of "''to''"] obtain a b where
      "optional canonicalRFC3339 (map_of vs ''from'') = Inr a" "optional canonicalRFC3339 (map_of vs ''to'') = Inr b" by auto
    then show ?thesis using Inr by (simp add: parseEventPageQuery_def)
  qed (simp add: parseEventPageQuery_def)
  ultimately show ?thesis by blast
qed

theorem timestamp_queries_total_witness:
  "\<exists>r. parseTransferPageQuery (\<lambda>t b. None) [(''from'', One ''2024-02-29T23:59:59.5+05:30'')] = Inr r"
  using timestamp_queries_total [of "[(''from'', One ''2024-02-29T23:59:59.5+05:30'')]" "\<lambda>t b. None"] by simp

text \<open>The account directory URL is a faithful link: its query string, read back by the platform's
  search-parameter parser and by the page parser, gives the same filters and the same focused account
  that it was written from, for every query the page accepted.\<close>

theorem account_directory_url_roundtrip:
  assumes "distinct (map fst input)" "parseAccountPageQuery input = Some (filters, focus)"
  shows "search_params (params_string (account_params filters focus)) = Some (account_params filters focus)
    \<and> parseAccountPageQuery (map (\<lambda>(k, v). (k, One v)) (account_params filters focus)) = Some (filters, focus)"
proof -
  obtain vs where vs: "parseStrictListQuery input accountPageQueryRules = Inr vs"
    and f: "filters = account_filters_of vs" "focus = map_option toLowerCase (map_of vs ''focus'')"
    using assms(2) by (auto simp: parseAccountPageQuery_def split: sum.splits)
  note acc = accepted_value [OF vs assms(1)]
  let ?ps = "account_params filters focus"
  have ne: "map_of vs k = Some x \<Longrightarrow> x \<noteq> []" for k x using acc by blast
  have q1: "map_of ?ps k = map_of vs k" if "k \<in> {''q'', ''status'', ''category''}" for k
    using that account_params_facts(2-4) [of filters focus] or_empty_present [of "map_of vs k"] ne [of k]
    by (auto simp: f account_filters_of_def)
  have q2: "map_of ?ps ''cursor'' = map_of vs ''cursor''" "map_of ?ps ''focus'' = map_option toLowerCase (map_of vs ''focus'')"
    using account_params_facts(5,6) [of filters focus] ne by (auto simp: f account_filters_of_def toLowerCase_def)
  have q: "map_of ?ps k = (if k = ''focus'' then map_option toLowerCase (map_of vs k) else map_of vs k)"
    if "k \<in> {''q'', ''status'', ''category'', ''cursor'', ''focus''}" for k
    using that q1 q2 by (elim insertE; simp)
  have "\<exists>us. parseStrictListQuery (map (\<lambda>(k, v). (k, One v)) ?ps) accountPageQueryRules = Inr us \<and> map_of us = map_of ?ps"
  proof (rule reparse_params)
    show "distinct (map fst ?ps)" by (rule account_params_facts)
    fix k v assume "(k, v) \<in> set ?ps"
    then have kv: "map_of ?ps k = Some v" by (simp add: account_params_facts(1))
    then have k: "k \<in> {''q'', ''status'', ''category'', ''cursor'', ''focus''}"
      using account_params_facts(7) [of filters focus k] by auto
    show "trim v = v \<and> (\<exists>rule. map_of accountPageQueryRules k = Some rule \<and> admits rule v)"
    proof (cases "k = ''focus''")
      case True
      then obtain w where w: "map_of vs ''focus'' = Some w" "v = toLowerCase w" using q [OF k] kv by auto
      have "map_of accountPageQueryRules ''focus'' = Some (pattern_rule 36 canonicalUUIDShape)"
        by (simp add: accountPageQueryRules_def)
      then show ?thesis using acc [OF w(1)] focus_lower [of w] True w(2) by auto
    qed (use q [OF k] kv acc [of k v] in auto)
  qed
  then obtain us where us: "parseStrictListQuery (map (\<lambda>(k, v). (k, One v)) ?ps) accountPageQueryRules = Inr us"
    "map_of us = map_of ?ps" by blast
  have "account_filters_of us = account_filters_of vs" unfolding account_filters_of_def us(2) using q1 q2 by simp
  moreover have "map_of us ''focus'' = focus" using us(2) q2(2) f(2) by simp
  moreover have "map_option toLowerCase focus = focus" using f(2) by (cases "map_of vs ''focus''") simp_all
  ultimately show ?thesis using us(1) f(1) by (simp add: parseAccountPageQuery_def search_params_string)
qed

theorem account_directory_url_roundtrip_witness:
  "parseAccountPageQuery [(''q'', One ''Acme & Co''), (''status'', One ''frozen'')] =
     Some (\<lparr>acf_query = ''Acme & Co'', acf_status = ''frozen'', acf_category = '''', acf_cursor = None\<rparr>, None)"
proof -
  let ?f = "\<lparr>acf_query = ''Acme & Co'', acf_status = ''frozen'', acf_category = '''', acf_cursor = None\<rparr>"
  have p: "parseAccountPageQuery [(''status'', One ''frozen''), (''q'', One '' Acme & Co '')] = Some (?f, None)" by code_simp
  have "account_params ?f None = [(''q'', ''Acme & Co''), (''status'', ''frozen'')]" by code_simp
  then show ?thesis
    using account_directory_url_roundtrip [OF _ p] by simp
qed

section \<open>Return paths\<close>

text \<open>The platform's parser on absolute paths (a slash first, no authority), as the URL standard
  defines it for an \<^verbatim>\<open>https\<close> base: outer controls and spaces are stripped, tabs and line ends
  removed, the fragment and the query split off, dot segments resolved, and each part
  percent-encoded. A reference with an authority is outside this fragment (\<open>None\<close>).\<close>

definition is_single_dot :: "string \<Rightarrow> bool" where
  "is_single_dot s = List.member [''.'', ''%2e''] (toLowerCase s)"

definition is_double_dot :: "string \<Rightarrow> bool" where
  "is_double_dot s = List.member [''..'', ''.%2e'', ''%2e.'', ''%2e%2e''] (toLowerCase s)"

fun resolve_dots :: "string list \<Rightarrow> string list \<Rightarrow> string list" where
  "resolve_dots acc [] = rev acc"
| "resolve_dots acc [s] =
     (if is_double_dot s then rev ([] # tl acc) else if is_single_dot s then rev ([] # acc) else rev (s # acc))"
| "resolve_dots acc (s # t # ss) =
     (if is_double_dot s then resolve_dots (tl acc) (t # ss)
      else if is_single_dot s then resolve_dots acc (t # ss) else resolve_dots (s # acc) (t # ss))"

definition escape_in :: "string \<Rightarrow> string \<Rightarrow> string" where
  "escape_in special s =
     concat (map (\<lambda>c. if code c < 32 \<or> 126 < code c \<or> one_of special c then concat (map percent (utf8 c)) else [c]) s)"

definition prefixed :: "string \<Rightarrow> string \<Rightarrow> string" where
  "prefixed p s = (if s = [] then [] else p @ s)"

definition internal_url :: url_parser where
  "internal_url value base =
     (let outer = (\<lambda>c. code c \<le> 32);
          t = filter (\<lambda>c. code c \<notin> {9, 10, 13}) (rev (dropWhile outer (rev (dropWhile outer value))));
          fragment = drop 1 (dropWhile (\<lambda>c. c \<noteq> CHR ''#'') t);
          rest = takeWhile (\<lambda>c. c \<noteq> CHR ''#'') t;
          query = drop 1 (dropWhile (\<lambda>c. c \<noteq> CHR ''?'') rest);
          path = map (\<lambda>c. if c = backslash then CHR ''/'' else c) (takeWhile (\<lambda>c. c \<noteq> CHR ''?'') rest) in
      if \<not> startsWith path ''/'' \<or> startsWith path ''//'' \<or> base \<noteq> Some internal_base then None
      else Some \<lparr>protocol = ''https:'', username = '''', password = '''', origin = internal_base,
        pathname = concat (map (\<lambda>s. ''/'' @ escape_in (quote_char # '' #<>?^`{}'') s) (resolve_dots [] (split_on CHR ''/'' (tl path)))),
        search = prefixed ''?'' (escape_in (quote_char # CHR 0x27 # '' #<>'') query), hash = prefixed ''#'' (escape_in (quote_char # '' <>`'') fragment)\<rparr>)"

text \<open>The check rejects a text that begins with two slashes, but it returns the path after dot segments
  are resolved: \<^verbatim>\<open>/.//host\<close> passes and comes back as \<^verbatim>\<open>//host\<close>, which a browser resolves to another
  origin.\<close>

theorem return_path_may_leave_origin:
  "safeInternalReturnPath internal_url (One ''/.//evil.example/x'') = Some ''//evil.example/x''"
  by code_simp

text \<open>The transfer page is not affected: its rule asks that the resolved path starts with
  \<^verbatim>\<open>/accounts\<close>.\<close>

lemma transfer_return_path_internal:
  assumes "parseTransferPageQuery new_URL input = Inr (Some q)" "distinct (map fst input)" "tpq_returnTo q = Some p"
  shows "startsWith p ''/accounts''"
proof -
  obtain vs where vs: "parseStrictListQuery input (transferPageQueryRules new_URL) = Inr vs"
    using assms(1) by (auto simp: parseTransferPageQuery_def split: sum.splits)
  then obtain r where r: "map_of vs ''return_to'' = Some r" "safeInternalReturnPath new_URL (One r) = Some p"
    using assms(1,3) by (auto simp: parseTransferPageQuery_def andthen_eq_Inr split: if_splits option.splits)
  have "map_of (transferPageQueryRules new_URL) ''return_to'' = Some (check_rule 2048
      (\<lambda>value. case safeInternalReturnPath new_URL (One value) of None \<Rightarrow> False | Some p \<Rightarrow> startsWith p ''/accounts''))"
    by (simp add: transferPageQueryRules_def transferListQueryRules_def)
  then show ?thesis using accepted_value [OF vs assms(2) r(1)] r(2) by (auto simp: admits_iff check_rule_def)
qed

end
