(* ===== verification/Credential.thy ===== *)
theory Credential
  imports SessionStore Intents "HOL-Library.Multiset"
begin

text \<open>
  The workload credential under which the BFF calls the private API:
  \<^verbatim>\<open>web/src/lib/workload-credential.ts\<close>.

  The token endpoint is reached by a fetch of the server, the token file by \<open>readFile\<close>, and the text of a
  URL is the parameter \<open>href\<close>. The cache and the request that is under way are the state of a machine whose
  events are the calls of \<^verbatim>\<open>managedOAuthCredential\<close> and the answers of the token endpoint. Arithmetic on
  times is exact: the code computes with doubles, whose rounding is below a microsecond here. The clock is
  read once per answer.
\<close>

section \<open>Tokens\<close>

definition productionRuntime :: "env \<Rightarrow> bool" where
  "productionRuntime env = list_ex
     (\<lambda>n. case env n of Some v \<Rightarrow> is_production (toLowerCase (trim v)) | None \<Rightarrow> False)
     [''LEDGERSYNC_ENV'', ''LEDGERSYNC_DEPLOYMENT_ENV'']"

definition tokenExpiryMilliseconds :: "string \<Rightarrow> rat option" where
  "tokenExpiryMilliseconds token =
     (let parts = split_on CHR ''.'' token in
      if length parts \<noteq> 3 then None
      else case Option.bind (utf8_decode (from_base64url (parts ! 1))) JSON_parse of
        None \<Rightarrow> None
      | Some claims \<Rightarrow>
          (case as_number (field ''exp'' claims) of
             Some (Fin q) \<Rightarrow> if is_safe_integer (Fin q) then Some (q * 1000) else None
           | _ \<Rightarrow> None))"

definition assertUsableToken :: "int \<Rightarrow> string \<Rightarrow> string outcome" where
  "assertUsableToken now raw =
     (let token = trim raw; expiry = tokenExpiryMilliseconds token in
      if length token < 16 \<or> 16384 < length token \<or> list_ex is_space token
      then Inl ''private API workload credential is malformed''
      else if length (split_on CHR ''.'' token) = 3
          \<and> (case expiry of None \<Rightarrow> True | Some e \<Rightarrow> e = 0 \<or> e \<le> of_int (now + 5000))
      then Inl ''private API workload credential is expired or near expiry''
      else Inr token)"

section \<open>The token endpoint\<close>

record oauth_configuration =
  tokenURL :: string
  clientID :: string
  clientSecret :: string
  audience :: "string option"
  oauth_scope :: "string option"

definition setting :: "env \<Rightarrow> string \<Rightarrow> string option" where
  "setting env name = nonempty (map_option trim (env name))"

definition requiredOAuthConfiguration :: "url_parser \<Rightarrow> (url \<Rightarrow> string) \<Rightarrow> env \<Rightarrow> oauth_configuration option outcome" where
  "requiredOAuthConfiguration new_URL href env =
     (let url = setting env ''LEDGERSYNC_PRIVATE_API_TOKEN_URL''; client = setting env ''LEDGERSYNC_PRIVATE_API_CLIENT_ID'';
          sec = setting env ''LEDGERSYNC_PRIVATE_API_CLIENT_SECRET''; aud = setting env ''LEDGERSYNC_PRIVATE_API_AUDIENCE'';
          scp = setting env ''LEDGERSYNC_PRIVATE_API_SCOPE'' in
      if url = None \<and> client = None \<and> sec = None \<and> aud = None \<and> scp = None then Inr None
      else case (url, client, sec) of
        (Some u, Some c, Some k) \<Rightarrow>
          if aud = None \<and> scp = None then Inl ''private API OAuth configuration is incomplete''
          else (case new_URL u None of
            None \<Rightarrow> Inl ''private API token URL is invalid''
          | Some parsed \<Rightarrow>
              if productionRuntime env \<and> protocol parsed \<noteq> ''https:'' then Inl ''private API token URL must use HTTPS in production''
              else if username parsed \<noteq> '''' \<or> password parsed \<noteq> '''' then Inl ''private API token URL must not contain credentials''
              else Inr (Some \<lparr>tokenURL = href parsed, clientID = c, clientSecret = k, audience = aud, oauth_scope = scp\<rparr>))
      | _ \<Rightarrow> Inl ''private API OAuth configuration is incomplete'')"

definition oauth_request :: "oauth_configuration \<Rightarrow> upstream_request" where
  "oauth_request configuration =
     (let body = [(''grant_type'', ''client_credentials''), (''client_id'', clientID configuration),
            (''client_secret'', clientSecret configuration)];
          with_audience = (case audience configuration of Some a \<Rightarrow> set_param ''audience'' a body | None \<Rightarrow> body);
          all = (case oauth_scope configuration of Some s \<Rightarrow> set_param ''scope'' s with_audience | None \<Rightarrow> with_audience) in
      \<lparr>out_url = tokenURL configuration, out_method = ''POST'',
       out_headers = [(''Content-Type'', ''application/x-www-form-urlencoded''), (''Accept'', ''application/json'')],
       out_body = Some (params_string all)\<rparr>)"

text \<open>\<^verbatim>\<open>Number(value)\<close>; \<open>None\<close> is \<^verbatim>\<open>NaN\<close>.\<close>

definition number_of :: "json option \<Rightarrow> jsnum option" where
  "number_of v = (case v of
     None \<Rightarrow> None
   | Some JNull \<Rightarrow> Some (Fin 0)
   | Some (JBool b) \<Rightarrow> Some (Fin (if b then 1 else 0))
   | Some (JNum x) \<Rightarrow> Some x
   | Some w \<Rightarrow> to_number (string_of w))"

record cached_credential =
  cred_token :: string
  refreshAt :: rat

definition response_expiry :: "int \<Rightarrow> json \<Rightarrow> rat option" where
  "response_expiry now payload = (case number_of (field ''expires_in'' payload) of
     Some (Fin q) \<Rightarrow> if 0 < q then Some (of_int now + q * 1000) else None
   | _ \<Rightarrow> None)"

definition refresh_time :: "int \<Rightarrow> rat \<Rightarrow> rat" where
  "refresh_time now expires = expires - min 60000 (max 10000 ((expires - of_int now) / 10))"

definition oauth_credential :: "int \<Rightarrow> json \<Rightarrow> cached_credential outcome" where
  "oauth_credential now payload =
     (case as_string (field ''access_token'' payload) of
        None \<Rightarrow> Inl ''private API workload credential response is malformed''
      | Some access \<Rightarrow>
          if (case field ''token_type'' payload of None \<Rightarrow> False | Some t \<Rightarrow> toLowerCase (string_of t) \<noteq> ''bearer'')
          then Inl ''private API workload credential response is malformed''
          else andthen (assertUsableToken now access) (\<lambda>token.
            (case (case tokenExpiryMilliseconds token of Some e \<Rightarrow> Some e | None \<Rightarrow> response_expiry now payload) of
               None \<Rightarrow> Inl ''private API workload credential lifetime is unavailable or too short''
             | Some expires \<Rightarrow>
                 if expires = 0 \<or> expires \<le> of_int (now + 10000)
                 then Inl ''private API workload credential lifetime is unavailable or too short''
                 else Inr \<lparr>cred_token = token, refreshAt = refresh_time now expires\<rparr>)))"

text \<open>What \<^verbatim>\<open>requestOAuthCredential\<close> makes of the answer that arrives at \<open>now\<close>.\<close>

definition oauth_answer :: "int \<Rightarrow> fetch_result \<Rightarrow> cached_credential outcome" where
  "oauth_answer now r = (case r of
     Fetch_timeout \<Rightarrow> Inl ''TimeoutError''
   | Fetch_error \<Rightarrow> Inl ''TypeError''
   | Fetched up \<Rightarrow>
       if \<not> ok up then Inl ''private API workload credential request failed''
       else (case up_text up of
               Body raw \<Rightarrow>
                 if 64 * 1024 < byte_length raw then Inl ''private API workload credential response is too large''
                 else (case JSON_parse raw of
                         None \<Rightarrow> Inl ''private API workload credential response is malformed''
                       | Some payload \<Rightarrow> oauth_credential now payload)
             | Body_timeout \<Rightarrow> Inl ''TimeoutError''
             | Body_error \<Rightarrow> Inl ''TypeError''))"

definition requestOAuthCredential ::
  "url_parser \<Rightarrow> (url \<Rightarrow> string) \<Rightarrow> env \<Rightarrow> (upstream_request \<Rightarrow> fetch_result) \<Rightarrow> int \<Rightarrow> upstream_request list \<times> cached_credential outcome" where
  "requestOAuthCredential new_URL href env fetch now = (case requiredOAuthConfiguration new_URL href env of
     Inl e \<Rightarrow> ([], Inl e)
   | Inr None \<Rightarrow> ([], Inl ''private API OAuth configuration is unavailable'')
   | Inr (Some configuration) \<Rightarrow> ([oauth_request configuration], oauth_answer now (fetch (oauth_request configuration))))"

section \<open>The cache and the request under way\<close>

record credential_state =
  cachedCredential :: "cached_credential option"
  refreshInFlight :: "nat list option"

text \<open>A call of \<^verbatim>\<open>managedOAuthCredential\<close> by a numbered caller, and the settling of the request that is
  under way; the waiting callers are those who await its promise.\<close>

datatype credential_event = Ask nat int | Settle "cached_credential outcome"

datatype credential_signal = Requested | Served nat string | Failed nat string

definition fresh_credential :: "credential_state \<Rightarrow> int \<Rightarrow> cached_credential option" where
  "fresh_credential s now = (case cachedCredential s of
     Some c \<Rightarrow> if of_int now < refreshAt c then Some c else None | None \<Rightarrow> None)"

definition managedOAuthCredential :: "credential_state \<Rightarrow> nat \<Rightarrow> int \<Rightarrow> credential_state \<times> credential_signal list" where
  "managedOAuthCredential s caller now = (case fresh_credential s now of
     Some c \<Rightarrow> (s, [Served caller (cred_token c)])
   | None \<Rightarrow>
       (case refreshInFlight s of
          None \<Rightarrow> (s\<lparr>refreshInFlight := Some [caller]\<rparr>, [Requested])
        | Some ws \<Rightarrow> (s\<lparr>refreshInFlight := Some (ws @ [caller])\<rparr>, [])))"

definition settle_refresh :: "credential_state \<Rightarrow> cached_credential outcome \<Rightarrow> credential_state \<times> credential_signal list" where
  "settle_refresh s r = (case refreshInFlight s of
     None \<Rightarrow> (s, [])
   | Some ws \<Rightarrow>
       (case r of
          Inl e \<Rightarrow> (s\<lparr>refreshInFlight := None\<rparr>, map (\<lambda>w. Failed w e) ws)
        | Inr c \<Rightarrow> (s\<lparr>refreshInFlight := None, cachedCredential := Some c\<rparr>, map (\<lambda>w. Served w (cred_token c)) ws)))"

fun credential_step :: "credential_state \<Rightarrow> credential_event \<Rightarrow> credential_state \<times> credential_signal list" where
  "credential_step s (Ask caller now) = managedOAuthCredential s caller now"
| "credential_step s (Settle r) = settle_refresh s r"

text \<open>Where a credential comes from.\<close>

datatype credential_source = From_file string | Managed | From_setting string

definition getPrivateAPIWorkloadCredential ::
  "url_parser \<Rightarrow> (url \<Rightarrow> string) \<Rightarrow> (string \<Rightarrow> string outcome) \<Rightarrow> env \<Rightarrow> int \<Rightarrow> credential_source outcome" where
  "getPrivateAPIWorkloadCredential new_URL href readFile env now =
     (case setting env ''LEDGERSYNC_PRIVATE_API_TOKEN_FILE'' of
        Some tokenFile \<Rightarrow> andthen (readFile tokenFile) (\<lambda>raw. andthen (assertUsableToken now raw) (\<lambda>token. Inr (From_file token)))
      | None \<Rightarrow>
          andthen (requiredOAuthConfiguration new_URL href env) (\<lambda>configuration.
            if configuration \<noteq> None then Inr Managed
            else if productionRuntime env
            then Inl ''production requires private API OAuth client credentials or managed renewal token file''
            else (case setting env ''LEDGERSYNC_PRIVATE_API_TOKEN'' of
                    None \<Rightarrow> Inl ''private API workload credential is unavailable''
                  | Some staticToken \<Rightarrow> andthen (assertUsableToken now staticToken) (\<lambda>token. Inr (From_setting token)))))"

section \<open>Runs\<close>

text \<open>The states the cache can reach, with the events that led there and the signals they emitted; only
  a request that is under way settles.\<close>

inductive credential_run :: "credential_state \<Rightarrow> credential_event list \<Rightarrow> credential_signal list \<Rightarrow> bool" where
  Start: "credential_run \<lparr>cachedCredential = None, refreshInFlight = None\<rparr> [] []"
| Step: "credential_run s es tr \<Longrightarrow> (\<And>r. e = Settle r \<Longrightarrow> refreshInFlight s \<noteq> None) \<Longrightarrow> credential_step s e = (s', sg)
     \<Longrightarrow> credential_run s' (es @ [e]) (tr @ sg)"

definition waiting :: "credential_state \<Rightarrow> nat list" where
  "waiting s = (case refreshInFlight s of None \<Rightarrow> [] | Some ws \<Rightarrow> ws)"

fun asked :: "credential_event \<Rightarrow> nat list" where
  "asked (Ask c now) = [c]"
| "asked (Settle r) = []"

fun answered :: "credential_signal \<Rightarrow> nat list" where
  "answered Requested = []"
| "answered (Served c t) = [c]"
| "answered (Failed c e) = [c]"

fun settles :: "credential_event \<Rightarrow> bool" where
  "settles (Settle r) = True"
| "settles (Ask c now) = False"

definition usable :: "int \<Rightarrow> string \<Rightarrow> bool" where
  "usable now token = (16 \<le> length token \<and> length token \<le> 16384 \<and> \<not> list_ex is_space token
     \<and> (length (split_on CHR ''.'' token) = 3 \<longrightarrow> (\<exists>e. tokenExpiryMilliseconds token = Some e \<and> of_int now + 5000 < e)))"

lemma assertUsableToken_usable: "assertUsableToken now raw = Inr token \<Longrightarrow> usable now token"
  by (auto simp: assertUsableToken_def usable_def Let_def split: if_splits option.splits)

lemma refresh_time_bounds:
  assumes "of_int now + 10000 < expires"
  shows "of_int now < refresh_time now expires" "refresh_time now expires \<le> expires - 10000"
    "expires - 60000 \<le> refresh_time now expires"
  using assms by (auto simp: refresh_time_def min_def max_def field_simps)

lemma oauth_credential_bounds:
  assumes "oauth_credential now payload = Inr c"
  obtains expires where "of_int now + 10000 < expires" "refreshAt c = refresh_time now expires"
    "usable now (cred_token c)" "\<And>e. tokenExpiryMilliseconds (cred_token c) = Some e \<Longrightarrow> e = expires"
proof -
  obtain token expires where "assertUsableToken now (field_string ''access_token'' payload) = Inr token"
      "(case tokenExpiryMilliseconds token of Some e \<Rightarrow> Some e | None \<Rightarrow> response_expiry now payload) = Some expires"
      "\<not> expires \<le> of_int (now + 10000)" "c = \<lparr>cred_token = token, refreshAt = refresh_time now expires\<rparr>"
  proof -
    obtain access where a: "field ''access_token'' payload = Some (JStr access)"
      using assms by (cases "field ''access_token'' payload" rule: as_string.cases) (auto simp: oauth_credential_def)
    obtain token where t: "assertUsableToken now access = Inr token"
      using assms a by (auto simp: oauth_credential_def andthen_eq_Inr split: if_splits)
    obtain expires where "(case tokenExpiryMilliseconds token of Some e \<Rightarrow> Some e | None \<Rightarrow> response_expiry now payload) = Some expires"
      "\<not> expires \<le> of_int (now + 10000)" "c = \<lparr>cred_token = token, refreshAt = refresh_time now expires\<rparr>"
      using assms a t by (auto simp: oauth_credential_def split: if_splits option.splits)
    then show thesis using that [of token expires] t a by (simp add: field_string_def)
  qed
  then show thesis using that [of expires] assertUsableToken_usable by (auto split: option.splits)
qed

section \<open>Properties\<close>


text \<open>C38: One request for a credential at a time, and nobody is lost. In every reachable state the
  requests sent to the token endpoint exceed those answered by one while a request is under way and by
  none otherwise; every caller was answered exactly once or waits for that request; and a caller is
  served from the cache only before the cached credential is due for renewal.\<close>

theorem credential_single_flight:
  assumes "credential_run s es tr"
  shows "count_list tr Requested = length (filter settles es) + (if refreshInFlight s = None then 0 else 1)
    \<and> mset (concat (map asked es)) = mset (concat (map answered tr)) + mset (waiting s)
    \<and> (\<forall>c now t. snd (credential_step s (Ask c now)) = [Served c t] \<longrightarrow>
         (\<exists>k. cachedCredential s = Some k \<and> cred_token k = t \<and> of_int now < refreshAt k))"
proof -
  have "(\<forall>c now t. snd (credential_step s (Ask c now)) = [Served c t] \<longrightarrow>
         (\<exists>k. cachedCredential s = Some k \<and> cred_token k = t \<and> of_int now < refreshAt k))"
    by (auto simp: managedOAuthCredential_def fresh_credential_def split: option.splits if_splits)
  moreover from assms have "count_list tr Requested = length (filter settles es) + (if refreshInFlight s = None then 0 else 1)
      \<and> mset (concat (map asked es)) = mset (concat (map answered tr)) + mset (waiting s)"
  proof induction
    case (Step s es tr e s' sg)
    have served: "count_list (map (\<lambda>w. Served w t) ws) Requested = 0" "count_list (map (\<lambda>w. Failed w t) ws) Requested = 0"
      "concat (map (answered \<circ> (\<lambda>w. Served w t)) ws) = ws" "concat (map (answered \<circ> (\<lambda>w. Failed w t)) ws) = ws" for ws t
      by (induction ws) auto
    show ?case
    proof (cases e)
      case (Ask c now)
      then show ?thesis using Step
        by (auto simp: managedOAuthCredential_def waiting_def split: option.splits)
    next
      case (Settle r)
      then show ?thesis using Step served
        by (auto simp: settle_refresh_def waiting_def split: option.splits sum.splits)
    qed
  qed (simp add: waiting_def)
  ultimately show ?thesis by blast
qed


theorem credential_single_flight_witness:
  "count_list [Requested, Served 1 ''token'', Served 2 ''token''] Requested = 1
   \<and> mset (concat (map asked [Ask 1 5, Ask 2 6, Settle (Inr \<lparr>cred_token = ''token'', refreshAt = 9\<rparr>)])) = mset [1, 2]"
proof -
  let ?c = "\<lparr>cred_token = ''token'', refreshAt = 9\<rparr>"
  let ?s = "\<lambda>c ws. \<lparr>cachedCredential = c, refreshInFlight = ws\<rparr>"
  have "credential_run (?s None (Some [1])) ([] @ [Ask 1 5]) ([] @ [Requested])"
    by (rule credential_run.Step [OF credential_run.Start]) (simp_all add: managedOAuthCredential_def fresh_credential_def)
  then have "credential_run (?s None (Some [1, 2])) (([] @ [Ask 1 5]) @ [Ask 2 6]) (([] @ [Requested]) @ [])"
    by (rule credential_run.Step) (simp_all add: managedOAuthCredential_def fresh_credential_def)
  then have run: "credential_run (?s (Some ?c) None) ((([] @ [Ask 1 5]) @ [Ask 2 6]) @ [Settle (Inr ?c)])
      ((([] @ [Requested]) @ []) @ [Served 1 ''token'', Served 2 ''token''])"
    by (rule credential_run.Step) (simp_all add: settle_refresh_def)
  show ?thesis using credential_single_flight [OF run] by (auto simp: waiting_def)
qed

definition sample_static_env :: env where
  "sample_static_env = [''LEDGERSYNC_PRIVATE_API_TOKEN'' \<mapsto> ''workload-token-0001'']"


end
