(* ===== verification/Login.thy ===== *)
theory Login
  imports Credential
begin

text \<open>
  Signing in: the loopback development adapter \<^verbatim>\<open>web/src/lib/local-access.ts\<close> and the OpenID Connect
  code flow \<^verbatim>\<open>web/src/lib/oidc.ts\<close>.

  The URL parser and its \<^verbatim>\<open>hostname\<close>, the hash functions and the token verifier of the \<^verbatim>\<open>jose\<close> package
  are parameters; random values and the clock are arguments. A time claim is scaled as a double.
\<close>

section \<open>Local access\<close>

record local_configuration =
  loc_enabled :: bool
  loc_environment :: string
  loc_subjectId :: string
  loc_tenantId :: string

definition isLocalSession :: "session option \<Rightarrow> local_configuration \<Rightarrow> bool" where
  "isLocalSession s configuration = (case s of None \<Rightarrow> False | Some session \<Rightarrow>
     loc_enabled configuration \<and> subjectId session = loc_subjectId configuration \<and> tenantId session = loc_tenantId configuration)"

definition default_local_tenant :: string where
  "default_local_tenant = ''00000000-0000-4000-8000-000000000001''"

definition readLocalAccessConfiguration :: "url_parser \<Rightarrow> (url \<Rightarrow> string) \<Rightarrow> env \<Rightarrow> local_configuration outcome" where
  "readLocalAccessConfiguration new_URL hostname env =
     (let enabled = (env ''LEDGERSYNC_LOCAL_LOGIN_ENABLED'' = Some ''true'');
          deployment = toLowerCase (trim (case env ''LEDGERSYNC_DEPLOYMENT_ENV'' of Some v \<Rightarrow> v | None \<Rightarrow> ''''));
          hasLocal = (enabled \<or> nonempty (env ''LEDGERSYNC_LOCAL_SUBJECT_ID'') \<noteq> None \<or> nonempty (env ''LEDGERSYNC_LOCAL_TENANT_ID'') \<noteq> None);
          subject = trim (case env ''LEDGERSYNC_LOCAL_SUBJECT_ID'' of Some v \<Rightarrow> v | None \<Rightarrow> ''local-user'');
          tenant = trim (case env ''LEDGERSYNC_LOCAL_TENANT_ID'' of Some v \<Rightarrow> v | None \<Rightarrow> default_local_tenant) in
      if hasLocal \<and> deployment \<noteq> ''development''
      then Inl ''Local login configuration is allowed only in explicit development mode''
      else andthen (if hasLocal then andthen (readPublicOrigin new_URL env) (\<lambda>u.
             if \<not> List.member [''localhost'', ''127.0.0.1'', ''[::1]''] (hostname u)
             then Inl ''Local login requires an explicit loopback public origin'' else Inr ()) else Inr ()) (\<lambda>_.
           if enabled \<and> (subject = '''' \<or> tenant = '''') then Inl ''Local subject and tenant IDs are required''
           else Inr \<lparr>loc_enabled = enabled, loc_environment = (if deployment = '''' then ''unconfigured'' else deployment),
                  loc_subjectId = subject, loc_tenantId = tenant\<rparr>))"

definition local_scopes :: "string list" where
  "local_scopes =
     [''accounts:read'', ''accounts:write'', ''transactions:read'', ''transfers:read'', ''transfers:write'', ''reconciliation:read'',
      ''reconciliation:write'', ''local:read'', ''local:write'', ''events:read'', ''investigation:read'', ''investigation:write'',
      ''investigation:collaborate'', ''explainability:read'', ''developer:read'', ''credentials:read'', ''credentials:write'',
      ''webhooks:read'', ''webhooks:write'', ''webhooks:replay'', ''recovery:read'', ''exports:read'', ''funding:read'',
      ''funding:write'', ''funding:approve'', ''corrections:read'', ''corrections:write'', ''corrections:approve'']"

definition createLocalSession :: "local_configuration \<Rightarrow> int \<Rightarrow> string \<Rightarrow> session outcome" where
  "createLocalSession configuration now uuid =
     (if \<not> loc_enabled configuration then Inl ''Local login is disabled''
      else Inr \<lparr>subjectId = loc_subjectId configuration, tenantId = loc_tenantId configuration, csrfToken = uuid,
        expiresAt = jsint (now + 30 * 60 * 1000), authenticatedAt = Some (jsint now), roles = Some [''tenant:operator''],
        scopes = Some local_scopes, consistencyRequirements = None\<rparr>)"

definition createLocalReturnURL :: "url_parser \<Rightarrow> (url \<Rightarrow> string) \<Rightarrow> env \<Rightarrow> string \<Rightarrow> url outcome" where
  "createLocalReturnURL new_URL href env returnTo =
     (if \<not> startsWith returnTo ''/'' \<or> startsWith returnTo ''//''
      then Inl ''Local login return path must be application-relative''
      else andthen (readPublicOrigin new_URL env) (\<lambda>base.
        (case new_URL returnTo (Some (href base)) of None \<Rightarrow> Inl ''TypeError'' | Some u \<Rightarrow> Inr u)))"

section \<open>Operator authorization\<close>

definition allowedRoles :: "string list" where
  "allowedRoles = [''tenant:operator'', ''tenant:admin'']"

definition allowedScopes :: "string list" where
  "allowedScopes =
     [''accounts:read'', ''accounts:write'', ''transfers:read'', ''transfers:write'', ''transactions:read'', ''reconciliation:read'',
      ''reconciliation:write'', ''audit:read'', ''local:read'', ''local:write'', ''events:read'', ''investigation:read'',
      ''investigation:write'', ''explainability:read'', ''developer:read'', ''credentials:read'', ''credentials:write'',
      ''webhooks:read'', ''webhooks:write'', ''webhooks:replay'', ''recovery:read'', ''exports:read'', ''funding:read'',
      ''funding:write'', ''funding:approve'', ''corrections:read'', ''corrections:write'', ''corrections:approve'']"

record operator_authorization =
  auth_tenantId :: string
  auth_roles :: "string list"
  auth_scopes :: "string list"

text \<open>\<^verbatim>\<open>[...new Set(list.filter(v => typeof v === "string" && allowed.has(v)))]\<close>\<close>

definition granted :: "string list \<Rightarrow> json option \<Rightarrow> string list" where
  "granted names v = (case v of
     Some (JArr vs) \<Rightarrow> first_distinct (filter (List.member names) (List.map_filter (\<lambda>x. as_string (Some x)) vs))
   | _ \<Rightarrow> [])"

text \<open>\<^verbatim>\<open>parsed[subjectId]\<close>: a name that is not the object's own is found on its prototype, which
  matters for \<^verbatim>\<open>__proto__\<close> (an object without the properties read below); the other inherited values are
  functions, which the caller refuses like an absent one.\<close>

definition own_or_prototype :: "string \<Rightarrow> json \<Rightarrow> json option" where
  "own_or_prototype k v = (case field k v of
     Some x \<Rightarrow> Some x | None \<Rightarrow> if k = ''__proto__'' then Some (JObj []) else None)"

definition resolveOperatorAuthorization :: "env \<Rightarrow> string \<Rightarrow> operator_authorization outcome" where
  "resolveOperatorAuthorization env subject =
     (case nonempty (env ''LEDGERSYNC_OIDC_SUBJECT_PERMISSIONS'') of
        None \<Rightarrow> Inl ''operator authorization mapping is required''
      | Some raw \<Rightarrow>
          (case JSON_parse raw of
             None \<Rightarrow> Inl ''operator authorization mapping is invalid''
           | Some parsed \<Rightarrow>
               if \<not> isRecord parsed then Inl ''operator authorization mapping is invalid''
               else (case own_or_prototype subject parsed of
                       None \<Rightarrow> Inl ''operator is not invited''
                     | Some record \<Rightarrow>
                         if \<not> isRecord record then Inl ''operator is not invited''
                         else (let tenant = (case field ''tenantId'' record of Some (JStr t) \<Rightarrow> trim t | _ \<Rightarrow> '''');
                                   rs = granted allowedRoles (field ''roles'' record);
                                   ss = granted allowedScopes (field ''scopes'' record) in
                               if tenant = '''' \<or> 128 < length tenant \<or> rs = [] \<or> ss = []
                               then Inl ''operator authorization mapping is invalid''
                               else Inr \<lparr>auth_tenantId = tenant, auth_roles = rs, auth_scopes = ss\<rparr>))))"

section \<open>The login transaction\<close>

record oidc_configuration =
  issuer :: string
  oidc_clientID :: string
  redirectURI :: string
  oidc_clientSecret :: "string option"

definition configuration :: "env \<Rightarrow> oidc_configuration outcome" where
  "configuration env =
     (case (nonempty (map_option strip_slash (env ''LEDGERSYNC_OIDC_ISSUER_URL'')), nonempty (env ''LEDGERSYNC_OIDC_CLIENT_ID''),
            nonempty (env ''LEDGERSYNC_OIDC_REDIRECT_URI'')) of
        (Some iss, Some client, Some redirect) \<Rightarrow>
          if env ''NODE_ENV'' = Some ''production'' \<and> (\<not> startsWith iss ''https://'' \<or> \<not> startsWith redirect ''https://'')
          then Inl ''production OIDC URLs must use HTTPS''
          else Inr \<lparr>issuer = iss, oidc_clientID = client, redirectURI = redirect,
                 oidc_clientSecret = env ''LEDGERSYNC_OIDC_CLIENT_SECRET''\<rparr>
      | _ \<Rightarrow> Inl ''OIDC issuer URL, client ID, and redirect URI are required'')"

record transaction =
  tr_state :: string
  codeVerifier :: string
  tr_nonce :: string
  tr_expiresAt :: jsnum
  returnTo :: "json option"

definition transaction_json :: "transaction \<Rightarrow> json" where
  "transaction_json t = JObj
     ([(''state'', JStr (tr_state t)), (''codeVerifier'', JStr (codeVerifier t)), (''nonce'', JStr (tr_nonce t)),
       (''expiresAt'', JNum (tr_expiresAt t))] @ optional_member ''returnTo'' id (returnTo t))"

definition signedTransaction :: "hmac \<Rightarrow> env \<Rightarrow> transaction \<Rightarrow> string outcome" where
  "signedTransaction hmac env t =
     (let payload = base64url (bytes_of (JSON_stringify (transaction_json t))) in
      andthen (secret env) (\<lambda>k. Inr (payload @ ''.'' @ base64url (hmac k (bytes_of payload)))))"

definition transaction_of :: "int \<Rightarrow> json \<Rightarrow> transaction option" where
  "transaction_of now parsed =
     (case (as_string (field ''state'' parsed), as_string (field ''codeVerifier'' parsed),
            as_string (field ''nonce'' parsed), as_number (field ''expiresAt'' parsed)) of
        (Some st, Some verifier, Some nonce, Some expires) \<Rightarrow>
          if jsnum_le expires (jsint now) then None
          else Some \<lparr>tr_state = st, codeVerifier = verifier, tr_nonce = nonce, tr_expiresAt = expires,
                 returnTo = field ''returnTo'' parsed\<rparr>
      | _ \<Rightarrow> None)"

definition readTransaction :: "hmac \<Rightarrow> env \<Rightarrow> int \<Rightarrow> string option \<Rightarrow> transaction option outcome" where
  "readTransaction hmac env now cookie = (case nonempty cookie of
     None \<Rightarrow> Inr None
   | Some raw \<Rightarrow>
       (case split_on CHR ''.'' raw of
          payload # signature # _ \<Rightarrow>
            if payload = [] \<or> signature = [] then Inr None
            else andthen (secret env) (\<lambda>k.
              if length (hmac k (bytes_of payload)) \<noteq> length (from_base64url signature)
                 \<or> hmac k (bytes_of payload) \<noteq> from_base64url signature then Inr None
              else Inr (Option.bind (Option.bind (utf8_decode (from_base64url payload)) JSON_parse) (transaction_of now)))
        | _ \<Rightarrow> Inr None))"

definition safeReturnTo :: "url_parser \<Rightarrow> string option \<Rightarrow> string" where
  "safeReturnTo new_URL v = (case nonempty v of
     None \<Rightarrow> ''/''
   | Some value \<Rightarrow>
       if \<not> startsWith value ''/'' \<or> startsWith value ''//'' \<or> List.member value backslash \<or> 2048 < length value then ''/''
       else (case new_URL value (Some ''https://ledgersync.invalid'') of
               None \<Rightarrow> ''/''
             | Some parsed \<Rightarrow> if origin parsed = ''https://ledgersync.invalid'' then pathname parsed @ search parsed @ hash parsed else ''/''))"

section \<open>The code flow\<close>

record discovery_document =
  authorization_endpoint :: string
  token_endpoint :: string
  jwks_uri :: string

text \<open>\<^verbatim>\<open>await response.json()\<close> of a successful answer.\<close>

definition fetched_json :: "string \<Rightarrow> fetch_result \<Rightarrow> json outcome" where
  "fetched_json message r = (case r of
     Fetch_timeout \<Rightarrow> Inl ''TimeoutError''
   | Fetch_error \<Rightarrow> Inl ''TypeError''
   | Fetched up \<Rightarrow>
       if \<not> ok up then Inl message
       else (case up_text up of
               Body raw \<Rightarrow> (case JSON_parse raw of None \<Rightarrow> Inl ''SyntaxError'' | Some JNull \<Rightarrow> Inl ''TypeError'' | Some v \<Rightarrow> Inr v)
             | Body_timeout \<Rightarrow> Inl ''TimeoutError''
             | Body_error \<Rightarrow> Inl ''TypeError''))"

definition discovery_request :: "string \<Rightarrow> upstream_request" where
  "discovery_request iss = \<lparr>out_url = iss @ ''/.well-known/openid-configuration'', out_method = ''GET'', out_headers = [], out_body = None\<rparr>"

definition discovery :: "(upstream_request \<Rightarrow> fetch_result) \<Rightarrow> string \<Rightarrow> discovery_document outcome" where
  "discovery fetch iss = andthen (fetched_json ''OIDC discovery failed'' (fetch (discovery_request iss))) (\<lambda>result.
     if field ''issuer'' result \<noteq> Some (JStr iss) \<or> \<not> truthy_field ''authorization_endpoint'' result
        \<or> \<not> truthy_field ''token_endpoint'' result \<or> \<not> truthy_field ''jwks_uri'' result
     then Inl ''OIDC discovery document is invalid''
     else Inr \<lparr>authorization_endpoint = field_text ''authorization_endpoint'' result,
            token_endpoint = field_text ''token_endpoint'' result, jwks_uri = field_text ''jwks_uri'' result\<rparr>)"

definition challenge :: "(nat list \<Rightarrow> nat list) \<Rightarrow> string \<Rightarrow> string" where
  "challenge sha256 verifier = base64url (sha256 (bytes_of verifier))"

definition transactionLifetimeMs :: int where
  "transactionLifetimeMs = 10 * 60 * 1000"

text \<open>The values that \<^verbatim>\<open>randomURLValue\<close> makes of random bytes.\<close>

record login_randoms =
  rnd_state :: "nat list"
  rnd_verifier :: "nat list"
  rnd_nonce :: "nat list"

definition new_transaction :: "url_parser \<Rightarrow> int \<Rightarrow> login_randoms \<Rightarrow> string option \<Rightarrow> transaction" where
  "new_transaction new_URL now rnd back =
     \<lparr>tr_state = base64url (rnd_state rnd), codeVerifier = base64url (rnd_verifier rnd), tr_nonce = base64url (rnd_nonce rnd),
      tr_expiresAt = jsint (now + transactionLifetimeMs), returnTo = Some (JStr (safeReturnTo new_URL back))\<rparr>"

definition authorization_parameters :: "(nat list \<Rightarrow> nat list) \<Rightarrow> oidc_configuration \<Rightarrow> transaction \<Rightarrow> bool \<Rightarrow> params \<Rightarrow> params" where
  "authorization_parameters sha256 config t prompt_login query =
     foldl (\<lambda>q (k, v). set_param k v q) query
       ([(''response_type'', ''code''), (''client_id'', oidc_clientID config), (''redirect_uri'', redirectURI config),
         (''scope'', ''openid profile''), (''state'', tr_state t), (''nonce'', tr_nonce t),
         (''code_challenge'', challenge sha256 (codeVerifier t)), (''code_challenge_method'', ''S256'')]
        @ (if prompt_login then [(''prompt'', ''login'')] else []))"

text \<open>The authorization URL is given by the parsed endpoint and its new search parameters.\<close>

record started_login =
  login_endpoint :: url
  login_query :: params
  login_cookie :: string

definition beginAuthorization ::
  "hmac \<Rightarrow> (nat list \<Rightarrow> nat list) \<Rightarrow> url_parser \<Rightarrow> env \<Rightarrow> (upstream_request \<Rightarrow> fetch_result) \<Rightarrow> int \<Rightarrow> login_randoms \<Rightarrow> bool \<Rightarrow> string option
     \<Rightarrow> started_login outcome" where
  "beginAuthorization hmac sha256 new_URL env fetch now rnd prompt_login back =
     andthen (configuration env) (\<lambda>config.
     andthen (discovery fetch (issuer config)) (\<lambda>metadata.
       (let t = new_transaction new_URL now rnd back in
        case new_URL (authorization_endpoint metadata) None of
          None \<Rightarrow> Inl ''TypeError''
        | Some url \<Rightarrow>
            (case search_params (drop 1 (search url)) of
               None \<Rightarrow> Inl ''characters outside the model''
             | Some query \<Rightarrow>
                 andthen (signedTransaction hmac env t) (\<lambda>cookie.
                   Inr \<lparr>login_endpoint = url, login_query = authorization_parameters sha256 config t prompt_login query,
                     login_cookie = cookie\<rparr>)))))"

record verified_identity =
  id_subjectId :: string
  id_authorization :: operator_authorization
  id_expiresAt :: jsnum
  id_authenticatedAt :: "jsnum option"

definition token_request :: "oidc_configuration \<Rightarrow> discovery_document \<Rightarrow> transaction \<Rightarrow> string \<Rightarrow> upstream_request" where
  "token_request config metadata t authorization_code =
     \<lparr>out_url = token_endpoint metadata, out_method = ''POST'',
      out_headers = [(''Content-Type'', ''application/x-www-form-urlencoded''), (''Accept'', ''application/json'')]
        @ (case nonempty (oidc_clientSecret config) of
             Some k \<Rightarrow> [(''Authorization'', ''Basic '' @ base64 (bytes_of (oidc_clientID config @ '':'' @ k)))]
           | None \<Rightarrow> []),
      out_body = Some (params_string [(''grant_type'', ''authorization_code''), (''code'', authorization_code),
        (''redirect_uri'', redirectURI config), (''client_id'', oidc_clientID config), (''code_verifier'', codeVerifier t)])\<rparr>"

fun scaled_time :: "jsnum \<Rightarrow> jsnum" where
  "scaled_time (Fin q) = to_double (q * 1000)"
| "scaled_time (Infinity s) = Infinity s"

definition js_min :: "jsnum \<Rightarrow> jsnum \<Rightarrow> jsnum" where
  "js_min a b = (if jsnum_le a b then a else b)"

definition id_algorithms :: "string list" where
  "id_algorithms = [''RS256'', ''ES256'', ''PS256'']"

text \<open>The identity that verified claims give.\<close>

definition identity_of_claims :: "env \<Rightarrow> int \<Rightarrow> transaction \<Rightarrow> json \<Rightarrow> string \<Rightarrow> verified_identity outcome" where
  "identity_of_claims env now t payload alg =
     (if \<not> List.member id_algorithms alg then Inl ''OIDC signing algorithm is not allowed''
      else case (as_string (field ''sub'' payload), as_number (field ''exp'' payload)) of
        (Some sub, Some expires) \<Rightarrow>
          if field ''nonce'' payload \<noteq> Some (JStr (tr_nonce t)) \<or> field ''token_use'' payload \<noteq> Some (JStr ''id'')
          then Inl ''OIDC identity claims are invalid''
          else andthen (resolveOperatorAuthorization env sub) (\<lambda>authorization.
            Inr \<lparr>id_subjectId = sub, id_authorization = authorization,
              id_expiresAt = js_min (scaled_time expires) (jsint (now + 30 * 60 * 1000)),
              id_authenticatedAt = (case as_number (field ''auth_time'' payload) of
                 Some a \<Rightarrow> if jsnum_le a (Fin 0) then None else Some (scaled_time a) | None \<Rightarrow> None)\<rparr>)
      | _ \<Rightarrow> Inl ''OIDC identity claims are invalid'')"

text \<open>\<^verbatim>\<open>safeReturnTo(transaction.returnTo)\<close>: a value that is neither text nor falsy has no \<^verbatim>\<open>startsWith\<close>.\<close>

definition transaction_return :: "url_parser \<Rightarrow> transaction \<Rightarrow> string outcome" where
  "transaction_return new_URL t = (case returnTo t of
     None \<Rightarrow> Inr ''/''
   | Some (JStr s) \<Rightarrow> Inr (safeReturnTo new_URL (Some s))
   | Some v \<Rightarrow> if v = JNull \<or> v = JBool False \<or> v = JNum (Fin 0) then Inr ''/'' else Inl ''TypeError'')"

type_synonym jwt_verifier = "string \<Rightarrow> url \<Rightarrow> string \<Rightarrow> string \<Rightarrow> string list \<Rightarrow> (json \<times> string) outcome"

definition completeAuthorization ::
  "hmac \<Rightarrow> jwt_verifier \<Rightarrow> url_parser \<Rightarrow> env \<Rightarrow> (upstream_request \<Rightarrow> fetch_result) \<Rightarrow> int \<Rightarrow> string \<Rightarrow> string \<Rightarrow> string option
     \<Rightarrow> (verified_identity \<times> string) outcome" where
  "completeAuthorization hmac jwtVerify new_URL env fetch now authorization_code supplied cookie =
     andthen (readTransaction hmac env now cookie) (\<lambda>found. case found of
       None \<Rightarrow> Inl ''OIDC state is invalid''
     | Some t \<Rightarrow>
         if length supplied \<noteq> length (tr_state t) then Inl ''OIDC state is invalid''
         else if length (bytes_of supplied) \<noteq> length (bytes_of (tr_state t)) then Inl ''RangeError''
         else if bytes_of supplied \<noteq> bytes_of (tr_state t) then Inl ''OIDC state is invalid''
         else andthen (configuration env) (\<lambda>config.
              andthen (discovery fetch (issuer config)) (\<lambda>metadata.
              andthen (fetched_json ''OIDC code exchange failed'' (fetch (token_request config metadata t authorization_code))) (\<lambda>token.
                if \<not> truthy_field ''id_token'' token then Inl ''OIDC token response is missing id_token''
                else case (as_string (field ''id_token'' token), new_URL (jwks_uri metadata) None) of
                  (Some id_token, Some jwks) \<Rightarrow>
                    andthen (jwtVerify id_token jwks (issuer config) (oidc_clientID config) id_algorithms) (\<lambda>(payload, alg).
                    andthen (identity_of_claims env now t payload alg) (\<lambda>identity.
                    andthen (transaction_return new_URL t) (\<lambda>back. Inr (identity, back))))
                | _ \<Rightarrow> Inl ''TypeError''))))"

definition transactionCookie :: "url_parser \<Rightarrow> env \<Rightarrow> string \<Rightarrow> cookie outcome" where
  "transactionCookie new_URL env value = andthen (readPublicOrigin new_URL env) (\<lambda>_.
     (let policy = authenticationCookiePolicy env in
      Inr \<lparr>cookie_name = transactionName policy, cookie_value = value, httpOnly = True, sameSite = ''lax'',
        cookie_secure = secure policy, cookie_path = ''/api/auth'', maxAge = nat (transactionLifetimeMs div 1000)\<rparr>))"

definition expiredTransactionCookie :: "url_parser \<Rightarrow> env \<Rightarrow> cookie outcome" where
  "expiredTransactionCookie new_URL env = andthen (transactionCookie new_URL env '''') (\<lambda>c. Inr (c\<lparr>maxAge := 0\<rparr>))"

section \<open>Lemmas\<close>

lemma granted_sound: "distinct (granted names v)" "set (granted names v) \<subseteq> set names"
  by (auto simp: granted_def split: option.splits json.splits)

lemma granted_within:
  assumes "length names \<le> n" "list_all (\<lambda>s. 0 < length s \<and> length s \<le> 64) names"
  shows "names_within n (Some (granted names v))"
proof -
  have "length (granted names v) = card (set (granted names v))" by (simp add: distinct_card granted_sound(1))
  also have "\<dots> \<le> card (set names)" by (rule card_mono) (simp_all add: granted_sound(2))
  also have "\<dots> \<le> length names" by (rule card_length)
  finally show ?thesis using assms granted_sound(2) [of names v] by (auto simp: names_within_def list_all_iff)
qed

lemma readTransaction_sound:
  assumes "readTransaction hmac env now cookie = Inr (Some t)"
  shows "\<exists>k raw p g rest. secret env = Inr k \<and> cookie = Some raw \<and> split_on CHR ''.'' raw = p # g # rest
    \<and> from_base64url g = hmac k (bytes_of p) \<and> \<not> jsnum_le (tr_expiresAt t) (jsint now)"
proof -
  obtain raw where raw: "nonempty cookie = Some raw" "cookie = Some raw"
    using assms by (auto simp: readTransaction_def nonempty_def split: option.splits if_splits)
  obtain p g rest where p: "split_on CHR ''.'' raw = p # g # rest"
    using assms raw by (auto simp: readTransaction_def split: list.splits)
  obtain k where k: "secret env = Inr k" "from_base64url g = hmac k (bytes_of p)"
      "Option.bind (Option.bind (utf8_decode (from_base64url p)) JSON_parse) (transaction_of now) = Some t"
    using assms raw p by (auto simp: readTransaction_def andthen_eq_Inr split: if_splits)
  obtain v where "transaction_of now v = Some t" using k(3) by (auto simp: Option.bind_eq_Some_conv)
  then have "\<not> jsnum_le (tr_expiresAt t) (jsint now)"
    by (auto simp: transaction_of_def split: option.splits if_splits)
  then show ?thesis using raw(2) p k(1,2) by blast
qed

lemma identity_of_claims_sound:
  assumes "identity_of_claims env now t payload alg = Inr identity"
  shows "alg \<in> set id_algorithms \<and> field ''nonce'' payload = Some (JStr (tr_nonce t)) \<and> field ''token_use'' payload = Some (JStr ''id'')
    \<and> field ''sub'' payload = Some (JStr (id_subjectId identity))
    \<and> resolveOperatorAuthorization env (id_subjectId identity) = Inr (id_authorization identity)
    \<and> jsnum_le (id_expiresAt identity) (jsint (now + 1800000))"
proof -
  obtain sub where sub: "field ''sub'' payload = Some (JStr sub)"
    using assms by (cases "field ''sub'' payload" rule: as_string.cases) (auto simp: identity_of_claims_def split: if_splits)
  have "jsnum_le (js_min a (Fin q)) (Fin q)" for a q by (auto simp: js_min_def)
  then show ?thesis
    using assms sub by (auto simp: identity_of_claims_def andthen_eq_Inr split: if_splits option.splits)
qed

section \<open>Properties\<close>

text \<open>C39: Signing in is bound to the browser that started it and to the provider's signature. A login
  completes only with a transaction cookie signed by this server and not expired, whose state is the
  one supplied; with an identity token that the verifier accepted for the configured issuer, client and
  algorithms and that carries the transaction's nonce; for a subject whom the operator mapping invites;
  and the identity lasts at most thirty minutes.\<close>

theorem login_sound:
  assumes "completeAuthorization hmac jwtVerify new_URL env fetch now authorization_code supplied cookie = Inr (identity, back)"
  shows "\<exists>k raw p g rest t config id_token jwks payload alg.
    secret env = Inr k \<and> cookie = Some raw \<and> split_on CHR ''.'' raw = p # g # rest \<and> from_base64url g = hmac k (bytes_of p)
    \<and> readTransaction hmac env now cookie = Inr (Some t) \<and> \<not> jsnum_le (tr_expiresAt t) (jsint now) \<and> supplied = tr_state t
    \<and> configuration env = Inr config
    \<and> jwtVerify id_token jwks (issuer config) (oidc_clientID config) id_algorithms = Inr (payload, alg) \<and> alg \<in> set id_algorithms
    \<and> field ''nonce'' payload = Some (JStr (tr_nonce t)) \<and> field ''sub'' payload = Some (JStr (id_subjectId identity))
    \<and> resolveOperatorAuthorization env (id_subjectId identity) = Inr (id_authorization identity)
    \<and> jsnum_le (id_expiresAt identity) (jsint (now + 1800000))"
proof -
  obtain t where t: "readTransaction hmac env now cookie = Inr (Some t)"
    using assms by (auto simp: completeAuthorization_def andthen_eq_Inr split: option.splits)
  have s: "supplied = tr_state t"
    using assms by (auto simp: completeAuthorization_def t split: if_splits)
  obtain config metadata token where c: "configuration env = Inr config" "discovery fetch (issuer config) = Inr metadata"
      "fetched_json ''OIDC code exchange failed'' (fetch (token_request config metadata t authorization_code)) = Inr token"
    using assms by (auto simp: completeAuthorization_def t s andthen_eq_Inr)
  obtain id_token jwks payload alg where v: "jwtVerify id_token jwks (issuer config) (oidc_clientID config) id_algorithms = Inr (payload, alg)"
      "identity_of_claims env now t payload alg = Inr identity"
    using assms by (auto simp: completeAuthorization_def t s c andthen_eq_Inr split: if_splits option.splits prod.splits)
  show ?thesis using readTransaction_sound [OF t] t s c(1) v(1) identity_of_claims_sound [OF v(2)] by blast
qed

text \<open>C40: An operator is granted only what the mapping lists and the console knows. A resolved
  authorization has a tenant of 1 to 128 characters, at least one role and one scope, no repetition, and
  only names of the two closed lists; so granted, roles and scopes always satisfy the limits that the
  session readers enforce.\<close>

theorem operator_authorization_sound:
  assumes "resolveOperatorAuthorization env subject = Inr a"
  shows "auth_tenantId a \<noteq> [] \<and> length (auth_tenantId a) \<le> 128 \<and> auth_roles a \<noteq> [] \<and> auth_scopes a \<noteq> []
    \<and> distinct (auth_roles a) \<and> set (auth_roles a) \<subseteq> set allowedRoles
    \<and> distinct (auth_scopes a) \<and> set (auth_scopes a) \<subseteq> set allowedScopes
    \<and> names_within maxSessionRoles (Some (auth_roles a)) \<and> names_within maxSessionScopes (Some (auth_scopes a))"
proof -
  obtain v where r: "auth_roles a = granted allowedRoles (field ''roles'' v)" "auth_scopes a = granted allowedScopes (field ''scopes'' v)"
    "auth_tenantId a \<noteq> []" "length (auth_tenantId a) \<le> 128" "auth_roles a \<noteq> []" "auth_scopes a \<noteq> []"
    using assms by (auto simp: resolveOperatorAuthorization_def Let_def split: option.splits if_splits)
  have "length allowedRoles \<le> maxSessionRoles" "length allowedScopes \<le> maxSessionScopes"
    "list_all (\<lambda>s. 0 < length s \<and> length s \<le> 64) allowedRoles" "list_all (\<lambda>s. 0 < length s \<and> length s \<le> 64) allowedScopes"
    by (simp_all add: allowedRoles_def allowedScopes_def session_limits)
  then show ?thesis using r granted_sound granted_within by simp
qed


definition sample_permissions :: json where
  "sample_permissions = JObj [(''alice'', JObj [(''tenantId'', JStr ''acme''), (''roles'', JArr [JStr ''tenant:operator'', JStr ''root'']),
     (''scopes'', JArr [JStr ''funding:read'', JStr ''funding:read''])])]"

definition sample_login_env :: env where
  "sample_login_env = [''LEDGERSYNC_WEB_SESSION_SECRET'' \<mapsto> replicate 32 CHR ''s'',
     ''LEDGERSYNC_OIDC_SUBJECT_PERMISSIONS'' \<mapsto> JSON_stringify sample_permissions,
     ''LEDGERSYNC_OIDC_ISSUER_URL'' \<mapsto> ''https://id.example'', ''LEDGERSYNC_OIDC_CLIENT_ID'' \<mapsto> ''console'',
     ''LEDGERSYNC_OIDC_REDIRECT_URI'' \<mapsto> ''https://ledger.example/api/auth/callback'']"

lemma sample_authorization:
  "resolveOperatorAuthorization sample_login_env ''alice''
     = Inr \<lparr>auth_tenantId = ''acme'', auth_roles = [''tenant:operator''], auth_scopes = [''funding:read'']\<rparr>"
proof -
  have "plain_json sample_permissions"
    by (simp add: sample_permissions_def is_array_index_def canonical_nat_def all_digits_def char_class_defs)
  then have p: "JSON_parse (JSON_stringify sample_permissions) = Some sample_permissions" by (rule JSON_roundtrip)
  have n: "nonempty (sample_login_env ''LEDGERSYNC_OIDC_SUBJECT_PERMISSIONS'') = Some (JSON_stringify sample_permissions)"
    by (simp add: nonempty_def sample_login_env_def sample_permissions_def)
  have t: "trim ''acme'' = ''acme''" by code_simp
  show ?thesis
    by (simp add: resolveOperatorAuthorization_def n p)
       (simp add: sample_permissions_def own_or_prototype_def granted_def allowedRoles_def allowedScopes_def List.map_filter_def t)
qed

theorem operator_authorization_sound_witness:
  "\<exists>a. resolveOperatorAuthorization sample_login_env ''alice'' = Inr a \<and> set (auth_roles a) \<subseteq> set allowedRoles
     \<and> auth_roles a = [''tenant:operator'']"
  using operator_authorization_sound [OF sample_authorization] sample_authorization by auto

section \<open>The transaction across the two requests\<close>

lemma get_param_set: "get_param k (set_param j v ps) = (if j = k then Some v else get_param k ps)"
  by (simp add: get_param_def map_of_set_param)

lemma transaction_plain:
  assumes "returnTo t = Some (JStr r)" "tr_expiresAt t = jsint e" "\<bar>e\<bar> \<le> 2 ^ 53"
  shows "plain_json (transaction_json t)"
proof -
  have "\<bar>of_int e :: rat\<bar> \<le> of_int (2 ^ 53)" using assms(3) by (metis of_int_abs of_int_le_iff)
  then show ?thesis
    by (simp add: transaction_json_def optional_member_def assms is_array_index_def canonical_nat_def all_digits_def char_class_defs)
qed

lemma transaction_read:
  assumes "sha256_hmac hmac" "signedTransaction hmac env t = Inr raw"
    and "returnTo t = Some (JStr r)" "tr_expiresAt t = jsint e" "\<bar>e\<bar> \<le> 2 ^ 53"
  shows "readTransaction hmac env now (Some raw) = Inr (if now < e then Some t else None)"
proof -
  let ?p = "base64url (bytes_of (JSON_stringify (transaction_json t)))"
  obtain k where k: "secret env = Inr k" "raw = ?p @ CHR ''.'' # base64url (hmac k (bytes_of ?p))"
    using assms(2) by (auto simp: signedTransaction_def Let_def andthen_eq_Inr)
  have b: "list_all (\<lambda>x. x < 256) (hmac k (bytes_of ?p))" "length (hmac k (bytes_of ?p)) = 32"
    using assms(1) by (simp_all add: sha256_hmac_def)
  have parts: "split_on CHR ''.'' raw = [?p, base64url (hmac k (bytes_of ?p))]"
    using base64url_no_dot [OF bytes_of_bound] base64url_no_dot [OF b(1)]
    by (simp add: k(2) split_on_append split_on_no_sep)
  have "hmac k (bytes_of ?p) \<noteq> []" using b(2) by auto
  moreover have "?p \<noteq> []" by (simp add: transaction_json_def)
  moreover have "transaction_of now (transaction_json t) = (if now < e then Some t else None)"
    by (cases t) (use assms(3,4) in \<open>auto simp: transaction_of_def transaction_json_def optional_member_def\<close>)
  ultimately show ?thesis
    using JSON_roundtrip [OF transaction_plain [OF assms(3-5)]]
    by (simp add: readTransaction_def nonempty_def k(2) parts [unfolded k(2)])
       (simp add: k(1) from_base64url_inverse b(1) base64url_text)
qed

text \<open>The two halves of a login fit together. When the authorization request was built, its query
  carries the state, the nonce and the S256 challenge of the transaction; for ten minutes, and no longer,
  the cookie set beside it is read back as exactly that transaction; and a completed login must supply
  the state that the query carried.\<close>

theorem login_transaction_roundtrip:
  assumes "sha256_hmac hmac" "beginAuthorization hmac sha256 new_URL env fetch now rnd prompt_login back = Inr l" "0 \<le> now" "now + transactionLifetimeMs \<le> 2 ^ 53"
  shows "(let t = new_transaction new_URL now rnd back in
      get_param ''state'' (login_query l) = Some (tr_state t) \<and> get_param ''nonce'' (login_query l) = Some (tr_nonce t)
      \<and> get_param ''response_type'' (login_query l) = Some ''code''
      \<and> get_param ''code_challenge'' (login_query l) = Some (challenge sha256 (codeVerifier t))
      \<and> get_param ''code_challenge_method'' (login_query l) = Some ''S256''
      \<and> readTransaction hmac env later (Some (login_cookie l)) = Inr (if later < now + transactionLifetimeMs then Some t else None))"
proof -
  define t where "t = new_transaction new_URL now rnd back"
  obtain config metadata where c: "configuration env = Inr config" "discovery fetch (issuer config) = Inr metadata"
    using assms(2) by (auto simp: beginAuthorization_def andthen_eq_Inr)
  obtain url where u: "new_URL (authorization_endpoint metadata) None = Some url"
    using assms(2) by (auto simp: beginAuthorization_def c Let_def split: option.splits)
  obtain query where "search_params (drop 1 (search url)) = Some query"
    using assms(2) by (auto simp: beginAuthorization_def c u Let_def split: option.splits)
  then have q: "login_query l = authorization_parameters sha256 config t prompt_login query"
    and s: "signedTransaction hmac env t = Inr (login_cookie l)"
    using assms(2) unfolding t_def by (auto simp: beginAuthorization_def c u andthen_eq_Inr Let_def)
  have "readTransaction hmac env later (Some (login_cookie l)) = Inr (if later < now + transactionLifetimeMs then Some t else None)"
    using assms(3,4) by (intro transaction_read [OF assms(1) s]) (simp_all add: t_def new_transaction_def transactionLifetimeMs_def)
  then show ?thesis by (simp add: q authorization_parameters_def get_param_set flip: t_def)
qed


definition sample_metadata :: json where
  "sample_metadata = JObj [(''issuer'', JStr ''https://id.example''), (''authorization_endpoint'', JStr ''https://id.example/authorize''),
     (''token_endpoint'', JStr ''https://id.example/token''), (''jwks_uri'', JStr ''https://id.example/keys'')]"

definition sample_token :: json where
  "sample_token = JObj [(''id_token'', JStr ''header.claims.signature'')]"

definition sample_provider :: "upstream_request \<Rightarrow> fetch_result" where
  "sample_provider r = Fetched \<lparr>up_status = 200, up_headers = [],
     up_text = Body (JSON_stringify (if out_method r = ''GET'' then sample_metadata else sample_token)), up_stream = None\<rparr>"

definition sample_login_URL :: url_parser where
  "sample_login_URL t b = Some \<lparr>protocol = ''https:'', username = '''', password = '''', origin = ''https://id.example'',
     pathname = ''/'', search = '''', hash = ''''\<rparr>"

definition sample_randoms :: login_randoms where
  "sample_randoms = \<lparr>rnd_state = replicate 32 1, rnd_verifier = replicate 48 2, rnd_nonce = replicate 32 3\<rparr>"

definition sample_transaction :: transaction where
  "sample_transaction = new_transaction sample_login_URL 1000 sample_randoms None"

definition sample_config :: oidc_configuration where
  "sample_config = \<lparr>issuer = ''https://id.example'', oidc_clientID = ''console'',
     redirectURI = ''https://ledger.example/api/auth/callback'', oidc_clientSecret = None\<rparr>"

lemma sample_login_facts:
  "configuration sample_login_env = Inr sample_config"
  "discovery sample_provider ''https://id.example'' = Inr \<lparr>authorization_endpoint = ''https://id.example/authorize'',
     token_endpoint = ''https://id.example/token'', jwks_uri = ''https://id.example/keys''\<rparr>"
  "fetched_json m (sample_provider (token_request c d t code_text)) = Inr sample_token"
  "secret sample_login_env = Inr (replicate 32 CHR ''s'')"
proof -
  have "plain_json sample_metadata" "plain_json sample_token"
    by (simp_all add: sample_metadata_def sample_token_def is_array_index_def canonical_nat_def all_digits_def char_class_defs)
  then have p: "JSON_parse (JSON_stringify sample_metadata) = Some sample_metadata" "JSON_parse (JSON_stringify sample_token) = Some sample_token"
    by (simp_all add: JSON_roundtrip)
  have "strip_slash ''https://id.example'' = ''https://id.example''" by code_simp
  then show "configuration sample_login_env = Inr sample_config"
    by (simp add: configuration_def sample_login_env_def nonempty_def sample_config_def)
  show "discovery sample_provider ''https://id.example'' = Inr \<lparr>authorization_endpoint = ''https://id.example/authorize'',
     token_endpoint = ''https://id.example/token'', jwks_uri = ''https://id.example/keys''\<rparr>"
    using p(1) by (simp add: discovery_def fetched_json_def discovery_request_def sample_provider_def ok_def)
      (simp add: sample_metadata_def truthy_field_def field_text_def)
  show "fetched_json m (sample_provider (token_request c d t code_text)) = Inr sample_token"
    using p(2) by (simp add: fetched_json_def token_request_def sample_provider_def ok_def) (simp add: sample_token_def)
  show "secret sample_login_env = Inr (replicate 32 CHR ''s'')"
    by (simp add: secret_def sample_login_env_def)
qed

lemma sample_begins:
  "\<exists>l. beginAuthorization sample_hmac (\<lambda>b. b) sample_login_URL sample_login_env sample_provider 1000 sample_randoms False None = Inr l"
proof -
  have "search_params [] = Some []" by code_simp
  then show ?thesis
    by (simp add: beginAuthorization_def sample_login_facts sample_config_def sample_login_URL_def signedTransaction_def Let_def)
qed

theorem login_transaction_roundtrip_witness:
  "\<exists>l. beginAuthorization sample_hmac (\<lambda>b. b) sample_login_URL sample_login_env sample_provider 1000 sample_randoms False None = Inr l
     \<and> get_param ''state'' (login_query l) = Some (tr_state sample_transaction)
     \<and> readTransaction sample_hmac sample_login_env 2000 (Some (login_cookie l)) = Inr (Some sample_transaction)"
proof -
  obtain l where l: "beginAuthorization sample_hmac (\<lambda>b. b) sample_login_URL sample_login_env sample_provider 1000 sample_randoms False None = Inr l"
    using sample_begins by blast
  show ?thesis
    using l login_transaction_roundtrip [OF sample_signed_facts(1) l, of 2000]
    by (simp add: Let_def sample_transaction_def transactionLifetimeMs_def)
qed

definition sample_verifier :: jwt_verifier where
  "sample_verifier id_token jwks iss aud algs = Inr (JObj [(''sub'', JStr ''alice''), (''nonce'', JStr (tr_nonce sample_transaction)),
     (''token_use'', JStr ''id''), (''exp'', JNum (Fin 5000))], ''RS256'')"

theorem login_sound_witness:
  "\<exists>raw identity back. completeAuthorization sample_hmac sample_verifier sample_login_URL sample_login_env sample_provider 2000 ''code''
       (tr_state sample_transaction) (Some raw) = Inr (identity, back)
     \<and> resolveOperatorAuthorization sample_login_env (id_subjectId identity) = Inr (id_authorization identity)
     \<and> jsnum_le (id_expiresAt identity) (jsint (2000 + 1800000))"
proof -
  obtain raw where s: "signedTransaction sample_hmac sample_login_env sample_transaction = Inr raw"
    by (simp add: signedTransaction_def sample_login_facts Let_def)
  have r: "readTransaction sample_hmac sample_login_env 2000 (Some raw) = Inr (Some sample_transaction)"
    using transaction_read [OF sample_signed_facts(1) s, of "safeReturnTo sample_login_URL None" "1000 + transactionLifetimeMs" 2000]
    by (simp add: sample_transaction_def new_transaction_def transactionLifetimeMs_def)
  have "transaction_return sample_login_URL sample_transaction = Inr (safeReturnTo sample_login_URL (Some (safeReturnTo sample_login_URL None)))"
    by (simp add: transaction_return_def sample_transaction_def new_transaction_def)
  then have "\<exists>identity back. completeAuthorization sample_hmac sample_verifier sample_login_URL sample_login_env sample_provider 2000 ''code''
       (tr_state sample_transaction) (Some raw) = Inr (identity, back)"
    by (simp add: completeAuthorization_def r sample_login_facts)
       (simp add: sample_config_def sample_login_facts sample_token_def truthy_field_def sample_login_URL_def sample_verifier_def
         identity_of_claims_def id_algorithms_def sample_authorization)
  then obtain identity target where c: "completeAuthorization sample_hmac sample_verifier sample_login_URL sample_login_env sample_provider 2000 ''code''
       (tr_state sample_transaction) (Some raw) = Inr (identity, target)" by blast
  then show ?thesis using login_sound [OF c] by blast
qed

text \<open>The development login is local. Whenever it is enabled, the deployment is explicitly a
  development one and its public origin is a loopback address; the identity is the configured one, never
  the browser's; and the session it creates lasts thirty minutes and is accepted by the readers of
  signed sessions.\<close>

theorem local_login_is_local:
  assumes "readLocalAccessConfiguration new_URL hostname env = Inr c" "createLocalSession c now uuid = Inr s"
    and "0 \<le> now" "now + 1800000 \<le> 2 ^ 53"
  shows "loc_environment c = ''development''
    \<and> (\<exists>u. readPublicOrigin new_URL env = Inr u \<and> hostname u \<in> {''localhost'', ''127.0.0.1'', ''[::1]''})
    \<and> subjectId s = loc_subjectId c \<and> tenantId s = loc_tenantId c \<and> subjectId s \<noteq> [] \<and> tenantId s \<noteq> []
    \<and> expiresAt s = jsint (now + 1800000) \<and> isLocalSession (Some s) c
    \<and> (0 < now \<longrightarrow> live_session now s)"
proof -
  have e: "loc_enabled c" using assms(2) by (auto simp: createLocalSession_def split: if_splits)
  have s: "s = \<lparr>subjectId = loc_subjectId c, tenantId = loc_tenantId c, csrfToken = uuid, expiresAt = jsint (now + 1800000),
      authenticatedAt = Some (jsint now), roles = Some [''tenant:operator''], scopes = Some local_scopes, consistencyRequirements = None\<rparr>"
    using assms(2) e by (simp add: createLocalSession_def)
  have c: "loc_environment c = ''development''
    \<and> (\<exists>u. readPublicOrigin new_URL env = Inr u \<and> hostname u \<in> {''localhost'', ''127.0.0.1'', ''[::1]''})
    \<and> loc_subjectId c \<noteq> [] \<and> loc_tenantId c \<noteq> []"
    using assms(1) e
    by (auto simp: readLocalAccessConfiguration_def Let_def andthen_eq_Inr split: if_splits)
  have "names_within maxSessionRoles (Some [''tenant:operator''])" "names_within maxSessionScopes (Some local_scopes)"
    by (simp_all add: names_within_def local_scopes_def session_limits)
  then have "live_session now s" if "0 < now"
    using assms(4) that by (simp add: live_session_def s time_within_def requirement_entries_def)
  then show ?thesis using c e by (simp add: s isLocalSession_def)
qed


definition sample_local_URL :: url_parser where
  "sample_local_URL t b = Some \<lparr>protocol = ''http:'', username = '''', password = '''', origin = ''http://localhost:3000'',
     pathname = ''/'', search = '''', hash = ''''\<rparr>"

definition sample_local_env :: env where
  "sample_local_env = map_of [(''LEDGERSYNC_LOCAL_LOGIN_ENABLED'', ''true''), (''LEDGERSYNC_DEPLOYMENT_ENV'', ''Development''),
     (''LEDGERSYNC_PUBLIC_ORIGIN'', ''http://localhost:3000'')]"

theorem local_login_is_local_witness:
  "\<exists>c s. readLocalAccessConfiguration sample_local_URL (\<lambda>u. ''localhost'') sample_local_env = Inr c
     \<and> createLocalSession c 1000 ''csrf'' = Inr s \<and> loc_environment c = ''development'' \<and> live_session 1000 s"
proof -
  have c: "readLocalAccessConfiguration sample_local_URL (\<lambda>u. ''localhost'') sample_local_env
      = Inr \<lparr>loc_enabled = True, loc_environment = ''development'', loc_subjectId = ''local-user'', loc_tenantId = default_local_tenant\<rparr>"
    by code_simp
  obtain s where s: "createLocalSession \<lparr>loc_enabled = True, loc_environment = ''development'', loc_subjectId = ''local-user'',
      loc_tenantId = default_local_tenant\<rparr> 1000 ''csrf'' = Inr s"
    by (simp add: createLocalSession_def)
  show ?thesis using local_login_is_local [OF c s] c s by simp
qed

end
