(* ===== verification/Routes.thy ===== *)
theory Routes
  imports Gateway PageQuery Login
begin

text \<open>
  The BFF's route handlers under \<^verbatim>\<open>web/src/app/api\<close> that read or change the ledger, as compositions of
  the boundary, the parsers and the proxies. A handler takes the session that it read from its request
  (\<open>route_session\<close> of theory Gateway) and the parameters of its path. Most yield an exchange; those that
  touch the session store also yield the metric lines, and a handler that can throw yields an outcome,
  which the framework answers with a bare 500.
\<close>

section \<open>Shared parts\<close>

definition signed_in :: "session option \<Rightarrow> (session \<Rightarrow> exchange) \<Rightarrow> exchange" where
  "signed_in session act = (case session of None \<Rightarrow> reply (jsonError ''unauthorized'' 401) | Some s \<Rightarrow> act s)"

definition scoped_session :: "string \<Rightarrow> session option \<Rightarrow> (session \<Rightarrow> exchange) \<Rightarrow> exchange" where
  "scoped_session scope session act =
     signed_in session (\<lambda>s. if has_scope s scope then act s else reply (jsonError ''forbidden'' 403))"

text \<open>The body of a request, read within its bound and parsed; a failure of either is caught.\<close>

definition parsed_body :: "request \<Rightarrow> nat \<Rightarrow> (json \<Rightarrow> 'a outcome) \<Rightarrow> ('a \<Rightarrow> exchange) \<Rightarrow> exchange" where
  "parsed_body request maximum parse act = (case andthen (readBoundedJSON request maximum) parse of
     Inl _ \<Rightarrow> reply (jsonError ''validation_failed'' 400)
   | Inr body \<Rightarrow> act body)"

definition accountMutationMaximumBytes :: nat where "accountMutationMaximumBytes = 4096"
definition correctionMutationMaximumBytes :: nat where "correctionMutationMaximumBytes = 16 * 1024"
definition fundingMutationMaximumBytes :: nat where "fundingMutationMaximumBytes = 16 * 1024"
definition reconciliationMutationMaximumBytes :: nat where "reconciliationMutationMaximumBytes = 256"
definition webhookReplayMaximumBytes :: nat where "webhookReplayMaximumBytes = 4096"

section \<open>Accounts\<close>

definition accounts_GET :: "server \<Rightarrow> session option \<Rightarrow> request \<Rightarrow> exchange" where
  "accounts_GET srv session request = signed_in session (\<lambda>s.
     if isl (parseAccountBFFSearchParams (searchParams request)) then reply (jsonError ''validation_failed'' 400)
     else proxyPrivateGET srv request s ''/api/me/accounts'' [''cursor'', ''limit'', ''q'', ''status'', ''category''])"

definition accounts_POST :: "server \<Rightarrow> session option \<Rightarrow> request \<Rightarrow> exchange" where
  "accounts_POST srv session request = (case authorizeAccountMutation srv request session ''POST'' of
     Inl denial \<Rightarrow> reply denial
   | Inr key \<Rightarrow> signed_in session (\<lambda>s.
       parsed_body request accountMutationMaximumBytes parseCreateAccountRequest (\<lambda>body.
         proxyAccountMutation srv s ''POST'' ''/api/accounts'' body key)))"

definition account_GET :: "server \<Rightarrow> session option \<Rightarrow> request \<Rightarrow> string \<Rightarrow> exchange" where
  "account_GET srv session request param = signed_in session (\<lambda>s. case canonicalUUID param of
     None \<Rightarrow> reply (jsonError ''validation_failed'' 400)
   | Some accountId \<Rightarrow> proxyPrivateGET srv request s (''/api/accounts/'' @ encodeURIComponent accountId) [])"

definition account_PATCH :: "server \<Rightarrow> session option \<Rightarrow> request \<Rightarrow> string \<Rightarrow> exchange" where
  "account_PATCH srv session request param = (case authorizeAccountMutation srv request session ''PATCH'' of
     Inl denial \<Rightarrow> reply denial
   | Inr key \<Rightarrow> signed_in session (\<lambda>s. case canonicalUUID param of
       None \<Rightarrow> reply (jsonError ''validation_failed'' 400)
     | Some accountId \<Rightarrow>
         parsed_body request accountMutationMaximumBytes parseUpdateAccountRequest (\<lambda>body.
           proxyAccountMutation srv s ''PATCH'' (''/api/accounts/'' @ encodeURIComponent accountId) body key)))"

definition transactions_GET :: "server \<Rightarrow> session option \<Rightarrow> request \<Rightarrow> string \<Rightarrow> exchange" where
  "transactions_GET srv session request accountId = signed_in session (\<lambda>s.
     if \<not> isAccountId accountId then reply (jsonError ''not_found'' 404)
     else if isl (parseAccountHistoryBFFSearchParams (searchParams request)) then reply (jsonError ''validation_failed'' 400)
     else proxyPrivateGET srv request s (''/api/accounts/'' @ encodeURIComponent accountId @ ''/transactions'') [''cursor'', ''limit''])"

text \<open>The balance route builds its own request, with the session's consistency requirement for the
  account; its reading of the upstream body is not guarded.\<close>

definition requirement_header :: "session \<Rightarrow> string \<Rightarrow> headers" where
  "requirement_header s accountId = (case nonempty (map_of (requirement_entries s) accountId) of
     Some requirement \<Rightarrow> [(''X-LedgerSync-Consistency-Requirement'', requirement)] | None \<Rightarrow> [])"

definition balance_GET :: "server \<Rightarrow> session option \<Rightarrow> request \<Rightarrow> string \<Rightarrow> upstream_request list \<times> response outcome" where
  "balance_GET srv session request param = (case session of
     None \<Rightarrow> ([], Inr (jsonError ''unauthorized'' 401))
   | Some s \<Rightarrow>
       (case canonicalUUID param of
          None \<Rightarrow> ([], Inr (jsonError ''validation_failed'' 400))
        | Some accountId \<Rightarrow>
            if searchParams request \<noteq> [] then ([], Inr (jsonError ''validation_failed'' 400))
            else (case privateAPIContext srv s (get_header ''x-request-id'' (req_headers request)) of
                    Inl _ \<Rightarrow> ([], Inr (jsonError ''temporary_unavailable'' 503))
                  | Inr connection \<Rightarrow>
                      (let out = \<lparr>out_url = apiURL connection @ ''/api/accounts/'' @ encodeURIComponent accountId @ ''/balance'',
                            out_method = ''GET'', out_headers = conn_headers connection @ requirement_header s accountId, out_body = None\<rparr> in
                       ([out], case srv_fetch srv out of
                          Fetched up \<Rightarrow>
                            (case up_text up of
                               Body raw \<Rightarrow> Inr \<lparr>status = up_status up,
                                 resp_headers = set_header_if ''X-Request-ID'' (nonempty (get_header ''x-request-id'' (up_headers up)))
                                   [(''Content-Type'', case get_header ''content-type'' (up_headers up) of None \<Rightarrow> ''application/json'' | Some t \<Rightarrow> t),
                                    (''Cache-Control'', ''no-store'')],
                                 resp_body = raw\<rparr>
                             | Body_timeout \<Rightarrow> Inl ''TimeoutError''
                             | Body_error \<Rightarrow> Inl ''TypeError'')
                        | _ \<Rightarrow> Inr (jsonError ''temporary_unavailable'' 503))))))"

section \<open>Reconciliation\<close>

definition runs_GET :: "server \<Rightarrow> session option \<Rightarrow> request \<Rightarrow> exchange" where
  "runs_GET srv session request = signed_in session (\<lambda>s.
     if isl (parseStrictListSearchParams (searchParams request) reconciliationBFFQueryRules) then reply (jsonError ''invalid_request'' 400)
     else proxyPrivateGET srv request s ''/api/reconciliation/runs'' [''cursor'', ''limit''])"

definition runs_POST :: "server \<Rightarrow> 'st limiter \<Rightarrow> 'st \<Rightarrow> session option \<Rightarrow> request \<Rightarrow> 'st \<times> exchange" where
  "runs_POST srv consume st session request = (case authorizeReconciliationMutation srv consume st request session of
     (st', Inl denial) \<Rightarrow> (st', reply denial)
   | (st', Inr key) \<Rightarrow> (st', signed_in session (\<lambda>s.
       parsed_body request reconciliationMutationMaximumBytes parseReconciliationRunRequest (\<lambda>_.
         proxyReconciliationMutation srv s key))))"

definition run_GET :: "server \<Rightarrow> session option \<Rightarrow> request \<Rightarrow> string \<Rightarrow> exchange" where
  "run_GET srv session request param = signed_in session (\<lambda>s. case canonicalUUID param of
     None \<Rightarrow> reply (jsonError ''validation_failed'' 400)
   | Some runId \<Rightarrow> proxyPrivateGET srv request s (''/api/reconciliation/runs/'' @ encodeURIComponent runId) [])"

section \<open>Funding\<close>

definition funding_events_GET :: "server \<Rightarrow> session option \<Rightarrow> request \<Rightarrow> exchange" where
  "funding_events_GET srv session request = scoped_session ''funding:read'' session (\<lambda>s.
     if isl (parseStrictListSearchParams (searchParams request) fundingBFFQueryRules) then reply (jsonError ''invalid_request'' 400)
     else proxyPrivateGET srv request s ''/api/funding-events'' [''cursor'', ''limit'', ''status''])"

definition funding_event_GET :: "server \<Rightarrow> session option \<Rightarrow> request \<Rightarrow> string \<Rightarrow> exchange" where
  "funding_event_GET srv session request fundingEventId = scoped_session ''funding:read'' session (\<lambda>s.
     if \<not> isFundingEventID fundingEventId then reply (jsonError ''not_found'' 404)
     else proxyPrivateGET srv request s (''/api/funding-events/'' @ encodeURIComponent fundingEventId) [])"

definition funding_reconciliation_GET :: "server \<Rightarrow> session option \<Rightarrow> request \<Rightarrow> string \<Rightarrow> exchange" where
  "funding_reconciliation_GET srv session request fundingEventId = scoped_session ''funding:read'' session (\<lambda>s.
     if \<not> isFundingEventID fundingEventId then reply (jsonError ''not_found'' 404)
     else proxyPrivateGET srv request s (''/api/funding-events/'' @ encodeURIComponent fundingEventId @ ''/reconciliation'') [])"

text \<open>\<^verbatim>\<open>input.k\<close> of every named property, when each is text; any other value makes the reader throw.\<close>

definition text_fields :: "string list \<Rightarrow> json \<Rightarrow> string list outcome" where
  "text_fields ks v = traverse (\<lambda>k. case as_string (field k v) of None \<Rightarrow> Inl ''TypeError'' | Some s \<Rightarrow> Inr s) ks"

definition funding_body :: "json \<Rightarrow> json outcome" where
  "funding_body v = andthen (text_fields [''destinationAccountId'', ''amountMinor'', ''currency'', ''externalReference'', ''evidenceReference''] v) (\<lambda>ts.
     toPrivateFundingRequest \<lparr>fi_destinationAccountId = ts ! 0, fi_amountMinor = ts ! 1, fi_currency = ts ! 2,
       fi_externalReference = ts ! 3, fi_evidenceReference = ts ! 4\<rparr>)"

definition funding_requests_POST :: "server \<Rightarrow> session option \<Rightarrow> request \<Rightarrow> exchange" where
  "funding_requests_POST srv session request = (case authorizeFundingMutation srv request session ''funding:write'' True True of
     Inl denial \<Rightarrow> reply denial
   | Inr authorization \<Rightarrow> signed_in session (\<lambda>s. case nonempty authorization of
       None \<Rightarrow> reply (jsonError ''unauthorized'' 401)
     | Some key \<Rightarrow> parsed_body request fundingMutationMaximumBytes funding_body (\<lambda>body.
         proxyFundingMutation srv s ''/api/funding-requests'' (Some body) (Some key))))"

definition funding_approve_POST :: "server \<Rightarrow> session option \<Rightarrow> request \<Rightarrow> string \<Rightarrow> exchange" where
  "funding_approve_POST srv session request fundingEventId = (case authorizeFundingMutation srv request session ''funding:approve'' False True of
     Inl denial \<Rightarrow> reply denial
   | Inr _ \<Rightarrow> signed_in session (\<lambda>s.
       if \<not> isFundingEventID fundingEventId then reply (jsonError ''not_found'' 404)
       else parsed_body request fundingMutationMaximumBytes toPrivateFundingDecision (\<lambda>body.
         proxyFundingMutation srv s (''/api/funding-events/'' @ encodeURIComponent fundingEventId @ ''/approve'') (Some body) None)))"

definition funding_reject_POST :: "server \<Rightarrow> session option \<Rightarrow> request \<Rightarrow> string \<Rightarrow> exchange" where
  "funding_reject_POST srv session request fundingEventId = (case authorizeFundingMutation srv request session ''funding:approve'' False True of
     Inl denial \<Rightarrow> reply denial
   | Inr _ \<Rightarrow> signed_in session (\<lambda>s.
       if \<not> isFundingEventID fundingEventId then reply (jsonError ''not_found'' 404)
       else parsed_body request fundingMutationMaximumBytes toPrivateFundingDecision (\<lambda>body.
         proxyFundingMutation srv s (''/api/funding-events/'' @ encodeURIComponent fundingEventId @ ''/reject'') (Some body) None)))"

definition funding_post_POST :: "server \<Rightarrow> session option \<Rightarrow> request \<Rightarrow> string \<Rightarrow> exchange" where
  "funding_post_POST srv session request fundingEventId = (case authorizeFundingMutation srv request session ''funding:write'' True False of
     Inl denial \<Rightarrow> reply denial
   | Inr authorization \<Rightarrow> signed_in session (\<lambda>s.
       if \<not> isFundingEventID fundingEventId then reply (jsonError ''not_found'' 404)
       else proxyFundingMutation srv s (''/api/funding-events/'' @ encodeURIComponent fundingEventId @ ''/post'') None authorization))"

definition funding_compensations_POST :: "server \<Rightarrow> session option \<Rightarrow> request \<Rightarrow> string \<Rightarrow> exchange" where
  "funding_compensations_POST srv session request fundingEventId = (case authorizeFundingMutation srv request session ''funding:write'' True True of
     Inl denial \<Rightarrow> reply denial
   | Inr authorization \<Rightarrow> signed_in session (\<lambda>s. case nonempty authorization of
       None \<Rightarrow> reply (jsonError ''unauthorized'' 401)
     | Some key \<Rightarrow>
         if \<not> isFundingEventID fundingEventId then reply (jsonError ''not_found'' 404)
         else parsed_body request fundingMutationMaximumBytes toPrivateFundingCompensation (\<lambda>body.
           proxyFundingMutation srv s (''/api/funding-events/'' @ encodeURIComponent fundingEventId @ ''/compensations'') (Some body) (Some key))))"

section \<open>Corrections\<close>

definition corrections_GET :: "server \<Rightarrow> session option \<Rightarrow> request \<Rightarrow> exchange" where
  "corrections_GET srv session request = scoped_session ''corrections:read'' session (\<lambda>s.
     if isl (parseStrictListSearchParams (searchParams request) correctionBFFQueryRules) then reply (jsonError ''invalid_request'' 400)
     else proxyPrivateGET srv request s ''/api/transfer-corrections'' [''cursor'', ''limit'', ''status''])"

definition correction_GET :: "server \<Rightarrow> session option \<Rightarrow> request \<Rightarrow> string \<Rightarrow> exchange" where
  "correction_GET srv session request correctionId = scoped_session ''corrections:read'' session (\<lambda>s.
     if \<not> isCorrectionID correctionId then reply (jsonError ''not_found'' 404)
     else proxyPrivateGET srv request s (''/api/transfer-corrections/'' @ encodeURIComponent correctionId) [])"

definition transfer_corrections_POST :: "server \<Rightarrow> session option \<Rightarrow> request \<Rightarrow> string \<Rightarrow> exchange" where
  "transfer_corrections_POST srv session request transferId = (case authorizeCorrectionMutation srv request session ''corrections:write'' True True of
     Inl denial \<Rightarrow> reply denial
   | Inr authorization \<Rightarrow> signed_in session (\<lambda>s. case nonempty authorization of
       None \<Rightarrow> reply (jsonError ''unauthorized'' 401)
     | Some key \<Rightarrow>
         if \<not> isCorrectionID transferId then reply (jsonError ''not_found'' 404)
         else parsed_body request correctionMutationMaximumBytes toPrivateCorrectionRequest (\<lambda>body.
           proxyCorrectionMutation srv s (''/api/transfers/'' @ encodeURIComponent transferId @ ''/corrections'') (Some body) (Some key))))"

text \<open>The three decisions on a correction have the same handler but for the scope and the last segment.\<close>

definition correction_decision :: "string \<Rightarrow> string \<Rightarrow> server \<Rightarrow> session option \<Rightarrow> request \<Rightarrow> string \<Rightarrow> exchange" where
  "correction_decision scope action srv session request correctionId = (case authorizeCorrectionMutation srv request session scope False True of
     Inl denial \<Rightarrow> reply denial
   | Inr _ \<Rightarrow> signed_in session (\<lambda>s.
       if \<not> isCorrectionID correctionId then reply (jsonError ''not_found'' 404)
       else parsed_body request correctionMutationMaximumBytes toPrivateCorrectionDecision (\<lambda>body.
         proxyCorrectionMutation srv s (''/api/transfer-corrections/'' @ encodeURIComponent correctionId @ ''/'' @ action) (Some body) None)))"

definition correction_approve_POST :: "server \<Rightarrow> session option \<Rightarrow> request \<Rightarrow> string \<Rightarrow> exchange" where
  "correction_approve_POST = correction_decision ''corrections:approve'' ''approve''"

definition correction_reject_POST :: "server \<Rightarrow> session option \<Rightarrow> request \<Rightarrow> string \<Rightarrow> exchange" where
  "correction_reject_POST = correction_decision ''corrections:approve'' ''reject''"

definition correction_cancel_POST :: "server \<Rightarrow> session option \<Rightarrow> request \<Rightarrow> string \<Rightarrow> exchange" where
  "correction_cancel_POST = correction_decision ''corrections:write'' ''cancel''"

definition correction_post_POST :: "server \<Rightarrow> session option \<Rightarrow> request \<Rightarrow> string \<Rightarrow> exchange" where
  "correction_post_POST srv session request correctionId = (case authorizeCorrectionMutation srv request session ''corrections:approve'' True False of
     Inl denial \<Rightarrow> reply denial
   | Inr authorization \<Rightarrow> signed_in session (\<lambda>s.
       if \<not> isCorrectionID correctionId then reply (jsonError ''not_found'' 404)
       else proxyCorrectionMutation srv s (''/api/transfer-corrections/'' @ encodeURIComponent correctionId @ ''/post'') None authorization))"

section \<open>Webhook replay and approvals\<close>

text \<open>The handlers of the two stages differ in the parser of the body.\<close>

definition replay_stage_POST :: "replay_stage \<Rightarrow> (json \<Rightarrow> json outcome) \<Rightarrow> server \<Rightarrow> 'st limiter \<Rightarrow> 'st \<Rightarrow> session option \<Rightarrow> request
    \<Rightarrow> string \<Rightarrow> string \<Rightarrow> 'st \<times> exchange" where
  "replay_stage_POST stage parse srv consume st session request endpointId attemptId =
     (case authorizeWebhookReplay srv consume st request session endpointId attemptId stage of
        (st', Inl denial) \<Rightarrow> (st', reply denial)
      | (st', Inr key) \<Rightarrow> (st', signed_in session (\<lambda>s.
          parsed_body request webhookReplayMaximumBytes parse (\<lambda>body.
            proxyWebhookReplayMutation srv s endpointId attemptId stage key body (get_header ''x-request-id'' (req_headers request))))))"

definition replay_approvals_POST :: "server \<Rightarrow> 'st limiter \<Rightarrow> 'st \<Rightarrow> session option \<Rightarrow> request \<Rightarrow> string \<Rightarrow> string \<Rightarrow> 'st \<times> exchange" where
  "replay_approvals_POST = replay_stage_POST Approval parseWebhookReplayApprovalRequest"

definition replay_POST :: "server \<Rightarrow> 'st limiter \<Rightarrow> 'st \<Rightarrow> session option \<Rightarrow> request \<Rightarrow> string \<Rightarrow> string \<Rightarrow> 'st \<times> exchange" where
  "replay_POST = replay_stage_POST Execution parseWebhookReplayRequest"

definition approvals_GET :: "server \<Rightarrow> session option \<Rightarrow> request \<Rightarrow> exchange" where
  "approvals_GET srv session request = signed_in session (\<lambda>s.
     if \<not> (has_scope s ''funding:approve'' \<or> has_scope s ''corrections:approve'') then reply (jsonError ''forbidden'' 403)
     else if parseApprovalBFFSearchParams (searchParams request) = None then reply (jsonError ''invalid_request'' 400)
     else proxyPrivateGET srv request s ''/api/approvals'' [''domain'', ''status'', ''requester'', ''age'', ''requested_after'',
       ''requested_before'', ''actionable_by_me'', ''cursor'', ''limit''])"

section \<open>Transfers\<close>

type_synonym store_exchange = "upstream_request list \<times> string list \<times> response"

abbreviation store_reply :: "response \<Rightarrow> store_exchange" where
  "store_reply r \<equiv> ([], [], r)"

definition transfers_GET :: "server \<Rightarrow> session option \<Rightarrow> request \<Rightarrow> exchange" where
  "transfers_GET srv session request = signed_in session (\<lambda>s.
     if parseTransferSearchParams (searchParams request) transferBFFQueryRules = None then reply (jsonError ''invalid_request'' 400)
     else proxyPrivateGET srv request s ''/api/transfers'' [''cursor'', ''limit'', ''accountId'', ''status'', ''q'', ''from'', ''to''])"

definition transfer_GET :: "server \<Rightarrow> session option \<Rightarrow> request \<Rightarrow> string \<Rightarrow> exchange" where
  "transfer_GET srv session request param = signed_in session (\<lambda>s. case canonicalUUID param of
     None \<Rightarrow> reply (jsonError ''validation_failed'' 400)
   | Some transferId \<Rightarrow> proxyPrivateGET srv request s (''/api/transfers/'' @ encodeURIComponent transferId) [])"

definition reference_pattern :: rx where
  "reference_pattern =
     RSeq (RRep (RSet is_hex_lower) 8 8) (RSeq dash (RSeq (RRep (RSet is_hex_lower) 4 4) (RSeq dash
     (RSeq (RSet (one_of ''12345'')) (RSeq (RRep (RSet is_hex_lower) 3 3) (RSeq dash
     (RSeq (RSet (one_of ''89ab'')) (RSeq (RRep (RSet is_hex_lower) 3 3) (RSeq dash (RRep (RSet is_hex_lower) 12 12))))))))))"

definition transfer_body :: "json \<Rightarrow> json outcome" where
  "transfer_body v = andthen (text_fields [''sourceAccountId'', ''destinationAccountId''] v) (\<lambda>ids.
     case field ''amount'' v of
       None \<Rightarrow> Inl ''TypeError''
     | Some money \<Rightarrow> andthen (text_fields [''currency'', ''minorUnits''] money) (\<lambda>ts.
         andthen (toPrivateTransferRequest \<lparr>ti_sourceAccountId = ids ! 0, ti_destinationAccountId = ids ! 1,
             ti_currency = ts ! 0, ti_minorUnits = ts ! 1\<rparr>) (\<lambda>r.
           Inr (JObj [(''source_account_id'', JStr (source_account_id r)), (''destination_account_id'', JStr (destination_account_id r)),
             (''amount'', JStr (amount r)), (''currency'', JStr (currency r))]))))"

definition transferMaximumBytes :: nat where "transferMaximumBytes = 16384"

definition transfers_POST :: "server \<Rightarrow> session option \<Rightarrow> request \<Rightarrow> store_exchange" where
  "transfers_POST srv session request =
     (let header = (\<lambda>n. get_header n (req_headers request)) in
      case session of
        None \<Rightarrow> store_reply (jsonError ''unauthorized'' 401)
      | Some s \<Rightarrow>
          if \<not> hasValidCSRF (srv_URL srv) (srv_env srv) request s then store_reply (jsonError ''csrf_failed'' 403)
          else case nonempty (map_option trim (header ''idempotency-key'')) of
            None \<Rightarrow> store_reply (jsonError ''idempotency_key_required'' 400)
          | Some key \<Rightarrow>
              (case nonempty (map_option (toLowerCase \<circ> trim) (header ''x-ledgersync-request-reference'')) of
                 None \<Rightarrow> store_reply (jsonError ''validation_failed'' 400)
               | Some reference \<Rightarrow>
                   if \<not> rx_test reference_pattern reference then store_reply (jsonError ''validation_failed'' 400)
                   else (case andthen (readBoundedJSON request transferMaximumBytes) transfer_body of
                           Inl _ \<Rightarrow> store_reply (jsonError ''validation_failed'' 400)
                         | Inr body \<Rightarrow> proxyTransferMutation srv s ''/api/transfers'' (Some body) (Some key) (Some reference)
                             (header ''x-request-id'') (header handle_header))))"

definition recovery_GET :: "server \<Rightarrow> session option \<Rightarrow> request \<Rightarrow> exchange" where
  "recovery_GET srv session request = scoped_session ''transfers:read'' session (\<lambda>s.
     proxyPrivateGET srv request s ''/api/transfers/recovery'' [''cursor''])"

definition recovery_POST :: "server \<Rightarrow> session option \<Rightarrow> request \<Rightarrow> store_exchange" where
  "recovery_POST srv session request =
     (let header = (\<lambda>n. get_header n (req_headers request)) in
      case session of
        None \<Rightarrow> store_reply (jsonError ''unauthorized'' 401)
      | Some s \<Rightarrow>
          if \<not> hasValidCSRF (srv_URL srv) (srv_env srv) request s then store_reply (jsonError ''csrf_failed'' 403)
          else if \<not> has_scope s ''transfers:write'' then store_reply (jsonError ''forbidden'' 403)
          else if searchParams request \<noteq> [] then store_reply (jsonError ''invalid_request'' 400)
          else (case (nonempty (map_option trim (header ''idempotency-key'')),
                      canonicalUUID (case header ''x-ledgersync-request-reference'' of None \<Rightarrow> '''' | Some v \<Rightarrow> v)) of
                  (Some key, Some reference) \<Rightarrow>
                    (case andthen (readBoundedJSON request transferMaximumBytes) transfer_body of
                       Inl _ \<Rightarrow> store_reply (jsonError ''validation_failed'' 400)
                     | Inr body \<Rightarrow> proxyTransferMutation srv s ''/api/transfers/recovery'' (Some body) (Some key) (Some reference)
                         (header ''x-request-id'') (header handle_header))
                | _ \<Rightarrow> store_reply (jsonError ''validation_failed'' 400)))"

text \<open>The loop that requires an empty body: chunks are read until the end, the first byte or a failure
  of the stream, which is not caught.\<close>

fun empty_body :: "stream_event list \<Rightarrow> bool outcome" where
  "empty_body [] = Inr True"
| "empty_body (Stream_failure # es) = Inl ''stream error''"
| "empty_body (Chunk c # es) = (if c \<noteq> [] then Inr False else empty_body es)"

definition retry_POST :: "server \<Rightarrow> session option \<Rightarrow> request \<Rightarrow> string \<Rightarrow> upstream_request list \<times> string list \<times> response outcome" where
  "retry_POST srv session request param =
     (let header = (\<lambda>n. get_header n (req_headers request)); deny = (\<lambda>c st. ([], [], Inr (jsonError c st))) in
      case session of
        None \<Rightarrow> deny ''unauthorized'' 401
      | Some s \<Rightarrow>
          if \<not> hasValidCSRF (srv_URL srv) (srv_env srv) request s then deny ''csrf_failed'' 403
          else if \<not> has_scope s ''transfers:write'' then deny ''forbidden'' 403
          else case canonicalUUID param of
            None \<Rightarrow> deny ''invalid_request'' 400
          | Some reference \<Rightarrow>
              if searchParams request \<noteq> [] then deny ''invalid_request'' 400
              else (case (case req_stream request of None \<Rightarrow> Inr True | Some es \<Rightarrow> empty_body es) of
                      Inl e \<Rightarrow> ([], [], Inl e)
                    | Inr False \<Rightarrow> deny ''validation_failed'' 400
                    | Inr True \<Rightarrow>
                        (case proxyTransferMutation srv s (''/api/transfers/recovery/'' @ reference @ ''/retry'') None None (Some reference)
                            (header ''x-request-id'') (header handle_header) of
                           (sent, lines, r) \<Rightarrow> (sent, lines, Inr r))))"

section \<open>Preferences and the session\<close>

definition preference_version :: rx where
  "preference_version = RAlt (RChar CHR ''0'') (RSeq (RSet (\<lambda>c. is_digit c \<and> c \<noteq> CHR ''0'')) (RRep (RSet is_digit) 0 18))"

definition experience_mode_field :: "json \<Rightarrow> bool" where
  "experience_mode_field v = (field ''experience_mode'' v = Some (JStr ''simple'') \<or> field ''experience_mode'' v = Some (JStr ''expert''))"

definition sanitizeUIPreference :: "(string \<Rightarrow> bool) \<Rightarrow> json \<Rightarrow> json option" where
  "sanitizeUIPreference is_date v =
     (if \<not> isRecord v \<or> list_ex (\<lambda>k. \<not> List.member [''experience_mode'', ''version'', ''updated_at''] k) (object_keys v)
         \<or> \<not> experience_mode_field v \<or> \<not> string_field ''version'' (rx_test preference_version) v
         \<or> (field ''updated_at'' v \<noteq> None \<and> \<not> string_field ''updated_at'' (\<lambda>s. length s \<le> 64 \<and> is_date s) v)
      then None
      else Some (copy_fields v ([''experience_mode'', ''version''] @ (if field ''updated_at'' v = None then [] else [''updated_at'']))))"

definition upstreamPreference :: "server \<Rightarrow> request \<Rightarrow> session \<Rightarrow> string \<Rightarrow> string option \<Rightarrow> exchange" where
  "upstreamPreference srv request s meth body = (case privateAPIContext srv s (get_header ''x-request-id'' (req_headers request)) of
     Inl _ \<Rightarrow> reply (jsonError ''temporary_unavailable'' 503)
   | Inr connection \<Rightarrow>
       (let out = \<lparr>out_url = apiURL connection @ ''/api/ui/preferences'', out_method = meth,
             out_headers = conn_headers connection @ (if nonempty body \<noteq> None then [(''Content-Type'', ''application/json'')] else []),
             out_body = body\<rparr> in
        ([out], case srv_fetch srv out of
           Fetched up \<Rightarrow>
             if \<not> ok up
             then (if up_status up = 409 then jsonError ''preference_version_conflict'' 409
                   else if up_status up = 403 then jsonError ''forbidden'' 403 else jsonError ''temporary_unavailable'' 503)
             else (case Option.bind (JSON_parse (body_text (up_text up))) (sanitizeUIPreference (srv_date srv)) of
                     None \<Rightarrow> jsonError ''temporary_unavailable'' 503
                   | Some preference \<Rightarrow> json_response preference 200 [(''Cache-Control'', ''no-store'')])
         | _ \<Rightarrow> jsonError ''temporary_unavailable'' 503)))"

definition preferences_GET :: "server \<Rightarrow> session option \<Rightarrow> request \<Rightarrow> exchange" where
  "preferences_GET srv session request = signed_in session (\<lambda>s.
     if searchParams request \<noteq> [] then reply (jsonError ''invalid_request'' 400) else upstreamPreference srv request s ''GET'' None)"

definition preferences_PATCH :: "server \<Rightarrow> session option \<Rightarrow> request \<Rightarrow> exchange" where
  "preferences_PATCH srv session request = signed_in session (\<lambda>s.
     if \<not> hasValidCSRF (srv_URL srv) (srv_env srv) request s then reply (jsonError ''csrf_failed'' 403)
     else case readBoundedJSON request 1024 of
       Inl _ \<Rightarrow> reply (jsonError ''invalid_request'' 400)
     | Inr input \<Rightarrow>
         if \<not> isRecord input \<or> length (object_keys input) \<noteq> 2 \<or> \<not> experience_mode_field input
            \<or> \<not> string_field ''expected_version'' (rx_test preference_version) input
         then reply (jsonError ''invalid_request'' 400)
         else upstreamPreference srv request s ''PATCH'' (Some (JSON_stringify input)))"

text \<open>Signing out: the answer and the cookie it sets.\<close>

definition sign_out_POST :: "server \<Rightarrow> session option \<Rightarrow> request \<Rightarrow> upstream_request list \<times> string list \<times> (response \<times> cookie option) outcome" where
  "sign_out_POST srv session request =
     (let deny = (\<lambda>c st. Inr (jsonError c st, None)) in
      case session of
        None \<Rightarrow> ([], [], deny ''unauthorized'' 401)
      | Some s \<Rightarrow>
          if \<not> hasValidCSRF (srv_URL srv) (srv_env srv) request s then ([], [], deny ''csrf_failed'' 403)
          else case nonempty (get_header handle_header (req_headers request)) of
            None \<Rightarrow> ([], [], deny ''temporary_unavailable'' 503)
          | Some h \<Rightarrow>
              (case revokeOpaqueSession srv h of (sent, lines, revoked) \<Rightarrow>
                 (sent, lines,
                  if revoked \<noteq> Inr True then deny ''temporary_unavailable'' 503
                  else andthen (expiredSessionCookie (srv_URL srv) (srv_env srv)) (\<lambda>c.
                    Inr (\<lparr>status = 204, resp_headers = [(''Cache-Control'', ''no-store'')], resp_body = ''''\<rparr>, Some c)))))"

definition features_json :: "optional_features \<Rightarrow> json" where
  "features_json f = JObj [(''systems_lab'', JBool (systems_lab f)), (''live_investigation'', JBool (live_investigation f))]"

definition session_GET :: "url_parser \<Rightarrow> (url \<Rightarrow> string) \<Rightarrow> env \<Rightarrow> session option \<Rightarrow> response outcome" where
  "session_GET new_URL hostname env session = (case readLocalAccessConfiguration new_URL hostname env of
     Inl _ \<Rightarrow> Inr (jsonError ''local_access_configuration_invalid'' 503)
   | Inr cfg \<Rightarrow>
       (let is_local = isLocalSession session cfg in
        case session of
          None \<Rightarrow> Inr (jsonError ''unauthorized'' 401)
        | Some s \<Rightarrow> andthen (readOptionalFeatures env) (\<lambda>features.
            Inr (json_response (JObj [(''subject_id'', JStr (subjectId s)), (''tenant_id'', JStr (tenantId s)), (''csrf_token'', JStr (csrfToken s)),
              (''scopes'', json_strings (case scopes s of None \<Rightarrow> [] | Some ss \<Rightarrow> ss)),
              (''environment'', JStr (if is_local then ''local'' else ''production'')),
              (''operator_label'', JStr (if is_local then ''Local operator'' else ''Authorized operator'')),
              (''tenant_label'', JStr (if is_local then ''My Ledger Workspace'' else ''Ledger tenant'')),
              (''features'', features_json features)]) 200 [(''Cache-Control'', ''no-store'')]))))"

section \<open>Signing in\<close>

text \<open>An answer of the authentication routes: an error, or a redirect to a URL (with the search parameters
  that were set on it) and the cookies.\<close>

datatype auth_answer = Auth_error response | Redirect url "params option" "cookie list"

text \<open>What the platform supplies: \<^verbatim>\<open>URL.hostname\<close> and \<^verbatim>\<open>URL.href\<close>, the hash, the token verifier and fresh
  random values.\<close>

record auth_platform =
  ap_hmac :: hmac
  ap_hostname :: "url \<Rightarrow> string"
  ap_href :: "url \<Rightarrow> string"
  ap_sha256 :: "nat list \<Rightarrow> nat list"
  ap_jwtVerify :: jwt_verifier
  ap_randoms :: login_randoms
  ap_uuid :: string

definition issue_session :: "auth_platform \<Rightarrow> server \<Rightarrow> request \<Rightarrow> session \<Rightarrow> upstream_request list \<times> string list \<times> cookie outcome" where
  "issue_session p srv request payload =
     (case createOpaqueSession (ap_hmac p) srv payload (get_header handle_header (req_headers request)) of
        (sent, lines, r) \<Rightarrow> (sent, lines, andthen r (sessionCookie (srv_URL srv) (srv_env srv))))"

definition local_sign_in :: "auth_platform \<Rightarrow> server \<Rightarrow> request \<Rightarrow> local_configuration \<Rightarrow> upstream_request list \<times> string list \<times> auth_answer outcome" where
  "local_sign_in p srv request localAccess =
     (case createLocalReturnURL (srv_URL srv) (ap_href p) (srv_env srv) (safeReturnTo (srv_URL srv) (get_param ''return_to'' (searchParams request))) of
        Inl e \<Rightarrow> ([], [], Inl e)
      | Inr target \<Rightarrow>
          (case createLocalSession localAccess (srv_now srv) (ap_uuid p) of
             Inl e \<Rightarrow> ([], [], Inl e)
           | Inr payload \<Rightarrow>
               (case issue_session p srv request payload of
                  (sent, lines, c) \<Rightarrow> (sent, lines, andthen c (\<lambda>cookie. Inr (Redirect target None [cookie]))))))"

definition oidc_sign_in :: "auth_platform \<Rightarrow> server \<Rightarrow> request \<Rightarrow> auth_answer outcome" where
  "oidc_sign_in p srv request =
     andthen (beginAuthorization (ap_hmac p) (ap_sha256 p) (srv_URL srv) (srv_env srv) (srv_fetch srv) (srv_now srv) (ap_randoms p)
       (get_param ''prompt'' (searchParams request) = Some ''login'') (get_param ''return_to'' (searchParams request))) (\<lambda>started.
     andthen (transactionCookie (srv_URL srv) (srv_env srv) (login_cookie started)) (\<lambda>cookie.
       Inr (Redirect (login_endpoint started) (Some (login_query started)) [cookie])))"

text \<open>The requests sent to the session store; those of the OpenID provider go through the same fetch.\<close>

definition sign_in_GET :: "auth_platform \<Rightarrow> server \<Rightarrow> request \<Rightarrow> upstream_request list \<times> string list \<times> auth_answer" where
  "sign_in_GET p srv request =
     (let caught = (\<lambda>r. case r of Inl _ \<Rightarrow> Auth_error (jsonError ''authentication_unavailable'' 503) | Inr a \<Rightarrow> a) in
      case readLocalAccessConfiguration (srv_URL srv) (ap_hostname p) (srv_env srv) of
        Inl e \<Rightarrow> ([], [], caught (Inl e))
      | Inr localAccess \<Rightarrow>
          if loc_enabled localAccess
          then (case local_sign_in p srv request localAccess of (sent, lines, r) \<Rightarrow> (sent, lines, caught r))
          else ([], [], caught (oidc_sign_in p srv request)))"

definition session_of_identity :: "verified_identity \<Rightarrow> string \<Rightarrow> session" where
  "session_of_identity identity uuid =
     \<lparr>subjectId = id_subjectId identity, tenantId = auth_tenantId (id_authorization identity), csrfToken = uuid,
      expiresAt = id_expiresAt identity, authenticatedAt = id_authenticatedAt identity,
      roles = Some (auth_roles (id_authorization identity)), scopes = Some (auth_scopes (id_authorization identity)),
      consistencyRequirements = None\<rparr>"

definition callback_GET :: "auth_platform \<Rightarrow> server \<Rightarrow> request \<Rightarrow> string \<Rightarrow> string option \<Rightarrow> upstream_request list \<times> string list \<times> auth_answer" where
  "callback_GET p srv request request_url transaction_cookie =
     (let failed = Auth_error (jsonError ''authentication_failed'' 401) in
      case (nonempty (get_param ''code'' (searchParams request)), nonempty (get_param ''state'' (searchParams request))) of
        (Some authorization_code, Some supplied) \<Rightarrow>
          (case completeAuthorization (ap_hmac p) (ap_jwtVerify p) (srv_URL srv) (srv_env srv) (srv_fetch srv) (srv_now srv)
              authorization_code supplied transaction_cookie of
             Inl _ \<Rightarrow> ([], [], failed)
           | Inr (identity, back) \<Rightarrow>
               (case srv_URL srv back (Some request_url) of
                  None \<Rightarrow> ([], [], failed)
                | Some target \<Rightarrow>
                    (case issue_session p srv request (session_of_identity identity (ap_uuid p)) of (sent, lines, c) \<Rightarrow>
                       (sent, lines,
                        case andthen c (\<lambda>cookie. andthen (expiredTransactionCookie (srv_URL srv) (srv_env srv)) (\<lambda>expired. Inr [cookie, expired])) of
                          Inl _ \<Rightarrow> failed
                        | Inr cookies \<Rightarrow> Redirect target None cookies))))
      | _ \<Rightarrow> ([], [], Auth_error (jsonError ''authentication_failed'' 400)))"

end
