(* ===== verification/Commands.thy ===== *)
theory Commands
  imports Routes
begin

text \<open>
  Every mutating route of the BFF as one command, dispatched to the handler that the file layout of
  \<^verbatim>\<open>web/src/app/api\<close> gives it, and what all of them guarantee: authority before anything is sent, and
  one target for what is sent.
\<close>

section \<open>Commands\<close>

datatype command =
    Create_account | Update_account string | Start_reconciliation
  | Request_funding | Approve_funding string | Reject_funding string | Post_funding string | Compensate_funding string
  | Request_correction string | Approve_correction string | Reject_correction string | Cancel_correction string | Post_correction string
  | Approve_replay string string | Execute_replay string string
  | Create_transfer | Recover_transfer | Retry_transfer string
  | Set_preferences | Sign_out

text \<open>The handler of a command: the state of its limiter, the requests sent and the response.\<close>

definition run_command :: "server \<Rightarrow> 'st limiter \<Rightarrow> 'st \<Rightarrow> command \<Rightarrow> session option \<Rightarrow> request
    \<Rightarrow> 'st \<times> upstream_request list \<times> response outcome" where
  "run_command srv consume st c session request =
     (let plain = (\<lambda>x :: exchange. (st, fst x, Inr (snd x))); limited_route = (\<lambda>x. (fst x, fst (snd x), Inr (snd (snd x))));
          stored = (\<lambda>x :: store_exchange. (st, fst x, Inr (snd (snd x)))) in
      case c of
        Create_account \<Rightarrow> plain (accounts_POST srv session request)
      | Update_account a \<Rightarrow> plain (account_PATCH srv session request a)
      | Start_reconciliation \<Rightarrow> limited_route (runs_POST srv consume st session request)
      | Request_funding \<Rightarrow> plain (funding_requests_POST srv session request)
      | Approve_funding f \<Rightarrow> plain (funding_approve_POST srv session request f)
      | Reject_funding f \<Rightarrow> plain (funding_reject_POST srv session request f)
      | Post_funding f \<Rightarrow> plain (funding_post_POST srv session request f)
      | Compensate_funding f \<Rightarrow> plain (funding_compensations_POST srv session request f)
      | Request_correction t \<Rightarrow> plain (transfer_corrections_POST srv session request t)
      | Approve_correction k \<Rightarrow> plain (correction_approve_POST srv session request k)
      | Reject_correction k \<Rightarrow> plain (correction_reject_POST srv session request k)
      | Cancel_correction k \<Rightarrow> plain (correction_cancel_POST srv session request k)
      | Post_correction k \<Rightarrow> plain (correction_post_POST srv session request k)
      | Approve_replay e a \<Rightarrow> limited_route (replay_approvals_POST srv consume st session request e a)
      | Execute_replay e a \<Rightarrow> limited_route (replay_POST srv consume st session request e a)
      | Create_transfer \<Rightarrow> stored (transfers_POST srv session request)
      | Recover_transfer \<Rightarrow> stored (recovery_POST srv session request)
      | Retry_transfer r \<Rightarrow> (case retry_POST srv session request r of (sent, lines, x) \<Rightarrow> (st, sent, x))
      | Set_preferences \<Rightarrow> plain (preferences_PATCH srv session request)
      | Sign_out \<Rightarrow> (case sign_out_POST srv session request of (sent, lines, x) \<Rightarrow> (st, sent, andthen x (\<lambda>(r, _). Inr r))))"

section \<open>Specification\<close>

text \<open>The scopes that a command needs. A transfer needs none here: the private API decides.\<close>

definition required_scopes :: "command \<Rightarrow> string list" where
  "required_scopes c = (case c of
     Create_account \<Rightarrow> [''accounts:write''] | Update_account _ \<Rightarrow> [''accounts:write''] | Start_reconciliation \<Rightarrow> [''reconciliation:write'']
   | Request_funding \<Rightarrow> [''funding:write''] | Approve_funding _ \<Rightarrow> [''funding:approve''] | Reject_funding _ \<Rightarrow> [''funding:approve'']
   | Post_funding _ \<Rightarrow> [''funding:write''] | Compensate_funding _ \<Rightarrow> [''funding:write'']
   | Request_correction _ \<Rightarrow> [''corrections:write''] | Approve_correction _ \<Rightarrow> [''corrections:approve'']
   | Reject_correction _ \<Rightarrow> [''corrections:approve''] | Cancel_correction _ \<Rightarrow> [''corrections:write'']
   | Post_correction _ \<Rightarrow> [''corrections:approve'']
   | Approve_replay _ _ \<Rightarrow> [''webhooks:replay''] | Execute_replay _ _ \<Rightarrow> [''webhooks:replay'']
   | Create_transfer \<Rightarrow> [] | Recover_transfer \<Rightarrow> [''transfers:write''] | Retry_transfer _ \<Rightarrow> [''transfers:write'']
   | Set_preferences \<Rightarrow> [] | Sign_out \<Rightarrow> [])"

text \<open>The path that a command may reach, when its identifiers are UUIDs: they appear in normal form.\<close>

abbreviation below :: "string \<Rightarrow> string \<Rightarrow> string \<Rightarrow> string option" where
  "below base x rest \<equiv> map_option (\<lambda>u. base @ u @ rest) (canonicalUUID x)"

definition command_path :: "command \<Rightarrow> string option" where
  "command_path c = (case c of
     Create_account \<Rightarrow> Some ''/api/accounts'' | Update_account a \<Rightarrow> below ''/api/accounts/'' a ''''
   | Start_reconciliation \<Rightarrow> Some ''/api/reconciliation/runs''
   | Request_funding \<Rightarrow> Some ''/api/funding-requests'' | Approve_funding f \<Rightarrow> below ''/api/funding-events/'' f ''/approve''
   | Reject_funding f \<Rightarrow> below ''/api/funding-events/'' f ''/reject'' | Post_funding f \<Rightarrow> below ''/api/funding-events/'' f ''/post''
   | Compensate_funding f \<Rightarrow> below ''/api/funding-events/'' f ''/compensations''
   | Request_correction t \<Rightarrow> below ''/api/transfers/'' t ''/corrections''
   | Approve_correction k \<Rightarrow> below ''/api/transfer-corrections/'' k ''/approve''
   | Reject_correction k \<Rightarrow> below ''/api/transfer-corrections/'' k ''/reject''
   | Cancel_correction k \<Rightarrow> below ''/api/transfer-corrections/'' k ''/cancel''
   | Post_correction k \<Rightarrow> below ''/api/transfer-corrections/'' k ''/post''
   | Approve_replay e a \<Rightarrow> Option.bind (canonicalUUID e) (\<lambda>u. below (''/api/developer/webhooks/'' @ u @ ''/deliveries/'') a ''/replay-approvals'')
   | Execute_replay e a \<Rightarrow> Option.bind (canonicalUUID e) (\<lambda>u. below (''/api/developer/webhooks/'' @ u @ ''/deliveries/'') a ''/replay'')
   | Create_transfer \<Rightarrow> Some ''/api/transfers'' | Recover_transfer \<Rightarrow> Some ''/api/transfers/recovery''
   | Retry_transfer r \<Rightarrow> below ''/api/transfers/recovery/'' r ''/retry''
   | Set_preferences \<Rightarrow> Some ''/api/ui/preferences'' | Sign_out \<Rightarrow> Some ''/api/internal/bff/sessions/revoke'')"

definition targets :: "server \<Rightarrow> string option \<Rightarrow> upstream_request list \<Rightarrow> bool" where
  "targets srv path sent = (sent = [] \<or> (\<exists>p out rest. path = Some p \<and> sent = out # rest
     \<and> out_url out = session_api (srv_env srv) @ p \<and> consistency_updates srv rest))"

definition authorized :: "server \<Rightarrow> request \<Rightarrow> session option \<Rightarrow> string list \<Rightarrow> bool" where
  "authorized srv request session needed =
     (\<exists>s. session = Some s \<and> list_all (has_scope s) needed \<and> hasValidCSRF (srv_URL srv) (srv_env srv) request s)"

section \<open>Targets of the proxies\<close>

lemma targets_simps [simp]: "targets srv path []"
  "targets srv (Some p) [out] \<longleftrightarrow> out_url out = session_api (srv_env srv) @ p"
  by (auto simp: targets_def)

lemma connection_url: "privateAPIContext srv s r = Inr c \<Longrightarrow> apiURL c = session_api (srv_env srv)"
  by (auto simp: privateAPIContext_def session_api_def Let_def andthen_eq_Inr split: option.splits if_splits)

lemma account_targets: "targets srv (Some path) (fst (proxyAccountMutation srv s m path body key))"
  by (auto simp: proxyAccountMutation_def Let_def connection_url split: sum.splits)

lemma reconciliation_targets: "targets srv (Some ''/api/reconciliation/runs'') (fst (proxyReconciliationMutation srv s key))"
  by (auto simp: proxyReconciliationMutation_def Let_def connection_url split: sum.splits)

lemma uuid_encoded: "rx_test canonicalUUIDShape v \<Longrightarrow> encodeURIComponent v = v"
proof -
  assume "rx_test canonicalUUIDShape v"
  then have "list_all (\<lambda>c. is_hex c \<or> c = CHR ''-'') v" by (rule shape_chars)
  then show ?thesis by (induction v) (auto simp: encodeURIComponent_def uri_unreserved_def char_class_defs)
qed

lemma canonical_shape: "canonicalUUID v = Some u \<Longrightarrow> rx_test canonicalUUIDShape v \<and> rx_test canonicalUUIDShape u"
  using shape_closed [of v] by (auto simp: canonicalUUID_def Let_def split: if_splits)

lemma short_segment: "length w \<noteq> 36 \<Longrightarrow> canonical_segment w = Inr w"
  using shape_length [of w] by (auto simp: canonical_segment_def)

lemma uuid_segment: "canonicalUUID v = Some u \<Longrightarrow> canonical_segment v = Inr u"
  using canonical_shape by (auto simp: canonical_segment_def)

lemma uuid_no_slash: "rx_test canonicalUUIDShape v \<Longrightarrow> CHR ''/'' \<notin> set v"
  using shape_chars [of v] by (auto simp: list_all_iff char_class_defs)

lemma canonical_path:
  assumes "canonicalUUID v = Some u" "CHR ''/'' \<notin> set base" "CHR ''/'' \<notin> set action" "length base \<noteq> 36" "length action \<noteq> 36"
  shows "canonicalizeUUIDPathSegments (''/api/'' @ base @ ''/'' @ encodeURIComponent v @ ''/'' @ action) = Inr (''/api/'' @ base @ ''/'' @ u @ ''/'' @ action)"
proof -
  have v: "CHR ''/'' \<notin> set v" "encodeURIComponent v = v"
    using canonical_shape [OF assms(1)] uuid_no_slash uuid_encoded by blast+
  have "split_on CHR ''/'' (''/api/'' @ base @ ''/'' @ v @ ''/'' @ action) = ['''', ''api'', base, v, action]"
    using v(1) assms(2,3) split_join [of "['''', ''api'', base, v, action]" "CHR ''/''"] by simp
  then show ?thesis
    by (simp add: canonicalizeUUIDPathSegments_def v(2) short_segment assms uuid_segment [OF assms(1)])
qed

lemma decision_targets:
  assumes "\<And>c. canonicalizeUUIDPathSegments path = Inr c \<Longrightarrow> p = Some c"
  shows "targets srv p (fst (decision_proxy unknown srv s path body key))"
  using assms
  by (auto simp: decision_proxy_def Let_def connection_url split: sum.splits)

lemma replay_targets:
  "targets srv (Option.bind (canonicalUUID e) (\<lambda>u. below (''/api/developer/webhooks/'' @ u @ ''/deliveries/'') a
       (if stage = Approval then ''/replay-approvals'' else ''/replay'')))
     (fst (proxyWebhookReplayMutation srv s e a stage key body rid))"
  using uuid_encoded canonical_shape
  by (auto simp: proxyWebhookReplayMutation_def Let_def connection_url split: sum.splits option.splits)

lemma transfer_targets: "proxyTransferMutation srv s path body key ref rid handle = (sent, lines, r) \<Longrightarrow> targets srv (Some path) sent"
  using transfer_sends [of srv s path body key ref rid handle sent lines r]
  by (auto simp: targets_def transfer_request_def connection_url)

section \<open>The handlers\<close>

definition sends :: "server \<Rightarrow> request \<Rightarrow> session option \<Rightarrow> string list \<Rightarrow> string option \<Rightarrow> upstream_request list \<Rightarrow> bool" where
  "sends srv request session needed path sent =
     (targets srv path sent \<and> (sent \<noteq> [] \<longrightarrow> authorized srv request session needed))"

context mutation_boundary
begin

lemma guarded_sends:
  assumes "u = srv_URL srv" "e = srv_env srv" "\<And>a x. s = Some x \<Longrightarrow> targets srv path (fst (act a x))"
  shows "sends srv r s [scope] path (fst (case authorize r s of Inl d \<Rightarrow> reply d | Inr a \<Rightarrow> signed_in s (act a)))"
  using assms(3) guarded_silent [of "\<lambda>a. signed_in s (act a)" r s] unfolding assms(1,2)
  by (auto simp: sends_def authorized_def signed_in_def split: sum.splits option.splits)

end

lemmas account_sends = account_boundary.guarded_sends [OF refl refl]
  and funding_sends = funding_boundary.guarded_sends [OF refl refl]
  and correction_sends = correction_boundary.guarded_sends [OF refl refl]
  and reconciliation_sends = reconciliation_boundary.guarded_sends [OF refl refl]
  and replay_sends = replay_boundary.guarded_sends [OF refl refl]

lemma parsed_body_targets:
  "(\<And>body. targets srv path (fst (act body))) \<Longrightarrow> targets srv path (fst (parsed_body request n parse act))"
  by (auto simp: parsed_body_def split: sum.splits)

lemma accounts_POST_sends:
  "sends srv request session [''accounts:write''] (Some ''/api/accounts'') (fst (accounts_POST srv session request))"
  unfolding accounts_POST_def by (intro account_sends parsed_body_targets account_targets)

lemma account_PATCH_sends:
  "sends srv request session [''accounts:write''] (below ''/api/accounts/'' a '''') (fst (account_PATCH srv session request a))"
  unfolding account_PATCH_def
  by (rule account_sends)
    (auto simp: uuid_encoded canonical_shape account_targets split: option.splits intro!: parsed_body_targets)

lemma runs_POST_sends:
  "sends srv request session [''reconciliation:write''] (Some ''/api/reconciliation/runs'') (fst (snd (runs_POST srv consume st session request)))"
proof -
  have "snd (runs_POST srv consume st session request) = (case snd (authorizeReconciliationMutation srv consume st request session) of
      Inl d \<Rightarrow> reply d | Inr key \<Rightarrow> signed_in session (\<lambda>s. parsed_body request reconciliationMutationMaximumBytes parseReconciliationRunRequest (\<lambda>_.
         proxyReconciliationMutation srv s key)))"
    by (auto simp: runs_POST_def split: prod.splits sum.splits)
  then show ?thesis
    by (simp only:) (intro reconciliation_sends parsed_body_targets reconciliation_targets)
qed

lemma replay_stage_POST_sends:
  "sends srv request session [''webhooks:replay'']
     (Option.bind (canonicalUUID e) (\<lambda>u. below (''/api/developer/webhooks/'' @ u @ ''/deliveries/'') a
       (if stage = Approval then ''/replay-approvals'' else ''/replay'')))
     (fst (snd (replay_stage_POST stage parse srv consume st session request e a)))"
proof -
  have "snd (replay_stage_POST stage parse srv consume st session request e a) =
      (case snd (authorizeWebhookReplay srv consume st request session e a stage) of
         Inl d \<Rightarrow> reply d
       | Inr key \<Rightarrow> signed_in session (\<lambda>s. parsed_body request webhookReplayMaximumBytes parse (\<lambda>body.
           proxyWebhookReplayMutation srv s e a stage key body (get_header ''x-request-id'' (req_headers request)))))"
    by (auto simp: replay_stage_POST_def split: prod.splits sum.splits)
  then show ?thesis
    by (simp only:) (intro replay_sends parsed_body_targets replay_targets)
qed

text \<open>The path of a funding event, a correction or a transfer below its collection.\<close>

lemma decision_below:
  assumes "canonicalUUID v \<noteq> None" "CHR ''/'' \<notin> set b" "CHR ''/'' \<notin> set a" "length b \<noteq> 36" "length a \<noteq> 36"
    and "base = ''/api/'' @ b @ ''/''" "rest = ''/'' @ a"
  shows "targets srv (below base v rest) (fst (decision_proxy unknown srv s (base @ encodeURIComponent v @ rest) body key))"
proof -
  obtain u where u: "canonicalUUID v = Some u" using assms(1) by auto
  show ?thesis
    using canonical_path [OF u assms(2-5)] by (intro decision_targets) (simp add: assms(6,7) u)
qed

lemma unless_denied: "(\<not> c \<Longrightarrow> targets srv path (fst x)) \<Longrightarrow> targets srv path (fst (if c then reply r else x))"
  by auto

text \<open>The handlers of a decision: the identifier is checked, then the request is passed on.\<close>

lemmas decision_handlers = proxyFundingMutation_def proxyCorrectionMutation_def isFundingEventID_def isCorrectionID_def

lemma below_targets:
  assumes "CHR ''/'' \<notin> set b" "CHR ''/'' \<notin> set a" "length b \<noteq> 36" "length a \<noteq> 36" "base = ''/api/'' @ b @ ''/''" "rest = ''/'' @ a"
  shows "targets srv (below base v rest) (fst (if canonicalUUID v = None then reply r
      else decision_proxy unknown srv s (base @ encodeURIComponent v @ rest) body key))"
    (is ?plain)
    and "targets srv (below base v rest) (fst (if canonicalUUID v = None then reply r
      else parsed_body request n parse (\<lambda>body. decision_proxy unknown srv s (base @ encodeURIComponent v @ rest) (Some body) key)))"
    (is ?parsed)
proof -
  show ?plain by (rule unless_denied) (rule decision_below [OF _ assms])
  show ?parsed by (rule unless_denied, rule parsed_body_targets) (rule decision_below [OF _ assms])
qed

lemmas funding_event_targets = below_targets [where b = "''funding-events''" and base = "''/api/funding-events/''" and a = "tl rest" and rest = rest for rest]
  and correction_targets = below_targets [where b = "''transfer-corrections''" and base = "''/api/transfer-corrections/''" and a = "tl rest" and rest = rest for rest]
  and transfer_correction_targets = below_targets [where b = "''transfers''" and base = "''/api/transfers/''" and a = "tl rest" and rest = rest for rest]

lemma given_key: "(\<And>k. targets srv path (fst (f k))) \<Longrightarrow> targets srv path (fst (case x of None \<Rightarrow> reply r | Some k \<Rightarrow> f k))"
  by (cases x) auto

lemma fixed_path: "targets srv (Some ''/api/funding-requests'') (fst (decision_proxy unknown srv s ''/api/funding-requests'' body key))"
  by (rule decision_targets) (simp add: canonicalizeUUIDPathSegments_def short_segment)

lemma funding_requests_POST_sends:
  "sends srv request session [''funding:write''] (Some ''/api/funding-requests'') (fst (funding_requests_POST srv session request))"
  unfolding funding_requests_POST_def decision_handlers
  by (intro funding_sends given_key parsed_body_targets fixed_path)

lemma funding_approve_POST_sends:
  "sends srv request session [''funding:approve''] (below ''/api/funding-events/'' f ''/approve'') (fst (funding_approve_POST srv session request f))"
  unfolding funding_approve_POST_def decision_handlers not_not by (intro funding_sends funding_event_targets) simp_all

lemma funding_reject_POST_sends:
  "sends srv request session [''funding:approve''] (below ''/api/funding-events/'' f ''/reject'') (fst (funding_reject_POST srv session request f))"
  unfolding funding_reject_POST_def decision_handlers not_not by (intro funding_sends funding_event_targets) simp_all

lemma funding_post_POST_sends:
  "sends srv request session [''funding:write''] (below ''/api/funding-events/'' f ''/post'') (fst (funding_post_POST srv session request f))"
  unfolding funding_post_POST_def decision_handlers not_not by (intro funding_sends funding_event_targets) simp_all

lemma funding_compensations_POST_sends:
  "sends srv request session [''funding:write''] (below ''/api/funding-events/'' f ''/compensations'') (fst (funding_compensations_POST srv session request f))"
  unfolding funding_compensations_POST_def decision_handlers not_not by (intro funding_sends given_key funding_event_targets) simp_all

lemma transfer_corrections_POST_sends:
  "sends srv request session [''corrections:write''] (below ''/api/transfers/'' t ''/corrections'') (fst (transfer_corrections_POST srv session request t))"
  unfolding transfer_corrections_POST_def decision_handlers not_not
  by (intro correction_sends given_key transfer_correction_targets) simp_all

lemma correction_decision_sends:
  "CHR ''/'' \<notin> set action \<Longrightarrow> length action \<noteq> 36 \<Longrightarrow>
     sends srv request session [scope] (below ''/api/transfer-corrections/'' k (''/'' @ action))
       (fst (correction_decision scope action srv session request k))"
  unfolding correction_decision_def decision_handlers not_not by (intro correction_sends correction_targets) simp_all

lemma correction_post_POST_sends:
  "sends srv request session [''corrections:approve''] (below ''/api/transfer-corrections/'' k ''/post'') (fst (correction_post_POST srv session request k))"
  unfolding correction_post_POST_def decision_handlers not_not by (intro correction_sends correction_targets) simp_all

lemma correction_decisions_send:
  "sends srv request session [''corrections:approve''] (below ''/api/transfer-corrections/'' k ''/approve'') (fst (correction_approve_POST srv session request k))"
  "sends srv request session [''corrections:approve''] (below ''/api/transfer-corrections/'' k ''/reject'') (fst (correction_reject_POST srv session request k))"
  "sends srv request session [''corrections:write''] (below ''/api/transfer-corrections/'' k ''/cancel'') (fst (correction_cancel_POST srv session request k))"
  using correction_decision_sends [of "''approve''"] correction_decision_sends [of "''reject''"] correction_decision_sends [of "''cancel''"]
  by (simp_all add: correction_approve_POST_def correction_reject_POST_def correction_cancel_POST_def)

lemma with_proxy_targets:
  "targets srv (Some path) (fst (proxyTransferMutation srv s path body key ref rid handle))"
  by (metis transfer_targets prod_cases3 fst_conv)

lemma transfers_POST_sends: "sends srv request session [] (Some ''/api/transfers'') (fst (transfers_POST srv session request))"
  using with_proxy_targets
  by (auto simp: sends_def authorized_def transfers_POST_def Let_def split: option.split sum.split)

lemma recovery_POST_sends:
  "sends srv request session [''transfers:write''] (Some ''/api/transfers/recovery'') (fst (recovery_POST srv session request))"
  using with_proxy_targets
  by (auto simp: sends_def authorized_def recovery_POST_def Let_def split: option.split sum.split)

lemma retry_POST_sends:
  "sends srv request session [''transfers:write''] (below ''/api/transfers/recovery/'' r ''/retry'') (fst (retry_POST srv session request r))"
  using transfer_targets
  by (auto simp: sends_def authorized_def retry_POST_def Let_def split: option.split sum.split prod.split bool.split)

lemma preferences_PATCH_sends: "sends srv request session [] (Some ''/api/ui/preferences'') (fst (preferences_PATCH srv session request))"
  by (auto simp: sends_def authorized_def preferences_PATCH_def signed_in_def upstreamPreference_def Let_def connection_url
      split: option.split sum.split)

lemma revoke_targets: "revokeOpaqueSession srv h = (sent, lines, r) \<Longrightarrow> targets srv (Some ''/api/internal/bff/sessions/revoke'') sent"
proof -
  assume a: "revokeOpaqueSession srv h = (sent, lines, r)"
  show ?thesis
  proof (cases "opaqueToken (Some (JStr h))")
    case True
    obtain x y z where call: "sessionStoreRequest srv ''/api/internal/bff/sessions/revoke'' ''POST'' (JObj [(''token'', JStr h)]) = (x, y, z)"
      by (metis prod_cases3)
    then have "sent = x" using a True by (simp add: revokeOpaqueSession_def token_call_def)
    with store_request_contract [OF call] show ?thesis by (cases x) (auto simp: store_contract_def targets_def)
  qed (use a in \<open>simp add: revokeOpaqueSession_def token_call_def\<close>)
qed

lemma sign_out_POST_sends:
  "sends srv request session [] (Some ''/api/internal/bff/sessions/revoke'') (fst (sign_out_POST srv session request))"
  using revoke_targets
  by (auto simp: sends_def authorized_def sign_out_POST_def Let_def split: option.split prod.split)

lemma other_stage: "(Execution = Approval) = False"
  by simp

lemmas handlers_send = accounts_POST_sends account_PATCH_sends runs_POST_sends
  funding_requests_POST_sends funding_approve_POST_sends funding_reject_POST_sends funding_post_POST_sends funding_compensations_POST_sends
  transfer_corrections_POST_sends correction_decisions_send correction_post_POST_sends
  replay_stage_POST_sends [where stage = Approval, unfolded simp_thms if_True]
  replay_stage_POST_sends [where stage = Execution, unfolded other_stage if_False]
  transfers_POST_sends recovery_POST_sends retry_POST_sends preferences_PATCH_sends sign_out_POST_sends

lemma command_sends:
  "sends srv request session (required_scopes c) (command_path c) (fst (snd (run_command srv consume st c session request)))"
  by (cases c)
    (simp_all only: run_command_def required_scopes_def command_path_def Let_def command.case replay_approvals_POST_def replay_POST_def
      split_beta fst_conv snd_conv handlers_send)

lemma csrf_token_equal:
  "hasValidCSRF u e r s \<longleftrightarrow> hasSameOrigin u e r \<and> get_header ''x-csrf-token'' (req_headers r) = Some (csrfToken s)"
  by (auto simp: hasValidCSRF_def token_difference_eq split: option.splits if_splits)

section \<open>Properties\<close>

text \<open>C2: No command leaves the BFF without authority, whichever of the twenty mutating routes it enters
  by: when a handler sends anything, its session exists, holds every scope the command needs, and the
  request came from the public origin with the session's own CSRF token. The first request goes to the one
  path of the private API that belongs to the command, with its identifiers in UUID normal form, so that no
  path segment can lead elsewhere; any further request is an update of the session's consistency
  metadata.\<close>

theorem commands_need_authority:
  assumes "run_command srv consume st c session request = (st', sent, r)" "sent \<noteq> []"
  shows "(\<exists>s. session = Some s \<and> list_all (has_scope s) (required_scopes c) \<and> hasSameOrigin (srv_URL srv) (srv_env srv) request
      \<and> get_header ''x-csrf-token'' (req_headers request) = Some (csrfToken s))
    \<and> (\<exists>p out rest. command_path c = Some p \<and> sent = out # rest \<and> out_url out = session_api (srv_env srv) @ p
      \<and> consistency_updates srv rest)"
  using command_sends [of srv request session c consume st] assms
  by (auto simp: sends_def targets_def authorized_def csrf_token_equal)

theorem commands_need_authority_witness:
  "\<exists>out. fst (snd (run_command sample_server (\<lambda>st k l w. (st, permit)) () (Post_funding ''6F9619FF-8B86-D011-B42D-00CF4FC964FF'')
       (Some sample_session) sample_request)) = [out]
     \<and> out_url out = session_api sample_env @ ''/api/funding-events/6f9619ff-8b86-d011-b42d-00cf4fc964ff/post''"
proof -
  let ?c = "Post_funding ''6F9619FF-8B86-D011-B42D-00CF4FC964FF''"
  obtain st' sent r where run: "run_command sample_server (\<lambda>st k l w. (st, permit)) () ?c (Some sample_session) sample_request = (st', sent, r)"
    by (metis prod_cases3)
  have one: "length (fst (snd (run_command sample_server (\<lambda>st k l w. (st, permit)) () ?c (Some sample_session) sample_request))) = 1"
    by code_simp
  then obtain out where sent: "sent = [out]" using run by (auto simp: length_Suc_conv)
  have "command_path ?c = Some ''/api/funding-events/6f9619ff-8b86-d011-b42d-00cf4fc964ff/post''" by code_simp
  then have "out_url out = session_api (srv_env sample_server) @ ''/api/funding-events/6f9619ff-8b86-d011-b42d-00cf4fc964ff/post''"
    using commands_need_authority [OF run] sent by auto
  then show ?thesis using run sent by (simp add: sample_server_def)
qed

end
