(* ===== verification/Reservations.thy ===== *)
theory Reservations
  imports Operations Commands
begin

text \<open>
  Reservations of value: the shapes of \<^verbatim>\<open>web/src/lib/api/reservations.ts\<close> and the proxy
  \<^verbatim>\<open>web/src/lib/reservation-proxy.ts\<close>, which is the whole handler of \<^verbatim>\<open>app/api/reservations/[[...path]]\<close>.
  \<^verbatim>\<open>Date.parse\<close> is a parameter; the raw query text of the URL (\<^verbatim>\<open>nextUrl.search\<close>) is the argument \<open>search_text\<close>.
\<close>

section \<open>Shapes\<close>

definition reservationID :: "string \<Rightarrow> bool" where
  "reservationID v = (rx_test lowerUUIDShape v \<and> v \<noteq> nilUUID)"

definition minor_pattern :: rx where
  "minor_pattern = RAlt (RChar CHR ''0'') (RSeq (RSet (\<lambda>c. is_digit c \<and> c \<noteq> CHR ''0'')) (RRep (RSet is_digit) 0 18))"

definition reservationMinor :: "string \<Rightarrow> bool" where
  "reservationMinor v = (rx_test minor_pattern v \<and> digits_value v \<le> 9223372036854775807)"

definition reservation_date :: "(string \<Rightarrow> bool) \<Rightarrow> string \<Rightarrow> bool" where
  "reservation_date is_date v = (length v \<le> 40 \<and> is_date v)"

definition currency_pattern :: rx where
  "currency_pattern = RRep (RSet (between 65 90)) 3 3"

definition create_keys :: "string list" where
  "create_keys = [''debit_account_id'', ''credit_account_id'', ''amount_minor'', ''currency'', ''ttl_seconds'']"

definition integer_within :: "int \<Rightarrow> int \<Rightarrow> json option \<Rightarrow> bool" where
  "integer_within lo hi v = (case v of
     Some (JNum (Fin q)) \<Rightarrow> q = of_int \<lfloor>q\<rfloor> \<and> safe_integer \<lfloor>q\<rfloor> \<and> lo \<le> \<lfloor>q\<rfloor> \<and> \<lfloor>q\<rfloor> \<le> hi
   | _ \<Rightarrow> False)"

text \<open>The parties and the amount of a reservation.\<close>

definition reservation_terms :: "json \<Rightarrow> bool" where
  "reservation_terms v =
     (string_field ''debit_account_id'' reservationID v \<and> string_field ''credit_account_id'' reservationID v
      \<and> field ''debit_account_id'' v \<noteq> field ''credit_account_id'' v
      \<and> string_field ''amount_minor'' reservationMinor v \<and> field ''amount_minor'' v \<noteq> Some (JStr ''0'')
      \<and> string_field ''currency'' (rx_test currency_pattern) v)"

definition parseReservationBody :: "json \<Rightarrow> bool \<Rightarrow> json outcome" where
  "parseReservationBody value decision =
     (if \<not> isRecord value then Inl ''Invalid reservation request.''
      else if decision then
        (if length (object_keys value) \<noteq> 1
            \<or> (field ''decision'' value \<noteq> Some (JStr ''capture'') \<and> field ''decision'' value \<noteq> Some (JStr ''release''))
         then Inl ''Choose full capture or full release.''
         else Inr (JObj [(''decision'', JStr (field_string ''decision'' value))]))
      else if length (object_keys value) \<noteq> length create_keys \<or> \<not> only_keys value create_keys \<or> \<not> reservation_terms value
            \<or> \<not> integer_within 1 86400 (field ''ttl_seconds'' value)
         then Inl ''Use two distinct accounts, exact positive minor units and an expiry from 1 to 86400 seconds.''
      else Inr value)"

text \<open>\<^verbatim>\<open>words.includes(String(v.state))\<close>: \<^verbatim>\<open>String\<close> also turns an array with one word into that word.\<close>

definition coerced_in :: "string list \<Rightarrow> json option \<Rightarrow> bool" where
  "coerced_in ws v = (case Option.bind v js_text of Some s \<Rightarrow> one_of_strings ws s | None \<Rightarrow> False)"

definition isReservationReceipt :: "(string \<Rightarrow> bool) \<Rightarrow> json \<Rightarrow> bool" where
  "isReservationReceipt is_date v =
     (if \<not> isRecord v \<or> \<not> string_field ''id'' reservationID v \<or> \<not> coerced_in [''active'', ''captured'', ''released''] (field ''state'' v)
         \<or> \<not> boolean_field ''replayed'' v then False
      else if field ''rejection_code'' v \<noteq> None then
        field ''state'' v = Some (JStr ''active'') \<and> coerced_in [''expired_capture'', ''capture_policy_denied''] (field ''rejection_code'' v)
          \<and> field ''transfer_id'' v = None
      else if \<not> string_field ''source_balance_version'' reservationMinor v then False
      else if field ''state'' v = Some (JStr ''captured'') then string_field ''transfer_id'' reservationID v
      else if field ''transfer_id'' v \<noteq> None then False
      else field ''state'' v = Some (JStr ''released'') \<or> string_field ''expires_at'' (reservation_date is_date) v)"

definition isReservation :: "(string \<Rightarrow> bool) \<Rightarrow> json \<Rightarrow> bool" where
  "isReservation is_date v =
     (if \<not> isRecord v \<or> \<not> string_field ''id'' reservationID v \<or> \<not> reservation_terms v
         \<or> \<not> string_field ''created_by'' (\<lambda>s. length s \<le> 256) v \<or> \<not> string_field ''created_at'' (reservation_date is_date) v
         \<or> \<not> string_field ''expires_at'' (reservation_date is_date) v then False
      else if field ''state'' v = Some (JStr ''active'') then
        field ''version'' v = Some (JStr ''1'') \<and> field ''completed_at'' v = None \<and> field ''transfer_id'' v = None
      else if \<not> coerced_in [''captured'', ''released'', ''expired''] (field ''state'' v) \<or> field ''version'' v \<noteq> Some (JStr ''2'')
         \<or> \<not> string_field ''completed_at'' (reservation_date is_date) v then False
      else if field ''state'' v = Some (JStr ''captured'') then string_field ''transfer_id'' reservationID v
      else field ''transfer_id'' v = None)"

definition cursor_pattern :: rx where
  "cursor_pattern = RRep (RSet (\<lambda>c. is_alnum c \<or> one_of ''_-'' c)) 1 256"

definition isReservationPage :: "(string \<Rightarrow> bool) \<Rightarrow> json \<Rightarrow> bool" where
  "isReservationPage is_date v =
     (isRecord v
      \<and> (case field ''holds'' v of Some (JArr holds) \<Rightarrow> length holds \<le> 50 \<and> list_all (isReservation is_date) holds | _ \<Rightarrow> False)
      \<and> (field ''next_cursor'' v = None \<or> string_field ''next_cursor'' (rx_test cursor_pattern) v))"

section \<open>Routes\<close>

datatype reservation_result = Result_page | Result_hold | Result_receipt | Result_csv

record reservation_route =
  rr_path :: string
  rr_write :: bool
  rr_decision :: bool
  rr_result :: reservation_result

definition reservationRoute :: "string \<Rightarrow> string list \<Rightarrow> reservation_route option" where
  "reservationRoute meth parts =
     (if parts = [] \<and> (meth = ''GET'' \<or> meth = ''POST'') then
        Some \<lparr>rr_path = ''/api/reservations'', rr_write = (meth = ''POST''), rr_decision = False,
          rr_result = (if meth = ''GET'' then Result_page else Result_receipt)\<rparr>
      else if length parts = 1 \<and> parts ! 0 = ''export.csv'' \<and> meth = ''GET'' then
        Some \<lparr>rr_path = ''/api/reservations/export.csv'', rr_write = False, rr_decision = False, rr_result = Result_csv\<rparr>
      else if length parts = 1 \<and> reservationID (parts ! 0) \<and> meth = ''GET'' then
        Some \<lparr>rr_path = ''/api/reservations/'' @ parts ! 0, rr_write = False, rr_decision = False, rr_result = Result_hold\<rparr>
      else if length parts = 2 \<and> reservationID (parts ! 0) \<and> parts ! 1 = ''decisions'' \<and> meth = ''POST'' then
        Some \<lparr>rr_path = ''/api/reservations/'' @ parts ! 0 @ ''/decisions'', rr_write = True, rr_decision = True, rr_result = Result_receipt\<rparr>
      else None)"

section \<open>The proxy\<close>

text \<open>An answer to the browser: a response, or the bytes of an export with their headers.\<close>

datatype reservation_answer = Answer response | Download headers "nat list"

fun answer_status :: "reservation_answer \<Rightarrow> nat" where
  "answer_status (Answer r) = status r"
| "answer_status (Download hs bs) = 200"

type_synonym reservation_exchange = "upstream_request list \<times> reservation_answer"

abbreviation denied :: "string \<Rightarrow> nat \<Rightarrow> reservation_exchange" where
  "denied reason st \<equiv> ([], Answer (jsonError reason st))"

definition reservation_codes :: "string list" where
  "reservation_codes = [''invalid_request'', ''forbidden'', ''unauthorized'', ''not_found'', ''rate_limited'', ''reservation_conflict'',
     ''reservation_limit'', ''reservation_export_limit'', ''reservation_unavailable'', ''temporary_unavailable'']"

definition definite_statuses :: "nat list" where
  "definite_statuses = [400, 401, 403, 404, 409, 413, 415, 422, 429, 503]"

text \<open>\<^verbatim>\<open>JSON.parse\<close> of the decoded bytes; a malformed text or syntax throws.\<close>

definition bytes_json :: "nat list \<Rightarrow> json option" where
  "bytes_json raw = Option.bind (utf8_decode raw) JSON_parse"

definition reservation_query_ok :: "reservation_route \<Rightarrow> params \<Rightarrow> bool" where
  "reservation_query_ok route ps =
     list_all (\<lambda>p. rr_result route = Result_page \<and> fst p = ''cursor'' \<and> length (getAll (fst p) ps) = 1 \<and> rx_test cursor_pattern (snd p)) ps"

definition reservation_body :: "request \<Rightarrow> bool \<Rightarrow> json option" where
  "reservation_body request decision = (case fst (readBoundedBytes (req_stream request) 4096) of
     Inl _ \<Rightarrow> None
   | Inr raw \<Rightarrow> (case bytes_json raw of
       None \<Rightarrow> None
     | Some v \<Rightarrow> (case parseReservationBody v decision of Inl _ \<Rightarrow> None | Inr body \<Rightarrow> Some body)))"

text \<open>The checks of a write: the key and the body that may be sent.\<close>

definition authorize_reservation ::
  "server \<Rightarrow> 'st limiter \<Rightarrow> 'st \<Rightarrow> request \<Rightarrow> session \<Rightarrow> reservation_route \<Rightarrow> 'st \<times> (response + string \<times> json)" where
  "authorize_reservation srv consume st request session route =
     (if \<not> hasValidCSRF (srv_URL srv) (srv_env srv) request session then (st, Inl (jsonError ''csrf_failed'' 403))
      else case get_header ''idempotency-key'' (req_headers request) of
        None \<Rightarrow> (st, Inl (jsonError ''idempotency_key_required'' 400))
      | Some key \<Rightarrow>
          if \<not> isValidReconciliationIdempotencyKey (Some key) then (st, Inl (jsonError ''idempotency_key_required'' 400))
          else if mediaType request \<noteq> Some ''application/json'' then (st, Inl (jsonError ''unsupported_media_type'' 415))
          else (case limited consume st (''reservations:'' @ tenantId session @ '':'' @ subjectId session) 6 60 () of
                  (st', Inl d) \<Rightarrow> (st', Inl d)
                | (st', Inr _) \<Rightarrow> (st', case reservation_body request (rr_decision route) of
                    None \<Rightarrow> Inl (jsonError ''invalid_request'' 400)
                  | Some body \<Rightarrow> Inr (key, body))))"

definition audit_pattern :: rx where
  "audit_pattern = RRep (RSet (\<lambda>c. is_hex_lower c \<or> c = CHR ''-'')) 36 36"

text \<open>\<^verbatim>\<open>{...headers, ...}\<close> of a download, and the code of an error.\<close>

definition csv_headers :: "headers \<Rightarrow> string \<Rightarrow> headers" where
  "csv_headers hs audit = hs @ [(''Content-Type'', ''text/csv; charset=utf-8''),
     (''Content-Disposition'', ''attachment; filename='' @ [CHR 0x22] @ ''reservation-obligations.csv'' @ [CHR 0x22]),
     (''X-Content-Type-Options'', ''nosniff''), (''X-Audit-Reference'', audit)]"

definition reservation_error :: "nat \<Rightarrow> json \<Rightarrow> headers \<Rightarrow> response" where
  "reservation_error st v hs =
     json_response (error_body (case error_code v of
         Some c \<Rightarrow> if List.member reservation_codes c then c else ''reservation_unavailable''
       | None \<Rightarrow> ''reservation_unavailable''))
       (if List.member definite_statuses st then st else 503) hs"

text \<open>What the browser is told of an upstream response; \<open>None\<close> is a throw inside the guarded part.\<close>

definition reservation_reading :: "(string \<Rightarrow> bool) \<Rightarrow> reservation_result \<Rightarrow> upstream \<Rightarrow> reservation_answer option" where
  "reservation_reading is_date result up =
     (let hs = reconciliationResponseHeaders (up_headers up);
          ok = successful (up_status up) in
      case fst (readBoundedBytes (up_stream up) (if ok then if result = Result_csv then 2097152 else 131072 else 16384)) of
        Inl _ \<Rightarrow> None
      | Inr bytes \<Rightarrow>
          if ok \<and> result = Result_csv then
            (case (get_header ''content-type'' (up_headers up), get_header ''x-audit-reference'' (up_headers up)) of
               (Some t, Some audit) \<Rightarrow>
                 if startsWith t ''text/csv'' \<and> rx_test audit_pattern audit then Some (Download (csv_headers hs audit) bytes) else None
             | _ \<Rightarrow> None)
          else (case bytes_json bytes of
                  None \<Rightarrow> None
                | Some v \<Rightarrow>
                    if \<not> ok then Some (Answer (reservation_error (up_status up) v hs))
                    else if (case result of Result_page \<Rightarrow> isReservationPage is_date v | Result_hold \<Rightarrow> isReservation is_date v
                        | _ \<Rightarrow> isReservationReceipt is_date v)
                      then Some (Answer (json_response v 200 hs)) else None))"

definition reservation_failed :: "reservation_route \<Rightarrow> reservation_answer" where
  "reservation_failed route = Answer (if rr_write route then jsonError ''reservation_outcome_unknown'' 504 else jsonError ''reservation_unavailable'' 503)"

text \<open>The request to the private API: with a key and a body for a write.\<close>

definition send_reservation :: "server \<Rightarrow> session \<Rightarrow> request \<Rightarrow> string \<Rightarrow> reservation_route \<Rightarrow> (string \<times> json) option \<Rightarrow> reservation_exchange" where
  "send_reservation srv session request search_text route command = (case privateAPIContext srv session None of
     Inl _ \<Rightarrow> denied ''temporary_unavailable'' 503
   | Inr connection \<Rightarrow>
       (case (case command of None \<Rightarrow> Inr (conn_headers connection) | Some (key, _) \<Rightarrow> reconciliationPrivateHeaders (conn_headers connection) key) of
          Inl _ \<Rightarrow> ([], reservation_failed route)
        | Inr hs \<Rightarrow>
            (let out = \<lparr>out_url = apiURL connection @ rr_path route @ search_text, out_method = http_method request, out_headers = hs,
                  out_body = map_option (JSON_stringify \<circ> snd) command\<rparr> in
             ([out], case srv_fetch srv out of
                Fetched up \<Rightarrow> (case reservation_reading (srv_date srv) (rr_result route) up of Some a \<Rightarrow> a | None \<Rightarrow> reservation_failed route)
              | _ \<Rightarrow> reservation_failed route))))"

definition proxyReservation :: "server \<Rightarrow> 'st limiter \<Rightarrow> 'st \<Rightarrow> request \<Rightarrow> string \<Rightarrow> session option \<Rightarrow> string list \<Rightarrow> 'st \<times> reservation_exchange" where
  "proxyReservation srv consume st request search_text session parts = (case reservationRoute (http_method request) parts of
     None \<Rightarrow> (st, denied ''not_found'' 404)
   | Some route \<Rightarrow>
       (case session of
          None \<Rightarrow> (st, denied ''unauthorized'' 401)
        | Some s \<Rightarrow>
            if \<not> has_scope s (if rr_write route then ''transfers:write'' else ''transfers:read'') then (st, denied ''forbidden'' 403)
            else if rr_result route = Result_csv \<and> \<not> has_scope s ''exports:read'' then (st, denied ''forbidden'' 403)
            else if \<not> reservation_query_ok route (searchParams request) then (st, denied ''invalid_request'' 400)
            else if \<not> rr_write route then (st, send_reservation srv s request search_text route None)
            else (case authorize_reservation srv consume st request s route of
                    (st', Inl d) \<Rightarrow> (st', [], Answer d)
                  | (st', Inr command) \<Rightarrow> (st', send_reservation srv s request search_text route (Some command)))))"


section \<open>What a write may send\<close>

lemma authorized_reservation:
  assumes "authorize_reservation srv consume st request s route = (st', Inr (key, body))"
  shows "hasValidCSRF (srv_URL srv) (srv_env srv) request s \<and> get_header ''idempotency-key'' (req_headers request) = Some key
    \<and> isValidReconciliationIdempotencyKey (Some key)
    \<and> allowed (snd (consume st (''reservations:'' @ tenantId s @ '':'' @ subjectId s) 6 60))
    \<and> (\<exists>v. parseReservationBody v (rr_decision route) = Inr body)"
proof -
  obtain st1 x where lim: "limited consume st (''reservations:'' @ tenantId s @ '':'' @ subjectId s) 6 60 () = (st1, x)" by fastforce
  have a: "hasValidCSRF (srv_URL srv) (srv_env srv) request s" "get_header ''idempotency-key'' (req_headers request) = Some key"
      "isValidReconciliationIdempotencyKey (Some key)" "x = Inr ()" "reservation_body request (rr_decision route) = Some body"
    using assms unfolding authorize_reservation_def lim by (auto split: if_splits option.splits sum.splits)
  have "allowed (snd (consume st (''reservations:'' @ tenantId s @ '':'' @ subjectId s) 6 60))"
    using limited_cases [of consume st _ 6 60 "()" "()"] lim a(4) by (metis snd_conv)
  moreover have "\<exists>v. parseReservationBody v (rr_decision route) = Inr body"
    using a(5) by (auto simp: reservation_body_def split: sum.splits option.splits)
  ultimately show ?thesis using a(1-3) by blast
qed

lemma send_reservation_sent:
  assumes "send_reservation srv s request search_text route command = (sent, a)" "sent \<noteq> []"
  shows "\<exists>out. sent = [out] \<and> out_url out = session_api (srv_env srv) @ rr_path route @ search_text \<and> out_method out = http_method request
    \<and> out_body out = map_option (JSON_stringify \<circ> snd) command
    \<and> (\<forall>key body. command = Some (key, body) \<longrightarrow> get_header ''Idempotency-Key'' (out_headers out) = Some key)
    \<and> a = (case srv_fetch srv out of
         Fetched up \<Rightarrow> (case reservation_reading (srv_date srv) (rr_result route) up of Some x \<Rightarrow> x | None \<Rightarrow> reservation_failed route)
       | _ \<Rightarrow> reservation_failed route)"
proof -
  obtain c where c: "privateAPIContext srv s None = Inr c" using assms by (cases "privateAPIContext srv s None") (auto simp: send_reservation_def)
  obtain hs where hs: "(case command of None \<Rightarrow> Inr (conn_headers c) | Some (key, _) \<Rightarrow> reconciliationPrivateHeaders (conn_headers c) key) = Inr hs"
    using assms by (auto simp: send_reservation_def c split: sum.splits)
  have "get_header ''Idempotency-Key'' hs = Some key" if "command = Some (key, body)" for key body
    using hs mutation_headers_key by (auto simp: that reconciliationPrivateHeaders_def)
  then show ?thesis using assms(1) connection_url [OF c] by (auto simp: send_reservation_def c hs Let_def)
qed

lemma reservation_silent:
  "send_reservation srv s request search_text route command = ([], a) \<Longrightarrow> answer_status a \<in> {503, 504}"
  by (auto simp: send_reservation_def reservation_failed_def Let_def split: sum.splits)

section \<open>What the browser is told\<close>

lemma definite_error: "status (reservation_error st v hs) = (if List.member definite_statuses st then st else 503)"
  by (simp add: reservation_error_def json_response_def)

lemma reading_success:
  assumes "reservation_reading is_date result up = Some a" "answer_status a = 200"
  shows "successful (up_status up)"
proof (rule ccontr)
  assume "\<not> successful (up_status up)"
  with assms show False
    by (auto simp: reservation_reading_def Let_def definite_error definite_statuses_def split: sum.splits option.splits if_splits)
qed

lemma reading_rejection:
  assumes "reservation_reading is_date result up = Some a" "answer_status a \<noteq> 200"
  shows "\<not> successful (up_status up) \<and> answer_status a = (if List.member definite_statuses (up_status up) then up_status up else 503)"
  using assms
  by (auto simp: reservation_reading_def Let_def definite_error json_response_def split: sum.splits option.splits if_splits reservation_result.splits)

lemma reading_receipt:
  assumes "reservation_reading is_date Result_receipt up = Some a" "successful (up_status up)"
  shows "\<exists>v bytes. fst (readBoundedBytes (up_stream up) 131072) = Inr bytes \<and> bytes_json bytes = Some v \<and> isReservationReceipt is_date v
    \<and> a = Answer (json_response v 200 (reconciliationResponseHeaders (up_headers up)))"
  using assms by (auto simp: reservation_reading_def Let_def split: sum.splits option.splits if_splits)


section \<open>Properties\<close>

text \<open>What the browser may conclude from the answer to a request that was sent: a success has a success of
  the private API behind it, and for a command a valid receipt that is passed on unchanged; a definite
  rejection is the private API's own; a lost or unusable outcome of a command is reported as unknown.\<close>

definition reservation_honest :: "server \<Rightarrow> reservation_route \<Rightarrow> upstream_request \<Rightarrow> reservation_answer \<Rightarrow> bool" where
  "reservation_honest srv route out a =
     ((answer_status a = 200 \<longrightarrow> (\<exists>up. srv_fetch srv out = Fetched up \<and> successful (up_status up)))
      \<and> (400 \<le> answer_status a \<and> answer_status a < 500 \<longrightarrow> (\<exists>up. srv_fetch srv out = Fetched up \<and> up_status up = answer_status a))
      \<and> (rr_result route = Result_receipt \<longrightarrow> (\<forall>up. srv_fetch srv out = Fetched up \<and> successful (up_status up) \<longrightarrow>
           (\<exists>v. isReservationReceipt (srv_date srv) v \<and> a = Answer (json_response v 200 (reconciliationResponseHeaders (up_headers up))))
           \<or> a = reservation_failed route))
      \<and> (srv_fetch srv out \<in> {Fetch_timeout, Fetch_error} \<longrightarrow> a = reservation_failed route))"

lemma answers_honest:
  assumes "a = (case srv_fetch srv out of
       Fetched up \<Rightarrow> (case reservation_reading (srv_date srv) (rr_result route) up of Some x \<Rightarrow> x | None \<Rightarrow> reservation_failed route)
     | _ \<Rightarrow> reservation_failed route)"
  shows "reservation_honest srv route out a"
proof (cases "srv_fetch srv out")
  case (Fetched up)
  have unknown: "answer_status (reservation_failed route) \<in> {503, 504}" by (simp add: reservation_failed_def)
  show ?thesis
  proof (cases "reservation_reading (srv_date srv) (rr_result route) up")
    case None
    then have "a = reservation_failed route" using assms Fetched by simp
    then show ?thesis using Fetched unknown by (auto simp: reservation_honest_def)
  next
    case (Some x)
    then have a: "a = x" using assms Fetched by simp
    show ?thesis
      using Fetched reading_success [OF Some] reading_rejection [OF Some] reading_receipt [of "srv_date srv" up x] Some
      by (auto simp: reservation_honest_def a split: if_splits)
  qed
qed (use assms in \<open>auto simp: reservation_honest_def reservation_failed_def\<close>)



text \<open>A decision to release a hold, sent as bytes.\<close>

definition sample_hold :: string where
  "sample_hold = ''6f9619ff-8b86-d011-b42d-00cf4fc964ff''"

definition sample_decision :: request where
  "sample_decision = sample_request\<lparr>req_stream := Some [Chunk (bytes_of (JSON_stringify (JObj [(''decision'', JStr ''release'')])))]\<rparr>"

definition sample_operator :: session where
  "sample_operator = sample_session\<lparr>scopes := Some [''transfers:write'']\<rparr>"

lemma sample_decision_body: "reservation_body sample_decision True = Some (JObj [(''decision'', JStr ''release'')])"
proof -
  have "plain_json (JObj [(''decision'', JStr ''release'')])" by code_simp
  moreover have "length (bytes_of (JSON_stringify (JObj [(''decision'', JStr ''release'')]))) = 22" by code_simp
  ultimately show ?thesis
    by (simp add: reservation_body_def sample_decision_def readBoundedBytes_def bytes_json_def JSON_roundtrip parseReservationBody_def
        field_string_def del: JSON_stringify.simps)
qed

lemma sample_decision_facts:
  "reservationRoute (http_method sample_decision) [sample_hold, ''decisions''] = Some
     \<lparr>rr_path = ''/api/reservations/'' @ sample_hold @ ''/decisions'', rr_write = True, rr_decision = True, rr_result = Result_receipt\<rparr>"
  "get_header ''idempotency-key'' (req_headers sample_decision) = Some sample_key"
  "has_scope sample_operator ''transfers:write''" "searchParams sample_decision = []" "mediaType sample_decision = Some ''application/json''"
  "isValidReconciliationIdempotencyKey (Some sample_key)"
  "hasValidCSRF (srv_URL sample_server) (srv_env sample_server) sample_decision sample_operator"
  "\<not> isl (privateAPIContext sample_server sample_operator None)"
  "\<not> isl (reconciliationPrivateHeaders (conn_headers (projr (privateAPIContext sample_server sample_operator None))) sample_key)"
proof -
  have same: "http_method sample_decision = http_method sample_request" "req_headers sample_decision = req_headers sample_request"
    by (simp_all add: sample_decision_def)
  show "searchParams sample_decision = []" by (simp add: sample_decision_def sample_request_def)
  show "reservationRoute (http_method sample_decision) [sample_hold, ''decisions''] = Some
     \<lparr>rr_path = ''/api/reservations/'' @ sample_hold @ ''/decisions'', rr_write = True, rr_decision = True, rr_result = Result_receipt\<rparr>"
    unfolding same by code_simp
  show "get_header ''idempotency-key'' (req_headers sample_decision) = Some sample_key" unfolding same by code_simp
  have "mediaType sample_request = Some ''application/json''" by code_simp
  then show "mediaType sample_decision = Some ''application/json''" by (simp add: mediaType_def same)
  have "hasValidCSRF (srv_URL sample_server) (srv_env sample_server) sample_request sample_operator" by code_simp
  then show "hasValidCSRF (srv_URL sample_server) (srv_env sample_server) sample_decision sample_operator"
    unfolding csrf_token_equal hasSameOrigin_def hasValidHost_def same .
qed (code_simp+)

lemma sample_decision_sent:
  "fst (snd (proxyReservation sample_server (\<lambda>st k l w. (st, permit)) () sample_decision '''' (Some sample_operator) [sample_hold, ''decisions''])) \<noteq> []"
proof -
  obtain c hs where "privateAPIContext sample_server sample_operator None = Inr c" "reconciliationPrivateHeaders (conn_headers c) sample_key = Inr hs"
    using sample_decision_facts(8,9) by (metis projr_def sum.case_eq_if sum.collapse(2))
  moreover have "rateLimitResponse permit = None" by code_simp
  ultimately show ?thesis
    by (simp add: proxyReservation_def sample_decision_facts reservation_query_ok_def authorize_reservation_def limited_def sample_decision_body
        send_reservation_def Let_def)
qed


text \<open>The state of a receipt is compared as text, so that an array with one word passes for that word; the
  tests that belong to the state are then skipped, and a captured hold is shown without its transfer.\<close>

lemma captured_array_accepted:
  "isReservationReceipt (\<lambda>s. True) (JObj [(''id'', JStr sample_hold), (''state'', JArr [JStr ''captured'']), (''replayed'', JBool False),
     (''source_balance_version'', JStr ''1''), (''expires_at'', JStr ''2026-01-01'')])"
proof -
  have "reservationID sample_hold" "rx_test minor_pattern ''1''" "digits_value ''1'' = 1" by code_simp+
  then show ?thesis
    by (simp add: isReservationReceipt_def string_field_def boolean_field_def coerced_in_def one_of_strings_def reservationMinor_def
        reservation_date_def)
qed

end
