(* ===== verification/Statements.thy ===== *)
theory Statements
  imports Reservations
begin

text \<open>
  Statement reconciliation: the shapes of \<^verbatim>\<open>web/src/lib/api/statement-reconciliation.ts\<close> and the proxy
  \<^verbatim>\<open>web/src/lib/statement-reconciliation-proxy.ts\<close>, the whole handler of
  \<^verbatim>\<open>app/api/statement-reconciliation/[[...path]]\<close>. \<^verbatim>\<open>Date.parse\<close> is a parameter.
\<close>

section \<open>Values\<close>

definition maxStatementSourceBytes :: nat where "maxStatementSourceBytes = 1048576"
definition maxStatementRequestBytes :: nat where "maxStatementRequestBytes = 1500000"

definition statement_id :: "string \<Rightarrow> bool" where
  "statement_id v = (rx_test lowerUUIDShape v \<and> v \<noteq> nilUUID)"

definition token_pattern :: rx where
  "token_pattern = RSeq (RSet is_alnum) (RRep (RSet (\<lambda>c. is_alnum c \<or> one_of ''._:/-'' c)) 0 127)"

definition positive_pattern :: rx where
  "positive_pattern = RSeq (RSet (between 49 57)) (RRep (RSet is_digit) 0 18)"

definition signed_pattern :: rx where
  "signed_pattern = RAlt (RChar CHR ''0'') (RSeq (ROpt (RChar CHR ''-'')) positive_pattern)"

definition version_pattern :: rx where
  "version_pattern = RAlt (RChar CHR ''0'') positive_pattern"

text \<open>\<^verbatim>\<open>BigInt(value)\<close> of a text that passed its pattern.\<close>

definition exact_value :: "string \<Rightarrow> int" where
  "exact_value v = (if v \<noteq> [] \<and> hd v = CHR ''-'' then - int (digits_value (tl v)) else int (digits_value v))"

definition exact_signed :: "string \<Rightarrow> bool" where
  "exact_signed v = (rx_test signed_pattern v \<and> - 9223372036854775808 \<le> exact_value v \<and> exact_value v \<le> 9223372036854775807)"

definition exact_version :: "string \<Rightarrow> bool" where
  "exact_version v = (rx_test version_pattern v \<and> 0 \<le> exact_value v \<and> exact_value v \<le> 9223372036854775807)"

definition bounded_bytes :: "nat \<Rightarrow> string \<Rightarrow> bool" where
  "bounded_bytes maximum v = (byte_length v \<le> maximum)"

definition statement_date :: "(string \<Rightarrow> bool) \<Rightarrow> string \<Rightarrow> bool" where
  "statement_date is_date v = (length v < 64 \<and> is_date v)"

abbreviation statement_count :: "int \<Rightarrow> json option \<Rightarrow> bool" where
  "statement_count maximum v \<equiv> integer_within 0 maximum v"

definition sha_pattern :: rx where
  "sha_pattern = RRep (RSet is_hex_lower) 64 64"

abbreviation token_field :: "string \<Rightarrow> json \<Rightarrow> bool" where
  "token_field k v \<equiv> string_field k (rx_test token_pattern) v"

section \<open>Requests\<close>

text \<open>The kind of a command; \<open>No_kind\<close> is any value that is none of the five words: \<^verbatim>\<open>undefined\<close> for a read, and
  what a lookup in a plain object finds under a name of \<^verbatim>\<open>Object.prototype\<close>.\<close>

datatype statement_kind = Mapping | Preview | Import | Run | Review | No_kind

definition kind_fields :: "statement_kind \<Rightarrow> string list" where
  "kind_fields kind = (case kind of
     Mapping \<Rightarrow> [''account_id'', ''source_account_ref''] | Preview \<Rightarrow> [''source_base64''] | Import \<Rightarrow> [''mapping_id'', ''source_base64'']
   | Run \<Rightarrow> [''import_id'']
   | Review \<Rightarrow> [''kind'', ''item_id'', ''expected_version'', ''status'', ''assignee'', ''reason'', ''comment'', ''evidence'', ''posting_id'']
   | No_kind \<Rightarrow> [])"

definition base64_pattern :: rx where
  "base64_pattern = RSeq (RPlus (RSet (\<lambda>c. is_alnum c \<or> one_of ''+/'' c))) (RRep (RChar CHR ''='') 0 2)"

definition source_ok :: "string \<Rightarrow> bool" where
  "source_ok source =
     (4 \<le> length source \<and> length source \<le> 1398104 \<and> length source mod 4 = 0 \<and> rx_test base64_pattern source
      \<and> int (length source div 4 * 3) - (if endsWith source ''=='' then 2 else if endsWith source ''='' then 1 else 0) \<le> int maxStatementSourceBytes)"

definition reason_pattern :: rx where
  "reason_pattern = RSeq (RSet (between 97 122)) (RRep (RSet (\<lambda>c. between 97 122 c \<or> c = CHR ''_'')) 0 63)"

definition evidence_pattern :: rx where
  "evidence_pattern = RSeq (RChar CHR ''/'') (RSeq (RAlt (RStr ''transfers'') (RAlt (RStr ''funding'') (RStr ''reconciliation'')))
     (RSeq (RChar CHR ''/'') (RPlus (RSet (\<lambda>c. is_alnum c \<or> one_of ''/_-'' c)))))"

definition no_control :: "string \<Rightarrow> bool" where
  "no_control v = list_all (\<lambda>c. 32 \<le> code c \<and> code c \<noteq> 127) v"

definition review_ok :: "json \<Rightarrow> bool" where
  "review_ok v =
     (coerced_in [''statement'', ''ledger''] (field ''kind'' v) \<and> token_field ''item_id'' v \<and> string_field ''expected_version'' exact_version v
      \<and> coerced_in [''open'', ''reviewed_exception'', ''matched''] (field ''status'' v)
      \<and> string_field ''assignee'' (\<lambda>s. bounded_bytes 256 s \<and> no_control s) v
      \<and> string_field ''reason'' (\<lambda>s. bounded_bytes 64 s \<and> rx_test reason_pattern s) v
      \<and> string_field ''comment'' (bounded_bytes 512) v
      \<and> string_field ''evidence'' (\<lambda>s. bounded_bytes 256 s \<and> (s = '''' \<or> rx_test evidence_pattern s)) v
      \<and> (field ''posting_id'' v = None \<or> string_field ''posting_id'' statement_id v)
      \<and> (field ''status'' v = Some (JStr ''matched'') \<longrightarrow> field ''kind'' v = Some (JStr ''statement'') \<and> string_field ''posting_id'' statement_id v)
      \<and> (field ''status'' v \<noteq> Some (JStr ''matched'') \<longrightarrow> field ''posting_id'' v = None))"

text \<open>For \<open>No_kind\<close> the table of fields has no entry: asking it about a property throws, but the empty
  object has none.\<close>

definition parseStatementBody :: "json \<Rightarrow> statement_kind \<Rightarrow> json outcome" where
  "parseStatementBody v kind =
     (if \<not> isRecord v then Inl ''invalid statement body''
      else if \<not> only_keys v (kind_fields kind) then Inl ''unknown statement field''
      else if kind = Mapping \<and> \<not> (string_field ''account_id'' statement_id v \<and> token_field ''source_account_ref'' v) then Inl ''invalid statement mapping''
      else if kind = Run \<and> \<not> string_field ''import_id'' statement_id v then Inl ''invalid statement import''
      else if kind = Import \<and> \<not> string_field ''mapping_id'' statement_id v then Inl ''invalid mapping identity''
      else if (kind = Preview \<or> kind = Import) \<and> \<not> string_field ''source_base64'' source_ok v then Inl ''invalid bounded source''
      else if kind = Review \<and> \<not> review_ok v then Inl ''invalid statement review''
      else Inr v)"

section \<open>Answers\<close>

definition isStatementReceipt :: "json \<Rightarrow> bool" where
  "isStatementReceipt v = (isRecord v \<and> string_field ''id'' statement_id v \<and> boolean_field ''replayed'' v)"

definition positive_count :: "int \<Rightarrow> json option \<Rightarrow> bool" where
  "positive_count maximum v = integer_within 1 maximum v"

definition isStatementPreview :: "(string \<Rightarrow> bool) \<Rightarrow> json \<Rightarrow> bool" where
  "isStatementPreview is_date v =
     (isRecord v \<and> string_field ''sha256'' (rx_test sha_pattern) v \<and> token_field ''source_account_ref'' v
      \<and> string_field ''period_start'' (statement_date is_date) v \<and> string_field ''period_end'' (statement_date is_date) v
      \<and> string_field ''opening_minor'' exact_signed v \<and> string_field ''closing_minor'' exact_signed v
      \<and> positive_count 1000 (field ''row_count'' v))"

definition isMapping :: "(string \<Rightarrow> bool) \<Rightarrow> json \<Rightarrow> bool" where
  "isMapping is_date v =
     (isRecord v \<and> string_field ''id'' statement_id v \<and> string_field ''account_id'' statement_id v \<and> token_field ''source_account_ref'' v
      \<and> field ''currency'' v = Some (JStr ''INR'') \<and> field ''version'' v = Some (JNum (Fin 1))
      \<and> string_field ''created_by'' (bounded_bytes 256) v \<and> string_field ''created_at'' (statement_date is_date) v)"

definition isImport :: "(string \<Rightarrow> bool) \<Rightarrow> json \<Rightarrow> bool" where
  "isImport is_date v =
     (isRecord v \<and> string_field ''id'' statement_id v \<and> string_field ''mapping_id'' statement_id v \<and> string_field ''sha256'' (rx_test sha_pattern) v
      \<and> positive_count 1000 (field ''row_count'' v)
      \<and> string_field ''period_start'' (statement_date is_date) v \<and> string_field ''period_end'' (statement_date is_date) v
      \<and> string_field ''opening_minor'' exact_signed v \<and> string_field ''closing_minor'' exact_signed v
      \<and> string_field ''created_at'' (statement_date is_date) v
      \<and> (field ''run_id'' v = None \<or> string_field ''run_id'' statement_id v)
      \<and> (field ''run_state'' v = None \<or> coerced_in [''prepared'', ''completed''] (field ''run_state'' v)))"

definition array_of :: "nat \<Rightarrow> (json \<Rightarrow> bool) \<Rightarrow> json option \<Rightarrow> bool" where
  "array_of maximum P v = (case v of Some (JArr vs) \<Rightarrow> length vs \<le> maximum \<and> list_all P vs | _ \<Rightarrow> False)"

definition isStatementWorkspace :: "(string \<Rightarrow> bool) \<Rightarrow> json \<Rightarrow> bool" where
  "isStatementWorkspace is_date v =
     (isRecord v \<and> (case field ''mapping'' v of Some m \<Rightarrow> m = JNull \<or> isMapping is_date m | None \<Rightarrow> False)
      \<and> array_of 100 (isImport is_date) (field ''imports'' v)
      \<and> array_of 100 (\<lambda>a. isRecord a \<and> string_field ''id'' statement_id a \<and> string_field ''display_name'' (bounded_bytes 512) a
           \<and> coerced_in [''customer'', ''funding_clearing''] (field ''kind'' a)) (field ''accounts'' v)
      \<and> boolean_field ''more_accounts'' v)"

definition isRun :: "(string \<Rightarrow> bool) \<Rightarrow> json \<Rightarrow> bool" where
  "isRun is_date v =
     (isRecord v \<and> list_all (\<lambda>k. string_field k statement_id v) [''id'', ''import_id'', ''mapping_id'', ''account_id'']
      \<and> string_field ''source_account_ref'' (bounded_bytes 128) v \<and> coerced_in [''prepared'', ''completed''] (field ''state'' v)
      \<and> field ''rule_version'' v = Some (JNum (Fin 1)) \<and> field ''mapping_version'' v = Some (JNum (Fin 1))
      \<and> list_all (\<lambda>k. string_field k (statement_date is_date) v) [''cutoff'', ''period_start'', ''period_end'']
      \<and> string_field ''source_sha256'' (rx_test sha_pattern) v
      \<and> list_all (\<lambda>k. statement_count 3000 (field k v))
           [''statement_row_count'', ''snapshot_item_count'', ''matched_row_count'', ''unmatched_statement_count'', ''unmatched_ledger_count''])"

definition isReview :: "(string \<Rightarrow> bool) \<Rightarrow> json \<Rightarrow> bool" where
  "isReview is_date v =
     (isRecord v \<and> coerced_in [''statement'', ''ledger''] (field ''kind'' v) \<and> token_field ''item_id'' v \<and> string_field ''version'' exact_version v
      \<and> coerced_in [''matched'', ''ambiguous'', ''unmatched_external'', ''unmatched_internal'', ''amount_or_direction_difference'', ''already_consumed'']
           (field ''classification'' v)
      \<and> coerced_in [''open'', ''reviewed_exception'', ''matched''] (field ''status'' v) \<and> string_field ''external_reference'' (bounded_bytes 128) v
      \<and> coerced_in [''debit'', ''credit''] (field ''direction'' v)
      \<and> string_field ''amount_minor'' (\<lambda>s. rx_test positive_pattern s \<and> exact_signed s) v \<and> field ''currency'' v = Some (JStr ''INR'')
      \<and> string_field ''assignee'' (bounded_bytes 256) v \<and> string_field ''reason'' (bounded_bytes 64) v
      \<and> string_field ''comment'' (bounded_bytes 512) v \<and> string_field ''evidence'' (bounded_bytes 256) v
      \<and> string_field ''linked_posting_id'' (\<lambda>s. s = '''' \<or> statement_id s) v
      \<and> string_field ''updated_by'' (bounded_bytes 256) v \<and> string_field ''updated_at'' (statement_date is_date) v)"

definition isStatementRunPage :: "(string \<Rightarrow> bool) \<Rightarrow> json \<Rightarrow> bool" where
  "isStatementRunPage is_date v =
     (isRecord v \<and> (case field ''run'' v of Some r \<Rightarrow> isRun is_date r | None \<Rightarrow> False)
      \<and> array_of 100 (isReview is_date) (field ''items'' v)
      \<and> (field ''next_cursor'' v = None \<or> string_field ''next_cursor'' (bounded_bytes 512) v))"

section \<open>Routes\<close>

datatype statement_result = Stmt_workspace | Stmt_preview | Stmt_receipt | Stmt_page | Stmt_csv

record statement_route =
  sr_path :: string
  sr_write :: bool
  sr_export :: bool
  sr_body :: statement_kind
  sr_result :: statement_result
  sr_cursor :: bool
  sr_source :: bool
  sr_resourceID :: string

definition object_prototype_names :: "string list" where
  "object_prototype_names = [''constructor'', ''__defineGetter__'', ''__defineSetter__'', ''hasOwnProperty'', ''__lookupGetter__'', ''__lookupSetter__'',
     ''isPrototypeOf'', ''propertyIsEnumerable'', ''toString'', ''valueOf'', ''__proto__'', ''toLocaleString'']"

definition command_kind :: "string \<Rightarrow> statement_kind option" where
  "command_kind name =
     (if name = ''mappings'' then Some Mapping else if name = ''preview'' then Some Preview
      else if name = ''imports'' then Some Import else if name = ''runs'' then Some Run
      else if List.member object_prototype_names name then Some No_kind else None)"

definition statement_path :: "string list \<Rightarrow> string" where
  "statement_path parts = ''/api/statement-reconciliation'' @ (if parts = [] then '''' else ''/'' @ join_with ''/'' (map encodeURIComponent parts))"

definition plain_route :: "string list \<Rightarrow> statement_result \<Rightarrow> statement_route" where
  "plain_route parts result = \<lparr>sr_path = statement_path parts, sr_write = False, sr_export = False, sr_body = No_kind, sr_result = result,
     sr_cursor = False, sr_source = False, sr_resourceID = ''undefined''\<rparr>"

definition statementRoute :: "string \<Rightarrow> string list \<Rightarrow> statement_route option" where
  "statementRoute meth parts =
     (if meth = ''GET'' \<and> parts = [] then Some (plain_route parts Stmt_workspace)
      else case (if meth = ''POST'' \<and> length parts = 1 then command_kind (hd parts) else None) of
        Some kind \<Rightarrow> Some ((plain_route parts (if kind = Preview then Stmt_preview else Stmt_receipt))\<lparr>sr_write := True, sr_body := kind\<rparr>)
      | None \<Rightarrow>
          if 2 \<le> length parts \<and> statement_id (parts ! 1) then
            (if meth = ''GET'' \<and> parts ! 0 = ''runs'' \<and> length parts = 2 then
               Some ((plain_route parts Stmt_page)\<lparr>sr_cursor := True, sr_resourceID := parts ! 1\<rparr>)
             else if meth = ''POST'' \<and> parts ! 0 = ''runs'' \<and> length parts = 3 \<and> parts ! 2 = ''reviews'' then
               Some ((plain_route parts Stmt_receipt)\<lparr>sr_write := True, sr_body := Review, sr_resourceID := parts ! 1\<rparr>)
             else if meth = ''GET'' \<and> length parts = 3
                 \<and> (parts ! 0 = ''runs'' \<and> parts ! 2 = ''comparison.csv'' \<or> parts ! 0 = ''imports'' \<and> parts ! 2 = ''source.csv'') then
               Some ((plain_route parts Stmt_csv)\<lparr>sr_export := True, sr_source := (parts ! 0 = ''imports''), sr_resourceID := parts ! 1\<rparr>)
             else None)
          else None)"

section \<open>The proxy\<close>

definition knownErrors :: "string list" where
  "knownErrors = [''statement_validation_failed'', ''statement_conflict'', ''statement_limit'', ''statement_unavailable'', ''invalid_request'',
     ''unauthorized'', ''forbidden'', ''not_found'', ''rate_limited'', ''temporary_unavailable'', ''unsupported_media_type'']"

definition statement_cursor :: rx where
  "statement_cursor = RRep (RSet (\<lambda>c. is_alnum c \<or> one_of ''_-'' c)) 1 512"

definition querySuffix :: "params \<Rightarrow> bool \<Rightarrow> string outcome" where
  "querySuffix ps cursor =
     (if list_ex (\<lambda>p. \<not> cursor \<or> fst p \<noteq> ''cursor'' \<or> length (getAll (fst p) ps) \<noteq> 1 \<or> \<not> rx_test statement_cursor (snd p)) ps
      then Inl ''invalid statement query'' else Inr (if ps = [] then '''' else ''?'' @ params_string ps))"

definition row_message :: rx where
  "row_message = RSeq (RStr ''statement row '') (RSeq (RRep (RSet is_digit) 1 4) (RSeq (RStr '': '') (RPlus (RSet (\<lambda>c. between 97 122 c \<or> c = CHR ''_'')))))"

definition statement_error_message :: "json \<Rightarrow> (string \<times> json) list" where
  "statement_error_message v = (case field ''error'' v of
     Some e \<Rightarrow> (case field ''message'' e of Some (JStr m) \<Rightarrow> if rx_test row_message m then [(''message'', JStr m)] else [] | _ \<Rightarrow> [])
   | None \<Rightarrow> [])"

definition errorResponse :: "nat \<Rightarrow> json \<Rightarrow> headers \<Rightarrow> response" where
  "errorResponse st v hs =
     (let c = (case error_code v of Some c \<Rightarrow> if List.member knownErrors c then c else ''statement_unavailable'' | None \<Rightarrow> ''statement_unavailable'') in
      json_response (JObj [(''error'', JObj ((''code'', JStr c) # statement_error_message v))])
        (if List.member definite_statuses st then st else 503) hs)"

text \<open>The limiter of the module puts its own prefix before every key.\<close>

definition prefixed :: "string \<Rightarrow> 'st limiter \<Rightarrow> 'st limiter" where
  "prefixed p consume = (\<lambda>st key. consume st (p @ key))"

definition length_header_ok :: "string option \<Rightarrow> bool" where
  "length_header_ok h = (case h of None \<Rightarrow> True
     | Some l \<Rightarrow> rx_test (RSeq (RSet (between 49 57)) (RStar (RSet is_digit))) l \<and> digits_value l \<le> maxStatementRequestBytes)"

definition statement_body :: "request \<Rightarrow> statement_kind \<Rightarrow> json option" where
  "statement_body request kind =
     (if \<not> length_header_ok (get_header ''content-length'' (req_headers request)) then None
      else case fst (readBoundedBytes (req_stream request) maxStatementRequestBytes) of
        Inl _ \<Rightarrow> None
      | Inr raw \<Rightarrow> (case bytes_json raw of
          None \<Rightarrow> None
        | Some v \<Rightarrow> (case parseStatementBody v kind of Inl _ \<Rightarrow> None | Inr body \<Rightarrow> Some body)))"

definition authorize_statement ::
  "server \<Rightarrow> 'st limiter \<Rightarrow> 'st \<Rightarrow> request \<Rightarrow> session \<Rightarrow> statement_route \<Rightarrow> 'st \<times> (response + string \<times> json)" where
  "authorize_statement srv consume st request session route =
     (case authorizeReconciliationMutation srv (prefixed ''statement:'' consume) st request (Some session) of
        (st', Inl d) \<Rightarrow> (st', Inl d)
      | (st', Inr key) \<Rightarrow> (st', case statement_body request (sr_body route) of
          None \<Rightarrow> Inl (jsonError ''statement_validation_failed'' 400)
        | Some body \<Rightarrow> Inr (key, body)))"

definition statement_csv_headers :: "headers \<Rightarrow> string \<Rightarrow> string \<Rightarrow> string option \<Rightarrow> headers" where
  "statement_csv_headers hs resource audit digest = hs @ [(''Content-Type'', ''text/csv; charset=utf-8''),
     (''Content-Disposition'', ''attachment; filename='' @ [CHR 0x22] @ ''statement-'' @ resource @ ''.csv'' @ [CHR 0x22]),
     (''X-Content-Type-Options'', ''nosniff''), (''X-Audit-Reference'', audit)]
     @ (case digest of Some d \<Rightarrow> [(''X-Statement-SHA256'', d)] | None \<Rightarrow> [])"

definition statement_failed :: "statement_route \<Rightarrow> reservation_answer" where
  "statement_failed route = Answer (if sr_write route then jsonError ''statement_outcome_unknown'' 504 else jsonError ''statement_unavailable'' 503)"

definition statement_valid :: "(string \<Rightarrow> bool) \<Rightarrow> statement_result \<Rightarrow> json \<Rightarrow> bool" where
  "statement_valid is_date result v = (case result of
     Stmt_workspace \<Rightarrow> isStatementWorkspace is_date v | Stmt_preview \<Rightarrow> isStatementPreview is_date v
   | Stmt_page \<Rightarrow> isStatementRunPage is_date v | _ \<Rightarrow> isStatementReceipt v)"

definition statement_reading :: "(string \<Rightarrow> bool) \<Rightarrow> statement_route \<Rightarrow> upstream \<Rightarrow> reservation_answer" where
  "statement_reading is_date route up =
     (let hs = reconciliationResponseHeaders (up_headers up);
          ok = successful (up_status up) in
      case fst (readBoundedBytes (up_stream up)
          (if ok then if sr_source route then maxStatementSourceBytes else 4 * maxStatementSourceBytes else 16384)) of
        Inl _ \<Rightarrow> statement_failed route
      | Inr bytes \<Rightarrow>
          if \<not> ok then (case bytes_json bytes of
              Some v \<Rightarrow> Answer (errorResponse (up_status up) v hs)
            | None \<Rightarrow> Answer (jsonError ''statement_unavailable'' 503))
          else if sr_result route = Stmt_csv then
            (let digest = nonempty (get_header ''x-statement-sha256'' (up_headers up)) in
             case get_header ''x-audit-reference'' (up_headers up) of
               None \<Rightarrow> Answer (jsonError ''statement_unavailable'' 503)
             | Some audit \<Rightarrow>
                 if \<not> rx_test audit_pattern audit
                    \<or> (sr_source route \<and> (case digest of None \<Rightarrow> True | Some d \<Rightarrow> \<not> rx_test sha_pattern d))
                 then Answer (jsonError ''statement_unavailable'' 503)
                 else Download (statement_csv_headers hs (sr_resourceID route) audit digest) bytes)
          else (case bytes_json bytes of
              Some v \<Rightarrow> if statement_valid is_date (sr_result route) v then Answer (json_response v 200 hs) else statement_failed route
            | None \<Rightarrow> statement_failed route))"

definition send_statement :: "server \<Rightarrow> session \<Rightarrow> request \<Rightarrow> string \<Rightarrow> statement_route \<Rightarrow> (string \<times> json) option \<Rightarrow> reservation_exchange" where
  "send_statement srv session request query_text route command = (case privateAPIContext srv session None of
     Inl _ \<Rightarrow> denied ''temporary_unavailable'' 503
   | Inr connection \<Rightarrow>
       (case (case command of None \<Rightarrow> Inr (conn_headers connection) | Some (key, _) \<Rightarrow> reconciliationPrivateHeaders (conn_headers connection) key) of
          Inl _ \<Rightarrow> ([], statement_failed route)
        | Inr hs \<Rightarrow>
            (let out = \<lparr>out_url = apiURL connection @ sr_path route @ query_text, out_method = http_method request, out_headers = hs,
                  out_body = map_option (JSON_stringify \<circ> snd) command\<rparr> in
             ([out], case srv_fetch srv out of Fetched up \<Rightarrow> statement_reading (srv_date srv) route up | _ \<Rightarrow> statement_failed route))))"

definition proxyStatement :: "server \<Rightarrow> 'st limiter \<Rightarrow> 'st \<Rightarrow> request \<Rightarrow> session option \<Rightarrow> string list \<Rightarrow> 'st \<times> reservation_exchange" where
  "proxyStatement srv consume st request session parts = (case statementRoute (http_method request) parts of
     None \<Rightarrow> (st, denied ''not_found'' 404)
   | Some route \<Rightarrow>
       (case session of
          None \<Rightarrow> (st, denied ''unauthorized'' 401)
        | Some s \<Rightarrow>
            if \<not> has_scope s (if sr_write route then ''reconciliation:write'' else ''reconciliation:read'')
               \<or> (sr_export route \<and> \<not> has_scope s ''exports:read'') then (st, denied ''forbidden'' 403)
            else (case querySuffix (searchParams request) (sr_cursor route) of
                    Inl _ \<Rightarrow> (st, denied ''invalid_request'' 400)
                  | Inr query_text \<Rightarrow>
                      if \<not> sr_write route then (st, send_statement srv s request query_text route None)
                      else (case authorize_statement srv consume st request s route of
                              (st', Inl d) \<Rightarrow> (st', [], Answer d)
                            | (st', Inr command) \<Rightarrow> (st', send_statement srv s request query_text route (Some command))))))"


section \<open>What a write may send\<close>

lemma authorized_statement:
  assumes "authorize_statement srv consume st request s route = (st', Inr (key, body))"
  shows "hasValidCSRF (srv_URL srv) (srv_env srv) request s \<and> get_header ''idempotency-key'' (req_headers request) = Some key
    \<and> allowed (snd (consume st (''statement:reconciliation:'' @ tenantId s @ '':'' @ subjectId s) 6 60))
    \<and> (\<exists>v. parseStatementBody v (sr_body route) = Inr body)"
proof -
  obtain st1 x where auth: "authorizeReconciliationMutation srv (prefixed ''statement:'' consume) st request (Some s) = (st1, x)" by fastforce
  have x: "x = Inr key" "statement_body request (sr_body route) = Some body"
    using assms unfolding authorize_statement_def auth by (auto split: sum.splits option.splits)
  have "snd (authorizeReconciliationMutation srv (prefixed ''statement:'' consume) st request (Some s)) = Inr key" by (simp add: auth x)
  then have "hasValidCSRF (srv_URL srv) (srv_env srv) request s" "get_header ''idempotency-key'' (req_headers request) = Some key"
      "allowed (snd (prefixed ''statement:'' consume st (''reconciliation:'' @ tenantId s @ '':'' @ subjectId s) 6 60))"
    by (auto simp: authorizeReconciliationMutation_def isValidReconciliationIdempotencyKey_def Let_def limited_cases split: if_splits option.splits)
  moreover have "\<exists>v. parseStatementBody v (sr_body route) = Inr body"
    using x(2) by (auto simp: statement_body_def split: sum.splits option.splits if_splits)
  ultimately show ?thesis by (simp add: prefixed_def)
qed

lemma send_statement_sent:
  assumes "send_statement srv s request query_text route command = (sent, a)" "sent \<noteq> []"
  shows "\<exists>out. sent = [out] \<and> out_url out = session_api (srv_env srv) @ sr_path route @ query_text \<and> out_method out = http_method request
    \<and> out_body out = map_option (JSON_stringify \<circ> snd) command
    \<and> (\<forall>key body. command = Some (key, body) \<longrightarrow> get_header ''Idempotency-Key'' (out_headers out) = Some key)
    \<and> a = (case srv_fetch srv out of Fetched up \<Rightarrow> statement_reading (srv_date srv) route up | _ \<Rightarrow> statement_failed route)"
proof -
  obtain c where c: "privateAPIContext srv s None = Inr c" using assms by (cases "privateAPIContext srv s None") (auto simp: send_statement_def)
  obtain hs where hs: "(case command of None \<Rightarrow> Inr (conn_headers c) | Some (key, _) \<Rightarrow> reconciliationPrivateHeaders (conn_headers c) key) = Inr hs"
    using assms by (auto simp: send_statement_def c split: sum.splits)
  have "get_header ''Idempotency-Key'' hs = Some key" if "command = Some (key, body)" for key body
    using hs mutation_headers_key by (auto simp: that reconciliationPrivateHeaders_def)
  then show ?thesis using assms(1) connection_url [OF c] by (auto simp: send_statement_def c hs Let_def)
qed

section \<open>What the browser is told\<close>

lemma errorResponse_status: "status (errorResponse st v hs) = (if List.member definite_statuses st then st else 503)"
  by (simp add: errorResponse_def json_response_def Let_def)

lemma statement_failed_status: "answer_status (statement_failed route) \<in> {503, 504}"
  by (simp add: statement_failed_def)

lemma refused_reading:
  assumes "\<not> successful (up_status up)"
  shows "statement_reading is_date route up = (case fst (readBoundedBytes (up_stream up) 16384) of
      Inl _ \<Rightarrow> statement_failed route
    | Inr bs \<Rightarrow> (case bytes_json bs of
        Some v \<Rightarrow> Answer (errorResponse (up_status up) v (reconciliationResponseHeaders (up_headers up)))
      | None \<Rightarrow> Answer (jsonError ''statement_unavailable'' 503)))"
  using assms by (simp only: statement_reading_def Let_def if_False not_False_eq_True if_True)

lemma answered_reading:
  assumes "successful (up_status up)" "sr_result route \<noteq> Stmt_csv"
  shows "statement_reading is_date route up =
    (case fst (readBoundedBytes (up_stream up) (if sr_source route then maxStatementSourceBytes else 4 * maxStatementSourceBytes)) of
      Inl _ \<Rightarrow> statement_failed route
    | Inr bs \<Rightarrow> (case bytes_json bs of
        Some v \<Rightarrow> if statement_valid is_date (sr_result route) v then Answer (json_response v 200 (reconciliationResponseHeaders (up_headers up)))
          else statement_failed route
      | None \<Rightarrow> statement_failed route))"
  using assms by (simp only: statement_reading_def Let_def if_False simp_thms if_True)

lemma exported_reading:
  assumes "successful (up_status up)" "sr_result route = Stmt_csv"
  shows "statement_reading is_date route up =
    (case fst (readBoundedBytes (up_stream up) (if sr_source route then maxStatementSourceBytes else 4 * maxStatementSourceBytes)) of
      Inl _ \<Rightarrow> statement_failed route
    | Inr bs \<Rightarrow> (case get_header ''x-audit-reference'' (up_headers up) of
        None \<Rightarrow> Answer (jsonError ''statement_unavailable'' 503)
      | Some audit \<Rightarrow>
          if \<not> rx_test audit_pattern audit
             \<or> (sr_source route \<and> (case nonempty (get_header ''x-statement-sha256'' (up_headers up)) of None \<Rightarrow> True | Some d \<Rightarrow> \<not> rx_test sha_pattern d))
          then Answer (jsonError ''statement_unavailable'' 503)
          else Download (statement_csv_headers (reconciliationResponseHeaders (up_headers up)) (sr_resourceID route) audit
                 (nonempty (get_header ''x-statement-sha256'' (up_headers up)))) bs))"
  using assms by (simp only: statement_reading_def Let_def if_False simp_thms if_True)

lemma statement_reading_rejection:
  assumes "\<not> successful (up_status up)"
  shows "answer_status (statement_reading is_date route up) = up_status up \<and> List.member definite_statuses (up_status up)
    \<or> answer_status (statement_reading is_date route up) \<in> {503, 504}"
  unfolding refused_reading [OF assms] using statement_failed_status [of route]
  by (auto simp: errorResponse_status split: sum.split option.split)

lemma statement_reading_success:
  assumes "successful (up_status up)" "sr_result route \<noteq> Stmt_csv"
  shows "(\<exists>v. statement_valid is_date (sr_result route) v
      \<and> statement_reading is_date route up = Answer (json_response v 200 (reconciliationResponseHeaders (up_headers up))))
    \<or> statement_reading is_date route up = statement_failed route"
  unfolding answered_reading [OF assms] by (auto split: sum.split option.split)

lemma statement_reading_export:
  assumes "successful (up_status up)" "sr_result route = Stmt_csv"
  shows "(\<exists>hs bs. statement_reading is_date route up = Download hs bs) \<or> answer_status (statement_reading is_date route up) \<in> {503, 504}"
  unfolding exported_reading [OF assms] using statement_failed_status [of route] by (simp split: sum.split option.split)

definition statement_honest :: "server \<Rightarrow> statement_route \<Rightarrow> upstream_request \<Rightarrow> reservation_answer \<Rightarrow> bool" where
  "statement_honest srv route out a =
     ((answer_status a = 200 \<longrightarrow> (\<exists>up. srv_fetch srv out = Fetched up \<and> successful (up_status up)))
      \<and> (400 \<le> answer_status a \<and> answer_status a < 500 \<longrightarrow> (\<exists>up. srv_fetch srv out = Fetched up \<and> up_status up = answer_status a))
      \<and> (sr_result route \<noteq> Stmt_csv \<longrightarrow> (\<forall>up. srv_fetch srv out = Fetched up \<and> successful (up_status up) \<longrightarrow>
           (\<exists>v. statement_valid (srv_date srv) (sr_result route) v \<and> a = Answer (json_response v 200 (reconciliationResponseHeaders (up_headers up))))
           \<or> a = statement_failed route))
      \<and> (srv_fetch srv out \<in> {Fetch_timeout, Fetch_error} \<longrightarrow> a = statement_failed route))"

lemma statement_answers_honest:
  assumes "a = (case srv_fetch srv out of Fetched up \<Rightarrow> statement_reading (srv_date srv) route up | _ \<Rightarrow> statement_failed route)"
  shows "statement_honest srv route out a"
proof (cases "srv_fetch srv out")
  case (Fetched up)
  then have a: "a = statement_reading (srv_date srv) route up" using assms by simp
  have member: "List.member definite_statuses st \<Longrightarrow> st \<noteq> 200" for st by (auto simp: definite_statuses_def)
  show ?thesis
  proof (cases "successful (up_status up)")
    case True
    show ?thesis
    proof (cases "sr_result route = Stmt_csv")
      case csv: True
      then show ?thesis
        using statement_reading_export [OF True csv, of "srv_date srv"] True Fetched unfolding statement_honest_def a by auto
    next
      case False
      then show ?thesis
        using statement_reading_success [OF True False, of "srv_date srv"] statement_failed_status [of route] True Fetched
        unfolding statement_honest_def a by auto
    qed
  next
    case False
    then show ?thesis
      using statement_reading_rejection [OF False, of "srv_date srv" route] member Fetched unfolding statement_honest_def a by auto
  qed
qed (use assms statement_failed_status [of route] in \<open>auto simp: statement_honest_def\<close>)

section \<open>Properties\<close>


text \<open>A command of the sample operator, with a given body, sent as bytes.\<close>

definition sample_statement :: "json \<Rightarrow> request" where
  "sample_statement v = sample_request\<lparr>req_stream := Some [Chunk (bytes_of (JSON_stringify v))]\<rparr>"

lemma sample_statement_body:
  assumes "plain_json v" "length (bytes_of (JSON_stringify v)) \<le> maxStatementRequestBytes" "parseStatementBody v kind = Inr body"
  shows "statement_body (sample_statement v) kind = Some body"
proof -
  have "get_header ''content-length'' (req_headers sample_request) = None" by code_simp
  then show ?thesis using assms
    by (simp add: statement_body_def length_header_ok_def sample_statement_def readBoundedBytes_def bytes_json_def JSON_roundtrip
        del: JSON_stringify.simps)
qed

lemma sample_statement_authorized:
  assumes "statement_body (sample_statement v) (sr_body route) = Some body"
  shows "authorize_statement sample_server (\<lambda>st k l w. (st, permit)) (0::nat) (sample_statement v) sample_session route = (0, Inr (sample_key, body))"
proof -
  have same: "http_method (sample_statement v) = ''POST''" "req_headers (sample_statement v) = req_headers sample_request"
    by (simp_all add: sample_statement_def sample_request_def)
  have "hasValidCSRF (srv_URL sample_server) (srv_env sample_server) sample_request sample_session" by code_simp
  then have csrf: "hasValidCSRF (srv_URL sample_server) (srv_env sample_server) (sample_statement v) sample_session"
    unfolding csrf_token_equal hasSameOrigin_def hasValidHost_def same .
  have "mediaType sample_request = Some ''application/json''" by code_simp
  then have media: "mediaType (sample_statement v) = Some ''application/json''" by (simp add: mediaType_def same)
  have facts: "get_header ''idempotency-key'' (req_headers sample_request) = Some sample_key" "has_scope sample_session ''reconciliation:write''"
      "isValidReconciliationIdempotencyKey (Some sample_key)" "rateLimitResponse permit = None"
    by code_simp+
  show ?thesis
    by (simp add: authorize_statement_def authorizeReconciliationMutation_def same csrf media facts limited_def prefixed_def assms Let_def)
qed

lemma sample_statement_sent:
  assumes "statementRoute ''POST'' parts = Some route" "sr_write route" "\<not> sr_export route"
    and "statement_body (sample_statement v) (sr_body route) = Some body"
  shows "fst (snd (proxyStatement sample_server (\<lambda>st k l w. (st, permit)) (0::nat) (sample_statement v) (Some sample_session) parts)) \<noteq> []"
proof -
  have "\<not> isl (privateAPIContext sample_server sample_session None)"
    "\<not> isl (reconciliationPrivateHeaders (conn_headers (projr (privateAPIContext sample_server sample_session None))) sample_key)"
    by code_simp+
  then obtain c hs where c: "privateAPIContext sample_server sample_session None = Inr c" "reconciliationPrivateHeaders (conn_headers c) sample_key = Inr hs"
    by (metis projr_def sum.case_eq_if sum.collapse(2))
  have facts: "http_method (sample_statement v) = ''POST''" "searchParams (sample_statement v) = []"
    by (simp_all add: sample_statement_def sample_request_def)
  have "has_scope sample_session ''reconciliation:write''" by code_simp
  then show ?thesis
    by (simp add: proxyStatement_def facts assms(1-3) querySuffix_def sample_statement_authorized [OF assms(4)] send_statement_def c Let_def)
qed

lemma sample_run_body:
  "statement_body (sample_statement (JObj [(''import_id'', JStr sample_hold)])) Run = Some (JObj [(''import_id'', JStr sample_hold)])"
proof (rule sample_statement_body)
  show "plain_json (JObj [(''import_id'', JStr sample_hold)])" by code_simp
  have "length (bytes_of (JSON_stringify (JObj [(''import_id'', JStr sample_hold)]))) = 52" by code_simp
  then show "length (bytes_of (JSON_stringify (JObj [(''import_id'', JStr sample_hold)]))) \<le> maxStatementRequestBytes"
    by (simp add: maxStatementRequestBytes_def del: JSON_stringify.simps)
  show "parseStatementBody (JObj [(''import_id'', JStr sample_hold)]) Run = Inr (JObj [(''import_id'', JStr sample_hold)])" by code_simp
qed

lemma sample_run_sent:
  "fst (snd (proxyStatement sample_server (\<lambda>st k l w. (st, permit)) (0::nat) (sample_statement (JObj [(''import_id'', JStr sample_hold)]))
      (Some sample_session) [''runs''])) \<noteq> []"
proof (rule sample_statement_sent)
  show "statementRoute ''POST'' [''runs''] = Some ((plain_route [''runs''] Stmt_receipt)\<lparr>sr_write := True, sr_body := Run\<rparr>)" by code_simp
qed (simp_all add: sample_run_body, simp add: plain_route_def)


text \<open>The table of commands is a plain object, so that a name of \<^verbatim>\<open>Object.prototype\<close> is found in it too: a
  command of no kind with an empty body is sent to the private API.\<close>

lemma prototype_command_sent:
  "fst (snd (proxyStatement sample_server (\<lambda>st k l w. (st, permit)) (0::nat) (sample_statement (JObj []))
      (Some sample_session) [''constructor''])) \<noteq> []"
proof (rule sample_statement_sent)
  show "statementRoute ''POST'' [''constructor''] = Some ((plain_route [''constructor''] Stmt_receipt)\<lparr>sr_write := True, sr_body := No_kind\<rparr>)"
    by code_simp
  have "statement_body (sample_statement (JObj [])) No_kind = Some (JObj [])"
  proof (rule sample_statement_body)
    show "plain_json (JObj [])" by code_simp
    have "length (bytes_of (JSON_stringify (JObj []))) = 2" by code_simp
    then show "length (bytes_of (JSON_stringify (JObj []))) \<le> maxStatementRequestBytes"
      by (simp add: maxStatementRequestBytes_def del: JSON_stringify.simps)
    show "parseStatementBody (JObj []) No_kind = Inr (JObj [])" by code_simp
  qed
  then show "statement_body (sample_statement (JObj [])) (sr_body ((plain_route [''constructor''] Stmt_receipt)\<lparr>sr_write := True, sr_body := No_kind\<rparr>))
      = Some (JObj [])"
    by simp
qed (simp_all add: plain_route_def)

end
