(* ===== verification/ReservationCommand.thy ===== *)
theory ReservationCommand
  imports Reservations Intents
begin

text \<open>
  The reservation command of the console: \<^verbatim>\<open>features/reservations/reservationIntent.ts\<close> and
  \<^verbatim>\<open>useReservationCommand.ts\<close>. The hexadecimal SHA-256 digest of a text is the parameter \<open>digest_of\<close>; it is
  awaited, and the events of the model lie between the awaits at which another continuation may run:
  \<^item> \<open>Mount\<close> reads the stored record and \<open>Restored\<close> shows it once its digest is checked;
  \<^item> \<open>Execute\<close> reads the stored record, \<open>Prepared\<close> is the rest of \<^verbatim>\<open>execute\<close> and \<^verbatim>\<open>dispatch\<close> up to the request (the
    storage is not touched between the awaits inside), and \<open>Response\<close> what follows the answer.

  A continuation of an unmounted instance goes on; of the state that another instance can see it changes
  only the storage. A reload ends them all.
\<close>

section \<open>Intents\<close>

definition reservationStorageKey :: "string \<Rightarrow> string \<Rightarrow> string" where
  "reservationStorageKey tenant actor = ''ledgersync:reservation-command:v1:'' @ encodeURIComponent tenant @ '':'' @ encodeURIComponent actor"

text \<open>\<open>digest_of\<close> stands for the hexadecimal SHA-256 digest of a text's UTF-8 bytes.\<close>

definition intent_digest :: "(string \<Rightarrow> string) \<Rightarrow> json \<Rightarrow> string" where
  "intent_digest digest_of v = digest_of (JSON_stringify (JArr (map (\<lambda>k. case field k v of Some x \<Rightarrow> x | None \<Rightarrow> JNull)
     [''version'', ''tenant'', ''actor'', ''path'', ''key'', ''payload''])))"

definition intent_route :: "string \<Rightarrow> reservation_route outcome" where
  "intent_route path =
     (if \<not> startsWith path ''/api/reservations'' then Inl ''Invalid reservation destination.''
      else let suffix = drop 17 path in
        if suffix \<noteq> [] \<and> \<not> startsWith suffix ''/'' then Inl ''Invalid reservation destination.''
        else case reservationRoute ''POST'' (if suffix \<noteq> [] then split_on CHR ''/'' (tl suffix) else []) of
          None \<Rightarrow> Inl ''Invalid reservation destination.''
        | Some result \<Rightarrow> if rr_path result \<noteq> path then Inl ''Invalid reservation destination.'' else Inr result)"

definition reservation_intent :: "string \<Rightarrow> string \<Rightarrow> string \<Rightarrow> string \<Rightarrow> string \<Rightarrow> (string \<times> json) list" where
  "reservation_intent tenant actor path key payload =
     [(''version'', jint 1), (''tenant'', JStr tenant), (''actor'', JStr actor), (''path'', JStr path), (''key'', JStr key), (''payload'', JStr payload)]"

definition createReservationIntent :: "(string \<Rightarrow> string) \<Rightarrow> string \<Rightarrow> string \<Rightarrow> string \<Rightarrow> json \<Rightarrow> string \<Rightarrow> json outcome" where
  "createReservationIntent digest_of tenant actor path body uuid =
     andthen (intent_route path) (\<lambda>target. andthen (parseReservationBody body (rr_decision target)) (\<lambda>parsed.
       let value = reservation_intent tenant actor path uuid (JSON_stringify parsed) in
       Inr (JObj (value @ [(''integrity'', JStr (intent_digest digest_of (JObj value)))]))))"

definition intent_names :: "string list" where
  "intent_names = [''version'', ''tenant'', ''actor'', ''path'', ''key'', ''payload'', ''integrity'']"

text \<open>The tests on a stored value, in the order of the source; a failure of any is one error.\<close>

definition reservation_intent_ok :: "(string \<Rightarrow> string) \<Rightarrow> string \<Rightarrow> string \<Rightarrow> json \<Rightarrow> bool" where
  "reservation_intent_ok digest_of tenant actor v =
     (v \<noteq> JNull \<and> field ''version'' v = Some (jint 1) \<and> field ''tenant'' v = Some (JStr tenant) \<and> field ''actor'' v = Some (JStr actor)
      \<and> string_field ''path'' (\<lambda>_. True) v \<and> string_field ''key'' reservationID v \<and> string_field ''payload'' (\<lambda>_. True) v
      \<and> string_field ''integrity'' (\<lambda>_. True) v \<and> only_keys v intent_names
      \<and> (case intent_route (field_string ''path'' v) of
           Inl _ \<Rightarrow> False
         | Inr target \<Rightarrow> (case JSON_parse (field_string ''payload'' v) of
             None \<Rightarrow> False
           | Some body \<Rightarrow> \<not> isl (parseReservationBody body (rr_decision target))))
      \<and> intent_digest digest_of v = field_string ''integrity'' v)"

definition saved_invalid :: string where
  "saved_invalid = ''Saved reservation recovery is invalid or belongs to another identity. It was preserved. New commands are blocked.''"

definition parseReservationIntent :: "(string \<Rightarrow> string) \<Rightarrow> string option \<Rightarrow> string \<Rightarrow> string \<Rightarrow> json option outcome" where
  "parseReservationIntent digest_of raw tenant actor = (case raw of
     None \<Rightarrow> Inr None
   | Some t \<Rightarrow>
       if 8192 < length t then Inl saved_invalid
       else (case JSON_parse t of
               None \<Rightarrow> Inl saved_invalid
             | Some v \<Rightarrow> if reservation_intent_ok digest_of tenant actor v then Inr (Some v) else Inl saved_invalid))"

definition saveReservationIntent :: "storage \<Rightarrow> string \<Rightarrow> json \<Rightarrow> storage outcome" where
  "saveReservationIntent st key value =
     (let raw = JSON_stringify value in
      andthen (getItem key st) (\<lambda>previous.
        if previous \<noteq> None \<and> previous \<noteq> Some raw then Inl ''Resolve the original reservation request first.''
        else andthen (setItem key raw st) (\<lambda>st'. andthen (getItem key st') (\<lambda>now.
          if now \<noteq> Some raw then Inl ''Recovery storage did not confirm the request. Nothing was sent.'' else Inr st'))))"

text \<open>The storage afterwards, also when an error is thrown.\<close>

definition clearReservationIntent :: "storage \<Rightarrow> string \<Rightarrow> json \<Rightarrow> storage \<times> unit outcome" where
  "clearReservationIntent st key value = (case getItem key st of
     Inl e \<Rightarrow> (st, Inl e)
   | Inr None \<Rightarrow> (st, Inr ())
   | Inr (Some previous) \<Rightarrow>
       if previous \<noteq> JSON_stringify value then (st, Inl ''A different saved reservation was preserved.'')
       else (case removeItem key st of
               Inl e \<Rightarrow> (st, Inl e)
             | Inr st' \<Rightarrow> (st', case getItem key st' of
                 Inl e \<Rightarrow> Inl e
               | Inr None \<Rightarrow> Inr ()
               | Inr (Some _) \<Rightarrow> Inl ''The confirmed original request remains saved. Original-key replay is safe.'')))"

section \<open>The hook\<close>

text \<open>A continuation: of \<^verbatim>\<open>execute\<close> with the text it read, or of \<^verbatim>\<open>dispatch\<close> with the intent it sent.\<close>

datatype reservation_job = Reading "(string \<times> json) option" "string option" | Waiting json

record rs_state =
  rs_storage :: storage
  rs_intent :: "json option"
  rs_pending :: bool
  rs_blocked :: bool
  rs_rejected :: bool
  rs_error :: "string option"
  rs_receipt :: "json option"
  rs_flight :: bool
  rs_restoring :: "string option option"
  rs_job :: "reservation_job option"
  rs_orphans :: "reservation_job list"

record rs_hook =
  rs_tenant :: string
  rs_actor :: string
  rs_digest :: "string \<Rightarrow> string"
  rs_date :: "string \<Rightarrow> bool"

definition rs_key :: "rs_hook \<Rightarrow> string" where
  "rs_key h = reservationStorageKey (rs_tenant h) (rs_actor h)"

definition rs_parse :: "rs_hook \<Rightarrow> string option \<Rightarrow> json option outcome" where
  "rs_parse h raw = parseReservationIntent (rs_digest h) raw (rs_tenant h) (rs_actor h)"

text \<open>The end of \<^verbatim>\<open>execute\<close>: its \<^verbatim>\<open>finally\<close>.\<close>

definition finished :: "rs_state \<Rightarrow> rs_state" where
  "finished s = s\<lparr>rs_flight := False, rs_pending := False, rs_job := None\<rparr>"

definition failed :: "string \<Rightarrow> rs_state \<Rightarrow> rs_state" where
  "failed m s = finished (s\<lparr>rs_blocked := True, rs_error := Some m\<rparr>)"

definition rs_mount :: "rs_hook \<Rightarrow> rs_state \<Rightarrow> rs_state" where
  "rs_mount h s = (case getItem (rs_key h) (rs_storage s) of
     Inl m \<Rightarrow> s\<lparr>rs_error := Some m\<rparr>
   | Inr raw \<Rightarrow> s\<lparr>rs_restoring := Some raw\<rparr>)"

definition restored :: "rs_hook \<Rightarrow> rs_state \<Rightarrow> rs_state" where
  "restored h s = (case rs_restoring s of
     None \<Rightarrow> s
   | Some raw \<Rightarrow> (case rs_parse h raw of
       Inl m \<Rightarrow> s\<lparr>rs_restoring := None, rs_error := Some m\<rparr>
     | Inr saved \<Rightarrow> s\<lparr>rs_restoring := None, rs_intent := saved, rs_blocked := False\<rparr>))"

definition execute :: "rs_hook \<Rightarrow> rs_state \<Rightarrow> (string \<times> json) option \<Rightarrow> bool \<Rightarrow> rs_state" where
  "execute h s request online =
     (if rs_flight s \<or> rs_pending s \<or> rs_blocked s \<or> \<not> online \<or> (request \<noteq> None \<and> rs_intent s \<noteq> None) then s
      else let s1 = s\<lparr>rs_flight := True, rs_pending := True, rs_error := None, rs_receipt := None, rs_rejected := False\<rparr> in
        case getItem (rs_key h) (rs_storage s) of
          Inl m \<Rightarrow> failed m s1
        | Inr raw \<Rightarrow> s1\<lparr>rs_job := Some (Reading request raw)\<rparr>)"

text \<open>The intent that \<^verbatim>\<open>execute\<close> dispatches: the saved one, a new one, none, or an error.\<close>

datatype preparation = Dispatch json | Resolve_first json | Nothing_saved | Refused string

definition prepared_intent :: "rs_hook \<Rightarrow> (string \<times> json) option \<Rightarrow> string option \<Rightarrow> string \<Rightarrow> preparation" where
  "prepared_intent h request raw uuid = (case rs_parse h raw of
     Inl m \<Rightarrow> Refused m
   | Inr (Some saved) \<Rightarrow> if request \<noteq> None then Resolve_first saved else Dispatch saved
   | Inr None \<Rightarrow> (case request of
       None \<Rightarrow> Nothing_saved
     | Some (path, body) \<Rightarrow>
         (case createReservationIntent (rs_digest h) (rs_tenant h) (rs_actor h) path body uuid of Inl m \<Rightarrow> Refused m | Inr v \<Rightarrow> Dispatch v)))"

text \<open>What was asked of the private API: the path, the key and the body.\<close>

type_synonym rs_command = "string \<times> string \<times> string"

definition rs_identity :: "json \<Rightarrow> rs_command" where
  "rs_identity v = (field_string ''path'' v, field_string ''key'' v, field_string ''payload'' v)"

definition prepared :: "rs_hook \<Rightarrow> rs_state \<Rightarrow> (string \<times> json) option \<Rightarrow> string option \<Rightarrow> string \<Rightarrow> rs_state \<times> rs_command signal list" where
  "prepared h s request raw uuid = (case prepared_intent h request raw uuid of
     Refused m \<Rightarrow> (failed m s, [])
   | Resolve_first saved \<Rightarrow> (finished (s\<lparr>rs_intent := Some saved, rs_error := Some ''Resolve the saved original request first.''\<rparr>), [])
   | Nothing_saved \<Rightarrow> (finished (s\<lparr>rs_intent := None, rs_error := Some ''No original request is saved. Read current evidence.''\<rparr>), [])
   | Dispatch original \<Rightarrow> (case saveReservationIntent (rs_storage s) (rs_key h) original of
       Inl m \<Rightarrow> (failed m s, [])
     | Inr st \<Rightarrow> (s\<lparr>rs_storage := st, rs_intent := Some original, rs_job := Some (Waiting original)\<rparr>, [Sent (rs_identity original)])))"

definition rejections :: "nat list" where
  "rejections = [400, 401, 403, 404, 409, 413, 415, 422, 429]"

text \<open>An answer whose body could not be read or is not JSON counts as lost (\<open>ans_json = None\<close>).\<close>

definition receipt_of :: "rs_hook \<Rightarrow> arrival \<Rightarrow> json option" where
  "receipt_of h a = (case a of
     Arrived r \<Rightarrow> (case ans_json r of
         Some v \<Rightarrow> if ans_ok r \<and> isReservationReceipt (rs_date h) v then Some v else None
       | None \<Rightarrow> None)
   | Lost \<Rightarrow> None)"

definition failure_shown :: "arrival \<Rightarrow> rs_state \<Rightarrow> rs_state" where
  "failure_shown a s = (case a of
     Arrived r \<Rightarrow>
       if ans_json r = None then s\<lparr>rs_error := Some ''The result is unknown. Keep and retry the original reservation request.''\<rparr>
       else if \<not> ans_ok r then
         (let known = List.member rejections (ans_status r) in
          s\<lparr>rs_rejected := known, rs_error := Some
            (if ans_status r = 409 then ''The original intent or current hold state conflicts. Read current evidence before another decision.''
             else if known then ''The server rejected this request. Review current evidence. The original request stays available.''
             else ''The result is unknown. Retry the original request.'')\<rparr>)
       else s\<lparr>rs_error := Some ''No valid receipt arrived. Keep and retry the original reservation request.''\<rparr>
   | Lost \<Rightarrow> s\<lparr>rs_error := Some ''The result is unknown. Keep and retry the original reservation request.''\<rparr>)"

definition answered :: "rs_hook \<Rightarrow> rs_state \<Rightarrow> json \<Rightarrow> arrival \<Rightarrow> rs_state \<times> rs_command signal list" where
  "answered h s original a = (case receipt_of h a of
     None \<Rightarrow> (finished (failure_shown a s), [])
   | Some value \<Rightarrow> (case clearReservationIntent (rs_storage s) (rs_key h) original of (st, cleared) \<Rightarrow>
       (finished (case cleared of
          Inr _ \<Rightarrow> s\<lparr>rs_storage := st, rs_receipt := Some value, rs_rejected := False, rs_intent := None\<rparr>
        | Inl m \<Rightarrow> s\<lparr>rs_storage := st, rs_receipt := Some value, rs_rejected := False, rs_error := Some m\<rparr>),
        [Settled (rs_identity original)])))"

definition closeRejected :: "rs_hook \<Rightarrow> rs_state \<Rightarrow> rs_state \<times> rs_command signal list" where
  "closeRejected h s = (case rs_intent s of
     None \<Rightarrow> (s, [])
   | Some v \<Rightarrow>
       if \<not> rs_rejected s \<or> rs_pending s then (s, [])
       else (case clearReservationIntent (rs_storage s) (rs_key h) v of
               (st, Inr _) \<Rightarrow> (s\<lparr>rs_storage := st, rs_intent := None, rs_rejected := False, rs_error := None\<rparr>, [Abandoned])
             | (st, Inl m) \<Rightarrow> (s\<lparr>rs_storage := st, rs_error := Some m\<rparr>, [])))"

definition rs_unmounted :: "rs_state \<Rightarrow> rs_state" where
  "rs_unmounted s = s\<lparr>rs_intent := None, rs_pending := False, rs_blocked := True, rs_rejected := False, rs_error := None, rs_receipt := None,
     rs_flight := False, rs_restoring := None, rs_job := None\<rparr>"

section \<open>Events\<close>

datatype rs_event =
    RMount
  | RRestored
  | RExecute "(string \<times> json) option" bool
  | RPrepared string
  | RResponse arrival
  | RClose
  | RUnmount
  | RLate_prepared nat string
  | RLate_response nat arrival
  | RReload
  | RStorage_becomes bool write_mode

text \<open>A continuation of an unmounted instance runs on the shared storage; nothing else of its effect
  remains.\<close>

definition run_orphan :: "(rs_state \<Rightarrow> rs_state \<times> rs_command signal list) \<Rightarrow> rs_state \<Rightarrow> nat \<Rightarrow> rs_state \<times> rs_command signal list" where
  "run_orphan f s i = (case f (rs_unmounted s) of (s', sg) \<Rightarrow>
     (s\<lparr>rs_storage := rs_storage s',
        rs_orphans := take i (rs_orphans s) @ (case rs_job s' of None \<Rightarrow> [] | Some j \<Rightarrow> [j]) @ drop (Suc i) (rs_orphans s)\<rparr>, sg))"

fun rs_step :: "rs_hook \<Rightarrow> rs_state \<Rightarrow> rs_event \<Rightarrow> rs_state \<times> rs_command signal list" where
  "rs_step h s RMount = (rs_mount h s, [])"
| "rs_step h s RRestored = (restored h s, [])"
| "rs_step h s (RExecute request online) = (execute h s request online, [])"
| "rs_step h s (RPrepared uuid) = (case rs_job s of Some (Reading request raw) \<Rightarrow> prepared h s request raw uuid | _ \<Rightarrow> (s, []))"
| "rs_step h s (RResponse a) = (case rs_job s of Some (Waiting v) \<Rightarrow> answered h s v a | _ \<Rightarrow> (s, []))"
| "rs_step h s RClose = closeRejected h s"
| "rs_step h s RUnmount = ((rs_unmounted s)\<lparr>rs_orphans := (case rs_job s of None \<Rightarrow> rs_orphans s | Some j \<Rightarrow> j # rs_orphans s)\<rparr>, [])"
| "rs_step h s (RLate_prepared i uuid) =
     (if i < length (rs_orphans s) then
        (case rs_orphans s ! i of Reading request raw \<Rightarrow> run_orphan (\<lambda>t. prepared h t request raw uuid) s i | _ \<Rightarrow> (s, []))
      else (s, []))"
| "rs_step h s (RLate_response i a) =
     (if i < length (rs_orphans s) then
        (case rs_orphans s ! i of Waiting v \<Rightarrow> run_orphan (\<lambda>t. answered h t v a) s i | _ \<Rightarrow> (s, []))
      else (s, []))"
| "rs_step h s RReload = ((rs_unmounted s)\<lparr>rs_orphans := []\<rparr>, [])"
| "rs_step h s (RStorage_becomes r w) = (s\<lparr>rs_storage := (rs_storage s)\<lparr>readable := r, write_mode := w\<rparr>\<rparr>, [])"


section \<open>Stored records\<close>

lemma reservation_intent_plain:
  assumes "reservation_intent_ok d t a v" and dist: "\<And>ob. v = JObj ob \<Longrightarrow> distinct (map fst ob)"
  shows "plain_json v"
proof -
  obtain ob where v: "v = JObj ob" using assms(1) by (cases v) (auto simp: reservation_intent_ok_def)
  have d: "distinct (map fst ob)" using dist v by blast
  have ordinary: "list_all (\<lambda>k. \<not> is_array_index k) intent_names" by code_simp
  have p: "\<not> is_array_index k \<and> plain_json x" if "(k, x) \<in> set ob" for k x
  proof -
    have x: "map_of ob k = Some x" using that d by simp
    have "only_keys v intent_names" using assms(1) by (simp add: reservation_intent_ok_def)
    then have k: "k \<in> set intent_names" using that by (auto simp: v only_keys_def list_ex_iff)
    moreover have "x = jint 1 \<or> (\<exists>s. x = JStr s)"
      using k x assms(1) by (auto simp: reservation_intent_ok_def intent_names_def v string_field_def split: option.splits json.splits)
    ultimately show ?thesis using ordinary by (auto simp: list_all_iff jint_def)
  qed
  from d p show ?thesis by (auto simp: v list_all_iff)
qed

lemma parsed_plain: "rs_parse h raw = Inr (Some v) \<Longrightarrow> plain_json v"
  by (auto simp: rs_parse_def parseReservationIntent_def split: option.splits if_splits intro!: reservation_intent_plain parsed_object_distinct)

lemma created_intent_plain: "createReservationIntent d t a path body uuid = Inr v \<Longrightarrow> plain_json v"
proof -
  have "list_all (\<lambda>k. \<not> is_array_index k) intent_names" by code_simp
  then show "createReservationIntent d t a path body uuid = Inr v \<Longrightarrow> plain_json v"
    by (auto simp: createReservationIntent_def reservation_intent_def intent_names_def jint_def andthen_eq_Inr Let_def)
qed

lemma prepared_plain: "prepared_intent h request raw uuid = Dispatch v \<Longrightarrow> plain_json v"
  by (auto simp: prepared_intent_def split: sum.splits option.splits if_splits dest: parsed_plain created_intent_plain)

lemma stringify_inj: "plain_json v \<Longrightarrow> plain_json w \<Longrightarrow> JSON_stringify v = JSON_stringify w \<Longrightarrow> v = w"
  by (metis JSON_roundtrip option.inject)

lemma saved_cell:
  "saveReservationIntent st k v = Inr st' \<Longrightarrow>
     (stored st k = None \<or> stored st k = Some (JSON_stringify v)) \<and> stored st' k = Some (JSON_stringify v)"
  by (auto simp: saveReservationIntent_def getItem_def Let_def andthen_eq_Inr split: if_splits)

lemma cleared_cell:
  assumes "clearReservationIntent st k v = (st', r)"
  shows "stored st' k = stored st k \<or> stored st k = Some (JSON_stringify v)"
    and "r = Inr () \<Longrightarrow> stored st k = None \<or> stored st k = Some (JSON_stringify v)"
  using assms by (auto simp: clearReservationIntent_def getItem_def split: sum.splits option.splits if_splits)

section \<open>Records are read back\<close>

text \<open>A body that passes the parser is plain and passes again, so that its text is accepted when the
  stored record is read.\<close>

lemma exact_keys_distinct:
  assumes "length ks = length names" "set names \<subseteq> set ks" "distinct names"
  shows "distinct ks"
  using assms card_length [of ks] card_mono [of "set ks" "set names"]
  by (intro card_distinct) (simp add: distinct_card)

lemma terms_fields:
  assumes "reservation_terms v"
  obtains a b c d where "field ''debit_account_id'' v = Some (JStr a)" "field ''credit_account_id'' v = Some (JStr b)"
    "field ''amount_minor'' v = Some (JStr c)" "field ''currency'' v = Some (JStr d)"
  using assms string_field_present unfolding reservation_terms_def by metis

lemma create_body_plain:
  assumes "isRecord v" "length (object_keys v) = length create_keys" "only_keys v create_keys" "reservation_terms v"
    "integer_within 1 86400 (field ''ttl_seconds'' v)"
  shows "plain_json v"
proof -
  obtain ob where v: "v = JObj ob" using assms(1) by (cases v) auto
  obtain q where q: "field ''ttl_seconds'' v = Some (JNum (Fin q))" "q = of_int \<lfloor>q\<rfloor>" "safe_integer \<lfloor>q\<rfloor>"
    using assms(5) by (auto simp: integer_within_def split: option.splits json.splits jsnum.splits)
  obtain a b c d where "map_of ob ''debit_account_id'' = Some (JStr a)" "map_of ob ''credit_account_id'' = Some (JStr b)"
      "map_of ob ''amount_minor'' = Some (JStr c)" "map_of ob ''currency'' = Some (JStr d)"
    using terms_fields [OF assms(4)] unfolding v field.simps by metis
  then have "list_all (\<lambda>k. \<exists>x. map_of ob k = Some x \<and> ((\<exists>s. x = JStr s) \<or> x = JNum (Fin q))) create_keys"
    using q(1) unfolding v field.simps create_keys_def by (simp only: list.pred_inject) blast
  then have present: "\<exists>x. map_of ob k = Some x \<and> ((\<exists>s. x = JStr s) \<or> x = JNum (Fin q))" if "k \<in> set create_keys" for k
    using that by (auto simp: list_all_iff)
  have "set create_keys \<subseteq> set (map fst ob)" using present by (force dest: map_of_SomeD)
  moreover have "distinct create_keys" by code_simp
  ultimately have d: "distinct (map fst ob)" using exact_keys_distinct [of "map fst ob" create_keys] assms(2) by (simp add: v)
  have ordinary: "list_all (\<lambda>k. \<not> is_array_index k) create_keys" by code_simp
  have "\<not> is_array_index k \<and> plain_json x" if "(k, x) \<in> set ob" for k x
  proof -
    have k: "k \<in> set create_keys" using assms(3) that by (auto simp: v only_keys_def list_ex_iff)
    then obtain y where "map_of ob k = Some y" "(\<exists>s. y = JStr s) \<or> y = JNum (Fin q)" using present by blast
    moreover have "map_of ob k = Some x" using that d by simp
    moreover have "plain_json (JNum (Fin q))" using q(2,3) by (simp add: safe_integer_def)
    ultimately show ?thesis using k ordinary by (auto simp: list_all_iff)
  qed
  with d show ?thesis by (auto simp: v list_all_iff)
qed

lemma parsed_body_again:
  assumes "parseReservationBody v decision = Inr body"
  shows "plain_json body \<and> parseReservationBody body decision = Inr body"
proof (cases decision)
  case True
  have "\<not> is_array_index ''decision''" by code_simp
  then show ?thesis using assms True by (auto simp: parseReservationBody_def field_string_def split: if_splits)
next
  case False
  then show ?thesis using assms create_body_plain [of v] by (auto simp: parseReservationBody_def split: if_splits)
qed


abbreviation intent_valid :: "rs_hook \<Rightarrow> json \<Rightarrow> bool" where
  "intent_valid h v \<equiv> reservation_intent_ok (rs_digest h) (rs_tenant h) (rs_actor h) v"

lemma created_valid:
  assumes "createReservationIntent d t a path body uuid = Inr v" "reservationID uuid"
  shows "reservation_intent_ok d t a v"
proof -
  obtain target parsed where r: "intent_route path = Inr target" "parseReservationBody body (rr_decision target) = Inr parsed"
      "v = JObj (reservation_intent t a path uuid (JSON_stringify parsed)
        @ [(''integrity'', JStr (intent_digest d (JObj (reservation_intent t a path uuid (JSON_stringify parsed)))))])"
    using assms(1) by (auto simp: createReservationIntent_def andthen_eq_Inr Let_def)
  have "JSON_parse (JSON_stringify parsed) = Some parsed" "parseReservationBody parsed (rr_decision target) = Inr parsed"
    using parsed_body_again [OF r(2)] JSON_roundtrip by blast+
  moreover obtain text_of where "text_of = JSON_stringify parsed" by blast
  ultimately show ?thesis
    using r(1) assms(2) unfolding r(3)
    by (simp add: reservation_intent_ok_def reservation_intent_def string_field_def field_string_def only_keys_def intent_names_def
        intent_digest_def del: JSON_stringify.simps)
qed

lemma parsed_valid: "rs_parse h raw = Inr (Some v) \<Longrightarrow> intent_valid h v"
  by (auto simp: rs_parse_def parseReservationIntent_def split: option.splits if_splits)

lemma prepared_valid: "prepared_intent h request raw uuid = Dispatch v \<Longrightarrow> reservationID uuid \<Longrightarrow> intent_valid h v"
  by (auto simp: prepared_intent_def split: sum.splits option.splits if_splits dest: parsed_valid created_valid)

text \<open>Fresh keys are UUIDs in lower case, as \<^verbatim>\<open>crypto.randomUUID()\<close> gives them.\<close>

definition rs_fresh :: "rs_event \<Rightarrow> bool" where
  "rs_fresh e = (case e of RPrepared u \<Rightarrow> reservationID u | RLate_prepared i u \<Rightarrow> reservationID u | _ \<Rightarrow> True)"

section \<open>The invariant\<close>

text \<open>An open command is the one in the storage; every continuation and the shown intent hold plain records.
  In the \<open>strict\<close> form the stored record also passes the reader's tests.\<close>

abbreviation rs_cell :: "rs_hook \<Rightarrow> rs_state \<Rightarrow> string option" where
  "rs_cell h s \<equiv> stored (rs_storage s) (rs_key h)"

definition kept :: "bool \<Rightarrow> rs_hook \<Rightarrow> storage \<Rightarrow> rs_command option \<Rightarrow> bool" where
  "kept strict h st owed = (\<forall>k. owed = Some k \<longrightarrow> (\<exists>c. plain_json c \<and> (strict \<longrightarrow> intent_valid h c) \<and> stored st (rs_key h) = Some (JSON_stringify c) \<and> rs_identity c = k))"

definition rs_inv :: "bool \<Rightarrow> rs_hook \<Rightarrow> rs_state \<Rightarrow> rs_command option \<Rightarrow> bool" where
  "rs_inv strict h s owed =
     ((\<forall>v. rs_intent s = Some v \<longrightarrow> plain_json v) \<and> (\<forall>v. rs_job s = Some (Waiting v) \<longrightarrow> plain_json v)
      \<and> (\<forall>v. Waiting v \<in> set (rs_orphans s) \<longrightarrow> plain_json v) \<and> kept strict h (rs_storage s) owed)"

lemma rs_inv_simps [simp]:
  "rs_inv strict h (s\<lparr>rs_error := e\<rparr>) owed = rs_inv strict h s owed" "rs_inv strict h (s\<lparr>rs_blocked := b\<rparr>) owed = rs_inv strict h s owed"
  "rs_inv strict h (s\<lparr>rs_receipt := r\<rparr>) owed = rs_inv strict h s owed" "rs_inv strict h (s\<lparr>rs_rejected := b\<rparr>) owed = rs_inv strict h s owed"
  "rs_inv strict h (s\<lparr>rs_flight := b\<rparr>) owed = rs_inv strict h s owed" "rs_inv strict h (s\<lparr>rs_pending := b\<rparr>) owed = rs_inv strict h s owed"
  "rs_inv strict h (s\<lparr>rs_restoring := r'\<rparr>) owed = rs_inv strict h s owed"
  by (simp_all add: rs_inv_def)

lemma rs_inv_finished: "rs_inv strict h s owed \<Longrightarrow> rs_inv strict h (finished s) owed"
  by (simp add: rs_inv_def finished_def)

lemma rs_inv_unmounted: "rs_inv strict h s owed \<Longrightarrow> rs_inv strict h (rs_unmounted s) owed"
  by (simp add: rs_inv_def rs_unmounted_def)

lemma rs_inv_intent: "rs_inv strict h s owed \<Longrightarrow> (\<And>v. i = Some v \<Longrightarrow> plain_json v) \<Longrightarrow> rs_inv strict h (s\<lparr>rs_intent := i\<rparr>) owed"
  by (simp add: rs_inv_def)

text \<open>Sending keeps the discipline: an open command is found in the storage, and only the same text may
  replace it. A removal concerns only the command that it names.\<close>

lemma saved_kept:
  assumes "saveReservationIntent st (rs_key h) v = Inr st'" "plain_json v" "kept strict h st owed"
  shows "permitted owed (Sent (rs_identity v))" "(strict \<longrightarrow> intent_valid h v) \<Longrightarrow> kept strict h st' (Some (rs_identity v))"
proof -
  have "rs_identity c = rs_identity v" if "plain_json c" "stored st (rs_key h) = Some (JSON_stringify c)" for c
    using saved_cell [OF assms(1)] stringify_inj [OF that(1) assms(2)] that(2) by auto
  then show "permitted owed (Sent (rs_identity v))" using assms(3) by (cases owed) (auto simp: kept_def)
  show "(strict \<longrightarrow> intent_valid h v) \<Longrightarrow> kept strict h st' (Some (rs_identity v))" using saved_cell [OF assms(1)] assms(2) by (auto simp: kept_def)
qed

lemma cleared_kept:
  assumes "clearReservationIntent st (rs_key h) v = (st', r)" "plain_json v" "kept strict h st owed"
  shows "kept strict h st' (after_signal owed (Settled (rs_identity v)))"
proof (cases "owed = Some (rs_identity v)")
  case False
  have "stored st' (rs_key h) = stored st (rs_key h)" if "owed = Some k" for k
  proof -
    obtain c where c: "plain_json c" "stored st (rs_key h) = Some (JSON_stringify c)" "rs_identity c = k"
      using assms(3) \<open>owed = Some k\<close> by (auto simp: kept_def)
    then have "JSON_stringify c \<noteq> JSON_stringify v" using False that stringify_inj [OF c(1) assms(2)] by blast
    then show ?thesis using cleared_cell(1) [OF assms(1)] c(2) by simp
  qed
  then show ?thesis using assms(3) False by (auto simp: kept_def)
qed (simp add: kept_def)

lemma prepared_step:
  assumes "rs_inv strict h s owed" "prepared h s request raw uuid = (s', sg)" "strict \<longrightarrow> reservationID uuid"
  shows "disciplined owed sg \<and> rs_inv strict h s' (owed_after owed sg)"
proof (cases "prepared_intent h request raw uuid")
  case (Dispatch v)
  have p: "plain_json v" by (rule prepared_plain [OF Dispatch])
  show ?thesis
  proof (cases "saveReservationIntent (rs_storage s) (rs_key h) v")
    case (Inr st)
    have k: "kept strict h (rs_storage s) owed" using assms(1) by (simp add: rs_inv_def)
    show ?thesis
      using saved_kept [OF Inr p k] prepared_valid [OF Dispatch] assms p by (auto simp: prepared_def Dispatch Inr rs_inv_def)
  qed (use assms in \<open>auto simp: prepared_def Dispatch failed_def intro: rs_inv_finished\<close>)
next
  case (Resolve_first v)
  then have "plain_json v" by (auto simp: prepared_intent_def split: sum.splits option.splits if_splits dest: parsed_plain)
  with assms show ?thesis by (auto simp: prepared_def Resolve_first intro!: rs_inv_finished rs_inv_intent)
qed (use assms in \<open>auto simp: prepared_def failed_def intro!: rs_inv_finished rs_inv_intent\<close>)

lemma failure_shown_inv: "rs_inv strict h s owed \<Longrightarrow> rs_inv strict h (failure_shown a s) owed"
  by (simp add: failure_shown_def Let_def split: arrival.split)

lemma answered_step:
  assumes "rs_inv strict h s owed" "plain_json v" "answered h s v a = (s', sg)"
  shows "disciplined owed sg \<and> rs_inv strict h s' (owed_after owed sg)"
proof (cases "receipt_of h a")
  case None
  then show ?thesis using assms failure_shown_inv by (auto simp: answered_def intro: rs_inv_finished)
next
  case (Some receipt)
  obtain st r where c: "clearReservationIntent (rs_storage s) (rs_key h) v = (st, r)" by fastforce
  have "kept strict h st (after_signal owed (Settled (rs_identity v)))"
    using cleared_kept [OF c assms(2)] assms(1) by (simp add: rs_inv_def)
  then show ?thesis
    using assms by (auto simp: answered_def Some c rs_inv_def finished_def split: sum.splits)
qed

lemma close_step:
  assumes "rs_inv strict h s owed" "closeRejected h s = (s', sg)"
  shows "disciplined owed sg \<and> rs_inv strict h s' (owed_after owed sg)"
proof (cases "rs_intent s")
  case (Some v)
  obtain st r where c: "clearReservationIntent (rs_storage s) (rs_key h) v = (st, r)" by fastforce
  have unchanged: "kept strict h st owed" if "r = Inl m" for m
    using that c assms(1)
    by (auto simp: clearReservationIntent_def rs_inv_def getItem_def removeItem_def split: sum.splits option.splits if_splits write_mode.splits)
  have closed: "kept strict h st None" by (simp add: kept_def)
  show ?thesis
  proof (cases "rs_rejected s \<and> \<not> rs_pending s")
    case True
    with assms unchanged closed show ?thesis
      by (cases r) (auto simp: closeRejected_def Some c rs_inv_def)
  qed (use assms in \<open>auto simp: closeRejected_def Some\<close>)
qed (use assms in \<open>simp add: closeRejected_def\<close>)


lemma orphan_step:
  assumes inv: "rs_inv strict h s owed" and run: "run_orphan f s i = (s', sg)"
    and f: "\<And>t t' sg. rs_inv strict h t owed \<Longrightarrow> f t = (t', sg) \<Longrightarrow> disciplined owed sg \<and> rs_inv strict h t' (owed_after owed sg)"
  shows "disciplined owed sg \<and> rs_inv strict h s' (owed_after owed sg)"
proof -
  obtain t where t: "f (rs_unmounted s) = (t, sg)"
    and s': "s' = s\<lparr>rs_storage := rs_storage t,
        rs_orphans := take i (rs_orphans s) @ (case rs_job t of None \<Rightarrow> [] | Some j \<Rightarrow> [j]) @ drop (Suc i) (rs_orphans s)\<rparr>"
    using run by (auto simp: run_orphan_def split: prod.splits)
  have "disciplined owed sg" "rs_inv strict h t (owed_after owed sg)" using f [OF rs_inv_unmounted [OF inv] t] by auto
  moreover have "Waiting v \<in> set (rs_orphans s') \<Longrightarrow> Waiting v \<in> set (rs_orphans s) \<or> rs_job t = Some (Waiting v)" for v
    by (auto simp: s' split: option.splits dest: in_set_takeD in_set_dropD)
  moreover have "rs_intent s' = rs_intent s" "rs_job s' = rs_job s" "rs_storage s' = rs_storage t" by (simp_all add: s')
  ultimately show ?thesis using inv unfolding rs_inv_def by metis
qed

lemma execute_inv: "rs_inv strict h s owed \<Longrightarrow> rs_inv strict h (execute h s request online) owed"
  by (simp add: execute_def failed_def rs_inv_def finished_def Let_def split: sum.split)

lemma restored_inv: "rs_inv strict h s owed \<Longrightarrow> rs_inv strict h (restored h s) owed"
  by (auto simp: restored_def split: option.split sum.split intro!: rs_inv_intent parsed_plain)

lemma mount_inv: "rs_inv strict h s owed \<Longrightarrow> rs_inv strict h (rs_mount h s) owed"
  by (simp add: rs_mount_def split: sum.split)

definition rs_start :: "rs_state \<Rightarrow> bool" where
  "rs_start s = (rs_intent s = None \<and> rs_job s = None \<and> rs_orphans s = [])"

text \<open>The retry discipline holds for every event, with no hypothesis on the storage or the network. With
  fresh keys (\<open>strict\<close>) an open command moreover stays readable.\<close>

interpretation reservation_hook: command_hook rs_start "rs_step h" "\<lambda>e. strict \<longrightarrow> rs_fresh e" "rs_inv strict h" for strict h
proof
  show "rs_inv strict h s None" if "rs_start s" for s using that by (simp add: rs_inv_def rs_start_def kept_def)
  fix s owed e s' sg
  assume a: "rs_inv strict h s owed" "rs_step h s e = (s', sg)" and fresh: "strict \<longrightarrow> rs_fresh e"
  have "disciplined owed sg \<and> rs_inv strict h s' (owed_after owed sg)"
  proof (cases e)
    case (RPrepared u)
    then show ?thesis using a fresh prepared_step [OF a(1)] by (auto simp: rs_fresh_def split: option.splits reservation_job.splits)
  next
    case (RResponse x)
    show ?thesis
    proof (cases "\<exists>v. rs_job s = Some (Waiting v)")
      case True
      then obtain v where v: "rs_job s = Some (Waiting v)" "answered h s v x = (s', sg)" using a(2) RResponse by auto
      then have "plain_json v" using a(1) by (simp add: rs_inv_def)
      then show ?thesis using answered_step [OF a(1)] v(2) by blast
    qed (use a RResponse in \<open>auto split: option.splits reservation_job.splits\<close>)
  next
    case (RLate_prepared i u)
    show ?thesis
    proof (cases "i < length (rs_orphans s) \<and> (\<exists>request raw. rs_orphans s ! i = Reading request raw)")
      case True
      then obtain request raw where "run_orphan (\<lambda>t. prepared h t request raw u) s i = (s', sg)"
        using a(2) RLate_prepared by auto
      then show ?thesis using fresh by (rule_tac orphan_step [OF a(1)]) (auto simp: RLate_prepared rs_fresh_def dest: prepared_step)
    qed (use a RLate_prepared in \<open>auto split: if_splits reservation_job.splits\<close>)
  next
    case (RLate_response i x)
    show ?thesis
    proof (cases "i < length (rs_orphans s) \<and> (\<exists>v. rs_orphans s ! i = Waiting v)")
      case True
      then obtain v where v: "i < length (rs_orphans s)" "rs_orphans s ! i = Waiting v" "run_orphan (\<lambda>t. answered h t v x) s i = (s', sg)"
        using a(2) RLate_response by auto
      then have "Waiting v \<in> set (rs_orphans s)" using nth_mem [OF v(1)] by simp
      then have "plain_json v" using a(1) by (auto simp: rs_inv_def)
      with v(3) show ?thesis by (rule_tac orphan_step [OF a(1)]) (auto dest: answered_step)
    qed (use a RLate_response in \<open>auto split: if_splits reservation_job.splits\<close>)
  next
    case RUnmount
    then show ?thesis using a by (auto simp: rs_inv_def rs_unmounted_def split: option.splits)
  next
    case RReload
    then show ?thesis using a by (auto simp: rs_inv_def rs_unmounted_def)
  next
    case (RStorage_becomes r w)
    then show ?thesis using a by (auto simp: rs_inv_def kept_def)
  qed (use a close_step [OF a(1)] execute_inv restored_inv mount_inv in auto)
  then show "disciplined owed sg" "rs_inv strict h s' (owed_after owed sg)" by blast+
qed



section \<open>Properties\<close>

lemma written_read:
  "plain_json v \<Longrightarrow> intent_valid h v \<Longrightarrow> length (JSON_stringify v) \<le> 8192 \<Longrightarrow> rs_parse h (Some (JSON_stringify v)) = Inr (Some v)"
  by (simp add: rs_parse_def parseReservationIntent_def JSON_roundtrip)

text \<open>C26: A reservation is never repeated as a second command while its outcome is open. Whatever the user,
  the network, the storage and the continuations of unmounted instances do, and in whatever order, a
  command sent after another whose outcome has neither arrived nor been closed by the user is that same
  command: the same path, idempotency key and body. Storage that throws, refuses or silently drops writes
  and answers that arrive late included.\<close>

theorem open_reservation_keeps_its_command:
  assumes "rs_start s" "snd (run_hook (rs_step h) s es) = xs @ [Sent k] @ ys @ [Sent k'] @ zs"
    and "Settled k \<notin> set ys" "Abandoned \<notin> set ys"
  shows "k' = k"
proof -
  have "list_all (\<lambda>e. False \<longrightarrow> rs_fresh e) es" by (simp add: list_all_iff)
  from reservation_hook.open_command_repeated [OF assms(1) this assms(2-4)] show ?thesis .
qed

text \<open>A release that loses its answer, and its retry after a reload.\<close>

definition sample_hook :: rs_hook where
  "sample_hook = \<lparr>rs_tenant = ''acme'', rs_actor = ''alice'', rs_digest = (\<lambda>t. ''''), rs_date = (\<lambda>t. True)\<rparr>"

definition sample_release :: "string \<times> json" where
  "sample_release = (''/api/reservations/'' @ sample_hold @ ''/decisions'', JObj [(''decision'', JStr ''release'')])"

definition sample_record :: json where
  "sample_record = JObj (reservation_intent ''acme'' ''alice'' (fst sample_release) sample_hold (JSON_stringify (snd sample_release))
     @ [(''integrity'', JStr '''')])"

definition sample_rs :: rs_state where
  "sample_rs = \<lparr>rs_storage = \<lparr>stored = (\<lambda>k. None), readable = True, write_mode = Writes\<rparr>, rs_intent = None, rs_pending = False,
     rs_blocked = True, rs_rejected = False, rs_error = None, rs_receipt = None, rs_flight = False, rs_restoring = None, rs_job = None,
     rs_orphans = []\<rparr>"

definition sample_rs_events :: "rs_event list" where
  "sample_rs_events = [RMount, RRestored, RExecute (Some sample_release) True, RPrepared sample_hold, RResponse Lost]"

lemma sample_record_facts:
  "createReservationIntent (rs_digest sample_hook) (rs_tenant sample_hook) (rs_actor sample_hook) (fst sample_release) (snd sample_release) sample_hold
     = Inr sample_record"
  "reservationID sample_hold" "plain_json sample_record" "length (JSON_stringify sample_record) \<le> 8192" "intent_valid sample_hook sample_record"
proof -
  show created: "createReservationIntent (rs_digest sample_hook) (rs_tenant sample_hook) (rs_actor sample_hook) (fst sample_release) (snd sample_release) sample_hold
     = Inr sample_record" by code_simp
  show id: "reservationID sample_hold" by code_simp
  show "plain_json sample_record" by (rule created_intent_plain [OF created])
  show "intent_valid sample_hook sample_record" by (rule created_valid [OF created id])
  have "length (JSON_stringify sample_record) = 218" by code_simp
  then show "length (JSON_stringify sample_record) \<le> 8192" by simp
qed

lemma sample_rs_run:
  "\<exists>s. run_hook (rs_step sample_hook) sample_rs sample_rs_events = (s, [Sent (rs_identity sample_record)])
     \<and> rs_cell sample_hook s = Some (JSON_stringify sample_record) \<and> readable (rs_storage s) \<and> write_mode (rs_storage s) = Writes"
proof -
  obtain path body where r: "sample_release = (path, body)" by fastforce
  have "rs_parse sample_hook None = Inr None" by (simp add: rs_parse_def parseReservationIntent_def)
  then show ?thesis
    using sample_record_facts(1) unfolding r
    by (simp add: sample_rs_events_def r sample_rs_def rs_mount_def restored_def execute_def prepared_def prepared_intent_def
        saveReservationIntent_def getItem_def setItem_def answered_def receipt_of_def failure_shown_def finished_def Let_def
        del: JSON_stringify.simps)
qed

theorem open_reservation_keeps_its_command_witness:
  "\<exists>k k'. snd (run_hook (rs_step sample_hook) sample_rs (sample_rs_events @ [RExecute None True, RPrepared sample_hold]))
     = [] @ [Sent k] @ [] @ [Sent k'] @ [] \<and> k' = k"
proof -
  have "rs_parse sample_hook (Some (JSON_stringify sample_record)) = Inr (Some sample_record)"
    using written_read sample_record_facts(3-5) by blast
  obtain path body where r: "sample_release = (path, body)" by fastforce
  have parse: "rs_parse sample_hook None = Inr None" by (simp add: rs_parse_def parseReservationIntent_def)
  have run: "snd (run_hook (rs_step sample_hook) sample_rs (sample_rs_events @ [RExecute None True, RPrepared sample_hold]))
      = [] @ [Sent (rs_identity sample_record)] @ [] @ [Sent (rs_identity sample_record)] @ []"
    using sample_record_facts(1) parse \<open>rs_parse sample_hook (Some _) = _\<close> unfolding r
    by (simp add: sample_rs_events_def r sample_rs_def rs_mount_def restored_def execute_def prepared_def prepared_intent_def
        saveReservationIntent_def getItem_def setItem_def answered_def receipt_of_def failure_shown_def finished_def Let_def
        del: JSON_stringify.simps)
  have "rs_start sample_rs" by (simp add: rs_start_def sample_rs_def)
  from open_reservation_keeps_its_command [OF this run] run show ?thesis by (intro exI conjI) simp_all
qed

text \<open>C27: An open reservation can always be resolved: from every state that the hook can reach, whatever
  blocked it, reloading the page and retrying sends exactly the open command again, provided that the
  storage works at that moment and the saved record is within the bound that the reader imposes. Fresh keys
  are assumed to be UUIDs, as the platform gives them.\<close>

theorem open_reservation_can_be_resolved:
  assumes "rs_start s" "list_all rs_fresh es" "run_hook (rs_step h) s es = (s', tr)" "owed_after None tr = Some k"
    and "readable (rs_storage s')" "write_mode (rs_storage s') = Writes" "\<forall>t. rs_cell h s' = Some t \<longrightarrow> length t \<le> 8192"
  shows "snd (run_hook (rs_step h) s' [RReload, RMount, RRestored, RExecute None True, RPrepared uuid]) = [Sent k]"
proof -
  have "list_all (\<lambda>e. True \<longrightarrow> rs_fresh e) es" using assms(2) by simp
  from reservation_hook.run_inv [OF reservation_hook.start_inv [OF assms(1)] this assms(3)]
  have "kept True h (rs_storage s') (Some k)" by (simp add: assms(4) rs_inv_def)
  then obtain c where c: "plain_json c" "intent_valid h c" "rs_cell h s' = Some (JSON_stringify c)" "rs_identity c = k"
    by (auto simp: kept_def)
  have read: "rs_parse h (Some (JSON_stringify c)) = Inr (Some c)" using written_read [OF c(1,2)] c(3) assms(7) by simp
  have save: "\<exists>st. saveReservationIntent (rs_storage s') (rs_key h) c = Inr st"
    using c(3) assms(5,6) by (simp add: saveReservationIntent_def getItem_def setItem_def Let_def)
  show ?thesis
    using read save c(3,4) assms(5)
    by (auto simp: rs_unmounted_def rs_mount_def restored_def execute_def prepared_def prepared_intent_def getItem_def Let_def
        simp del: JSON_stringify.simps)
qed


theorem open_reservation_can_be_resolved_witness:
  "snd (run_hook (rs_step sample_hook) (fst (run_hook (rs_step sample_hook) sample_rs sample_rs_events))
     [RReload, RMount, RRestored, RExecute None True, RPrepared sample_hold]) = [Sent (rs_identity sample_record)]"
proof -
  obtain s where run: "run_hook (rs_step sample_hook) sample_rs sample_rs_events = (s, [Sent (rs_identity sample_record)])"
      "rs_cell sample_hook s = Some (JSON_stringify sample_record)" "readable (rs_storage s)" "write_mode (rs_storage s) = Writes"
    using sample_rs_run by blast
  have "rs_start sample_rs" "list_all rs_fresh sample_rs_events"
    using sample_record_facts(2) by (simp_all add: rs_start_def sample_rs_def sample_rs_events_def rs_fresh_def)
  from open_reservation_can_be_resolved [OF this run(1) _ run(3,4)] run(2) sample_record_facts(4)
  show ?thesis unfolding run(1) by simp
qed

end
