(* ===== verification/StatementCommand.thy ===== *)
theory StatementCommand
  imports Statements ReservationCommand Base64url
begin

text \<open>
  The statement command of the console: \<^verbatim>\<open>features/statement-reconciliation/statementIntent.ts\<close> and
  \<^verbatim>\<open>useStatementCommand.ts\<close>. The hexadecimal SHA-256 digest of bytes is the parameter \<open>digest_of\<close>; it is
  awaited, and the events of the model lie between the awaits at which another continuation may run:
  \<^item> \<open>SMount\<close> reads the stored record and \<open>SRestored\<close> shows it once it is checked;
  \<^item> \<open>SExecute\<close> is \<^verbatim>\<open>run\<close> or \<^verbatim>\<open>retry\<close> up to the check of the record that it read, \<open>SPrepared\<close> goes on until
    \<^verbatim>\<open>dispatch\<close> checks the original once more, \<open>SComposed\<close> until the request, and \<open>SResponse\<close> is what follows the
    answer.

  The bytes of an imported file are not stored: the record keeps their digest, and a retry needs the file again.
  Continuations of unmounted instances go on, as in \<open>ReservationCommand\<close>.
\<close>

section \<open>Intents\<close>

definition statementStorageKey :: "string \<Rightarrow> string \<Rightarrow> string" where
  "statementStorageKey tenant actor = ''ledgersync:statement-command:v1:'' @ encodeURIComponent tenant @ '':'' @ encodeURIComponent actor"

definition statement_integrity :: "(nat list \<Rightarrow> string) \<Rightarrow> json \<Rightarrow> string" where
  "statement_integrity digest_of v = digest_of (bytes_of (JSON_stringify (JArr (map (\<lambda>k. case field k v of Some x \<Rightarrow> x | None \<Rightarrow> JNull)
     [''version'', ''tenantId'', ''actorId'', ''path'', ''kind'', ''key'', ''payload'', ''sourceSHA256'']))))"

definition routeParts :: "string \<Rightarrow> string list outcome" where
  "routeParts path =
     (if \<not> startsWith path ''/api/statement-reconciliation/'' then Inl ''Invalid statement destination.''
      else Inr (split_on CHR ''/'' (drop 30 path)))"

definition kind_name :: "statement_kind \<Rightarrow> string" where
  "kind_name kind = (case kind of Mapping \<Rightarrow> ''mapping'' | Preview \<Rightarrow> ''preview'' | Import \<Rightarrow> ''import'' | Run \<Rightarrow> ''run'' | Review \<Rightarrow> ''review'' | No_kind \<Rightarrow> '''')"

text \<open>The route of a stored or a new command, which must be the one of its kind.\<close>

definition command_route :: "string \<Rightarrow> json option \<Rightarrow> statement_kind outcome" where
  "command_route path kind = andthen (routeParts path) (\<lambda>parts. case statementRoute ''POST'' parts of
     None \<Rightarrow> Inl ''Invalid statement command.''
   | Some route \<Rightarrow>
       if sr_body route = No_kind \<or> kind \<noteq> Some (JStr (kind_name (sr_body route))) \<or> sr_body route = Preview
       then Inl ''Invalid statement command.'' else Inr (sr_body route))"

definition import_payload :: "json \<Rightarrow> string option \<Rightarrow> string outcome" where
  "import_payload body sha = (case sha of
     Some d \<Rightarrow> if string_field ''mapping_id'' (rx_test lowerUUIDShape) body \<and> rx_test sha_pattern d
       then Inr (JSON_stringify (JObj [(''mapping_id'', JStr (field_string ''mapping_id'' body)), (''source_sha256'', JStr d)]))
       else Inl ''Original file digest is required.''
   | None \<Rightarrow> Inl ''Original file digest is required.'')"

definition statement_candidate :: "string \<Rightarrow> string \<Rightarrow> string \<Rightarrow> statement_kind \<Rightarrow> string \<Rightarrow> string \<Rightarrow> string option \<Rightarrow> (string \<times> json) list" where
  "statement_candidate tenant actor path kind key payload sha =
     [(''version'', jint 1), (''tenantId'', JStr tenant), (''actorId'', JStr actor), (''path'', JStr path), (''kind'', JStr (kind_name kind)),
      (''key'', JStr key), (''payload'', JStr payload)] @ (case nonempty sha of Some d \<Rightarrow> [(''sourceSHA256'', JStr d)] | None \<Rightarrow> [])"

definition createStatementIntent ::
  "(nat list \<Rightarrow> string) \<Rightarrow> string \<Rightarrow> string \<Rightarrow> string \<Rightarrow> statement_kind \<Rightarrow> json \<Rightarrow> string option \<Rightarrow> string \<Rightarrow> json outcome" where
  "createStatementIntent digest_of tenant actor path kind body sha uuid =
     andthen (command_route path (Some (JStr (kind_name kind)))) (\<lambda>_.
     andthen (if kind = Import then import_payload body sha else andthen (parseStatementBody body kind) (\<lambda>b. Inr (JSON_stringify b))) (\<lambda>payload.
       let candidate = statement_candidate tenant actor path kind uuid payload sha in
       Inr (JObj (candidate @ [(''integrity'', JStr (statement_integrity digest_of (JObj candidate)))]))))"

definition statement_names :: "string list" where
  "statement_names = [''version'', ''tenantId'', ''actorId'', ''path'', ''kind'', ''key'', ''payload'', ''sourceSHA256'', ''integrity'']"

definition stored_payload_ok :: "statement_kind \<Rightarrow> json \<Rightarrow> json \<Rightarrow> bool" where
  "stored_payload_ok kind v payload =
     (if kind = Import then
        only_keys payload [''mapping_id'', ''source_sha256''] \<and> string_field ''mapping_id'' (rx_test lowerUUIDShape) payload
        \<and> field ''source_sha256'' payload = field ''sourceSHA256'' v \<and> string_field ''sourceSHA256'' (rx_test sha_pattern) v
      else \<not> isl (parseStatementBody payload kind))"

definition statement_intent_ok :: "(nat list \<Rightarrow> string) \<Rightarrow> string \<Rightarrow> string \<Rightarrow> json \<Rightarrow> bool" where
  "statement_intent_ok digest_of tenant actor v =
     (field ''version'' v = Some (jint 1) \<and> field ''tenantId'' v = Some (JStr tenant) \<and> field ''actorId'' v = Some (JStr actor)
      \<and> string_field ''path'' (\<lambda>_. True) v \<and> string_field ''payload'' (\<lambda>_. True) v \<and> string_field ''key'' (rx_test lowerUUIDShape) v
      \<and> string_field ''integrity'' (\<lambda>_. True) v \<and> only_keys v statement_names
      \<and> (case command_route (field_string ''path'' v) (field ''kind'' v) of
           Inl _ \<Rightarrow> False
         | Inr kind \<Rightarrow> (case JSON_parse (field_string ''payload'' v) of None \<Rightarrow> False | Some payload \<Rightarrow> stored_payload_ok kind v payload))
      \<and> statement_integrity digest_of v = field_string ''integrity'' v)"

definition statement_saved_invalid :: string where
  "statement_saved_invalid = ''Saved statement recovery is invalid or belongs to another identity. It was preserved.''"

definition parseStatementIntent :: "(nat list \<Rightarrow> string) \<Rightarrow> string option \<Rightarrow> string \<Rightarrow> string \<Rightarrow> json option outcome" where
  "parseStatementIntent digest_of raw tenant actor = (case raw of
     None \<Rightarrow> Inr None
   | Some t \<Rightarrow>
       if 16384 < length t then Inl ''Saved statement recovery is outside the supported bound. It was preserved.''
       else (case JSON_parse t of
               None \<Rightarrow> Inl statement_saved_invalid
             | Some v \<Rightarrow> if statement_intent_ok digest_of tenant actor v then Inr (Some v) else Inl statement_saved_invalid))"

definition statementRequestBody :: "(nat list \<Rightarrow> string) \<Rightarrow> json \<Rightarrow> nat list option \<Rightarrow> string outcome" where
  "statementRequestBody digest_of v source =
     andthen (parseStatementIntent digest_of (Some (JSON_stringify v)) (field_string ''tenantId'' v) (field_string ''actorId'' v)) (\<lambda>_.
       if field ''kind'' v \<noteq> Some (JStr ''import'') then Inr (field_string ''payload'' v)
       else case source of
         None \<Rightarrow> Inl ''Select the exact original file before retrying this import.''
       | Some bytes \<Rightarrow>
           if maxStatementSourceBytes < length bytes \<or> field ''sourceSHA256'' v \<noteq> Some (JStr (digest_of bytes))
           then Inl ''Select the exact original file before retrying this import.''
           else (case JSON_parse (field_string ''payload'' v) of
                   None \<Rightarrow> Inl ''SyntaxError''
                 | Some mapping \<Rightarrow> Inr (JSON_stringify (JObj [(''mapping_id'', JStr (field_string ''mapping_id'' mapping)), (''source_base64'', JStr (base64 bytes))]))))"

definition persistStatementIntent :: "storage \<Rightarrow> string \<Rightarrow> json \<Rightarrow> storage outcome" where
  "persistStatementIntent st key v =
     (let serialized = JSON_stringify v in
      andthen (getItem key st) (\<lambda>previous.
        if previous \<noteq> None \<and> previous \<noteq> Some serialized then Inl ''Resolve the saved original statement command first.''
        else andthen (setItem key serialized st) (\<lambda>st'. andthen (getItem key st') (\<lambda>now.
          if now \<noteq> Some serialized then Inl ''Recovery storage did not confirm the original command. Nothing was sent.'' else Inr st'))))"

definition clearStatementIntent :: "storage \<Rightarrow> string \<Rightarrow> json \<Rightarrow> storage \<times> unit outcome" where
  "clearStatementIntent st key v = (case getItem key st of
     Inl e \<Rightarrow> (st, Inl e)
   | Inr None \<Rightarrow> (st, Inr ())
   | Inr (Some previous) \<Rightarrow>
       if previous \<noteq> JSON_stringify v then (st, Inl ''A different saved command was preserved.'')
       else (case removeItem key st of
               Inl e \<Rightarrow> (st, Inl e)
             | Inr st' \<Rightarrow> (st', case getItem key st' of
                 Inl e \<Rightarrow> Inl e
               | Inr None \<Rightarrow> Inr ()
               | Inr (Some _) \<Rightarrow> Inl ''The confirmed command remains saved. Original-key replay is safe.'')))"

section \<open>The hook\<close>

text \<open>What the user asks for: a kind, a path and a body with the digest of the chosen file; the file itself is
  passed along apart.\<close>

record sc_request =
  ask_kind :: statement_kind
  ask_path :: string
  ask_body :: json
  ask_sha :: "string option"

text \<open>A continuation: of \<^verbatim>\<open>run\<close> (with a request) or \<^verbatim>\<open>retry\<close> with the text that it read, of \<^verbatim>\<open>dispatch\<close> before its
  request, or after it.\<close>

datatype sc_job = SReading "sc_request option" "nat list option" "string option" | SComposing json "nat list option" | SAwaiting json

record sc_state =
  sc_storage :: storage
  sc_intent :: "json option"
  sc_pending :: bool
  sc_blocked :: bool
  sc_rejected :: bool
  sc_error :: "string option"
  sc_result :: "(json \<times> string \<times> string) option"
  sc_flight :: bool
  sc_restoring :: "string option option"
  sc_job :: "sc_job option"
  sc_orphans :: "sc_job list"

record sc_hook =
  sc_tenant :: string
  sc_actor :: string
  sc_digest :: "nat list \<Rightarrow> string"

definition sc_key :: "sc_hook \<Rightarrow> string" where
  "sc_key h = statementStorageKey (sc_tenant h) (sc_actor h)"

definition sc_parse :: "sc_hook \<Rightarrow> string option \<Rightarrow> json option outcome" where
  "sc_parse h raw = parseStatementIntent (sc_digest h) raw (sc_tenant h) (sc_actor h)"

definition sc_finished :: "sc_state \<Rightarrow> sc_state" where
  "sc_finished s = s\<lparr>sc_flight := False, sc_pending := False, sc_job := None\<rparr>"

definition sc_failed :: "string \<Rightarrow> sc_state \<Rightarrow> sc_state" where
  "sc_failed m s = sc_finished (s\<lparr>sc_blocked := True, sc_error := Some m\<rparr>)"

definition sc_mount :: "sc_hook \<Rightarrow> sc_state \<Rightarrow> sc_state" where
  "sc_mount h s = (case getItem (sc_key h) (sc_storage s) of
     Inl m \<Rightarrow> s\<lparr>sc_blocked := True, sc_error := Some m\<rparr>
   | Inr raw \<Rightarrow> s\<lparr>sc_restoring := Some raw\<rparr>)"

definition sc_restored :: "sc_hook \<Rightarrow> sc_state \<Rightarrow> sc_state" where
  "sc_restored h s = (case sc_restoring s of
     None \<Rightarrow> s
   | Some raw \<Rightarrow> (case sc_parse h raw of
       Inl m \<Rightarrow> s\<lparr>sc_restoring := None, sc_blocked := True, sc_error := Some m\<rparr>
     | Inr saved \<Rightarrow> s\<lparr>sc_restoring := None, sc_intent := saved, sc_blocked := False, sc_rejected := False\<rparr>))"

text \<open>\<^verbatim>\<open>run\<close> needs that no intent is shown and clears the last result; \<^verbatim>\<open>retry\<close> does neither.\<close>

definition sc_execute :: "sc_hook \<Rightarrow> sc_state \<Rightarrow> sc_request option \<Rightarrow> nat list option \<Rightarrow> bool \<Rightarrow> sc_state" where
  "sc_execute h s request source online =
     (if sc_flight s \<or> sc_pending s \<or> sc_blocked s \<or> (request \<noteq> None \<and> sc_intent s \<noteq> None) \<or> \<not> online then s
      else let s1 = s\<lparr>sc_flight := True, sc_pending := True, sc_error := None,
                sc_result := (if request \<noteq> None then None else sc_result s), sc_rejected := False\<rparr> in
        case getItem (sc_key h) (sc_storage s) of
          Inl m \<Rightarrow> sc_failed m s1
        | Inr raw \<Rightarrow> s1\<lparr>sc_job := Some (SReading request source raw)\<rparr>)"

definition sc_prepared :: "sc_hook \<Rightarrow> sc_state \<Rightarrow> sc_request option \<Rightarrow> nat list option \<Rightarrow> string option \<Rightarrow> string \<Rightarrow> sc_state" where
  "sc_prepared h s request source raw uuid = (case sc_parse h raw of
     Inl m \<Rightarrow> sc_failed m s
   | Inr (Some saved) \<Rightarrow>
       if request \<noteq> None then sc_finished (s\<lparr>sc_intent := Some saved, sc_error := Some ''Resolve the saved original statement command first.''\<rparr>)
       else s\<lparr>sc_intent := Some saved, sc_job := Some (SComposing saved source)\<rparr>
   | Inr None \<Rightarrow> (case request of
       None \<Rightarrow> sc_finished (s\<lparr>sc_intent := None, sc_error := Some ''No saved original request is available. Read current evidence before another command.''\<rparr>)
     | Some r \<Rightarrow> (case createStatementIntent (sc_digest h) (sc_tenant h) (sc_actor h) (ask_path r) (ask_kind r) (ask_body r) (ask_sha r) uuid of
         Inl m \<Rightarrow> sc_failed m s
       | Inr original \<Rightarrow> (case persistStatementIntent (sc_storage s) (sc_key h) original of
           Inl m \<Rightarrow> sc_failed m s
         | Inr st \<Rightarrow> s\<lparr>sc_storage := st, sc_intent := Some original, sc_job := Some (SComposing original source)\<rparr>))))"

type_synonym sc_command = "string \<times> string \<times> string"

definition sc_identity :: "json \<Rightarrow> sc_command" where
  "sc_identity v = (field_string ''path'' v, field_string ''key'' v, field_string ''payload'' v)"

definition sc_composed :: "sc_hook \<Rightarrow> sc_state \<Rightarrow> json \<Rightarrow> nat list option \<Rightarrow> sc_state \<times> sc_command signal list" where
  "sc_composed h s original source =
     (case andthen (statementRequestBody (sc_digest h) original source) (\<lambda>_. persistStatementIntent (sc_storage s) (sc_key h) original) of
        Inl m \<Rightarrow> (sc_finished (s\<lparr>sc_error := Some m\<rparr>), [])
      | Inr st \<Rightarrow> (s\<lparr>sc_storage := st, sc_job := Some (SAwaiting original)\<rparr>, [Sent (sc_identity original)]))"

definition sc_receipt :: "arrival \<Rightarrow> json option" where
  "sc_receipt a = (case a of
     Arrived r \<Rightarrow> (case ans_json r of Some v \<Rightarrow> if ans_ok r \<and> isStatementReceipt v then Some v else None | None \<Rightarrow> None)
   | Lost \<Rightarrow> None)"

definition sc_rejection :: "json \<Rightarrow> string" where
  "sc_rejection v = ''The server rejected this request ('' @
     (case field ''error'' v of Some e \<Rightarrow> (case field ''code'' e of Some (JStr c) \<Rightarrow> c | _ \<Rightarrow> ''invalid_request'') | None \<Rightarrow> ''invalid_request'')
     @ ''). The original request stays available for review.''"

definition sc_failure_shown :: "arrival \<Rightarrow> sc_state \<Rightarrow> sc_state" where
  "sc_failure_shown a s = (case a of
     Lost \<Rightarrow> s\<lparr>sc_error := Some ''The result is unknown. Keep this original request and retry it when the connection returns.''\<rparr>
   | Arrived r \<Rightarrow> (case ans_json r of
       None \<Rightarrow> s\<lparr>sc_error := Some ''The result is unknown because no valid receipt arrived. Keep the original request.''\<rparr>
     | Some v \<Rightarrow>
         if \<not> ans_ok r then
           (let known = List.member rejections (ans_status r) in
            s\<lparr>sc_rejected := known, sc_error := Some
              (if ans_status r = 409 then ''The saved intent or review version conflicts. Read current evidence before another decision.''
               else if ans_status r = 429 then ''The request limit was reached. Wait, then retry this original request.''
               else if known then sc_rejection v
               else ''The result is unknown. Retry the original request; do not create a replacement.'')\<rparr>)
         else s\<lparr>sc_error := Some ''The result is unknown because the receipt is invalid. Keep the original request.''\<rparr>))"

definition sc_answered :: "sc_hook \<Rightarrow> sc_state \<Rightarrow> json \<Rightarrow> arrival \<Rightarrow> sc_state \<times> sc_command signal list" where
  "sc_answered h s original a = (case sc_receipt a of
     None \<Rightarrow> (sc_finished (sc_failure_shown a s), [])
   | Some receipt \<Rightarrow>
       (let confirmed = s\<lparr>sc_result := Some (receipt, field_string ''path'' original, field_string ''kind'' original), sc_rejected := False\<rparr> in
        case clearStatementIntent (sc_storage s) (sc_key h) original of (st, cleared) \<Rightarrow>
          (sc_finished (case cleared of
             Inr _ \<Rightarrow> confirmed\<lparr>sc_storage := st, sc_intent := None\<rparr>
           | Inl m \<Rightarrow> confirmed\<lparr>sc_storage := st, sc_error := Some m\<rparr>),
           [Settled (sc_identity original)])))"

definition sc_closeRejected :: "sc_hook \<Rightarrow> sc_state \<Rightarrow> sc_state \<times> sc_command signal list" where
  "sc_closeRejected h s = (case sc_intent s of
     None \<Rightarrow> (s, [])
   | Some v \<Rightarrow>
       if \<not> sc_rejected s \<or> sc_pending s then (s, [])
       else (case clearStatementIntent (sc_storage s) (sc_key h) v of
               (st, Inr _) \<Rightarrow> (s\<lparr>sc_storage := st, sc_intent := None, sc_rejected := False, sc_error := None\<rparr>, [Abandoned])
             | (st, Inl m) \<Rightarrow> (s\<lparr>sc_storage := st, sc_error := Some m\<rparr>, [])))"

definition sc_unmounted :: "sc_state \<Rightarrow> sc_state" where
  "sc_unmounted s = s\<lparr>sc_intent := None, sc_pending := False, sc_blocked := False, sc_rejected := False, sc_error := None, sc_result := None,
     sc_flight := False, sc_restoring := None, sc_job := None\<rparr>"

section \<open>Events\<close>

datatype sc_event =
    SMount
  | SRestored
  | SExecute "sc_request option" "nat list option" bool
  | SPrepared string
  | SComposed
  | SResponse arrival
  | SClose
  | SUnmount
  | SLate nat sc_event
  | SReload
  | SStorage_becomes bool write_mode

text \<open>One step of a continuation, of the mounted or of an unmounted instance; \<open>None\<close> where the event is not the
  one it waits for.\<close>

definition sc_advance :: "sc_hook \<Rightarrow> sc_job \<Rightarrow> sc_event \<Rightarrow> (sc_state \<Rightarrow> sc_state \<times> sc_command signal list) option" where
  "sc_advance h j e = (case (j, e) of
     (SReading request source raw, SPrepared uuid) \<Rightarrow> Some (\<lambda>s. (sc_prepared h s request source raw uuid, []))
   | (SComposing v source, SComposed) \<Rightarrow> Some (\<lambda>s. sc_composed h s v source)
   | (SAwaiting v, SResponse a) \<Rightarrow> Some (\<lambda>s. sc_answered h s v a)
   | _ \<Rightarrow> None)"

definition sc_orphan :: "(sc_state \<Rightarrow> sc_state \<times> sc_command signal list) \<Rightarrow> sc_state \<Rightarrow> nat \<Rightarrow> sc_state \<times> sc_command signal list" where
  "sc_orphan f s i = (case f (sc_unmounted s) of (s', sg) \<Rightarrow>
     (s\<lparr>sc_storage := sc_storage s',
        sc_orphans := take i (sc_orphans s) @ (case sc_job s' of None \<Rightarrow> [] | Some j \<Rightarrow> [j]) @ drop (Suc i) (sc_orphans s)\<rparr>, sg))"

definition sc_continue :: "sc_hook \<Rightarrow> sc_state \<Rightarrow> sc_event \<Rightarrow> sc_state \<times> sc_command signal list" where
  "sc_continue h s e = (case sc_job s of None \<Rightarrow> (s, []) | Some j \<Rightarrow> (case sc_advance h j e of None \<Rightarrow> (s, []) | Some f \<Rightarrow> f s))"

fun sc_step :: "sc_hook \<Rightarrow> sc_state \<Rightarrow> sc_event \<Rightarrow> sc_state \<times> sc_command signal list" where
  "sc_step h s SMount = (sc_mount h s, [])"
| "sc_step h s SRestored = (sc_restored h s, [])"
| "sc_step h s (SExecute request source online) = (sc_execute h s request source online, [])"
| "sc_step h s (SPrepared uuid) = sc_continue h s (SPrepared uuid)"
| "sc_step h s SComposed = sc_continue h s SComposed"
| "sc_step h s (SResponse a) = sc_continue h s (SResponse a)"
| "sc_step h s SClose = sc_closeRejected h s"
| "sc_step h s SUnmount = ((sc_unmounted s)\<lparr>sc_orphans := (case sc_job s of None \<Rightarrow> sc_orphans s | Some j \<Rightarrow> j # sc_orphans s)\<rparr>, [])"
| "sc_step h s (SLate i e) =
     (if i < length (sc_orphans s) then (case sc_advance h (sc_orphans s ! i) e of None \<Rightarrow> (s, []) | Some f \<Rightarrow> sc_orphan f s i) else (s, []))"
| "sc_step h s SReload = ((sc_unmounted s)\<lparr>sc_orphans := []\<rparr>, [])"
| "sc_step h s (SStorage_becomes r w) = (s\<lparr>sc_storage := (sc_storage s)\<lparr>readable := r, write_mode := w\<rparr>\<rparr>, [])"

section \<open>Stored records\<close>

text \<open>A record that this program may hold: plain, of this identity, with a digest that is a text if there is one. A
  stored text is legible when the record in it, if any, has such a digest; the reader itself does not ask this of a
  command that is no import.\<close>

definition source_text :: "json \<Rightarrow> bool" where
  "source_text v = (field ''sourceSHA256'' v = None \<or> string_field ''sourceSHA256'' (\<lambda>_. True) v)"

definition legible :: "string option \<Rightarrow> bool" where
  "legible raw = (\<forall>t v. raw = Some t \<longrightarrow> JSON_parse t = Some v \<longrightarrow> source_text v)"

definition owned :: "sc_hook \<Rightarrow> json \<Rightarrow> bool" where
  "owned h v = (plain_json v \<and> source_text v \<and> field ''tenantId'' v = Some (JStr (sc_tenant h)) \<and> field ''actorId'' v = Some (JStr (sc_actor h)))"

lemma ordinary_names: "list_all (\<lambda>k. \<not> is_array_index k) statement_names"
  by code_simp

lemma kind_is_text: "command_route path kind = Inr k \<Longrightarrow> kind = Some (JStr (kind_name k))"
  by (auto simp: command_route_def andthen_eq_Inr split: option.splits if_splits)

lemma statement_intent_texts:
  assumes "statement_intent_ok d t a v" "source_text v" "k \<in> set statement_names" "field k v = Some x"
  shows "x = jint 1 \<or> (\<exists>s. x = JStr s)"
proof -
  have "\<exists>s. field ''kind'' v = Some (JStr s)"
    using assms(1) by (auto simp: statement_intent_ok_def split: sum.splits dest: kind_is_text)
  then show ?thesis
    using assms by (auto simp: statement_intent_ok_def statement_names_def source_text_def string_field_def split: option.splits json.splits)
qed

lemma statement_intent_plain:
  assumes "statement_intent_ok d t a v" "source_text v" and dist: "\<And>ob. v = JObj ob \<Longrightarrow> distinct (map fst ob)"
  shows "plain_json v"
proof -
  obtain ob where v: "v = JObj ob" using assms(1) by (cases v) (auto simp: statement_intent_ok_def)
  have d: "distinct (map fst ob)" using dist v by blast
  have p: "\<not> is_array_index k \<and> plain_json x" if "(k, x) \<in> set ob" for k x
  proof -
    have x: "field k v = Some x" using that d by (simp add: v)
    have "only_keys v statement_names" using assms(1) by (simp add: statement_intent_ok_def)
    then have k: "k \<in> set statement_names" using that by (auto simp: v only_keys_def list_ex_iff)
    from statement_intent_texts [OF assms(1,2) k x] k ordinary_names show ?thesis by (auto simp: list_all_iff jint_def)
  qed
  from d p show ?thesis by (auto simp: v list_all_iff)
qed

lemma sc_parse_cases:
  "sc_parse h raw = Inr (Some v) \<longleftrightarrow>
     (\<exists>t. raw = Some t \<and> length t \<le> 16384 \<and> JSON_parse t = Some v \<and> statement_intent_ok (sc_digest h) (sc_tenant h) (sc_actor h) v)"
  by (auto simp: sc_parse_def parseStatementIntent_def split: option.splits if_splits)

lemma parsed_owned:
  assumes "sc_parse h raw = Inr (Some v)" "legible raw"
  shows "owned h v"
proof -
  obtain t where t: "raw = Some t" "JSON_parse t = Some v" "statement_intent_ok (sc_digest h) (sc_tenant h) (sc_actor h) v"
    using assms(1) by (auto simp: sc_parse_cases)
  then have s: "source_text v" using assms(2) by (simp add: legible_def)
  have "plain_json v" using statement_intent_plain [OF t(3) s] parsed_object_distinct t(2) by blast
  with s t(3) show ?thesis by (simp add: owned_def statement_intent_ok_def)
qed

lemma created_owned: "createStatementIntent (sc_digest h) (sc_tenant h) (sc_actor h) path kind body sha uuid = Inr v \<Longrightarrow> owned h v"
  using ordinary_names
  by (auto simp: createStatementIntent_def statement_candidate_def statement_names_def owned_def source_text_def string_field_def jint_def andthen_eq_Inr Let_def
      split: option.splits)

lemma owned_legible: "owned h v \<Longrightarrow> legible (Some (JSON_stringify v))"
  by (simp add: owned_def legible_def JSON_roundtrip del: JSON_stringify.simps)

lemma owned_inj: "owned h v \<Longrightarrow> owned h w \<Longrightarrow> JSON_stringify v = JSON_stringify w \<Longrightarrow> v = w"
  using stringify_inj by (auto simp: owned_def)

lemma persisted_cell:
  "persistStatementIntent st k v = Inr st' \<Longrightarrow>
     (stored st k = None \<or> stored st k = Some (JSON_stringify v)) \<and> stored st' k = Some (JSON_stringify v)"
  by (auto simp: persistStatementIntent_def getItem_def Let_def andthen_eq_Inr split: if_splits)

lemma cleared_statement:
  assumes "clearStatementIntent st k v = (st', r)"
  shows "stored st' k = stored st k \<or> stored st k = Some (JSON_stringify v) \<and> stored st' k = None" "r = Inl m \<Longrightarrow> stored st' k = stored st k"
  using assms by (auto simp: clearStatementIntent_def getItem_def removeItem_def split: sum.splits option.splits if_splits write_mode.splits)

text \<open>A request that could be composed stands for a record that the reader accepts.\<close>

lemma composed_read:
  assumes "owned h v" "statementRequestBody (sc_digest h) v source = Inr body"
  shows "sc_parse h (Some (JSON_stringify v)) = Inr (Some v)"
proof -
  have ids: "field_string ''tenantId'' v = sc_tenant h" "field_string ''actorId'' v = sc_actor h"
    using assms(1) by (simp_all add: owned_def field_string_def)
  obtain r where "sc_parse h (Some (JSON_stringify v)) = Inr r"
    using assms(2) unfolding statementRequestBody_def ids sc_parse_def andthen_eq_Inr by blast
  moreover have "JSON_parse (JSON_stringify v) = Some v" using assms(1) JSON_roundtrip by (simp add: owned_def del: JSON_stringify.simps)
  ultimately show ?thesis
    by (auto simp: sc_parse_def parseStatementIntent_def simp del: JSON_stringify.simps split: if_splits)
qed

section \<open>The invariant\<close>

definition job_ok :: "sc_hook \<Rightarrow> sc_job \<Rightarrow> bool" where
  "job_ok h j = (case j of SReading request source raw \<Rightarrow> legible raw | SComposing v source \<Rightarrow> owned h v | SAwaiting v \<Rightarrow> owned h v)"

lemma job_ok_simps [simp]:
  "job_ok h (SReading request source raw) = legible raw" "job_ok h (SComposing v source) = owned h v" "job_ok h (SAwaiting v) = owned h v"
  by (simp_all add: job_ok_def)

text \<open>The stored text is legible, and an open command is the stored one; with its file it can be composed again.\<close>

definition sc_kept :: "sc_hook \<Rightarrow> storage \<Rightarrow> sc_command option \<Rightarrow> bool" where
  "sc_kept h st owed = (legible (stored st (sc_key h)) \<and> (\<forall>k. owed = Some k \<longrightarrow> (\<exists>c source body. owned h c \<and> stored st (sc_key h) = Some (JSON_stringify c)
     \<and> sc_identity c = k \<and> statementRequestBody (sc_digest h) c source = Inr body)))"

definition sc_inv :: "sc_hook \<Rightarrow> sc_state \<Rightarrow> sc_command option \<Rightarrow> bool" where
  "sc_inv h s owed =
     ((\<forall>v. sc_intent s = Some v \<longrightarrow> owned h v) \<and> (\<forall>raw. sc_restoring s = Some raw \<longrightarrow> legible raw)
      \<and> (\<forall>j. sc_job s = Some j \<longrightarrow> job_ok h j) \<and> list_all (job_ok h) (sc_orphans s) \<and> sc_kept h (sc_storage s) owed)"

lemma sc_inv_simps [simp]:
  "sc_inv h (s\<lparr>sc_error := e\<rparr>) owed = sc_inv h s owed" "sc_inv h (s\<lparr>sc_blocked := b\<rparr>) owed = sc_inv h s owed"
  "sc_inv h (s\<lparr>sc_result := r\<rparr>) owed = sc_inv h s owed" "sc_inv h (s\<lparr>sc_rejected := b\<rparr>) owed = sc_inv h s owed"
  "sc_inv h (s\<lparr>sc_flight := b\<rparr>) owed = sc_inv h s owed" "sc_inv h (s\<lparr>sc_pending := b\<rparr>) owed = sc_inv h s owed"
  by (simp_all add: sc_inv_def)

lemma sc_inv_finished: "sc_inv h s owed \<Longrightarrow> sc_inv h (sc_finished s) owed"
  by (simp add: sc_inv_def sc_finished_def)

lemma sc_inv_failed: "sc_inv h s owed \<Longrightarrow> sc_inv h (sc_failed m s) owed"
  by (simp add: sc_failed_def sc_inv_finished)

lemma sc_inv_unmounted: "sc_inv h s owed \<Longrightarrow> sc_inv h (sc_unmounted s) owed"
  by (simp add: sc_inv_def sc_unmounted_def)

lemma sc_inv_intent: "sc_inv h s owed \<Longrightarrow> (\<And>v. i = Some v \<Longrightarrow> owned h v) \<Longrightarrow> sc_inv h (s\<lparr>sc_intent := i\<rparr>) owed"
  by (simp add: sc_inv_def)

lemma sc_inv_job: "sc_inv h s owed \<Longrightarrow> job_ok h j \<Longrightarrow> sc_inv h (s\<lparr>sc_job := Some j\<rparr>) owed"
  by (simp add: sc_inv_def)

lemma sc_inv_storage: "sc_inv h s owed \<Longrightarrow> sc_kept h st owed' \<Longrightarrow> sc_inv h (s\<lparr>sc_storage := st\<rparr>) owed'"
  by (simp add: sc_inv_def)

lemma sc_inv_kept: "sc_inv h s owed \<Longrightarrow> sc_kept h (sc_storage s) owed"
  by (simp add: sc_inv_def)

text \<open>Storing a record disturbs no open command: where one is open, only its own text may be stored again.\<close>

lemma persisted_kept:
  assumes "persistStatementIntent st (sc_key h) v = Inr st'" "owned h v" "sc_kept h st owed"
  shows "sc_kept h st' owed" "permitted owed (Sent (sc_identity v))"
    "statementRequestBody (sc_digest h) v source = Inr body \<Longrightarrow> sc_kept h st' (Some (sc_identity v))"
proof -
  note cell = persisted_cell [OF assms(1)]
  have legible: "legible (stored st' (sc_key h))" using cell owned_legible [OF assms(2)] by simp
  have same: "c = v" if "owned h c" "stored st (sc_key h) = Some (JSON_stringify c)" for c
    using cell owned_inj [OF that(1) assms(2)] that(2) by simp
  then show "sc_kept h st' owed" using assms(3) legible cell unfolding sc_kept_def by metis
  show "permitted owed (Sent (sc_identity v))" using assms(3) same by (cases owed) (auto simp: sc_kept_def)
  show "statementRequestBody (sc_digest h) v source = Inr body \<Longrightarrow> sc_kept h st' (Some (sc_identity v))"
    using legible cell assms(2) by (auto simp: sc_kept_def)
qed

lemma cleared_statement_kept:
  assumes "clearStatementIntent st (sc_key h) v = (st', r)" "owned h v" "sc_kept h st owed"
  shows "sc_kept h st' (after_signal owed (Settled (sc_identity v)))"
proof -
  have legible: "legible (stored st' (sc_key h))" using cleared_statement(1) [OF assms(1)] assms(3) by (auto simp: sc_kept_def legible_def)
  show ?thesis
  proof (cases "owed = Some (sc_identity v)")
    case False
    have "stored st' (sc_key h) = stored st (sc_key h)" if "owed = Some k" for k
    proof -
      obtain c where c: "owned h c" "stored st (sc_key h) = Some (JSON_stringify c)" "sc_identity c = k"
        using assms(3) \<open>owed = Some k\<close> unfolding sc_kept_def by blast
      then have "JSON_stringify c \<noteq> JSON_stringify v" using False that owned_inj [OF c(1) assms(2)] by blast
      then show ?thesis using cleared_statement(1) [OF assms(1)] c(2) by simp
    qed
    then show ?thesis using assms(3) False legible by (auto simp: sc_kept_def)
  qed (simp add: sc_kept_def legible)
qed

lemma sc_prepared_inv:
  assumes "sc_inv h s owed" "legible raw"
  shows "sc_inv h (sc_prepared h s request source raw uuid) owed"
proof (cases "sc_parse h raw")
  case (Inr saved)
  show ?thesis
  proof (cases saved)
    case None
    show ?thesis
    proof (cases request)
      case (Some r)
      show ?thesis
      proof (cases "createStatementIntent (sc_digest h) (sc_tenant h) (sc_actor h) (ask_path r) (ask_kind r) (ask_body r) (ask_sha r) uuid")
        case original: (Inr v)
        note o = created_owned [OF original]
        show ?thesis
        proof (cases "persistStatementIntent (sc_storage s) (sc_key h) v")
          case (Inr st)
          have "sc_kept h st owed" by (rule persisted_kept(1) [OF Inr o sc_inv_kept [OF assms(1)]])
          then show ?thesis
            using o assms(1) by (auto simp: sc_prepared_def \<open>sc_parse h raw = Inr saved\<close> None Some original Inr intro!: sc_inv_job sc_inv_intent sc_inv_storage)
        qed (use assms in \<open>simp add: sc_prepared_def \<open>sc_parse h raw = Inr saved\<close> None Some original sc_inv_failed\<close>)
      qed (use assms in \<open>simp add: sc_prepared_def \<open>sc_parse h raw = Inr saved\<close> None Some sc_inv_failed\<close>)
    qed (use assms in \<open>auto simp: sc_prepared_def Inr None intro!: sc_inv_finished sc_inv_intent\<close>)
  next
    case (Some v)
    have "owned h v" using parsed_owned assms(2) Inr Some by blast
    with assms(1) show ?thesis by (auto simp: sc_prepared_def Inr Some intro!: sc_inv_finished sc_inv_job sc_inv_intent)
  qed
qed (use assms in \<open>simp add: sc_prepared_def sc_inv_failed\<close>)

abbreviation keeps_discipline :: "sc_hook \<Rightarrow> sc_command option \<Rightarrow> sc_state \<times> sc_command signal list \<Rightarrow> bool" where
  "keeps_discipline h owed x \<equiv> disciplined owed (snd x) \<and> sc_inv h (fst x) (owed_after owed (snd x))"

lemma sc_composed_step:
  assumes "sc_inv h s owed" "owned h v"
  shows "keeps_discipline h owed (sc_composed h s v source)"
proof (cases "andthen (statementRequestBody (sc_digest h) v source) (\<lambda>_. persistStatementIntent (sc_storage s) (sc_key h) v)")
  case (Inr st)
  then obtain body where b: "statementRequestBody (sc_digest h) v source = Inr body" "persistStatementIntent (sc_storage s) (sc_key h) v = Inr st"
    by (auto simp: andthen_eq_Inr)
  note k = persisted_kept [OF b(2) assms(2) sc_inv_kept [OF assms(1)]]
  show ?thesis
    using assms k(2) k(3) [OF b(1)] by (simp add: sc_composed_def Inr sc_inv_def)
qed (use assms in \<open>simp add: sc_composed_def sc_inv_finished\<close>)

lemma sc_failure_shown_inv: "sc_inv h s owed \<Longrightarrow> sc_inv h (sc_failure_shown a s) owed"
  by (simp add: sc_failure_shown_def Let_def split: arrival.split option.split)

lemma sc_answered_step:
  assumes "sc_inv h s owed" "owned h v"
  shows "keeps_discipline h owed (sc_answered h s v a)"
proof (cases "sc_receipt a")
  case None
  then show ?thesis using assms(1) by (simp add: sc_answered_def sc_inv_finished sc_failure_shown_inv)
next
  case (Some receipt)
  obtain st r where c: "clearStatementIntent (sc_storage s) (sc_key h) v = (st, r)" by fastforce
  have "sc_kept h st (after_signal owed (Settled (sc_identity v)))"
    by (rule cleared_statement_kept [OF c assms(2) sc_inv_kept [OF assms(1)]])
  then show ?thesis
    using assms(1) by (cases r) (auto simp: sc_answered_def Some c Let_def sc_inv_def sc_finished_def)
qed

lemma sc_close_step:
  assumes "sc_inv h s owed"
  shows "keeps_discipline h owed (sc_closeRejected h s)"
proof (cases "sc_intent s")
  case (Some v)
  obtain st r where c: "clearStatementIntent (sc_storage s) (sc_key h) v = (st, r)" by fastforce
  have "sc_kept h st owed" if "r = Inl m" for m
    using cleared_statement(2) [OF c that] sc_inv_kept [OF assms] by (simp add: sc_kept_def)
  moreover have "sc_kept h st None" using cleared_statement(1) [OF c] sc_inv_kept [OF assms] by (auto simp: sc_kept_def legible_def)
  ultimately show ?thesis
    using assms by (cases r) (auto simp: sc_closeRejected_def Some c sc_inv_def)
qed (use assms in \<open>simp add: sc_closeRejected_def\<close>)

text \<open>A continuation keeps the discipline wherever it runs, in the mounted instance or after it.\<close>

lemma sc_advance_step:
  assumes "sc_inv h s owed" "job_ok h j" "sc_advance h j e = Some f"
  shows "keeps_discipline h owed (f s)"
  using assms(2,3) sc_prepared_inv [OF assms(1)] sc_composed_step [OF assms(1)] sc_answered_step [OF assms(1)]
  by (auto simp: sc_advance_def split: sc_job.splits sc_event.splits)

lemma sc_continue_step:
  assumes "sc_inv h s owed"
  shows "keeps_discipline h owed (sc_continue h s e)"
proof (cases "sc_job s")
  case (Some j)
  then have "job_ok h j" using assms by (simp add: sc_inv_def)
  then show ?thesis using sc_advance_step [OF assms] assms by (cases "sc_advance h j e") (simp_all add: sc_continue_def Some)
qed (use assms in \<open>simp add: sc_continue_def\<close>)

lemma sc_orphan_step:
  assumes inv: "sc_inv h s owed" and f: "keeps_discipline h owed (f (sc_unmounted s))"
  shows "keeps_discipline h owed (sc_orphan f s i)"
proof -
  obtain t sg where t: "f (sc_unmounted s) = (t, sg)" by fastforce
  have "list_all (job_ok h) (take i (sc_orphans s) @ (case sc_job t of None \<Rightarrow> [] | Some j \<Rightarrow> [j]) @ drop (Suc i) (sc_orphans s))"
    using inv f by (auto simp: t sc_inv_def list_all_iff split: option.splits dest: in_set_takeD in_set_dropD)
  with inv f show ?thesis by (simp add: sc_orphan_def t sc_inv_def)
qed

lemma sc_execute_inv: "sc_inv h s owed \<Longrightarrow> sc_inv h (sc_execute h s request source online) owed"
  by (auto simp: sc_execute_def sc_failed_def sc_inv_def sc_kept_def sc_finished_def getItem_def Let_def split: sum.splits if_splits)

lemma sc_restored_inv: "sc_inv h s owed \<Longrightarrow> sc_inv h (sc_restored h s) owed"
  using parsed_owned by (auto simp: sc_restored_def sc_inv_def split: option.split sum.split)

lemma sc_mount_inv: "sc_inv h s owed \<Longrightarrow> sc_inv h (sc_mount h s) owed"
  by (auto simp: sc_mount_def sc_inv_def sc_kept_def getItem_def split: sum.splits if_splits)

text \<open>A first page view: nothing runs, and a text left in the storage is legible.\<close>

definition sc_start :: "sc_hook \<Rightarrow> sc_state \<Rightarrow> bool" where
  "sc_start h s = (sc_intent s = None \<and> sc_restoring s = None \<and> sc_job s = None \<and> sc_orphans s = [] \<and> legible (stored (sc_storage s) (sc_key h)))"

interpretation statement_hook: command_hook "sc_start h" "sc_step h" "\<lambda>e. True" "sc_inv h" for h
proof
  show "sc_inv h s None" if "sc_start h s" for s using that by (simp add: sc_inv_def sc_start_def sc_kept_def)
  fix s owed e s' sg
  assume a: "sc_inv h s owed" "sc_step h s e = (s', sg)"
  have "keeps_discipline h owed (sc_step h s e)"
  proof (cases e)
    case (SLate i e')
    show ?thesis
    proof (cases "i < length (sc_orphans s)")
      case True
      have ok: "job_ok h (sc_orphans s ! i)" using a(1) True by (simp add: sc_inv_def list_all_length)
      have "keeps_discipline h owed (sc_orphan f s i)" if "sc_advance h (sc_orphans s ! i) e' = Some f" for f
        by (rule sc_orphan_step [of h s owed f, OF a(1) sc_advance_step [OF sc_inv_unmounted [OF a(1)] ok that]])
      then show ?thesis using a(1) by (cases "sc_advance h (sc_orphans s ! i) e'") (simp_all add: SLate True)
    qed (use a(1) in \<open>simp add: SLate\<close>)
  next
    case SUnmount
    then show ?thesis using a(1) by (auto simp: sc_inv_def sc_unmounted_def split: option.split)
  next
    case SReload
    then show ?thesis using a(1) by (simp add: sc_inv_def sc_unmounted_def)
  next
    case (SStorage_becomes r w)
    then show ?thesis using a(1) by (simp add: sc_inv_def sc_kept_def)
  qed (simp_all add: a(1) sc_continue_step sc_close_step sc_execute_inv sc_restored_inv sc_mount_inv)
  then show "disciplined owed sg" "sc_inv h s' (owed_after owed sg)" by (simp_all add: a(2))
qed

section \<open>Properties\<close>

text \<open>C28: A statement command is never repeated as a second command while its outcome is open. Whatever the user,
  the network, the storage and the continuations of unmounted instances do, in whatever order, a command sent
  after another whose outcome has neither arrived nor been closed by the user is that same command: the same path,
  idempotency key and payload, which for an import holds the digest of the file. The only thing asked of the page is
  that a record left in its storage has, if any, a digest that is a text.\<close>

theorem open_statement_keeps_its_command:
  assumes "sc_start h s" "snd (run_hook (sc_step h) s es) = xs @ [Sent k] @ ys @ [Sent k'] @ zs"
    and "Settled k \<notin> set ys" "Abandoned \<notin> set ys"
  shows "k' = k"
proof -
  have "list_all (\<lambda>e. True) es" by (simp add: list_all_iff)
  from statement_hook.open_command_repeated [OF assms(1) this assms(2-4)] show ?thesis .
qed


text \<open>What an import sends: the mapping of the stored record and the bytes of a file with the recorded digest.\<close>

lemma import_sends_original_file:
  assumes "statementRequestBody digest_of v source = Inr body" "field ''kind'' v = Some (JStr ''import'')"
  obtains bytes mapping where "source = Some bytes" "length bytes \<le> maxStatementSourceBytes" "field ''sourceSHA256'' v = Some (JStr (digest_of bytes))"
    "JSON_parse (field_string ''payload'' v) = Some mapping"
    "body = JSON_stringify (JObj [(''mapping_id'', JStr (field_string ''mapping_id'' mapping)), (''source_base64'', JStr (base64 bytes))])"
  using assms by (auto simp: statementRequestBody_def andthen_eq_Inr simp del: JSON_stringify.simps split: option.splits if_splits)

text \<open>A new import is accepted by the reader, and with its file it can be sent.\<close>

lemma created_import_valid:
  assumes "createStatementIntent d t a path Import body sha uuid = Inr v" "rx_test lowerUUIDShape uuid"
  shows "statement_intent_ok d t a v" "field ''kind'' v = Some (JStr ''import'')" "field ''sourceSHA256'' v = map_option JStr sha"
    "field_string ''tenantId'' v = t" "field_string ''actorId'' v = a"
proof -
  obtain k s where r: "command_route path (Some (JStr ''import'')) = Inr k" "string_field ''mapping_id'' (rx_test lowerUUIDShape) body"
      "sha = Some s" "rx_test sha_pattern s"
    and v: "v = JObj (statement_candidate t a path Import uuid
        (JSON_stringify (JObj [(''mapping_id'', JStr (field_string ''mapping_id'' body)), (''source_sha256'', JStr s)])) sha
      @ [(''integrity'', JStr (statement_integrity d (JObj (statement_candidate t a path Import uuid
        (JSON_stringify (JObj [(''mapping_id'', JStr (field_string ''mapping_id'' body)), (''source_sha256'', JStr s)])) sha))))])"
    using assms(1) by (auto simp: createStatementIntent_def import_payload_def andthen_eq_Inr Let_def kind_name_def simp del: JSON_stringify.simps
      split: option.splits if_splits)
  have k: "k = Import" using kind_is_text [OF r(1)] by (cases k) (simp_all add: kind_name_def)
  have "\<not> rx_test sha_pattern []" by code_simp
  then have s: "s \<noteq> []" using r(4) by metis
  let ?payload = "JObj [(''mapping_id'', JStr (field_string ''mapping_id'' body)), (''source_sha256'', JStr s)]"
  have names: "\<not> is_array_index ''mapping_id''" "\<not> is_array_index ''source_sha256''" by code_simp+
  have parse: "JSON_parse (JSON_stringify ?payload) = Some ?payload" using names by (intro JSON_roundtrip) simp
  have id: "rx_test lowerUUIDShape (field_string ''mapping_id'' body)"
    using r(2) by (auto simp: string_field_def field_string_def split: option.splits json.splits)
  define text_of where "text_of = JSON_stringify ?payload"
  have v': "v = JObj ([(''version'', jint 1), (''tenantId'', JStr t), (''actorId'', JStr a), (''path'', JStr path), (''kind'', JStr ''import''),
      (''key'', JStr uuid), (''payload'', JStr text_of), (''sourceSHA256'', JStr s)]
      @ [(''integrity'', JStr (statement_integrity d (JObj [(''version'', jint 1), (''tenantId'', JStr t), (''actorId'', JStr a), (''path'', JStr path),
          (''kind'', JStr ''import''), (''key'', JStr uuid), (''payload'', JStr text_of), (''sourceSHA256'', JStr s)])))])"
    using s unfolding v text_of_def [symmetric] by (simp add: statement_candidate_def kind_name_def r(3) nonempty_def)
  have sha: "field ''sourceSHA256'' v = Some (JStr s)" by (simp add: v')
  have payload: "stored_payload_ok Import v ?payload"
    using id r(4) sha by (simp add: stored_payload_ok_def only_keys_def string_field_def)
  show "statement_intent_ok d t a v"
    using r(1) k assms(2) parse payload unfolding text_of_def [symmetric]
    by (simp add: v' statement_intent_ok_def string_field_def field_string_def only_keys_def statement_names_def statement_integrity_def del: JSON_stringify.simps)
  show "field ''kind'' v = Some (JStr ''import'')" "field ''sourceSHA256'' v = map_option JStr sha" "field_string ''tenantId'' v = t" "field_string ''actorId'' v = a"
    by (simp_all add: v' r(3) field_string_def)
qed

text \<open>An import that loses its answer, and its retry after a reload.\<close>

definition sample_sc_hook :: sc_hook where
  "sample_sc_hook = \<lparr>sc_tenant = ''acme'', sc_actor = ''alice'', sc_digest = (\<lambda>bytes. replicate 64 CHR ''a'')\<rparr>"

definition sample_import :: sc_request where
  "sample_import = \<lparr>ask_kind = Import, ask_path = ''/api/statement-reconciliation/imports'', ask_body = JObj [(''mapping_id'', JStr sample_hold)],
     ask_sha = Some (replicate 64 CHR ''a'')\<rparr>"

definition sample_import_record :: json where
  "sample_import_record = (case createStatementIntent (sc_digest sample_sc_hook) (sc_tenant sample_sc_hook) (sc_actor sample_sc_hook)
     (ask_path sample_import) (ask_kind sample_import) (ask_body sample_import) (ask_sha sample_import) sample_hold of Inr v \<Rightarrow> v | Inl _ \<Rightarrow> JNull)"

definition sample_sc :: sc_state where
  "sample_sc = \<lparr>sc_storage = \<lparr>stored = (\<lambda>k. None), readable = True, write_mode = Writes\<rparr>, sc_intent = None, sc_pending = False,
     sc_blocked = False, sc_rejected = False, sc_error = None, sc_result = None, sc_flight = False, sc_restoring = None, sc_job = None,
     sc_orphans = []\<rparr>"

definition sample_sc_events :: "sc_event list" where
  "sample_sc_events = [SMount, SRestored, SExecute (Some sample_import) (Some [105, 100]) True, SPrepared sample_hold, SComposed, SResponse Lost]"

lemma sample_import_created:
  "createStatementIntent (sc_digest sample_sc_hook) (sc_tenant sample_sc_hook) (sc_actor sample_sc_hook)
     (ask_path sample_import) (ask_kind sample_import) (ask_body sample_import) (ask_sha sample_import) sample_hold = Inr sample_import_record"
proof -
  have "\<not> isl (createStatementIntent (sc_digest sample_sc_hook) (sc_tenant sample_sc_hook) (sc_actor sample_sc_hook)
     (ask_path sample_import) (ask_kind sample_import) (ask_body sample_import) (ask_sha sample_import) sample_hold)" by code_simp
  then show ?thesis unfolding sample_import_record_def by (auto simp del: JSON_stringify.simps split: sum.splits)
qed

lemma sample_import_composed: "\<exists>body. statementRequestBody (sc_digest sample_sc_hook) sample_import_record (Some [105, 100]) = Inr body"
proof -
  have id: "rx_test lowerUUIDShape sample_hold" by code_simp
  have kind: "ask_kind sample_import = Import" by (simp add: sample_import_def)
  note v = created_import_valid [OF sample_import_created [unfolded kind] id]
  have "length (JSON_stringify sample_import_record) \<le> 600" by code_simp
  then have "sc_parse sample_sc_hook (Some (JSON_stringify sample_import_record)) = Inr (Some sample_import_record)"
    using v(1) created_owned [OF sample_import_created] unfolding sc_parse_cases owned_def by (simp add: JSON_roundtrip del: JSON_stringify.simps)
  moreover obtain m where "JSON_parse (field_string ''payload'' sample_import_record) = Some m"
    using v(1) by (auto simp: statement_intent_ok_def split: sum.splits option.splits)
  moreover have "field ''sourceSHA256'' sample_import_record = Some (JStr (sc_digest sample_sc_hook [105, 100]))"
    unfolding v(3) by (simp add: sample_import_def sample_sc_hook_def)
  ultimately show ?thesis
    using v(2,4,5) by (simp add: statementRequestBody_def sc_parse_def maxStatementSourceBytes_def del: JSON_stringify.simps)
qed

lemmas sample_sc_evaluation = sc_mount_def sc_restored_def sc_execute_def sc_continue_def sc_advance_def sc_prepared_def sc_composed_def
  persistStatementIntent_def getItem_def setItem_def sc_answered_def sc_receipt_def sc_failure_shown_def sc_finished_def Let_def

lemma sample_sc_run:
  "\<exists>s. run_hook (sc_step sample_sc_hook) sample_sc sample_sc_events = (s, [Sent (sc_identity sample_import_record)])
     \<and> stored (sc_storage s) (sc_key sample_sc_hook) = Some (JSON_stringify sample_import_record)
     \<and> readable (sc_storage s) \<and> write_mode (sc_storage s) = Writes"
proof -
  obtain body where "statementRequestBody (sc_digest sample_sc_hook) sample_import_record (Some [105, 100]) = Inr body"
    using sample_import_composed by blast
  moreover have "sc_parse sample_sc_hook None = Inr None" by (simp add: sc_parse_def parseStatementIntent_def)
  ultimately show ?thesis
    using sample_import_created by (simp add: sample_sc_events_def sample_sc_def sample_sc_evaluation del: JSON_stringify.simps)
qed

lemma sample_sc_start: "sc_start sample_sc_hook sample_sc"
  by (simp add: sc_start_def sample_sc_def legible_def)


lemma sample_sc_retried:
  "\<exists>s. run_hook (sc_step sample_sc_hook) sample_sc (sample_sc_events @ [SExecute None (Some [105, 100]) True, SPrepared sample_hold, SComposed])
     = (s, [Sent (sc_identity sample_import_record), Sent (sc_identity sample_import_record)])"
proof -
  obtain body where body: "statementRequestBody (sc_digest sample_sc_hook) sample_import_record (Some [105, 100]) = Inr body"
    using sample_import_composed by blast
  have "sc_parse sample_sc_hook None = Inr None" by (simp add: sc_parse_def parseStatementIntent_def)
  with body composed_read [OF created_owned [OF sample_import_created] body] show ?thesis
    using sample_import_created by (simp add: sample_sc_events_def sample_sc_def sample_sc_evaluation del: JSON_stringify.simps)
qed

theorem open_statement_keeps_its_command_witness:
  "\<exists>k k'. snd (run_hook (sc_step sample_sc_hook) sample_sc (sample_sc_events @ [SExecute None (Some [105, 100]) True, SPrepared sample_hold, SComposed]))
     = [] @ [Sent k] @ [] @ [Sent k'] @ [] \<and> k' = k"
proof -
  have run: "snd (run_hook (sc_step sample_sc_hook) sample_sc (sample_sc_events @ [SExecute None (Some [105, 100]) True, SPrepared sample_hold, SComposed]))
      = [] @ [Sent (sc_identity sample_import_record)] @ [] @ [Sent (sc_identity sample_import_record)] @ []"
    using sample_sc_retried by (metis append_Cons append_Nil snd_conv)
  from open_statement_keeps_its_command [OF sample_sc_start run] run show ?thesis by (intro exI conjI) simp_all
qed

end
