(* ===== verification/OperationsRead.thy ===== *)
theory OperationsRead
  imports Operations Commands
begin

text \<open>
  The BFF's reads of operational evidence: \<^verbatim>\<open>web/src/lib/operations-read.ts\<close>, \<^verbatim>\<open>trace-viewer.ts\<close> and the
  routes under \<^verbatim>\<open>web/src/app/api\<close> for events and webhook endpoints. \<^verbatim>\<open>Date.parse\<close> on arbitrary text is the
  parameter \<open>parse_date\<close>; how the reading of a body fails is told by the upstream's \<open>up_text\<close>.
\<close>

section \<open>Authorization and queries\<close>

definition authorizeOperationsRead ::
  "server \<Rightarrow> 'st limiter \<Rightarrow> 'st \<Rightarrow> request \<Rightarrow> session option \<Rightarrow> string \<Rightarrow> 'st \<times> (response + session)" where
  "authorizeOperationsRead srv consume st request session scope =
     (if http_method request \<noteq> ''GET'' then (st, Inl (method_denial ''GET''))
      else case session of
        None \<Rightarrow> (st, Inl (jsonError ''unauthorized'' 401))
      | Some s \<Rightarrow>
          if \<not> has_scope s scope then (st, Inl (jsonError ''forbidden'' 403))
          else if \<not> hasValidHost (srv_URL srv) (srv_env srv) request then (st, Inl (jsonError ''invalid_request'' 400))
          else limited consume st (''operations:'' @ scope @ '':'' @ tenantId s @ '':'' @ subjectId s) 60 60 s)"

definition operations_limit :: rx where
  "operations_limit = RSeq (RSet (\<lambda>c. is_digit c \<and> c \<noteq> CHR ''0'')) (RRep (RSet is_digit) 0 2)"

text \<open>The tests on one value of the query.\<close>

definition operations_value_ok :: "(string \<Rightarrow> int option) \<Rightarrow> string \<Rightarrow> string \<Rightarrow> bool" where
  "operations_value_ok parse_date key value =
     (value \<noteq> [] \<and> length value \<le> (if key = ''cursor'' then 2048 else 256)
      \<and> (key = ''limit'' \<longrightarrow> rx_test operations_limit value \<and> digits_value value \<le> 100)
      \<and> (key = ''state'' \<longrightarrow> List.member [''pending'', ''retrying'', ''published'', ''dead''] value)
      \<and> (key = ''status'' \<longrightarrow> List.member [''pending_verification'', ''active'', ''disabled''] value)
      \<and> (key = ''from'' \<or> key = ''to'' \<longrightarrow> parse_date value \<noteq> None)
      \<and> (key = ''eventType'' \<longrightarrow> rx_test identifier_pattern value)
      \<and> (key = ''endpointId'' \<or> key = ''relatedId'' \<or> key = ''correlationId'' \<longrightarrow> rx_test canonicalUUIDShape value))"

fun operations_values :: "(string \<Rightarrow> int option) \<Rightarrow> params \<Rightarrow> string list \<Rightarrow> params \<Rightarrow> params option" where
  "operations_values parse_date ps [] query = Some query"
| "operations_values parse_date ps (key # keys) query =
     (case nonempty (get_param key ps) of
        None \<Rightarrow> operations_values parse_date ps keys query
      | Some raw \<Rightarrow>
          if operations_value_ok parse_date key (trim raw) then operations_values parse_date ps keys (set_param key (trim raw) query) else None)"

definition ordered_range :: "(string \<Rightarrow> int option) \<Rightarrow> params \<Rightarrow> bool" where
  "ordered_range parse_date query = (case (nonempty (get_param ''from'' query), nonempty (get_param ''to'' query)) of
     (Some a, Some b) \<Rightarrow> (case (parse_date a, parse_date b) of (Some x, Some y) \<Rightarrow> x \<le> y | _ \<Rightarrow> True)
   | _ \<Rightarrow> True)"

definition strictOperationsQuery :: "(string \<Rightarrow> int option) \<Rightarrow> request \<Rightarrow> string list \<Rightarrow> params option" where
  "strictOperationsQuery parse_date request query_names =
     (let ps = searchParams request in
      if list_ex (\<lambda>p. \<not> List.member query_names (fst p) \<or> length (getAll (fst p) ps) \<noteq> 1) ps then None
      else case operations_values parse_date ps query_names [] of
        None \<Rightarrow> None
      | Some query \<Rightarrow> if ordered_range parse_date query then Some query else None)"

section \<open>Reading and answering\<close>

definition safeHeaders :: "headers \<Rightarrow> headers" where
  "safeHeaders up =
     [(''Cache-Control'', ''no-store'')]
     @ (case safeResponseHeader (get_header ''x-request-id'' up) request_id_pattern of Some v \<Rightarrow> [(''X-Request-ID'', v)] | None \<Rightarrow> [])
     @ (case safeResponseHeader (get_header ''retry-after'' up) retry_after_pattern of Some v \<Rightarrow> [(''Retry-After'', v)] | None \<Rightarrow> [])"

definition maximumOperationsResponseBytes :: nat where "maximumOperationsResponseBytes = 262144"

text \<open>The bytes received so far cannot begin a text: a fatal decoder throws at once. A text of the model
  has characters of one or two bytes.\<close>

definition malformed :: "nat list \<Rightarrow> bool" where
  "malformed bs = (utf8_decode bs = None \<and> (bs = [] \<or> \<not> (last bs = 194 \<or> last bs = 195) \<or> utf8_decode (butlast bs) = None))"

fun operations_chunks :: "string \<Rightarrow> nat list \<Rightarrow> stream_event list \<Rightarrow> string outcome" where
  "operations_chunks failure received [] = (case utf8_decode received of None \<Rightarrow> Inl ''TypeError'' | Some t \<Rightarrow> Inr t)"
| "operations_chunks failure received (Stream_failure # es) = Inl failure"
| "operations_chunks failure received (Chunk c # es) =
     (if maximumOperationsResponseBytes < length received + length c then Inl ''response_too_large''
      else if malformed (received @ c) then Inl ''TypeError''
      else operations_chunks failure (received @ c) es)"

definition read_failure :: "upstream \<Rightarrow> string" where
  "read_failure up = (if up_text up = Body_timeout then ''TimeoutError'' else ''TypeError'')"

definition readBoundedOperationsResponse :: "upstream \<Rightarrow> string outcome" where
  "readBoundedOperationsResponse up =
     (let advertised_ok = (case get_header ''content-length'' (up_headers up) of
            None \<Rightarrow> True
          | Some advertised \<Rightarrow> (case to_number advertised of
              Some (Fin q) \<Rightarrow> q = of_int \<lfloor>q\<rfloor> \<and> 0 \<le> q \<and> q \<le> of_nat maximumOperationsResponseBytes
            | _ \<Rightarrow> False)) in
      if \<not> advertised_ok then Inl ''response_too_large''
      else case up_stream up of None \<Rightarrow> Inr '''' | Some es \<Rightarrow> operations_chunks (read_failure up) [] es)"

definition proxyOperationsGET :: "server \<Rightarrow> session \<Rightarrow> string \<Rightarrow> params \<Rightarrow> (nat \<Rightarrow> json \<Rightarrow> sanitized) \<Rightarrow> exchange" where
  "proxyOperationsGET srv session path query sanitizer = (case canonicalizeUUIDPathSegments path of
     Inl _ \<Rightarrow> reply (jsonError ''validation_failed'' 400)
   | Inr canonicalPath \<Rightarrow>
       (case privateAPIContext srv session None of
          Inl _ \<Rightarrow> reply (jsonError ''temporary_unavailable'' 503)
        | Inr connection \<Rightarrow>
            (let out = \<lparr>out_url = with_query (apiURL connection @ canonicalPath) query, out_method = ''GET'',
                  out_headers = conn_headers connection, out_body = None\<rparr> in
             ([out], case srv_fetch srv out of
                Fetched up \<Rightarrow>
                  (case readBoundedOperationsResponse up of
                     Inl e \<Rightarrow> context_error ''upstream_timeout'' e
                   | Inr raw \<Rightarrow> (let s = sanitizeOperationsBody (up_status up) raw sanitizer in
                       json_response (san_body s) (san_status s) (safeHeaders (up_headers up))))
              | r \<Rightarrow> timeout_error ''upstream_timeout'' r))))"

section \<open>Routes\<close>

text \<open>The shape of the evidence routes: authorization, further tests, the query, then the proxy.\<close>

definition operations_route :: "server \<Rightarrow> 'st limiter \<Rightarrow> 'st \<Rightarrow> (string \<Rightarrow> int option) \<Rightarrow> session option \<Rightarrow> request \<Rightarrow> string \<Rightarrow> response option
    \<Rightarrow> string list \<Rightarrow> (session \<Rightarrow> params \<Rightarrow> exchange) \<Rightarrow> 'st \<times> exchange" where
  "operations_route srv consume st parse_date session request scope denial query_names act =
     (case authorizeOperationsRead srv consume st request session scope of
        (st', Inl d) \<Rightarrow> (st', reply d)
      | (st', Inr s) \<Rightarrow> (st', case denial of
          Some d \<Rightarrow> reply d
        | None \<Rightarrow> (case strictOperationsQuery parse_date request query_names of
            None \<Rightarrow> reply (jsonError ''validation_failed'' 400)
          | Some query \<Rightarrow> act s query)))"

definition denied_unless :: "bool \<Rightarrow> string \<Rightarrow> nat \<Rightarrow> response option" where
  "denied_unless accepted reason st = (if accepted then None else Some (jsonError reason st))"

definition events_GET :: "server \<Rightarrow> 'st limiter \<Rightarrow> 'st \<Rightarrow> (string \<Rightarrow> int option) \<Rightarrow> session option \<Rightarrow> request \<Rightarrow> 'st \<times> exchange" where
  "events_GET srv consume st parse_date session request =
     operations_route srv consume st parse_date session request ''events:read''
       (denied_unless (parseEventBFFSearchParams (searchParams request) \<noteq> None) ''validation_failed'' 400)
       [''eventType'', ''state'', ''endpointId'', ''relatedId'', ''correlationId'', ''from'', ''to'', ''cursor'', ''limit'']
       (\<lambda>s query. proxyOperationsGET srv s ''/api/events'' query (sanitizeEventPage (srv_date srv)))"

definition webhook_endpoints_GET :: "server \<Rightarrow> 'st limiter \<Rightarrow> 'st \<Rightarrow> (string \<Rightarrow> int option) \<Rightarrow> session option \<Rightarrow> request \<Rightarrow> 'st \<times> exchange" where
  "webhook_endpoints_GET srv consume st parse_date session request =
     operations_route srv consume st parse_date session request ''webhooks:read''
       (denied_unless (\<not> isl (parseWebhookBFFSearchParams (searchParams request))) ''validation_failed'' 400)
       [''status'', ''eventType'', ''cursor'', ''limit'']
       (\<lambda>s query. proxyOperationsGET srv s ''/api/webhook-endpoints'' query (sanitizeWebhookEndpointPage (srv_date srv) (srv_URL srv)))"

definition webhook_endpoint_GET :: "server \<Rightarrow> 'st limiter \<Rightarrow> 'st \<Rightarrow> (string \<Rightarrow> int option) \<Rightarrow> session option \<Rightarrow> request \<Rightarrow> string \<Rightarrow> 'st \<times> exchange" where
  "webhook_endpoint_GET srv consume st parse_date session request endpointId =
     operations_route srv consume st parse_date session request ''webhooks:read'' None []
       (\<lambda>s query. if \<not> rx_test canonicalUUIDShape endpointId then reply (jsonError ''validation_failed'' 400)
          else proxyOperationsGET srv s (''/api/webhook-endpoints/'' @ encodeURIComponent endpointId) query
            (sanitizeWebhookEndpointDetail (srv_date srv) (srv_URL srv)))"

text \<open>The viewer of a trace: the parsed base and its new path. The host name of a URL is a parameter.\<close>

definition traceViewerURL :: "url_parser \<Rightarrow> (url \<Rightarrow> string) \<Rightarrow> json option \<Rightarrow> string option \<Rightarrow> (url \<times> string) option" where
  "traceViewerURL new_URL hostname traceId configuredBase = (case (traceId, nonempty configuredBase) of
     (Some (JStr t), Some base_text) \<Rightarrow>
       if \<not> trace_id t \<or> 512 < length base_text then None
       else (case new_URL base_text None of
               None \<Rightarrow> None
             | Some base \<Rightarrow>
                 if username base \<noteq> '''' \<or> password base \<noteq> '''' \<or> search base \<noteq> '''' \<or> hash base \<noteq> '''' then None
                 else if protocol base \<noteq> ''https:''
                    \<and> \<not> (protocol base = ''http:'' \<and> List.member [''localhost'', ''127.0.0.1'', ''[::1]''] (hostname base)) then None
                 else Some (base, strip_slash (pathname base) @ ''/trace/'' @ t))
   | _ \<Rightarrow> None)"

text \<open>\<^verbatim>\<open>{ ...body, trace_viewer_available: b }\<close>\<close>

definition with_trace_flag :: "server \<Rightarrow> (url \<Rightarrow> string) \<Rightarrow> sanitized \<Rightarrow> sanitized" where
  "with_trace_flag srv hostname s =
     (if san_status s = 200
      then s\<lparr>san_body := JObj (members (san_body s) @ [(''trace_viewer_available'',
        JBool (traceViewerURL (srv_URL srv) hostname (field ''diagnostic_trace_id'' (san_body s)) (srv_env srv ''LEDGERSYNC_TRACE_VIEWER_BASE_URL'') \<noteq> None))])\<rparr>
      else s)"

definition event_GET :: "server \<Rightarrow> (url \<Rightarrow> string) \<Rightarrow> 'st limiter \<Rightarrow> 'st \<Rightarrow> (string \<Rightarrow> int option) \<Rightarrow> session option \<Rightarrow> request \<Rightarrow> string
    \<Rightarrow> 'st \<times> exchange" where
  "event_GET srv hostname consume st parse_date session request eventId =
     operations_route srv consume st parse_date session request ''events:read'' None []
       (\<lambda>s query. if \<not> rx_test canonicalUUIDShape eventId then reply (jsonError ''validation_failed'' 400)
          else proxyOperationsGET srv s (''/api/events/'' @ encodeURIComponent eventId) query
            (\<lambda>st v. with_trace_flag srv hostname (sanitizeEventDetail (srv_date srv) (srv_URL srv) st v)))"

text \<open>The redirect to the viewer: the record is read again under the present authority.\<close>

definition event_trace_GET :: "server \<Rightarrow> (url \<Rightarrow> string) \<Rightarrow> 'st limiter \<Rightarrow> 'st \<Rightarrow> (string \<Rightarrow> int option) \<Rightarrow> session option \<Rightarrow> request \<Rightarrow> string
    \<Rightarrow> 'st \<times> upstream_request list \<times> (response + url \<times> string)" where
  "event_trace_GET srv hostname consume st parse_date session request eventId =
     (case event_GET srv hostname consume st parse_date session request eventId of (st', sent, evidence) \<Rightarrow>
        (st', sent,
         if \<not> successful (status evidence) then Inl evidence
         else case traceViewerURL (srv_URL srv) hostname (Option.bind (JSON_parse (resp_body evidence)) (field ''diagnostic_trace_id''))
             (srv_env srv ''LEDGERSYNC_TRACE_VIEWER_BASE_URL'') of
           None \<Rightarrow> Inl (jsonError ''trace_viewer_unavailable'' 503)
         | Some target \<Rightarrow> Inr target))"


text \<open>The diagnostics of a local deployment: only its development session reads them.\<close>

definition diagnostics_GET :: "server \<Rightarrow> (url \<Rightarrow> string) \<Rightarrow> 'st limiter \<Rightarrow> 'st \<Rightarrow> (string \<Rightarrow> int option) \<Rightarrow> session option \<Rightarrow> request
    \<Rightarrow> 'st \<times> exchange" where
  "diagnostics_GET srv hostname consume st parse_date session request =
     (case readLocalAccessConfiguration (srv_URL srv) hostname (srv_env srv) of
        Inl _ \<Rightarrow> (st, reply (jsonError ''local_access_configuration_invalid'' 503))
      | Inr cfg \<Rightarrow>
          if \<not> isLocalSession session cfg then (st, reply (jsonError ''forbidden'' 403))
          else operations_route srv consume st parse_date session request ''local:read'' None []
            (\<lambda>s query. case readPublicOrigin (srv_URL srv) (srv_env srv) of
               Inl _ \<Rightarrow> reply (json_response (JObj [(''error'', JObj [(''code'', JStr ''temporary_unavailable'')])]) 503 [(''Cache-Control'', ''no-store'')])
             | Inr public \<Rightarrow> proxyOperationsGET srv s ''/api/local/diagnostics'' query
                 (sanitizeLocalDiagnostics (srv_date srv) (Some (origin public)))))"

section \<open>The reads as one family\<close>

datatype evidence = Event_list | Event_record string | Endpoint_list | Endpoint_record string | Local_diagnostics

definition read_evidence :: "server \<Rightarrow> (url \<Rightarrow> string) \<Rightarrow> 'st limiter \<Rightarrow> 'st \<Rightarrow> (string \<Rightarrow> int option) \<Rightarrow> session option \<Rightarrow> request \<Rightarrow> evidence
    \<Rightarrow> 'st \<times> exchange" where
  "read_evidence srv hostname consume st parse_date session request e = (case e of
     Event_list \<Rightarrow> events_GET srv consume st parse_date session request
   | Event_record i \<Rightarrow> event_GET srv hostname consume st parse_date session request i
   | Endpoint_list \<Rightarrow> webhook_endpoints_GET srv consume st parse_date session request
   | Endpoint_record i \<Rightarrow> webhook_endpoint_GET srv consume st parse_date session request i
   | Local_diagnostics \<Rightarrow> diagnostics_GET srv hostname consume st parse_date session request)"

text \<open>What a read needs and may ask for.\<close>

definition evidence_scope :: "evidence \<Rightarrow> string" where
  "evidence_scope e = (case e of Event_list \<Rightarrow> ''events:read'' | Event_record _ \<Rightarrow> ''events:read''
     | Endpoint_list \<Rightarrow> ''webhooks:read'' | Endpoint_record _ \<Rightarrow> ''webhooks:read'' | Local_diagnostics \<Rightarrow> ''local:read'')"

definition evidence_path :: "evidence \<Rightarrow> string option" where
  "evidence_path e = (case e of Event_list \<Rightarrow> Some ''/api/events'' | Event_record i \<Rightarrow> below ''/api/events/'' i ''''
     | Endpoint_list \<Rightarrow> Some ''/api/webhook-endpoints'' | Endpoint_record i \<Rightarrow> below ''/api/webhook-endpoints/'' i ''''
     | Local_diagnostics \<Rightarrow> Some ''/api/local/diagnostics'')"

definition evidence_filters :: "evidence \<Rightarrow> string list" where
  "evidence_filters e = (case e of
     Event_list \<Rightarrow> [''eventType'', ''state'', ''endpointId'', ''relatedId'', ''correlationId'', ''from'', ''to'', ''cursor'', ''limit'']
   | Endpoint_list \<Rightarrow> [''status'', ''eventType'', ''cursor'', ''limit''] | _ \<Rightarrow> [])"

text \<open>One GET to the path with parameters of the given names, for a session with the scope that the
  limiter admitted; a 200 has a complete success of the private API behind it.\<close>

definition guarded_read :: "server \<Rightarrow> 'st limiter \<Rightarrow> 'st \<Rightarrow> request \<Rightarrow> session option \<Rightarrow> string \<Rightarrow> string option \<Rightarrow> string list
    \<Rightarrow> exchange \<Rightarrow> bool" where
  "guarded_read srv consume st request session scope path names x =
     (\<exists>s p query out. http_method request = ''GET'' \<and> hasValidHost (srv_URL srv) (srv_env srv) request
        \<and> session = Some s \<and> has_scope s scope
        \<and> allowed (snd (consume st (''operations:'' @ scope @ '':'' @ tenantId s @ '':'' @ subjectId s) 60 60))
        \<and> fst x = [out] \<and> out_method out = ''GET'' \<and> out_body out = None
        \<and> path = Some p \<and> out_url out = with_query (session_api (srv_env srv) @ p) query \<and> set (map fst query) \<subseteq> set names
        \<and> (status (snd x) = 200 \<longrightarrow> (\<exists>up raw. srv_fetch srv out = Fetched up \<and> successful (up_status up)
             \<and> readBoundedOperationsResponse up = Inr raw \<and> byte_length raw \<le> maximumUpstreamBytes)))"

section \<open>Lemmas\<close>

lemma authorize_read:
  "snd (authorizeOperationsRead srv consume st request session scope) = Inr s \<Longrightarrow>
     http_method request = ''GET'' \<and> session = Some s \<and> has_scope s scope \<and> hasValidHost (srv_URL srv) (srv_env srv) request
     \<and> allowed (snd (consume st (''operations:'' @ scope @ '':'' @ tenantId s @ '':'' @ subjectId s) 60 60))"
  by (auto simp: authorizeOperationsRead_def limited_cases split: if_splits option.splits)

lemma set_param_names: "set (map fst (set_param k v q)) \<subseteq> insert k (set (map fst q))"
  by (induction q) auto

lemma operations_values_names:
  "operations_values parse_date ps keys q = Some query \<Longrightarrow> set (map fst query) \<subseteq> set (map fst q) \<union> set keys"
proof (induction keys arbitrary: q)
  case (Cons k keys)
  show ?case
  proof (cases "nonempty (get_param k ps)")
    case None
    then show ?thesis using Cons by (auto simp del: set_map)
  next
    case (Some raw)
    then have "operations_values parse_date ps keys (set_param k (trim raw) q) = Some query"
      using Cons.prems by (simp split: if_splits)
    then have "set (map fst query) \<subseteq> set (map fst (set_param k (trim raw) q)) \<union> set keys" by (rule Cons.IH)
    then show ?thesis using set_param_names [of k "trim raw" q] by (auto simp del: set_map)
  qed
qed simp

lemma strict_query_names: "strictOperationsQuery parse_date request names = Some query \<Longrightarrow> set (map fst query) \<subseteq> set names"
  using operations_values_names [of parse_date "searchParams request" names "[]" query]
  by (auto simp: strictOperationsQuery_def Let_def split: if_splits option.splits)

lemma route_sends:
  assumes "fst (snd (operations_route srv consume st parse_date session request scope denial names act)) \<noteq> []"
  obtains s query where "snd (authorizeOperationsRead srv consume st request session scope) = Inr s"
    "strictOperationsQuery parse_date request names = Some query"
    "snd (operations_route srv consume st parse_date session request scope denial names act) = act s query"
  using assms by (auto simp: operations_route_def split: prod.splits sum.splits option.splits)

lemma proxy_sends:
  assumes "fst (proxyOperationsGET srv s path query sanitizer) \<noteq> []"
  shows "\<exists>c out. canonicalizeUUIDPathSegments path = Inr c \<and> fst (proxyOperationsGET srv s path query sanitizer) = [out]
     \<and> out_method out = ''GET'' \<and> out_body out = None \<and> out_url out = with_query (session_api (srv_env srv) @ c) query"
  using assms by (auto simp: proxyOperationsGET_def Let_def connection_url split: sum.splits)

text \<open>A sanitizer that reports a success only for a successful upstream makes every answer of the proxy
  honest: a 200 has behind it a complete upstream success, read within the bound.\<close>

locale evidence_sanitizer =
  fixes sanitizer :: "nat \<Rightarrow> json \<Rightarrow> sanitized"
  assumes honest: "san_status (sanitizer st v) = 200 \<Longrightarrow> successful st"
begin

lemma body_honest: "san_status (sanitizeOperationsBody st raw sanitizer) = 200 \<Longrightarrow> successful st \<and> byte_length raw \<le> maximumUpstreamBytes"
  using honest by (auto simp: sanitizeOperationsBody_def evidence_unavailable_def error_outcome_def split: if_splits option.splits)

lemma proxy_honest:
  assumes "proxyOperationsGET srv s path query sanitizer = ([out], r)" "status r = 200"
  shows "\<exists>up raw. srv_fetch srv out = Fetched up \<and> successful (up_status up) \<and> readBoundedOperationsResponse up = Inr raw
     \<and> byte_length raw \<le> maximumUpstreamBytes"
proof -
  have sent: "r = (case srv_fetch srv out of
      Fetched up \<Rightarrow> (case readBoundedOperationsResponse up of
         Inl e \<Rightarrow> context_error ''upstream_timeout'' e
       | Inr raw \<Rightarrow> (let s = sanitizeOperationsBody (up_status up) raw sanitizer in
           json_response (san_body s) (san_status s) (safeHeaders (up_headers up))))
    | f \<Rightarrow> timeout_error ''upstream_timeout'' f)"
    using assms(1) by (simp add: proxyOperationsGET_def Let_def split: sum.splits) blast
  have failed: "status (timeout_error c f) \<noteq> 200" "status (context_error c e) \<noteq> 200" for c f e
    by (simp_all add: timeout_error_def context_error_def jsonError_def json_response_def)
  obtain up where up: "srv_fetch srv out = Fetched up"
    using assms(2) failed(1) by (cases "srv_fetch srv out") (simp_all add: sent)
  obtain raw where raw: "readBoundedOperationsResponse up = Inr raw"
    using assms(2) failed(2) by (cases "readBoundedOperationsResponse up") (simp_all add: sent up)
  then have "san_status (sanitizeOperationsBody (up_status up) raw sanitizer) = 200"
    using assms(2) by (simp add: sent up raw Let_def json_response_def)
  with up raw body_honest show ?thesis by blast
qed

lemma route_reads:
  assumes x: "snd (operations_route srv consume st parse_date session request scope denial names act) = x" "fst x \<noteq> []"
    and act: "\<And>s query. fst (act s query) \<noteq> [] \<Longrightarrow> act s query = proxyOperationsGET srv s path query sanitizer
      \<and> (\<forall>c. canonicalizeUUIDPathSegments path = Inr c \<longrightarrow> p = Some c)"
  shows "guarded_read srv consume st request session scope p names x"
proof -
  from x obtain s query where
      s: "snd (authorizeOperationsRead srv consume st request session scope) = Inr s"
        "strictOperationsQuery parse_date request names = Some query" "x = act s query"
    by (metis route_sends)
  then have proxy: "x = proxyOperationsGET srv s path query sanitizer" and
      p: "\<And>c. canonicalizeUUIDPathSegments path = Inr c \<Longrightarrow> p = Some c" using act x(2) by blast+
  then obtain c out where out: "canonicalizeUUIDPathSegments path = Inr c" "fst x = [out]" "out_method out = ''GET''" "out_body out = None"
      "out_url out = with_query (session_api (srv_env srv) @ c) query"
    using proxy_sends [of srv s path query sanitizer] x(2) by blast
  have "proxyOperationsGET srv s path query sanitizer = ([out], snd x)" using proxy out(2) by (metis prod.collapse)
  from proxy_honest [OF this] p [OF out(1)] authorize_read [OF s(1)] strict_query_names [OF s(2)] out(2-)
  show ?thesis unfolding guarded_read_def by blast
qed

end

interpretation cleaned: evidence_sanitizer "sanitized_by clean"
  by unfold_locales (rule conjunct1, erule iffD1 [OF sanitized_by_success])

interpretation traced: evidence_sanitizer "\<lambda>st v. with_trace_flag viewer hostname (sanitized_by clean st v)"
  by unfold_locales (auto simp: with_trace_flag_def split: if_splits dest: cleaned.honest)


lemma canonical_record:
  assumes "CHR ''/'' \<notin> set base" "length base \<noteq> 36" "canonicalizeUUIDPathSegments (''/api/'' @ base @ ''/'' @ encodeURIComponent v) = Inr c"
    "rx_test canonicalUUIDShape v"
  shows "\<exists>u. canonicalUUID v = Some u \<and> c = ''/api/'' @ base @ ''/'' @ u"
proof -
  have v: "CHR ''/'' \<notin> set v" "encodeURIComponent v = v"
    using assms(4) uuid_no_slash uuid_encoded by blast+
  have "split_on CHR ''/'' (''/api/'' @ base @ ''/'' @ v) = ['''', ''api'', base, v]"
    using v(1) assms(1) split_join [of "['''', ''api'', base, v]" "CHR ''/''"] by simp
  then have c: "andthen (traverse canonical_segment ['''', ''api'', base, v]) (\<lambda>segments. Inr (join_with ''/'' segments)) = Inr c"
    using assms(3) unfolding canonicalizeUUIDPathSegments_def v(2) by simp
  show ?thesis
  proof (cases "canonicalUUID v")
    case None
    then have "canonical_segment v = Inl ''invalid UUID path segment''" using assms(4) by (simp add: canonical_segment_def)
    with c show ?thesis by (simp add: short_segment assms(2))
  next
    case (Some u)
    with c show ?thesis by (auto simp: short_segment assms(2) uuid_segment)
  qed
qed

lemma plain_paths:
  "canonicalizeUUIDPathSegments ''/api/events'' = Inr ''/api/events''"
  "canonicalizeUUIDPathSegments ''/api/webhook-endpoints'' = Inr ''/api/webhook-endpoints''"
  "canonicalizeUUIDPathSegments ''/api/local/diagnostics'' = Inr ''/api/local/diagnostics''"
  by (simp_all add: canonicalizeUUIDPathSegments_def short_segment)


lemmas evidence_defs = read_evidence_def evidence_scope_def evidence_path_def evidence_filters_def

lemma event_record_path:
  "\<forall>c. rx_test canonicalUUIDShape i \<longrightarrow> canonicalizeUUIDPathSegments (''/api/events/'' @ encodeURIComponent i) = Inr c \<longrightarrow> below ''/api/events/'' i '''' = Some c"
  using canonical_record [of "''events''" i] by auto

lemma endpoint_record_path:
  "\<forall>c. rx_test canonicalUUIDShape i \<longrightarrow> canonicalizeUUIDPathSegments (''/api/webhook-endpoints/'' @ encodeURIComponent i) = Inr c
     \<longrightarrow> below ''/api/webhook-endpoints/'' i '''' = Some c"
  using canonical_record [of "''webhook-endpoints''" i] by auto

lemma evidence_guarded:
  assumes "fst (snd (read_evidence srv hostname consume st parse_date session request e)) \<noteq> []"
  shows "guarded_read srv consume st request session (evidence_scope e) (evidence_path e) (evidence_filters e)
    (snd (read_evidence srv hostname consume st parse_date session request e))"
proof (cases e)
  case Event_list
  with assms show ?thesis
    unfolding Event_list evidence_defs evidence.case events_GET_def sanitizeEventPage_def
    by (intro cleaned.route_reads [OF refl, where path = "''/api/events''" and clean = "page ''events'' (event (srv_date srv))"])
      (simp_all only: plain_paths simp_thms sum.inject)
next
  case (Event_record i)
  with assms show ?thesis
    unfolding Event_record evidence_defs evidence.case event_GET_def sanitizeEventDetail_def
    by (intro traced.route_reads [OF refl, where path = "''/api/events/'' @ encodeURIComponent i" and viewer = srv and hostname = hostname
          and clean = "event_detail (srv_date srv) (srv_URL srv)"])
      (use event_record_path [of i] in \<open>auto simp only: fst_conv simp_thms split: if_splits\<close>)
next
  case Endpoint_list
  with assms show ?thesis
    unfolding Endpoint_list evidence_defs evidence.case webhook_endpoints_GET_def sanitizeWebhookEndpointPage_def
    by (intro cleaned.route_reads [OF refl, where path = "''/api/webhook-endpoints''"
          and clean = "page ''items'' (webhookEndpoint (srv_date srv) (srv_URL srv))"])
      (simp_all only: plain_paths simp_thms sum.inject)
next
  case (Endpoint_record i)
  with assms show ?thesis
    unfolding Endpoint_record evidence_defs evidence.case webhook_endpoint_GET_def sanitizeWebhookEndpointDetail_def
    by (intro cleaned.route_reads [OF refl, where path = "''/api/webhook-endpoints/'' @ encodeURIComponent i"
          and clean = "endpoint_detail (srv_date srv) (srv_URL srv)"])
      (use endpoint_record_path [of i] in \<open>auto simp only: fst_conv simp_thms split: if_splits\<close>)
next
  case Local_diagnostics
  then obtain cfg where cfg: "readLocalAccessConfiguration (srv_URL srv) hostname (srv_env srv) = Inr cfg" "isLocalSession session cfg"
    using assms by (auto simp: read_evidence_def diagnostics_GET_def split: sum.splits if_splits)
  show ?thesis
  proof (cases "readPublicOrigin (srv_URL srv) (srv_env srv)")
    case (Inl _)
    then show ?thesis
      using assms cfg by (auto simp: Local_diagnostics read_evidence_def diagnostics_GET_def operations_route_def split: prod.splits sum.splits option.splits)
  next
    case (Inr public)
    with assms cfg Local_diagnostics show ?thesis
      unfolding Local_diagnostics evidence_defs evidence.case diagnostics_GET_def sanitizeLocalDiagnostics_def cfg(1) sum.case Inr
      by (simp only: simp_thms if_True if_False cfg(2),
          intro cleaned.route_reads [OF refl, where path = "''/api/local/diagnostics''"
            and clean = "diagnostics (srv_date srv) (Some (origin public))"])
        (simp_all only: plain_paths simp_thms sum.inject)
  qed
qed


lemma route_silent_denied:
  assumes "fst (snd (operations_route srv consume st parse_date session request scope None names act)) = []"
    and "\<And>s query. fst (act s query) = [] \<Longrightarrow> 400 \<le> status (snd (act s query))"
  shows "400 \<le> status (snd (snd (operations_route srv consume st parse_date session request scope None names act)))"
proof (cases "snd (authorizeOperationsRead srv consume st request session scope)")
  case (Inl d)
  then have "400 \<le> status d"
    by (auto simp: authorizeOperationsRead_def method_denial_def jsonError_def json_response_def Let_def dest: limited_denied split: if_splits option.splits)
  with Inl show ?thesis by (auto simp: operations_route_def split: prod.splits)
next
  case (Inr s)
  with assms show ?thesis
    by (auto simp: operations_route_def jsonError_def json_response_def split: prod.splits option.splits)
qed

lemma proxy_silent_denied:
  "fst (proxyOperationsGET srv s path query sanitizer) = [] \<Longrightarrow> 400 \<le> status (snd (proxyOperationsGET srv s path query sanitizer))"
  by (auto simp: proxyOperationsGET_def Let_def jsonError_def json_response_def split: sum.splits)

lemma event_silent_denied:
  assumes "fst (snd (event_GET srv hostname consume st parse_date session request i)) = []"
  shows "400 \<le> status (snd (snd (event_GET srv hostname consume st parse_date session request i)))"
  using assms unfolding event_GET_def
  by (rule route_silent_denied)
    (auto simp: proxy_silent_denied jsonError_def json_response_def split: if_splits)

lemma viewer_target:
  "traceViewerURL new_URL hostname traceId base = Some (u, path) \<Longrightarrow>
     \<exists>t b. traceId = Some (JStr t) \<and> trace_id t \<and> base = Some b \<and> new_URL b None = Some u \<and> username u = '''' \<and> password u = ''''
       \<and> (protocol u = ''https:'' \<or> protocol u = ''http:'' \<and> hostname u \<in> {''localhost'', ''127.0.0.1'', ''[::1]''})
       \<and> path = strip_slash (pathname u) @ ''/trace/'' @ t"
  by (auto simp: traceViewerURL_def nonempty_def split: option.splits json.splits if_splits)

section \<open>Properties\<close>

text \<open>C15: Operational evidence is read only under its own authority. Whenever one of the evidence routes
  sends anything, the request is a GET of a session that holds the route's scope, on the configured host,
  admitted by the limiter; exactly one GET is sent, to the path of that evidence with its identifier in
  normal form and with parameters of the known names only; and a 200 is answered only for a success of the
  private API that was read completely within the bound. The redirect to the trace viewer does this read
  again, so that a saved link gives no authority, and it leads only to the configured viewer, over TLS or
  the loopback, with no credentials in the URL.\<close>

theorem evidence_reads_guarded:
  "(fst (snd (read_evidence srv hostname consume st parse_date session request e)) \<noteq> []
      \<longrightarrow> guarded_read srv consume st request session (evidence_scope e) (evidence_path e) (evidence_filters e)
            (snd (read_evidence srv hostname consume st parse_date session request e)))
   \<and> (event_trace_GET srv hostname consume st parse_date session request i = (st', sent, Inr (u, path))
      \<longrightarrow> (\<exists>answer t b. guarded_read srv consume st request session ''events:read'' (below ''/api/events/'' i '''') [] (sent, answer)
            \<and> srv_env srv ''LEDGERSYNC_TRACE_VIEWER_BASE_URL'' = Some b \<and> srv_URL srv b None = Some u \<and> username u = '''' \<and> password u = ''''
            \<and> (protocol u = ''https:'' \<or> protocol u = ''http:'' \<and> hostname u \<in> {''localhost'', ''127.0.0.1'', ''[::1]''})
            \<and> trace_id t \<and> path = strip_slash (pathname u) @ ''/trace/'' @ t))"
proof (intro conjI impI)
  assume "event_trace_GET srv hostname consume st parse_date session request i = (st', sent, Inr (u, path))"
  then obtain answer where ev: "snd (event_GET srv hostname consume st parse_date session request i) = (sent, answer)" "successful (status answer)"
      "traceViewerURL (srv_URL srv) hostname (Option.bind (JSON_parse (resp_body answer)) (field ''diagnostic_trace_id''))
        (srv_env srv ''LEDGERSYNC_TRACE_VIEWER_BASE_URL'') = Some (u, path)"
    by (auto simp: event_trace_GET_def split: prod.splits if_splits option.splits)
  then have "sent \<noteq> []" using event_silent_denied [of srv hostname consume st parse_date session request i] by auto
  then have "guarded_read srv consume st request session ''events:read'' (below ''/api/events/'' i '''') [] (sent, answer)"
    using evidence_guarded [of srv hostname consume st parse_date session request "Event_record i"] ev(1)
    by (simp add: evidence_defs)
  with viewer_target [OF ev(3)] show "\<exists>answer t b. guarded_read srv consume st request session ''events:read'' (below ''/api/events/'' i '''') [] (sent, answer)
      \<and> srv_env srv ''LEDGERSYNC_TRACE_VIEWER_BASE_URL'' = Some b \<and> srv_URL srv b None = Some u \<and> username u = '''' \<and> password u = ''''
      \<and> (protocol u = ''https:'' \<or> protocol u = ''http:'' \<and> hostname u \<in> {''localhost'', ''127.0.0.1'', ''[::1]''})
      \<and> trace_id t \<and> path = strip_slash (pathname u) @ ''/trace/'' @ t" by blast
qed (rule evidence_guarded)

text \<open>A reader with both scopes asks for a page of events.\<close>

definition sample_reader :: session where
  "sample_reader = sample_session\<lparr>scopes := Some [''events:read'', ''webhooks:read'']\<rparr>"

definition sample_read :: request where
  "sample_read = sample_request\<lparr>http_method := ''GET'', searchParams := [(''state'', ''dead'')]\<rparr>"

theorem evidence_reads_guarded_witness:
  "fst (snd (read_evidence sample_server (\<lambda>u. '''') (\<lambda>st k l w. (st, permit)) () (\<lambda>s. None) (Some sample_reader) sample_read Event_list)) \<noteq> []
   \<and> guarded_read sample_server (\<lambda>st k l w. (st, permit)) () sample_read (Some sample_reader) ''events:read'' (Some ''/api/events'')
       (evidence_filters Event_list)
       (snd (read_evidence sample_server (\<lambda>u. '''') (\<lambda>st k l w. (st, permit)) () (\<lambda>s. None) (Some sample_reader) sample_read Event_list))"
proof -
  have a: "fst (snd (read_evidence sample_server (\<lambda>u. '''') (\<lambda>st k l w. (st, permit)) () (\<lambda>s. None) (Some sample_reader) sample_read Event_list)) \<noteq> []"
    by code_simp
  have e: "evidence_scope Event_list = ''events:read''" "evidence_path Event_list = Some ''/api/events''" by (simp_all add: evidence_defs)
  show ?thesis
    using a evidence_reads_guarded [THEN conjunct1, THEN mp, OF a] unfolding e by (rule conjI)
qed

end
