(* ===== verification/Exports.thy ===== *)
theory Exports
  imports OperationsRead
begin

text \<open>
  Exports of evidence as CSV: \<^verbatim>\<open>web/src/lib/export-read.ts\<close> and the three routes under
  \<^verbatim>\<open>web/src/app/api/exports\<close>. A download is not buffered: the answer carries a stream that pulls one chunk of the
  private API at a time. \<^verbatim>\<open>Date.parse\<close> is the parameter \<open>parse_date\<close>; the end of the time allowed for an
  export shows as a failure of the upstream's stream.
\<close>

section \<open>Authorization and queries\<close>

definition maximumCSVBytes :: nat where "maximumCSVBytes = 16 * 1024 * 1024"
definition maximumErrorBytes :: nat where "maximumErrorBytes = 65536"

definition authorizeEvidenceExport ::
  "server \<Rightarrow> 'st limiter \<Rightarrow> 'st \<Rightarrow> request \<Rightarrow> session option \<Rightarrow> string \<Rightarrow> 'st \<times> (response + session)" where
  "authorizeEvidenceExport srv consume st request session additionalScope =
     (if http_method request \<noteq> ''GET'' then (st, Inl (method_denial ''GET''))
      else case session of
        None \<Rightarrow> (st, Inl (jsonError ''unauthorized'' 401))
      | Some s \<Rightarrow>
          if \<not> has_scope s ''exports:read'' \<or> \<not> has_scope s additionalScope then (st, Inl (jsonError ''forbidden'' 403))
          else if \<not> hasValidHost (srv_URL srv) (srv_env srv) request then (st, Inl (jsonError ''invalid_request'' 400))
          else limited consume st (''export:'' @ tenantId s @ '':'' @ subjectId s) 10 60 s)"

definition two_digits :: rx where "two_digits = RRep (RSet is_digit) 2 2"

definition export_date_pattern :: rx where
  "export_date_pattern =
     RSeq (RRep (RSet is_digit) 4 4) (RSeq (RChar CHR ''-'') (RSeq two_digits (RSeq (RChar CHR ''-'') (RSeq two_digits
     (RSeq (RChar CHR ''T'') (RSeq two_digits (RSeq (RChar CHR '':'') (RSeq two_digits (RSeq (RChar CHR '':'') (RSeq two_digits
     (RSeq (ROpt (RSeq (RChar CHR ''.'') (RRep (RSet is_digit) 1 9)))
       (RAlt (RChar CHR ''Z'') (RSeq (RSet (one_of ''+-'')) (RSeq two_digits (RSeq (RChar CHR '':'') two_digits)))))))))))))))"

definition strictDate :: "(string \<Rightarrow> int option) \<Rightarrow> string \<Rightarrow> bool" where
  "strictDate parse_date v = (rx_test export_date_pattern v \<and> parse_date v \<noteq> None)"

definition export_limit :: rx where
  "export_limit = RSeq (RSet (between 49 57)) (RRep (RSet is_digit) 0 4)"

definition export_value_ok :: "(string \<Rightarrow> int option) \<Rightarrow> string \<Rightarrow> string \<Rightarrow> bool" where
  "export_value_ok parse_date key v =
     (v \<noteq> [] \<and> \<not> list_ex is_control v
      \<and> (key = ''limit'' \<longrightarrow> rx_test export_limit v \<and> digits_value v \<le> 10000)
      \<and> (key = ''accountId'' \<or> key = ''runId'' \<longrightarrow> rx_test canonicalUUIDShape v)
      \<and> (key = ''from'' \<or> key = ''to'' \<longrightarrow> strictDate parse_date v)
      \<and> (key = ''q'' \<longrightarrow> length v \<le> 128)
      \<and> (key = ''status'' \<longrightarrow> List.member [''running'', ''matched'', ''mismatch'', ''failed''] v))"

fun export_values :: "(string \<Rightarrow> int option) \<Rightarrow> params \<Rightarrow> string list \<Rightarrow> params \<Rightarrow> params option" where
  "export_values parse_date ps [] query = Some query"
| "export_values parse_date ps (key # keys) query =
     (case nonempty (get_param key ps) of
        None \<Rightarrow> export_values parse_date ps keys query
      | Some raw \<Rightarrow>
          if export_value_ok parse_date key (trim raw) then export_values parse_date ps keys (set_param key (trim raw) query) else None)"

datatype export_query = For_transfers | For_account | For_reconciliation

definition export_names :: "export_query \<Rightarrow> string list" where
  "export_names family = (case family of
     For_transfers \<Rightarrow> [''accountId'', ''status'', ''q'', ''from'', ''to'', ''limit'']
   | For_reconciliation \<Rightarrow> [''runId'', ''status'', ''from'', ''to'', ''limit'']
   | For_account \<Rightarrow> [''limit''])"

definition strictExportQuery :: "(string \<Rightarrow> int option) \<Rightarrow> request \<Rightarrow> export_query \<Rightarrow> params option" where
  "strictExportQuery parse_date request family =
     (let ps = searchParams request in
      if family = For_transfers then
        map_option (\<lambda>vals. foldl (\<lambda>out key. set_present key (map_of vals key) out) [] (export_names family))
          (parseTransferSearchParams ps transferExportQueryRules)
      else if list_ex (\<lambda>p. \<not> List.member (export_names family) (fst p) \<or> length (getAll (fst p) ps) \<noteq> 1) ps then None
      else case export_values parse_date ps (export_names family) [] of
        None \<Rightarrow> None
      | Some query \<Rightarrow> if ordered_range parse_date query then Some query else None)"

section \<open>Errors and headers\<close>

definition digits_pattern :: rx where "digits_pattern = RPlus (RSet is_digit)"

definition advertised_within :: "nat \<Rightarrow> headers \<Rightarrow> bool" where
  "advertised_within maximum hs = (case get_header ''content-length'' hs of
     None \<Rightarrow> True
   | Some l \<Rightarrow> rx_test digits_pattern l \<and> digits_value l \<le> maximum)"

text \<open>Every failure to read an error has the same answer, so that the text may be decoded at the end.\<close>

fun error_chunks :: "nat list \<Rightarrow> stream_event list \<Rightarrow> string option" where
  "error_chunks received [] = utf8_decode received"
| "error_chunks received (Stream_failure # es) = None"
| "error_chunks received (Chunk c # es) =
     (if maximumErrorBytes < length received + length c then None else error_chunks (received @ c) es)"

definition readBoundedError :: "upstream \<Rightarrow> string option" where
  "readBoundedError up =
     (if \<not> advertised_within maximumErrorBytes (up_headers up) then None
      else case up_stream up of None \<Rightarrow> Some '''' | Some es \<Rightarrow> error_chunks [] es)"

definition publicErrors :: "string list" where
  "publicErrors = [''validation_failed'', ''unauthorized'', ''forbidden'', ''not_found'', ''rate_limited'', ''export_unavailable'', ''export_timeout'']"

definition safeError :: "nat \<Rightarrow> string \<Rightarrow> headers \<Rightarrow> response" where
  "safeError st raw hs =
     (let c = (case Option.bind (JSON_parse raw) error_code of
                 Some c \<Rightarrow> if List.member publicErrors c then c else ''export_unavailable''
               | None \<Rightarrow> ''export_unavailable'');
          r = jsonError c (if List.member [400, 401, 403, 404, 429, 503, 504] st then st else 503) in
      case get_header ''retry-after'' hs of
        Some t \<Rightarrow> if rx_test (RRep (RSet is_digit) 1 6) t then r\<lparr>resp_headers := set_header ''Retry-After'' t (resp_headers r)\<rparr> else r
      | None \<Rightarrow> r)"

definition csv_type_pattern :: rx where
  "csv_type_pattern = RSeq (RStr ''text/csv'') (ROpt (RSeq (RChar CHR '';'') (RSeq (RStar (RSet is_space)) (RStr ''charset=utf-8''))))"

definition disposition_pattern :: "string \<Rightarrow> rx" where
  "disposition_pattern family =
     RSeq (RStr (''attachment; filename='' @ [CHR 0x22] @ ''ledgersync-'' @ family @ ''-''))
       (RSeq (RRep (RSet is_digit) 8 8) (RSeq (RChar CHR ''T'') (RSeq (RRep (RSet is_digit) 6 6) (RStr (''Z-v2.csv'' @ [CHR 0x22])))))"

definition sanitizeExportHeaders :: "headers \<Rightarrow> string \<Rightarrow> headers option" where
  "sanitizeExportHeaders hs family =
     (case (get_header ''content-type'' hs, get_header ''content-disposition'' hs) of
        (Some type, Some disposition) \<Rightarrow>
          if \<not> rx_test csv_type_pattern (toLowerCase type) \<or> \<not> rx_test (disposition_pattern family) disposition
             \<or> get_header ''x-ledgersync-export-schema'' hs \<noteq> Some ''2'' then None
          else Some ([(''Cache-Control'', ''no-store''), (''Content-Type'', ''text/csv; charset=utf-8''), (''Content-Disposition'', disposition),
                 (''X-LedgerSync-Export-Schema'', ''2''), (''X-Content-Type-Options'', ''nosniff'')]
            @ (case get_header ''x-request-id'' hs of
                 Some i \<Rightarrow> if rx_test request_id_pattern i then [(''X-Request-ID'', i)] else []
               | None \<Rightarrow> [])
            @ (case get_header ''content-length'' hs of
                 Some l \<Rightarrow> if rx_test digits_pattern l \<and> digits_value l \<le> maximumCSVBytes then [(''Content-Length'', l)] else []
               | None \<Rightarrow> []))
      | _ \<Rightarrow> None)"

section \<open>The stream of a download\<close>

text \<open>The source of the download: what the private API still sends, how much was received, and whether the
  stream is still open. A stream that was closed, failed or cancelled is not pulled again.\<close>

datatype download_state = Open | Closed | Errored | Cancelled

record download =
  dl_source :: "stream_event list"
  dl_received :: nat
  dl_state :: download_state

definition opened :: "stream_event list \<Rightarrow> download" where
  "opened es = \<lparr>dl_source = es, dl_received = 0, dl_state = Open\<rparr>"

text \<open>One pull: the state afterwards and the bytes enqueued for the browser.\<close>

definition pull :: "download \<Rightarrow> download \<times> nat list" where
  "pull d = (if dl_state d \<noteq> Open then (d, [])
     else case dl_source d of
       [] \<Rightarrow> (d\<lparr>dl_state := Closed\<rparr>, [])
     | Stream_failure # es \<Rightarrow> (d\<lparr>dl_source := es, dl_state := Errored\<rparr>, [])
     | Chunk c # es \<Rightarrow>
         (let received = dl_received d + length c; d' = d\<lparr>dl_source := es, dl_received := received\<rparr> in
          if maximumCSVBytes < received then (d'\<lparr>dl_state := Errored\<rparr>, []) else (d', c)))"

definition cancel :: "download \<Rightarrow> download" where
  "cancel d = (if dl_state d = Open then d\<lparr>dl_state := Cancelled\<rparr> else d)"

datatype reader_event = Pull | Cancel

fun downloading :: "download \<Rightarrow> reader_event list \<Rightarrow> download \<times> nat list" where
  "downloading d [] = (d, [])"
| "downloading d (Pull # es) = (case pull d of (d', bs) \<Rightarrow> (case downloading d' es of (d'', bs') \<Rightarrow> (d'', bs @ bs')))"
| "downloading d (Cancel # es) = downloading (cancel d) es"

section \<open>The proxy and the routes\<close>

datatype export_answer = Denied response | Streaming headers download

definition proxyEvidenceExport :: "server \<Rightarrow> session \<Rightarrow> string \<Rightarrow> params \<Rightarrow> string \<Rightarrow> upstream_request list \<times> export_answer" where
  "proxyEvidenceExport srv session path query family = (case privateAPIContext srv session None of
     Inl _ \<Rightarrow> ([], Denied (jsonError ''export_unavailable'' 503))
   | Inr connection \<Rightarrow>
       (let out = \<lparr>out_url = with_query (apiURL connection @ path) query, out_method = ''GET'',
             out_headers = conn_headers connection @ [(''Accept'', ''text/csv'')], out_body = None\<rparr> in
        ([out], case srv_fetch srv out of
           Fetch_timeout \<Rightarrow> Denied (jsonError ''export_timeout'' 504)
         | Fetch_error \<Rightarrow> Denied (jsonError ''export_unavailable'' 503)
         | Fetched up \<Rightarrow>
             if \<not> successful (up_status up) then (case readBoundedError up of
                 Some raw \<Rightarrow> Denied (safeError (up_status up) raw (up_headers up))
               | None \<Rightarrow> Denied (jsonError ''export_unavailable'' 503))
             else if \<not> advertised_within maximumCSVBytes (up_headers up) then Denied (jsonError ''export_unavailable'' 503)
             else (case (sanitizeExportHeaders (up_headers up) family, up_stream up) of
                 (Some hs, Some es) \<Rightarrow> Streaming hs (opened es)
               | _ \<Rightarrow> Denied (jsonError ''export_unavailable'' 503)))))"

datatype export = Transfers_export | Reconciliation_export | Account_export string

definition export_scope :: "export \<Rightarrow> string" where
  "export_scope e = (case e of Transfers_export \<Rightarrow> ''transfers:read'' | Reconciliation_export \<Rightarrow> ''reconciliation:read''
     | Account_export _ \<Rightarrow> ''transactions:read'')"

definition export_family :: "export \<Rightarrow> string" where
  "export_family e = (case e of Transfers_export \<Rightarrow> ''transfers'' | Reconciliation_export \<Rightarrow> ''reconciliation''
     | Account_export _ \<Rightarrow> ''account-ledger'')"

definition export_kind :: "export \<Rightarrow> export_query" where
  "export_kind e = (case e of Transfers_export \<Rightarrow> For_transfers | Reconciliation_export \<Rightarrow> For_reconciliation
     | Account_export _ \<Rightarrow> For_account)"

definition export_path :: "export \<Rightarrow> string option" where
  "export_path e = (case e of Transfers_export \<Rightarrow> Some ''/api/exports/transfers.csv'' | Reconciliation_export \<Rightarrow> Some ''/api/exports/reconciliation.csv''
     | Account_export accountId \<Rightarrow>
         map_option (\<lambda>i. ''/api/exports/accounts/'' @ encodeURIComponent i @ ''/transactions.csv'') (canonicalUUID accountId))"

text \<open>The three handlers: the account is parsed after the authorization and before the query.\<close>

definition export_GET ::
  "server \<Rightarrow> 'st limiter \<Rightarrow> 'st \<Rightarrow> (string \<Rightarrow> int option) \<Rightarrow> session option \<Rightarrow> request \<Rightarrow> export \<Rightarrow> 'st \<times> upstream_request list \<times> export_answer" where
  "export_GET srv consume st parse_date session request e =
     (case authorizeEvidenceExport srv consume st request session (export_scope e) of
        (st', Inl d) \<Rightarrow> (st', [], Denied d)
      | (st', Inr s) \<Rightarrow> (st', case export_path e of
          None \<Rightarrow> ([], Denied (jsonError ''validation_failed'' 400))
        | Some path \<Rightarrow> (case strictExportQuery parse_date request (export_kind e) of
            None \<Rightarrow> ([], Denied (jsonError ''validation_failed'' 400))
          | Some query \<Rightarrow> proxyEvidenceExport srv s path query (export_family e))))"

section \<open>What is sent\<close>

lemma export_values_names:
  "export_values parse_date ps keys q = Some query \<Longrightarrow> set (map fst query) \<subseteq> set (map fst q) \<union> set keys"
proof (induction keys arbitrary: q)
  case (Cons k keys)
  show ?case
  proof (cases "nonempty (get_param k ps)")
    case None
    then show ?thesis using Cons by (auto simp del: set_map)
  next
    case (Some raw)
    then have "export_values parse_date ps keys (set_param k (trim raw) q) = Some query"
      using Cons.prems by (simp split: if_splits)
    then have "set (map fst query) \<subseteq> set (map fst (set_param k (trim raw) q)) \<union> set keys" by (rule Cons.IH)
    then show ?thesis using set_param_names [of k "trim raw" q] by (auto simp del: set_map)
  qed
qed simp

lemma set_present_names: "set (map fst (set_present k v q)) \<subseteq> insert k (set (map fst q))"
  using set_param_names by (auto simp: set_present_def split: option.splits simp del: set_map)

lemma collected_names: "set (map fst (foldl (\<lambda>out key. set_present key (f key) out) q keys)) \<subseteq> set (map fst q) \<union> set keys"
proof (induction keys arbitrary: q)
  case (Cons k keys)
  from Cons.IH [of "set_present k (f k) q"] set_present_names [of k "f k" q] show ?case by (auto simp del: set_map)
qed simp

lemma export_query_names: "strictExportQuery parse_date request family = Some query \<Longrightarrow> set (map fst query) \<subseteq> set (export_names family)"
  using collected_names [where q = "[]"] export_values_names [of parse_date "searchParams request" "export_names family" "[]" query]
  by (fastforce simp: strictExportQuery_def Let_def simp del: set_map split: if_splits option.splits)

lemma authorized_export:
  "snd (authorizeEvidenceExport srv consume st request session scope) = Inr s \<Longrightarrow>
     http_method request = ''GET'' \<and> session = Some s \<and> has_scope s ''exports:read'' \<and> has_scope s scope
     \<and> hasValidHost (srv_URL srv) (srv_env srv) request
     \<and> allowed (snd (consume st (''export:'' @ tenantId s @ '':'' @ subjectId s) 10 60))"
  by (auto simp: authorizeEvidenceExport_def limited_cases split: if_splits option.splits)

lemma export_sends:
  assumes "export_GET srv consume st parse_date session request e = (st', sent, a)" "sent \<noteq> []"
  obtains s path query where "snd (authorizeEvidenceExport srv consume st request session (export_scope e)) = Inr s"
    "export_path e = Some path" "strictExportQuery parse_date request (export_kind e) = Some query"
    "proxyEvidenceExport srv s path query (export_family e) = (sent, a)"
  using assms by (auto simp: export_GET_def split: prod.splits sum.splits option.splits)

section \<open>What the browser receives\<close>

lemma downloading_prefix:
  "downloading d evs = (d', bs) \<Longrightarrow>
     (\<exists>rest. chunk_bytes (dl_source d) = bs @ rest) \<and> (bs = [] \<or> dl_received d + length bs \<le> maximumCSVBytes)
     \<and> (dl_state d = Open \<longrightarrow> dl_state d' = Closed \<longrightarrow> bs = chunk_bytes (dl_source d) \<and> Stream_failure \<notin> set (dl_source d))
     \<and> (dl_state d \<noteq> Open \<longrightarrow> d' = d \<and> bs = [])"
proof (induction d evs arbitrary: d' bs rule: downloading.induct)
  case (2 d es)
  obtain d1 b1 where p: "pull d = (d1, b1)" by fastforce
  obtain b2 where r: "downloading d1 es = (d', b2)" "bs = b1 @ b2" using 2(2) by (auto simp: p split: prod.splits)
  have IH: "(\<exists>rest. chunk_bytes (dl_source d1) = b2 @ rest) \<and> (b2 = [] \<or> dl_received d1 + length b2 \<le> maximumCSVBytes)
     \<and> (dl_state d1 = Open \<longrightarrow> dl_state d' = Closed \<longrightarrow> b2 = chunk_bytes (dl_source d1) \<and> Stream_failure \<notin> set (dl_source d1))
     \<and> (dl_state d1 \<noteq> Open \<longrightarrow> d' = d1 \<and> b2 = [])"
    using 2(1) [OF p [symmetric] r(1)] .
  show ?case
  proof (cases "dl_state d = Open")
    case False
    then show ?thesis using IH p r(2) by (auto simp: pull_def)
  next
    case True
    consider "dl_source d = []" | fs where "dl_source d = Stream_failure # fs" | c fs where "dl_source d = Chunk c # fs"
      by (metis list.exhaust stream_event.exhaust)
    then show ?thesis
      by cases (use IH p r(2) True in \<open>auto simp: pull_def Let_def split: if_splits\<close>)
  qed
next
  case (3 d es)
  then show ?case by (auto simp: cancel_def split: if_splits)
qed auto

text \<open>Pulling until the source is used up ends the stream.\<close>

lemma downloading_settled: "dl_state d \<noteq> Open \<Longrightarrow> downloading d (replicate n Pull) = (d, [])"
  by (induction n) (simp_all add: pull_def)

lemma downloading_ends:
  assumes "dl_state d = Open" "dl_received d \<le> maximumCSVBytes" "length (dl_source d) < n"
  shows "dl_state (fst (downloading d (replicate n Pull))) =
     (if Stream_failure \<notin> set (dl_source d) \<and> dl_received d + length (chunk_bytes (dl_source d)) \<le> maximumCSVBytes then Closed else Errored)"
  using assms
proof (induction "dl_source d" arbitrary: d n)
  case Nil
  then obtain m where "n = Suc m" by (cases n) auto
  then show ?case using Nil by (simp add: pull_def downloading_settled)
next
  case (Cons e es)
  have "Suc (length es) < n" using Cons.prems(3) by (simp flip: Cons.hyps(2))
  then obtain m where n: "n = Suc m" "length es < m" by (cases n) auto
  show ?case
  proof (cases e)
    case Stream_failure
    then show ?thesis using Cons.hyps(2) Cons.prems(1) by (simp add: n pull_def downloading_settled flip: Cons.hyps(2))
  next
    case (Chunk c)
    let ?d = "d\<lparr>dl_source := es, dl_received := dl_received d + length c\<rparr>"
    show ?thesis
    proof (cases "maximumCSVBytes < dl_received d + length c")
      case True
      then show ?thesis
        using Chunk Cons.prems(1) by (simp add: n pull_def downloading_settled Let_def flip: Cons.hyps(2))
    next
      case False
      then have "pull d = (?d, c)" using Chunk Cons.prems(1) by (simp add: pull_def Let_def flip: Cons.hyps(2))
      moreover have "dl_state (fst (downloading ?d (replicate m Pull))) =
          (if Stream_failure \<notin> set es \<and> dl_received d + length c + length (chunk_bytes es) \<le> maximumCSVBytes then Closed else Errored)"
        using Cons.hyps(1) [of ?d m] Cons.prems(1) False n(2) by simp
      ultimately show ?thesis using Chunk by (simp add: n split_beta add.assoc flip: Cons.hyps(2))
    qed
  qed
qed

lemma opened_bounded:
  "\<exists>rest. chunk_bytes es = snd (downloading (opened es) evs) @ rest \<and> length (snd (downloading (opened es) evs)) \<le> maximumCSVBytes"
  using downloading_prefix [of "opened es" evs] by (cases "downloading (opened es) evs") (auto simp: opened_def)

lemma header_names:
  "same_name ''Content-Type'' ''Content-Type''" "same_name ''Content-Disposition'' ''Content-Disposition''"
  "\<not> same_name ''Cache-Control'' ''Content-Type''" "\<not> same_name ''Cache-Control'' ''Content-Disposition''"
  "\<not> same_name ''Content-Type'' ''Content-Disposition''"
  by code_simp+

lemma export_headers:
  assumes "sanitizeExportHeaders hs family = Some out"
  shows "get_header ''Content-Type'' out = Some ''text/csv; charset=utf-8''
    \<and> (\<exists>disposition. get_header ''Content-Disposition'' out = Some disposition \<and> rx_test (disposition_pattern family) disposition)"
proof -
  obtain disposition rest where "rx_test (disposition_pattern family) disposition"
      "out = (''Cache-Control'', ''no-store'') # (''Content-Type'', ''text/csv; charset=utf-8'') # (''Content-Disposition'', disposition) # rest"
    using assms unfolding sanitizeExportHeaders_def by (cases "get_header ''content-type'' hs"; cases "get_header ''content-disposition'' hs") (force split: if_splits)+
  then show ?thesis by (simp add: get_header_def header_names)
qed

lemma proxy_export_sent:
  assumes "proxyEvidenceExport srv s path query family = (sent, a)" "sent \<noteq> []"
  shows "\<exists>out. sent = [out] \<and> out_method out = ''GET'' \<and> out_body out = None \<and> out_url out = with_query (session_api (srv_env srv) @ path) query
    \<and> (\<forall>hs d. a = Streaming hs d \<longrightarrow> (\<exists>up es. srv_fetch srv out = Fetched up \<and> successful (up_status up)
         \<and> sanitizeExportHeaders (up_headers up) family = Some hs \<and> up_stream up = Some es \<and> d = opened es))"
proof -
  obtain c where c: "privateAPIContext srv s None = Inr c"
    using assms by (cases "privateAPIContext srv s None") (auto simp: proxyEvidenceExport_def)
  show ?thesis
    using assms connection_url [OF c]
    by (auto simp: proxyEvidenceExport_def c Let_def split: fetch_result.splits if_splits option.splits)
qed

section \<open>Properties\<close>

text \<open>C10: A download ends. Whatever the private API sends, once the browser has pulled more often than there
  are chunks the stream is closed or failed, never left open; it is closed exactly when the whole export
  arrived without a failure within 16 MiB, and then the browser has every byte of it. A cut export is
  never closed as if it were complete.\<close>

theorem export_stream_ends:
  assumes "length es < n"
  shows "dl_state (fst (downloading (opened es) (replicate n Pull))) =
      (if Stream_failure \<notin> set es \<and> length (chunk_bytes es) \<le> maximumCSVBytes then Closed else Errored)
    \<and> (dl_state (fst (downloading (opened es) (replicate n Pull))) = Closed \<longrightarrow>
         snd (downloading (opened es) (replicate n Pull)) = chunk_bytes es)"
proof -
  obtain d bs where d: "downloading (opened es) (replicate n Pull) = (d, bs)" by fastforce
  have sel: "dl_source (opened es) = es" "dl_received (opened es) = 0" "dl_state (opened es) = Open" by (simp_all add: opened_def)
  show ?thesis using downloading_ends [of "opened es" n] downloading_prefix [OF d] assms by (simp add: d sel)
qed

theorem export_stream_ends_witness:
  "dl_state (fst (downloading (opened [Chunk [105, 100], Chunk [10]]) (replicate 3 Pull))) = Closed
   \<and> snd (downloading (opened [Chunk [105, 100], Chunk [10]]) (replicate 3 Pull)) = [105, 100, 10]
   \<and> dl_state (fst (downloading (opened [Chunk [105], Stream_failure]) (replicate 3 Pull))) = Errored"
  using export_stream_ends [of "[Chunk [105, 100], Chunk [10]]" 3] export_stream_ends [of "[Chunk [105], Stream_failure]" 3]
  by (simp add: maximumCSVBytes_def del: downloading.simps)

text \<open>C9: An export leaves the ledger only for a reader who may have it, and no more of it than the bound.
  Whenever a handler asks the private API for an export, it is one GET to the export's own path (with the
  account's canonical identifier) with parameters of the export's own names, for a session that holds the
  scope of exports and that of the evidence, on the public host, admitted by the limiter. A download has a
  success of the private API behind it and the type, file name and schema of exactly that export; however
  the browser pulls or cancels it, the bytes that it is given are a beginning of what the private API sent
  and at most 16 MiB.\<close>

theorem exports_guarded_and_bounded:
  assumes "export_GET srv consume st parse_date session request e = (st', sent, a)" "sent \<noteq> []"
  shows "\<exists>s path query out. session = Some s \<and> has_scope s ''exports:read'' \<and> has_scope s (export_scope e)
    \<and> hasValidHost (srv_URL srv) (srv_env srv) request
    \<and> allowed (snd (consume st (''export:'' @ tenantId s @ '':'' @ subjectId s) 10 60))
    \<and> sent = [out] \<and> out_method out = ''GET'' \<and> out_body out = None \<and> export_path e = Some path
    \<and> out_url out = with_query (session_api (srv_env srv) @ path) query \<and> set (map fst query) \<subseteq> set (export_names (export_kind e))
    \<and> (\<forall>hs d. a = Streaming hs d \<longrightarrow> (\<exists>up disposition. srv_fetch srv out = Fetched up \<and> successful (up_status up)
         \<and> get_header ''Content-Type'' hs = Some ''text/csv; charset=utf-8'' \<and> get_header ''Content-Disposition'' hs = Some disposition
         \<and> rx_test (disposition_pattern (export_family e)) disposition
         \<and> (\<forall>evs. \<exists>rest es. up_stream up = Some es \<and> chunk_bytes es = snd (downloading d evs) @ rest
              \<and> length (snd (downloading d evs)) \<le> maximumCSVBytes)))"
proof -
  obtain s path query where g: "snd (authorizeEvidenceExport srv consume st request session (export_scope e)) = Inr s"
      "export_path e = Some path" "strictExportQuery parse_date request (export_kind e) = Some query"
      "proxyEvidenceExport srv s path query (export_family e) = (sent, a)"
    using export_sends [OF assms] .
  from proxy_export_sent [OF g(4) assms(2)] obtain out where out: "sent = [out]" "out_method out = ''GET''" "out_body out = None"
      "out_url out = with_query (session_api (srv_env srv) @ path) query"
      "\<And>hs d. a = Streaming hs d \<Longrightarrow> \<exists>up es. srv_fetch srv out = Fetched up \<and> successful (up_status up)
         \<and> sanitizeExportHeaders (up_headers up) (export_family e) = Some hs \<and> up_stream up = Some es \<and> d = opened es"
    by blast
  have "\<exists>up disposition. srv_fetch srv out = Fetched up \<and> successful (up_status up)
         \<and> get_header ''Content-Type'' hs = Some ''text/csv; charset=utf-8'' \<and> get_header ''Content-Disposition'' hs = Some disposition
         \<and> rx_test (disposition_pattern (export_family e)) disposition
         \<and> (\<forall>evs. \<exists>rest es. up_stream up = Some es \<and> chunk_bytes es = snd (downloading d evs) @ rest
              \<and> length (snd (downloading d evs)) \<le> maximumCSVBytes)" if "a = Streaming hs d" for hs d
    using out(5) [OF that] export_headers opened_bounded by metis
  then show ?thesis
    using authorized_export [OF g(1)] g(2) export_query_names [OF g(3)] out(1-4) by blast
qed

text \<open>The ledger of one account, in two chunks.\<close>

definition sample_account :: string where
  "sample_account = ''6F9619FF-8B86-D011-B42D-00CF4FC964FF''"

definition sample_csv :: upstream where
  "sample_csv = \<lparr>up_status = 200, up_headers = [(''content-type'', ''text/csv''),
     (''content-disposition'', ''attachment; filename='' @ [CHR 0x22] @ ''ledgersync-account-ledger-20260101T000000Z-v2.csv'' @ [CHR 0x22]),
     (''x-ledgersync-export-schema'', ''2'')], up_text = Body '''', up_stream = Some [Chunk [105, 100], Chunk [10]]\<rparr>"

definition sample_export_server :: server where
  "sample_export_server = sample_server\<lparr>srv_fetch := (\<lambda>r. Fetched sample_csv)\<rparr>"

definition sample_exporter :: session where
  "sample_exporter = sample_session\<lparr>scopes := Some [''exports:read'', ''transactions:read'']\<rparr>"

definition sample_export :: request where
  "sample_export = sample_request\<lparr>http_method := ''GET''\<rparr>"

lemma sample_export_streams:
  "\<exists>sent hs. export_GET sample_export_server (\<lambda>st k l w. (st, permit)) (0::nat) (\<lambda>s. None) (Some sample_exporter) sample_export
       (Account_export sample_account) = (0, sent, Streaming hs (opened [Chunk [105, 100], Chunk [10]])) \<and> sent \<noteq> []"
proof -
  have a: "authorizeEvidenceExport sample_export_server (\<lambda>st k l w. (st, permit)) (0::nat) sample_export (Some sample_exporter)
      (export_scope (Account_export sample_account)) = (0, Inr sample_exporter)" by code_simp
  have p: "export_path (Account_export sample_account) = Some ''/api/exports/accounts/6f9619ff-8b86-d011-b42d-00cf4fc964ff/transactions.csv''"
    by code_simp
  have q: "strictExportQuery (\<lambda>s. None) sample_export (export_kind (Account_export sample_account)) = Some []" by code_simp
  have "\<not> isl (privateAPIContext sample_export_server sample_exporter None)" by code_simp
  then obtain c where c: "privateAPIContext sample_export_server sample_exporter None = Inr c" by (metis sum.collapse(2))
  have "sanitizeExportHeaders (up_headers sample_csv) (export_family (Account_export sample_account)) \<noteq> None" by code_simp
  then obtain hs where hs: "sanitizeExportHeaders (up_headers sample_csv) (export_family (Account_export sample_account)) = Some hs" by blast
  have n: "get_header ''content-length'' (up_headers sample_csv) = None" by code_simp
  have f: "srv_fetch sample_export_server out = Fetched sample_csv" for out by (simp add: sample_export_server_def)
  have u: "up_status sample_csv = 200" "up_stream sample_csv = Some [Chunk [105, 100], Chunk [10]]" by (simp_all add: sample_csv_def)
  show ?thesis by (simp add: export_GET_def a p q proxyEvidenceExport_def c f u hs advertised_within_def n Let_def)
qed

theorem exports_guarded_and_bounded_witness:
  "\<exists>out hs d. export_GET sample_export_server (\<lambda>st k l w. (st, permit)) (0::nat) (\<lambda>s. None) (Some sample_exporter) sample_export
       (Account_export sample_account) = (0, [out], Streaming hs d)
     \<and> out_method out = ''GET'' \<and> get_header ''Content-Type'' hs = Some ''text/csv; charset=utf-8''
     \<and> length (snd (downloading d [Pull, Cancel, Pull])) \<le> maximumCSVBytes"
proof -
  obtain sent hs where run: "export_GET sample_export_server (\<lambda>st k l w. (st, permit)) (0::nat) (\<lambda>s. None) (Some sample_exporter) sample_export
       (Account_export sample_account) = (0, sent, Streaming hs (opened [Chunk [105, 100], Chunk [10]]))" "sent \<noteq> []"
    using sample_export_streams by blast
  from exports_guarded_and_bounded [OF run] obtain out where "sent = [out]" "out_method out = ''GET''"
      "get_header ''Content-Type'' hs = Some ''text/csv; charset=utf-8''"
      "length (snd (downloading (opened [Chunk [105, 100], Chunk [10]]) [Pull, Cancel, Pull])) \<le> maximumCSVBytes"
    by blast
  with run(1) show ?thesis by blast
qed

end
