(* ===== verification/Investigations.thy ===== *)
theory Investigations
  imports OperationsRead
begin

text \<open>
  Searching evidence and following its relationships: \<^verbatim>\<open>web/src/lib/investigation-search-boundary.ts\<close>,
  \<^verbatim>\<open>api/investigation-search.ts\<close>, \<^verbatim>\<open>api/related-evidence.ts\<close> and their routes, with the call of the private API
  that all routes of investigations share. An error that a handler catches is named by its \<^verbatim>\<open>name\<close>.
\<close>

section \<open>Authorization\<close>

definition searchableScopes :: "string list" where
  "searchableScopes = [''accounts:read'', ''transfers:read'', ''funding:read'', ''events:read'', ''reconciliation:read'', ''corrections:read'']"

definition savedViewDomainScopes :: "string list" where
  "savedViewDomainScopes = [''accounts:read'', ''transfers:read'', ''funding:read'', ''funding:approve'', ''corrections:read'',
     ''corrections:approve'', ''events:read'', ''webhooks:read'']"

definition operatorRoles :: "string list" where
  "operatorRoles = [''tenant:operator'', ''tenant:admin'']"

text \<open>An operator who may read investigations and evidence of at least one of the given domains.\<close>

definition investigator :: "string list \<Rightarrow> session \<Rightarrow> bool" where
  "investigator domains s =
     (list_ex (List.member operatorRoles) (case roles s of None \<Rightarrow> [] | Some rs \<Rightarrow> rs)
      \<and> has_scope s ''investigation:read'' \<and> list_ex (has_scope s) domains)"

definition investigation_key :: "string \<Rightarrow> session \<Rightarrow> string" where
  "investigation_key boundary s = ''investigation:'' @ boundary @ '':'' @ tenantId s @ '':'' @ subjectId s"

definition authorizeInvestigationRead ::
  "server \<Rightarrow> 'st limiter \<Rightarrow> 'st \<Rightarrow> request \<Rightarrow> session option \<Rightarrow> string \<Rightarrow> 'st \<times> (response + session)" where
  "authorizeInvestigationRead srv consume st request session boundary =
     (if http_method request \<noteq> ''GET'' then (st, Inl (method_denial ''GET''))
      else case session of
        None \<Rightarrow> (st, Inl (jsonError ''unauthorized'' 401))
      | Some s \<Rightarrow>
          if \<not> investigator searchableScopes s then (st, Inl (jsonError ''forbidden'' 403))
          else if \<not> hasValidHost (srv_URL srv) (srv_env srv) request then (st, Inl (jsonError ''invalid_request'' 400))
          else limited consume st (investigation_key boundary s) 30 60 s)"

definition write_denial :: "server \<Rightarrow> request \<Rightarrow> session \<Rightarrow> bool \<Rightarrow> response option" where
  "write_denial srv request s writes =
     (if writes \<and> (\<not> has_scope s ''investigation:write'' \<or> \<not> hasValidCSRF (srv_URL srv) (srv_env srv) request s)
      then Some (jsonError (if has_scope s ''investigation:write'' then ''csrf_failed'' else ''forbidden'') 403) else None)"

definition authorizeInvestigationSavedViews ::
  "server \<Rightarrow> 'st limiter \<Rightarrow> 'st \<Rightarrow> request \<Rightarrow> session option \<Rightarrow> bool \<Rightarrow> 'st \<times> (response + session)" where
  "authorizeInvestigationSavedViews srv consume st request session writes =
     (if \<not> List.member (if writes then [''POST'', ''PUT'', ''DELETE''] else [''GET'']) (http_method request)
      then (st, Inl (method_denial (if writes then ''POST, PUT, DELETE'' else ''GET'')))
      else case session of
        None \<Rightarrow> (st, Inl (jsonError ''unauthorized'' 401))
      | Some s \<Rightarrow>
          if \<not> investigator savedViewDomainScopes s then (st, Inl (jsonError ''forbidden'' 403))
          else case write_denial srv request s writes of
            Some d \<Rightarrow> (st, Inl d)
          | None \<Rightarrow>
              if \<not> hasValidHost (srv_URL srv) (srv_env srv) request then (st, Inl (jsonError ''invalid_request'' 400))
              else limited consume st (investigation_key (if writes then ''saved-views-write'' else ''saved-views-read'') s) (if writes then 15 else 30) 60 s)"

definition authorizeInvestigationWorkspaces ::
  "server \<Rightarrow> 'st limiter \<Rightarrow> 'st \<Rightarrow> request \<Rightarrow> session option \<Rightarrow> bool \<Rightarrow> 'st \<times> (response + session)" where
  "authorizeInvestigationWorkspaces srv consume st request session writes =
     (let expectedMethod = (if writes then ''POST'' else ''GET'') in
      if http_method request \<noteq> expectedMethod then (st, Inl (method_denial expectedMethod))
      else case session of
        None \<Rightarrow> (st, Inl (jsonError ''unauthorized'' 401))
      | Some s \<Rightarrow>
          if \<not> investigator searchableScopes s then (st, Inl (jsonError ''forbidden'' 403))
          else case write_denial srv request s writes of
            Some d \<Rightarrow> (st, Inl d)
          | None \<Rightarrow>
              if \<not> hasValidHost (srv_URL srv) (srv_env srv) request then (st, Inl (jsonError ''invalid_request'' 400))
              else limited consume st (investigation_key (if writes then ''workspaces-write'' else ''workspaces-read'') s) (if writes then 12 else 30) 60 s)"

definition authorizeInvestigationEvidenceBundle ::
  "server \<Rightarrow> 'st limiter \<Rightarrow> 'st \<Rightarrow> request \<Rightarrow> session option \<Rightarrow> 'st \<times> (response + session)" where
  "authorizeInvestigationEvidenceBundle srv consume st request session =
     (if http_method request \<noteq> ''POST'' then (st, Inl (method_denial ''POST''))
      else case session of
        None \<Rightarrow> (st, Inl (jsonError ''unauthorized'' 401))
      | Some s \<Rightarrow>
          if \<not> investigator searchableScopes s \<or> \<not> has_scope s ''exports:read'' then (st, Inl (jsonError ''forbidden'' 403))
          else if \<not> hasValidCSRF (srv_URL srv) (srv_env srv) request s then (st, Inl (jsonError ''csrf_failed'' 403))
          else if \<not> hasValidHost (srv_URL srv) (srv_env srv) request then (st, Inl (jsonError ''invalid_request'' 400))
          else limited consume st (investigation_key ''evidence-bundle'' s) 10 60 s)"

text \<open>What an authorizer guarantees: the caller's session, with the roles and scopes, on the public host,
  admitted by the limiter; where it \<open>guards\<close> a write, also the CSRF token.\<close>

locale investigation_boundary =
  fixes srv :: server
    and consume :: "'st limiter"
    and st :: 'st
    and authorize :: "request \<Rightarrow> session option \<Rightarrow> 'st \<times> (response + session)"
    and domains :: "string list"
    and extra :: "string list"
    and guards :: bool
    and boundary :: string
    and limit :: int
  assumes accepted: "snd (authorize request session) = Inr s \<Longrightarrow>
      session = Some s \<and> investigator domains s \<and> list_all (has_scope s) extra
      \<and> (guards \<longrightarrow> hasValidCSRF (srv_URL srv) (srv_env srv) request s)
      \<and> hasValidHost (srv_URL srv) (srv_env srv) request \<and> allowed (snd (consume st (investigation_key boundary s) limit 60))"
begin

lemma anonymous_denied: "\<exists>d. snd (authorize request None) = Inl d"
  using accepted [of request None] by (cases "snd (authorize request None)") auto

lemma acts_accepted:
  assumes "(case authorize request session of (st', Inl d) \<Rightarrow> (st', reply d) | (st', Inr s) \<Rightarrow> (st', act s)) = (st'', x)" "fst x \<noteq> []"
  shows "\<exists>s. snd (authorize request session) = Inr s \<and> act s = x \<and> session = Some s \<and> investigator domains s \<and> list_all (has_scope s) extra
      \<and> (guards \<longrightarrow> hasValidCSRF (srv_URL srv) (srv_env srv) request s)
      \<and> hasValidHost (srv_URL srv) (srv_env srv) request \<and> allowed (snd (consume st (investigation_key boundary s) limit 60))"
  using assms accepted [of request session] by (auto split: prod.splits sum.splits)

end

interpretation read_boundary: investigation_boundary srv consume st "\<lambda>r s. authorizeInvestigationRead srv consume st r s boundary"
    searchableScopes "[]" False boundary 30
  by unfold_locales (auto simp: authorizeInvestigationRead_def limited_cases split: if_splits option.splits)

interpretation views_boundary: investigation_boundary srv consume st "\<lambda>r s. authorizeInvestigationSavedViews srv consume st r s writes"
    savedViewDomainScopes "if writes then [''investigation:write''] else []" writes
    "if writes then ''saved-views-write'' else ''saved-views-read''" "if writes then 15 else 30"
  by unfold_locales (auto simp: authorizeInvestigationSavedViews_def write_denial_def limited_cases split: if_splits option.splits)

interpretation workspaces_boundary: investigation_boundary srv consume st "\<lambda>r s. authorizeInvestigationWorkspaces srv consume st r s writes"
    searchableScopes "if writes then [''investigation:write''] else []" writes
    "if writes then ''workspaces-write'' else ''workspaces-read''" "if writes then 12 else 30"
  by unfold_locales (auto simp: authorizeInvestigationWorkspaces_def write_denial_def limited_cases Let_def split: if_splits option.splits)

interpretation bundle_boundary: investigation_boundary srv consume st "authorizeInvestigationEvidenceBundle srv consume st"
    searchableScopes "[''exports:read'']" True "''evidence-bundle''" 10
  by unfold_locales (auto simp: authorizeInvestigationEvidenceBundle_def limited_cases split: if_splits option.splits)

section \<open>The query of a search\<close>

datatype query_kind = Immutable_id | Approved_reference

definition approvedReference :: rx where
  "approvedReference = RSeq (RSet is_alnum) (RRep (RSet (\<lambda>c. is_alnum c \<or> one_of ''._:/-'' c)) 7 127)"

definition search_limit :: rx where
  "search_limit = RAlt (RSet (between 49 57)) (RAlt (RSeq (RChar CHR ''1'') (RSet is_digit)) (RStr ''20''))"

definition parseInvestigationSearchQuery :: "params \<Rightarrow> (params \<times> query_kind) option" where
  "parseInvestigationSearchQuery ps =
     (if list_ex (\<lambda>p. fst p \<noteq> ''q'' \<and> fst p \<noteq> ''limit'') ps \<or> list_ex (\<lambda>p. length (getAll (fst p) ps) \<noteq> 1) ps then None
      else case get_param ''q'' ps of
        None \<Rightarrow> None
      | Some raw \<Rightarrow>
          if raw \<noteq> trim raw \<or> 128 < length raw then None
          else let normalized = toLowerCase raw;
                   limit = (case get_param ''limit'' ps of Some l \<Rightarrow> l | None \<Rightarrow> ''10'') in
            case (if rx_test lowerUUIDShape normalized then Some Immutable_id
                  else if rx_test approvedReference raw then Some Approved_reference else None) of
              None \<Rightarrow> None
            | Some kind \<Rightarrow> if \<not> rx_test search_limit limit then None
                else Some ([(''q'', if kind = Immutable_id then normalized else raw), (''limit'', limit)], kind))"

text \<open>\<^verbatim>\<open>s.includes(p)\<close>\<close>

definition contains_text :: "string \<Rightarrow> string \<Rightarrow> bool" where
  "contains_text s p = list_ex (\<lambda>i. startsWith (drop i s) p) [0 ..< Suc (length s)]"

section \<open>Results\<close>

definition investigationRecordTypes :: "string list" where
  "investigationRecordTypes = [''account'', ''transfer'', ''funding'', ''event'', ''reconciliation_run'', ''reconciliation_mismatch'', ''correction'', ''request_reference'']"

definition relatedTypes :: "string list" where
  "relatedTypes = [''account'', ''transfer'', ''funding'', ''event'', ''reconciliation_run'', ''correction'']"

definition search_statuses :: "string list" where
  "search_statuses = [''active'', ''frozen'', ''closed'', ''pending'', ''posted'', ''rejected'', ''requested'', ''approved'', ''compensated'',
     ''published'', ''dead'', ''retrying'', ''matched'', ''mismatch'', ''failed'', ''cancelled'', ''expired'', ''allowed'', ''denied'', ''succeeded'',
     ''recorded'']"

definition safeText :: rx where
  "safeText = RSeq (RSet is_alnum) (RRep (RSet (\<lambda>c. is_alnum c \<or> one_of (''._:/()- '' @ [CHR 0x27]) c)) 0 127)"

definition evidence_timestamp :: "(string \<Rightarrow> bool) \<Rightarrow> string \<Rightarrow> bool" where
  "evidence_timestamp is_date v = (length v \<le> 64 \<and> is_date v)"

text \<open>The test of \<^verbatim>\<open>sanitizeResult\<close>, which returns its argument.\<close>

definition search_result_ok :: "(string \<Rightarrow> bool) \<Rightarrow> json \<Rightarrow> bool" where
  "search_result_ok is_date v =
     (isRecord v \<and> only_keys v [''record_type'', ''record_id'', ''related_record_type'', ''related_record_id'', ''safe_label'', ''status'',
        ''occurred_at'', ''source'', ''freshness'']
      \<and> string_field ''record_type'' (List.member investigationRecordTypes) v \<and> string_field ''record_id'' (rx_test lowerUUIDShape) v
      \<and> string_field ''safe_label'' (rx_test safeText) v \<and> string_field ''status'' (List.member search_statuses) v
      \<and> string_field ''occurred_at'' (evidence_timestamp is_date) v
      \<and> field ''source'' v = Some (JStr ''postgresql'') \<and> field ''freshness'' v = Some (JStr ''search_snapshot'')
      \<and> (field ''related_record_type'' v = None) = (field ''related_record_id'' v = None)
      \<and> (field ''related_record_type'' v \<noteq> None \<longrightarrow>
           string_field ''related_record_type'' (List.member relatedTypes) v \<and> string_field ''related_record_id'' (rx_test lowerUUIDShape) v))"

definition coded :: "nat \<Rightarrow> string \<Rightarrow> sanitized" where
  "coded st c = \<lparr>san_status = st, san_body = error_body c\<rparr>"

abbreviation no_evidence :: sanitized where
  "no_evidence \<equiv> coded 503 ''evidence_unavailable''"

definition search_sanitizeError :: "nat \<Rightarrow> json \<Rightarrow> sanitized" where
  "search_sanitizeError st v =
     (let c = (case error_code v of Some c \<Rightarrow> c | None \<Rightarrow> '''') in
      if st = 400 \<and> (c = ''invalid_request'' \<or> c = ''validation_failed'') \<or> st = 401 \<and> c = ''unauthorized'' \<or> st = 403 \<and> c = ''forbidden''
         \<or> st = 429 \<and> c = ''rate_limited'' \<or> st = 503 \<and> (c = ''evidence_unavailable'' \<or> c = ''temporary_unavailable'')
         \<or> st = 504 \<and> c = ''upstream_timeout''
      then coded st c else no_evidence)"

definition array_field :: "string \<Rightarrow> nat \<Rightarrow> (json \<Rightarrow> bool) \<Rightarrow> json \<Rightarrow> bool" where
  "array_field k maximum P v = (case field k v of Some (JArr vs) \<Rightarrow> length vs \<le> maximum \<and> list_all P vs | _ \<Rightarrow> False)"

definition search_page_ok :: "(string \<Rightarrow> bool) \<Rightarrow> json \<Rightarrow> bool" where
  "search_page_ok is_date v =
     (isRecord v \<and> only_keys v [''results'', ''query_kind'', ''generated_at'', ''truncated'']
      \<and> string_field ''query_kind'' (\<lambda>s. s = ''immutable_id'' \<or> s = ''approved_reference'') v
      \<and> string_field ''generated_at'' (evidence_timestamp is_date) v \<and> boolean_field ''truncated'' v
      \<and> array_field ''results'' 20 (search_result_ok is_date) v)"

definition sanitizeInvestigationSearch :: "(string \<Rightarrow> bool) \<Rightarrow> nat \<Rightarrow> json \<Rightarrow> sanitized" where
  "sanitizeInvestigationSearch is_date st v =
     (if st < 200 \<or> 300 \<le> st then search_sanitizeError st v
      else if \<not> search_page_ok is_date v then no_evidence
      else \<lparr>san_status = st, san_body = copy_fields v [''results'', ''query_kind'', ''generated_at'', ''truncated'']\<rparr>)"

definition maximumEvidenceBytes :: nat where "maximumEvidenceBytes = 65536"

definition parseInvestigationSearchBody :: "(string \<Rightarrow> bool) \<Rightarrow> nat \<Rightarrow> string \<Rightarrow> sanitized" where
  "parseInvestigationSearchBody is_date st body =
     (if maximumEvidenceBytes < byte_length body then no_evidence
      else case JSON_parse body of None \<Rightarrow> no_evidence | Some v \<Rightarrow> sanitizeInvestigationSearch is_date st v)"

section \<open>Relationships\<close>

definition relationshipSourceTypes :: "string list" where
  "relationshipSourceTypes = [''account'', ''transfer'', ''funding'', ''event'', ''reconciliation_run'', ''reconciliation_mismatch'', ''correction'']"

definition relationshipTargetTypes :: "string list" where
  "relationshipTargetTypes = relationshipSourceTypes @ [''journal'', ''posting'', ''delivery_attempt'', ''approval'']"

definition relationshipType :: rx where
  "relationshipType = RSeq (RSet is_lower) (RRep (RSet (\<lambda>c. is_lower c \<or> is_digit c \<or> c = CHR ''_'')) 1 63)"

definition related_statuses :: "string list" where
  "related_statuses = [''active'', ''frozen'', ''closed'', ''pending'', ''posted'', ''rejected'', ''requested'', ''approved'', ''compensated'',
     ''published'', ''dead'', ''retrying'', ''delivered'', ''matched'', ''mismatch'', ''failed'', ''cancelled'', ''expired'', ''recorded'']"

definition relationship_ok :: "(string \<Rightarrow> bool) \<Rightarrow> json \<Rightarrow> bool" where
  "relationship_ok is_date v =
     (isRecord v \<and> only_keys v [''relationship_type'', ''target_type'', ''target_id'', ''safe_label'', ''status'', ''occurred_at'', ''source'', ''freshness'']
      \<and> string_field ''relationship_type'' (rx_test relationshipType) v \<and> string_field ''target_type'' (List.member relationshipTargetTypes) v
      \<and> string_field ''target_id'' (rx_test lowerUUIDShape) v \<and> string_field ''safe_label'' (rx_test safeText) v
      \<and> string_field ''status'' (List.member related_statuses) v \<and> string_field ''occurred_at'' (evidence_timestamp is_date) v
      \<and> field ''source'' v = Some (JStr ''postgresql'') \<and> field ''freshness'' v = Some (JStr ''relationship_snapshot''))"

definition related_sanitizeError :: "nat \<Rightarrow> json \<Rightarrow> sanitized" where
  "related_sanitizeError st v = (case error_code v of
     Some c \<Rightarrow> if List.member [400, 401, 403, 404, 429, 503, 504] st
         \<and> List.member [''invalid_request'', ''validation_failed'', ''unauthorized'', ''forbidden'', ''not_found'', ''rate_limited'',
              ''evidence_unavailable'', ''temporary_unavailable'', ''upstream_timeout''] c
       then coded st c else no_evidence
   | None \<Rightarrow> no_evidence)"

definition related_page_ok :: "(string \<Rightarrow> bool) \<Rightarrow> json \<Rightarrow> bool" where
  "related_page_ok is_date v =
     (isRecord v \<and> only_keys v [''source_type'', ''source_id'', ''relationships'', ''generated_at'', ''truncated'']
      \<and> string_field ''source_type'' (List.member relationshipSourceTypes) v \<and> string_field ''source_id'' (rx_test lowerUUIDShape) v
      \<and> string_field ''generated_at'' (evidence_timestamp is_date) v \<and> boolean_field ''truncated'' v
      \<and> array_field ''relationships'' 20 (relationship_ok is_date) v)"

definition sanitizeRelatedEvidence :: "(string \<Rightarrow> bool) \<Rightarrow> nat \<Rightarrow> json \<Rightarrow> sanitized" where
  "sanitizeRelatedEvidence is_date st v =
     (if st < 200 \<or> 300 \<le> st then related_sanitizeError st v
      else if \<not> related_page_ok is_date v then no_evidence
      else \<lparr>san_status = st, san_body = copy_fields v [''source_type'', ''source_id'', ''relationships'', ''generated_at'', ''truncated'']\<rparr>)"

definition parseRelatedEvidenceBody :: "(string \<Rightarrow> bool) \<Rightarrow> nat \<Rightarrow> string \<Rightarrow> sanitized" where
  "parseRelatedEvidenceBody is_date st body =
     (if maximumEvidenceBytes < byte_length body then no_evidence
      else case JSON_parse body of None \<Rightarrow> no_evidence | Some v \<Rightarrow> sanitizeRelatedEvidence is_date st v)"

section \<open>Reading and answering\<close>

fun evidence_chunks :: "string \<Rightarrow> nat list \<Rightarrow> stream_event list \<Rightarrow> string outcome" where
  "evidence_chunks failure received [] = (case utf8_decode received of None \<Rightarrow> Inl ''TypeError'' | Some t \<Rightarrow> Inr t)"
| "evidence_chunks failure received (Stream_failure # es) = Inl failure"
| "evidence_chunks failure received (Chunk c # es) =
     (if maximumEvidenceBytes < length received + length c then Inl ''Error''
      else if malformed (received @ c) then Inl ''TypeError''
      else evidence_chunks failure (received @ c) es)"

definition short_digits :: rx where "short_digits = RRep (RSet is_digit) 1 10"

definition readBoundedInvestigationSearchBody :: "upstream \<Rightarrow> string outcome" where
  "readBoundedInvestigationSearchBody up =
     (if (case nonempty (get_header ''content-length'' (up_headers up)) of
            None \<Rightarrow> False | Some l \<Rightarrow> \<not> rx_test short_digits l \<or> maximumEvidenceBytes < digits_value l) then Inl ''Error''
      else case up_stream up of None \<Rightarrow> Inr '''' | Some es \<Rightarrow> evidence_chunks (read_failure up) [] es)"

text \<open>The reader of relationships is the same code.\<close>

definition readBoundedRelatedEvidenceBody :: "upstream \<Rightarrow> string outcome" where
  "readBoundedRelatedEvidenceBody = readBoundedInvestigationSearchBody"

text \<open>An answer with a body cannot have a status without one: the constructor throws.\<close>

definition answered_json :: "sanitized \<Rightarrow> headers \<Rightarrow> response outcome" where
  "answered_json s hs =
     (if san_status s = 204 \<or> san_status s = 205 then Inl ''TypeError'' else Inr (json_response (san_body s) (san_status s) hs))"

text \<open>The call of the private API inside the \<^verbatim>\<open>try\<close> of a route; \<open>failure\<close> answers an error by its name.\<close>

definition investigation_call ::
  "server \<Rightarrow> request \<Rightarrow> session \<Rightarrow> string \<Rightarrow> string \<Rightarrow> headers \<Rightarrow> json option \<Rightarrow> (upstream \<Rightarrow> 'a outcome) \<Rightarrow> (string \<Rightarrow> 'a) \<Rightarrow> upstream_request list \<times> 'a" where
  "investigation_call srv request s path meth extra body process failure =
     (case privateAPIContext srv s (get_header ''x-request-id'' (req_headers request)) of
        Inl e \<Rightarrow> ([], failure e)
      | Inr connection \<Rightarrow>
          (let out = \<lparr>out_url = apiURL connection @ path, out_method = meth, out_headers = conn_headers connection @ extra,
                out_body = map_option JSON_stringify body\<rparr> in
           ([out], case srv_fetch srv out of
              Fetched up \<Rightarrow> (case process up of Inl e \<Rightarrow> failure e | Inr r \<Rightarrow> r)
            | Fetch_timeout \<Rightarrow> failure ''TimeoutError''
            | Fetch_error \<Rightarrow> failure ''TypeError'')))"

abbreviation evidence_failure :: "string \<Rightarrow> response" where
  "evidence_failure \<equiv> context_error ''upstream_timeout''"

definition search_GET :: "server \<Rightarrow> 'st limiter \<Rightarrow> 'st \<Rightarrow> request \<Rightarrow> session option \<Rightarrow> 'st \<times> exchange" where
  "search_GET srv consume st request session = (case authorizeInvestigationRead srv consume st request session ''search'' of
     (st', Inl d) \<Rightarrow> (st', reply d)
   | (st', Inr s) \<Rightarrow> (st', case parseInvestigationSearchQuery (searchParams request) of
       None \<Rightarrow> reply (jsonError ''validation_failed'' 400)
     | Some (query, kind) \<Rightarrow>
         investigation_call srv request s (''/api/investigation/search?'' @ params_string query) ''GET'' [] None
           (\<lambda>up. andthen (readBoundedInvestigationSearchBody up) (\<lambda>raw.
              answered_json (parseInvestigationSearchBody (srv_date srv) (up_status up) raw) (safeHeaders (up_headers up)))) evidence_failure))"

definition related_path :: "string \<Rightarrow> string \<Rightarrow> string option" where
  "related_path recordType rawRecordId = (case canonicalUUID rawRecordId of
     Some recordId \<Rightarrow> if List.member relationshipSourceTypes recordType
       then Some (''/api/investigation/related/'' @ encodeURIComponent recordType @ ''/'' @ encodeURIComponent recordId) else None
   | None \<Rightarrow> None)"

definition related_GET :: "server \<Rightarrow> 'st limiter \<Rightarrow> 'st \<Rightarrow> request \<Rightarrow> session option \<Rightarrow> string \<Rightarrow> string \<Rightarrow> 'st \<times> exchange" where
  "related_GET srv consume st request session recordType rawRecordId =
     (case authorizeInvestigationRead srv consume st request session ''relationships'' of
        (st', Inl d) \<Rightarrow> (st', reply d)
      | (st', Inr s) \<Rightarrow> (st',
          if searchParams request \<noteq> [] then reply (jsonError ''validation_failed'' 400)
          else case related_path recordType rawRecordId of
            None \<Rightarrow> reply (jsonError ''validation_failed'' 400)
          | Some path \<Rightarrow> investigation_call srv request s path ''GET'' [] None
              (\<lambda>up. andthen (readBoundedRelatedEvidenceBody up) (\<lambda>raw.
                 answered_json (parseRelatedEvidenceBody (srv_date srv) (up_status up) raw) (safeHeaders (up_headers up)))) evidence_failure))"

section \<open>What is shown\<close>

lemma coded_status [simp]: "san_status (coded st c) = st" by (simp add: coded_def)

lemma call_sent:
  assumes "investigation_call srv request s path meth extra body process failure = (sent, a)" "sent \<noteq> []"
  shows "\<exists>out. sent = [out] \<and> out_url out = session_api (srv_env srv) @ path \<and> out_method out = meth
    \<and> out_body out = map_option JSON_stringify body
    \<and> a = (case srv_fetch srv out of
        Fetched up \<Rightarrow> (case process up of Inl e \<Rightarrow> failure e | Inr r \<Rightarrow> r)
      | Fetch_timeout \<Rightarrow> failure ''TimeoutError''
      | Fetch_error \<Rightarrow> failure ''TypeError'')"
proof -
  obtain c where c: "privateAPIContext srv s (get_header ''x-request-id'' (req_headers request)) = Inr c"
    using assms by (cases "privateAPIContext srv s (get_header ''x-request-id'' (req_headers request))") (auto simp: investigation_call_def)
  then show ?thesis using assms(1) connection_url [OF c] by (auto simp: investigation_call_def Let_def)
qed

lemma search_success:
  assumes "successful (san_status (parseInvestigationSearchBody is_date st raw))"
  shows "san_status (parseInvestigationSearchBody is_date st raw) = st
    \<and> (\<exists>v. JSON_parse raw = Some v \<and> search_page_ok is_date v
         \<and> san_body (parseInvestigationSearchBody is_date st raw) = copy_fields v [''results'', ''query_kind'', ''generated_at'', ''truncated''])"
  using assms
  by (auto simp: parseInvestigationSearchBody_def sanitizeInvestigationSearch_def search_sanitizeError_def Let_def split: if_splits option.splits)

lemma related_success:
  assumes "successful (san_status (parseRelatedEvidenceBody is_date st raw))"
  shows "san_status (parseRelatedEvidenceBody is_date st raw) = st
    \<and> (\<exists>v. JSON_parse raw = Some v \<and> related_page_ok is_date v
         \<and> san_body (parseRelatedEvidenceBody is_date st raw) = copy_fields v [''source_type'', ''source_id'', ''relationships'', ''generated_at'', ''truncated''])"
  using assms
  by (auto simp: parseRelatedEvidenceBody_def sanitizeRelatedEvidence_def related_sanitizeError_def split: if_splits option.splits)

end
