(* ===== verification/Workspaces.thy ===== *)
theory Workspaces
  imports Investigations Reservations Intents
begin

text \<open>
  Investigation workspaces: \<^verbatim>\<open>web/src/lib/api/investigation-workspaces.ts\<close> and the routes under
  \<^verbatim>\<open>web/src/app/api/investigation/workspaces\<close>, the evidence bundle included. The hexadecimal SHA-256 digest of bytes
  is the parameter \<open>digest_of\<close>, \<^verbatim>\<open>Date.parse\<close> a parameter as before. A parser that throws is \<open>None\<close>: every
  route answers each of its errors alike.
\<close>

section \<open>Values\<close>

definition workspaceTaxonomies :: "string list" where
  "workspaceTaxonomies = [''account_state'', ''transfer_delivery'', ''funding'', ''reconciliation'', ''correction'', ''other'']"

definition workspaceRecordTypes :: "string list" where
  "workspaceRecordTypes = [''account'', ''transfer'', ''funding'', ''event'', ''reconciliation_run'', ''reconciliation_mismatch'', ''correction'']"

definition exactKeys :: "json \<Rightarrow> string list \<Rightarrow> string list \<Rightarrow> bool" where
  "exactKeys v required extra = (list_all (\<lambda>k. field k v \<noteq> None) required \<and> only_keys v (required @ extra))"

text \<open>\<^verbatim>\<open>/(?:Z|[+-][0-9]{2}:[0-9]{2})$/\<close>\<close>

definition zoned :: "string \<Rightarrow> bool" where
  "zoned v = (endsWith v ''Z'' \<or> rx_test (RSeq (RSet (one_of ''+-'')) (RSeq (RRep (RSet is_digit) 2 2) (RSeq (RChar CHR '':'') (RRep (RSet is_digit) 2 2))))
     (drop (length v - 6) v))"

definition zoned_timestamp :: "(string \<Rightarrow> bool) \<Rightarrow> string \<Rightarrow> bool" where
  "zoned_timestamp is_date v = (length v \<le> 64 \<and> zoned v \<and> is_date v)"

definition secretive :: "string \<Rightarrow> bool" where
  "secretive v =
     (let t = toLowerCase v in
      list_ex (contains_text t) [''http://'', ''https://'', ''password'', ''secret'', ''token='', ''token:'', ''apikey'', ''api_key'', ''api key'', ''api-key'', ''@'']
      \<or> list_ex (\<lambda>i. startsWith (drop i t) ''bearer'' \<and> i + 6 < length t \<and> is_space (t ! (i + 6))) [0 ..< length t])"

definition safeTitle :: "string \<Rightarrow> bool" where
  "safeTitle v = (v = trim v \<and> 1 \<le> length v \<and> length v \<le> 80 \<and> \<not> list_ex is_control v \<and> \<not> list_ex (one_of ''<>'') v \<and> \<not> secretive v)"

definition exactCount :: rx where
  "exactCount = RAlt (RChar CHR ''0'') (RSeq (RSet (between 49 57)) (RRep (RSet is_digit) 0 18))"

definition isVersion :: "string \<Rightarrow> bool" where
  "isVersion v = (rx_test exactCount v \<and> v \<noteq> ''0'')"

definition open_or_closed :: "string \<Rightarrow> bool" where
  "open_or_closed v = (v = ''open'' \<or> v = ''closed'')"

section \<open>Inputs\<close>

definition sub :: "string \<Rightarrow> json \<Rightarrow> json" where
  "sub k v = (case field k v of Some (JObj ob) \<Rightarrow> JObj ob | _ \<Rightarrow> JNull)"

definition create_input_ok :: "json \<Rightarrow> bool" where
  "create_input_ok v =
     (let query = sub ''query_context'' v; root = sub ''root_record'' v in
      isRecord v \<and> exactKeys v [''title'', ''taxonomy'', ''query_context'', ''root_record''] []
      \<and> string_field ''title'' safeTitle v \<and> string_field ''taxonomy'' (List.member workspaceTaxonomies) v
      \<and> isRecord query \<and> exactKeys query [''kind'', ''record_type'', ''value''] []
      \<and> string_field ''record_type'' (List.member workspaceRecordTypes) query
      \<and> string_field ''kind'' (\<lambda>k. k = ''immutable_id'' \<or> k = ''approved_reference'') query \<and> string_field ''value'' (\<lambda>s. s = trim s) query
      \<and> isRecord root \<and> exactKeys root [''record_type'', ''record_id''] []
      \<and> string_field ''record_type'' (List.member workspaceRecordTypes) root \<and> field ''record_type'' root = field ''record_type'' query
      \<and> string_field ''record_id'' (\<lambda>s. rx_test lowerUUIDShape (toLowerCase s)) root)"

definition parseWorkspaceCreateInput :: "json \<Rightarrow> json option" where
  "parseWorkspaceCreateInput v =
     (if \<not> create_input_ok v then None
      else let query = sub ''query_context'' v; kind = field_string ''kind'' query; recordType = field_string ''record_type'' query;
               recordID = toLowerCase (field_string ''record_id'' (sub ''root_record'' v));
               queryValue = (if kind = ''immutable_id'' then toLowerCase (field_string ''value'' query) else field_string ''value'' query) in
        if (if kind = ''immutable_id'' then queryValue \<noteq> recordID else \<not> rx_test approvedReference queryValue) then None
        else Some (JObj [(''title'', JStr (field_string ''title'' v)), (''taxonomy'', JStr (field_string ''taxonomy'' v)),
               (''query_context'', JObj [(''kind'', JStr kind), (''record_type'', JStr recordType), (''value'', JStr queryValue)]),
               (''root_record'', JObj [(''record_type'', JStr recordType), (''record_id'', JStr recordID)])]))"

definition subject_pattern :: rx where
  "subject_pattern = RRep (RSet (\<lambda>c. \<not> is_control c)) 1 255"

definition parseWorkspaceHandoffInput :: "json \<Rightarrow> json option" where
  "parseWorkspaceHandoffInput v =
     (if isRecord v \<and> exactKeys v [''expected_version'', ''target_subject_id''] [] \<and> string_field ''expected_version'' isVersion v
         \<and> string_field ''target_subject_id'' (\<lambda>s. s = trim s \<and> rx_test subject_pattern s) v
      then Some (copy_fields v [''expected_version'', ''target_subject_id'']) else None)"

definition parseWorkspaceStatusInput :: "json \<Rightarrow> json option" where
  "parseWorkspaceStatusInput v =
     (if isRecord v \<and> exactKeys v [''expected_version''] [] \<and> string_field ''expected_version'' isVersion v
      then Some (copy_fields v [''expected_version'']) else None)"

section \<open>Answers\<close>

definition summary_keys :: "string list" where
  "summary_keys = [''investigation_id'', ''title'', ''taxonomy'', ''status'', ''version'', ''created_at'', ''updated_at'']"

definition summary_ok :: "(string \<Rightarrow> bool) \<Rightarrow> json \<Rightarrow> bool" where
  "summary_ok is_date v =
     (isRecord v \<and> exactKeys v summary_keys [''closed_at''] \<and> string_field ''investigation_id'' (rx_test lowerUUIDShape) v
      \<and> string_field ''title'' safeTitle v \<and> string_field ''taxonomy'' (List.member workspaceTaxonomies) v
      \<and> string_field ''status'' open_or_closed v \<and> string_field ''version'' isVersion v
      \<and> string_field ''created_at'' (zoned_timestamp is_date) v \<and> string_field ''updated_at'' (zoned_timestamp is_date) v
      \<and> (field ''closed_at'' v \<noteq> None \<longrightarrow> string_field ''closed_at'' (zoned_timestamp is_date) v)
      \<and> (field ''status'' v = Some (JStr ''open'') \<longrightarrow> field ''closed_at'' v = None)
      \<and> (field ''status'' v = Some (JStr ''closed'') \<longrightarrow> field ''closed_at'' v \<noteq> None))"

definition targetPath :: "string \<Rightarrow> string \<Rightarrow> string" where
  "targetPath type i =
     (if type = ''account'' then ''/accounts/'' @ i else if type = ''transfer'' then ''/transfers/'' @ i
      else if type = ''funding'' then ''/funding/'' @ i else if type = ''event'' then ''/events/'' @ i
      else if type = ''reconciliation_run'' then ''/reconciliation/'' @ i else if type = ''correction'' then ''/corrections/'' @ i else '''')"

definition reference_ok :: "(string \<Rightarrow> bool) \<Rightarrow> json \<Rightarrow> bool" where
  "reference_ok is_date v =
     (isRecord v \<and> exactKeys v [''relationship_type'', ''record_type'', ''record_id'', ''target_path'', ''captured_at''] [''source_record_type'', ''source_record_id'']
      \<and> string_field ''relationship_type'' (rx_test relationshipType) v \<and> string_field ''record_type'' (List.member workspaceRecordTypes) v
      \<and> string_field ''record_id'' (rx_test lowerUUIDShape) v
      \<and> string_field ''target_path'' (\<lambda>p. p = targetPath (field_string ''record_type'' v) (field_string ''record_id'' v)) v
      \<and> string_field ''captured_at'' (zoned_timestamp is_date) v
      \<and> (field ''source_record_type'' v = None) = (field ''source_record_id'' v = None)
      \<and> (if field ''relationship_type'' v = Some (JStr ''root'') then field ''source_record_type'' v = None
         else string_field ''source_record_type'' (List.member workspaceRecordTypes) v \<and> string_field ''source_record_id'' (rx_test lowerUUIDShape) v))"

definition history_ok :: "(string \<Rightarrow> bool) \<Rightarrow> json \<Rightarrow> bool" where
  "history_ok is_date v =
     (isRecord v \<and> exactKeys v [''action'', ''actor_is_current_operator'', ''version'', ''status'', ''occurred_at''] []
      \<and> string_field ''action'' (List.member [''created'', ''handed_off'', ''closed'', ''reopened'']) v \<and> boolean_field ''actor_is_current_operator'' v
      \<and> string_field ''version'' isVersion v \<and> string_field ''status'' open_or_closed v \<and> string_field ''occurred_at'' (zoned_timestamp is_date) v)"

definition workspace_codes :: "string list" where
  "workspace_codes = [''unauthorized'', ''forbidden'', ''csrf_failed'', ''invalid_request'', ''validation_failed'', ''unsupported_media_type'', ''not_found'',
     ''investigation_version_conflict'', ''investigation_state_conflict'', ''investigation_limit_reached'', ''rate_limited'', ''evidence_unavailable'',
     ''temporary_unavailable'', ''upstream_timeout'']"

definition sanitized_error :: "string list \<Rightarrow> nat \<Rightarrow> json \<Rightarrow> sanitized" where
  "sanitized_error codes st v = (case error_code v of
     Some c \<Rightarrow> if List.member codes c \<and> List.member [400, 401, 403, 404, 409, 415, 429, 503, 504] st then coded st c else no_evidence
   | None \<Rightarrow> no_evidence)"

definition array_values :: "string \<Rightarrow> json \<Rightarrow> json list" where
  "array_values k v = (case field k v of Some (JArr vs) \<Rightarrow> vs | _ \<Rightarrow> [])"

definition sanitizeWorkspacePage :: "(string \<Rightarrow> bool) \<Rightarrow> nat \<Rightarrow> json \<Rightarrow> sanitized" where
  "sanitizeWorkspacePage is_date st v =
     (if st \<noteq> 200 then sanitized_error workspace_codes st v
      else if isRecord v \<and> exactKeys v [''investigations'', ''generated_at''] [] \<and> array_field ''investigations'' 50 (summary_ok is_date) v
         \<and> string_field ''generated_at'' (zoned_timestamp is_date) v
         \<and> distinct (map (field_string ''investigation_id'') (array_values ''investigations'' v))
      then \<lparr>san_status = 200, san_body = copy_fields v [''investigations'', ''generated_at'']\<rparr>
      else sanitized_error workspace_codes 503 v)"

definition workspace_summary :: "json \<Rightarrow> json" where
  "workspace_summary v = copy_fields v (summary_keys @ [''closed_at''])"

definition historical_ok :: "(string \<Rightarrow> bool) \<Rightarrow> json \<Rightarrow> bool" where
  "historical_ok is_date h =
     (let query = sub ''query_context'' h in
      isRecord h \<and> exactKeys h [''query_context'', ''references'', ''withheld_reference_count'', ''history'', ''history_truncated''] []
      \<and> isRecord query \<and> exactKeys query [''kind'', ''record_type'', ''value''] []
      \<and> string_field ''kind'' (\<lambda>k. k = ''immutable_id'' \<or> k = ''approved_reference'') query
      \<and> string_field ''record_type'' (List.member workspaceRecordTypes) query
      \<and> string_field ''value'' (\<lambda>s. s = trim s \<and> 8 \<le> length s \<and> length s \<le> 128) query
      \<and> array_field ''references'' 21 (reference_ok is_date) h \<and> integer_within 0 21 (field ''withheld_reference_count'' h)
      \<and> array_field ''history'' 100 (history_ok is_date) h \<and> boolean_field ''history_truncated'' h
      \<and> distinct (map (\<lambda>r. field_string ''record_type'' r @ '':'' @ field_string ''record_id'' r) (array_values ''references'' h)))"

text \<open>The present evidence is tested by the sanitizers of searches and relationships.\<close>

definition root_reference :: "json \<Rightarrow> string" where
  "root_reference h = (case List.find (\<lambda>r. field ''relationship_type'' r = Some (JStr ''root'')) (array_values ''references'' h) of
     Some r \<Rightarrow> field_string ''record_id'' r | None \<Rightarrow> '''')"

definition as_search :: "json \<Rightarrow> json" where
  "as_search c = JObj ([(''results'', JArr (if truthy_field ''root'' c then [case field ''root'' c of Some r \<Rightarrow> r | None \<Rightarrow> JNull] else [])),
     (''query_kind'', JStr ''immutable_id'')] @ copy_field c ''generated_at'' @ [(''truncated'', JBool False)])"

definition as_related :: "json \<Rightarrow> json \<Rightarrow> json" where
  "as_related h c = JObj ([(''source_type'', JStr (field_string ''record_type'' (sub ''query_context'' h))), (''source_id'', JStr (root_reference h))]
     @ copy_field c ''relationships'' @ copy_field c ''generated_at'' @ copy_field c ''truncated'')"

definition current_ok :: "(string \<Rightarrow> bool) \<Rightarrow> json \<Rightarrow> json \<Rightarrow> bool" where
  "current_ok is_date h c =
     (isRecord c \<and> exactKeys c [''relationships'', ''generated_at'', ''truncated'', ''available''] [''root'']
      \<and> array_field ''relationships'' 20 (\<lambda>_. True) c \<and> string_field ''generated_at'' (zoned_timestamp is_date) c
      \<and> boolean_field ''truncated'' c \<and> boolean_field ''available'' c
      \<and> san_status (sanitizeInvestigationSearch is_date 200 (as_search c)) = 200
      \<and> san_status (sanitizeRelatedEvidence is_date 200 (as_related h c)) = 200
      \<and> (if field ''available'' c = Some (JBool True) then truthy_field ''root'' c else field ''root'' c = None))"

definition workspace_ok :: "(string \<Rightarrow> bool) \<Rightarrow> json \<Rightarrow> bool" where
  "workspace_ok is_date v =
     (isRecord v \<and> summary_ok is_date (workspace_summary v)
      \<and> exactKeys v (summary_keys @ [''historical_context'', ''current_evidence'']) [''closed_at'']
      \<and> historical_ok is_date (sub ''historical_context'' v) \<and> current_ok is_date (sub ''historical_context'' v) (sub ''current_evidence'' v))"

definition sanitizeWorkspace :: "(string \<Rightarrow> bool) \<Rightarrow> nat \<Rightarrow> json \<Rightarrow> sanitized" where
  "sanitizeWorkspace is_date st v =
     (if st \<noteq> 200 \<and> st \<noteq> 201 then sanitized_error workspace_codes st v
      else if \<not> workspace_ok is_date v then sanitized_error workspace_codes 503 v
      else \<lparr>san_status = st, san_body = JObj (members (workspace_summary v)
        @ [(''historical_context'', copy_fields (sub ''historical_context'' v)
              [''query_context'', ''references'', ''withheld_reference_count'', ''history'', ''history_truncated'']),
           (''current_evidence'', copy_fields (sub ''current_evidence'' v) [''root'', ''relationships'', ''generated_at'', ''truncated'', ''available''])])\<rparr>)"

definition sanitizeWorkspaceReceipt :: "(string \<Rightarrow> bool) \<Rightarrow> nat \<Rightarrow> json \<Rightarrow> sanitized" where
  "sanitizeWorkspaceReceipt is_date st v =
     (if st \<noteq> 200 then sanitized_error workspace_codes st v
      else if isRecord v \<and> exactKeys v [''investigation_id'', ''outcome'', ''version'', ''occurred_at''] []
         \<and> string_field ''investigation_id'' (rx_test lowerUUIDShape) v \<and> string_field ''outcome'' (List.member [''handed_off'', ''closed'', ''reopened'']) v
         \<and> string_field ''version'' isVersion v \<and> string_field ''occurred_at'' (zoned_timestamp is_date) v
      then \<lparr>san_status = st, san_body = v\<rparr> else sanitized_error workspace_codes 503 v)"

section \<open>Routes\<close>

definition read_bounded_text :: "nat \<Rightarrow> upstream \<Rightarrow> json outcome" where
  "read_bounded_text maximum up =
     (if (case nonempty (get_header ''content-length'' (up_headers up)) of
            None \<Rightarrow> False | Some l \<Rightarrow> \<not> rx_test (RPlus (RSet is_digit)) l \<or> maximum < digits_value l) then Inl ''Error''
      else case up_text up of
        Body_timeout \<Rightarrow> Inl ''TimeoutError'' | Body_error \<Rightarrow> Inl ''TypeError''
      | Body t \<Rightarrow> if maximum < byte_length t then Inl ''Error''
          else if t = [] then Inr (JObj []) else (case JSON_parse t of None \<Rightarrow> Inl ''SyntaxError'' | Some v \<Rightarrow> Inr v))"

definition maximumWorkspaceBytes :: nat where "maximumWorkspaceBytes = 262144"

definition readBoundedWorkspaceBody :: "upstream \<Rightarrow> json outcome" where
  "readBoundedWorkspaceBody = read_bounded_text maximumWorkspaceBytes"

definition location_header :: "string \<Rightarrow> headers \<Rightarrow> headers" where
  "location_header base up = (case get_header ''location'' up of
     Some l \<Rightarrow> if rx_test (RSeq (RStr base) (RRep (RSet (\<lambda>c. is_hex_lower c \<or> c = CHR ''-'')) 36 36)) l then [(''Location'', l)] else []
   | None \<Rightarrow> [])"

definition request_id_header :: "headers \<Rightarrow> headers" where
  "request_id_header up = [(''Cache-Control'', ''no-store'')]
     @ (case safeResponseHeader (get_header ''x-request-id'' up) request_id_pattern of Some v \<Rightarrow> [(''X-Request-ID'', v)] | None \<Rightarrow> [])"

definition workspaces_headers :: "headers \<Rightarrow> headers" where
  "workspaces_headers up = safeHeaders up @ location_header ''/api/investigation/workspaces/'' up"

abbreviation json_content :: headers where
  "json_content \<equiv> [(''Content-Type'', ''application/json'')]"

text \<open>A body read within its bound and parsed.\<close>

definition parsed_body :: "request \<Rightarrow> nat \<Rightarrow> (json \<Rightarrow> json option) \<Rightarrow> json option" where
  "parsed_body request maximumBytes parse = (case readBoundedJSON request maximumBytes of Inl _ \<Rightarrow> None | Inr v \<Rightarrow> parse v)"

abbreviation bad_request :: exchange where
  "bad_request \<equiv> reply (jsonError ''invalid_request'' 400)"

definition workspaces_GET :: "server \<Rightarrow> 'st limiter \<Rightarrow> 'st \<Rightarrow> request \<Rightarrow> session option \<Rightarrow> 'st \<times> exchange" where
  "workspaces_GET srv consume st request session = (case authorizeInvestigationWorkspaces srv consume st request session False of
     (st', Inl d) \<Rightarrow> (st', reply d)
   | (st', Inr s) \<Rightarrow> (st',
       if searchParams request \<noteq> [] then bad_request
       else investigation_call srv request s ''/api/investigation/workspaces'' ''GET'' [] None
         (\<lambda>up. andthen (readBoundedWorkspaceBody up) (\<lambda>v.
            answered_json (sanitizeWorkspacePage (srv_date srv) (up_status up) v) (workspaces_headers (up_headers up)))) evidence_failure))"

definition workspaces_POST :: "server \<Rightarrow> 'st limiter \<Rightarrow> 'st \<Rightarrow> request \<Rightarrow> session option \<Rightarrow> 'st \<times> exchange" where
  "workspaces_POST srv consume st request session = (case authorizeInvestigationWorkspaces srv consume st request session True of
     (st', Inl d) \<Rightarrow> (st', reply d)
   | (st', Inr s) \<Rightarrow> (st',
       if searchParams request \<noteq> [] then bad_request
       else case parsed_body request 8192 parseWorkspaceCreateInput of
         None \<Rightarrow> bad_request
       | Some input \<Rightarrow> investigation_call srv request s ''/api/investigation/workspaces'' ''POST'' json_content (Some input)
           (\<lambda>up. andthen (readBoundedWorkspaceBody up) (\<lambda>v.
              answered_json (sanitizeWorkspace (srv_date srv) (up_status up) v) (workspaces_headers (up_headers up)))) evidence_failure))"

definition workspace_GET :: "server \<Rightarrow> 'st limiter \<Rightarrow> 'st \<Rightarrow> request \<Rightarrow> session option \<Rightarrow> string \<Rightarrow> 'st \<times> exchange" where
  "workspace_GET srv consume st request session param = (case authorizeInvestigationWorkspaces srv consume st request session False of
     (st', Inl d) \<Rightarrow> (st', reply d)
   | (st', Inr s) \<Rightarrow> (st', case canonicalUUID param of
       None \<Rightarrow> bad_request
     | Some investigationId \<Rightarrow>
         if searchParams request \<noteq> [] then bad_request
         else investigation_call srv request s (''/api/investigation/workspaces/'' @ investigationId) ''GET'' [] None
           (\<lambda>up. andthen (readBoundedWorkspaceBody up) (\<lambda>v.
              answered_json (sanitizeWorkspace (srv_date srv) (up_status up) v) (request_id_header (up_headers up)))) evidence_failure))"

definition workspace_actions :: "string list" where
  "workspace_actions = [''handoff'', ''close'', ''reopen'']"

definition workspace_action_POST :: "server \<Rightarrow> 'st limiter \<Rightarrow> 'st \<Rightarrow> request \<Rightarrow> session option \<Rightarrow> string \<Rightarrow> string \<Rightarrow> 'st \<times> exchange" where
  "workspace_action_POST srv consume st request session param action = (case authorizeInvestigationWorkspaces srv consume st request session True of
     (st', Inl d) \<Rightarrow> (st', reply d)
   | (st', Inr s) \<Rightarrow> (st', case canonicalUUID param of
       None \<Rightarrow> bad_request
     | Some investigationId \<Rightarrow>
         if \<not> List.member workspace_actions action \<or> searchParams request \<noteq> [] then bad_request
         else (case parsed_body request 4096 (if action = ''handoff'' then parseWorkspaceHandoffInput else parseWorkspaceStatusInput) of
           None \<Rightarrow> bad_request
         | Some input \<Rightarrow> investigation_call srv request s (''/api/investigation/workspaces/'' @ investigationId @ ''/'' @ action) ''POST'' json_content (Some input)
             (\<lambda>up. andthen (readBoundedWorkspaceBody up) (\<lambda>v.
                answered_json (sanitizeWorkspaceReceipt (srv_date srv) (up_status up) v) (safeHeaders (up_headers up)))) evidence_failure)))"

section \<open>The evidence bundle\<close>

datatype bundle_answer = Bundle_refused response | Bundle headers "nat list"

definition maximumBundleBytes :: nat where "maximumBundleBytes = 512 * 1024"

definition boundedBytes :: "upstream \<Rightarrow> nat \<Rightarrow> nat list outcome" where
  "boundedBytes up maximum =
     (if (case get_header ''content-length'' (up_headers up) of
            None \<Rightarrow> False | Some l \<Rightarrow> \<not> rx_test (RPlus (RSet is_digit)) l \<or> maximum < digits_value l) then Inl ''Error''
      else let es = (case up_stream up of None \<Rightarrow> [] | Some es \<Rightarrow> es) in
        if List.member es Stream_failure then Inl (read_failure up)
        else if maximum < length (chunk_bytes es) then Inl ''Error'' else Inr (chunk_bytes es))"

definition bundle_codes :: "string list" where
  "bundle_codes = [''invalid_request'', ''unauthorized'', ''forbidden'', ''not_found'', ''rate_limited'', ''export_unavailable'', ''investigation_version_conflict'']"

definition bundle_error :: "nat \<Rightarrow> nat list \<Rightarrow> headers \<Rightarrow> response" where
  "bundle_error st content hs =
     (let c = (case Option.bind (Option.bind (utf8_decode content) JSON_parse) error_code of
                 Some c \<Rightarrow> if List.member bundle_codes c then c else ''export_unavailable''
               | None \<Rightarrow> ''export_unavailable'');
          r = jsonError c (if List.member [400, 401, 403, 404, 409, 429, 503, 504] st then st else 503) in
      case get_header ''retry-after'' hs of
        Some t \<Rightarrow> if rx_test (RRep (RSet is_digit) 1 6) t then r\<lparr>resp_headers := set_header ''Retry-After'' t (resp_headers r)\<rparr> else r
      | None \<Rightarrow> r)"

definition digest_pattern :: rx where
  "digest_pattern = RRep (RSet is_hex_lower) 64 64"

definition expiry_pattern :: rx where
  "expiry_pattern =
     RSeq (RRep (RSet is_digit) 4 4) (RSeq (RChar CHR ''-'') (RSeq (RRep (RSet is_digit) 2 2) (RSeq (RChar CHR ''-'') (RSeq (RRep (RSet is_digit) 2 2)
     (RSeq (RChar CHR ''T'') (RSeq (RRep (RSet is_digit) 2 2) (RSeq (RChar CHR '':'') (RSeq (RRep (RSet is_digit) 2 2) (RSeq (RChar CHR '':'')
     (RSeq (RRep (RSet is_digit) 2 2) (RSeq (ROpt (RSeq (RChar CHR ''.'') (RRep (RSet is_digit) 1 9))) (RChar CHR ''Z''))))))))))))"

definition bundle_file :: "string \<Rightarrow> rx" where
  "bundle_file investigationId =
     RSeq (RStr (''attachment; filename='' @ [CHR 0x22] @ ''ledgersync-investigation-'' @ investigationId @ ''-''))
       (RSeq (RRep (RSet is_digit) 8 8) (RSeq (RChar CHR ''T'') (RSeq (RRep (RSet is_digit) 6 6) (RStr (''Z-v1.zip'' @ [CHR 0x22])))))"

definition bundle_headers :: "headers \<Rightarrow> string \<Rightarrow> nat list \<Rightarrow> string \<Rightarrow> string \<Rightarrow> headers" where
  "bundle_headers up disposition content sha256 expires =
     [(''Content-Type'', ''application/zip''), (''Content-Disposition'', disposition), (''Content-Length'', nat_string (length content)),
      (''Cache-Control'', ''no-store, private, max-age=0''), (''Pragma'', ''no-cache''), (''X-Content-Type-Options'', ''nosniff''),
      (''X-LedgerSync-Bundle-Schema'', ''1''), (''X-LedgerSync-Bundle-SHA256'', sha256), (''X-LedgerSync-Bundle-Expires-At'', expires)]
     @ (case safeResponseHeader (get_header ''x-request-id'' up) request_id_pattern of Some v \<Rightarrow> [(''X-Request-ID'', v)] | None \<Rightarrow> [])"

definition bundle_reading :: "(nat list \<Rightarrow> string) \<Rightarrow> string \<Rightarrow> upstream \<Rightarrow> bundle_answer outcome" where
  "bundle_reading digest_of investigationId up =
     andthen (boundedBytes up (if successful (up_status up) then maximumBundleBytes else 65536)) (\<lambda>content.
       let hs = up_headers up in
       if \<not> successful (up_status up) then Inr (Bundle_refused (bundle_error (up_status up) content hs))
       else case (get_header ''content-disposition'' hs, get_header ''x-ledgersync-bundle-sha256'' hs, get_header ''x-ledgersync-bundle-expires-at'' hs) of
         (Some disposition, Some sha256, Some expires) \<Rightarrow>
           if get_header ''content-type'' hs \<noteq> Some ''application/zip'' \<or> get_header ''x-ledgersync-bundle-schema'' hs \<noteq> Some ''1''
              \<or> \<not> rx_test (bundle_file investigationId) disposition \<or> \<not> rx_test digest_pattern sha256 \<or> \<not> rx_test expiry_pattern expires
              \<or> digest_of content \<noteq> sha256
           then Inr (Bundle_refused (jsonError ''export_unavailable'' 503))
           else Inr (Bundle (bundle_headers hs disposition content sha256 expires) content)
       | _ \<Rightarrow> Inr (Bundle_refused (jsonError ''export_unavailable'' 503)))"

definition bundle_failure :: "string \<Rightarrow> bundle_answer" where
  "bundle_failure e = Bundle_refused (if e = ''TimeoutError'' then jsonError ''upstream_timeout'' 504 else jsonError ''export_unavailable'' 503)"

definition bundle_POST :: "(nat list \<Rightarrow> string) \<Rightarrow> server \<Rightarrow> 'st limiter \<Rightarrow> 'st \<Rightarrow> request \<Rightarrow> session option \<Rightarrow> string
    \<Rightarrow> 'st \<times> upstream_request list \<times> bundle_answer" where
  "bundle_POST digest_of srv consume st request session param = (case authorizeInvestigationEvidenceBundle srv consume st request session of
     (st', Inl d) \<Rightarrow> (st', [], Bundle_refused d)
   | (st', Inr s) \<Rightarrow> (st', case canonicalUUID param of
       None \<Rightarrow> ([], Bundle_refused (jsonError ''invalid_request'' 400))
     | Some investigationId \<Rightarrow>
         if searchParams request \<noteq> [] then ([], Bundle_refused (jsonError ''invalid_request'' 400))
         else (case parsed_body request 4096 parseWorkspaceStatusInput of
           None \<Rightarrow> ([], Bundle_refused (jsonError ''invalid_request'' 400))
         | Some input \<Rightarrow> investigation_call srv request s (''/api/investigation/workspaces/'' @ investigationId @ ''/evidence-bundle'') ''POST''
             (json_content @ [(''Accept'', ''application/zip'')]) (Some input) (bundle_reading digest_of investigationId) bundle_failure)))"

section \<open>Properties\<close>

lemma bundle_reading_verified:
  assumes "bundle_reading digest_of investigationId up = Inr (Bundle hs bytes)"
  shows "successful (up_status up) \<and> bytes = chunk_bytes (case up_stream up of None \<Rightarrow> [] | Some es \<Rightarrow> es) \<and> length bytes \<le> maximumBundleBytes
    \<and> get_header ''X-LedgerSync-Bundle-SHA256'' hs = Some (digest_of bytes)
    \<and> (\<exists>disposition. get_header ''Content-Disposition'' hs = Some disposition \<and> rx_test (bundle_file investigationId) disposition)"
proof -
  have ok: "successful (up_status up)" using assms by (auto simp: bundle_reading_def andthen_eq_Inr Let_def split: if_splits)
  obtain disposition sha256 expires where h: "get_header ''content-disposition'' (up_headers up) = Some disposition"
      "get_header ''x-ledgersync-bundle-sha256'' (up_headers up) = Some sha256" "get_header ''x-ledgersync-bundle-expires-at'' (up_headers up) = Some expires"
    using assms ok by (cases "get_header ''content-disposition'' (up_headers up)"; cases "get_header ''x-ledgersync-bundle-sha256'' (up_headers up)";
        cases "get_header ''x-ledgersync-bundle-expires-at'' (up_headers up)") (auto simp: bundle_reading_def andthen_eq_Inr Let_def)
  have b: "boundedBytes up (if successful (up_status up) then maximumBundleBytes else 65536) = Inr bytes"
      "successful (up_status up)" "rx_test (bundle_file investigationId) disposition"
      "hs = bundle_headers (up_headers up) disposition bytes (digest_of bytes) expires"
    using assms ok by (auto simp: bundle_reading_def andthen_eq_Inr h Let_def split: if_splits)
  have names: "same_name ''X-LedgerSync-Bundle-SHA256'' ''X-LedgerSync-Bundle-SHA256''"
      "\<not> same_name ''Content-Type'' ''X-LedgerSync-Bundle-SHA256''" "\<not> same_name ''Content-Disposition'' ''X-LedgerSync-Bundle-SHA256''"
      "\<not> same_name ''Content-Length'' ''X-LedgerSync-Bundle-SHA256''" "\<not> same_name ''Cache-Control'' ''X-LedgerSync-Bundle-SHA256''"
      "\<not> same_name ''Pragma'' ''X-LedgerSync-Bundle-SHA256''" "\<not> same_name ''X-Content-Type-Options'' ''X-LedgerSync-Bundle-SHA256''"
      "\<not> same_name ''X-LedgerSync-Bundle-Schema'' ''X-LedgerSync-Bundle-SHA256''"
      "same_name ''Content-Disposition'' ''Content-Disposition''" "\<not> same_name ''Content-Type'' ''Content-Disposition''"
    by code_simp+
  have bytes: "bytes = chunk_bytes (case up_stream up of None \<Rightarrow> [] | Some es \<Rightarrow> es) \<and> length bytes \<le> maximumBundleBytes"
    using b(1,2) by (auto simp: boundedBytes_def Let_def split: if_splits option.splits)
  have "get_header ''X-LedgerSync-Bundle-SHA256'' hs = Some (digest_of bytes)" "get_header ''Content-Disposition'' hs = Some disposition"
    by (simp_all add: b(4) bundle_headers_def get_header_def names)
  with b(2,3) bytes show ?thesis by blast
qed

text \<open>C12: A bundle of evidence is what it says it is. A handler asks for a bundle only for an operator who may
  read investigations, evidence and exports, with the CSRF token, admitted by the limiter, and only for the
  investigation of the path, with the version that the operator named. When the browser receives a bundle,
  the private API succeeded, the bytes are exactly those it sent, no more than 512 KiB, the digest announced
  to the browser is the digest of these very bytes, and the file is named after that investigation.\<close>

theorem bundle_guarded_and_verified:
  assumes "bundle_POST digest_of srv consume st request session param = (st', sent, a)" "sent \<noteq> []"
  shows "\<exists>s i out input. session = Some s \<and> investigator searchableScopes s \<and> has_scope s ''exports:read''
    \<and> hasValidCSRF (srv_URL srv) (srv_env srv) request s \<and> allowed (snd (consume st (investigation_key ''evidence-bundle'' s) 10 60))
    \<and> canonicalUUID param = Some i \<and> sent = [out] \<and> out_method out = ''POST''
    \<and> out_url out = session_api (srv_env srv) @ ''/api/investigation/workspaces/'' @ i @ ''/evidence-bundle''
    \<and> out_body out = Some (JSON_stringify input) \<and> parsed_body request 4096 parseWorkspaceStatusInput = Some input
    \<and> (\<forall>hs bytes. a = Bundle hs bytes \<longrightarrow> (\<exists>up. srv_fetch srv out = Fetched up \<and> successful (up_status up)
         \<and> bytes = chunk_bytes (case up_stream up of None \<Rightarrow> [] | Some es \<Rightarrow> es) \<and> length bytes \<le> maximumBundleBytes
         \<and> get_header ''X-LedgerSync-Bundle-SHA256'' hs = Some (digest_of bytes)
         \<and> (\<exists>disposition. get_header ''Content-Disposition'' hs = Some disposition \<and> rx_test (bundle_file i) disposition)))"
proof -
  obtain s i input where g: "snd (authorizeInvestigationEvidenceBundle srv consume st request session) = Inr s" "canonicalUUID param = Some i"
      "parsed_body request 4096 parseWorkspaceStatusInput = Some input"
      "investigation_call srv request s (''/api/investigation/workspaces/'' @ i @ ''/evidence-bundle'') ''POST''
         (json_content @ [(''Accept'', ''application/zip'')]) (Some input) (bundle_reading digest_of i) bundle_failure = (sent, a)"
    using assms by (auto simp: bundle_POST_def split: prod.splits sum.splits option.splits if_splits)
  obtain out where out: "sent = [out]" "out_method out = ''POST''"
      "out_url out = session_api (srv_env srv) @ ''/api/investigation/workspaces/'' @ i @ ''/evidence-bundle''"
      "out_body out = Some (JSON_stringify input)"
      "a = (case srv_fetch srv out of Fetched up \<Rightarrow> (case bundle_reading digest_of i up of Inl e \<Rightarrow> bundle_failure e | Inr r \<Rightarrow> r)
        | Fetch_timeout \<Rightarrow> bundle_failure ''TimeoutError'' | Fetch_error \<Rightarrow> bundle_failure ''TypeError'')"
    using call_sent [OF g(4) assms(2)] by auto
  have "\<exists>up. srv_fetch srv out = Fetched up \<and> bundle_reading digest_of i up = Inr (Bundle hs bytes)" if "a = Bundle hs bytes" for hs bytes
    using that unfolding out(5) by (cases "srv_fetch srv out") (auto simp: bundle_failure_def split: sum.splits)
  then have shown: "a = Bundle hs bytes \<longrightarrow> (\<exists>up. srv_fetch srv out = Fetched up \<and> successful (up_status up)
         \<and> bytes = chunk_bytes (case up_stream up of None \<Rightarrow> [] | Some es \<Rightarrow> es) \<and> length bytes \<le> maximumBundleBytes
         \<and> get_header ''X-LedgerSync-Bundle-SHA256'' hs = Some (digest_of bytes)
         \<and> (\<exists>disposition. get_header ''Content-Disposition'' hs = Some disposition \<and> rx_test (bundle_file i) disposition))" for hs bytes
    using bundle_reading_verified by fast
  have accepted: "session = Some s" "investigator searchableScopes s" "has_scope s ''exports:read''"
      "hasValidCSRF (srv_URL srv) (srv_env srv) request s" "allowed (snd (consume st (investigation_key ''evidence-bundle'' s) 10 60))"
    using bundle_boundary.accepted [OF g(1)] by simp_all
  show ?thesis
    by (intro exI [of _ s] exI [of _ i] exI [of _ out] exI [of _ input] conjI allI; fact accepted g(2,3) out(1-4) shown)
qed

text \<open>A bundle of three bytes; its digest is a constant.\<close>

definition sample_investigation :: string where
  "sample_investigation = ''6f9619ff-8b86-d011-b42d-00cf4fc964ff''"

definition sample_digest :: "nat list \<Rightarrow> string" where
  "sample_digest bytes = replicate 64 CHR ''a''"

definition sample_disposition :: string where
  "sample_disposition = ''attachment; filename='' @ [CHR 0x22] @ ''ledgersync-investigation-'' @ sample_investigation @ ''-20260101T000000Z-v1.zip'' @ [CHR 0x22]"

definition sample_bundle :: upstream where
  "sample_bundle = \<lparr>up_status = 200, up_headers = [(''content-type'', ''application/zip''), (''x-ledgersync-bundle-schema'', ''1''),
     (''content-disposition'', sample_disposition),
     (''x-ledgersync-bundle-sha256'', replicate 64 CHR ''a''), (''x-ledgersync-bundle-expires-at'', ''2026-01-02T00:00:00Z'')],
     up_text = Body '''', up_stream = Some [Chunk [80, 75], Chunk [5]]\<rparr>"

definition sample_bundle_server :: server where
  "sample_bundle_server = sample_server\<lparr>srv_fetch := (\<lambda>r. Fetched sample_bundle)\<rparr>"

definition sample_investigator :: session where
  "sample_investigator = sample_session\<lparr>roles := Some [''tenant:admin''],
     scopes := Some [''investigation:read'', ''transfers:read'', ''exports:read'']\<rparr>"

definition sample_version :: json where
  "sample_version = JObj [(''expected_version'', JStr ''3'')]"

definition sample_bundle_request :: request where
  "sample_bundle_request = sample_request\<lparr>req_headers := req_headers sample_request @ [(''Content-Length'', ''24'')],
     req_text := Inr (JSON_stringify sample_version)\<rparr>"

lemma sample_bundle_input: "parsed_body sample_bundle_request 4096 parseWorkspaceStatusInput = Some sample_version"
proof -
  have h: "get_header ''content-length'' (req_headers sample_bundle_request) = Some ''24''" "to_number ''24'' = Some (Fin 24)"
      "byte_length (JSON_stringify sample_version) = 24" "plain_json sample_version" "parseWorkspaceStatusInput sample_version = Some sample_version"
    by code_simp+
  have t: "req_text sample_bundle_request = Inr (JSON_stringify sample_version)" by (simp add: sample_bundle_request_def)
  show ?thesis by (simp add: parsed_body_def readBoundedJSON_def h t JSON_roundtrip del: JSON_stringify.simps)
qed

lemma sample_bundle_read:
  "\<exists>hs. bundle_reading sample_digest sample_investigation sample_bundle = Inr (Bundle hs [80, 75, 5])"
proof -
  have h: "get_header ''content-length'' (up_headers sample_bundle) = None" "get_header ''content-type'' (up_headers sample_bundle) = Some ''application/zip''"
      "get_header ''x-ledgersync-bundle-schema'' (up_headers sample_bundle) = Some ''1''"
      "get_header ''content-disposition'' (up_headers sample_bundle) = Some sample_disposition"
      "get_header ''x-ledgersync-bundle-sha256'' (up_headers sample_bundle) = Some (replicate 64 CHR ''a'')"
      "get_header ''x-ledgersync-bundle-expires-at'' (up_headers sample_bundle) = Some ''2026-01-02T00:00:00Z''"
    by code_simp+
  have r: "rx_test (bundle_file sample_investigation) sample_disposition" "rx_test digest_pattern (replicate 64 CHR ''a'')"
      "rx_test expiry_pattern ''2026-01-02T00:00:00Z''"
    by code_simp+
  have u: "up_status sample_bundle = 200" "up_stream sample_bundle = Some [Chunk [80, 75], Chunk [5]]" by (simp_all add: sample_bundle_def)
  have b: "boundedBytes sample_bundle maximumBundleBytes = Inr [80, 75, 5]" by (simp add: boundedBytes_def h u maximumBundleBytes_def)
  have d: "sample_digest [80, 75, 5] = replicate 64 CHR ''a''" by (simp add: sample_digest_def)
  show ?thesis unfolding bundle_reading_def u by (simp add: b h r d Let_def del: replicate.simps)
qed

lemma sample_bundle_sent:
  "\<exists>sent hs. bundle_POST sample_digest sample_bundle_server (\<lambda>st k l w. (st, permit)) (0::nat) sample_bundle_request (Some sample_investigator)
     sample_investigation = (0, sent, Bundle hs [80, 75, 5]) \<and> sent \<noteq> []"
proof -
  have a: "authorizeInvestigationEvidenceBundle sample_bundle_server (\<lambda>st k l w. (st, permit)) (0::nat) sample_bundle_request (Some sample_investigator)
      = (0, Inr sample_investigator)" by code_simp
  have i: "canonicalUUID sample_investigation = Some sample_investigation" by code_simp
  have q: "searchParams sample_bundle_request = []" by (simp add: sample_bundle_request_def sample_request_def)
  have "\<not> isl (privateAPIContext sample_bundle_server sample_investigator (get_header ''x-request-id'' (req_headers sample_bundle_request)))" by code_simp
  then obtain c where c: "privateAPIContext sample_bundle_server sample_investigator (get_header ''x-request-id'' (req_headers sample_bundle_request)) = Inr c"
    by (metis sum.collapse(2))
  have f: "srv_fetch sample_bundle_server out = Fetched sample_bundle" for out by (simp add: sample_bundle_server_def)
  obtain hs where "bundle_reading sample_digest sample_investigation sample_bundle = Inr (Bundle hs [80, 75, 5])" using sample_bundle_read by blast
  then show ?thesis by (simp add: bundle_POST_def a i q sample_bundle_input investigation_call_def c f Let_def)
qed

theorem bundle_guarded_and_verified_witness:
  "\<exists>out hs. bundle_POST sample_digest sample_bundle_server (\<lambda>st k l w. (st, permit)) (0::nat) sample_bundle_request (Some sample_investigator)
     sample_investigation = (0, [out], Bundle hs [80, 75, 5])
     \<and> out_method out = ''POST'' \<and> get_header ''X-LedgerSync-Bundle-SHA256'' hs = Some (sample_digest [80, 75, 5])"
proof -
  obtain sent hs where run: "bundle_POST sample_digest sample_bundle_server (\<lambda>st k l w. (st, permit)) (0::nat) sample_bundle_request
      (Some sample_investigator) sample_investigation = (0, sent, Bundle hs [80, 75, 5])" "sent \<noteq> []"
    using sample_bundle_sent by blast
  from bundle_guarded_and_verified [OF run] obtain out where "sent = [out]" "out_method out = ''POST''"
      "get_header ''X-LedgerSync-Bundle-SHA256'' hs = Some (sample_digest [80, 75, 5])"
    by blast
  with run(1) show ?thesis by blast
qed

end
