(* ===== verification/SavedViews.thy ===== *)
theory SavedViews
  imports Workspaces Statements
begin

text \<open>
  Saved investigation views: \<^verbatim>\<open>web/src/lib/api/saved-investigation-views.ts\<close> and the routes under
  \<^verbatim>\<open>web/src/app/api/investigation/saved-views\<close>; and, over all JSON routes of investigations, what they may send. The
  ISO text of an instant that \<^verbatim>\<open>Date.parse\<close> accepts is the parameter \<open>to_iso\<close>.
\<close>

section \<open>Filters\<close>

fun replace_first :: "string \<Rightarrow> string \<Rightarrow> string \<Rightarrow> string" where
  "replace_first a b [] = (if a = [] then b else [])"
| "replace_first a b (c # cs) = (if startsWith (c # cs) a then b @ drop (length a) (c # cs) else c # replace_first a b cs)"

text \<open>The order of code units, and the sorting of names by it.\<close>

fun text_less :: "string \<Rightarrow> string \<Rightarrow> bool" where
  "text_less a [] = False"
| "text_less [] (d # ds) = True"
| "text_less (c # cs) (d # ds) = (code c < code d \<or> c = d \<and> text_less cs ds)"

fun insert_text :: "string \<Rightarrow> string list \<Rightarrow> string list" where
  "insert_text a [] = [a]"
| "insert_text a (b # bs) = (if text_less b a then b # insert_text a bs else a # b # bs)"

definition sorted_texts :: "string list \<Rightarrow> string list" where
  "sorted_texts xs = foldr insert_text xs []"

definition viewName :: "string \<Rightarrow> bool" where
  "viewName v = (v = trim v \<and> 1 \<le> length v \<and> length v \<le> 80 \<and> \<not> list_ex is_control v)"

definition oneOf :: "string list \<Rightarrow> string \<Rightarrow> string option" where
  "oneOf xs v = (if List.member xs v then Some v else None)"

definition matching :: "rx \<Rightarrow> string \<Rightarrow> string option" where
  "matching r v = (if rx_test r v then Some v else None)"

definition view_uuid :: "string \<Rightarrow> string option" where
  "view_uuid v = matching lowerUUIDShape (toLowerCase v)"

definition transferQuery :: rx where
  "transferQuery = RRep (RSet (\<lambda>c. is_hex_lower c \<or> c = CHR ''-'')) 1 128"

definition view_event_type :: rx where
  "view_event_type = RSeq (RSet is_alnum) (RRep (RSet (\<lambda>c. is_alnum c \<or> one_of ''._:-'' c)) 0 127)"

definition canonicalTimestamp :: "(string \<Rightarrow> string option) \<Rightarrow> string \<Rightarrow> string option" where
  "canonicalTimestamp to_iso v =
     (if 64 < length v \<or> \<not> zoned v then None else map_option (replace_first ''.000Z'' ''Z'') (to_iso v))"

definition date_shape :: rx where
  "date_shape = RSeq (RRep (RSet is_digit) 4 4) (RSeq (RChar CHR ''-'') (RSeq (RRep (RSet is_digit) 2 2) (RSeq (RChar CHR ''-'') (RRep (RSet is_digit) 2 2))))"

definition utcDate :: "(string \<Rightarrow> string option) \<Rightarrow> string \<Rightarrow> string option" where
  "utcDate to_iso v =
     (if \<not> rx_test date_shape v then None
      else case to_iso (v @ ''T00:00:00Z'') of Some t \<Rightarrow> if take 10 t = v then Some v else None | None \<Rightarrow> None)"

definition view_domains :: "string list" where
  "view_domains = [''accounts'', ''transfers'', ''funding'', ''approvals'', ''corrections'', ''events'', ''webhooks'']"

type_synonym view_rule = "string \<Rightarrow> string option"

definition rulesFor :: "(string \<Rightarrow> string option) \<Rightarrow> string \<Rightarrow> (string \<times> view_rule) list" where
  "rulesFor to_iso domain =
     (if domain = ''accounts'' then
        [(''status'', oneOf [''active'', ''frozen'', ''closed'']),
         (''category'', oneOf [''operating'', ''customer_funds'', ''payroll'', ''payables'', ''expenses'', ''reserve''])]
      else if domain = ''transfers'' then
        [(''q'', \<lambda>v. matching transferQuery (toLowerCase v)), (''accountId'', view_uuid), (''status'', oneOf [''pending'', ''posted'', ''rejected'']),
         (''from'', canonicalTimestamp to_iso), (''to'', canonicalTimestamp to_iso)]
      else if domain = ''funding'' then [(''status'', oneOf [''requested'', ''approved'', ''posted'', ''rejected'', ''compensated''])]
      else if domain = ''approvals'' then
        [(''domain'', oneOf [''funding'', ''correction'']),
         (''status'', oneOf [''funding:requested'', ''funding:approved'', ''funding:posted'', ''funding:rejected'', ''funding:compensated'',
            ''correction:requested'', ''correction:approved'', ''correction:rejected'', ''correction:cancelled'', ''correction:expired'', ''correction:posted'']),
         (''age'', oneOf [''under_24h'', ''over_24h'', ''over_7d'', ''over_30d'']), (''requested_after'', utcDate to_iso),
         (''requested_before'', utcDate to_iso), (''actionable_by_me'', oneOf [''true''])]
      else if domain = ''corrections'' then [(''status'', oneOf [''requested'', ''approved'', ''posted'', ''rejected'', ''cancelled'', ''expired''])]
      else if domain = ''events'' then
        [(''eventType'', matching view_event_type), (''state'', oneOf [''pending'', ''retrying'', ''published'', ''dead'']), (''endpointId'', view_uuid),
         (''relatedId'', view_uuid), (''correlationId'', view_uuid), (''from'', canonicalTimestamp to_iso), (''to'', canonicalTimestamp to_iso)]
      else if domain = ''webhooks'' then
        [(''status'', oneOf [''pending_verification'', ''active'', ''disabled'']), (''eventType'', matching view_event_type)]
      else [])"

text \<open>The table is a plain object: a name that is none of its own is looked up in \<^verbatim>\<open>Object.prototype\<close> and
  called. \<^verbatim>\<open>constructor\<close> wraps the text, \<^verbatim>\<open>toString\<close> describes the missing receiver, \<^verbatim>\<open>isPrototypeOf\<close> says no;
  the others throw.\<close>

definition apply_rule :: "(string \<Rightarrow> string option) \<Rightarrow> string \<Rightarrow> string \<Rightarrow> string \<Rightarrow> json option outcome" where
  "apply_rule to_iso domain key raw = (case map_of (rulesFor to_iso domain) key of
     Some rule \<Rightarrow> Inr (map_option JStr (rule raw))
   | None \<Rightarrow>
       if key = ''constructor'' then Inr (Some (JStr raw))
       else if key = ''toString'' then Inr (Some (JStr ''[object Undefined]''))
       else if key = ''isPrototypeOf'' then Inr (Some (JBool False))
       else if List.member object_prototype_names key then Inl ''TypeError'' else Inr None)"

fun normalized_filters :: "(string \<Rightarrow> string option) \<Rightarrow> string \<Rightarrow> (string \<times> json) list \<Rightarrow> (string \<times> json) list option outcome" where
  "normalized_filters to_iso domain [] = Inr (Some [])"
| "normalized_filters to_iso domain ((key, v) # entries) = (case v of
     JStr raw \<Rightarrow>
       if raw = [] \<or> raw \<noteq> trim raw then Inr None
       else (case apply_rule to_iso domain key raw of
               Inl e \<Rightarrow> Inl e
             | Inr None \<Rightarrow> Inr None
             | Inr (Some x) \<Rightarrow> (case normalized_filters to_iso domain entries of
                 Inr (Some rest) \<Rightarrow> Inr (Some ((key, x) # rest))
               | r \<Rightarrow> r))
   | _ \<Rightarrow> Inr None)"

definition after :: "json \<Rightarrow> string \<Rightarrow> string \<Rightarrow> bool" where
  "after fs a b = (truthy_field a fs \<and> truthy_field b fs \<and> text_less (field_string b fs) (field_string a fs))"

definition filters_consistent :: "string \<Rightarrow> json \<Rightarrow> bool" where
  "filters_consistent domain fs =
     (\<not> after fs ''from'' ''to'' \<and> \<not> after fs ''requested_after'' ''requested_before''
      \<and> \<not> (domain = ''approvals'' \<and> truthy_field ''domain'' fs \<and> truthy_field ''status'' fs
            \<and> \<not> startsWith (field_string ''status'' fs) (field_string ''domain'' fs @ '':'')))"

definition filter_text :: "json \<Rightarrow> string \<Rightarrow> string" where
  "filter_text fs key = (case field key fs of Some (JStr s) \<Rightarrow> s | Some (JBool False) \<Rightarrow> ''false'' | _ \<Rightarrow> '''')"

definition target_of :: "string \<Rightarrow> json \<Rightarrow> string" where
  "target_of domain fs = ''/'' @ domain @ ''?''
     @ params_string (foldl (\<lambda>q key. set_param key (filter_text fs key) q) [] (sorted_texts (object_keys fs)))"

definition normalizeSavedViewDefinition ::
  "(string \<Rightarrow> string option) \<Rightarrow> string \<Rightarrow> json \<Rightarrow> (json \<times> string) option outcome" where
  "normalizeSavedViewDefinition to_iso domain input =
     (let entries = members input in
      if \<not> List.member view_domains domain \<or> length entries < 1 \<or> 8 < length entries then Inr None
      else case normalized_filters to_iso domain entries of
        Inl e \<Rightarrow> Inl e
      | Inr None \<Rightarrow> Inr None
      | Inr (Some fs) \<Rightarrow> if filters_consistent domain (JObj fs) then Inr (Some (JObj fs, target_of domain (JObj fs))) else Inr None)"

section \<open>Inputs and answers\<close>

definition createSavedViewInput :: "(string \<Rightarrow> string option) \<Rightarrow> string \<Rightarrow> string \<Rightarrow> json \<Rightarrow> json outcome" where
  "createSavedViewInput to_iso name domain rawFilters =
     (if \<not> viewName name then Inl ''invalid saved view name''
      else case normalizeSavedViewDefinition to_iso domain rawFilters of
        Inl e \<Rightarrow> Inl e
      | Inr None \<Rightarrow> Inl ''invalid saved view filters''
      | Inr (Some (fs, target)) \<Rightarrow> Inr (JObj [(''name'', JStr name), (''filter_schema_version'', JStr ''1''), (''domain'', JStr domain), (''filters'', fs)]))"

definition parseSavedViewCreateInput :: "(string \<Rightarrow> string option) \<Rightarrow> json \<Rightarrow> json option" where
  "parseSavedViewCreateInput to_iso v =
     (if isRecord v \<and> exactKeys v [''name'', ''filter_schema_version'', ''domain'', ''filters''] [] \<and> string_field ''name'' viewName v
         \<and> field ''filter_schema_version'' v = Some (JStr ''1'') \<and> string_field ''domain'' (List.member view_domains) v
         \<and> isRecord (sub ''filters'' v)
      then (case normalizeSavedViewDefinition to_iso (field_string ''domain'' v) (sub ''filters'' v) of
              Inr (Some (fs, target)) \<Rightarrow> Some (JObj [(''name'', JStr (field_string ''name'' v)), (''filter_schema_version'', JStr ''1''),
                (''domain'', JStr (field_string ''domain'' v)), (''filters'', fs)])
            | _ \<Rightarrow> None)
      else None)"

definition parseSavedViewRenameInput :: "json \<Rightarrow> json option" where
  "parseSavedViewRenameInput v =
     (if isRecord v \<and> exactKeys v [''expected_version'', ''name''] [] \<and> string_field ''expected_version'' isVersion v \<and> string_field ''name'' viewName v
      then Some (copy_fields v [''expected_version'', ''name'']) else None)"

definition view_keys :: "string list" where
  "view_keys = [''saved_view_id'', ''name'', ''filter_schema_version'', ''domain'', ''filters'', ''target_path'', ''version'', ''created_at'', ''updated_at'']"

text \<open>A view that passes; the filters shown are the normalized ones.\<close>

definition sanitizeView :: "(string \<Rightarrow> string option) \<Rightarrow> json \<Rightarrow> json option outcome" where
  "sanitizeView to_iso v =
     (if isRecord v \<and> exactKeys v view_keys [] \<and> string_field ''saved_view_id'' (rx_test lowerUUIDShape) v \<and> string_field ''name'' viewName v
         \<and> field ''filter_schema_version'' v = Some (JStr ''1'') \<and> string_field ''domain'' (List.member view_domains) v
         \<and> string_field ''target_path'' (\<lambda>_. True) v \<and> string_field ''version'' isVersion v
         \<and> string_field ''created_at'' (zoned_timestamp (\<lambda>t. to_iso t \<noteq> None)) v \<and> string_field ''updated_at'' (zoned_timestamp (\<lambda>t. to_iso t \<noteq> None)) v
         \<and> isRecord (sub ''filters'' v)
      then (case normalizeSavedViewDefinition to_iso (field_string ''domain'' v) (sub ''filters'' v) of
              Inl e \<Rightarrow> Inl e
            | Inr None \<Rightarrow> Inr None
            | Inr (Some (fs, target)) \<Rightarrow>
                if target \<noteq> field_string ''target_path'' v then Inr None
                else Inr (Some (JObj [(''saved_view_id'', JStr (field_string ''saved_view_id'' v)), (''name'', JStr (field_string ''name'' v)),
                  (''filter_schema_version'', JStr ''1''), (''domain'', JStr (field_string ''domain'' v)), (''filters'', fs), (''target_path'', JStr target),
                  (''version'', JStr (field_string ''version'' v)), (''created_at'', JStr (field_string ''created_at'' v)),
                  (''updated_at'', JStr (field_string ''updated_at'' v))])))
      else Inr None)"

definition saved_view_codes :: "string list" where
  "saved_view_codes = [''unauthorized'', ''forbidden'', ''invalid_request'', ''validation_failed'', ''unsupported_media_type'', ''not_found'',
     ''saved_view_version_conflict'', ''saved_view_name_conflict'', ''saved_view_limit_reached'', ''rate_limited'', ''evidence_unavailable'',
     ''temporary_unavailable'', ''upstream_timeout'']"

definition sanitizeSavedViewPage :: "(string \<Rightarrow> string option) \<Rightarrow> nat \<Rightarrow> json \<Rightarrow> sanitized outcome" where
  "sanitizeSavedViewPage to_iso st v =
     (if st \<noteq> 200 then Inr (sanitized_error saved_view_codes st v)
      else if isRecord v \<and> exactKeys v [''views'', ''generated_at''] [] \<and> string_field ''generated_at'' (zoned_timestamp (\<lambda>t. to_iso t \<noteq> None)) v
         \<and> array_field ''views'' 25 (\<lambda>_. True) v
      then andthen (traverse (sanitizeView to_iso) (array_values ''views'' v)) (\<lambda>views.
        if list_ex (\<lambda>x. x = None) views \<or> \<not> distinct (map (\<lambda>x. field_string ''saved_view_id'' (the x)) views)
        then Inr (sanitized_error saved_view_codes 503 v)
        else Inr \<lparr>san_status = 200, san_body = JObj [(''views'', JArr (map the views)), (''generated_at'', JStr (field_string ''generated_at'' v))]\<rparr>)
      else Inr (sanitized_error saved_view_codes 503 v))"

definition sanitizeSavedView :: "(string \<Rightarrow> string option) \<Rightarrow> nat \<Rightarrow> json \<Rightarrow> sanitized outcome" where
  "sanitizeSavedView to_iso st v =
     (if st \<noteq> 200 \<and> st \<noteq> 201 then Inr (sanitized_error saved_view_codes st v)
      else andthen (sanitizeView to_iso v) (\<lambda>view. case view of
        Some x \<Rightarrow> Inr \<lparr>san_status = st, san_body = x\<rparr> | None \<Rightarrow> Inr (sanitized_error saved_view_codes 503 v)))"

definition readBoundedSavedViewBody :: "upstream \<Rightarrow> json outcome" where
  "readBoundedSavedViewBody = read_bounded_text maximumEvidenceBytes"

section \<open>Routes\<close>

definition saved_views_headers :: "headers \<Rightarrow> headers" where
  "saved_views_headers up = safeHeaders up @ location_header ''/api/investigation/saved-views/'' up"

definition saved_view_answer :: "(json \<Rightarrow> sanitized outcome) \<Rightarrow> headers \<Rightarrow> upstream \<Rightarrow> response outcome" where
  "saved_view_answer sanitize hs up = andthen (readBoundedSavedViewBody up) (\<lambda>v. andthen (sanitize v) (\<lambda>s. answered_json s hs))"

definition saved_views_GET :: "(string \<Rightarrow> string option) \<Rightarrow> server \<Rightarrow> 'st limiter \<Rightarrow> 'st \<Rightarrow> request \<Rightarrow> session option \<Rightarrow> 'st \<times> exchange" where
  "saved_views_GET to_iso srv consume st request session = (case authorizeInvestigationSavedViews srv consume st request session False of
     (st', Inl d) \<Rightarrow> (st', reply d)
   | (st', Inr s) \<Rightarrow> (st',
       if searchParams request \<noteq> [] then bad_request
       else investigation_call srv request s ''/api/investigation/saved-views'' ''GET'' [] None
         (\<lambda>up. saved_view_answer (sanitizeSavedViewPage to_iso (up_status up)) (saved_views_headers (up_headers up)) up) evidence_failure))"

definition saved_views_POST :: "(string \<Rightarrow> string option) \<Rightarrow> server \<Rightarrow> 'st limiter \<Rightarrow> 'st \<Rightarrow> request \<Rightarrow> session option \<Rightarrow> 'st \<times> exchange" where
  "saved_views_POST to_iso srv consume st request session = (case authorizeInvestigationSavedViews srv consume st request session True of
     (st', Inl d) \<Rightarrow> (st', reply d)
   | (st', Inr s) \<Rightarrow> (st',
       if searchParams request \<noteq> [] then bad_request
       else case parsed_body request 8192 (parseSavedViewCreateInput to_iso) of
         None \<Rightarrow> bad_request
       | Some input \<Rightarrow> investigation_call srv request s ''/api/investigation/saved-views'' ''POST'' json_content (Some input)
           (\<lambda>up. saved_view_answer (sanitizeSavedView to_iso (up_status up)) (saved_views_headers (up_headers up)) up) evidence_failure))"

definition saved_view_PUT :: "(string \<Rightarrow> string option) \<Rightarrow> server \<Rightarrow> 'st limiter \<Rightarrow> 'st \<Rightarrow> request \<Rightarrow> session option \<Rightarrow> string \<Rightarrow> 'st \<times> exchange" where
  "saved_view_PUT to_iso srv consume st request session param = (case authorizeInvestigationSavedViews srv consume st request session True of
     (st', Inl d) \<Rightarrow> (st', reply d)
   | (st', Inr s) \<Rightarrow> (st', case canonicalUUID param of
       None \<Rightarrow> bad_request
     | Some savedViewId \<Rightarrow>
         if searchParams request \<noteq> [] then bad_request
         else (case parsed_body request 4096 parseSavedViewRenameInput of
           None \<Rightarrow> bad_request
         | Some input \<Rightarrow> investigation_call srv request s (''/api/investigation/saved-views/'' @ savedViewId) ''PUT'' json_content (Some input)
             (\<lambda>up. saved_view_answer (sanitizeSavedView to_iso (up_status up)) (safeHeaders (up_headers up)) up) evidence_failure)))"

definition versionTag :: rx where
  "versionTag = RSeq (RChar CHR 0x22) (RSeq (RSet (between 49 57)) (RSeq (RRep (RSet is_digit) 0 18) (RChar CHR 0x22)))"

definition saved_view_DELETE :: "(string \<Rightarrow> string option) \<Rightarrow> server \<Rightarrow> 'st limiter \<Rightarrow> 'st \<Rightarrow> request \<Rightarrow> session option \<Rightarrow> string \<Rightarrow> 'st \<times> exchange" where
  "saved_view_DELETE to_iso srv consume st request session param = (case authorizeInvestigationSavedViews srv consume st request session True of
     (st', Inl d) \<Rightarrow> (st', reply d)
   | (st', Inr s) \<Rightarrow> (st', case canonicalUUID param of
       None \<Rightarrow> bad_request
     | Some savedViewId \<Rightarrow>
         if searchParams request \<noteq> [] then bad_request
         else (case get_header ''if-match'' (req_headers request) of
           None \<Rightarrow> bad_request
         | Some tag \<Rightarrow>
             if \<not> rx_test versionTag tag
                \<or> (case nonempty (get_header ''content-length'' (req_headers request)) of Some l \<Rightarrow> l \<noteq> ''0'' | None \<Rightarrow> False) then bad_request
             else investigation_call srv request s (''/api/investigation/saved-views/'' @ savedViewId) ''DELETE'' [(''If-Match'', tag)] None
               (\<lambda>up. if up_status up = 204 then Inr \<lparr>status = 204, resp_headers = safeHeaders (up_headers up), resp_body = ''''\<rparr>
                  else saved_view_answer (sanitizeSavedView to_iso (up_status up)) (safeHeaders (up_headers up)) up) evidence_failure)))"

section \<open>The routes of investigations as one family\<close>

datatype investigation_route =
    Search_evidence
  | Related_evidence string string
  | Workspace_list
  | Workspace_create
  | Workspace_record string
  | Workspace_action string string
  | View_list
  | View_create
  | View_rename string
  | View_delete string

definition investigate :: "(string \<Rightarrow> string option) \<Rightarrow> server \<Rightarrow> 'st limiter \<Rightarrow> 'st \<Rightarrow> request \<Rightarrow> session option \<Rightarrow> investigation_route \<Rightarrow> 'st \<times> exchange" where
  "investigate to_iso srv consume st request session r = (case r of
     Search_evidence \<Rightarrow> search_GET srv consume st request session
   | Related_evidence t i \<Rightarrow> related_GET srv consume st request session t i
   | Workspace_list \<Rightarrow> workspaces_GET srv consume st request session
   | Workspace_create \<Rightarrow> workspaces_POST srv consume st request session
   | Workspace_record i \<Rightarrow> workspace_GET srv consume st request session i
   | Workspace_action i a \<Rightarrow> workspace_action_POST srv consume st request session i a
   | View_list \<Rightarrow> saved_views_GET to_iso srv consume st request session
   | View_create \<Rightarrow> saved_views_POST to_iso srv consume st request session
   | View_rename i \<Rightarrow> saved_view_PUT to_iso srv consume st request session i
   | View_delete i \<Rightarrow> saved_view_DELETE to_iso srv consume st request session i)"

text \<open>What each route needs and where it goes, stated apart from the handlers.\<close>

definition inv_domains :: "investigation_route \<Rightarrow> string list" where
  "inv_domains r = (case r of View_list \<Rightarrow> savedViewDomainScopes | View_create \<Rightarrow> savedViewDomainScopes | View_rename _ \<Rightarrow> savedViewDomainScopes
     | View_delete _ \<Rightarrow> savedViewDomainScopes | _ \<Rightarrow> searchableScopes)"

definition inv_method :: "investigation_route \<Rightarrow> string" where
  "inv_method r = (case r of Workspace_create \<Rightarrow> ''POST'' | Workspace_action _ _ \<Rightarrow> ''POST'' | View_create \<Rightarrow> ''POST'' | View_rename _ \<Rightarrow> ''PUT''
     | View_delete _ \<Rightarrow> ''DELETE'' | _ \<Rightarrow> ''GET'')"

definition inv_key :: "investigation_route \<Rightarrow> string" where
  "inv_key r = (case r of Search_evidence \<Rightarrow> ''search'' | Related_evidence _ _ \<Rightarrow> ''relationships'' | Workspace_list \<Rightarrow> ''workspaces-read''
     | Workspace_record _ \<Rightarrow> ''workspaces-read'' | Workspace_create \<Rightarrow> ''workspaces-write'' | Workspace_action _ _ \<Rightarrow> ''workspaces-write''
     | View_list \<Rightarrow> ''saved-views-read'' | _ \<Rightarrow> ''saved-views-write'')"

definition inv_limit :: "investigation_route \<Rightarrow> int" where
  "inv_limit r = (case r of Workspace_create \<Rightarrow> 12 | Workspace_action _ _ \<Rightarrow> 12 | View_create \<Rightarrow> 15 | View_rename _ \<Rightarrow> 15 | View_delete _ \<Rightarrow> 15 | _ \<Rightarrow> 30)"

definition inv_path :: "investigation_route \<Rightarrow> request \<Rightarrow> string option" where
  "inv_path r request = (case r of
     Search_evidence \<Rightarrow> map_option (\<lambda>(query, kind). ''/api/investigation/search?'' @ params_string query) (parseInvestigationSearchQuery (searchParams request))
   | Related_evidence t i \<Rightarrow> related_path t i
   | Workspace_list \<Rightarrow> Some ''/api/investigation/workspaces''
   | Workspace_create \<Rightarrow> Some ''/api/investigation/workspaces''
   | Workspace_record i \<Rightarrow> map_option (\<lambda>u. ''/api/investigation/workspaces/'' @ u) (canonicalUUID i)
   | Workspace_action i a \<Rightarrow> if List.member workspace_actions a then map_option (\<lambda>u. ''/api/investigation/workspaces/'' @ u @ ''/'' @ a) (canonicalUUID i) else None
   | View_list \<Rightarrow> Some ''/api/investigation/saved-views''
   | View_create \<Rightarrow> Some ''/api/investigation/saved-views''
   | View_rename i \<Rightarrow> map_option (\<lambda>u. ''/api/investigation/saved-views/'' @ u) (canonicalUUID i)
   | View_delete i \<Rightarrow> map_option (\<lambda>u. ''/api/investigation/saved-views/'' @ u) (canonicalUUID i))"

text \<open>The caller of a route: an investigator of the route's domains on the public host, admitted by the
  limiter; for a change with the scope to write and the CSRF token.\<close>

definition inv_admitted :: "server \<Rightarrow> 'st limiter \<Rightarrow> 'st \<Rightarrow> request \<Rightarrow> investigation_route \<Rightarrow> session \<Rightarrow> bool" where
  "inv_admitted srv consume st request r s =
     (investigator (inv_domains r) s \<and> hasValidHost (srv_URL srv) (srv_env srv) request
      \<and> (inv_method r \<noteq> ''GET'' \<longrightarrow> has_scope s ''investigation:write'' \<and> hasValidCSRF (srv_URL srv) (srv_env srv) request s)
      \<and> allowed (snd (consume st (investigation_key (inv_key r) s) (inv_limit r) 60)))"

definition inv_sends :: "server \<Rightarrow> 'st limiter \<Rightarrow> 'st \<Rightarrow> request \<Rightarrow> session option \<Rightarrow> investigation_route \<Rightarrow> exchange \<Rightarrow> bool" where
  "inv_sends srv consume st request session r x =
     (\<exists>s path extra body process. session = Some s \<and> inv_admitted srv consume st request r s \<and> inv_path r request = Some path
        \<and> investigation_call srv request s path (inv_method r) extra body process evidence_failure = x
        \<and> (\<forall>up resp. process up = Inr resp \<longrightarrow> successful (status resp) \<longrightarrow> up_status up = status resp))"

lemmas inv_defs = inv_sends_def inv_admitted_def inv_domains_def inv_method_def inv_key_def inv_limit_def inv_path_def

section \<open>A success is the private API's\<close>

lemma answered_status: "answered_json s hs = Inr resp \<Longrightarrow> status resp = san_status s"
  by (auto simp: answered_json_def json_response_def split: if_splits)

lemma sanitized_error_fails: "\<not> successful (san_status (sanitized_error codes st v))"
  by (auto simp: sanitized_error_def split: option.split)

lemma workspace_page_status: "successful (san_status (sanitizeWorkspacePage d st v)) \<Longrightarrow> san_status (sanitizeWorkspacePage d st v) = st"
  using sanitized_error_fails [of workspace_codes] by (auto simp: sanitizeWorkspacePage_def)

lemma workspace_status: "successful (san_status (sanitizeWorkspace d st v)) \<Longrightarrow> san_status (sanitizeWorkspace d st v) = st"
  using sanitized_error_fails [of workspace_codes] by (auto simp: sanitizeWorkspace_def)

lemma receipt_status: "successful (san_status (sanitizeWorkspaceReceipt d st v)) \<Longrightarrow> san_status (sanitizeWorkspaceReceipt d st v) = st"
  using sanitized_error_fails [of workspace_codes] by (auto simp: sanitizeWorkspaceReceipt_def)

lemma view_page_status: "sanitizeSavedViewPage to_iso st v = Inr s \<Longrightarrow> successful (san_status s) \<Longrightarrow> san_status s = st"
  using sanitized_error_fails [of saved_view_codes] by (auto simp: sanitizeSavedViewPage_def andthen_eq_Inr split: if_splits)

lemma view_status: "sanitizeSavedView to_iso st v = Inr s \<Longrightarrow> successful (san_status s) \<Longrightarrow> san_status s = st"
  using sanitized_error_fails [of saved_view_codes] by (auto simp: sanitizeSavedView_def andthen_eq_Inr split: if_splits option.splits)

lemma kept_answer:
  assumes "andthen reading (\<lambda>v. answered_json (f v) hs) = Inr resp" "successful (status resp)"
    and "\<And>v. successful (san_status (f v)) \<Longrightarrow> san_status (f v) = n"
  shows "n = status resp"
  using assms by (auto simp: andthen_eq_Inr dest!: answered_status)

lemmas workspace_answers = kept_answer [OF _ _ workspace_page_status] kept_answer [OF _ _ workspace_status] kept_answer [OF _ _ receipt_status]

lemmas search_answers = kept_answer [OF _ _ conjunct1 [OF search_success]] kept_answer [OF _ _ conjunct1 [OF related_success]]

lemma kept_view:
  assumes "saved_view_answer sanitize hs up = Inr resp" "successful (status resp)"
    and "\<And>v s. sanitize v = Inr s \<Longrightarrow> successful (san_status s) \<Longrightarrow> san_status s = up_status up"
  shows "up_status up = status resp"
  using assms by (auto simp: saved_view_answer_def andthen_eq_Inr dest!: answered_status)

lemmas view_answers = kept_view [OF _ _ view_page_status] kept_view [OF _ _ view_status]

lemma inv_sends_call:
  assumes "inv_admitted srv consume st request r s" "inv_path r request = Some path" "inv_method r = m"
    and "\<And>up resp. process up = Inr resp \<Longrightarrow> successful (status resp) \<Longrightarrow> up_status up = status resp"
  shows "inv_sends srv consume st request (Some s) r (investigation_call srv request s path m extra body process evidence_failure)"
  unfolding inv_sends_def using assms by blast

lemma search_GET_sends:
  assumes "search_GET srv consume st request session = (st', x)" "fst x \<noteq> []"
  shows "inv_sends srv consume st request session Search_evidence x"
proof -
  note act = read_boundary.acts_accepted [OF assms(1) [unfolded search_GET_def] assms(2)]
  obtain s where s: "inv_admitted srv consume st request Search_evidence s" "session = Some s" using act by (auto simp: inv_defs)
  show ?thesis
    using act assms(2) s(2) by (auto split: option.splits if_splits prod.splits intro!: inv_sends_call [OF s(1)] simp: inv_path_def inv_method_def elim: search_answers(1))
qed

lemma related_GET_sends:
  assumes "related_GET srv consume st request session t i = (st', x)" "fst x \<noteq> []"
  shows "inv_sends srv consume st request session (Related_evidence t i) x"
proof -
  note act = read_boundary.acts_accepted [OF assms(1) [unfolded related_GET_def] assms(2)]
  obtain s where s: "inv_admitted srv consume st request (Related_evidence t i) s" "session = Some s" using act by (auto simp: inv_defs)
  show ?thesis
    using act assms(2) s(2) by (auto split: option.splits if_splits prod.splits intro!: inv_sends_call [OF s(1)] simp: inv_path_def inv_method_def elim: search_answers(2))
qed

lemma workspaces_GET_sends:
  assumes "workspaces_GET srv consume st request session = (st', x)" "fst x \<noteq> []"
  shows "inv_sends srv consume st request session Workspace_list x"
proof -
  note act = workspaces_boundary.acts_accepted [OF assms(1) [unfolded workspaces_GET_def] assms(2)]
  obtain s where s: "inv_admitted srv consume st request Workspace_list s" "session = Some s" using act by (auto simp: inv_defs)
  show ?thesis
    using act assms(2) s(2) by (auto split: option.splits if_splits prod.splits intro!: inv_sends_call [OF s(1)] simp: inv_path_def inv_method_def elim: workspace_answers(1))
qed

lemma workspaces_POST_sends:
  assumes "workspaces_POST srv consume st request session = (st', x)" "fst x \<noteq> []"
  shows "inv_sends srv consume st request session Workspace_create x"
proof -
  note act = workspaces_boundary.acts_accepted [OF assms(1) [unfolded workspaces_POST_def] assms(2)]
  obtain s where s: "inv_admitted srv consume st request Workspace_create s" "session = Some s" using act by (auto simp: inv_defs)
  show ?thesis
    using act assms(2) s(2) by (auto split: option.splits if_splits prod.splits intro!: inv_sends_call [OF s(1)] simp: inv_path_def inv_method_def elim: workspace_answers(2))
qed

lemma workspace_GET_sends:
  assumes "workspace_GET srv consume st request session i = (st', x)" "fst x \<noteq> []"
  shows "inv_sends srv consume st request session (Workspace_record i) x"
proof -
  note act = workspaces_boundary.acts_accepted [OF assms(1) [unfolded workspace_GET_def] assms(2)]
  obtain s where s: "inv_admitted srv consume st request (Workspace_record i) s" "session = Some s" using act by (auto simp: inv_defs)
  show ?thesis
    using act assms(2) s(2) by (auto split: option.splits if_splits prod.splits intro!: inv_sends_call [OF s(1)] simp: inv_path_def inv_method_def elim: workspace_answers(2))
qed

lemma workspace_action_POST_sends:
  assumes "workspace_action_POST srv consume st request session i a = (st', x)" "fst x \<noteq> []"
  shows "inv_sends srv consume st request session (Workspace_action i a) x"
proof -
  note act = workspaces_boundary.acts_accepted [OF assms(1) [unfolded workspace_action_POST_def] assms(2)]
  obtain s where s: "inv_admitted srv consume st request (Workspace_action i a) s" "session = Some s" using act by (auto simp: inv_defs)
  show ?thesis
    using act assms(2) s by (auto split: option.splits if_splits prod.splits intro!: inv_sends_call simp: inv_path_def inv_method_def elim: workspace_answers(3))
qed

lemma saved_views_GET_sends:
  assumes "saved_views_GET to_iso srv consume st request session = (st', x)" "fst x \<noteq> []"
  shows "inv_sends srv consume st request session View_list x"
proof -
  note act = views_boundary.acts_accepted [OF assms(1) [unfolded saved_views_GET_def] assms(2)]
  obtain s where s: "inv_admitted srv consume st request View_list s" "session = Some s" using act by (auto simp: inv_defs)
  show ?thesis
    using act assms(2) s(2) by (auto split: option.splits if_splits prod.splits intro!: inv_sends_call [OF s(1)] simp: inv_path_def inv_method_def elim: view_answers(1))
qed

lemma saved_views_POST_sends:
  assumes "saved_views_POST to_iso srv consume st request session = (st', x)" "fst x \<noteq> []"
  shows "inv_sends srv consume st request session View_create x"
proof -
  note act = views_boundary.acts_accepted [OF assms(1) [unfolded saved_views_POST_def] assms(2)]
  obtain s where s: "inv_admitted srv consume st request View_create s" "session = Some s" using act by (auto simp: inv_defs)
  show ?thesis
    using act assms(2) s(2) by (auto split: option.splits if_splits prod.splits intro!: inv_sends_call [OF s(1)] simp: inv_path_def inv_method_def elim: view_answers(2))
qed

lemma saved_view_PUT_sends:
  assumes "saved_view_PUT to_iso srv consume st request session i = (st', x)" "fst x \<noteq> []"
  shows "inv_sends srv consume st request session (View_rename i) x"
proof -
  note act = views_boundary.acts_accepted [OF assms(1) [unfolded saved_view_PUT_def] assms(2)]
  obtain s where s: "inv_admitted srv consume st request (View_rename i) s" "session = Some s" using act by (auto simp: inv_defs)
  show ?thesis
    using act assms(2) s(2) by (auto split: option.splits if_splits prod.splits intro!: inv_sends_call [OF s(1)] simp: inv_path_def inv_method_def elim: view_answers(2))
qed

lemma saved_view_DELETE_sends:
  assumes "saved_view_DELETE to_iso srv consume st request session i = (st', x)" "fst x \<noteq> []"
  shows "inv_sends srv consume st request session (View_delete i) x"
proof -
  note act = views_boundary.acts_accepted [OF assms(1) [unfolded saved_view_DELETE_def] assms(2)]
  obtain s where s: "inv_admitted srv consume st request (View_delete i) s" "session = Some s" using act by (auto simp: inv_defs)
  show ?thesis
    using act assms(2) s(2) by (auto split: option.splits if_splits prod.splits intro!: inv_sends_call [OF s(1)] simp: inv_path_def inv_method_def elim: view_answers(2))
qed

lemma investigate_sends:
  assumes "investigate to_iso srv consume st request session r = (st', x)" "fst x \<noteq> []"
  shows "inv_sends srv consume st request session r x"
  using assms(1) unfolding investigate_def
  by (cases r) (simp_all add: search_GET_sends [OF _ assms(2)] related_GET_sends [OF _ assms(2)] workspaces_GET_sends [OF _ assms(2)]
      workspaces_POST_sends [OF _ assms(2)] workspace_GET_sends [OF _ assms(2)] workspace_action_POST_sends [OF _ assms(2)]
      saved_views_GET_sends [OF _ assms(2)] saved_views_POST_sends [OF _ assms(2)] saved_view_PUT_sends [OF _ assms(2)] saved_view_DELETE_sends [OF _ assms(2)])

lemma evidence_failure_fails: "\<not> successful (status (evidence_failure e))"
  by (simp add: context_error_def timeout_error_def)

section \<open>Properties\<close>

text \<open>C11: An investigation sees and changes only what its operator may. Whenever a route of searches,
  relationships, workspaces or saved views sends anything, it is one request of the route's method to the
  route's own path, with canonical identifiers, for a session of an operator or administrator who may read
  investigations and evidence of at least one of the route's domains, on the public host, admitted by the
  route's own limiter; a change needs the scope to write and the session's CSRF token. A success that the
  browser sees is a success of the private API with the same status.\<close>

theorem investigations_guarded:
  assumes "investigate to_iso srv consume st request session r = (st', sent, resp)" "sent \<noteq> []"
  shows "\<exists>s path out. session = Some s \<and> investigator (inv_domains r) s \<and> hasValidHost (srv_URL srv) (srv_env srv) request
    \<and> (inv_method r \<noteq> ''GET'' \<longrightarrow> has_scope s ''investigation:write'' \<and> hasValidCSRF (srv_URL srv) (srv_env srv) request s)
    \<and> allowed (snd (consume st (investigation_key (inv_key r) s) (inv_limit r) 60))
    \<and> inv_path r request = Some path \<and> sent = [out] \<and> out_method out = inv_method r \<and> out_url out = session_api (srv_env srv) @ path
    \<and> (successful (status resp) \<longrightarrow> (\<exists>up. srv_fetch srv out = Fetched up \<and> up_status up = status resp))"
proof -
  have "inv_sends srv consume st request session r (sent, resp)" using investigate_sends [OF assms(1)] assms(2) by simp
  then obtain s path extra body process where s: "session = Some s" "inv_admitted srv consume st request r s" "inv_path r request = Some path"
      "investigation_call srv request s path (inv_method r) extra body process evidence_failure = (sent, resp)"
      "\<forall>up resp. process up = Inr resp \<longrightarrow> successful (status resp) \<longrightarrow> up_status up = status resp"
    unfolding inv_sends_def by blast
  obtain out where out: "sent = [out]" "out_url out = session_api (srv_env srv) @ path" "out_method out = inv_method r"
      "resp = (case srv_fetch srv out of Fetched up \<Rightarrow> (case process up of Inl e \<Rightarrow> evidence_failure e | Inr r \<Rightarrow> r)
        | Fetch_timeout \<Rightarrow> evidence_failure ''TimeoutError'' | Fetch_error \<Rightarrow> evidence_failure ''TypeError'')"
    using call_sent [OF s(4) assms(2)] by blast
  have shown: "successful (status resp) \<longrightarrow> (\<exists>up. srv_fetch srv out = Fetched up \<and> up_status up = status resp)"
    using s(5) evidence_failure_fails unfolding out(4) by (cases "srv_fetch srv out") (auto split: sum.splits)
  show ?thesis
    using s(2) unfolding inv_admitted_def
    by - (intro exI [of _ s] exI [of _ path] exI [of _ out] conjI; elim conjE; (assumption | rule s(1) s(3) out(1-3) shown))
qed

text \<open>An administrator deletes a view.\<close>

definition sample_view_request :: request where
  "sample_view_request = sample_request\<lparr>http_method := ''DELETE'', req_headers := req_headers sample_request @ [(''If-Match'', [CHR 0x22] @ ''2'' @ [CHR 0x22])]\<rparr>"

definition sample_view_owner :: session where
  "sample_view_owner = sample_session\<lparr>roles := Some [''tenant:admin''], scopes := Some [''investigation:read'', ''investigation:write'', ''events:read'']\<rparr>"

lemma sample_view_sent:
  "fst (snd (investigate to_iso sample_server (\<lambda>st k l w. (st, permit)) (0::nat) sample_view_request (Some sample_view_owner) (View_delete sample_hold))) \<noteq> []"
proof -
  have a: "authorizeInvestigationSavedViews sample_server (\<lambda>st k l w. (st, permit)) (0::nat) sample_view_request (Some sample_view_owner) True
      = (0, Inr sample_view_owner)" by code_simp
  have i: "canonicalUUID sample_hold = Some sample_hold" by code_simp
  have q: "searchParams sample_view_request = []" by (simp add: sample_view_request_def sample_request_def)
  have h: "get_header ''if-match'' (req_headers sample_view_request) = Some ([CHR 0x22] @ ''2'' @ [CHR 0x22])"
      "get_header ''content-length'' (req_headers sample_view_request) = None" "rx_test versionTag ([CHR 0x22] @ ''2'' @ [CHR 0x22])" by code_simp+
  have "\<not> isl (privateAPIContext sample_server sample_view_owner (get_header ''x-request-id'' (req_headers sample_view_request)))" by code_simp
  then obtain c where c: "privateAPIContext sample_server sample_view_owner (get_header ''x-request-id'' (req_headers sample_view_request)) = Inr c"
    by (metis sum.collapse(2))
  show ?thesis
    unfolding investigate_def investigation_route.case saved_view_DELETE_def a prod.case sum.case i option.case q h nonempty_def
    by (simp add: h(3) [simplified] investigation_call_def c Let_def)
qed

theorem investigations_guarded_witness:
  "\<exists>out. fst (snd (investigate (\<lambda>t. None) sample_server (\<lambda>st k l w. (st, permit)) (0::nat) sample_view_request (Some sample_view_owner)
       (View_delete sample_hold))) = [out]
     \<and> out_method out = ''DELETE'' \<and> hasValidCSRF (srv_URL sample_server) (srv_env sample_server) sample_view_request sample_view_owner"
proof -
  obtain st' sent resp where run: "investigate (\<lambda>t. None) sample_server (\<lambda>st k l w. (st, permit)) (0::nat) sample_view_request (Some sample_view_owner)
      (View_delete sample_hold) = (st', sent, resp)" by (metis prod_cases3)
  have sent: "sent \<noteq> []" using sample_view_sent [of "\<lambda>t. None"] by (simp add: run)
  have "inv_method (View_delete sample_hold) = ''DELETE''" by (simp add: inv_method_def)
  with investigations_guarded [OF run sent] show ?thesis unfolding run by auto
qed

section \<open>Normal form\<close>

text \<open>What the code relies on of the platform's dates: an ISO text, with its milliseconds dropped when they are
  zero, is within the bounds of a timestamp and stands for the same instant.\<close>

definition iso_clock :: "(string \<Rightarrow> string option) \<Rightarrow> bool" where
  "iso_clock to_iso = (\<forall>v t. to_iso v = Some t \<longrightarrow>
     (let u = replace_first ''.000Z'' ''Z'' t in to_iso u = Some t \<and> u \<noteq> [] \<and> trim u = u \<and> length u \<le> 64 \<and> zoned u))"

lemma lower_char_space: "is_space (lower_char c) = is_space c"
proof (cases "is_upper c \<or> between 192 214 c \<or> between 216 222 c")
  case True
  then have "code (lower_char c) = code c + 32" "65 \<le> code c" "code c \<noteq> 160" "code c \<noteq> 128"
    unfolding char_class_defs by (simp_all only: lower_char_code char_class_defs if_True) linarith+
  then show ?thesis unfolding is_space_def between_def by linarith
qed (simp add: lower_char_def)

lemma trim_lower: "trim (toLowerCase s) = toLowerCase (trim s)"
  by (simp add: trim_def toLowerCase_def dropWhile_map rev_map comp_def lower_char_space)

definition stable_rule :: "view_rule \<Rightarrow> bool" where
  "stable_rule rule = (\<forall>raw x. raw \<noteq> [] \<longrightarrow> trim raw = raw \<longrightarrow> rule raw = Some x \<longrightarrow> rule x = Some x \<and> x \<noteq> [] \<and> trim x = x)"

lemma identity_rule_stable: "(\<And>v x. rule v = Some x \<Longrightarrow> x = v) \<Longrightarrow> stable_rule rule"
  unfolding stable_rule_def by metis

lemma plain_rules_stable: "stable_rule (oneOf xs)" "stable_rule (matching r)" "stable_rule (utcDate to_iso)"
  by (rule identity_rule_stable; simp add: oneOf_def matching_def utcDate_def split: if_splits option.splits)+

lemma lowered_rule_stable: "stable_rule (\<lambda>v. matching r (toLowerCase v))"
  unfolding stable_rule_def matching_def
proof (intro allI impI)
  fix raw x
  assume "raw \<noteq> []" "trim raw = raw" "(if rx_test r (toLowerCase raw) then Some (toLowerCase raw) else None) = Some x"
  then have "x = toLowerCase raw" "rx_test r x" "raw \<noteq> []" "trim raw = raw" by (simp_all split: if_splits)
  then show "(if rx_test r (toLowerCase x) then Some (toLowerCase x) else None) = Some x \<and> x \<noteq> [] \<and> trim x = x"
    by (simp add: trim_lower) (simp add: toLowerCase_def)
qed

lemma view_uuid_stable: "stable_rule view_uuid"
  using lowered_rule_stable [of lowerUUIDShape] by (simp add: view_uuid_def [abs_def])

lemma timestamp_rule_stable:
  assumes "iso_clock to_iso"
  shows "stable_rule (canonicalTimestamp to_iso)"
  unfolding stable_rule_def
proof (intro allI impI)
  fix raw x
  assume "canonicalTimestamp to_iso raw = Some x"
  then obtain t where t: "to_iso raw = Some t" "x = replace_first ''.000Z'' ''Z'' t"
    by (auto simp: canonicalTimestamp_def split: if_splits)
  with assms have "to_iso x = Some t" "x \<noteq> []" "trim x = x" "length x \<le> 64" "zoned x"
    by (simp_all add: iso_clock_def Let_def)
  with t show "canonicalTimestamp to_iso x = Some x \<and> x \<noteq> [] \<and> trim x = x" by (simp add: canonicalTimestamp_def)
qed

lemma rules_stable:
  assumes "iso_clock to_iso" "map_of (rulesFor to_iso domain) key = Some rule"
  shows "stable_rule rule"
proof -
  have "list_all (\<lambda>(k, r). stable_rule r) (rulesFor to_iso domain)"
    unfolding rulesFor_def
    by (simp only: list.pred_inject split_conv plain_rules_stable lowered_rule_stable view_uuid_stable timestamp_rule_stable [OF assms(1)]
      simp_thms if_True if_cancel split: if_split)
  with map_of_SomeD [OF assms(2)] show ?thesis by (auto simp: list_all_iff)
qed

text \<open>Filters named by the domain's own rules are normal after one pass.\<close>

definition own_filters :: "(string \<Rightarrow> string option) \<Rightarrow> string \<Rightarrow> json \<Rightarrow> bool" where
  "own_filters to_iso domain v = list_all (\<lambda>(key, _). map_of (rulesFor to_iso domain) key \<noteq> None) (members v)"

lemma own_rule_stable:
  assumes "iso_clock to_iso" "map_of (rulesFor to_iso domain) key \<noteq> None" "apply_rule to_iso domain key raw = Inr (Some x)" "raw \<noteq> []" "trim raw = raw"
  obtains u where "x = JStr u" "apply_rule to_iso domain key u = Inr (Some x)" "u \<noteq> []" "trim u = u"
proof -
  from assms(2) obtain rule where rule: "map_of (rulesFor to_iso domain) key = Some rule" by blast
  with assms(3) obtain u where u: "x = JStr u" "rule raw = Some u" by (auto simp: apply_rule_def)
  from rules_stable [OF assms(1) rule, unfolded stable_rule_def, rule_format, OF assms(4,5) u(2)]
  have "rule u = Some u" "u \<noteq> []" "trim u = u" by blast+
  with that u(1) rule show thesis by (simp add: apply_rule_def)
qed

lemma normalized_filters_stable:
  assumes "iso_clock to_iso"
  shows "list_all (\<lambda>(key, _). map_of (rulesFor to_iso domain) key \<noteq> None) entries \<Longrightarrow> normalized_filters to_iso domain entries = Inr (Some fs)
    \<Longrightarrow> normalized_filters to_iso domain fs = Inr (Some fs) \<and> length fs = length entries"
proof (induction entries arbitrary: fs)
  case (Cons entry entries)
  obtain key v where entry: "entry = (key, v)" by (cases entry)
  from Cons.prems(2) obtain raw x rest where parts: "v = JStr raw" "raw \<noteq> []" "trim raw = raw" "apply_rule to_iso domain key raw = Inr (Some x)"
      "normalized_filters to_iso domain entries = Inr (Some rest)" "fs = (key, x) # rest"
    by (simp add: entry split: json.splits if_splits sum.splits option.splits)
  from Cons.prems(1) have own: "map_of (rulesFor to_iso domain) key \<noteq> None" by (simp add: entry)
  from own_rule_stable [OF assms own parts(4,2,3)] obtain u
    where "x = JStr u" "apply_rule to_iso domain key u = Inr (Some x)" "u \<noteq> []" "trim u = u" .
  moreover have "normalized_filters to_iso domain rest = Inr (Some rest) \<and> length rest = length entries"
    using Cons.IH [OF _ parts(5)] Cons.prems(1) by (simp add: entry)
  ultimately show ?case by (simp add: parts(6))
qed simp

lemma definition_stable:
  assumes "iso_clock to_iso" "own_filters to_iso domain input" "normalizeSavedViewDefinition to_iso domain input = Inr (Some (fs, target))"
  shows "normalizeSavedViewDefinition to_iso domain fs = Inr (Some (fs, target))" "isRecord fs" "target = target_of domain fs"
proof -
  from assms(3) obtain kvs where kvs: "normalized_filters to_iso domain (members input) = Inr (Some kvs)" "fs = JObj kvs"
      "target = target_of domain fs" "filters_consistent domain fs" "List.member view_domains domain"
      "1 \<le> length (members input)" "length (members input) \<le> 8"
    by (auto simp: normalizeSavedViewDefinition_def Let_def Suc_le_eq not_less split: if_splits sum.splits option.splits)
  with normalized_filters_stable [OF assms(1) assms(2) [unfolded own_filters_def]]
  show "normalizeSavedViewDefinition to_iso domain fs = Inr (Some (fs, target))" "isRecord fs" "target = target_of domain fs"
    by (auto simp: normalizeSavedViewDefinition_def simp flip: length_0_conv)
qed

definition shown_view :: "string \<Rightarrow> string \<Rightarrow> string \<Rightarrow> string \<Rightarrow> json \<Rightarrow> json" where
  "shown_view i version created updated w = JObj [(''saved_view_id'', JStr i), (''name'', JStr (field_string ''name'' w)),
     (''filter_schema_version'', JStr ''1''), (''domain'', JStr (field_string ''domain'' w)), (''filters'', sub ''filters'' w),
     (''target_path'', JStr (target_of (field_string ''domain'' w) (sub ''filters'' w))),
     (''version'', JStr version), (''created_at'', JStr created), (''updated_at'', JStr updated)]"

lemma shown_view_passes:
  assumes "w = JObj [(''name'', JStr n), (''filter_schema_version'', JStr ''1''), (''domain'', JStr d), (''filters'', JObj kvs)]"
    and "viewName n" "List.member view_domains d" "normalizeSavedViewDefinition to_iso d (JObj kvs) = Inr (Some (JObj kvs, target_of d (JObj kvs)))"
    and "rx_test lowerUUIDShape i" "isVersion version"
    and "zoned_timestamp (\<lambda>t. to_iso t \<noteq> None) created" "zoned_timestamp (\<lambda>t. to_iso t \<noteq> None) updated"
  shows "parseSavedViewCreateInput to_iso w = Some w"
    "sanitizeView to_iso (shown_view i version created updated w) = Inr (Some (shown_view i version created updated w))"
  using assms by (simp_all add: parseSavedViewCreateInput_def sanitizeView_def shown_view_def exactKeys_def only_keys_def view_keys_def
    string_field_def field_string_def sub_def)

text \<open>What the browser composes for a view, the route accepts as it is.\<close>

lemma composed_view_accepted:
  assumes "iso_clock to_iso" "own_filters to_iso domain rawFilters" "createSavedViewInput to_iso name domain rawFilters = Inr v"
  shows "parseSavedViewCreateInput to_iso v = Some v"
proof -
  from assms(3) obtain fs target where norm: "normalizeSavedViewDefinition to_iso domain rawFilters = Inr (Some (fs, target))" and named: "viewName name"
    and v: "v = JObj [(''name'', JStr name), (''filter_schema_version'', JStr ''1''), (''domain'', JStr domain), (''filters'', fs)]"
    by (auto simp: createSavedViewInput_def split: if_splits sum.splits option.splits)
  note stable = definition_stable [OF assms(1,2) norm]
  from stable(2) obtain kvs where fs: "fs = JObj kvs" by (cases fs) simp_all
  from norm have "List.member view_domains domain" by (simp add: normalizeSavedViewDefinition_def Let_def split: if_splits)
  with stable(1) named show ?thesis
    by (simp add: v fs parseSavedViewCreateInput_def exactKeys_def only_keys_def string_field_def field_string_def sub_def)
qed


definition sample_clock :: "string \<Rightarrow> string option" where
  "sample_clock v = (if v = ''2024-01-01T00:00:00Z'' \<or> v = ''2024-01-01T00:00:00.000Z'' then Some ''2024-01-01T00:00:00.000Z'' else None)"

definition sample_view :: "string \<Rightarrow> string \<Rightarrow> json" where
  "sample_view t i = JObj [(''name'', JStr ''Late transfers''), (''filter_schema_version'', JStr ''1''), (''domain'', JStr ''transfers''),
     (''filters'', JObj [(''from'', JStr t), (''accountId'', JStr i)])]"

lemma sample_clock_iso: "iso_clock sample_clock"
proof -
  have "replace_first ''.000Z'' ''Z'' ''2024-01-01T00:00:00.000Z'' = ''2024-01-01T00:00:00Z''" by code_simp
  moreover have "trim ''2024-01-01T00:00:00Z'' = ''2024-01-01T00:00:00Z''" by code_simp
  moreover have "zoned ''2024-01-01T00:00:00Z''" by code_simp
  ultimately show ?thesis by (simp add: iso_clock_def sample_clock_def Let_def)
qed

lemma sample_view_accepted: "parseSavedViewCreateInput sample_clock (sample_view ''2024-01-01T00:00:00.000Z'' ''A1111111-1111-4111-8111-111111111111'')
    = Some (sample_view ''2024-01-01T00:00:00Z'' ''a1111111-1111-4111-8111-111111111111'')"
  by code_simp


text \<open>A name of \<^verbatim>\<open>Object.prototype\<close> that is no filter of any domain is accepted as one and forwarded.\<close>

lemma prototype_name_accepted:
  "normalized_filters to_iso ''funding'' [(''toString'', JStr ''x'')] = Inr (Some [(''toString'', JStr ''[object Undefined]'')])"
proof -
  have "trim ''x'' = ''x''" by code_simp
  moreover have "apply_rule to_iso ''funding'' ''toString'' ''x'' = Inr (Some (JStr ''[object Undefined]''))"
    by (simp add: apply_rule_def rulesFor_def)
  ultimately show ?thesis by simp
qed

end
