(* ===== verification/LiveInvestigation.thy ===== *)
theory LiveInvestigation
  imports Reservations Investigations
begin

text \<open>
  Live investigation rooms: \<^verbatim>\<open>web/src/lib/api/live-investigation.ts\<close>, \<^verbatim>\<open>live-investigation-boundary.ts\<close> and the
  routes under \<^verbatim>\<open>web/src/app/api/investigation/live\<close>. An answer is a response or an error that the handler throws
  (the feature configuration is read outside every \<^verbatim>\<open>try\<close>). \<^verbatim>\<open>Date.parse\<close> is a parameter.
\<close>

section \<open>Shapes\<close>

definition live_uuid_shape :: rx where
  "live_uuid_shape =
     RSeq (RRep (RSet is_hex_lower) 8 8) (RSeq dash (RSeq (RRep (RSet is_hex_lower) 4 4) (RSeq dash
     (RSeq (RSet (between 49 53)) (RSeq (RRep (RSet is_hex_lower) 3 3) (RSeq dash
     (RSeq (RSet (one_of ''89ab'')) (RSeq (RRep (RSet is_hex_lower) 3 3) (RSeq dash (RRep (RSet is_hex_lower) 12 12))))))))))"

definition isLiveUUID :: "string \<Rightarrow> bool" where
  "isLiveUUID v = rx_test live_uuid_shape v"

definition live_states :: "string list" where
  "live_states = [''in_progress'', ''completed'', ''rejected'', ''unavailable'', ''expired'']"

definition live_room_states :: "string list" where
  "live_room_states = [''waiting'', ''active'', ''ended'', ''expired'']"

definition live_roles :: "string list" where "live_roles = [''owner'', ''peer'']"

definition live_findings :: "string list" where
  "live_findings = [''confirmed_completed'', ''confirmed_rejected'', ''still_unresolved'', ''escalated'']"

definition live_signal_kinds :: "string list" where
  "live_signal_kinds = [''offer'', ''answer'', ''ice'', ''end'']"

definition live_timestamp :: "(string \<Rightarrow> bool) \<Rightarrow> string \<Rightarrow> bool" where
  "live_timestamp is_date v = (length v \<le> 64 \<and> is_date v)"

definition live_version :: rx where
  "live_version = RSeq (RSet (between 49 57)) (RRep (RSet is_digit) 0 18)"

definition optional_uuid :: "string \<Rightarrow> json \<Rightarrow> bool" where
  "optional_uuid k v = (field k v = None \<or> string_field k isLiveUUID v)"

definition parseTransferRequestStatus :: "(string \<Rightarrow> bool) \<Rightarrow> json \<Rightarrow> json option" where
  "parseTransferRequestStatus is_date v =
     (if isRecord v \<and> string_field ''request_reference'' isLiveUUID v \<and> string_field ''status'' (List.member live_states) v
         \<and> string_field ''checked_at'' (live_timestamp is_date) v \<and> optional_uuid ''transfer_id'' v
      then Some (copy_fields v [''request_reference'', ''status'', ''checked_at'', ''transfer_id'']) else None)"

text \<open>A finding that is present; \<open>None\<close> makes the room invalid.\<close>

definition parseFinding :: "(string \<Rightarrow> bool) \<Rightarrow> json \<Rightarrow> json option" where
  "parseFinding is_date v =
     (if isRecord v \<and> string_field ''code'' (List.member live_findings) v
         \<and> string_field ''authoritative_request_state'' (List.member live_states) v
         \<and> string_field ''recorded_at'' (live_timestamp is_date) v \<and> optional_uuid ''transfer_id'' v
      then Some (copy_fields v [''code'', ''authoritative_request_state'', ''recorded_at'', ''transfer_id'']) else None)"

definition room_ok :: "(string \<Rightarrow> bool) \<Rightarrow> json \<Rightarrow> bool" where
  "room_ok is_date v =
     (isRecord v \<and> list_all (\<lambda>k. string_field k isLiveUUID v) [''room_id'', ''investigation_id'', ''request_reference'']
      \<and> string_field ''status'' (List.member live_room_states) v \<and> string_field ''participant_role'' (List.member live_roles) v
      \<and> boolean_field ''peer_bound'' v \<and> boolean_field ''peer_present'' v \<and> string_field ''version'' (rx_test live_version) v
      \<and> string_field ''created_at'' (live_timestamp is_date) v \<and> string_field ''expires_at'' (live_timestamp is_date) v
      \<and> string_field ''authoritative_request_state'' (List.member live_states) v \<and> optional_uuid ''transfer_id'' v)"

definition parseLiveRoom :: "(string \<Rightarrow> bool) \<Rightarrow> json \<Rightarrow> json option" where
  "parseLiveRoom is_date v =
     (if \<not> room_ok is_date v then None
      else let copied = concat (map (copy_field v) [''room_id'', ''investigation_id'', ''request_reference'', ''status'', ''participant_role'',
             ''peer_bound'', ''peer_present'', ''version'', ''created_at'', ''expires_at'', ''authoritative_request_state'', ''transfer_id'']) in
        case field ''finding'' v of
          None \<Rightarrow> Some (JObj copied)
        | Some f \<Rightarrow> map_option (\<lambda>x. JObj (copied @ [(''finding'', x)])) (parseFinding is_date f))"

definition signal_id :: rx where
  "signal_id = RSeq (RSet (between 49 57)) (RSeq (RStar (RSet is_digit)) (RSeq dash (RPlus (RSet is_digit))))"

definition signal_cursor :: rx where
  "signal_cursor = RAlt (RStr ''0-0'') signal_id"

definition signal_ok :: "(string \<Rightarrow> bool) \<Rightarrow> json \<Rightarrow> bool" where
  "signal_ok is_date v =
     (isRecord v \<and> string_field ''id'' (rx_test signal_id) v \<and> string_field ''room_id'' isLiveUUID v
      \<and> string_field ''role'' (List.member live_roles) v \<and> integer_within 1 9007199254740991 (field ''sequence'' v)
      \<and> string_field ''kind'' (List.member live_signal_kinds) v \<and> string_field ''sent_at'' (live_timestamp is_date) v)"

definition parseLiveSignalPage :: "(string \<Rightarrow> bool) \<Rightarrow> json \<Rightarrow> json option" where
  "parseLiveSignalPage is_date v = (case (field ''signals'' v, field ''cursor'' v) of
     (Some (JArr signals), Some (JStr cursor)) \<Rightarrow>
       if length signals \<le> 200 \<and> rx_test signal_cursor cursor \<and> list_all (signal_ok is_date) signals
       then Some (JObj [(''signals'', JArr (map (\<lambda>s. copy_fields s
              [''id'', ''room_id'', ''role'', ''sequence'', ''kind'', ''payload'', ''sent_at'']) signals)), (''cursor'', JStr cursor)])
       else None
   | _ \<Rightarrow> None)"

definition invite_token :: rx where
  "invite_token = RRep (RSet (\<lambda>c. is_alnum c \<or> one_of ''_-'' c)) 32 128"

definition parse_invite :: "(string \<Rightarrow> bool) \<Rightarrow> json \<Rightarrow> json option" where
  "parse_invite is_date v =
     (if isRecord v \<and> string_field ''room_id'' isLiveUUID v \<and> string_field ''invite_token'' (rx_test invite_token) v
         \<and> string_field ''expires_at'' (live_timestamp is_date) v
      then Some (copy_fields v [''room_id'', ''invite_token'', ''expires_at'']) else None)"

definition parse_departure :: "(string \<Rightarrow> bool) \<Rightarrow> json \<Rightarrow> json option" where
  "parse_departure is_date v =
     (if isRecord v \<and> string_field ''room_id'' isLiveUUID v \<and> string_field ''outcome'' (\<lambda>_. True) v
         \<and> string_field ''version'' (rx_test live_version) v \<and> string_field ''occurred_at'' (live_timestamp is_date) v
      then Some (copy_fields v [''room_id'', ''outcome'', ''version'', ''occurred_at'']) else None)"

definition sanitizeLiveSuccess :: "(string \<Rightarrow> bool) \<Rightarrow> string \<Rightarrow> string \<Rightarrow> json \<Rightarrow> json option" where
  "sanitizeLiveSuccess is_date path meth v =
     (if contains_text path ''/transfer-requests/'' \<and> endsWith path ''/status'' then parseTransferRequestStatus is_date v
      else if endsWith path ''/signals'' \<and> meth = ''GET'' then parseLiveSignalPage is_date v
      else if endsWith path ''/invite'' then parse_invite is_date v
      else if endsWith path ''/leave'' \<or> endsWith path ''/end'' then parse_departure is_date v
      else parseLiveRoom is_date v)"

text \<open>Which finding the room may record, given the state of the request and its transfer.\<close>

definition findingAllowed :: "string \<Rightarrow> string \<Rightarrow> string option \<Rightarrow> bool" where
  "findingAllowed c st transferId =
     (if c = ''confirmed_completed'' then st = ''completed'' \<and> (case transferId of Some t \<Rightarrow> isLiveUUID t | None \<Rightarrow> False)
      else if c = ''confirmed_rejected'' then st = ''rejected'' \<and> nonempty transferId = None
      else List.member [''in_progress'', ''unavailable'', ''expired''] st \<and> nonempty transferId = None)"

section \<open>The boundary\<close>

datatype live_answer = Replied response | Thrown string

definition live_authorized :: "session \<Rightarrow> bool \<Rightarrow> bool" where
  "live_authorized s requireWrite =
     (list_ex (\<lambda>r. r = ''tenant:operator'' \<or> r = ''tenant:admin'') (case roles s of None \<Rightarrow> [] | Some rs \<Rightarrow> rs)
      \<and> list_all (has_scope s) [''investigation:collaborate'', ''investigation:read'', ''transfers:read'']
      \<and> (requireWrite \<longrightarrow> has_scope s ''investigation:write''))"

definition live_key :: "session \<Rightarrow> bool \<Rightarrow> string" where
  "live_key s mutation = tenantId s @ '':'' @ subjectId s @ '':'' @ (if mutation then ''write'' else ''read'')"

definition liveSession ::
  "server \<Rightarrow> 'st limiter \<Rightarrow> 'st \<Rightarrow> request \<Rightarrow> session option \<Rightarrow> bool \<Rightarrow> bool \<Rightarrow> bool \<Rightarrow> 'st \<times> (live_answer + session)" where
  "liveSession srv consume st request session mutation requireWrite history = (case readOptionalFeatures (srv_env srv) of
     Inl e \<Rightarrow> (st, Inl (Thrown e))
   | Inr features \<Rightarrow>
       if \<not> live_investigation features \<and> \<not> (history \<and> \<not> mutation \<and> http_method request = ''GET'')
       then (st, Inl (Replied (jsonError ''not_found'' 404)))
       else case session of
         None \<Rightarrow> (st, Inl (Replied (jsonError ''unauthorized'' 401)))
       | Some s \<Rightarrow>
           if \<not> live_authorized s requireWrite then (st, Inl (Replied (jsonError ''forbidden'' 403)))
           else if mutation \<and> \<not> hasValidCSRF (srv_URL srv) (srv_env srv) request s then (st, Inl (Replied (jsonError ''csrf_failed'' 403)))
           else (case limited consume st (live_key s mutation) (if mutation then 120 else 300) 60 s of
                   (st', Inl d) \<Rightarrow> (st', Inl (Replied d))
                 | (st', Inr s') \<Rightarrow> (st', Inr s')))"

definition safeErrors :: "string list" where
  "safeErrors = [''invalid_request'', ''not_found'', ''forbidden'', ''unauthorized'', ''rate_limited'', ''temporary_unavailable'',
     ''collaboration_unavailable'', ''investigation_room_conflict'', ''finding_conflicts_with_transfer'']"

definition live_failure :: "bool \<Rightarrow> response" where
  "live_failure timed_out = jsonError (if timed_out then ''collaboration_unavailable'' else ''temporary_unavailable'') 503"

definition live_rejection :: "upstream \<Rightarrow> json \<Rightarrow> response" where
  "live_rejection up v =
     (let c = (case error_code v of Some c \<Rightarrow> if List.member safeErrors c then c else ''collaboration_unavailable'' | None \<Rightarrow> ''collaboration_unavailable'');
          r = jsonError c (if 400 \<le> up_status up \<and> up_status up \<le> 599 then up_status up else 503) in
      case get_header ''retry-after'' (up_headers up) of
        Some t \<Rightarrow> if rx_test (RRep (RSet is_digit) 1 6) t then r\<lparr>resp_headers := set_header ''Retry-After'' t (resp_headers r)\<rparr> else r
      | None \<Rightarrow> r)"

text \<open>The error of a JSON \<^verbatim>\<open>null\<close> cannot be asked for its code, and an answer with a body cannot have the
  status 205: both throw and are caught.\<close>

definition live_reading :: "(string \<Rightarrow> bool) \<Rightarrow> string \<Rightarrow> string \<Rightarrow> upstream \<Rightarrow> response" where
  "live_reading is_date privatePath meth up = (case up_text up of
     Body raw \<Rightarrow>
       (let v = (if raw = [] then JObj [] else case JSON_parse raw of None \<Rightarrow> JObj [] | Some v \<Rightarrow> v) in
        if \<not> successful (up_status up) then (if v = JNull then live_failure False else live_rejection up v)
        else if up_status up = 204 then \<lparr>status = 204, resp_headers = [(''Cache-Control'', ''no-store'')], resp_body = ''''\<rparr>
        else (case sanitizeLiveSuccess is_date (takeWhile (\<lambda>c. c \<noteq> CHR ''?'') privatePath) meth v of
                None \<Rightarrow> jsonError ''collaboration_unavailable'' 503
              | Some x \<Rightarrow> if up_status up = 205 then live_failure False else json_response x (up_status up) [(''Cache-Control'', ''no-store'')]))
   | failed \<Rightarrow> live_failure (failed = Body_timeout))"

definition trimmed_key :: "request \<Rightarrow> string option" where
  "trimmed_key request = map_option trim (get_header ''idempotency-key'' (req_headers request))"

definition proxyLiveRequest :: "server \<Rightarrow> request \<Rightarrow> session \<Rightarrow> string \<Rightarrow> string \<Rightarrow> json option \<Rightarrow> exchange" where
  "proxyLiveRequest srv request session privatePath meth body =
     (case privateAPIContext srv session (get_header ''x-request-id'' (req_headers request)) of
        Inl e \<Rightarrow> reply (live_failure (e = ''TimeoutError''))
      | Inr connection \<Rightarrow>
          (let out = \<lparr>out_url = apiURL connection @ privatePath, out_method = meth,
                out_headers = conn_headers connection @ (if meth = ''POST'' then [(''Content-Type'', ''application/json'')]
                  @ (case nonempty (trimmed_key request) of Some key \<Rightarrow> [(''Idempotency-Key'', key)] | None \<Rightarrow> []) else []),
                out_body = (if meth = ''POST'' then Some (JSON_stringify (case body of Some b \<Rightarrow> b | None \<Rightarrow> JObj [])) else None)\<rparr> in
           ([out], case srv_fetch srv out of
              Fetched up \<Rightarrow> live_reading (srv_date srv) privatePath meth up
            | r \<Rightarrow> live_failure (r = Fetch_timeout))))"

definition readLiveBody :: "request \<Rightarrow> nat \<Rightarrow> json option" where
  "readLiveBody request maximumBytes = (case readBoundedJSON request maximumBytes of
     Inl _ \<Rightarrow> None | Inr v \<Rightarrow> if isRecord v then Some v else None)"

definition validIdempotencyKey :: "request \<Rightarrow> bool" where
  "validIdempotencyKey request =
     (let key = (case trimmed_key request of Some k \<Rightarrow> k | None \<Rightarrow> '''') in
      16 \<le> length key \<and> length key \<le> 255 \<and> list_all (\<lambda>c. 33 \<le> code c \<and> code c \<le> 126) key)"

section \<open>The routes\<close>

datatype live_route =
    Room_create
  | Room_read string
  | Room_presence string
  | Signals_read string
  | Signal_send string
  | Room_action string string
  | Room_join
  | Request_status string

abbreviation live_invalid :: exchange where
  "live_invalid \<equiv> reply (jsonError ''invalid_request'' 400)"

definition with_live :: "'st \<times> (live_answer + session) \<Rightarrow> (session \<Rightarrow> exchange) \<Rightarrow> 'st \<times> upstream_request list \<times> live_answer" where
  "with_live authorization act = (case authorization of
     (st, Inl a) \<Rightarrow> (st, [], a)
   | (st, Inr s) \<Rightarrow> (case act s of (sent, r) \<Rightarrow> (st, sent, Replied r)))"

text \<open>The guarded end of every write: the body is read within its bound, tested, and passed on.\<close>

definition live_write :: "server \<Rightarrow> request \<Rightarrow> session \<Rightarrow> nat \<Rightarrow> (json \<Rightarrow> bool) \<Rightarrow> string \<Rightarrow> exchange" where
  "live_write srv request s maximumBytes body_ok privatePath = (case readLiveBody request maximumBytes of
     None \<Rightarrow> live_invalid
   | Some body \<Rightarrow> if \<not> body_ok body then live_invalid else proxyLiveRequest srv request s privatePath ''POST'' (Some body))"

definition rooms_path :: string where "rooms_path = ''/private/investigation/live-rooms''"

definition rooms_POST :: "server \<Rightarrow> 'st limiter \<Rightarrow> 'st \<Rightarrow> request \<Rightarrow> session option \<Rightarrow> 'st \<times> upstream_request list \<times> live_answer" where
  "rooms_POST srv consume st request session = with_live (liveSession srv consume st request session True True False) (\<lambda>s.
     if \<not> validIdempotencyKey request \<or> searchParams request \<noteq> [] then live_invalid
     else live_write srv request s 4096 (\<lambda>b. length (object_keys b) = 1 \<and> string_field ''request_reference'' isLiveUUID b) rooms_path)"

definition join_POST :: "server \<Rightarrow> 'st limiter \<Rightarrow> 'st \<Rightarrow> request \<Rightarrow> session option \<Rightarrow> 'st \<times> upstream_request list \<times> live_answer" where
  "join_POST srv consume st request session = with_live (liveSession srv consume st request session True False False) (\<lambda>s.
     if \<not> validIdempotencyKey request \<or> searchParams request \<noteq> [] then live_invalid
     else live_write srv request s 4096 (\<lambda>b. length (object_keys b) = 1
        \<and> string_field ''invite_token'' (\<lambda>t. 32 \<le> length t \<and> length t \<le> 128) b) (rooms_path @ ''/join''))"

definition room_GET :: "server \<Rightarrow> 'st limiter \<Rightarrow> 'st \<Rightarrow> request \<Rightarrow> session option \<Rightarrow> string \<Rightarrow> 'st \<times> upstream_request list \<times> live_answer" where
  "room_GET srv consume st request session param = with_live (liveSession srv consume st request session False False True) (\<lambda>s.
     let roomId = toLowerCase param in
     if \<not> isLiveUUID roomId \<or> searchParams request \<noteq> [] then live_invalid
     else proxyLiveRequest srv request s (rooms_path @ ''/'' @ roomId) ''GET'' None)"

definition presence_POST :: "server \<Rightarrow> 'st limiter \<Rightarrow> 'st \<Rightarrow> request \<Rightarrow> session option \<Rightarrow> string \<Rightarrow> 'st \<times> upstream_request list \<times> live_answer" where
  "presence_POST srv consume st request session param = with_live (liveSession srv consume st request session True False False) (\<lambda>s.
     let roomId = toLowerCase param in
     if \<not> isLiveUUID roomId \<or> searchParams request \<noteq> [] then live_invalid
     else live_write srv request s 512 (\<lambda>b. object_keys b = []) (rooms_path @ ''/'' @ roomId @ ''/presence''))"

definition signals_GET :: "server \<Rightarrow> 'st limiter \<Rightarrow> 'st \<Rightarrow> request \<Rightarrow> session option \<Rightarrow> string \<Rightarrow> 'st \<times> upstream_request list \<times> live_answer" where
  "signals_GET srv consume st request session param = with_live (liveSession srv consume st request session False False False) (\<lambda>s.
     let roomId = toLowerCase param; cursor = (case get_param ''cursor'' (searchParams request) of Some c \<Rightarrow> c | None \<Rightarrow> ''0-0'') in
     if \<not> isLiveUUID roomId \<or> 1 < length (searchParams request) \<or> \<not> rx_test signal_cursor cursor then live_invalid
     else proxyLiveRequest srv request s (rooms_path @ ''/'' @ roomId @ ''/signals?cursor='' @ encodeURIComponent cursor) ''GET'' None)"

definition signal_body_ok :: "json \<Rightarrow> bool" where
  "signal_body_ok b =
     (length (object_keys b) = 3 \<and> list_all (\<lambda>k. field k b \<noteq> None) [''sequence'', ''kind'', ''payload'']
      \<and> integer_within 1 9007199254740991 (field ''sequence'' b) \<and> coerced_in live_signal_kinds (field ''kind'' b))"

definition signals_POST :: "server \<Rightarrow> 'st limiter \<Rightarrow> 'st \<Rightarrow> request \<Rightarrow> session option \<Rightarrow> string \<Rightarrow> 'st \<times> upstream_request list \<times> live_answer" where
  "signals_POST srv consume st request session param = with_live (liveSession srv consume st request session True False False) (\<lambda>s.
     let roomId = toLowerCase param in
     if \<not> isLiveUUID roomId \<or> searchParams request \<noteq> [] then live_invalid
     else live_write srv request s 70000 signal_body_ok (rooms_path @ ''/'' @ roomId @ ''/signals''))"

definition room_actions :: "string list" where
  "room_actions = [''invite'', ''leave'', ''end'', ''finding'']"

definition action_body_ok :: "string \<Rightarrow> json \<Rightarrow> bool" where
  "action_body_ok action b =
     (if action = ''invite'' then object_keys b = []
      else let expectedKeys = (if action = ''finding'' then [''expected_version'', ''code''] else [''expected_version'']) in
        length (object_keys b) = length expectedKeys \<and> list_all (\<lambda>k. field k b \<noteq> None) expectedKeys
        \<and> string_field ''expected_version'' (rx_test live_version) b
        \<and> (action = ''finding'' \<longrightarrow> coerced_in live_findings (field ''code'' b)))"

definition action_POST :: "server \<Rightarrow> 'st limiter \<Rightarrow> 'st \<Rightarrow> request \<Rightarrow> session option \<Rightarrow> string \<Rightarrow> string \<Rightarrow> 'st \<times> upstream_request list \<times> live_answer" where
  "action_POST srv consume st request session param action =
     (let roomId = toLowerCase param in
      if \<not> isLiveUUID roomId \<or> \<not> List.member room_actions action \<or> searchParams request \<noteq> []
      then (st, [], Replied (jsonError ''invalid_request'' 400))
      else with_live (liveSession srv consume st request session True (action = ''invite'' \<or> action = ''end'' \<or> action = ''finding'') False) (\<lambda>s.
        if (action = ''end'' \<or> action = ''finding'') \<and> \<not> validIdempotencyKey request then live_invalid
        else live_write srv request s 4096 (action_body_ok action) (rooms_path @ ''/'' @ roomId @ ''/'' @ action)))"

definition status_GET :: "server \<Rightarrow> 'st limiter \<Rightarrow> 'st \<Rightarrow> request \<Rightarrow> session option \<Rightarrow> string \<Rightarrow> 'st \<times> upstream_request list \<times> live_answer" where
  "status_GET srv consume st request session param = with_live (liveSession srv consume st request session False False False) (\<lambda>s.
     let reference = toLowerCase param in
     if \<not> isLiveUUID reference \<or> searchParams request \<noteq> [] then reply (json_response (error_body ''invalid_request'') 400 [])
     else proxyLiveRequest srv request s (''/private/transfer-requests/'' @ reference @ ''/status'') ''GET'' None)"

text \<open>The eight handlers as one family.\<close>

definition live_handler :: "server \<Rightarrow> 'st limiter \<Rightarrow> 'st \<Rightarrow> request \<Rightarrow> session option \<Rightarrow> live_route \<Rightarrow> 'st \<times> upstream_request list \<times> live_answer" where
  "live_handler srv consume st request session r = (case r of
     Room_create \<Rightarrow> rooms_POST srv consume st request session
   | Room_read i \<Rightarrow> room_GET srv consume st request session i
   | Room_presence i \<Rightarrow> presence_POST srv consume st request session i
   | Signals_read i \<Rightarrow> signals_GET srv consume st request session i
   | Signal_send i \<Rightarrow> signals_POST srv consume st request session i
   | Room_action i action \<Rightarrow> action_POST srv consume st request session i action
   | Room_join \<Rightarrow> join_POST srv consume st request session
   | Request_status i \<Rightarrow> status_GET srv consume st request session i)"

section \<open>What a request may do\<close>

text \<open>What each route needs and where it goes, stated apart from the handlers.\<close>

definition live_mutates :: "live_route \<Rightarrow> bool" where
  "live_mutates r = (case r of Room_read _ \<Rightarrow> False | Signals_read _ \<Rightarrow> False | Request_status _ \<Rightarrow> False | _ \<Rightarrow> True)"

definition live_needs_write :: "live_route \<Rightarrow> bool" where
  "live_needs_write r = (case r of Room_create \<Rightarrow> True | Room_action _ a \<Rightarrow> a \<noteq> ''leave'' | _ \<Rightarrow> False)"

definition live_needs_key :: "live_route \<Rightarrow> bool" where
  "live_needs_key r = (case r of Room_create \<Rightarrow> True | Room_join \<Rightarrow> True | Room_action _ a \<Rightarrow> a = ''end'' \<or> a = ''finding'' | _ \<Rightarrow> False)"

definition live_subject :: "live_route \<Rightarrow> string option" where
  "live_subject r = (case r of Room_read i \<Rightarrow> Some i | Room_presence i \<Rightarrow> Some i | Signals_read i \<Rightarrow> Some i | Signal_send i \<Rightarrow> Some i
     | Room_action i _ \<Rightarrow> Some i | Request_status i \<Rightarrow> Some i | _ \<Rightarrow> None)"

definition live_path :: "live_route \<Rightarrow> request \<Rightarrow> string" where
  "live_path r request = (case r of
     Room_create \<Rightarrow> rooms_path
   | Room_read i \<Rightarrow> rooms_path @ ''/'' @ toLowerCase i
   | Room_presence i \<Rightarrow> rooms_path @ ''/'' @ toLowerCase i @ ''/presence''
   | Signals_read i \<Rightarrow> rooms_path @ ''/'' @ toLowerCase i @ ''/signals?cursor=''
       @ encodeURIComponent (case get_param ''cursor'' (searchParams request) of Some c \<Rightarrow> c | None \<Rightarrow> ''0-0'')
   | Signal_send i \<Rightarrow> rooms_path @ ''/'' @ toLowerCase i @ ''/signals''
   | Room_action i a \<Rightarrow> rooms_path @ ''/'' @ toLowerCase i @ ''/'' @ a
   | Room_join \<Rightarrow> rooms_path @ ''/join''
   | Request_status i \<Rightarrow> ''/private/transfer-requests/'' @ toLowerCase i @ ''/status'')"

lemma live_session_accepts:
  assumes "snd (liveSession srv consume st request session mutation requireWrite history) = Inr s"
  shows "session = Some s \<and> live_authorized s requireWrite
    \<and> (mutation \<longrightarrow> hasValidCSRF (srv_URL srv) (srv_env srv) request s)
    \<and> allowed (snd (consume st (live_key s mutation) (if mutation then 120 else 300) 60))
    \<and> (\<exists>f. readOptionalFeatures (srv_env srv) = Inr f \<and> (live_investigation f \<or> history \<and> \<not> mutation \<and> http_method request = ''GET''))"
proof -
  obtain f where f: "readOptionalFeatures (srv_env srv) = Inr f"
    using assms by (cases "readOptionalFeatures (srv_env srv)") (simp_all add: liveSession_def)
  obtain s1 where s1: "session = Some s1" using assms by (cases session) (auto simp: liveSession_def f split: if_splits)
  obtain st1 x where lim: "limited consume st (live_key s1 mutation) (if mutation then 120 else 300) 60 s1 = (st1, x)" by fastforce
  have x: "x = Inr s" "live_authorized s1 requireWrite" "mutation \<longrightarrow> hasValidCSRF (srv_URL srv) (srv_env srv) request s1"
      "live_investigation f \<or> history \<and> \<not> mutation \<and> http_method request = ''GET''"
    using assms by (auto simp: liveSession_def f s1 lim split: if_splits sum.splits)
  have "snd (limited consume st (live_key s1 mutation) (if mutation then 120 else 300) 60 s1) = Inr s" by (simp add: lim x)
  then have "s1 = s \<and> allowed (snd (consume st (live_key s1 mutation) (if mutation then 120 else 300) 60))" by (simp add: limited_cases)
  then show ?thesis using x f s1 by auto
qed

lemma with_live_sends:
  assumes "with_live authorization act = (st', sent, a)" "sent \<noteq> []"
  shows "\<exists>s resp. snd authorization = Inr s \<and> act s = (sent, resp) \<and> a = Replied resp"
  using assms by (auto simp: with_live_def split: prod.splits sum.splits)

lemma live_write_sends:
  assumes "live_write srv request s m body_ok path = (sent, resp)" "sent \<noteq> []"
  shows "\<exists>b. proxyLiveRequest srv request s path ''POST'' (Some b) = (sent, resp)"
  using assms by (auto simp: live_write_def split: option.splits if_splits)

lemmas live_route_defs = live_handler_def live_mutates_def live_needs_write_def live_needs_key_def live_subject_def live_path_def

text \<open>Every handler is the authorization of its route followed by a request to the path of its route.\<close>

lemma live_handler_sends:
  assumes "live_handler srv consume st request session r = (st', sent, a)" "sent \<noteq> []"
  shows "\<exists>s b resp. snd (liveSession srv consume st request session (live_mutates r) (live_needs_write r) (\<exists>i. r = Room_read i)) = Inr s
    \<and> proxyLiveRequest srv request s (live_path r request) (if live_mutates r then ''POST'' else ''GET'') b = (sent, resp) \<and> a = Replied resp
    \<and> (\<forall>i. live_subject r = Some i \<longrightarrow> isLiveUUID (toLowerCase i)) \<and> (live_needs_key r \<longrightarrow> validIdempotencyKey request)"
proof (cases r)
  case Room_create
  then show ?thesis
    using assms by (fastforce simp: live_route_defs rooms_POST_def split: if_splits dest!: with_live_sends live_write_sends)
next
  case (Room_read i)
  then show ?thesis
    using assms by (fastforce simp: live_route_defs room_GET_def Let_def split: if_splits dest!: with_live_sends)
next
  case (Room_presence i)
  then show ?thesis
    using assms by (fastforce simp: live_route_defs presence_POST_def Let_def split: if_splits dest!: with_live_sends live_write_sends)
next
  case (Signals_read i)
  then show ?thesis
    using assms by (fastforce simp: live_route_defs signals_GET_def Let_def split: if_splits dest!: with_live_sends)
next
  case (Signal_send i)
  then show ?thesis
    using assms by (fastforce simp: live_route_defs signals_POST_def Let_def split: if_splits dest!: with_live_sends live_write_sends)
next
  case (Room_action i action)
  have member: "List.member room_actions action" using assms by (auto simp: Room_action live_route_defs action_POST_def Let_def split: if_splits)
  then have writes: "(action = ''invite'' \<or> action = ''end'' \<or> action = ''finding'') = (action \<noteq> ''leave'')" by (auto simp: room_actions_def)
  show ?thesis
    using assms unfolding Room_action live_route_defs live_route.case action_POST_def writes Let_def
    by (fastforce split: if_splits dest!: with_live_sends live_write_sends)
next
  case Room_join
  then show ?thesis
    using assms by (fastforce simp: live_route_defs join_POST_def split: if_splits dest!: with_live_sends live_write_sends)
next
  case (Request_status i)
  then show ?thesis
    using assms by (fastforce simp: live_route_defs status_GET_def Let_def split: if_splits dest!: with_live_sends)
qed

lemma connection_has_no_key: "privateAPIContext srv s r = Inr c \<Longrightarrow> get_header ''Idempotency-Key'' (conn_headers c @ hs) = get_header ''Idempotency-Key'' hs"
proof -
  have "\<not> same_name ''Authorization'' ''Idempotency-Key''" "\<not> same_name ''X-LedgerSync-Actor-Assertion'' ''Idempotency-Key''"
    "\<not> same_name ''X-Request-ID'' ''Idempotency-Key''" "\<not> same_name ''traceparent'' ''Idempotency-Key''" by code_simp+
  then show "privateAPIContext srv s r = Inr c \<Longrightarrow> get_header ''Idempotency-Key'' (conn_headers c @ hs) = get_header ''Idempotency-Key'' hs"
    by (auto simp: privateAPIContext_def Let_def andthen_eq_Inr get_header_def split: if_splits)
qed

lemma proxy_live_sent:
  assumes "proxyLiveRequest srv request s path meth body = (sent, resp)" "sent \<noteq> []"
  shows "\<exists>out. sent = [out] \<and> out_url out = session_api (srv_env srv) @ path \<and> out_method out = meth
    \<and> (meth = ''POST'' \<longrightarrow> get_header ''Idempotency-Key'' (out_headers out) = nonempty (trimmed_key request))
    \<and> resp = (case srv_fetch srv out of Fetched up \<Rightarrow> live_reading (srv_date srv) path meth up | r \<Rightarrow> live_failure (r = Fetch_timeout))"
proof -
  obtain c where c: "privateAPIContext srv s (get_header ''x-request-id'' (req_headers request)) = Inr c"
    using assms by (cases "privateAPIContext srv s (get_header ''x-request-id'' (req_headers request))") (auto simp: proxyLiveRequest_def)
  have "same_name ''Idempotency-Key'' ''Idempotency-Key''" "\<not> same_name ''Content-Type'' ''Idempotency-Key''" by code_simp+
  then have "get_header ''Idempotency-Key'' [(''Content-Type'', x), (''Idempotency-Key'', key)] = Some key"
      "get_header ''Idempotency-Key'' [(''Content-Type'', x)] = None" for x key
    by (simp_all add: get_header_def)
  then show ?thesis
    using assms(1) connection_url [OF c]
    by (auto simp: proxyLiveRequest_def c Let_def connection_has_no_key [OF c] split: option.splits)
qed

text \<open>A success shown to the browser: the private API's own status, and nothing but the checked fields.\<close>

definition live_evidence :: "(string \<Rightarrow> bool) \<Rightarrow> string \<Rightarrow> string \<Rightarrow> fetch_result \<Rightarrow> response \<Rightarrow> bool" where
  "live_evidence is_date path meth r resp =
     (\<exists>up. r = Fetched up \<and> up_status up = status resp
        \<and> (status resp = 204 \<and> resp_body resp = '''' \<or> (\<exists>v x. sanitizeLiveSuccess is_date (takeWhile (\<lambda>c. c \<noteq> CHR ''?'') path) meth v = Some x
             \<and> resp_body resp = JSON_stringify x)))"

lemma live_rejection_status: "\<not> successful (up_status up) \<Longrightarrow> \<not> successful (status (live_rejection up v))"
  by (simp add: live_rejection_def Let_def split: option.split)

lemma live_reading_honest:
  assumes "successful (status (live_reading is_date path meth up))"
  shows "live_evidence is_date path meth (Fetched up) (live_reading is_date path meth up)"
proof -
  have no: "\<not> successful (status (live_failure b))" for b by (simp add: live_failure_def)
  obtain raw where raw: "up_text up = Body raw" using assms no by (cases "up_text up") (simp_all add: live_reading_def)
  define v where "v = (if raw = [] then JObj [] else case JSON_parse raw of None \<Rightarrow> JObj [] | Some v \<Rightarrow> v)"
  have reading: "live_reading is_date path meth up =
      (if \<not> successful (up_status up) then (if v = JNull then live_failure False else live_rejection up v)
       else if up_status up = 204 then \<lparr>status = 204, resp_headers = [(''Cache-Control'', ''no-store'')], resp_body = ''''\<rparr>
       else (case sanitizeLiveSuccess is_date (takeWhile (\<lambda>c. c \<noteq> CHR ''?'') path) meth v of
               None \<Rightarrow> jsonError ''collaboration_unavailable'' 503
             | Some x \<Rightarrow> if up_status up = 205 then live_failure False else json_response x (up_status up) [(''Cache-Control'', ''no-store'')]))"
    unfolding live_reading_def raw body_read.case v_def Let_def ..
  have ok: "successful (up_status up)"
  proof (rule ccontr)
    assume a: "\<not> successful (up_status up)"
    then have "live_reading is_date path meth up = (if v = JNull then live_failure False else live_rejection up v)" unfolding reading by (rule if_P)
    then show False using assms no [of False] live_rejection_status [OF a, of v] by (simp split: if_splits)
  qed
  show ?thesis
  proof (cases "sanitizeLiveSuccess is_date (takeWhile (\<lambda>c. c \<noteq> CHR ''?'') path) meth v")
    case None
    then show ?thesis using assms ok unfolding reading live_evidence_def by (auto split: if_splits)
  next
    case (Some x)
    then show ?thesis
      using assms ok no [of False] unfolding reading live_evidence_def by (auto simp: json_response_def split: if_splits)
  qed
qed

section \<open>Properties\<close>


text \<open>An operator announces presence in a room.\<close>

definition sample_room :: string where
  "sample_room = ''6F9619FF-8B86-4011-B42D-00CF4FC964FF''"

definition sample_live_server :: server where
  "sample_live_server = sample_server\<lparr>srv_env := sample_env(''LEDGERSYNC_LIVE_INVESTIGATION_ENABLED'' \<mapsto> ''true'')\<rparr>"

definition sample_collaborator :: session where
  "sample_collaborator = sample_session\<lparr>roles := Some [''tenant:operator''],
     scopes := Some [''investigation:collaborate'', ''investigation:read'', ''transfers:read'']\<rparr>"

definition sample_presence :: request where
  "sample_presence = sample_request\<lparr>req_headers := req_headers sample_request @ [(''Content-Length'', ''2'')]\<rparr>"

lemma sample_presence_body: "readLiveBody sample_presence 512 = Some (JObj [])"
proof -
  have "get_header ''content-length'' (req_headers sample_presence) = Some ''2''" "to_number ''2'' = Some (Fin 2)" "JSON_parse ''{}'' = Some (JObj [])"
      "byte_length ''{}'' = 2" "req_text sample_presence = Inr ''{}''" by code_simp+
  then show ?thesis by (simp add: readLiveBody_def readBoundedJSON_def)
qed

lemma sample_presence_sent:
  "fst (snd (live_handler sample_live_server (\<lambda>st k l w. (st, permit)) (0::nat) sample_presence (Some sample_collaborator) (Room_presence sample_room))) \<noteq> []"
proof -
  have l: "liveSession sample_live_server (\<lambda>st k l w. (st, permit)) (0::nat) sample_presence (Some sample_collaborator) True False False
      = (0, Inr sample_collaborator)" by code_simp
  have i: "isLiveUUID (toLowerCase sample_room)" "searchParams sample_presence = []" by code_simp+
  have "\<not> isl (privateAPIContext sample_live_server sample_collaborator (get_header ''x-request-id'' (req_headers sample_presence)))" by code_simp
  then obtain c where c: "privateAPIContext sample_live_server sample_collaborator (get_header ''x-request-id'' (req_headers sample_presence)) = Inr c"
    by (metis sum.collapse(2))
  show ?thesis
    by (simp add: live_handler_def presence_POST_def with_live_def l i live_write_def sample_presence_body proxyLiveRequest_def c Let_def)
qed


text \<open>The finding of a signal or of a room is compared as text: an array with one word passes, and is passed on.\<close>

lemma array_kind_sent: "signal_body_ok (JObj [(''sequence'', JNum (Fin 1)), (''kind'', JArr [JStr ''end'']), (''payload'', JNull)])"
  by (simp add: signal_body_ok_def integer_within_def coerced_in_def one_of_strings_def live_signal_kinds_def safe_integer_def)

end
