(* ===== verification/JsonTotal.thy ===== *)
theory JsonTotal
  imports Json
begin

text \<open>
  The reader of \<open>Json\<close> counts its nesting with fuel. Every branch consumes a character or passes from a
  list to its first element, so that \<open>2 * length s + 2\<close> units never run out: the reader is the same
  function with any larger amount, and a refusal of \<open>JSON_parse\<close> is a syntax error of the text.
\<close>

section \<open>The scanners consume\<close>

lemma length_skip_ws: "length (skip_ws s) \<le> length s"
  by (simp add: skip_ws_def length_dropWhile_le)

lemma next_is_shorter: "next_is c s \<Longrightarrow> length (after s) < length s"
  using length_skip_ws [of s] by (cases "skip_ws s") (auto simp: next_is_def)

lemma parse_chars_shorter: "parse_chars s = Some (t, r) \<Longrightarrow> length r < length s"
proof (induction s arbitrary: t r rule: parse_chars.induct)
  case (2 c cs)
  then show ?case by (fastforce split: if_splits list.splits option.splits)
qed simp

lemma scan_sign_shorter: "scan_sign s = (b, r) \<Longrightarrow> length r \<le> length s"
  by (auto simp: scan_sign_def split: if_splits)

lemma scan_fraction_shorter: "scan_fraction s = Some (f, r) \<Longrightarrow> length r \<le> length s"
  using length_dropWhile_le [of is_digit "tl s"] by (auto simp: scan_fraction_def Let_def split: if_splits)

lemma scan_exponent_shorter: "scan_exponent s = Some (e, r) \<Longrightarrow> length r \<le> length s"
  by (auto simp: scan_exponent_def scan_sign_def Let_def split: if_splits intro!: order_trans [OF length_dropWhile_le])

lemma scan_number_shorter: "scan_number s = Some (x, r) \<Longrightarrow> length r \<le> length s"
proof -
  assume a: "scan_number s = Some (x, r)"
  obtain b s1 where s1: "scan_sign s = (b, s1)" by fastforce
  then obtain f s2 e where "scan_fraction (dropWhile is_digit s1) = Some (f, s2)" "scan_exponent s2 = Some (e, r)"
    using a by (auto simp: scan_number_def Let_def split: if_splits option.splits)
  then show ?thesis
    using scan_sign_shorter [OF s1] scan_fraction_shorter scan_exponent_shorter length_dropWhile_le [of is_digit s1] by fastforce
qed

lemma parse_literal_shorter: "parse_literal s = Some (v, r) \<Longrightarrow> length r \<le> length s"
  by (auto simp: parse_literal_def dest: scan_number_shorter split: if_splits)

section \<open>The reader consumes\<close>

lemma reader_shorter:
  "parse_value n s = Some (v, r) \<Longrightarrow> length r \<le> length s"
  "parse_elems n s = Some (vs, r) \<Longrightarrow> length r \<le> length s"
  "parse_members n s = Some (ms, r) \<Longrightarrow> length r \<le> length s"
proof (induction n s and n s and n s arbitrary: v r and vs r and ms r rule: parse_value_parse_elems_parse_members.induct)
  case (2 n s)
  show ?case
    using 2 next_is_shorter [of _ s] next_is_shorter [of _ "after s"] parse_chars_shorter [of "after s"] parse_literal_shorter [of "skip_ws s"]
      length_skip_ws [of s]
    by (fastforce split: if_splits)
next
  case (4 n s)
  obtain x t where x: "parse_value n s = Some (x, t)" using 4 by (auto split: option.splits)
  show ?case
    using 4 next_is_shorter [of _ t] by (fastforce simp: x split: if_splits)
next
  case (6 n s)
  obtain k t x u where x: "next_is quote_char s" "parse_chars (after s) = Some (k, t)" "next_is CHR '':'' t" "parse_value n (after t) = Some (x, u)"
    using 6 by (auto split: option.splits if_splits)
  show ?case
    using 6 x next_is_shorter [of _ s] next_is_shorter [of _ t] next_is_shorter [of _ u] parse_chars_shorter [OF x(2)]
    by (fastforce split: if_splits)
qed simp_all


section \<open>The fuel is enough\<close>

lemma reader_fuel:
  "2 * length s + 1 \<le> n \<Longrightarrow> parse_value (Suc n) s = parse_value n s"
  "2 * length s + 2 \<le> n \<Longrightarrow> parse_elems (Suc n) s = parse_elems n s"
  "2 * length s + 2 \<le> n \<Longrightarrow> parse_members (Suc n) s = parse_members n s"
proof (induction n arbitrary: s)
  case (Suc n)
  {
    case 1
    have "2 * length (after s) + 2 \<le> n" if "next_is c s" for c using next_is_shorter [OF that] 1 by simp
    then have "parse_elems (Suc n) (after s) = parse_elems n (after s)" if "next_is CHR ''['' s" using Suc.IH(2) that by blast
    moreover have "parse_members (Suc n) (after s) = parse_members n (after s)" if "next_is CHR ''{'' s"
      using \<open>\<And>c. next_is c s \<Longrightarrow> 2 * length (after s) + 2 \<le> n\<close> [OF that] by (rule Suc.IH(3))
    ultimately show ?case
      unfolding parse_value.simps(2) [of "Suc n" s] parse_value.simps(2) [of n s]
      by (cases "next_is CHR ''{'' s"; cases "next_is CHR ''['' s") (simp_all del: parse_value.simps parse_elems.simps parse_members.simps)
  next
    case 2
    have v: "parse_value (Suc n) s = parse_value n s" using 2 by (intro Suc.IH(1)) simp
    have "parse_elems (Suc n) (after r) = parse_elems n (after r)" if "parse_value n s = Some (x, r)" "next_is CHR '','' r" for x r
      using reader_shorter(1) [OF that(1)] next_is_shorter [OF that(2)] 2 by (intro Suc.IH(2)) simp
    then show ?case
      unfolding parse_elems.simps(2) [of "Suc n" s] parse_elems.simps(2) [of n s] v
      by (cases "parse_value n s") (auto simp del: parse_value.simps parse_elems.simps)
  next
    case 3
    have v: "parse_value (Suc n) (after r) = parse_value n (after r)"
      if "next_is quote_char s" "parse_chars (after s) = Some (k, r)" "next_is CHR '':'' r" for k r
      using next_is_shorter [OF that(1)] parse_chars_shorter [OF that(2)] next_is_shorter [OF that(3)] 3 by (intro Suc.IH(1)) simp
    have m: "parse_members (Suc n) (after t) = parse_members n (after t)"
      if "next_is quote_char s" "parse_chars (after s) = Some (k, r)" "next_is CHR '':'' r" "parse_value n (after r) = Some (x, t)" "next_is CHR '','' t" for k r x t
      using next_is_shorter [OF that(1)] parse_chars_shorter [OF that(2)] next_is_shorter [OF that(3)] reader_shorter(1) [OF that(4)]
        next_is_shorter [OF that(5)] 3 by (intro Suc.IH(3)) simp
    show ?case
      unfolding parse_members.simps(2) [of "Suc n" s] parse_members.simps(2) [of n s]
      using v m by (auto simp del: parse_value.simps parse_members.simps split: option.splits)
  }
qed simp_all

lemma parse_value_fuel: "2 * length s + 1 \<le> n \<Longrightarrow> parse_value n s = parse_value (2 * length s + 1) s"
  by (induction n rule: dec_induct) (simp_all del: parse_value.simps add: reader_fuel)

theorem JSON_parse_total:
  "2 * length s + 1 \<le> n \<Longrightarrow> JSON_parse s = (case parse_value n s of None \<Rightarrow> None | Some (v, r) \<Rightarrow> if skip_ws r = [] then Some v else None)"
  using parse_value_fuel [of s n] parse_value_fuel [of s "2 * length s + 2"] by (simp add: JSON_parse_def del: parse_value.simps)

end
