(* ===== verification/Spec2Isabelle.thy ===== *)
theory Spec2Isabelle
  imports FinancialPost TransferSubmission StatementCommand Exports SavedViews LiveInvestigation JsonTotal
begin

text \<open>
  Verification of the LedgerSync console and its backend for the browser (BFF).

  \<^bold>\<open>The program.\<close> LedgerSync keeps a double-entry ledger behind a private API. Operators work in a
  Next.js application under \<^verbatim>\<open>web/src\<close>: React views and hooks in the browser, and a BFF whose middleware and
  routes stand between the browser and the private API. The browser holds only an opaque session handle
  and a CSRF token. The middleware (\<^verbatim>\<open>proxy.ts\<close>) exchanges the handle for a session of the store and passes it
  on as a signed cookie; a route (\<^verbatim>\<open>app/api/**/route.ts\<close>) reads that cookie, lets a boundary module
  authorize the request, parses its body, and lets a proxy module call the private API under the workload
  credential and an actor assertion; a sanitizer (\<^verbatim>\<open>lib/api/*.ts\<close>) decides what the browser sees. The
  hooks of the browser keep the idempotency key of a command whose outcome is open in
  \<^verbatim>\<open>sessionStorage\<close>, so that it is only ever retried, never sent twice.

  \<^bold>\<open>What JavaScript provides.\<close>
  \<^item> \<open>Prelude\<close>: lemmas on lists, options and maps that the other theories share.
  \<^item> \<open>JsText\<close>, \<open>Regex\<close>, \<open>Json\<close>, \<open>UrlCodec\<close>, \<open>Base64url\<close>, \<open>Calendar\<close>: strings, anchored regular
    expressions, \<^verbatim>\<open>JSON.parse\<close> and \<^verbatim>\<open>JSON.stringify\<close> with their round trip, \<^verbatim>\<open>URLSearchParams\<close>, the text
    encodings, and calendar dates with their correspondence to day numbers. \<open>JsonTotal\<close>: the fuel of the
    JSON reader is enough.

  \<^bold>\<open>The BFF.\<close>
  \<^item> \<open>Uuid\<close> (\<^verbatim>\<open>canonical-uuid.ts\<close>), \<open>Money\<close> (\<^verbatim>\<open>money.ts\<close>), \<open>StrictQuery\<close> (\<^verbatim>\<open>strict-list-query.ts\<close>),
    \<open>PageQuery\<close> (\<^verbatim>\<open>page-query/*.ts\<close>, \<^verbatim>\<open>navigation.ts\<close>): normal forms, exact decimal arithmetic on minor
    units, and which queries are accepted. Their lemmas are exact characterisations and round trips.
  \<^item> \<open>Http\<close> (\<^verbatim>\<open>security.ts\<close>, \<^verbatim>\<open>bounded-stream.ts\<close>, \<^verbatim>\<open>cookie-policy.ts\<close>, \<^verbatim>\<open>diagnostic-trace.ts\<close>): requests and
    responses, origin and CSRF checks, bounded bodies. The constant-time comparison is equality.
  \<^item> \<open>RateLimit\<close> (\<^verbatim>\<open>rate-limit.ts\<close>): the process-local and the shared fixed window as interpretations of one
    locale, with the bound on what a window admits, and failing closed.
  \<^item> \<open>ApiShape\<close>, \<open>MutationApi\<close> (\<^verbatim>\<open>lib/api/*.ts\<close>): request parsers and sanitizers of the mutations; locale
    \<open>upstream_sanitizer\<close> states that no outcome is misreported.
  \<^item> \<open>Boundary\<close> (\<^verbatim>\<open>*-boundary.ts\<close>, \<^verbatim>\<open>*-mutation.ts\<close>, \<^verbatim>\<open>private-api.ts\<close>): authorizers as interpretations of
    locale \<open>mutation_boundary\<close>, and the proxies, which answer honestly for every behaviour of the network.
  \<^item> \<open>Session\<close>, \<open>SessionStore\<close> (\<^verbatim>\<open>session.ts\<close>, \<^verbatim>\<open>committed-response.ts\<close>, \<^verbatim>\<open>actor-assertion.ts\<close>,
    \<^verbatim>\<open>guardrail-metrics.ts\<close>, \<^verbatim>\<open>transfer-mutation.ts\<close>): signed cookies, the opaque store, consistency metadata
    and transfers.
  \<^item> \<open>Credential\<close> (\<^verbatim>\<open>workload-credential.ts\<close>): the credential cache as a state machine. \<open>Login\<close>
    (\<^verbatim>\<open>oidc.ts\<close>, \<^verbatim>\<open>local-access.ts\<close>): the OpenID Connect code flow and the development login.
  \<^item> \<open>Gateway\<close> (\<^verbatim>\<open>proxy.ts\<close>), \<open>Routes\<close> (the route handlers), \<open>Commands\<close>: every mutating route as one
    command, with the authority and the target of what it sends.
  \<^item> \<open>Operations\<close> (\<^verbatim>\<open>api/operations.ts\<close>), \<open>OperationsRead\<close> (\<^verbatim>\<open>operations-read.ts\<close>, \<^verbatim>\<open>trace-viewer.ts\<close> and
    their routes): operational evidence, that what is shown is consistent, and who may read it.
  \<^item> \<open>Reservations\<close> (\<^verbatim>\<open>api/reservations.ts\<close>, \<^verbatim>\<open>reservation-proxy.ts\<close>), \<open>Statements\<close>
    (\<^verbatim>\<open>api/statement-reconciliation.ts\<close>, \<^verbatim>\<open>statement-reconciliation-proxy.ts\<close>): the two modules with a router of
    their own; what may be sent, and that the answer tells the outcome as it is.
  \<^item> \<open>Exports\<close> (\<^verbatim>\<open>export-read.ts\<close>): the CSV exports; a download is a state machine over pulls and cancellations,
    which ends and stays within its bound.
  \<^item> \<open>Investigations\<close> (\<^verbatim>\<open>investigation-search-boundary.ts\<close>, \<^verbatim>\<open>api/investigation-search.ts\<close>,
    \<^verbatim>\<open>api/related-evidence.ts\<close>), \<open>Workspaces\<close> (\<^verbatim>\<open>api/investigation-workspaces.ts\<close>), \<open>SavedViews\<close>
    (\<^verbatim>\<open>api/saved-investigation-views.ts\<close>), \<open>LiveInvestigation\<close> (\<^verbatim>\<open>live-investigation-boundary.ts\<close>,
    \<^verbatim>\<open>api/live-investigation.ts\<close>) and their routes: the authorizers as interpretations of locale
    \<open>investigation_boundary\<close>, what each route may send and show, the verified evidence bundle, and the normal
    form of saved views.

  \<^bold>\<open>The browser.\<close>
  \<^item> \<open>Browser\<close>: storage that may fail, and locale \<open>command_hook\<close>, the contract of a hook that keeps an
    open command's key. \<open>Intents\<close> (\<^verbatim>\<open>*Intent.ts\<close>): the stored records as interpretations of
    \<open>intent_codec\<close>.
  \<^item> \<open>FinancialPost\<close> (\<^verbatim>\<open>useFinancialPostCommand.ts\<close>), \<open>TransferSubmission\<close>
    (\<^verbatim>\<open>useTransferSubmission.ts\<close>): the hooks as transition functions over clicks, responses, reloads and
    storage failures, both refining the contract. \<open>ReservationCommand\<close> (\<^verbatim>\<open>reservationIntent.ts\<close>,
    \<^verbatim>\<open>useReservationCommand.ts\<close>): the hook of reservations, whose stored record alone carries the command over
    reloads and remounts. \<open>StatementCommand\<close> (\<^verbatim>\<open>statementIntent.ts\<close>, \<^verbatim>\<open>useStatementCommand.ts\<close>): the hook of
    statement reconciliation, whose imports keep only the digest of the file.

  This theory composes middleware, session cookie and routes.

  \<^bold>\<open>Parameters.\<close> Code that is not part of the repository is an argument: the network (\<open>srv_fetch\<close>), the
  clock, random values, the environment, the WHATWG URL parser, \<^verbatim>\<open>Date.parse\<close> on text that is not RFC 3339,
  HMAC and hash functions, the \<^verbatim>\<open>jose\<close> verifier, the cookie parser of the framework and Redis. What a theorem
  needs of them is a named hypothesis (\<open>sha256_hmac\<close>, \<open>cookie_parser\<close>, \<open>iso_clock\<close>), and its
  witness gives a concrete function that satisfies it.

  \<^bold>\<open>Bounds.\<close> Strings are lists of 8-bit characters: text outside Latin-1 is not represented, and a byte
  sequence that decodes to it counts as malformed. Numbers are exact rationals together with NaN and the
  infinities; every number that the code computes with is an integer below \<open>2 ^ 53\<close> or is rejected, except
  in \<open>Credential\<close>, where rounding is ignored. Only the JSON reader has fuel, \<open>2 * length s + 2\<close>
  for a text \<open>s\<close>, and \<open>JSON_parse_total\<close> proves that more never changes its result; the
  regular-expression matcher uses derivatives, and the hooks run over finite lists of events.

  \<^bold>\<open>Not modelled.\<close> The Go services and the database; React rendering (\<^verbatim>\<open>*.tsx\<close>) apart from the handler that
  drives the posting hook; the browser side of investigations; the loading hooks of read-only pages; the
  reads of the developer, recovery and orientation pages; generated contracts, examples, scripts, tests and
  deployment files.
\<close>

section \<open>From the browser to the private API\<close>

text \<open>The request that the middleware forwards to a route.\<close>

definition forwarded_request :: "request \<Rightarrow> headers \<Rightarrow> request" where
  "forwarded_request request hs = request\<lparr>req_headers := hs\<rparr>"

lemma kept_names:
  "\<not> same_name x ''x-csrf-token''" "\<not> same_name x ''origin''" "\<not> same_name x ''host''"
  if "x \<in> {''cookie'', handle_header, ''x-nonce'', ''Content-Security-Policy''}"
  using that by (elim insertE emptyE; hypsubst; code_simp)+

lemma forwarded_csrf:
  assumes "proxy hmac parse srv uuid path request = (sent, lines, Forwarded hs rh)"
  shows "hasValidCSRF u e (forwarded_request request hs) s = hasValidCSRF u e request s"
proof -
  have "get_header n hs = get_header n (req_headers request)" if "n \<in> {''x-csrf-token'', ''origin'', ''host''}" for n
    using that kept_names by (intro forwarded_header [OF assms]) auto
  then have same: "get_header n (req_headers (forwarded_request request hs)) = get_header n (req_headers request)"
    if "n \<in> {''x-csrf-token'', ''origin'', ''host''}" for n
    using that by (simp add: forwarded_request_def)
  have host: "hasValidHost u e (forwarded_request request hs) = hasValidHost u e request"
    unfolding hasValidHost_def same [of "''host''", simplified] ..
  show ?thesis
    unfolding csrf_token_equal hasSameOrigin_def host same [of "''origin''", simplified] same [of "''x-csrf-token''", simplified] ..
qed



end
